(* ===== verification/Prelude.thy ===== *)
theory Prelude
  imports Main "HOL-Library.List_Lexorder" "HOL-Library.Char_ord" "HOL-Library.Sublist"
begin

text \<open>
  What every theory of the development shares: Go strings as byte lists with the functions of
  package \<^verbatim>\<open>strings\<close> the source calls, errors with the sentinels \<^verbatim>\<open>errors.Is\<close> finds, instants
  of time, sorting, and the collections of facts the component proofs use.

  A Go string is a list of bytes, and \<^typ>\<open>string\<close> is a list of 8-bit characters, so the two
  agree: \<^verbatim>\<open><\<close> compares bytes lexicographically in both. Case mapping
  (\<^verbatim>\<open>ToLower\<close>, \<^verbatim>\<open>ToUpper\<close>, \<^verbatim>\<open>EqualFold\<close>) is modelled on ASCII letters and leaves other bytes
  alone. \<^verbatim>\<open>TrimSpace\<close> knows the UTF-8 encodings of all Unicode white space.
\<close>

named_theorems err_simps "unfolding of the error constructors"
named_theorems store_simps "unfolding of the store operations"

subsection \<open>White space and trimming\<close>

text \<open>The encodings of the runes \<^verbatim>\<open>unicode.IsSpace\<close> accepts, one byte, then two, then three.\<close>

definition ascii_space :: "char \<Rightarrow> bool" where
  "ascii_space c \<longleftrightarrow> c = CHR '' '' \<or> (9 \<le> (of_char c :: nat) \<and> (of_char c :: nat) \<le> 13)"

definition two_byte_space :: "char \<Rightarrow> char \<Rightarrow> bool" where
  "two_byte_space a b \<longleftrightarrow> a = CHR 0xC2 \<and> (b = CHR 0x85 \<or> b = CHR 0xA0)"

definition three_byte_space :: "char \<Rightarrow> char \<Rightarrow> char \<Rightarrow> bool" where
  "three_byte_space a b c \<longleftrightarrow>
     (a = CHR 0xE1 \<and> b = CHR 0x9A \<and> c = CHR 0x80)
   \<or> (a = CHR 0xE2 \<and> b = CHR 0x80 \<and>
        ((128 \<le> (of_char c :: nat) \<and> (of_char c :: nat) \<le> 138)
         \<or> c = CHR 0xA8 \<or> c = CHR 0xA9 \<or> c = CHR 0xAF))
   \<or> (a = CHR 0xE2 \<and> b = CHR 0x81 \<and> c = CHR 0x9F)
   \<or> (a = CHR 0xE3 \<and> b = CHR 0x80 \<and> c = CHR 0x80)"

text \<open>How many bytes of white space the string starts with: a whole rune, or none.\<close>

definition space_len :: "string \<Rightarrow> nat" where
  "space_len s =
     (case s of
        [] \<Rightarrow> 0
      | a # t \<Rightarrow>
          if ascii_space a then 1
          else if (case t of b # _ \<Rightarrow> two_byte_space a b | _ \<Rightarrow> False) then 2
          else if (case t of b # c # _ \<Rightarrow> three_byte_space a b c | _ \<Rightarrow> False) then 3
          else 0)"

text \<open>The same read backwards, on a reversed string.\<close>

definition rev_space_len :: "string \<Rightarrow> nat" where
  "rev_space_len s =
     (case s of
        [] \<Rightarrow> 0
      | a # t \<Rightarrow>
          if ascii_space a then 1
          else if (case t of b # _ \<Rightarrow> two_byte_space b a | _ \<Rightarrow> False) then 2
          else if (case t of b # c # _ \<Rightarrow> three_byte_space c b a | _ \<Rightarrow> False) then 3
          else 0)"

function trim_with :: "(string \<Rightarrow> nat) \<Rightarrow> string \<Rightarrow> string" where
  "trim_with f s = (if f s = 0 \<or> s = [] then s else trim_with f (drop (f s) s))"
  by pat_completeness auto
termination
  by (relation "measure (\<lambda>(f, s). length s)") auto

declare trim_with.simps [simp del]

definition trim_left :: "string \<Rightarrow> string" where
  "trim_left s = trim_with space_len s"

definition trim_right :: "string \<Rightarrow> string" where
  "trim_right s = rev (trim_with rev_space_len (rev s))"

definition trim_space :: "string \<Rightarrow> string" where
  "trim_space s = trim_right (trim_left s)"

definition blank :: "string \<Rightarrow> bool" where
  "blank s \<longleftrightarrow> trim_space s = []"

lemma trim_with_Nil [simp]: "trim_with f [] = []"
  by (simp add: trim_with.simps)

lemma trim_space_Nil [simp]: "trim_space [] = []"
  by (simp add: trim_space_def trim_left_def trim_right_def)

lemma blank_Nil [simp]: "blank []"
  by (simp add: blank_def)

lemma suffix_trim_with: "suffix (trim_with f s) s"
proof (induction f s rule: trim_with.induct)
  case (1 f s)
  show ?case
  proof (cases "f s = 0 \<or> s = []")
    case True
    then show ?thesis by (simp add: trim_with.simps [of f s])
  next
    case False
    with "1.IH" have "suffix (trim_with f (drop (f s) s)) (drop (f s) s)" by simp
    with False show ?thesis
      by (auto simp: trim_with.simps [of f s] intro: suffix_order.trans suffix_drop)
  qed
qed

lemma trim_with_fixed: "f (trim_with f s) = 0 \<or> trim_with f s = []"
proof (induction f s rule: trim_with.induct)
  case (1 f s)
  then show ?case
    by (cases "f s = 0 \<or> s = []") (auto simp: trim_with.simps [of f s])
qed

lemma not_blank_Cons: "\<not> blank s \<Longrightarrow> s \<noteq> []"
  by auto

subsection \<open>Package strings\<close>

definition has_prefix :: "string \<Rightarrow> string \<Rightarrow> bool" where
  "has_prefix s p \<longleftrightarrow> take (length p) s = p"

definition has_suffix :: "string \<Rightarrow> string \<Rightarrow> bool" where
  "has_suffix s p \<longleftrightarrow> length p \<le> length s \<and> drop (length s - length p) s = p"

fun contains :: "string \<Rightarrow> string \<Rightarrow> bool" where
  "contains [] p = (p = [])"
| "contains (c # s) p = (has_prefix (c # s) p \<or> contains s p)"

fun join :: "string \<Rightarrow> string list \<Rightarrow> string" where
  "join sep [] = []"
| "join sep [x] = x"
| "join sep (x # y # xs) = x @ sep @ join sep (y # xs)"

definition trim_prefix :: "string \<Rightarrow> string \<Rightarrow> string" where
  "trim_prefix s p = (if has_prefix s p then drop (length p) s else s)"

definition trim_suffix :: "string \<Rightarrow> string \<Rightarrow> string" where
  "trim_suffix s p = (if has_suffix s p then take (length s - length p) s else s)"

definition char_between :: "char \<Rightarrow> char \<Rightarrow> char \<Rightarrow> bool" where
  "char_between lo hi c \<longleftrightarrow> (of_char lo :: nat) \<le> of_char c \<and> (of_char c :: nat) \<le> of_char hi"

definition lower_char :: "char \<Rightarrow> char" where
  "lower_char c = (if char_between CHR ''A'' CHR ''Z'' c then char_of ((of_char c :: nat) + 32) else c)"

definition upper_char :: "char \<Rightarrow> char" where
  "upper_char c = (if char_between CHR ''a'' CHR ''z'' c then char_of ((of_char c :: nat) - 32) else c)"

definition to_lower :: "string \<Rightarrow> string" where
  "to_lower s = map lower_char s"

definition to_upper :: "string \<Rightarrow> string" where
  "to_upper s = map upper_char s"

definition equal_fold :: "string \<Rightarrow> string \<Rightarrow> bool" where
  "equal_fold a b \<longleftrightarrow> to_lower a = to_lower b"

definition digit_char :: "nat \<Rightarrow> char" where
  "digit_char d = char_of (48 + d)"

fun nat_digits :: "nat \<Rightarrow> string" where
  "nat_digits n = (if n < 10 then [digit_char n] else nat_digits (n div 10) @ [digit_char (n mod 10)])"

declare nat_digits.simps [simp del]

text \<open>\<^verbatim>\<open>strconv.Itoa\<close>.\<close>

definition itoa :: "int \<Rightarrow> string" where
  "itoa i = (if i < 0 then ''-'' @ nat_digits (nat (- i)) else nat_digits (nat i))"

text \<open>\<^verbatim>\<open>strconv.Atoi\<close>: an optional sign and decimal digits, within 64 bits.\<close>

definition is_digit :: "char \<Rightarrow> bool" where
  "is_digit c \<longleftrightarrow> char_between CHR ''0'' CHR ''9'' c"

definition digits_value :: "string \<Rightarrow> nat" where
  "digits_value ds = foldl (\<lambda>v c. v * 10 + (of_char c - 48)) 0 ds"

definition atoi :: "string \<Rightarrow> int option" where
  "atoi s =
     (let neg = (case s of c # _ \<Rightarrow> c = CHR ''-'' | [] \<Rightarrow> False);
          ds = (case s of c # t \<Rightarrow> if c = CHR ''-'' \<or> c = CHR ''+'' then t else s | [] \<Rightarrow> []);
          v = (if neg then - int (digits_value ds) else int (digits_value ds))
      in if ds = [] \<or> list_ex (\<lambda>c. \<not> is_digit c) ds then None
         else if - (2 ^ 63) \<le> v \<and> v < 2 ^ 63 then Some v else None)"

text \<open>
  \<^verbatim>\<open>%q\<close> on a string: quotes and backslashes are escaped, and so are the control characters
  with a short escape; other bytes are printed as they are.
\<close>

definition quote_char :: "char \<Rightarrow> string" where
  "quote_char c =
     (if c = CHR 0x22 then [CHR 0x5C, CHR 0x22]
      else if c = CHR 0x5C then [CHR 0x5C, CHR 0x5C]
      else if c = CHR 0x0A then [CHR 0x5C, CHR ''n'']
      else if c = CHR 0x0D then [CHR 0x5C, CHR ''r'']
      else if c = CHR 0x09 then [CHR 0x5C, CHR ''t'']
      else [c])"

definition quote :: "string \<Rightarrow> string" where
  "quote s = [CHR 0x22] @ concat (map quote_char s) @ [CHR 0x22]"

definition show_bool :: "bool \<Rightarrow> string" where
  "show_bool b = (if b then ''true'' else ''false'')"

lemma has_prefix_append [simp]: "has_prefix (p @ s) p"
  by (simp add: has_prefix_def)

lemma has_prefix_iff: "has_prefix s p \<longleftrightarrow> (\<exists>t. s = p @ t)"
  unfolding has_prefix_def by (metis append_eq_conv_conj append_take_drop_id)

lemma has_suffix_iff: "has_suffix s p \<longleftrightarrow> (\<exists>t. s = t @ p)"
proof
  assume "has_suffix s p"
  then have "s = take (length s - length p) s @ p"
    unfolding has_suffix_def by (metis append_take_drop_id)
  then show "\<exists>t. s = t @ p" ..
qed (auto simp: has_suffix_def)

lemma contains_Nil [simp]: "contains s []"
  by (cases s) (auto simp: has_prefix_def)

lemma contains_iff: "contains s p \<longleftrightarrow> (\<exists>a b. s = a @ p @ b)"
proof (induction s)
  case Nil
  then show ?case by auto
next
  case (Cons c s)
  show ?case
  proof
    assume "contains (c # s) p"
    then consider "has_prefix (c # s) p" | "contains s p" by auto
    then show "\<exists>a b. c # s = a @ p @ b"
    proof cases
      case 1
      then show ?thesis by (metis append_Nil has_prefix_iff)
    next
      case 2
      then show ?thesis using Cons.IH by (metis append_Cons)
    qed
  next
    assume "\<exists>a b. c # s = a @ p @ b"
    then obtain a b where ab: "c # s = a @ p @ b" by blast
    show "contains (c # s) p"
    proof (cases a)
      case Nil
      with ab have "has_prefix (c # s) p" by (simp add: has_prefix_iff)
      then show ?thesis by simp
    next
      case (Cons d a')
      with ab have "s = a' @ p @ b" by simp
      with Cons.IH show ?thesis by auto
    qed
  qed
qed

lemma contains_single: "contains s [c] \<longleftrightarrow> c \<in> set s"
  unfolding contains_iff by (metis append_Cons append_Nil in_set_conv_decomp)

subsection \<open>Digits\<close>

lemma of_char_digit: "d < 10 \<Longrightarrow> (of_char (digit_char d) :: nat) = 48 + d"
  by (simp add: digit_char_def)

lemma digits_value_snoc: "digits_value (ds @ [c]) = digits_value ds * 10 + (of_char c - 48)"
  by (simp add: digits_value_def)

lemma digits_value_nat_digits [simp]: "digits_value (nat_digits n) = n"
proof (induction n rule: nat_digits.induct)
  case (1 n)
  show ?case
  proof (cases "n < 10")
    case True
    then show ?thesis by (subst nat_digits.simps) (simp add: digits_value_def of_char_digit)
  next
    case False
    with 1 show ?thesis
      by (subst nat_digits.simps) (simp add: digits_value_snoc of_char_digit)
  qed
qed

lemma nat_digits_inject [simp]: "nat_digits m = nat_digits n \<longleftrightarrow> m = n"
  by (metis digits_value_nat_digits)

lemma nat_digits_digits: "c \<in> set (nat_digits n) \<Longrightarrow> is_digit c"
proof (induction n rule: nat_digits.induct)
  case (1 n)
  have dig: "d < 10 \<Longrightarrow> is_digit (digit_char d)" for d
    by (simp add: is_digit_def char_between_def of_char_digit)
  from 1 show ?case
    by (subst (asm) (2) nat_digits.simps) (auto simp: dig split: if_splits)
qed

lemma itoa_inject [simp]: "itoa i = itoa j \<longleftrightarrow> i = j"
proof
  assume eq: "itoa i = itoa j"
  have nd: "\<not> is_digit CHR ''-''" by (simp add: is_digit_def char_between_def)
  have "CHR ''-'' \<in> set (itoa k) \<longleftrightarrow> k < 0" for k
    using nat_digits_digits [of "CHR ''-''" "nat k"] nd by (auto simp: itoa_def)
  with eq have "i < 0 \<longleftrightarrow> j < 0" by metis
  with eq show "i = j" by (auto simp: itoa_def split: if_splits)
qed simp

subsection \<open>First occurrences\<close>

text \<open>A loop that keeps what a set of keys has not seen yet: the first element of every key.\<close>

fun nub_by :: "('a \<Rightarrow> 'k) \<Rightarrow> 'a list \<Rightarrow> 'a list" where
  "nub_by key [] = []"
| "nub_by key (x # xs) = x # nub_by key (filter (\<lambda>y. key y \<noteq> key x) xs)"

lemma set_nub_by: "set (nub_by key xs) \<subseteq> set xs"
  by (induction key xs rule: nub_by.induct) auto

lemma keys_nub_by [simp]: "key ` set (nub_by key xs) = key ` set xs"
  by (induction key xs rule: nub_by.induct) auto

lemma distinct_nub_by: "distinct (map key (nub_by key xs))"
proof (induction key xs rule: nub_by.induct)
  case (2 key x xs)
  have "key x \<notin> key ` set (nub_by key (filter (\<lambda>y. key y \<noteq> key x) xs))" by auto
  with 2 show ?case by simp
qed simp

lemma set_nub_id [simp]: "set (nub_by (\<lambda>x. x) xs) = set xs"
  using keys_nub_by [of "\<lambda>x. x" xs] by simp

end
