(* ===== verification/Regex.thy ===== *)
theory Regex
  imports Prelude
begin

text \<open>
  The part of Go's package \<^verbatim>\<open>regexp\<close> the source uses: matching with submatches, leftmost and
  with the Perl preferences of the syntax (greedy and lazy stars, alternatives in order),
  \<^verbatim>\<open>FindAllStringSubmatch\<close>, \<^verbatim>\<open>FindStringSubmatch\<close> and \<^verbatim>\<open>ReplaceAllString\<close>. A match attempt
  returns every way to match in order of preference, so the head of the list is Go's answer.

  Subjects are byte strings. Character classes are predicates on bytes, \<^verbatim>\<open>(?i)\<close> folds ASCII
  letters. No pattern of the source matches the empty string where all matches are asked for;
  \<open>find_all\<close> and \<open>replace_all\<close> pass over empty matches.
\<close>

subsection \<open>Patterns and the matcher\<close>

datatype regex =
    Eps
  | Chr "char \<Rightarrow> bool"
  | Seq regex regex
  | Alt regex regex
  | Star bool regex \<comment> \<open>\<open>True\<close>: greedy\<close>
  | Grp nat regex
  | Word_Boundary
  | At_Start
  | At_End
  | At_Line_Start \<comment> \<open>\<^verbatim>\<open>^\<close> and \<^verbatim>\<open>$\<close> under \<^verbatim>\<open>(?m)\<close>\<close>
  | At_Line_End

text \<open>
  Where the matcher stands: the byte before, the bytes left, and the submatches so far, latest
  first.
\<close>

record mstate =
  m_before :: "char option"
  m_rest :: string
  m_caps :: "(nat \<times> string) list"

definition word_char :: "char \<Rightarrow> bool" where
  "word_char c \<longleftrightarrow> char_between CHR ''0'' CHR ''9'' c \<or> char_between CHR ''A'' CHR ''Z'' c
     \<or> char_between CHR ''a'' CHR ''z'' c \<or> c = CHR ''_''"

definition word_opt :: "char option \<Rightarrow> bool" where
  "word_opt oc = (case oc of None \<Rightarrow> False | Some c \<Rightarrow> word_char c)"

definition head_opt :: "'a list \<Rightarrow> 'a option" where
  "head_opt xs = (case xs of [] \<Rightarrow> None | x # _ \<Rightarrow> Some x)"

text \<open>
  A star tries one more round, as long as the round consumed something. Every round consumes at
  least one byte, so the number of bytes left bounds the rounds.
\<close>

fun star_ways :: "nat \<Rightarrow> bool \<Rightarrow> (mstate \<Rightarrow> mstate list) \<Rightarrow> mstate \<Rightarrow> mstate list" where
  "star_ways 0 greedy f m = [m]"
| "star_ways (Suc n) greedy f m =
     (let more = concat (map (star_ways n greedy f)
                   (filter (\<lambda>m'. length (m_rest m') < length (m_rest m)) (f m)))
      in if greedy then more @ [m] else m # more)"

primrec ways :: "regex \<Rightarrow> mstate \<Rightarrow> mstate list" where
  "ways Eps m = [m]"
| "ways (Chr p) m =
     (case m_rest m of
        [] \<Rightarrow> []
      | c # s \<Rightarrow> if p c then [m\<lparr>m_before := Some c, m_rest := s\<rparr>] else [])"
| "ways (Seq r1 r2) m = concat (map (ways r2) (ways r1 m))"
| "ways (Alt r1 r2) m = ways r1 m @ ways r2 m"
| "ways (Star g r) m = star_ways (length (m_rest m)) g (ways r) m"
| "ways (Grp i r) m =
     map (\<lambda>m'. m'\<lparr>m_caps := (i, take (length (m_rest m) - length (m_rest m')) (m_rest m)) # m_caps m'\<rparr>)
       (ways r m)"
| "ways Word_Boundary m =
     (if word_opt (m_before m) \<noteq> word_opt (head_opt (m_rest m)) then [m] else [])"
| "ways At_Start m = (if m_before m = None then [m] else [])"
| "ways At_End m = (if m_rest m = [] then [m] else [])"
| "ways At_Line_Start m = (if m_before m = None \<or> m_before m = Some (CHR 0x0A) then [m] else [])"
| "ways At_Line_End m = (if m_rest m = [] \<or> head_opt (m_rest m) = Some (CHR 0x0A) then [m] else [])"

definition match_here :: "regex \<Rightarrow> char option \<Rightarrow> string \<Rightarrow> mstate option" where
  "match_here r b s = head_opt (ways r \<lparr>m_before = b, m_rest = s, m_caps = []\<rparr>)"

text \<open>A submatch: the last text the group matched, empty when it took no part.\<close>

definition group_of :: "mstate \<Rightarrow> nat \<Rightarrow> string" where
  "group_of m i = (case map_of (m_caps m) i of Some t \<Rightarrow> t | None \<Rightarrow> [])"

subsection \<open>Finding and replacing\<close>

text \<open>\<^verbatim>\<open>FindStringSubmatch\<close>: the leftmost match, as the whole text and the final state.\<close>

fun find_from :: "regex \<Rightarrow> char option \<Rightarrow> string \<Rightarrow> (string \<times> mstate) option" where
  "find_from r b s =
     (case match_here r b s of
        Some m \<Rightarrow> Some (take (length s - length (m_rest m)) s, m)
      | None \<Rightarrow> (case s of [] \<Rightarrow> None | c # t \<Rightarrow> find_from r (Some c) t))"

declare find_from.simps [simp del]

definition find_first :: "regex \<Rightarrow> string \<Rightarrow> (string \<times> mstate) option" where
  "find_first r s = find_from r None s"

text \<open>
  The pieces of a subject: text outside every match, and matches, from left to right.
\<close>

datatype piece = Plain char | Hit string mstate

function pieces :: "regex \<Rightarrow> char option \<Rightarrow> string \<Rightarrow> piece list" where
  "pieces r b s =
     (case s of
        [] \<Rightarrow> []
      | c # t \<Rightarrow>
          (case match_here r b s of
             Some m \<Rightarrow>
               if length (m_rest m) < length s
               then Hit (take (length s - length (m_rest m)) s) m # pieces r (m_before m) (m_rest m)
               else Plain c # pieces r (Some c) t
           | None \<Rightarrow> Plain c # pieces r (Some c) t))"
  by pat_completeness auto
termination
  by (relation "measure (\<lambda>(r, b, s). length s)") auto

declare pieces.simps [simp del]

definition find_all :: "regex \<Rightarrow> string \<Rightarrow> (string \<times> mstate) list" where
  "find_all r s = concat (map (\<lambda>p. case p of Plain _ \<Rightarrow> [] | Hit t m \<Rightarrow> [(t, m)]) (pieces r None s))"

text \<open>\<^verbatim>\<open>FindAllStringIndex\<close>: where the matches start and end, with their submatches.\<close>

fun piece_spans :: "nat \<Rightarrow> piece list \<Rightarrow> (nat \<times> nat \<times> mstate) list" where
  "piece_spans i [] = []"
| "piece_spans i (Plain c # ps) = piece_spans (Suc i) ps"
| "piece_spans i (Hit t m # ps) = (i, i + length t, m) # piece_spans (i + length t) ps"

definition find_all_index :: "regex \<Rightarrow> string \<Rightarrow> (nat \<times> nat \<times> mstate) list" where
  "find_all_index r s = piece_spans 0 (pieces r None s)"

definition replace_all :: "regex \<Rightarrow> (mstate \<Rightarrow> string) \<Rightarrow> string \<Rightarrow> string" where
  "replace_all r f s =
     concat (map (\<lambda>p. case p of Plain c \<Rightarrow> [c] | Hit _ m \<Rightarrow> f m) (pieces r None s))"

definition matches :: "regex \<Rightarrow> string \<Rightarrow> bool" where
  "matches r s \<longleftrightarrow> find_first r s \<noteq> None"

subsection \<open>Building patterns\<close>

definition lit_char :: "char \<Rightarrow> regex" where
  "lit_char c = Chr (\<lambda>d. d = c)"

definition fold_char :: "char \<Rightarrow> regex" where
  "fold_char c = Chr (\<lambda>d. lower_char d = lower_char c)"

primrec seqs :: "regex list \<Rightarrow> regex" where
  "seqs [] = Eps"
| "seqs (r # rs) = Seq r (seqs rs)"

primrec alts :: "regex \<Rightarrow> regex list \<Rightarrow> regex" where
  "alts r [] = r"
| "alts r (q # qs) = Alt r (alts q qs)"

definition text_re :: "string \<Rightarrow> regex" where
  "text_re s = seqs (map lit_char s)"

text \<open>Literal text under \<^verbatim>\<open>(?i)\<close>.\<close>

definition fold_re :: "string \<Rightarrow> regex" where
  "fold_re s = seqs (map fold_char s)"

definition many :: "regex \<Rightarrow> regex" where
  "many r = Star True r"

definition some_re :: "regex \<Rightarrow> regex" where
  "some_re r = Seq r (Star True r)"

definition opt_re :: "regex \<Rightarrow> regex" where
  "opt_re r = Alt r Eps"

definition digit_re :: regex where
  "digit_re = Chr (char_between CHR ''0'' CHR ''9'')"

text \<open>\<^verbatim>\<open>\s\<close>, which in Go is the five ASCII bytes without the vertical tab.\<close>

definition re_space :: "char \<Rightarrow> bool" where
  "re_space c \<longleftrightarrow> c = CHR '' '' \<or> c = CHR 0x09 \<or> c = CHR 0x0A \<or> c = CHR 0x0C \<or> c = CHR 0x0D"

definition space_re :: regex where
  "space_re = Chr re_space"

definition ident_start :: "char \<Rightarrow> bool" where
  "ident_start c \<longleftrightarrow> char_between CHR ''A'' CHR ''Z'' c \<or> char_between CHR ''a'' CHR ''z'' c \<or> c = CHR ''_''"

definition word_re :: regex where
  "word_re = Chr word_char"

subsection \<open>What the matcher guarantees\<close>

text \<open>A match consumes a prefix: what is left is a suffix of what there was.\<close>

lemma star_ways_suffix:
  assumes "\<And>m m'. m' \<in> set (f m) \<Longrightarrow> suffix (m_rest m') (m_rest m)"
  shows "m' \<in> set (star_ways n g f m) \<Longrightarrow> suffix (m_rest m') (m_rest m)"
proof (induction n arbitrary: m)
  case 0
  then show ?case by simp
next
  case (Suc n)
  then consider "m' = m"
    | m1 where "m1 \<in> set (f m)" and "m' \<in> set (star_ways n g f m1)"
    by (auto simp: Let_def split: if_splits)
  then show ?case
  proof cases
    case 1
    then show ?thesis by simp
  next
    case 2
    with Suc.IH assms show ?thesis by (meson suffix_order.trans)
  qed
qed

lemma ways_suffix: "m' \<in> set (ways r m) \<Longrightarrow> suffix (m_rest m') (m_rest m)"
proof (induction r arbitrary: m m')
  case (Chr p)
  then show ?case by (cases "m_rest m") (auto simp: suffix_def split: if_splits)
next
  case (Seq r1 r2)
  then show ?case by (fastforce intro: suffix_order.trans)
next
  case (Star g r)
  then show ?case using star_ways_suffix [of "ways r"] by (metis ways.simps(5))
qed (auto split: if_splits)

lemma match_here_suffix: "match_here r b s = Some m \<Longrightarrow> suffix (m_rest m) s"
proof -
  assume "match_here r b s = Some m"
  then have "m \<in> set (ways r \<lparr>m_before = b, m_rest = s, m_caps = []\<rparr>)"
    by (auto simp: match_here_def head_opt_def split: list.splits)
  then show ?thesis by (auto dest: ways_suffix)
qed

text \<open>The pieces put back together are the subject: matching loses no byte.\<close>

definition piece_text :: "piece \<Rightarrow> string" where
  "piece_text p = (case p of Plain c \<Rightarrow> [c] | Hit t _ \<Rightarrow> t)"

lemma piece_text_simps [simp]: "piece_text (Plain c) = [c]" "piece_text (Hit t m) = t"
  by (simp_all add: piece_text_def)

lemma pieces_text: "concat (map piece_text (pieces r b s)) = s"
proof (induction r b s rule: pieces.induct)
  case (1 r b s)
  show ?case
  proof (cases s)
    case Nil
    then show ?thesis by (simp add: pieces.simps)
  next
    case (Cons c t)
    show ?thesis
    proof (cases "\<exists>m. match_here r b s = Some m \<and> length (m_rest m) < length s")
      case True
      then obtain m where m: "match_here r b s = Some m" "length (m_rest m) < length s" by blast
      from "1.IH" Cons m
      have IH: "concat (map piece_text (pieces r (m_before m) (m_rest m))) = m_rest m" by blast
      from match_here_suffix [OF m(1)]
      have "take (length s - length (m_rest m)) s @ m_rest m = s"
        by (auto simp: suffix_def)
      with m Cons IH show ?thesis
        by (subst pieces.simps) simp
    next
      case False
      with "1.IH" Cons
      have "concat (map piece_text (pieces r (Some c) t)) = t"
        by (cases "match_here r b s") blast+
      with False Cons show ?thesis
        by (subst pieces.simps) (auto split: option.splits)
    qed
  qed
qed

text \<open>Replacing every match by its own text changes nothing; with no match nothing changes.\<close>

lemma replace_all_no_match:
  "find_all r s = [] \<Longrightarrow> replace_all r f s = s"
proof -
  assume "find_all r s = []"
  then have "\<forall>p \<in> set (pieces r None s). \<exists>c. p = Plain c"
    unfolding find_all_def by (auto split: piece.splits) (metis piece.exhaust)
  then have "map (\<lambda>p. case p of Plain c \<Rightarrow> [c] | Hit _ m \<Rightarrow> f m) (pieces r None s)
      = map piece_text (pieces r None s)"
    by (auto simp: piece_text_def)
  then show ?thesis unfolding replace_all_def by (simp only: pieces_text)
qed

text \<open>The spans of the matches lie within the subject, one after another, none of them empty.\<close>

lemma piece_spans_bounds:
  "(a, b, m) \<in> set (piece_spans i ps) \<Longrightarrow> i \<le> a \<and> a \<le> b \<and> b \<le> i + length (concat (map piece_text ps))"
  by (induction i ps rule: piece_spans.induct) (auto simp: add.assoc dest: Suc_leD)

lemma Hit_nonempty: "Hit t m \<in> set (pieces r b s) \<Longrightarrow> t \<noteq> []"
proof (induction r b s rule: pieces.induct)
  case (1 r b s)
  show ?case
  proof (cases s)
    case Nil
    with "1.prems" show ?thesis by (simp add: pieces.simps)
  next
    case (Cons c u)
    show ?thesis
    proof (cases "\<exists>m. match_here r b s = Some m \<and> length (m_rest m) < length s")
      case True
      then obtain m' where m: "match_here r b s = Some m'" "length (m_rest m') < length s" by blast
      with "1.prems" Cons
      have "t = take (length s - length (m_rest m')) s \<or> Hit t m \<in> set (pieces r (m_before m') (m_rest m'))"
        by (subst (asm) pieces.simps) auto
      with "1.IH"(2) Cons m show ?thesis by auto
    next
      case False
      with "1.prems" Cons have "Hit t m \<in> set (pieces r (Some c) u)"
        by (subst (asm) pieces.simps) (auto split: option.splits)
      with "1.IH" Cons False show ?thesis by (cases "match_here r b s") blast+
    qed
  qed
qed

lemma piece_spans_nonempty:
  "\<forall>t m. Hit t m \<in> set ps \<longrightarrow> t \<noteq> [] \<Longrightarrow> (a, b, m) \<in> set (piece_spans i ps) \<Longrightarrow> a < b"
  by (induction i ps rule: piece_spans.induct) auto

lemma find_all_index_bounds:
  "(a, b, m) \<in> set (find_all_index r s) \<Longrightarrow> a < b \<and> b \<le> length s"
  unfolding find_all_index_def
  using piece_spans_bounds [of a b m 0 "pieces r None s"]
    piece_spans_nonempty [of "pieces r None s" a b m 0] Hit_nonempty
  by (auto simp: pieces_text)

text \<open>No match is passed over: where no span covers a position, no match starts there.\<close>

definition consumes :: "regex \<Rightarrow> char option \<Rightarrow> string \<Rightarrow> bool" where
  "consumes r b s \<longleftrightarrow> (case match_here r b s of None \<Rightarrow> False | Some m \<Rightarrow> length (m_rest m) < length s)"

lemma pieces_miss:
  "i < length s \<Longrightarrow> (\<forall>(a, e, m) \<in> set (piece_spans k (pieces r b s)). \<not> (a \<le> k + i \<and> k + i < e)) \<Longrightarrow>
   \<exists>b'. \<not> consumes r b' (drop i s)"
proof (induction r b s arbitrary: i k rule: pieces.induct)
  case (1 r b s)
  obtain c t where s: "s = c # t" using "1.prems"(1) by (cases s) auto
  show ?case
  proof (cases "consumes r b s")
    case True
    then obtain m where m: "match_here r b s = Some m" "length (m_rest m) < length s"
      by (auto simp: consumes_def split: option.splits)
    define n where "n = length s - length (m_rest m)"
    have ps: "pieces r b s = Hit (take n s) m # pieces r (m_before m) (m_rest m)"
      using m s by (subst pieces.simps) (simp add: n_def)
    have len: "length (take n s) = n" by (simp add: n_def)
    have rest: "m_rest m = drop n s"
      using match_here_suffix [OF m(1)] m(2) by (auto simp: suffix_def n_def)
    from "1.prems"(2) len have ni: "n \<le> i" by (auto simp: ps)
    have "i - n < length (m_rest m)" using "1.prems"(1) ni m(2) by (simp add: n_def)
    moreover have "\<forall>(a, e, m') \<in> set (piece_spans (k + n) (pieces r (m_before m) (m_rest m))).
        \<not> (a \<le> k + n + (i - n) \<and> k + n + (i - n) < e)"
      using "1.prems"(2) len ni by (auto simp: ps)
    ultimately obtain b' where "\<not> consumes r b' (drop (i - n) (m_rest m))"
      using "1.IH"(2) [OF s m] by blast
    then show ?thesis using rest ni by auto
  next
    case False
    have ps: "pieces r b s = Plain c # pieces r (Some c) t"
      using False s by (subst pieces.simps) (auto simp: consumes_def split: option.splits)
    show ?thesis
    proof (cases i)
      case 0
      with False show ?thesis by auto
    next
      case (Suc j)
      have IH: "j < length t \<Longrightarrow>
          (\<forall>(a, e, m) \<in> set (piece_spans (Suc k) (pieces r (Some c) t)). \<not> (a \<le> Suc k + j \<and> Suc k + j < e)) \<Longrightarrow>
          \<exists>b'. \<not> consumes r b' (drop j t)"
      proof (cases "match_here r b s")
        case None
        then show "j < length t \<Longrightarrow>
          (\<forall>(a, e, m) \<in> set (piece_spans (Suc k) (pieces r (Some c) t)). \<not> (a \<le> Suc k + j \<and> Suc k + j < e)) \<Longrightarrow>
          \<exists>b'. \<not> consumes r b' (drop j t)" using "1.IH"(1) [OF s] by blast
      next
        case (Some m)
        with False have "\<not> length (m_rest m) < length s" by (simp add: consumes_def)
        with Some show "j < length t \<Longrightarrow>
          (\<forall>(a, e, m) \<in> set (piece_spans (Suc k) (pieces r (Some c) t)). \<not> (a \<le> Suc k + j \<and> Suc k + j < e)) \<Longrightarrow>
          \<exists>b'. \<not> consumes r b' (drop j t)" using "1.IH"(3) [OF s] by blast
      qed
      have "piece_spans k (pieces r b s) = piece_spans (Suc k) (pieces r (Some c) t)" by (simp add: ps)
      then show ?thesis using IH "1.prems" Suc s by simp
    qed
  qed
qed

lemma find_all_index_miss:
  "i < length s \<Longrightarrow> (\<And>a e m. (a, e, m) \<in> set (find_all_index r s) \<Longrightarrow> \<not> (a \<le> i \<and> i < e)) \<Longrightarrow>
   \<exists>b'. \<not> consumes r b' (drop i s)"
  using pieces_miss [of i s 0 r None] by (auto simp: find_all_index_def)

end
