(* ===== verification/Feedback.thy ===== *)
theory Feedback
  imports Regex
begin

text \<open>
  Package \<^verbatim>\<open>internal/feedback\<close>: failures, their signatures, and the three questions the repair
  loop asks of a run's history. Has this iteration produced anything new (\<open>IsStuck\<close>), does a
  signature alternate (\<open>DetectOscillation\<close>), does one recur (\<open>DetectRecurringFailures\<close>).
  Signatures compare details in the normal form of \<open>NormalizeDetail\<close>.

  A Go map used as a set is iterated in no particular order; every such iteration here is sorted
  by a total order before it is returned, and \<open>sort_any_order\<close> is why the order cannot show.
\<close>

subsection \<open>Failures and signatures\<close>

record failure =
  f_layer :: string
  f_stage :: string
  f_status :: string
  f_check :: string
  f_policy :: string
  f_command :: string
  f_detail :: string
  f_stdout :: string
  f_stderr :: string
  f_resource :: string
  f_origin :: string
  f_origin_stage :: string

definition no_failure :: failure where
  "no_failure = \<lparr>f_layer = [], f_stage = [], f_status = [], f_check = [], f_policy = [],
     f_command = [], f_detail = [], f_stdout = [], f_stderr = [], f_resource = [],
     f_origin = [], f_origin_stage = []\<rparr>"

datatype failure_signature =
  Failure_Signature (sig_check: string) (sig_resource: string) (sig_detail: string)

text \<open>The order of the three \<^verbatim>\<open>sort.Slice\<close> comparisons: check, then resource, then detail.\<close>

instantiation failure_signature :: linorder
begin

definition less_failure_signature :: "failure_signature \<Rightarrow> failure_signature \<Rightarrow> bool" where
  "less_failure_signature a b =
     (if sig_check a \<noteq> sig_check b then sig_check a < sig_check b
      else if sig_resource a \<noteq> sig_resource b then sig_resource a < sig_resource b
      else sig_detail a < sig_detail b)"

definition less_eq_failure_signature :: "failure_signature \<Rightarrow> failure_signature \<Rightarrow> bool" where
  "less_eq_failure_signature a b = (a = b \<or> a < b)"

instance
proof
  fix a b c :: failure_signature
  show "(a < b) = (a \<le> b \<and> \<not> b \<le> a)"
    by (cases a; cases b) (auto simp: less_failure_signature_def less_eq_failure_signature_def)
  show "a \<le> a" by (simp add: less_eq_failure_signature_def)
  show "a \<le> b \<Longrightarrow> b \<le> c \<Longrightarrow> a \<le> c"
    by (cases a; cases b; cases c)
       (auto simp: less_failure_signature_def less_eq_failure_signature_def split: if_splits)
  show "a \<le> b \<Longrightarrow> b \<le> a \<Longrightarrow> a = b"
    by (cases a; cases b)
       (auto simp: less_failure_signature_def less_eq_failure_signature_def split: if_splits)
  show "a \<le> b \<or> b \<le> a"
    by (cases a; cases b) (auto simp: less_failure_signature_def less_eq_failure_signature_def)
qed

end

lemma sort_any_order: "distinct xs \<Longrightarrow> distinct ys \<Longrightarrow> set xs = set ys \<Longrightarrow> sort xs = sort ys"
  for xs ys :: "'a::linorder list"
  by (metis sorted_list_of_set.idem_if_sorted_distinct distinct_sort set_sort sorted_sort)

lemma set_sort_remdups [simp]: "set (sort (remdups xs)) = set xs"
  by simp

subsection \<open>NormalizeDetail\<close>

definition exitStatusEnvelopeRe :: regex where
  "exitStatusEnvelopeRe = seqs [fold_re ''exit status '', some_re digit_re, many space_re,
     lit_char CHR ''|'', many space_re, fold_re ''stderr:'', many space_re]"

text \<open>The four box characters, as their UTF-8 bytes.\<close>

definition boxDrawingRe :: regex where
  "boxDrawingRe = some_re (alts (text_re [CHR 0xE2, CHR 0x95, CHR 0xB7])
     [text_re [CHR 0xE2, CHR 0x95, CHR 0xB5],
      text_re [CHR 0xE2, CHR 0x94, CHR 0x82],
      text_re [CHR 0xE2, CHR 0x94, CHR 0x80]])"

definition lineRefRe :: regex where
  "lineRefRe = Alt
     (seqs [Word_Boundary, fold_re ''line'', some_re space_re, some_re digit_re, Word_Boundary,
            opt_re (Chr (\<lambda>c. c = CHR '','' \<or> c = CHR '':''))])
     (seqs [Word_Boundary, some_re digit_re, lit_char CHR '':'', space_re])"

definition instanceSuffixRe :: regex where
  "instanceSuffixRe = seqs [Word_Boundary,
     Grp 1 (Seq (Chr ident_start) (Star False word_re)),
     lit_char CHR ''_'', some_re digit_re, Word_Boundary]"

definition instanceBracketRe :: regex where
  "instanceBracketRe = seqs [Word_Boundary,
     Grp 1 (Seq (Chr ident_start) (many word_re)),
     lit_char CHR ''['', Alt (some_re digit_re) (lit_char CHR ''*''), lit_char CHR '']'']"

definition whitespaceRe :: regex where
  "whitespaceRe = some_re space_re"

definition attrNameRe :: regex where
  "attrNameRe = seqs [fold_re ''attribute'', some_re space_re, fold_re ''named'', some_re space_re,
     lit_char CHR 0x22, Grp 1 (some_re word_re), lit_char CHR 0x22]"

definition unsupportedArgNameRe :: regex where
  "unsupportedArgNameRe = seqs [fold_re ''Unsupported argument'',
     many (Chr (\<lambda>c. c \<noteq> CHR 0x22)), lit_char CHR 0x22, Grp 1 (some_re word_re), lit_char CHR 0x22]"

definition anyResourceRe :: regex where
  "anyResourceRe = seqs [Word_Boundary,
     alts (text_re ''scaleway'') [text_re ''google'', text_re ''aws''],
     lit_char CHR ''_'', some_re word_re, Word_Boundary]"

definition atLeastOneOfBodyRe :: regex where
  "atLeastOneOfBodyRe = (let dot = Chr (\<lambda>c. c \<noteq> CHR 0x0A) in
     seqs [fold_re ''at least one of'', some_re space_re,
       Grp 1 (Seq dot (Star False dot)),
       alts (Seq (some_re space_re) (fold_re ''must''))
         [Seq (some_re space_re) (fold_re ''should''),
          Seq (many space_re) (lit_char CHR ''('')]])"

definition captureAll :: "regex \<Rightarrow> string \<Rightarrow> nat \<Rightarrow> string list" where
  "captureAll re s grp = map (\<lambda>(_, m). group_of m grp) (find_all re s)"

definition uniqSorted :: "string list \<Rightarrow> string list" where
  "uniqSorted xs = sort (remdups xs)"

definition unsupportedAttributeKernel :: "string \<Rightarrow> string" where
  "unsupportedAttributeKernel detail =
     (let lower = to_lower detail in
      if \<not> contains lower ''unsupported attribute'' \<and> \<not> contains lower ''exported attribute named''
      then []
      else let attrs = captureAll attrNameRe detail 1 in
        if attrs = [] then []
        else ''kernel:unsupported_attribute:''
          @ join '','' (uniqSorted (map fst (find_all anyResourceRe detail)))
          @ '':'' @ join '','' (uniqSorted attrs))"

definition unsupportedArgumentKernel :: "string \<Rightarrow> string" where
  "unsupportedArgumentKernel detail =
     (let lower = to_lower detail in
      if \<not> contains lower ''unsupported argument'' then []
      else let args = captureAll unsupportedArgNameRe detail 1 in
        if args = [] then []
        else ''kernel:unsupported_argument:''
          @ join '','' (uniqSorted (map fst (find_all anyResourceRe detail)))
          @ '':'' @ join '','' (uniqSorted args))"

definition atLeastOneOfKernel :: "string \<Rightarrow> string" where
  "atLeastOneOfKernel detail =
     (case find_first atLeastOneOfBodyRe detail of
        None \<Rightarrow> []
      | Some (_, m) \<Rightarrow>
          ''kernel:at_least_one_of:''
          @ join '','' (uniqSorted (map fst (find_all anyResourceRe detail)))
          @ '':'' @ replace_all whitespaceRe (\<lambda>_. '' '') (trim_space (group_of m 1)))"

definition NormalizeDetail :: "string \<Rightarrow> string" where
  "NormalizeDetail detail =
     (if detail = [] then []
      else
        let cleaned = replace_all boxDrawingRe (\<lambda>_. '' '')
                        (replace_all exitStatusEnvelopeRe (\<lambda>_. []) detail) in
        if unsupportedAttributeKernel cleaned \<noteq> [] then unsupportedAttributeKernel cleaned
        else if unsupportedArgumentKernel cleaned \<noteq> [] then unsupportedArgumentKernel cleaned
        else if atLeastOneOfKernel cleaned \<noteq> [] then atLeastOneOfKernel cleaned
        else
          let s1 = replace_all lineRefRe (\<lambda>_. []) cleaned;
              s2 = replace_all instanceSuffixRe (\<lambda>m. group_of m 1) s1;
              s3 = replace_all instanceBracketRe (\<lambda>m. group_of m 1) s2
          in trim_space (replace_all whitespaceRe (\<lambda>_. '' '') s3))"

subsection \<open>Signatures of an iteration\<close>

definition signature_of :: "failure \<Rightarrow> failure_signature" where
  "signature_of f = Failure_Signature (f_check f) (f_resource f) (NormalizeDetail (f_detail f))"

definition FailureSignatures :: "failure list \<Rightarrow> failure_signature list" where
  "FailureSignatures failures = sort (remdups (map signature_of failures))"

definition HoldoutFeedback :: "bool \<Rightarrow> failure list \<Rightarrow> failure list" where
  "HoldoutFeedback criteriaOnly failures = (if criteriaOnly then [] else failures)"

definition IsStuck :: "failure_signature list \<Rightarrow> failure list \<Rightarrow> bool" where
  "IsStuck history current =
     (let currentSigs = FailureSignatures current in
      if currentSigs = [] then False
      else list_all (\<lambda>sig. sig \<in> set history) currentSigs)"

subsection \<open>Oscillation and recurrence\<close>

record iteration_result =
  ir_iteration :: int
  ir_failures :: "failure list"

text \<open>The inner loop of \<^verbatim>\<open>DetectOscillation\<close>: a window present, absent, present.\<close>

fun toggles :: "'a \<Rightarrow> 'a list list \<Rightarrow> bool" where
  "toggles sig (s0 # s1 # s2 # rest) =
     (if sig \<in> set s0 \<and> sig \<notin> set s1 \<and> sig \<in> set s2 then True
      else toggles sig (s1 # s2 # rest))"
| "toggles sig _ = False"

definition DetectOscillation :: "iteration_result list \<Rightarrow> failure_signature list" where
  "DetectOscillation history =
     (if length history < 3 then []
      else
        let sigSets = map (\<lambda>ir. FailureSignatures (ir_failures ir)) history;
            allSigs = remdups (concat sigSets)
        in sort (filter (\<lambda>sig. toggles sig sigSets) allSigs))"

definition iterCount :: "iteration_result list \<Rightarrow> failure_signature \<Rightarrow> nat" where
  "iterCount history sig =
     length (filter (\<lambda>ir. sig \<in> set (FailureSignatures (ir_failures ir))) history)"

definition DetectRecurringFailures :: "iteration_result list \<Rightarrow> failure_signature list" where
  "DetectRecurringFailures history =
     (if length history < 2 then []
      else
        let allSigs = remdups (concat (map (\<lambda>ir. FailureSignatures (ir_failures ir)) history))
        in sort (filter (\<lambda>sig. iterCount history sig \<ge> 2) allSigs))"

subsection \<open>Facts the run loop rests on\<close>

lemma set_FailureSignatures [simp]: "set (FailureSignatures fs) = signature_of ` set fs"
  by (simp add: FailureSignatures_def)

lemma FailureSignatures_Nil_iff [simp]: "FailureSignatures fs = [] \<longleftrightarrow> fs = []"
  using set_FailureSignatures [of fs] by (metis image_is_empty set_empty)

lemma FailureSignatures_sorted_distinct:
  "sorted (FailureSignatures fs)" "distinct (FailureSignatures fs)"
  by (simp_all add: FailureSignatures_def)

lemma toggles_iff:
  "toggles sig ss \<longleftrightarrow>
     (\<exists>i. i + 2 < length ss \<and> sig \<in> set (ss ! i) \<and> sig \<notin> set (ss ! (i + 1)) \<and> sig \<in> set (ss ! (i + 2)))"
proof (induction sig ss rule: toggles.induct)
  case (1 sig s0 s1 s2 rest)
  show ?case (is "_ \<longleftrightarrow> (\<exists>i. ?P i)")
  proof
    assume t: "toggles sig (s0 # s1 # s2 # rest)"
    show "\<exists>i. ?P i"
    proof (cases "sig \<in> set s0 \<and> sig \<notin> set s1 \<and> sig \<in> set s2")
      case True
      then have "?P 0" by simp
      then show ?thesis by blast
    next
      case False
      with t have "toggles sig (s1 # s2 # rest)" by (simp split: if_splits)
      with "1.IH" [OF False] obtain i where "i + 2 < length (s1 # s2 # rest)"
        "sig \<in> set ((s1 # s2 # rest) ! i)" "sig \<notin> set ((s1 # s2 # rest) ! (i + 1))"
        "sig \<in> set ((s1 # s2 # rest) ! (i + 2))" by blast
      then have "?P (Suc i)" by simp
      then show ?thesis by blast
    qed
  next
    assume "\<exists>i. ?P i"
    then obtain i where i: "?P i" by blast
    show "toggles sig (s0 # s1 # s2 # rest)"
    proof (cases "sig \<in> set s0 \<and> sig \<notin> set s1 \<and> sig \<in> set s2")
      case False
      with i obtain j where "i = Suc j" by (cases i) auto
      with i "1.IH" [OF False] have "toggles sig (s1 # s2 # rest)" by auto
      with False show ?thesis by simp
    qed simp
  qed
qed auto

lemma toggles_mem: "toggles sig ss \<Longrightarrow> \<exists>s \<in> set ss. sig \<in> set s"
  by (induction sig ss rule: toggles.induct) (auto split: if_splits)

lemma toggles_twice:
  "toggles sig ss \<Longrightarrow> 2 \<le> length (filter (\<lambda>s. sig \<in> set s) ss)"
  by (induction sig ss rule: toggles.induct) (auto split: if_splits)

lemma iterCount_conv:
  "iterCount h sig = length (filter (\<lambda>s. sig \<in> set s) (map (\<lambda>ir. FailureSignatures (ir_failures ir)) h))"
  by (simp add: iterCount_def filter_map comp_def)

lemma iterCount_pos: "0 < iterCount h sig \<Longrightarrow> sig \<in> set (concat (map (\<lambda>ir. FailureSignatures (ir_failures ir)) h))"
  by (auto simp: iterCount_def filter_empty_conv)

lemma set_DetectRecurringFailures:
  "set (DetectRecurringFailures h) = {sig. 2 \<le> iterCount h sig}"
proof (cases "length h < 2")
  case True
  then have "iterCount h sig < 2" for sig
    unfolding iterCount_def using length_filter_le [of _ h] by (meson le_less_trans)
  with True show ?thesis by (auto simp: DetectRecurringFailures_def not_le)
next
  case False
  then show ?thesis
    using iterCount_pos by (fastforce simp: DetectRecurringFailures_def)
qed

lemma set_DetectOscillation:
  "set (DetectOscillation h) = {sig. toggles sig (map (\<lambda>ir. FailureSignatures (ir_failures ir)) h)}"
proof (cases "length h < 3")
  case True
  then have "\<not> toggles sig (map (\<lambda>ir. FailureSignatures (ir_failures ir)) h)" for sig
    by (auto simp: toggles_iff)
  with True show ?thesis by (auto simp: DetectOscillation_def)
next
  case False
  have "toggles sig ss \<Longrightarrow> sig \<in> set (remdups (concat ss))" for sig :: failure_signature and ss
    using toggles_mem [of sig ss] by simp
  then show ?thesis using False unfolding DetectOscillation_def Let_def by (simp del: set_remdups) blast
qed

subsection \<open>Properties\<close>

text \<open>An iteration is stuck exactly when it failed and the history holds the signature of
  every one of its failures.\<close>

theorem IsStuck_iff:
  "IsStuck history current \<longleftrightarrow> current \<noteq> [] \<and> signature_of ` set current \<subseteq> set history"
  by (auto simp: IsStuck_def list_all_iff)

text \<open>\<open>DetectOscillation\<close> returns, in increasing order and without repeats, exactly the
  signatures that some iteration has, the next lacks and the one after has again.\<close>

theorem DetectOscillation_correct:
  "sorted (DetectOscillation h) \<and> distinct (DetectOscillation h) \<and>
   set (DetectOscillation h) =
     {sig. \<exists>i. i + 2 < length h
        \<and> sig \<in> signature_of ` set (ir_failures (h ! i))
        \<and> sig \<notin> signature_of ` set (ir_failures (h ! (i + 1)))
        \<and> sig \<in> signature_of ` set (ir_failures (h ! (i + 2)))}"
proof -
  have "sorted (DetectOscillation h)" "distinct (DetectOscillation h)"
    by (simp_all add: DetectOscillation_def Let_def)
  moreover have "toggles sig (map (\<lambda>ir. FailureSignatures (ir_failures ir)) h) \<longleftrightarrow>
      (\<exists>i. i + 2 < length h \<and> sig \<in> signature_of ` set (ir_failures (h ! i))
        \<and> sig \<notin> signature_of ` set (ir_failures (h ! (i + 1)))
        \<and> sig \<in> signature_of ` set (ir_failures (h ! (i + 2))))" for sig
    unfolding toggles_iff by (simp cong: conj_cong)
  ultimately show ?thesis by (simp add: set_DetectOscillation)
qed

text \<open>\<open>DetectRecurringFailures\<close> is the broader signal its comment claims: whatever
  oscillates is reported as recurring.\<close>

theorem oscillation_recurs: "set (DetectOscillation h) \<subseteq> set (DetectRecurringFailures h)"
  by (auto simp: set_DetectOscillation set_DetectRecurringFailures iterCount_conv
           dest!: toggles_twice)

text \<open>Two wordings of one bug in two iterations have one normal form.\<close>

theorem NormalizeDetail_collapses:
  "NormalizeDetail ''at web_0''
     = NormalizeDetail ''at web[*]''"
  by code_simp

end
