(* ===== verification/Livestore.thy ===== *)
theory Livestore
  imports Prelude "HOL-Library.AList"
begin

text \<open>
  Package \<^verbatim>\<open>internal/livestore\<close>: the records of deployments that outlive their run, and the
  directory that keeps them. The record's rules are \<open>Validate\<close>, \<open>Expired\<close> and \<open>Reapable\<close>; the
  store's operations are \<open>Put\<close>, \<open>Get\<close>, \<open>List\<close>, \<open>Reapable\<close> and \<open>MarkReleased\<close> on a directory
  that maps file names to contents. Health summaries are in the same theory.

  Instants are nanoseconds since Go's zero time, which is instant 0; durations are nanoseconds
  and saturate at 64 bits as \<^verbatim>\<open>time.Time.Sub\<close> does. A file either holds the JSON text of a record
  (\<open>Rec d\<close>) or bytes that do not decode as one (\<open>Bad s\<close>). Operations of the file system are
  total; the store's error paths for a failing disk are not modelled, except for a missing file,
  a missing directory and a file that does not decode.
\<close>

type_synonym instant = int
type_synonym duration = int

definition is_zero :: "instant \<Rightarrow> bool" where
  "is_zero t \<longleftrightarrow> t = 0"

definition max_duration :: duration where
  "max_duration = 2 ^ 63 - 1"

definition time_sub :: "instant \<Rightarrow> instant \<Rightarrow> duration" where
  "time_sub a b = max (- (2 ^ 63)) (min max_duration (a - b))"

subsection \<open>Records\<close>

text \<open>A Go string type with named constants may hold any string: \<open>Other_*\<close> is every other one.\<close>

datatype deployment_state = State_Empty | StateLive | StateReleased | Other_State string

datatype observation_status =
  ObservationHealthy | ObservationUnhealthy | ObservationUnreachable | Other_Status string

datatype version_check =
  VersionUnchecked | VersionConfirmed | VersionUnconfirmed | Other_Version string

record observation =
  o_at :: instant
  o_status :: observation_status
  o_detail :: string
  o_version :: version_check

record deployment =
  d_schema :: string
  d_id :: string
  d_scenario :: string
  d_project_id :: string
  d_address :: string
  d_image :: string
  d_tag :: string
  d_state :: deployment_state
  d_work_dir :: string
  d_created_at :: instant
  d_expires_at :: instant
  d_holdout :: string
  d_sweep_failed :: bool
  d_upgraded_at :: instant
  d_upgrade_started_at :: instant
  d_upgrade_succeeded :: bool
  d_cloud :: string
  d_address_resource :: string
  d_version_path :: string
  d_port :: int
  d_health_path :: string
  d_observations :: "observation list"
  d_undecodable :: bool

definition zero_deployment :: deployment where
  "zero_deployment = \<lparr>d_schema = [], d_id = [], d_scenario = [], d_project_id = [], d_address = [],
     d_image = [], d_tag = [], d_state = State_Empty, d_work_dir = [], d_created_at = 0,
     d_expires_at = 0, d_holdout = [], d_sweep_failed = False, d_upgraded_at = 0,
     d_upgrade_started_at = 0, d_upgrade_succeeded = False, d_cloud = [], d_address_resource = [],
     d_version_path = [], d_port = 0, d_health_path = [], d_observations = [],
     d_undecodable = False\<rparr>"

definition MaxObservations :: nat where
  "MaxObservations = 50"

definition Healthy :: "observation \<Rightarrow> bool" where
  "Healthy obs \<longleftrightarrow> o_status obs = ObservationHealthy"

definition RecordObservation :: "deployment \<Rightarrow> observation \<Rightarrow> deployment" where
  "RecordObservation d obs =
     (let d' = d\<lparr>d_observations := d_observations d @ [obs]\<rparr> in
      if length (d_observations d') > MaxObservations
      then d'\<lparr>d_observations := drop (length (d_observations d') - MaxObservations) (d_observations d')\<rparr>
      else d')"

definition Expired :: "deployment \<Rightarrow> instant \<Rightarrow> bool" where
  "Expired d now = (if is_zero (d_expires_at d) then True else \<not> now < d_expires_at d)"

definition Reapable :: "deployment \<Rightarrow> instant \<Rightarrow> bool" where
  "Reapable d now = (if d_state d = StateReleased then False else Expired d now)"

definition TimeToLive :: "deployment \<Rightarrow> instant \<Rightarrow> duration" where
  "TimeToLive d now = (if Expired d now then 0 else time_sub (d_expires_at d) now)"

datatype store_error =
    IdRequired | IdWhitespace string | IdSeparator string | IdParent string
  | ScenarioRequired | ProjectRequired | CreatedRequired | ExpiresRequired
  | ExpiresNotAfter instant instant
  | ReadFailed string | DecodeFailed string

text \<open>The path separator is \<^verbatim>\<open>/\<close>: the tool runs on Unix systems.\<close>

definition validateID :: "string \<Rightarrow> store_error option" where
  "validateID i =
     (let trimmed = trim_space i in
      if trimmed = [] then Some IdRequired
      else if trimmed \<noteq> i then Some (IdWhitespace i)
      else if contains i ''/'' then Some (IdSeparator i)
      else if i = ''.'' \<or> i = ''..'' \<or> contains i ''..'' then Some (IdParent i)
      else None)"

definition Validate :: "deployment \<Rightarrow> store_error option" where
  "Validate d =
     (case validateID (d_id d) of
        Some e \<Rightarrow> Some e
      | None \<Rightarrow>
          if blank (d_scenario d) then Some ScenarioRequired
          else if blank (d_project_id d) then Some ProjectRequired
          else if is_zero (d_created_at d) then Some CreatedRequired
          else if is_zero (d_expires_at d) then Some ExpiresRequired
          else if \<not> d_created_at d < d_expires_at d
            then Some (ExpiresNotAfter (d_expires_at d) (d_created_at d))
          else None)"

subsection \<open>The directory\<close>

datatype stored_file = Rec deployment | Bad string

text \<open>
  \<open>files = None\<close> is a root that does not exist. \<open>state_dirs\<close> are the directories that hold a
  \<^verbatim>\<open>terraform-live.tfstate\<close>, and \<open>cwd\<close> and \<open>root\<close> are absolute paths: what a relative
  \<^verbatim>\<open>work_dir\<close> of an old record is resolved against.
\<close>

record store =
  files :: "(string \<times> stored_file) list option"
  state_dirs :: "string list"
  cwd :: string
  root_parent :: string \<comment> \<open>\<^verbatim>\<open>filepath.Dir(filepath.Dir(Root))\<close>\<close>

definition path :: "string \<Rightarrow> string" where
  "path i = i @ ''.json''"

definition lookup_file :: "store \<Rightarrow> string \<Rightarrow> stored_file option" where
  "lookup_file s name = (case files s of None \<Rightarrow> None | Some m \<Rightarrow> map_of m name)"

definition set_file :: "store \<Rightarrow> string \<Rightarrow> stored_file \<Rightarrow> store" where
  "set_file s name f =
     s\<lparr>files := Some (AList.update name f (case files s of None \<Rightarrow> [] | Some m \<Rightarrow> m))\<rparr>"

definition is_abs :: "string \<Rightarrow> bool" where
  "is_abs p = has_prefix p ''/''"

definition abs_path :: "store \<Rightarrow> string \<Rightarrow> string" where
  "abs_path s p = (if is_abs p then p else cwd s @ ''/'' @ p)"

text \<open>The candidates in order; the first that holds the live state wins.\<close>

definition resolveLegacyWorkDir :: "store \<Rightarrow> string \<Rightarrow> string" where
  "resolveLegacyWorkDir s workDir =
     (let candidates = [workDir, root_parent s @ ''/'' @ workDir] in
      case filter (\<lambda>p. p \<in> set (state_dirs s)) (map (abs_path s) candidates) of
        p # _ \<Rightarrow> p
      | [] \<Rightarrow> abs_path s workDir)"

definition Get :: "store \<Rightarrow> string \<Rightarrow> store_error + deployment" where
  "Get s i =
     (case validateID i of
        Some e \<Rightarrow> Inl e
      | None \<Rightarrow>
          (case lookup_file s (path i) of
             None \<Rightarrow> Inl (ReadFailed i)
           | Some (Bad _) \<Rightarrow> Inl (DecodeFailed i)
           | Some (Rec d) \<Rightarrow>
               Inr (if d_work_dir d \<noteq> [] \<and> \<not> is_abs (d_work_dir d)
                    then d\<lparr>d_work_dir := resolveLegacyWorkDir s (d_work_dir d)\<rparr> else d)))"

definition DeploymentSchemaVersion :: string where
  "DeploymentSchemaVersion = ''infrafactory.live.deployment.v1''"

text \<open>
  The temporary file is renamed over the target, so a reader sees the old content or the new.
  \<^verbatim>\<open>Undecodable\<close> has no JSON form, so what is written never carries it.
\<close>

definition write_record :: "store \<Rightarrow> deployment \<Rightarrow> store_error option \<times> store" where
  "write_record s d =
     (case validateID (d_id d) of
        Some e \<Rightarrow> (Some e, s)
      | None \<Rightarrow>
          let d1 = (if d_schema d = [] then d\<lparr>d_schema := DeploymentSchemaVersion\<rparr> else d);
              d2 = (if d_state d1 = State_Empty then d1\<lparr>d_state := StateLive\<rparr> else d1)
          in (None, set_file s (path (d_id d2)) (Rec (d2\<lparr>d_undecodable := False\<rparr>))))"

definition Put :: "store \<Rightarrow> deployment \<Rightarrow> store_error option \<times> store" where
  "Put s d = (case Validate d of Some e \<Rightarrow> (Some e, s) | None \<Rightarrow> write_record s d)"

definition MarkReleased :: "store \<Rightarrow> string \<Rightarrow> store_error option \<times> store" where
  "MarkReleased s i =
     (case validateID i of
        Some e \<Rightarrow> (Some e, s)
      | None \<Rightarrow>
          (case Get s i of
             Inr d \<Rightarrow> write_record s (d\<lparr>d_state := StateReleased\<rparr>)
           | Inl e \<Rightarrow>
               (case lookup_file s (path i) of
                  None \<Rightarrow> (Some e, s)
                | Some raw \<Rightarrow>
                    write_record (set_file s (path i @ ''.unreadable'') raw)
                      (zero_deployment\<lparr>d_id := i, d_state := StateReleased\<rparr>))))"

text \<open>
  \<^verbatim>\<open>os.ReadDir\<close> lists a directory in the order of its names. The sort is by creation time,
  newest first, and \<^verbatim>\<open>sort.Slice\<close> may order records of one instant either way: the model keeps
  their directory order.
\<close>

definition list_entry :: "store \<Rightarrow> string \<Rightarrow> deployment \<times> store_error list" where
  "list_entry s name =
     (let i = trim_suffix name ''.json'' in
      case Get s i of
        Inl e \<Rightarrow> (zero_deployment\<lparr>d_id := i, d_undecodable := True\<rparr>, [e])
      | Inr d \<Rightarrow> (d, []))"

definition List :: "store \<Rightarrow> deployment list \<times> store_error list" where
  "List s =
     (case files s of
        None \<Rightarrow> ([], [])
      | Some m \<Rightarrow>
          let entries = map (list_entry s)
                (filter (\<lambda>n. has_suffix n ''.json'') (sort (map fst m)))
          in (sort_key (\<lambda>d. - d_created_at d) (map fst entries), concat (map snd entries)))"

definition ReapableList :: "store \<Rightarrow> instant \<Rightarrow> deployment list \<times> store_error list" where
  "ReapableList s now =
     (let (all, unreadable) = List s in
      (filter (\<lambda>d. Reapable d now) all, unreadable))"

subsection \<open>Health\<close>

record health_summary =
  h_status :: string
  h_version :: string
  h_at :: "instant option"
  h_detail :: string
  h_observations :: nat

definition HealthUnobserved :: string where
  "HealthUnobserved = ''unobserved''"

definition VersionLabelUnchecked :: string where
  "VersionLabelUnchecked = ''unchecked''"

fun status_text :: "observation_status \<Rightarrow> string" where
  "status_text ObservationHealthy = ''healthy''"
| "status_text ObservationUnhealthy = ''unhealthy''"
| "status_text ObservationUnreachable = ''unreachable''"
| "status_text (Other_Status s) = s"

fun version_text :: "version_check \<Rightarrow> string" where
  "version_text VersionUnchecked = []"
| "version_text VersionConfirmed = ''confirmed''"
| "version_text VersionUnconfirmed = ''unconfirmed''"
| "version_text (Other_Version s) = s"

definition versionLabel :: "version_check \<Rightarrow> string" where
  "versionLabel v = (if v = VersionUnchecked then VersionLabelUnchecked else version_text v)"

definition Observed :: "health_summary \<Rightarrow> bool" where
  "Observed h \<longleftrightarrow> h_status h \<noteq> HealthUnobserved"

definition Health :: "deployment \<Rightarrow> health_summary" where
  "Health d =
     (if d_observations d = []
      then \<lparr>h_status = HealthUnobserved, h_version = VersionLabelUnchecked, h_at = None,
            h_detail = [], h_observations = 0\<rparr>
      else let l = last (d_observations d) in
        \<lparr>h_status = status_text (o_status l), h_version = versionLabel (o_version l),
         h_at = Some (o_at l), h_detail = o_detail l,
         h_observations = length (d_observations d)\<rparr>)"

subsection \<open>Ids and paths\<close>

lemma path_inject [simp]: "path i = path j \<longleftrightarrow> i = j"
  by (simp add: path_def)

lemma path_not_unreadable [simp]: "path j \<noteq> path i @ ''.unreadable''"
proof
  assume "path j = path i @ ''.unreadable''"
  then have "last (path j) = last (path i @ ''.unreadable'')" by simp
  then show False by (simp add: path_def)
qed

lemma trim_suffix_path [simp]: "trim_suffix (path i) ''.json'' = i"
  by (simp add: trim_suffix_def has_suffix_def path_def)

lemma has_suffix_path [simp]: "has_suffix (path i) ''.json''"
  by (simp add: has_suffix_def path_def)

lemma has_suffix_pathE: "has_suffix n ''.json'' \<Longrightarrow> \<exists>i. n = path i"
  by (auto simp: has_suffix_iff path_def)

lemma validateID_None:
  "validateID i = None \<Longrightarrow> i \<noteq> [] \<and> trim_space i = i \<and> CHR ''/'' \<notin> set i \<and> \<not> contains i ''..''"
  by (auto simp: validateID_def Let_def contains_single split: if_splits)

subsection \<open>Reading what was written\<close>

lemma lookup_set_file [simp]:
  "lookup_file (set_file s n f) m = (if m = n then Some f else lookup_file s m)"
  by (simp add: lookup_file_def set_file_def update_conv' split: option.splits)

lemma set_file_frame [simp]:
  "state_dirs (set_file s n f) = state_dirs s" "cwd (set_file s n f) = cwd s"
  "root_parent (set_file s n f) = root_parent s"
  by (simp_all add: set_file_def)

lemma resolve_set_file [simp]: "resolveLegacyWorkDir (set_file s n f) = resolveLegacyWorkDir s"
  by (rule ext) (simp add: resolveLegacyWorkDir_def abs_path_def [abs_def])

text \<open>What \<open>write_record\<close> stores for a record.\<close>

definition stored :: "deployment \<Rightarrow> deployment" where
  "stored d = d\<lparr>d_schema := (if d_schema d = [] then DeploymentSchemaVersion else d_schema d),
     d_state := (if d_state d = State_Empty then StateLive else d_state d),
     d_undecodable := False\<rparr>"

lemma write_record_eq:
  "write_record s d = (case validateID (d_id d) of
      Some e \<Rightarrow> (Some e, s) | None \<Rightarrow> (None, set_file s (path (d_id d)) (Rec (stored d))))"
  by (auto simp: write_record_def stored_def Let_def split: option.splits)

lemma d_id_stored [simp]: "d_id (stored d) = d_id d"
  "d_work_dir (stored d) = d_work_dir d" "d_expires_at (stored d) = d_expires_at d"
  by (simp_all add: stored_def)

lemma Get_cong:
  "lookup_file s' (path j) = lookup_file s (path j) \<Longrightarrow>
   resolveLegacyWorkDir s' = resolveLegacyWorkDir s \<Longrightarrow> Get s' j = Get s j"
  by (auto simp: Get_def split: option.splits stored_file.splits)

lemma resolve_write_record [simp]:
  "resolveLegacyWorkDir (snd (write_record s d)) = resolveLegacyWorkDir s"
  by (auto simp: write_record_eq split: option.splits)

lemma lookup_write_record:
  "lookup_file (snd (write_record s d)) n =
     (if validateID (d_id d) = None \<and> n = path (d_id d) then Some (Rec (stored d)) else lookup_file s n)"
  by (auto simp: write_record_eq split: option.splits)

lemma Get_write_same:
  assumes "validateID (d_id d) = None" and "d_work_dir d = [] \<or> is_abs (d_work_dir d)"
  shows "Get (snd (write_record s d)) (d_id d) = Inr (stored d)"
  using assms by (auto simp: lookup_write_record Get_def)

lemma Get_write_other: "j \<noteq> d_id d \<Longrightarrow> Get (snd (write_record s d)) j = Get s j"
  by (rule Get_cong) (simp_all add: lookup_write_record)

lemma Get_set_unreadable [simp]:
  "Get (set_file s (path i @ ''.unreadable'') f) j = Get s j"
  by (rule Get_cong) simp_all

lemma Get_Rec_id: "Get s i = Inr d \<Longrightarrow> \<exists>r. lookup_file s (path i) = Some (Rec r) \<and> d_id d = d_id r"
  by (auto simp: Get_def split: option.splits stored_file.splits if_splits)

subsection \<open>The interface of a store that keeps records under keys\<close>

text \<open>
  What a caller of the store relies on: a refused record changes nothing, whether a record is
  refused does not depend on what is stored, an accepted one is read back in its stored form,
  and no other key is touched.
\<close>

locale keyed_store =
  fixes get :: "'s \<Rightarrow> 'k \<Rightarrow> 'e + 'v"
    and put :: "'s \<Rightarrow> 'v \<Rightarrow> 'e option \<times> 's"
    and key :: "'v \<Rightarrow> 'k"
    and form :: "'v \<Rightarrow> 'v"
    and accepts :: "'v \<Rightarrow> bool"
    and readable :: "'v \<Rightarrow> bool"
  assumes put_refused: "\<not> accepts v \<Longrightarrow> snd (put s v) = s \<and> fst (put s v) \<noteq> None"
    and put_accepted: "accepts v \<Longrightarrow> fst (put s v) = None"
    and get_put_same: "accepts v \<Longrightarrow> readable v \<Longrightarrow> get (snd (put s v)) (key v) = Inr (form v)"
    and get_put_other: "k \<noteq> key v \<Longrightarrow> get (snd (put s v)) k = get s k"
begin

fun put_all :: "'s \<Rightarrow> 'v list \<Rightarrow> 's" where
  "put_all s [] = s"
| "put_all s (v # vs) = put_all (snd (put s v)) vs"

lemma put_all_other: "k \<notin> key ` set vs \<Longrightarrow> get (put_all s vs) k = get s k"
  by (induction vs arbitrary: s) (auto simp: get_put_other)

lemma put_all_get:
  "distinct (map key vs) \<Longrightarrow> v \<in> set vs \<Longrightarrow> accepts v \<Longrightarrow> readable v \<Longrightarrow>
   get (put_all s vs) (key v) = Inr (form v)"
proof (induction vs arbitrary: s)
  case (Cons w vs)
  show ?case
  proof (cases "v = w")
    case True
    with Cons.prems have "key v \<notin> key ` set vs" by simp
    with True Cons.prems show ?thesis by (simp add: put_all_other get_put_same)
  qed (use Cons in auto)
qed simp

lemma put_last_wins:
  "accepts v \<Longrightarrow> readable v \<Longrightarrow> get (snd (put (snd (put s w)) v)) (key v) = Inr (form v)"
  by (rule get_put_same)

end

definition readable_dir :: "deployment \<Rightarrow> bool" where
  "readable_dir d \<longleftrightarrow> d_work_dir d = [] \<or> is_abs (d_work_dir d)"

lemma Validate_validateID: "Validate d = None \<Longrightarrow> validateID (d_id d) = None"
  by (auto simp: Validate_def split: option.splits)

interpretation live: keyed_store Get Put d_id stored "\<lambda>d. Validate d = None" readable_dir
proof unfold_locales
  fix s d
  show "Validate d \<noteq> None \<Longrightarrow> snd (Put s d) = s \<and> fst (Put s d) \<noteq> None"
    by (auto simp: Put_def split: option.splits)
  show "Validate d = None \<Longrightarrow> fst (Put s d) = None"
    by (simp add: Put_def write_record_eq Validate_validateID)
  show "Validate d = None \<Longrightarrow> readable_dir d \<Longrightarrow> Get (snd (Put s d)) (d_id d) = Inr (stored d)"
    by (simp add: Put_def Get_write_same Validate_validateID readable_dir_def)
  show "k \<noteq> d_id d \<Longrightarrow> Get (snd (Put s d)) k = Get s k" for k
    by (auto simp: Put_def Get_write_other split: option.splits)
qed

subsection \<open>The invariant of the directory\<close>

text \<open>Every record sits in the file its id names, no name occurs twice.\<close>

definition store_ok :: "store \<Rightarrow> bool" where
  "store_ok s \<longleftrightarrow>
     (case files s of None \<Rightarrow> True | Some m \<Rightarrow> distinct (map fst m))
     \<and> (\<forall>n d. lookup_file s n = Some (Rec d) \<longrightarrow> n = path (d_id d))"

lemma set_file_ok:
  "store_ok s \<Longrightarrow> (\<And>d. f = Rec d \<Longrightarrow> n = path (d_id d)) \<Longrightarrow> store_ok (set_file s n f)"
  by (auto simp: store_ok_def set_file_def lookup_file_def update_conv' distinct_update
           split: option.splits if_splits)

lemma write_record_ok: "store_ok s \<Longrightarrow> store_ok (snd (write_record s d))"
  by (auto simp: write_record_eq split: option.splits intro!: set_file_ok)

lemma Put_ok: "store_ok s \<Longrightarrow> store_ok (snd (Put s d))"
  by (auto simp: Put_def write_record_ok split: option.splits)

lemma Get_Inl_Bad:
  "validateID i = None \<Longrightarrow> Get s i = Inl e \<Longrightarrow> lookup_file s (path i) = Some f \<Longrightarrow> \<exists>b. f = Bad b"
  by (auto simp: Get_def split: stored_file.splits)

lemma MarkReleased_ok: "store_ok s \<Longrightarrow> store_ok (snd (MarkReleased s i))"
  by (auto simp: MarkReleased_def write_record_ok split: option.splits sum.splits
           dest!: Get_Inl_Bad intro!: write_record_ok set_file_ok)

subsection \<open>What is listed\<close>

lemma set_List:
  "set (fst (List s)) = {d. \<exists>i. lookup_file s (path i) \<noteq> None \<and> d = fst (list_entry s (path i))}"
proof (cases "files s")
  case None
  then show ?thesis by (simp add: List_def lookup_file_def)
next
  case (Some m)
  have names: "(n \<in> fst ` set m \<and> has_suffix n ''.json'') \<longleftrightarrow> (\<exists>i. n = path i \<and> map_of m (path i) \<noteq> None)" for n
    by (metis has_suffix_path has_suffix_pathE map_of_eq_None_iff)
  have "set (fst (List s)) = (\<lambda>n. fst (list_entry s n)) ` {n. n \<in> fst ` set m \<and> has_suffix n ''.json''}"
    using Some by (auto simp: List_def Let_def image_def)
  also have "\<dots> = {d. \<exists>i. map_of m (path i) \<noteq> None \<and> d = fst (list_entry s (path i))}"
    unfolding names by blast
  finally show ?thesis using Some by (simp add: lookup_file_def)
qed

lemma set_ReapableList:
  "set (fst (ReapableList s now)) = {d \<in> set (fst (List s)). Reapable d now}"
  by (simp add: ReapableList_def split: prod.splits)

lemma list_entry_path:
  "fst (list_entry s (path i)) =
     (case Get s i of Inl _ \<Rightarrow> zero_deployment\<lparr>d_id := i, d_undecodable := True\<rparr> | Inr d \<Rightarrow> d)"
  by (simp add: list_entry_def split: sum.splits)

lemma Get_id: "store_ok s \<Longrightarrow> Get s i = Inr d \<Longrightarrow> d_id d = i"
  using Get_Rec_id [of s i d] by (force simp: store_ok_def)

lemma zero_reapable: "Reapable (zero_deployment\<lparr>d_id := i, d_undecodable := b\<rparr>) now"
  by (simp add: Reapable_def Expired_def zero_deployment_def is_zero_def)

subsection \<open>Properties\<close>


definition sample_deployment :: deployment where
  "sample_deployment = zero_deployment\<lparr>d_id := ''web-1'', d_scenario := ''web'',
     d_project_id := ''p1'', d_created_at := 10, d_expires_at := 20, d_work_dir := ''/w''\<rparr>"

definition empty_store :: store where
  "empty_store = \<lparr>files = None, state_dirs = [], cwd = ''/x'', root_parent = ''/x''\<rparr>"


text \<open>Unreadable is expired: whatever the store holds under a record's name that does not
  decode is among the records the reaper is given, at every instant.\<close>

theorem unreadable_is_reapable:
  assumes "lookup_file s (path i) \<noteq> None" and "Get s i = Inl e"
  shows "zero_deployment\<lparr>d_id := i, d_undecodable := True\<rparr> \<in> set (fst (ReapableList s now))"
proof -
  from assms have "zero_deployment\<lparr>d_id := i, d_undecodable := True\<rparr> \<in> set (fst (List s))"
    unfolding set_List by (auto simp: list_entry_path intro!: exI [of _ i])
  then show ?thesis by (simp add: set_ReapableList zero_reapable)
qed

theorem unreadable_is_reapable_witness:
  "zero_deployment\<lparr>d_id := ''a'', d_undecodable := True\<rparr>
     \<in> set (fst (ReapableList (empty_store\<lparr>files := Some [(''a.json'', Bad ''{'')]\<rparr>) 5))"
proof -
  let ?s = "empty_store\<lparr>files := Some [(''a.json'', Bad ''{'')]\<rparr>"
  have "lookup_file ?s (path ''a'') \<noteq> None" by (simp add: lookup_file_def path_def)
  moreover have "Get ?s ''a'' = Inl (DecodeFailed ''a'')" by code_simp
  ultimately show ?thesis by (rule unreadable_is_reapable)
qed

text \<open>Releasing takes a record out of the reaper's reach for good: after \<open>MarkReleased\<close>
  succeeds, no reapable record has that id, whether or not the record decoded.\<close>

theorem released_never_reapable:
  assumes "store_ok s" and "MarkReleased s i = (None, s')"
  shows "i \<notin> d_id ` set (fst (ReapableList s' now))"
proof
  assume "i \<in> d_id ` set (fst (ReapableList s' now))"
  then obtain d where d: "d \<in> set (fst (List s'))" "Reapable d now" "d_id d = i"
    by (auto simp: set_ReapableList)
  from assms have ok': "store_ok s'" using MarkReleased_ok [of s i] by simp
  from d(1) obtain j where j: "d = fst (list_entry s' (path j))" by (auto simp: set_List)
  from assms(2) have v: "validateID i = None" by (auto simp: MarkReleased_def split: option.splits)
  have "j = i"
    using j d(3) Get_id [OF ok', of j] by (auto simp: list_entry_path zero_deployment_def split: sum.splits)
  have "\<exists>r. Get s' i = Inr r \<and> d_state r = StateReleased"
  proof (cases "Get s i")
    case (Inr r)
    with assms(2) v have s': "s' = snd (write_record s (r\<lparr>d_state := StateReleased\<rparr>))"
      by (auto simp: MarkReleased_def)
    from assms(1) Inr have "d_id r = i" by (rule Get_id)
    with v have "lookup_file s' (path i) = Some (Rec (stored (r\<lparr>d_state := StateReleased\<rparr>)))"
      by (simp add: s' lookup_write_record)
    with v show ?thesis by (simp add: Get_def stored_def)
  next
    case (Inl e)
    with assms(2) v obtain raw where s': "s' = snd (write_record (set_file s (path i @ ''.unreadable'') raw)
        (zero_deployment\<lparr>d_id := i, d_state := StateReleased\<rparr>))"
      unfolding MarkReleased_def by (auto split: option.splits) (metis snd_conv)
    with v have "lookup_file s' (path i) =
        Some (Rec (stored (zero_deployment\<lparr>d_id := i, d_state := StateReleased\<rparr>)))"
      by (simp add: s' lookup_write_record)
    with v show ?thesis by (simp add: Get_def stored_def)
  qed
  with j \<open>j = i\<close> d(2) show False by (auto simp: list_entry_path Reapable_def)
qed

theorem released_never_reapable_witness:
  "''web-1'' \<notin> d_id ` set (fst (ReapableList
     (snd (MarkReleased (snd (Put empty_store sample_deployment)) ''web-1'')) 99))"
proof -
  let ?s = "snd (Put empty_store sample_deployment)"
  have "store_ok empty_store" by (simp add: store_ok_def empty_store_def lookup_file_def)
  then have "store_ok ?s" by (rule Put_ok)
  moreover have "MarkReleased ?s ''web-1'' = (None, snd (MarkReleased ?s ''web-1''))" by code_simp
  ultimately show ?thesis by (rule released_never_reapable)
qed

text \<open>What \<open>Put\<close> accepts can be reaped: it names a project, it expires after it was
  created, and from its expiry on it is reapable for as long as it is live.\<close>

theorem accepted_is_reclaimable:
  assumes "fst (Put s d) = None"
  shows "\<not> blank (d_project_id d) \<and> d_created_at d < d_expires_at d
     \<and> (d_state d \<noteq> StateReleased \<longrightarrow> (\<forall>now. d_expires_at d \<le> now \<longrightarrow> Reapable d now))
     \<and> (\<forall>now. now < d_expires_at d \<longrightarrow> \<not> Reapable d now)"
proof -
  from assms have "Validate d = None" using live.put_refused [of d s] by blast
  then show ?thesis
    by (auto simp: Validate_def Reapable_def Expired_def is_zero_def split: option.splits if_splits)
qed

theorem accepted_is_reclaimable_witness:
  "\<not> blank (d_project_id sample_deployment) \<and> Reapable sample_deployment 20
     \<and> \<not> Reapable sample_deployment 19"
proof -
  have "fst (Put empty_store sample_deployment) = None" by code_simp
  from accepted_is_reclaimable [OF this] show ?thesis by (simp add: sample_deployment_def zero_deployment_def)
qed

text \<open>The ring of observations: appending keeps a suffix of the history that ends in the new
  observation and never grows past \<open>MaxObservations\<close>.\<close>

theorem RecordObservation_ring:
  "suffix (d_observations (RecordObservation d obs)) (d_observations d @ [obs])
   \<and> last (d_observations (RecordObservation d obs)) = obs
   \<and> length (d_observations (RecordObservation d obs)) = min MaxObservations (length (d_observations d) + 1)"
  by (auto simp: RecordObservation_def Let_def MaxObservations_def suffix_drop)

end
