(* ===== verification/Live_Reconcile.thy ===== *)
theory Live_Reconcile
  imports Livestore
begin

text \<open>
  \<^verbatim>\<open>internal/livestore/reconcile.go\<close> and \<^verbatim>\<open>repair.go\<close>: what the cloud holds against what the store
  believes, and which upgrades demonstrably fixed something.
\<close>

subsection \<open>Reconciliation\<close>

record stamped_project =
  sp_id :: string
  sp_name :: string
  sp_ours :: bool

record unrecorded_project =
  up_project_id :: string
  up_name :: string

record reconciliation =
  r_unrecorded :: "unrecorded_project list"
  r_vanished :: "deployment list"
  r_released :: "deployment list"
  r_retired :: nat
  r_accounted :: nat
  r_damaged :: "deployment list"

text \<open>The loop over the records: one branch per bucket, in the order of the code.\<close>

fun place_record :: "(string \<Rightarrow> bool) \<Rightarrow> reconciliation \<Rightarrow> deployment \<Rightarrow> reconciliation" where
  "place_record live out d =
     (if d_project_id d = [] then out\<lparr>r_damaged := r_damaged out @ [d]\<rparr>
      else if live (d_project_id d) then
        (if d_state d = StateReleased then out\<lparr>r_released := r_released out @ [d]\<rparr>
         else out\<lparr>r_accounted := r_accounted out + 1\<rparr>)
      else if d_state d = StateReleased then out\<lparr>r_retired := r_retired out + 1\<rparr>
      else out\<lparr>r_vanished := r_vanished out @ [d]\<rparr>)"

definition Reconcile :: "stamped_project list \<Rightarrow> deployment list \<Rightarrow> reconciliation" where
  "Reconcile projects deployments =
     (let known = (\<lambda>i. i \<in> set (map d_project_id (filter (\<lambda>d. d_project_id d \<noteq> []) deployments)));
          live = (\<lambda>i. i \<in> set (map sp_id projects));
          unrecorded = map (\<lambda>p. \<lparr>up_project_id = sp_id p, up_name = sp_name p\<rparr>)
            (filter (\<lambda>p. sp_ours p \<and> \<not> known (sp_id p)) projects);
          out = \<lparr>r_unrecorded = sort_key up_project_id unrecorded, r_vanished = [], r_released = [],
                 r_retired = 0, r_accounted = 0, r_damaged = []\<rparr>;
          out' = foldl (place_record live) out deployments
      in out'\<lparr>r_vanished := sort_key d_id (r_vanished out'),
              r_released := sort_key d_id (r_released out'),
              r_damaged := sort_key d_id (r_damaged out')\<rparr>)"

definition Clean :: "reconciliation \<Rightarrow> bool" where
  "Clean r \<longleftrightarrow> r_unrecorded r = [] \<and> r_vanished r = []"

definition Examined :: "reconciliation \<Rightarrow> nat" where
  "Examined r = r_accounted r + length (r_vanished r) + length (r_released r) + r_retired r
     + length (r_damaged r)"

definition ReapableReport :: "reconciliation \<Rightarrow> bool" where
  "ReapableReport r \<longleftrightarrow> r_released r = [] \<and> r_damaged r = []"

text \<open>The buckets as filters, which is what the loop computes.\<close>

lemma place_records:
  "foldl (place_record live) out ds =
     out\<lparr>r_damaged := r_damaged out @ filter (\<lambda>d. d_project_id d = []) ds,
         r_released := r_released out @ filter (\<lambda>d. d_project_id d \<noteq> [] \<and> live (d_project_id d)
             \<and> d_state d = StateReleased) ds,
         r_accounted := r_accounted out + length (filter (\<lambda>d. d_project_id d \<noteq> []
             \<and> live (d_project_id d) \<and> d_state d \<noteq> StateReleased) ds),
         r_retired := r_retired out + length (filter (\<lambda>d. d_project_id d \<noteq> []
             \<and> \<not> live (d_project_id d) \<and> d_state d = StateReleased) ds),
         r_vanished := r_vanished out @ filter (\<lambda>d. d_project_id d \<noteq> []
             \<and> \<not> live (d_project_id d) \<and> d_state d \<noteq> StateReleased) ds\<rparr>"
proof (induction ds arbitrary: out)
  case Nil
  show ?case by (rule reconciliation.equality) simp_all
next
  case (Cons d ds)
  show ?case
    by (simp only: foldl_Cons Cons.IH) (rule reconciliation.equality; simp)
qed

lemmas reconcile_simps = Reconcile_def place_records Let_def

lemma five_way_split:
  "length (filter (\<lambda>x. \<not> p x \<and> l x \<and> \<not> r x) xs) + length (filter (\<lambda>x. \<not> p x \<and> \<not> l x \<and> \<not> r x) xs)
   + length (filter (\<lambda>x. \<not> p x \<and> l x \<and> r x) xs) + length (filter (\<lambda>x. \<not> p x \<and> \<not> l x \<and> r x) xs)
   + length (filter p xs) = length xs"
  by (induction xs) auto

text \<open>Every record is examined exactly once: the buckets of a reconciliation add up to the
  number of records, whatever the cloud holds.\<close>

theorem Reconcile_examines_all: "Examined (Reconcile projects deployments) = length deployments"
  using five_way_split [of "\<lambda>d. d_project_id d = []"
      "\<lambda>d. d_project_id d \<in> sp_id ` set projects" "\<lambda>d. d_state d = StateReleased" deployments]
  by (simp add: Examined_def reconcile_simps)

lemma set_unrecorded:
  "set (r_unrecorded (Reconcile projects deployments)) =
     (\<lambda>p. \<lparr>up_project_id = sp_id p, up_name = sp_name p\<rparr>) `
       {p \<in> set projects. sp_ours p \<and>
          \<not> (\<exists>d \<in> set deployments. d_project_id d \<noteq> [] \<and> d_project_id d = sp_id p)}"
  unfolding reconcile_simps by (simp add: image_iff) (rule image_cong; fastforce)

lemma set_vanished:
  "set (r_vanished (Reconcile projects deployments)) =
     {d \<in> set deployments. d_project_id d \<noteq> [] \<and> d_project_id d \<notin> sp_id ` set projects
        \<and> d_state d \<noteq> StateReleased}"
  by (simp add: reconcile_simps)

text \<open>A project is reported as unrecorded exactly when it bears the stamp and no record, live
  or released, names it, so an unstamped project is never reported. The report is clean exactly
  when every stamped project is named by some record and every record that is not released and
  names a project names one the cloud holds.\<close>

theorem Reconcile_unrecorded:
  "set (r_unrecorded (Reconcile projects deployments)) =
     (\<lambda>p. \<lparr>up_project_id = sp_id p, up_name = sp_name p\<rparr>) `
       {p \<in> set projects. sp_ours p \<and>
          \<not> (\<exists>d \<in> set deployments. d_project_id d \<noteq> [] \<and> d_project_id d = sp_id p)}
   \<and> (Clean (Reconcile projects deployments) =
      ({p \<in> set projects. sp_ours p \<and>
          \<not> (\<exists>d \<in> set deployments. d_project_id d \<noteq> [] \<and> d_project_id d = sp_id p)} = {}
       \<and> {d \<in> set deployments. d_state d \<noteq> StateReleased \<and> d_project_id d \<noteq> []}
           \<subseteq> {d. d_project_id d \<in> sp_id ` set projects}))"
proof -
  have "Clean (Reconcile projects deployments) =
     (set (r_unrecorded (Reconcile projects deployments)) = {}
      \<and> set (r_vanished (Reconcile projects deployments)) = {})"
    by (simp add: Clean_def)
  then show ?thesis unfolding set_unrecorded set_vanished by (simp only: image_is_empty) blast
qed

text \<open>The steady state of the store: after a teardown destroyed the project and released the
  record, the record is retired and nothing disagrees.\<close>

lemma Reconcile_retired:
  "d_project_id d \<noteq> [] \<Longrightarrow> d_state d = StateReleased \<Longrightarrow>
   Clean (Reconcile [] [d]) \<and> r_retired (Reconcile [] [d]) = 1"
  by (simp add: reconcile_simps Clean_def)

subsection \<open>Repairs\<close>

definition versionDrift :: "observation \<Rightarrow> bool" where
  "versionDrift obs \<longleftrightarrow> Healthy obs \<and> o_version obs = VersionUnconfirmed"

definition adverse :: "observation \<Rightarrow> bool" where
  "adverse obs \<longleftrightarrow> \<not> Healthy obs \<or> versionDrift obs"

record repair =
  rp_deployment :: deployment
  rp_detail :: string
  rp_example :: string
  rp_before :: nat
  rp_after :: nat

definition MinHealthyAfterUpgrade :: nat where
  "MinHealthyAfterUpgrade = 2"

definition splitAtUpgrade :: "deployment \<Rightarrow> observation list \<times> observation list" where
  "splitAtUpgrade d =
     (filter (\<lambda>obs. o_at obs < d_upgrade_started_at d) (d_observations d),
      filter (\<lambda>obs. \<not> o_at obs < d_upgrade_started_at d \<and> \<not> o_at obs < d_upgraded_at d) (d_observations d))"

definition allHealthy :: "observation list \<Rightarrow> bool" where
  "allHealthy obs = (if \<exists>x \<in> set obs. adverse x then False else obs \<noteq> [])"

definition failureAtUpgrade :: "observation list \<Rightarrow> string \<times> string \<times> nat" where
  "failureAtUpgrade obs =
     (if obs = [] then ([], [], 0)
      else let l = last obs in
        if \<not> adverse l \<or> o_detail l = [] then ([], [], 0)
        else (o_detail l, o_detail l,
              length (takeWhile (\<lambda>x. \<not> (\<not> adverse x \<or> o_detail x \<noteq> o_detail l)) (rev obs))))"

definition repair_of :: "(string \<Rightarrow> string) \<Rightarrow> deployment \<Rightarrow> repair list" where
  "repair_of nf d =
     (if is_zero (d_upgraded_at d) \<or> d_work_dir d = [] then []
      else if \<not> d_upgrade_succeeded d then []
      else if is_zero (d_upgrade_started_at d) then []
      else let (b, a) = splitAtUpgrade d in
        if length a < MinHealthyAfterUpgrade then []
        else if \<not> allHealthy a then []
        else let (detail, example, run) = failureAtUpgrade b in
          if detail = [] then []
          else [\<lparr>rp_deployment = d, rp_detail = nf detail, rp_example = example,
                 rp_before = run, rp_after = length a\<rparr>])"

definition Repairs :: "deployment list \<Rightarrow> (string \<Rightarrow> string) option \<Rightarrow> repair list" where
  "Repairs deployments nf =
     concat (map (repair_of (case nf of None \<Rightarrow> (\<lambda>s. s) | Some f \<Rightarrow> f)) deployments)"

text \<open>The trailing run of a list is a suffix of it, and all of it satisfies the condition.\<close>

lemma trailing_run:
  "\<exists>old run. xs = old @ run \<and> length run = length (takeWhile P (rev xs)) \<and> (\<forall>x \<in> set run. P x)"
proof (intro exI conjI)
  show "xs = rev (dropWhile P (rev xs)) @ rev (takeWhile P (rev xs))"
    by (metis rev_append rev_rev_ident takeWhile_dropWhile_id)
qed (auto dest: set_takeWhileD)

text \<open>A repair is claimed only on evidence: the upgrade completed, the last probe before it
  began reported the very failure the repair names, at least as many probes in a row as it says
  reported that failure, none of the probes it counts was taken during the apply, and every
  probe after it, at least two, was free of failure and of version drift.\<close>

theorem Repairs_evidence:
  assumes "r \<in> set (Repairs deployments nf)"
  shows "rp_deployment r \<in> set deployments \<and> d_upgrade_succeeded (rp_deployment r)
    \<and> (let obs = d_observations (rp_deployment r);
           b = filter (\<lambda>x. o_at x < d_upgrade_started_at (rp_deployment r)) obs;
           a = filter (\<lambda>x. d_upgrade_started_at (rp_deployment r) \<le> o_at x
                         \<and> d_upgraded_at (rp_deployment r) \<le> o_at x) obs
       in b \<noteq> [] \<and> o_detail (last b) = rp_example r \<and> rp_example r \<noteq> []
        \<and> (\<exists>old run. b = old @ run \<and> length run = rp_before r
             \<and> (\<forall>x \<in> set run. adverse x \<and> o_detail x = rp_example r))
        \<and> length a = rp_after r \<and> 2 \<le> rp_after r \<and> (\<forall>x \<in> set a. \<not> adverse x))"
proof -
  from assms obtain d f where d: "d \<in> set deployments" and r: "r \<in> set (repair_of f d)"
    by (auto simp: Repairs_def)
  define b where "b = filter (\<lambda>x. o_at x < d_upgrade_started_at d) (d_observations d)"
  define a where "a = filter (\<lambda>x. d_upgrade_started_at d \<le> o_at x \<and> d_upgraded_at d \<le> o_at x) (d_observations d)"
  define P where "P = (\<lambda>x. \<not> (\<not> adverse x \<or> o_detail x \<noteq> o_detail (last b)))"
  have split: "splitAtUpgrade d = (b, a)"
    by (simp add: splitAtUpgrade_def not_less a_def b_def)
  have fail: "failureAtUpgrade b = (if b = [] then ([], [], 0) else
      if \<not> adverse (last b) \<or> o_detail (last b) = [] then ([], [], 0)
      else (o_detail (last b), o_detail (last b), length (takeWhile P (rev b))))"
    by (simp add: failureAtUpgrade_def P_def Let_def)
  from r have up: "d_upgrade_succeeded d" and len: "2 \<le> length a" and all: "allHealthy a"
    and ne: "b \<noteq> []" and adv: "o_detail (last b) \<noteq> []"
    and req: "r = \<lparr>rp_deployment = d, rp_detail = f (o_detail (last b)), rp_example = o_detail (last b),
                   rp_before = length (takeWhile P (rev b)), rp_after = length a\<rparr>"
    by (auto simp: repair_of_def split fail MinHealthyAfterUpgrade_def split: if_splits)
  from trailing_run [of b P] have run: "\<exists>old run. b = old @ run \<and> length run = length (takeWhile P (rev b))
      \<and> (\<forall>x \<in> set run. adverse x \<and> o_detail x = o_detail (last b))"
    by (auto simp: P_def)
  from all have "\<forall>x. x \<in> set (d_observations d) \<and> d_upgrade_started_at d \<le> o_at x
      \<and> d_upgraded_at d \<le> o_at x \<longrightarrow> \<not> adverse x"
    by (auto simp: allHealthy_def a_def split: if_splits)
  with d up len ne adv run show ?thesis
    by (simp add: req Let_def flip: a_def b_def)
qed

definition sample_repair :: deployment where
  "sample_repair = zero_deployment\<lparr>d_id := ''a'', d_work_dir := ''/w'', d_upgrade_succeeded := True,
     d_upgrade_started_at := 10, d_upgraded_at := 20, d_observations :=
       [\<lparr>o_at = 5, o_status = ObservationUnhealthy, o_detail = ''503'', o_version = VersionUnchecked\<rparr>,
        \<lparr>o_at = 21, o_status = ObservationHealthy, o_detail = [], o_version = VersionUnchecked\<rparr>,
        \<lparr>o_at = 22, o_status = ObservationHealthy, o_detail = [], o_version = VersionConfirmed\<rparr>]\<rparr>"

theorem Repairs_evidence_witness:
  "d_upgrade_succeeded (rp_deployment (hd (Repairs [sample_repair] None)))"
proof -
  have "Repairs [sample_repair] None \<noteq> []" by code_simp
  then have "hd (Repairs [sample_repair] None) \<in> set (Repairs [sample_repair] None)" by simp
  from Repairs_evidence [OF this] show ?thesis by blast
qed

end
