(* ===== verification/Promotion.thy ===== *)
theory Promotion
  imports Live_Reconcile "HOL-Library.Product_Lexorder" "HOL-Library.Multiset"
begin

text \<open>
  \<^verbatim>\<open>internal/livestore/promotion.go\<close>: when an observation has reproduced often enough to be a
  candidate lesson. The loop keeps, per key (status, drift, normalized detail), the evidence seen
  so far, and per deployment the length of the current run of one key.

  The map of evidence is an association list. Go iterates it in no particular order, and the sort
  that follows leaves candidates of equal rank in any order, so the order is a parameter \<open>it\<close> of
  the model: a function that permutes the list.
\<close>

record promotion_rule =
  ConsecutiveProbes :: int
  DistinctDeployments :: int
  Normalize :: "(string \<Rightarrow> string) option"

definition DefaultPromotionRule :: promotion_rule where
  "DefaultPromotionRule = \<lparr>ConsecutiveProbes = 3, DistinctDeployments = 2, Normalize = None\<rparr>"

datatype promotion_reason = PromotedByPersistence | PromotedByBreadth | PromotedByBoth

record candidate =
  c_status :: observation_status
  c_version_drift :: bool
  c_detail :: string
  c_example :: string
  c_scenarios :: "string list"
  c_deployments :: "string list"
  c_longest_run :: nat
  c_attributable :: bool
  c_reason :: promotion_reason

definition Key :: "candidate \<Rightarrow> string" where
  "Key c = status_text (c_status c) @ [CHR 0x00] @
     (if c_version_drift c then ''version'' else ''health'') @ [CHR 0x00] @ c_detail c"

type_synonym obs_key = "observation_status \<times> bool \<times> string"

record evidence =
  e_example :: string
  e_scenarios :: "string list"
  e_deployments :: "string list"
  e_longest_run :: nat
  e_attributable :: bool

definition promotionReason :: "bool \<Rightarrow> bool \<Rightarrow> promotion_reason" where
  "promotionReason persistent broad =
     (if persistent \<and> broad then PromotedByBoth
      else if broad then PromotedByBreadth
      else PromotedByPersistence)"

text \<open>A set kept as the list of its members; \<open>sortedKeys\<close> forgets the order.\<close>

definition add_key :: "'a \<Rightarrow> 'a list \<Rightarrow> 'a list" where
  "add_key x xs = (if x \<in> set xs then xs else xs @ [x])"

definition sortedKeys :: "string list \<Rightarrow> string list" where
  "sortedKeys xs = sort xs"

text \<open>The key an observation counts for, and \<open>None\<close> for one that ends every run.\<close>

definition obs_key_of :: "promotion_rule \<Rightarrow> observation \<Rightarrow> obs_key option" where
  "obs_key_of rule obs =
     (if \<not> adverse obs \<or> o_detail obs = [] then None
      else Some (o_status obs, versionDrift obs,
        (case Normalize rule of None \<Rightarrow> o_detail obs | Some f \<Rightarrow> f (o_detail obs))))"

definition new_evidence :: "observation \<Rightarrow> evidence" where
  "new_evidence obs = \<lparr>e_example = o_detail obs, e_scenarios = [], e_deployments = [],
     e_longest_run = 0, e_attributable = False\<rparr>"

definition add_evidence :: "deployment \<Rightarrow> observation \<Rightarrow> nat \<Rightarrow> evidence \<Rightarrow> evidence" where
  "add_evidence d obs current e =
     (let e1 = (if d_scenario d \<noteq> [] then e\<lparr>e_scenarios := add_key (d_scenario d) (e_scenarios e)\<rparr> else e);
          e2 = e1\<lparr>e_deployments := add_key (d_id d) (e_deployments e1)\<rparr>;
          e3 = (if current > e_longest_run e2 then e2\<lparr>e_longest_run := current\<rparr> else e2)
      in if o_version obs = VersionConfirmed then e3\<lparr>e_attributable := True\<rparr> else e3)"

type_synonym seen = "(obs_key \<times> evidence) list"

text \<open>One turn of the inner loop. \<open>runs\<close> holds at most one key: each turn replaces the map.\<close>

fun observe :: "promotion_rule \<Rightarrow> deployment \<Rightarrow> seen \<times> (obs_key \<times> nat) list \<Rightarrow> observation
    \<Rightarrow> seen \<times> (obs_key \<times> nat) list" where
  "observe rule d (seen, runs) obs =
     (case obs_key_of rule obs of
        None \<Rightarrow> (seen, [])
      | Some k \<Rightarrow>
          let current = (case map_of runs k of None \<Rightarrow> 0 | Some n \<Rightarrow> n) + 1;
              e = (case map_of seen k of None \<Rightarrow> new_evidence obs | Some e \<Rightarrow> e)
          in (AList.update k (add_evidence d obs current e) seen, [(k, current)]))"

definition observe_deployment :: "promotion_rule \<Rightarrow> seen \<Rightarrow> deployment \<Rightarrow> seen" where
  "observe_deployment rule seen d = fst (foldl (observe rule d) (seen, []) (d_observations d))"

definition gather :: "promotion_rule \<Rightarrow> deployment list \<Rightarrow> seen" where
  "gather rule deployments = foldl (observe_deployment rule) [] deployments"

definition candidate_of :: "promotion_rule \<Rightarrow> obs_key \<times> evidence \<Rightarrow> candidate list" where
  "candidate_of rule ke =
     (let ((status, drift, detail), e) = ke;
          persistent = ConsecutiveProbes rule > 0 \<and> int (e_longest_run e) \<ge> ConsecutiveProbes rule;
          broad = DistinctDeployments rule > 0 \<and> int (length (e_deployments e)) \<ge> DistinctDeployments rule
      in if \<not> persistent \<and> \<not> broad then []
         else [\<lparr>c_status = status, c_version_drift = drift, c_detail = detail,
                c_example = e_example e, c_scenarios = sortedKeys (e_scenarios e),
                c_deployments = sortedKeys (e_deployments e), c_longest_run = e_longest_run e,
                c_attributable = e_attributable e, c_reason = promotionReason persistent broad\<rparr>])"

definition rank :: "candidate \<Rightarrow> int \<times> int \<times> string" where
  "rank c = (- int (length (c_deployments c)), - int (c_longest_run c), c_detail c)"

definition PromotionCandidates :: "(seen \<Rightarrow> seen) \<Rightarrow> deployment list \<Rightarrow> promotion_rule \<Rightarrow> candidate list" where
  "PromotionCandidates it deployments rule =
     sort_key rank (concat (map (candidate_of rule) (it (gather rule deployments))))"

subsection \<open>The longest run of a key\<close>

fun longest :: "'k \<Rightarrow> 'k option list \<Rightarrow> nat \<Rightarrow> nat" where
  "longest k [] cur = cur"
| "longest k (x # xs) cur = (if x = Some k then longest k xs (Suc cur) else max cur (longest k xs 0))"

lemma longest_ge: "cur \<le> longest k xs cur"
  by (induction k xs cur rule: longest.induct) auto

text \<open>A run of length \<open>n\<close> exists exactly when \<open>n\<close> observations in a row have the key.\<close>

lemma longest_block:
  "n \<le> longest k xs cur \<longleftrightarrow>
     (\<exists>m ys. n \<le> cur + m \<and> xs = replicate m (Some k) @ ys)
     \<or> (\<exists>ys zs. xs = ys @ replicate n (Some k) @ zs)"
proof (induction k xs cur arbitrary: n rule: longest.induct)
  case (1 k cur)
  then show ?case by auto
next
  case (2 k x xs cur)
  show ?case
  proof (cases "x = Some k")
    case True
    have "(\<exists>m ys. n \<le> Suc cur + m \<and> xs = replicate m (Some k) @ ys)
        \<longleftrightarrow> (\<exists>m ys. n \<le> cur + m \<and> x # xs = replicate m (Some k) @ ys)" (is "?L \<longleftrightarrow> ?R")
    proof
      assume ?L
      then obtain m ys where "n \<le> cur + Suc m" "xs = replicate m (Some k) @ ys" by auto
      with True have "n \<le> cur + Suc m \<and> x # xs = replicate (Suc m) (Some k) @ ys" by simp
      then show ?R by blast
    next
      assume ?R
      then obtain m ys where m: "n \<le> cur + m" "x # xs = replicate m (Some k) @ ys" by blast
      show ?L
      proof (cases m)
        case 0
        with m have "n \<le> Suc cur + 0 \<and> xs = replicate 0 (Some k) @ xs" by simp
        then show ?thesis by blast
      next
        case (Suc m')
        with m have "n \<le> Suc cur + m' \<and> xs = replicate m' (Some k) @ ys" by simp
        then show ?thesis by blast
      qed
    qed
    moreover have "(\<exists>ys zs. x # xs = ys @ replicate n (Some k) @ zs)
        \<longleftrightarrow> (\<exists>ys zs. xs = ys @ replicate n (Some k) @ zs) \<or> (\<exists>zs. x # xs = replicate n (Some k) @ zs)"
      by (metis append_Cons append_Nil append_eq_Cons_conv list.inject)
    moreover have "(\<exists>zs. x # xs = replicate n (Some k) @ zs) \<Longrightarrow>
        (\<exists>m ys. n \<le> cur + m \<and> x # xs = replicate m (Some k) @ ys)"
      using le_add2 by blast
    ultimately show ?thesis using "2.IH"(1) [OF True] True by auto
  next
    case False
    have head: "(\<exists>m ys. n \<le> cur + m \<and> x # xs = replicate m (Some k) @ ys) \<longleftrightarrow> n \<le> cur"
    proof
      assume "\<exists>m ys. n \<le> cur + m \<and> x # xs = replicate m (Some k) @ ys"
      then obtain m ys where m: "n \<le> cur + m" "x # xs = replicate m (Some k) @ ys" by blast
      with False have "m = 0" by (cases m) auto
      with m show "n \<le> cur" by simp
    next
      assume "n \<le> cur"
      then have "n \<le> cur + 0 \<and> x # xs = replicate 0 (Some k) @ x # xs" by simp
      then show "\<exists>m ys. n \<le> cur + m \<and> x # xs = replicate m (Some k) @ ys" by blast
    qed
    have tail: "(\<exists>ys zs. x # xs = ys @ replicate n (Some k) @ zs)
        \<longleftrightarrow> n = 0 \<or> (\<exists>ys zs. xs = ys @ replicate n (Some k) @ zs)"
    proof
      assume "\<exists>ys zs. x # xs = ys @ replicate n (Some k) @ zs"
      then obtain ys zs where e: "x # xs = ys @ replicate n (Some k) @ zs" by blast
      show "n = 0 \<or> (\<exists>ys zs. xs = ys @ replicate n (Some k) @ zs)"
        using e False by (cases ys; cases n) auto
    next
      assume "n = 0 \<or> (\<exists>ys zs. xs = ys @ replicate n (Some k) @ zs)"
      then show "\<exists>ys zs. x # xs = ys @ replicate n (Some k) @ zs"
        by (metis append_Cons append_Nil replicate_0)
    qed
    have pre: "(\<exists>m ys. n \<le> 0 + m \<and> xs = replicate m (Some k) @ ys)
        \<Longrightarrow> (\<exists>ys zs. xs = ys @ replicate n (Some k) @ zs)"
    proof -
      assume "\<exists>m ys. n \<le> 0 + m \<and> xs = replicate m (Some k) @ ys"
      then obtain m ys where "n \<le> m" "xs = replicate m (Some k) @ ys" by auto
      then have "xs = [] @ replicate n (Some k) @ (replicate (m - n) (Some k) @ ys)"
        by (metis append_Nil append_assoc le_add_diff_inverse replicate_add)
      then show ?thesis by blast
    qed
    show ?thesis
      using False "2.IH"(2) [OF False, of n] head tail pre by (auto simp: le_max_iff_disj)
  qed
qed

corollary longest_run_iff:
  "n \<le> longest k xs 0 \<longleftrightarrow> (\<exists>ys zs. xs = ys @ replicate n (Some k) @ zs)"
proof -
  have "(\<exists>m ys. n \<le> 0 + m \<and> xs = replicate m (Some k) @ ys) \<Longrightarrow>
      (\<exists>ys zs. xs = ys @ replicate n (Some k) @ zs)"
    by (metis add_0 append_Nil append_assoc le_add_diff_inverse replicate_add)
  then show ?thesis using longest_block [of n k xs 0] by blast
qed

subsection \<open>What the evidence says\<close>

definition keys_of :: "promotion_rule \<Rightarrow> deployment \<Rightarrow> obs_key option list" where
  "keys_of rule d = map (obs_key_of rule) (d_observations d)"

definition run_seen :: "seen \<Rightarrow> obs_key \<Rightarrow> nat" where
  "run_seen seen k = (case map_of seen k of None \<Rightarrow> 0 | Some e \<Rightarrow> e_longest_run e)"

definition deps_seen :: "seen \<Rightarrow> obs_key \<Rightarrow> string list" where
  "deps_seen seen k = (case map_of seen k of None \<Rightarrow> [] | Some e \<Rightarrow> e_deployments e)"

definition cur_run :: "(obs_key \<times> nat) list \<Rightarrow> obs_key \<Rightarrow> nat" where
  "cur_run runs k = (case map_of runs k of None \<Rightarrow> 0 | Some n \<Rightarrow> n)"

definition known_key :: "seen \<Rightarrow> obs_key \<Rightarrow> bool" where
  "known_key seen k \<longleftrightarrow> map_of seen k \<noteq> None"

lemmas seen_defs = run_seen_def deps_seen_def cur_run_def known_key_def

lemma add_evidence_simps [simp]:
  "e_longest_run (add_evidence d obs n e) = max n (e_longest_run e)"
  "e_deployments (add_evidence d obs n e) = add_key (d_id d) (e_deployments e)"
  by (auto simp: add_evidence_def Let_def)

lemma set_add_key [simp]: "set (add_key x xs) = insert x (set xs)"
  by (auto simp: add_key_def)

lemma distinct_add_key [simp]: "distinct (add_key x xs) = distinct xs"
  by (auto simp: add_key_def)

text \<open>One turn, for an arbitrary key.\<close>

lemma observe_None: "obs_key_of rule obs = None \<Longrightarrow> observe rule d (sn, runs) obs = (sn, [])"
  by simp

lemma observe_Some:
  assumes "obs_key_of rule obs = Some k"
  shows "run_seen (fst (observe rule d (sn, runs) obs)) j =
           (if j = k then max (Suc (cur_run runs k)) (run_seen sn k) else run_seen sn j)"
    and "set (deps_seen (fst (observe rule d (sn, runs) obs)) j) =
           set (deps_seen sn j) \<union> (if j = k then {d_id d} else {})"
    and "distinct (deps_seen (fst (observe rule d (sn, runs) obs)) j) = distinct (deps_seen sn j)"
    and "cur_run (snd (observe rule d (sn, runs) obs)) j = (if j = k then Suc (cur_run runs k) else 0)"
    and "known_key (fst (observe rule d (sn, runs) obs)) j \<longleftrightarrow> j = k \<or> known_key sn j"
  using assms by (auto simp: seen_defs update_conv' Let_def new_evidence_def split: option.splits)

lemma observe_distinct:
  "distinct (map fst sn) \<Longrightarrow> distinct (map fst (fst (observe rule d (sn, runs) obs)))"
  by (auto simp: distinct_update Let_def split: option.splits)

lemma observations_fold:
  assumes "\<And>k. cur_run runs k \<le> run_seen sn k"
  shows "run_seen (fst (foldl (observe rule d) (sn, runs) os)) k =
           max (run_seen sn k) (longest k (map (obs_key_of rule) os) (cur_run runs k))
       \<and> set (deps_seen (fst (foldl (observe rule d) (sn, runs) os)) k) =
           set (deps_seen sn k) \<union> (if Some k \<in> set (map (obs_key_of rule) os) then {d_id d} else {})
       \<and> (known_key (fst (foldl (observe rule d) (sn, runs) os)) k \<longleftrightarrow>
            known_key sn k \<or> Some k \<in> set (map (obs_key_of rule) os))"
  using assms
proof (induction os arbitrary: sn runs)
  case Nil
  then show ?case by (simp add: max_absorb1)
next
  case (Cons x os)
  obtain sn' runs' where step: "observe rule d (sn, runs) x = (sn', runs')" by (cases "observe rule d (sn, runs) x")
  show ?case
  proof (cases "obs_key_of rule x")
    case None
    with step have "sn' = sn" "runs' = []" by auto
    moreover have "cur_run [] j \<le> run_seen sn j" for j by (simp add: cur_run_def)
    ultimately show ?thesis
      using Cons.IH [of runs' sn'] Cons.prems [of k] None step by (simp add: cur_run_def)
  next
    case (Some j)
    note obs = observe_Some [OF Some, of d sn runs, unfolded step fst_conv snd_conv]
    have "cur_run runs' i \<le> run_seen sn' i" for i using obs by simp
    note IH = Cons.IH [OF this]
    show ?thesis
    proof (cases "j = k")
      case True
      then show ?thesis
        using IH obs [of k] step Some longest_ge [of "Suc (cur_run runs k)" k "map (obs_key_of rule) os"]
        by auto
    next
      case False
      then show ?thesis
        using IH obs [of k] step Some Cons.prems [of k] by auto
    qed
  qed
qed

lemma observe_deployment_facts:
  "run_seen (observe_deployment rule sn d) k = max (run_seen sn k) (longest k (keys_of rule d) 0)"
  "set (deps_seen (observe_deployment rule sn d) k) =
     set (deps_seen sn k) \<union> (if Some k \<in> set (keys_of rule d) then {d_id d} else {})"
  "known_key (observe_deployment rule sn d) k \<longleftrightarrow> known_key sn k \<or> Some k \<in> set (keys_of rule d)"
  using observations_fold [of "[]" sn rule d "d_observations d" k]
  by (simp_all add: observe_deployment_def keys_of_def cur_run_def)

lemma observations_distinct:
  "distinct (map fst sn) \<Longrightarrow> (\<And>k. distinct (deps_seen sn k)) \<Longrightarrow>
   distinct (map fst (fst (foldl (observe rule d) (sn, runs) os)))
   \<and> (\<forall>k. distinct (deps_seen (fst (foldl (observe rule d) (sn, runs) os)) k))"
proof (induction os arbitrary: sn runs)
  case (Cons x os)
  obtain sn' runs' where step: "observe rule d (sn, runs) x = (sn', runs')" by (cases "observe rule d (sn, runs) x")
  have "distinct (map fst sn')"
    using observe_distinct [OF Cons.prems(1), of rule d runs x] step by simp
  moreover have "distinct (deps_seen sn' k)" for k
    using observe_Some(3) [of rule x _ d sn runs k] Cons.prems(2) [of k] step
    by (cases "obs_key_of rule x") auto
  ultimately show ?case using Cons.IH step by simp
qed simp

lemma gather_facts:
  "(n \<le> run_seen (gather rule ds) k \<longleftrightarrow> n = 0 \<or> (\<exists>d \<in> set ds. n \<le> longest k (keys_of rule d) 0))
   \<and> set (deps_seen (gather rule ds) k) = d_id ` {d \<in> set ds. Some k \<in> set (keys_of rule d)}
   \<and> (known_key (gather rule ds) k \<longleftrightarrow> (\<exists>d \<in> set ds. Some k \<in> set (keys_of rule d)))
   \<and> distinct (map fst (gather rule ds)) \<and> (\<forall>j. distinct (deps_seen (gather rule ds) j))"
proof (induction ds rule: rev_induct)
  case Nil
  then show ?case by (simp add: gather_def seen_defs)
next
  case (snoc d ds)
  have g: "gather rule (ds @ [d]) = observe_deployment rule (gather rule ds) d"
    by (simp add: gather_def)
  from snoc have "distinct (map fst (gather rule (ds @ [d])))
      \<and> (\<forall>j. distinct (deps_seen (gather rule (ds @ [d])) j))"
    unfolding g observe_deployment_def by (intro observations_distinct) auto
  moreover have "(n \<le> run_seen (gather rule (ds @ [d])) k \<longleftrightarrow>
      n = 0 \<or> (\<exists>x \<in> set (ds @ [d]). n \<le> longest k (keys_of rule x) 0))"
    using snoc by (auto simp: g observe_deployment_facts le_max_iff_disj)
  moreover have "set (deps_seen (gather rule (ds @ [d])) k) =
      d_id ` {x \<in> set (ds @ [d]). Some k \<in> set (keys_of rule x)}"
    using snoc by (auto simp: g observe_deployment_facts)
  moreover have "(known_key (gather rule (ds @ [d])) k \<longleftrightarrow>
      (\<exists>x \<in> set (ds @ [d]). Some k \<in> set (keys_of rule x)))"
    using snoc by (auto simp: g observe_deployment_facts)
  ultimately show ?case by blast
qed

text \<open>The two halves of the rule, over the observations themselves.\<close>

definition persisted :: "promotion_rule \<Rightarrow> deployment list \<Rightarrow> obs_key \<Rightarrow> bool" where
  "persisted rule ds k \<longleftrightarrow> 0 < ConsecutiveProbes rule \<and>
     (\<exists>d \<in> set ds. \<exists>ys zs. keys_of rule d = ys @ replicate (nat (ConsecutiveProbes rule)) (Some k) @ zs)"

definition broadened :: "promotion_rule \<Rightarrow> deployment list \<Rightarrow> obs_key \<Rightarrow> bool" where
  "broadened rule ds k \<longleftrightarrow> 0 < DistinctDeployments rule \<and>
     DistinctDeployments rule \<le> int (card (d_id ` {d \<in> set ds. Some k \<in> set (keys_of rule d)}))"

definition cand_key :: "candidate \<Rightarrow> obs_key" where
  "cand_key c = (c_status c, c_version_drift c, c_detail c)"

lemma candidate_of_facts:
  assumes mem: "(k, e) \<in> set (gather rule ds)"
  shows "c \<in> set (candidate_of rule (k, e)) \<Longrightarrow>
      cand_key c = k \<and> c_reason c = promotionReason (persisted rule ds k) (broadened rule ds k)
      \<and> (persisted rule ds k \<or> broadened rule ds k)
      \<and> set (c_deployments c) = d_id ` {d \<in> set ds. Some k \<in> set (keys_of rule d)}"
    and candidate_of_exists:
      "persisted rule ds k \<or> broadened rule ds k \<Longrightarrow> candidate_of rule (k, e) \<noteq> []"
proof -
  have lookup: "map_of (gather rule ds) k = Some e" if "(k, e) \<in> set (gather rule ds)" for k e
    using gather_facts [of 0 rule ds k] that by simp
  have pers: "(0 < ConsecutiveProbes rule \<and> ConsecutiveProbes rule \<le> int (e_longest_run e))
      = persisted rule ds k" if "(k, e) \<in> set (gather rule ds)" for k e
  proof -
    have "(nat (ConsecutiveProbes rule) \<le> run_seen (gather rule ds) k) \<longleftrightarrow>
        nat (ConsecutiveProbes rule) = 0 \<or>
        (\<exists>d \<in> set ds. nat (ConsecutiveProbes rule) \<le> longest k (keys_of rule d) 0)"
      using gather_facts [of "nat (ConsecutiveProbes rule)" rule ds k] by blast
    with lookup [OF that] show ?thesis
      by (auto simp: persisted_def run_seen_def longest_run_iff)
  qed
  have deps: "set (e_deployments e) = d_id ` {d \<in> set ds. Some k \<in> set (keys_of rule d)}"
    and dist: "distinct (e_deployments e)" if "(k, e) \<in> set (gather rule ds)" for k e
  proof -
    have "deps_seen (gather rule ds) k = e_deployments e"
      by (simp add: deps_seen_def lookup [OF that])
    with gather_facts [of 0 rule ds k]
    show "set (e_deployments e) = d_id ` {d \<in> set ds. Some k \<in> set (keys_of rule d)}"
      and "distinct (e_deployments e)" by metis+
  qed
  have broad: "(0 < DistinctDeployments rule \<and> DistinctDeployments rule \<le> int (length (e_deployments e)))
      = broadened rule ds k" if "(k, e) \<in> set (gather rule ds)" for k e
    using distinct_card [OF dist [OF that]] by (simp add: broadened_def deps [OF that, symmetric])
  show "c \<in> set (candidate_of rule (k, e)) \<Longrightarrow>
      cand_key c = k \<and> c_reason c = promotionReason (persisted rule ds k) (broadened rule ds k)
      \<and> (persisted rule ds k \<or> broadened rule ds k)
      \<and> set (c_deployments c) = d_id ` {d \<in> set ds. Some k \<in> set (keys_of rule d)}"
    using deps [OF mem] unfolding candidate_of_def Let_def
    by (cases k) (auto simp: pers [OF mem] broad [OF mem] cand_key_def sortedKeys_def split: if_splits)
  show "persisted rule ds k \<or> broadened rule ds k \<Longrightarrow> candidate_of rule (k, e) \<noteq> []"
    using pers [OF mem] broad [OF mem] unfolding candidate_of_def Let_def by (cases k) auto
qed

text \<open>The promotion gate is exact. Whatever order the map is iterated in, a key is a candidate
  exactly when some deployment reported it in the required number of probes in a row, or the
  required number of distinct deployments reported it at all; the reason says which; and the
  deployments listed are exactly those that reported it.\<close>

theorem PromotionCandidates_correct:
  assumes "\<And>xs. mset (it xs) = mset xs"
  shows "((\<exists>c \<in> set (PromotionCandidates it ds rule). cand_key c = k)
           \<longleftrightarrow> persisted rule ds k \<or> broadened rule ds k)
    \<and> (\<forall>c \<in> set (PromotionCandidates it ds rule).
           c_reason c = promotionReason (persisted rule ds (cand_key c)) (broadened rule ds (cand_key c))
           \<and> set (c_deployments c) = d_id ` {d \<in> set ds. Some (cand_key c) \<in> set (keys_of rule d)})"
proof -
  have perm: "set (it xs) = set xs" for xs using assms mset_eq_setD by blast
  have mem: "c \<in> set (PromotionCandidates it ds rule) \<longleftrightarrow>
      (\<exists>ke \<in> set (gather rule ds). c \<in> set (candidate_of rule ke))" for c
    by (simp add: PromotionCandidates_def perm)
  have shown: "c_reason c = promotionReason (persisted rule ds (cand_key c)) (broadened rule ds (cand_key c))
           \<and> set (c_deployments c) = d_id ` {d \<in> set ds. Some (cand_key c) \<in> set (keys_of rule d)}"
    if "c \<in> set (PromotionCandidates it ds rule)" for c
    using that unfolding mem using candidate_of_facts by fastforce
  have "(\<exists>c \<in> set (PromotionCandidates it ds rule). cand_key c = k)
           \<longleftrightarrow> persisted rule ds k \<or> broadened rule ds k"
  proof
    assume "\<exists>c \<in> set (PromotionCandidates it ds rule). cand_key c = k"
    then obtain c j e where "(j, e) \<in> set (gather rule ds)" "c \<in> set (candidate_of rule (j, e))"
      "cand_key c = k" by (auto simp: mem)
    with candidate_of_facts(1) [of j e rule ds] show "persisted rule ds k \<or> broadened rule ds k" by blast
  next
    assume r: "persisted rule ds k \<or> broadened rule ds k"
    have "\<exists>d \<in> set ds. Some k \<in> set (keys_of rule d)"
    proof (rule ccontr)
      assume n: "\<not> ?thesis"
      then have none: "{d \<in> set ds. Some k \<in> set (keys_of rule d)} = {}" by blast
      have "\<not> broadened rule ds k" unfolding broadened_def none by simp
      moreover have "\<not> persisted rule ds k"
        using n by (fastforce simp: persisted_def)
      ultimately show False using r by blast
    qed
    then have "known_key (gather rule ds) k" using gather_facts [of 0 rule ds k] by blast
    then obtain e where e: "(k, e) \<in> set (gather rule ds)" by (auto simp: known_key_def dest: map_of_SomeD)
    from candidate_of_exists [OF this r] obtain c where "c \<in> set (candidate_of rule (k, e))"
      by (meson list.set_intros(1) neq_Nil_conv last_in_set)
    with e candidate_of_facts(1) [OF e this] show "\<exists>c \<in> set (PromotionCandidates it ds rule). cand_key c = k"
      using mem by blast
  qed
  with shown show ?thesis by blast
qed

definition sample_failing :: "string \<Rightarrow> deployment" where
  "sample_failing i = zero_deployment\<lparr>d_id := i, d_scenario := ''web'', d_observations :=
     [\<lparr>o_at = 1, o_status = ObservationUnreachable, o_detail = ''refused'', o_version = VersionUnchecked\<rparr>]\<rparr>"

lemma keys_of_failing:
  "keys_of DefaultPromotionRule (sample_failing i) = [Some (ObservationUnreachable, False, ''refused'')]"
  by (simp add: sample_failing_def zero_deployment_def keys_of_def obs_key_of_def adverse_def versionDrift_def
      Healthy_def DefaultPromotionRule_def)

theorem PromotionCandidates_correct_witness:
  "\<exists>c \<in> set (PromotionCandidates (\<lambda>xs. xs) [sample_failing ''a'', sample_failing ''b''] DefaultPromotionRule).
     cand_key c = (ObservationUnreachable, False, ''refused'')"
proof -
  let ?k = "(ObservationUnreachable, False, ''refused'')"
  have "{d \<in> set [sample_failing ''a'', sample_failing ''b'']. Some ?k \<in> set (keys_of DefaultPromotionRule d)}
      = {sample_failing ''a'', sample_failing ''b''}"
    by (auto simp: keys_of_failing)
  moreover have "card (d_id ` {sample_failing ''a'', sample_failing ''b''}) = 2" by (simp add: sample_failing_def)
  ultimately have "broadened DefaultPromotionRule [sample_failing ''a'', sample_failing ''b''] ?k"
    by (simp only: broadened_def) (simp add: DefaultPromotionRule_def)
  then show ?thesis
    using PromotionCandidates_correct [of "\<lambda>xs. xs" "[sample_failing ''a'', sample_failing ''b'']" DefaultPromotionRule ?k]
    by blast
qed

end
