(* ===== verification/Redaction.thy ===== *)
theory Redaction
  imports Regex
begin

text \<open>
  \<^verbatim>\<open>internal/generator/redaction.go\<close>: the redaction of secrets from diagnostics, the scrub of
  AWS account ids at the publish sinks, and the cut that never splits an account id. The registry
  of account ids is explicit state, a list. Positions are byte offsets and a span is a half-open
  interval of them.
\<close>

subsection \<open>Secrets\<close>

text \<open>\<^verbatim>\<open>strings.ReplaceAll\<close> for a non-empty text to replace.\<close>

function replace_text :: "string \<Rightarrow> string \<Rightarrow> string \<Rightarrow> string" where
  "replace_text s old new =
     (if s = [] \<or> old = [] then s
      else if has_prefix s old then new @ replace_text (drop (length old) s) old new
      else hd s # replace_text (tl s) old new)"
  by pat_completeness auto
termination
  by (relation "measure (\<lambda>(s, old, new). length s)") auto

declare replace_text.simps [simp del]

definition alnum :: "char \<Rightarrow> bool" where
  "alnum c \<longleftrightarrow> char_between CHR ''A'' CHR ''Z'' c \<or> char_between CHR ''a'' CHR ''z'' c
     \<or> char_between CHR ''0'' CHR ''9'' c"

definition bearerTokenPattern :: regex where
  "bearerTokenPattern = seqs [fold_re ''bearer'', some_re space_re,
     some_re (Chr (\<lambda>c. alnum c \<or> c \<in> set ''._-''))]"

definition openRouterTokenPattern :: regex where
  "openRouterTokenPattern = seqs [Word_Boundary, text_re ''sk-or-v1-'',
     some_re (Chr (\<lambda>c. alnum c \<or> c \<in> set ''_-'')), Word_Boundary]"

definition scenarioPattern :: regex where
  "scenarioPattern = seqs [fold_re ''scenario:'', many space_re,
     some_re (Chr (\<lambda>c. alnum c \<or> c \<in> set ''._-''))]"

definition apostrophe :: char where
  "apostrophe = CHR 0x27"

definition secretAssignPattern :: regex where
  "secretAssignPattern = seqs [Word_Boundary,
     Grp 1 (alts (seqs [fold_re ''api'', opt_re (Chr (\<lambda>c. c \<in> set ''_-'')), fold_re ''key''])
       [fold_re ''token'', fold_re ''secret'', fold_re ''password'']),
     Word_Boundary, many space_re, Chr (\<lambda>c. c \<in> set '':=''), many space_re,
     Grp 2 (alts (seqs [lit_char CHR 0x22, many (Chr (\<lambda>c. c \<noteq> CHR 0x22)), lit_char CHR 0x22])
       [seqs [lit_char apostrophe, many (Chr (\<lambda>c. c \<noteq> apostrophe)), lit_char apostrophe],
        some_re (Chr (\<lambda>c. \<not> re_space c \<and> c \<notin> set '',;''))])]"

definition redacted :: string where
  "redacted = ''[REDACTED]''"

text \<open>\<open>env_values\<close> are the values of the environment map in the order it is iterated.\<close>

definition redactTransportDetail :: "string \<Rightarrow> string \<Rightarrow> string list \<Rightarrow> string list \<Rightarrow> string" where
  "redactTransportDetail detail prompt env_values extraSecrets =
     (let secrets = (if prompt \<noteq> [] then [prompt] else [])
            @ filter (\<lambda>s. s \<noteq> []) extraSecrets @ filter (\<lambda>v. v \<noteq> []) env_values;
          r0 = foldl (\<lambda>r s. replace_text r s redacted) detail secrets;
          r1 = replace_all bearerTokenPattern (\<lambda>_. ''Bearer '' @ redacted) r0;
          r2 = replace_all openRouterTokenPattern (\<lambda>_. ''sk-or-v1-'' @ redacted) r1;
          r3 = replace_all scenarioPattern (\<lambda>_. ''scenario: '' @ redacted) r2;
          r4 = replace_all secretAssignPattern (\<lambda>m. group_of m 1 @ ''='' @ redacted) r3
      in trim_space r4)"

definition RedactSecretLikeText :: "string \<Rightarrow> string" where
  "RedactSecretLikeText input = redactTransportDetail input [] [] []"

subsection \<open>The account registry\<close>

definition accountIDPlaceholder :: string where
  "accountIDPlaceholder = ''ACCOUNT_ID''"

definition accountIDDigits :: nat where
  "accountIDDigits = 12"

definition accountGroupDigits :: nat where
  "accountGroupDigits = 4"

definition isAccountID :: "string \<Rightarrow> bool" where
  "isAccountID i \<longleftrightarrow> length i = accountIDDigits \<and> list_all is_digit i"

fun register_loop :: "string list \<Rightarrow> string list \<Rightarrow> string list" where
  "register_loop known [] = known"
| "register_loop known (i # ids) =
     (let i' = trim_space i in
      if \<not> isAccountID i' \<or> i' \<in> set known then register_loop known ids
      else register_loop (known @ [i']) ids)"

text \<open>The new registry, and the one \<^verbatim>\<open>restore\<close> puts back.\<close>

definition RegisterScrubbedAccounts :: "string list \<Rightarrow> string list \<Rightarrow> string list \<times> string list" where
  "RegisterScrubbedAccounts known ids = (register_loop known ids, known)"

definition account_alt :: "string \<Rightarrow> regex" where
  "account_alt i =
     (let sep = opt_re (Chr (\<lambda>c. c \<in> set ''- '')) in
      seqs [text_re (take accountGroupDigits i), sep,
        text_re (take accountGroupDigits (drop accountGroupDigits i)), sep,
        text_re (drop (2 * accountGroupDigits) i)])"

text \<open>No id registered is no pattern at all.\<close>

definition knownAccountsPattern :: "string list \<Rightarrow> regex option" where
  "knownAccountsPattern ids =
     (case map account_alt ids of [] \<Rightarrow> None | r # rs \<Rightarrow> Some (alts r rs))"

subsection \<open>Account spans\<close>

type_synonym span = "nat \<times> nat"

definition repeat_re :: "nat \<Rightarrow> regex \<Rightarrow> regex" where
  "repeat_re n r = seqs (replicate n r)"

definition arn_char :: regex where
  "arn_char = Chr (\<lambda>c. alnum c \<or> c = CHR ''-'')"

text \<open>The account field, group 1, is the end of the match.\<close>

definition arnAccountPattern :: regex where
  "arnAccountPattern = seqs [text_re ''arn:'', some_re arn_char, lit_char CHR '':'', some_re arn_char,
     lit_char CHR '':'', many arn_char, lit_char CHR '':'', Grp 1 (repeat_re 12 digit_re)]"

definition hex_char :: "char \<Rightarrow> bool" where
  "hex_char c \<longleftrightarrow> is_digit c \<or> char_between CHR ''A'' CHR ''F'' c \<or> char_between CHR ''a'' CHR ''f'' c"

definition uuidPattern :: regex where
  "uuidPattern = (let h = Chr hex_char; dash = lit_char CHR ''-'' in
     seqs [repeat_re 8 h, dash, repeat_re 4 h, dash, repeat_re 4 h, dash, repeat_re 4 h, dash,
       repeat_re 12 h])"

definition digitRunPattern :: regex where
  "digitRunPattern = some_re digit_re"

definition alnumTokenPattern :: regex where
  "alnumTokenPattern = some_re (Chr alnum)"

definition publicAMIOwners :: "string list" where
  "publicAMIOwners = [''099720109477'', ''309956199498'', ''136693071363'', ''801119661308'']"

definition sub_text :: "string \<Rightarrow> nat \<Rightarrow> nat \<Rightarrow> string" where
  "sub_text s a b = take (b - a) (drop a s)"

definition index_spans :: "regex \<Rightarrow> string \<Rightarrow> span list" where
  "index_spans r s = map (\<lambda>(a, b, _). (a, b)) (find_all_index r s)"

text \<open>\<^verbatim>\<open>^[0-9a-f]{16,}$\<close> on the whole token.\<close>

definition hexToken :: "string \<Rightarrow> bool" where
  "hexToken t \<longleftrightarrow> 16 \<le> length t
     \<and> list_all (\<lambda>c. is_digit c \<or> char_between CHR ''a'' CHR ''f'' c) t"

definition hexTokenSpans :: "string \<Rightarrow> span list" where
  "hexTokenSpans s = filter (\<lambda>(a, b). hexToken (sub_text s a b)) (index_spans alnumTokenPattern s)"

definition insideAny :: "span \<Rightarrow> span list \<Rightarrow> bool" where
  "insideAny sp spans \<longleftrightarrow> list_ex (\<lambda>ot. fst ot \<le> fst sp \<and> snd sp \<le> snd ot) spans"

definition digitAt :: "string \<Rightarrow> nat \<Rightarrow> bool" where
  "digitAt s i \<longleftrightarrow> i < length s \<and> is_digit (s ! i)"

definition raw_spans :: "string \<Rightarrow> regex option \<Rightarrow> span list" where
  "raw_spans s known =
     (let notIDs = hexTokenSpans s @ index_spans uuidPattern s in
      (case known of None \<Rightarrow> [] | Some r \<Rightarrow> index_spans r s)
      @ concat (map (\<lambda>(a, b, m). if digitAt s b then [] else [(b - length (group_of m 1), b)])
          (find_all_index arnAccountPattern s))
      @ filter (\<lambda>sp. snd sp - fst sp = accountIDDigits \<and> \<not> insideAny sp notIDs
            \<and> sub_text s (fst sp) (snd sp) \<notin> set publicAMIOwners)
          (index_spans digitRunPattern s))"

text \<open>
  Overlapping spans are merged from left to right; the accumulator holds the merged spans, latest
  first. \<^verbatim>\<open>sort.Slice\<close> may order spans with one start either way, and merging gives the same
  span for both, since no span is empty.
\<close>

fun merge_spans :: "span list \<Rightarrow> span list \<Rightarrow> span list" where
  "merge_spans acc [] = rev acc"
| "merge_spans [] (sp # sps) = merge_spans [sp] sps"
| "merge_spans ((a, b) # acc) (sp # sps) =
     (if fst sp < b then merge_spans ((a, max b (snd sp)) # acc) sps
      else merge_spans (sp # (a, b) # acc) sps)"

definition accountSpans :: "string \<Rightarrow> regex option \<Rightarrow> span list" where
  "accountSpans s known = merge_spans [] (sort_key fst (raw_spans s known))"

fun scrub_from :: "string \<Rightarrow> nat \<Rightarrow> span list \<Rightarrow> string" where
  "scrub_from s pos [] = drop pos s"
| "scrub_from s pos ((a, b) # sps) = sub_text s pos a @ accountIDPlaceholder @ scrub_from s b sps"

definition scrubWith :: "string \<Rightarrow> regex option \<Rightarrow> string" where
  "scrubWith s known =
     (let spans = accountSpans s known in if spans = [] then s else scrub_from s 0 spans)"

definition ScrubAccountIDs :: "string list \<Rightarrow> string \<Rightarrow> string" where
  "ScrubAccountIDs known s = scrubWith s (knownAccountsPattern known)"

subsection \<open>Cutting\<close>

text \<open>\<^verbatim>\<open>utf8.RuneStart\<close>.\<close>

definition rune_start :: "char \<Rightarrow> bool" where
  "rune_start c \<longleftrightarrow> \<not> (128 \<le> (of_char c :: nat) \<and> (of_char c :: nat) < 192)"

fun back_to_rune :: "string \<Rightarrow> nat \<Rightarrow> nat" where
  "back_to_rune s 0 = 0"
| "back_to_rune s (Suc n) = (if rune_start (s ! Suc n) then Suc n else back_to_rune s n)"

definition back_off :: "nat \<Rightarrow> span \<Rightarrow> nat" where
  "back_off ct sp = (if fst sp < ct \<and> ct < snd sp then fst sp else ct)"

definition CutText :: "string list \<Rightarrow> string \<Rightarrow> nat \<Rightarrow> string" where
  "CutText known s n =
     (if length s \<le> n then s
      else take (foldl back_off (back_to_rune s n) (accountSpans s (knownAccountsPattern known))) s)"

subsection \<open>Merged spans\<close>

text \<open>A chain: spans that start at or after a point, each after the last one's end, none empty.\<close>

fun chain :: "nat \<Rightarrow> span list \<Rightarrow> bool" where
  "chain n [] = True"
| "chain n ((a, b) # sps) \<longleftrightarrow> n \<le> a \<and> a < b \<and> chain b sps"

definition covers :: "span list \<Rightarrow> span \<Rightarrow> bool" where
  "covers sps sp \<longleftrightarrow> (\<exists>(a, b) \<in> set sps. a \<le> fst sp \<and> snd sp \<le> b)"

lemma chain_append: "chain n (xs @ [(a, b)]) \<Longrightarrow> b \<le> c \<Longrightarrow> c < d \<Longrightarrow> chain n (xs @ [(a, b), (c, d)])"
  by (induction n xs rule: chain.induct) auto

lemma chain_grow: "chain n (xs @ [(a, b)]) \<Longrightarrow> b \<le> b' \<Longrightarrow> chain n (xs @ [(a, b')])"
  by (induction n xs rule: chain.induct) auto

lemma merge_chain:
  "sorted (map fst sps) \<Longrightarrow> (\<forall>(a, b) \<in> set sps. a < b) \<Longrightarrow> chain 0 (rev acc) \<Longrightarrow>
   (case acc of [] \<Rightarrow> True | (a, b) # _ \<Rightarrow> \<forall>sp \<in> set sps. a \<le> fst sp) \<Longrightarrow>
   chain 0 (merge_spans acc sps)"
proof (induction acc sps rule: merge_spans.induct)
  case (3 a b acc sp sps)
  obtain c d where sp: "sp = (c, d)" by fastforce
  show ?case
  proof (cases "c < b")
    case True
    have "chain 0 (rev acc @ [(a, max b d)])"
      by (rule chain_grow [of _ _ _ b]) (use 3 in auto)
    with 3 True sp show ?thesis by auto
  next
    case False
    have "chain 0 (rev acc @ [(a, b), (c, d)])"
      by (rule chain_append) (use 3 False sp in auto)
    with 3 False sp show ?thesis by auto
  qed
qed auto

lemma merge_covers:
  "(\<forall>(a, b) \<in> set sps. a < b) \<Longrightarrow> sorted (map fst sps) \<Longrightarrow>
   (case acc of [] \<Rightarrow> True | (a, b) # _ \<Rightarrow> \<forall>sp \<in> set sps. a \<le> fst sp) \<Longrightarrow>
   sp \<in> set sps \<or> covers acc sp \<Longrightarrow> covers (merge_spans acc sps) sp"
proof (induction acc sps rule: merge_spans.induct)
  case (1 acc)
  then show ?case by (auto simp: covers_def)
next
  case (2 q sps)
  have "sp \<in> set sps \<or> covers [q] sp" using 2 by (auto simp: covers_def split: prod.splits)
  with 2 show ?case by (auto split: prod.splits)
next
  case (3 a b acc q sps)
  obtain c d where q: "q = (c, d)" by fastforce
  show ?case
  proof (cases "c < b")
    case True
    have "sp \<in> set sps \<or> covers ((a, max b d) # acc) sp"
      using 3 q True by (fastforce simp: covers_def)
    with 3 True q show ?thesis by auto
  next
    case False
    have "sp \<in> set sps \<or> covers (q # (a, b) # acc) sp"
      using 3 q False by (fastforce simp: covers_def)
    with 3 False q show ?thesis by auto
  qed
qed

lemma index_spans_bounds: "(a, b) \<in> set (index_spans r s) \<Longrightarrow> a < b \<and> b \<le> length s"
  by (auto simp: index_spans_def dest: find_all_index_bounds)


subsection \<open>The account field of an ARN\<close>

lemma ways_Chr_length: "m' \<in> set (ways (Chr p) m) \<Longrightarrow> length (m_rest m) = Suc (length (m_rest m'))"
  by (cases "m_rest m") (auto split: if_splits)

lemma ways_Seq: "m' \<in> set (ways (Seq a b) m) \<longleftrightarrow> (\<exists>m1 \<in> set (ways a m). m' \<in> set (ways b m1))"
  by auto

lemma ways_repeat:
  "m' \<in> set (ways (repeat_re n (Chr p)) m) \<Longrightarrow> length (m_rest m) = n + length (m_rest m')"
  by (induction n arbitrary: m)
     (auto simp: repeat_re_def simp del: ways.simps(2) dest!: ways_Chr_length)

lemma ways_seqs_snoc:
  "m' \<in> set (ways (seqs (rs @ [r])) m) \<longleftrightarrow> (\<exists>m1 \<in> set (ways (seqs rs) m). m' \<in> set (ways r m1))"
  by (induction rs arbitrary: m) auto

lemma ways_group:
  "m' \<in> set (ways (Grp i (repeat_re n (Chr p))) m) \<Longrightarrow>
   length (group_of m' i) = n \<and> length (m_rest m) = n + length (m_rest m')"
  by (auto simp: group_of_def dest!: ways_repeat)

lemma arn_group:
  assumes "(a, b, m) \<in> set (find_all_index arnAccountPattern s)"
  shows "length (group_of m 1) = 12"
proof -
  have "\<exists>q. m \<in> set (ways arnAccountPattern q)"
  proof -
    have hit: "Hit t m \<in> set (pieces r b0 s0) \<Longrightarrow> \<exists>q. m \<in> set (ways r q)" for t m r b0 s0
    proof (induction r b0 s0 rule: pieces.induct)
      case (1 r b0 s0)
      show ?case
      proof (cases s0)
        case (Cons c u)
        show ?thesis
        proof (cases "match_here r b0 s0")
          case None
          with 1 Cons show ?thesis by (subst (asm) (2) pieces.simps) auto
        next
          case (Some m1)
          have "m1 \<in> set (ways r \<lparr>m_before = b0, m_rest = s0, m_caps = []\<rparr>)"
            using Some by (auto simp: match_here_def head_opt_def split: list.splits)
          with "1.IH"(2,3) [OF Cons Some] "1.prems" Cons Some show ?thesis
            by (subst (asm) pieces.simps) (auto split: if_splits)
        qed
      qed (use "1.prems" in \<open>simp add: pieces.simps\<close>)
    qed
    have "(a, b, m) \<in> set (piece_spans k ps) \<Longrightarrow> \<exists>t. Hit t m \<in> set ps" for k ps
      by (induction k ps rule: piece_spans.induct) auto
    with assms hit show ?thesis unfolding find_all_index_def by blast
  qed
  then obtain q where q: "m \<in> set (ways arnAccountPattern q)" ..
  have "arnAccountPattern = seqs ([text_re ''arn:'', some_re arn_char, lit_char CHR '':'', some_re arn_char,
     lit_char CHR '':'', many arn_char, lit_char CHR '':''] @ [Grp 1 (repeat_re 12 digit_re)])"
    by (simp add: arnAccountPattern_def)
  with q have "\<exists>m1. m \<in> set (ways (Grp 1 (repeat_re 12 digit_re)) m1)"
    by (metis ways_seqs_snoc)
  then show ?thesis unfolding digit_re_def by (blast dest: ways_group)
qed

lemma raw_spans_bounds: "(a, b) \<in> set (raw_spans s known) \<Longrightarrow> a < b \<and> b \<le> length s"
  using find_all_index_bounds [of _ b _ arnAccountPattern s] arn_group [of _ b _ s]
  by (fastforce simp: raw_spans_def Let_def split: option.splits if_splits dest: index_spans_bounds)

lemma accountSpans_chain: "chain 0 (accountSpans s known)"
  unfolding accountSpans_def
  by (rule merge_chain) (auto dest: raw_spans_bounds)

lemma merge_bounds:
  "\<forall>(a, b) \<in> set acc \<union> set sps. b \<le> n \<Longrightarrow> \<forall>(a, b) \<in> set (merge_spans acc sps). b \<le> n"
  by (induction acc sps rule: merge_spans.induct) auto

lemma accountSpans_bounds: "\<forall>(a, b) \<in> set (accountSpans s known). b \<le> length s"
  unfolding accountSpans_def by (rule merge_bounds) (auto dest: raw_spans_bounds)

lemma accountSpans_covers:
  assumes "sp \<in> set (raw_spans s known)"
  shows "covers (accountSpans s known) sp"
  unfolding accountSpans_def
  by (rule merge_covers) (use assms in \<open>auto dest: raw_spans_bounds\<close>)

subsection \<open>Cutting never splits a span\<close>

lemma chain_start: "chain n sps \<Longrightarrow> (a, b) \<in> set sps \<Longrightarrow> n \<le> a \<and> a < b"
  by (induction n sps rule: chain.induct) auto

lemma chain_weaken: "chain n sps \<Longrightarrow> k \<le> n \<Longrightarrow> chain k sps"
  by (cases sps) (auto split: prod.splits)

lemma back_off_keeps: "chain n sps \<Longrightarrow> ct \<le> n \<Longrightarrow> foldl back_off ct sps = ct"
proof (induction n sps arbitrary: ct rule: chain.induct)
  case (2 n a b sps)
  then show ?case by (auto simp: back_off_def)
qed simp

lemma back_off_outside:
  "chain n sps \<Longrightarrow> foldl back_off ct sps \<le> ct \<and>
   (\<forall>(a, b) \<in> set sps. \<not> (a < foldl back_off ct sps \<and> foldl back_off ct sps < b))"
proof (induction n sps arbitrary: ct rule: chain.induct)
  case (2 n a b sps)
  show ?case
  proof (cases "a < ct \<and> ct < b")
    case True
    then have "foldl back_off ct ((a, b) # sps) = a"
      using 2 by (simp add: back_off_def back_off_keeps [of b])
    moreover have "\<forall>(c, d) \<in> set sps. b \<le> c" using 2 chain_start by fastforce
    ultimately show ?thesis using True 2 by fastforce
  next
    case False
    then have "back_off ct (a, b) = ct" unfolding back_off_def by simp
    then have eq: "foldl back_off ct ((a, b) # sps) = foldl back_off ct sps" by simp
    show ?thesis
    proof (cases "ct \<le> b")
      case True
      with 2 have keep: "foldl back_off ct sps = ct" by (auto intro: back_off_keeps)
      have "\<forall>(a, b) \<in> set sps. \<not> (a < foldl back_off ct sps \<and> foldl back_off ct sps < b)"
        using "2.IH" [of ct] "2.prems" by simp
      with keep eq False show ?thesis by simp
    next
      case below: False
      have "b \<le> foldl back_off ct sps"
      proof -
        have "b \<le> ct" using below by simp
        then show ?thesis using \<open>chain n ((a, b) # sps)\<close>
        proof -
          have "chain b sps \<Longrightarrow> b \<le> ct \<Longrightarrow> b \<le> foldl back_off ct sps" for sps ct
          proof (induction sps arbitrary: ct)
            case (Cons sp sps)
            obtain c d where sp: "sp = (c, d)" by fastforce
            have "b \<le> back_off ct sp" using Cons.prems sp by (auto simp: back_off_def)
            moreover have "chain b sps" using Cons.prems sp by (auto intro: chain_weaken)
            ultimately show ?case using Cons.IH by simp
          qed simp
          with \<open>b \<le> ct\<close> \<open>chain n ((a, b) # sps)\<close> show ?thesis by simp
        qed
      qed
      with 2 eq show ?thesis by auto
    qed
  qed
qed simp

lemma back_to_rune_le: "back_to_rune s n \<le> n"
  by (induction n) auto

subsection \<open>Scrubbing removes every registered id\<close>

lemma digits_placeholder: "\<not> is_digit c \<Longrightarrow> list_all is_digit d \<Longrightarrow> d \<noteq> [] \<Longrightarrow>
   contains (x @ c # y) d \<Longrightarrow> contains x d \<or> contains y d"
proof -
  assume nd: "\<not> is_digit c" and d: "list_all is_digit d" "d \<noteq> []" and "contains (x @ c # y) d"
  then obtain p q where e: "x @ c # y = p @ d @ q" by (auto simp: contains_iff)
  then consider (left) us where "x = p @ d @ us" | (right) us where "y = us @ d @ q"
    | (mid) "c \<in> set d"
    by (auto simp: append_eq_append_conv2 append_eq_Cons_conv Cons_eq_append_conv)
  then show "contains x d \<or> contains y d"
  proof cases
    case mid
    with nd d show ?thesis by (auto simp: list_all_iff)
  qed (auto simp: contains_iff)
qed

lemma digits_placeholder_word:
  "list_all (\<lambda>c. \<not> is_digit c) w \<Longrightarrow> w \<noteq> [] \<Longrightarrow> list_all is_digit d \<Longrightarrow> d \<noteq> [] \<Longrightarrow>
   contains (x @ w @ y) d \<Longrightarrow> contains x d \<or> contains y d"
proof (induction w arbitrary: x)
  case (Cons c w)
  then have "contains x d \<or> contains (w @ y) d"
    using digits_placeholder [of c d x "w @ y"] by simp
  with Cons show ?case by (cases "w = []") (use Cons.IH [of "[]"] in auto)
qed simp

text \<open>An occurrence of digits in the scrubbed text is one in the subject, outside every span.\<close>

definition occurs_at :: "string \<Rightarrow> string \<Rightarrow> nat \<Rightarrow> bool" where
  "occurs_at s d i \<longleftrightarrow> take (length d) (drop i s) = d"

lemma contains_sub_text:
  "contains (sub_text s n a) d \<Longrightarrow> d \<noteq> [] \<Longrightarrow> \<exists>i. n \<le> i \<and> i + length d \<le> a \<and> occurs_at s d i"
proof -
  assume c: "contains (sub_text s n a) d" and ne: "d \<noteq> []"
  then obtain x y where e: "sub_text s n a = x @ d @ y" by (auto simp: contains_iff)
  have len: "length x + length d \<le> a - n"
    using arg_cong [OF e, of length] by (auto simp: sub_text_def)
  moreover have "length d > 0" using ne by simp
  ultimately have "length x + length d \<le> a - n" "n < a" by (cases "n < a"; simp)+
  moreover have "occurs_at s d (n + length x)"
  proof -
    have "take (length d) (drop (length x) (sub_text s n a)) = d" by (simp add: e)
    then show ?thesis using calculation
      by (simp add: occurs_at_def sub_text_def drop_take take_take min_def add.commute split: if_splits)
  qed
  ultimately show ?thesis by (intro exI [of _ "n + length x"]) auto
qed

lemma scrub_from_digits:
  "chain n sps \<Longrightarrow> list_all is_digit d \<Longrightarrow> d \<noteq> [] \<Longrightarrow> contains (scrub_from s n sps) d \<Longrightarrow>
   \<exists>i \<ge> n. occurs_at s d i \<and> (\<forall>(a, b) \<in> set sps. i + length d \<le> a \<or> b \<le> i)"
proof (induction s n sps rule: scrub_from.induct)
  case (1 s n)
  then obtain x y where "drop n s = x @ d @ y" by (auto simp: contains_iff)
  then have "drop (length x + n) s = d @ y" by (metis append_eq_conv_conj drop_drop)
  then have "occurs_at s d (length x + n)" by (simp add: occurs_at_def)
  then show ?case by (intro exI [of _ "length x + n"]) simp
next
  case (2 s n a b sps)
  have ph: "list_all (\<lambda>c. \<not> is_digit c) accountIDPlaceholder" "accountIDPlaceholder \<noteq> []"
    by (simp_all add: accountIDPlaceholder_def is_digit_def char_between_def)
  have "contains (sub_text s n a) d \<or> contains (scrub_from s b sps) d"
    by (rule digits_placeholder_word [OF ph]) (use 2 in auto)
  then show ?case
  proof
    assume "contains (sub_text s n a) d"
    then obtain i where i: "n \<le> i" "i + length d \<le> a" "occurs_at s d i"
      using contains_sub_text 2 by blast
    have "\<forall>(c, e) \<in> set sps. i + length d \<le> c"
      using i 2 chain_start [of b sps] by fastforce
    with i show ?thesis by auto
  next
    assume c: "contains (scrub_from s b sps) d"
    then obtain i where "b \<le> i" "occurs_at s d i" "\<forall>(a, b) \<in> set sps. i + length d \<le> a \<or> b \<le> i"
      using 2 by auto
    with 2 show ?thesis by (intro exI [of _ i]) auto
  qed
qed

lemma ways_text:
  "m_rest m = p @ u \<Longrightarrow> \<exists>m'. m' \<in> set (ways (text_re p) m) \<and> m_rest m' = u"
  by (induction p arbitrary: m) (auto simp: text_re_def lit_char_def)

lemma ways_text_length:
  "m' \<in> set (ways (text_re p) m) \<Longrightarrow> length (m_rest m) = length p + length (m_rest m')"
  by (induction p arbitrary: m)
     (auto simp: text_re_def lit_char_def simp del: ways.simps(2) dest!: ways_Chr_length)

lemma ways_alts: "set (ways (alts r rs) m) = (\<Union>q \<in> set (r # rs). set (ways q m))"
  by (induction rs arbitrary: r) auto

lemma account_alt_matches:
  assumes "m_rest m = i @ u"
  shows "ways (account_alt i) m \<noteq> []"
proof -
  let ?a = "take accountGroupDigits i" and ?r = "drop accountGroupDigits i"
  let ?b = "take accountGroupDigits ?r" and ?c = "drop (2 * accountGroupDigits) i"
  have c: "?c = drop accountGroupDigits ?r" by (simp add: mult_2)
  have "m_rest m = ?a @ ?b @ ?c @ u"
    unfolding c using assms by (metis append_assoc append_take_drop_id)
  then obtain m1 where m1: "m1 \<in> set (ways (text_re ?a) m)" "m_rest m1 = ?b @ ?c @ u"
    using ways_text by metis
  then obtain m2 where m2: "m2 \<in> set (ways (text_re ?b) m1)" "m_rest m2 = ?c @ u"
    using ways_text by metis
  then obtain m3 where m3: "m3 \<in> set (ways (text_re ?c) m2)"
    using ways_text by metis
  from m1 m2 m3 have "m3 \<in> set (ways (account_alt i) m)"
    by (auto simp: account_alt_def opt_re_def Let_def)
  then show ?thesis by auto
qed

lemma account_alt_shortens:
  assumes "isAccountID i" and "m' \<in> set (ways (account_alt i) m)"
  shows "length (m_rest m') < length (m_rest m)"
proof -
  obtain r where "account_alt i = Seq (text_re (take accountGroupDigits i)) r"
    by (simp add: account_alt_def Let_def)
  with assms(2) have "m' \<in> set (ways (Seq (text_re (take accountGroupDigits i)) r) m)" by simp
  then obtain m1 where "m1 \<in> set (ways (text_re (take accountGroupDigits i)) m)" "m' \<in> set (ways r m1)"
    unfolding ways_Seq by (rule bexE)
  then have "length (m_rest m) = length (take accountGroupDigits i) + length (m_rest m1)"
      "suffix (m_rest m') (m_rest m1)"
    by (auto dest: ways_text_length ways_suffix)
  moreover have "length (take accountGroupDigits i) = 4"
    using assms(1) by (simp add: isAccountID_def accountIDDigits_def accountGroupDigits_def)
  ultimately show ?thesis by (auto dest: suffix_length_le)
qed

lemma known_consumes:
  assumes "knownAccountsPattern ids = Some r" and "\<forall>i \<in> set ids. isAccountID i" and "i \<in> set ids"
    and "s = i @ u"
  shows "consumes r b s"
proof -
  obtain q qs where q: "map account_alt ids = q # qs" "r = alts q qs"
    using assms(1) by (auto simp: knownAccountsPattern_def split: list.splits)
  let ?m = "\<lparr>m_before = b, m_rest = s, m_caps = []\<rparr>"
  have "set (q # qs) = account_alt ` set ids" by (metis q(1) list.set_map)
  then have all: "set (ways r ?m) = (\<Union>i \<in> set ids. set (ways (account_alt i) ?m))"
    unfolding q(2) ways_alts by simp
  have "ways (account_alt i) ?m \<noteq> []" by (rule account_alt_matches) (simp add: assms(4))
  with all assms(3) have ne: "ways r ?m \<noteq> []" by fastforce
  then obtain m ms where m: "ways r ?m = m # ms" by (cases "ways r ?m") auto
  with all obtain j where "j \<in> set ids" "m \<in> set (ways (account_alt j) ?m)" by auto
  then have "length (m_rest m) < length s" using account_alt_shortens assms(2) by fastforce
  with m show ?thesis by (simp add: consumes_def match_here_def head_opt_def)
qed

lemma occurrence_spanned:
  assumes "knownAccountsPattern ids = Some r" and "\<forall>i \<in> set ids. isAccountID i" and "i \<in> set ids"
    and "occurs_at s i k"
  shows "\<exists>a e. (a, e) \<in> set (index_spans r s) \<and> a \<le> k \<and> k < e"
proof (rule ccontr)
  assume none: "\<not> ?thesis"
  have "i \<noteq> []" using assms by (auto simp: isAccountID_def accountIDDigits_def)
  with assms(4) have "k < length s" by (cases "k < length s") (auto simp: occurs_at_def)
  moreover have "\<not> (a \<le> k \<and> k < e)" if "(a, e, m) \<in> set (find_all_index r s)" for a e m
  proof -
    from that have "(a, e) \<in> set (index_spans r s)" by (force simp: index_spans_def)
    with none show ?thesis by blast
  qed
  ultimately obtain b where "\<not> consumes r b (drop k s)"
    using find_all_index_miss by blast
  moreover have "drop k s = i @ drop (length i) (drop k s)"
    using assms(4) by (metis append_take_drop_id occurs_at_def)
  ultimately show False using known_consumes assms by metis
qed

lemma register_loop_ids:
  "list_all isAccountID known \<Longrightarrow> list_all isAccountID (register_loop known ids)"
  by (induction ids arbitrary: known) (simp_all add: Let_def)

subsection \<open>Properties\<close>

text \<open>
  C38. Once an account id is registered, the scrubbed text contains it nowhere, whatever the text:
  not glued to other digits, not inside an ARN, not in a hexadecimal token.
\<close>

theorem ScrubAccountIDs_removes:
  assumes "i \<in> set (fst (RegisterScrubbedAccounts [] ids))"
  shows "\<not> contains (ScrubAccountIDs (fst (RegisterScrubbedAccounts [] ids)) s) i"
proof
  define known where "known = fst (RegisterScrubbedAccounts [] ids)"
  have ok: "\<forall>i \<in> set known. isAccountID i"
    unfolding known_def RegisterScrubbedAccounts_def using register_loop_ids [of "[]" ids] by (simp add: list_all_iff)
  have i: "i \<in> set known" using assms by (simp add: known_def)
  obtain r where r: "knownAccountsPattern known = Some r"
    using i by (cases known) (auto simp: knownAccountsPattern_def)
  have d: "list_all is_digit i" "i \<noteq> []" using ok i by (auto simp: isAccountID_def accountIDDigits_def)
  assume "contains (ScrubAccountIDs (fst (RegisterScrubbedAccounts [] ids)) s) i"
  then have c: "contains (scrubWith s (Some r)) i" by (simp add: ScrubAccountIDs_def known_def [symmetric] r)
  have "contains (scrub_from s 0 (accountSpans s (Some r))) i"
    using c by (auto simp: scrubWith_def Let_def split: if_splits)
  with scrub_from_digits [OF accountSpans_chain d]
  obtain k where k: "occurs_at s i k" and out: "\<forall>(a, b) \<in> set (accountSpans s (Some r)). k + length i \<le> a \<or> b \<le> k"
    by blast
  obtain a e where "(a, e) \<in> set (index_spans r s)" and ae: "a \<le> k" "k < e"
    using occurrence_spanned [OF r ok i k] by blast
  then have "(a, e) \<in> set (raw_spans s (Some r))" by (simp add: raw_spans_def Let_def)
  from accountSpans_covers [OF this] obtain a' e'
    where "(a', e') \<in> set (accountSpans s (Some r))" "a' \<le> a" "e \<le> e'" by (auto simp: covers_def)
  with out have "k + length i \<le> a' \<or> e' \<le> k" by blast
  moreover have "length i > 0" using d by simp
  ultimately show False using ae \<open>a' \<le> a\<close> \<open>e \<le> e'\<close> by linarith
qed

theorem ScrubAccountIDs_removes_witness:
  "\<not> contains (ScrubAccountIDs (fst (RegisterScrubbedAccounts [] ['' 123456789012''])) ''arn:aws:iam::123456789012:role'') ''123456789012''"
  by (rule ScrubAccountIDs_removes) code_simp

text \<open>
  \<open>CutText\<close> returns a prefix of at most \<open>n\<close> bytes, and the cut never falls inside a span the
  scrub would replace, so no part of an account id survives a cut.
\<close>

theorem CutText_splits_no_id:
  "\<exists>k. CutText known s n = take k s \<and> length (CutText known s n) \<le> n
     \<and> list_all (\<lambda>(a, b). k \<le> a \<or> b \<le> k) (accountSpans s (knownAccountsPattern known))"
proof (cases "length s \<le> n")
  case True
  let ?sps = "accountSpans s (knownAccountsPattern known)"
  have "\<forall>(a, b) \<in> set ?sps. b \<le> length s" by (rule accountSpans_bounds)
  with True show ?thesis
    by (intro exI [of _ "length s"]) (auto simp: CutText_def list_all_iff)
next
  case False
  let ?k = "foldl back_off (back_to_rune s n) (accountSpans s (knownAccountsPattern known))"
  have "CutText known s n = take ?k s" using False by (simp add: CutText_def)
  moreover have "?k \<le> n"
    using back_off_outside [OF accountSpans_chain] back_to_rune_le le_trans by blast
  moreover have "list_all (\<lambda>(a, b). ?k \<le> a \<or> b \<le> ?k) (accountSpans s (knownAccountsPattern known))"
    using back_off_outside [OF accountSpans_chain [of s "knownAccountsPattern known"], of "back_to_rune s n"]
    by (auto simp: list_all_iff not_less)
  ultimately show ?thesis by (intro exI [of _ ?k]) (auto simp: min_def)
qed

end
