(* ===== verification/Json.thy ===== *)
theory Json
  imports Prelude
begin

text \<open>
  JSON documents as package \<^verbatim>\<open>encoding/json\<close> decodes them. A document is the value it parses to;
  text that does not parse is \<open>None\<close> in the type \<open>document\<close>. A number is its integer part
  (\<^verbatim>\<open>int(float64)\<close> truncates) and whether it is written as an integer, which decoding into an
  \<^verbatim>\<open>int\<close> field requires. Objects keep their members in order, and a later member with the same
  key wins. Decoding into a struct field matches its name without regard to case.
\<close>

datatype json =
    JNull
  | JBool bool
  | JNum int bool
  | JStr string
  | JArr "json list"
  | JObj "(string \<times> json) list"

type_synonym members = "(string \<times> json) list"
type_synonym document = "json option"

subsection \<open>Maps of any\<close>

definition jget :: "members \<Rightarrow> string \<Rightarrow> json option" where
  "jget m k = map_of (rev m) k"

text \<open>Type assertions with the comma-ok form discarded: the zero value where they fail.\<close>

fun as_str :: "json option \<Rightarrow> string" where
  "as_str (Some (JStr s)) = s"
| "as_str _ = []"

fun as_obj :: "json option \<Rightarrow> members option" where
  "as_obj (Some (JObj m)) = Some m"
| "as_obj _ = None"

fun as_arr :: "json option \<Rightarrow> json list option" where
  "as_arr (Some (JArr xs)) = Some xs"
| "as_arr _ = None"

definition jsonStr :: "members \<Rightarrow> string \<Rightarrow> string" where
  "jsonStr m k = (case jget m k of None \<Rightarrow> [] | Some v \<Rightarrow> as_str (Some v))"

fun jsonInt :: "json option \<Rightarrow> int" where
  "jsonInt (Some (JNum n _)) = n"
| "jsonInt _ = 0"

lemma as_str_None [simp]: "as_str None = []" and as_obj_None [simp]: "as_obj None = None"
  and as_arr_None [simp]: "as_arr None = None" and jsonInt_None [simp]: "jsonInt None = 0"
  by simp_all

lemma jsonStr_eq: "jsonStr m k = as_str (jget m k)"
  by (simp add: jsonStr_def split: option.splits)

lemma jget_Nil [simp]: "jget [] k = None"
  by (simp add: jget_def)

lemma jget_Cons: "jget ((a, v) # m) k = (case jget m k of None \<Rightarrow> if a = k then Some v else None | Some w \<Rightarrow> Some w)"
  by (simp add: jget_def map_add_def split: option.splits)

subsection \<open>Decoding into structs\<close>

definition jfield :: "members \<Rightarrow> string \<Rightarrow> json option" where
  "jfield m k = map_option snd (find (\<lambda>(a, _). equal_fold a k) (rev m))"

fun dec_string :: "json option \<Rightarrow> string option" where
  "dec_string None = Some []"
| "dec_string (Some JNull) = Some []"
| "dec_string (Some (JStr s)) = Some s"
| "dec_string _ = None"

fun dec_bool :: "json option \<Rightarrow> bool option" where
  "dec_bool None = Some False"
| "dec_bool (Some JNull) = Some False"
| "dec_bool (Some (JBool b)) = Some b"
| "dec_bool _ = None"

fun dec_int :: "json option \<Rightarrow> int option" where
  "dec_int None = Some 0"
| "dec_int (Some JNull) = Some 0"
| "dec_int (Some (JNum n exact)) =
     (if exact \<and> - (2 ^ 63) \<le> n \<and> n < 2 ^ 63 then Some n else None)"
| "dec_int _ = None"

fun traverse :: "('a \<Rightarrow> 'b option) \<Rightarrow> 'a list \<Rightarrow> 'b list option" where
  "traverse f [] = Some []"
| "traverse f (x # xs) =
     (case f x of None \<Rightarrow> None
      | Some y \<Rightarrow> (case traverse f xs of None \<Rightarrow> None | Some ys \<Rightarrow> Some (y # ys)))"

fun dec_list :: "(json option \<Rightarrow> 'a option) \<Rightarrow> json option \<Rightarrow> 'a list option" where
  "dec_list f None = Some []"
| "dec_list f (Some JNull) = Some []"
| "dec_list f (Some (JArr xs)) = traverse (\<lambda>x. f (Some x)) xs"
| "dec_list f _ = None"

fun dec_struct :: "(members \<Rightarrow> 'a option) \<Rightarrow> json option \<Rightarrow> 'a option" where
  "dec_struct f None = f []"
| "dec_struct f (Some JNull) = f []"
| "dec_struct f (Some (JObj m)) = f m"
| "dec_struct f _ = None"

text \<open>\<^verbatim>\<open>map[string]any\<close>; null is the nil map, which reads like an empty one.\<close>

fun dec_members :: "json option \<Rightarrow> members option" where
  "dec_members None = Some []"
| "dec_members (Some JNull) = Some []"
| "dec_members (Some (JObj m)) = Some m"
| "dec_members _ = None"

definition dec_member_list :: "json option \<Rightarrow> members list option" where
  "dec_member_list = dec_list dec_members"

lemma traverse_map: "traverse f (map g xs) = traverse (\<lambda>x. f (g x)) xs"
  by (induction xs) (auto split: option.splits)

lemma traverse_Some: "(\<And>x. x \<in> set xs \<Longrightarrow> f x = Some (g x)) \<Longrightarrow> traverse f xs = Some (map g xs)"
  by (induction xs) auto

end
