(* ===== verification/Scaleway.thy ===== *)
theory Scaleway
  imports Json Regex
begin

text \<open>
  The Scaleway side of Layer 3 in \<^verbatim>\<open>internal/harness\<close>: the client for run projects
  (\<^verbatim>\<open>run_project.go\<close>), the run-project marker and the deletability guards
  (\<^verbatim>\<open>run_project_marker.go\<close>, \<^verbatim>\<open>orphan_sweep.go\<close>), the purge of auto-created security groups
  (\<^verbatim>\<open>auto_created_purge.go\<close>) and the orphan sweep.

  The account API is not code of the repository: it is the parameter \<open>doer\<close>, a function from a
  request and the state of the outside world to an answer and a new state. Every request sent is
  also appended to the log \<open>w_log\<close>, over which the safety properties are stated. A request whose
  construction fails is one the doer refuses. The marker files are part of the modelled state,
  one per work directory; the Terraform state files belong to the outside world and are read
  through \<open>live_state\<close>.
\<close>

subsection \<open>Errors\<close>

datatype sentinel =
  ErrProtectedProject | ErrRunProjectNotYetDeletable | ErrOrphanSweepFailed | ErrNotExist | ErrCanceled

datatype go_error = Go_Error (err_text: string) (err_is: "sentinel list")

definition errorf :: "string \<Rightarrow> go_error" where
  "errorf s = Go_Error s []"

definition protected_text :: string where
  "protected_text = ''refusing to delete a project this run did not create''"

definition protected_err :: "string \<Rightarrow> go_error" where
  "protected_err s = Go_Error (protected_text @ '': '' @ s) [ErrProtectedProject]"

definition sweep_err :: "string \<Rightarrow> go_error" where
  "sweep_err s = Go_Error (''orphan sweep failed: '' @ s) [ErrOrphanSweepFailed]"

definition is_err :: "go_error \<Rightarrow> sentinel \<Rightarrow> bool" where
  "is_err e s \<longleftrightarrow> s \<in> set (err_is e)"

lemma protected_err_is [simp]: "is_err (protected_err s) ErrProtectedProject"
  by (simp add: is_err_def protected_err_def)

subsection \<open>Requests and the world\<close>

datatype http_method = GET | POST | DELETE

record request =
  rq_method :: http_method
  rq_url :: string
  rq_token :: string
  rq_body :: members

record response =
  rs_status :: int
  rs_text :: string
  rs_json :: document

text \<open>A file that holds JSON, as reading it finds it: absent, unreadable with why, or its document.\<close>

datatype json_file = File_Missing | File_Unreadable string | File_Json document

text \<open>
  A run-project marker's two fields. Terraform's live state file, as \<^verbatim>\<open>loadLiveTerraformState\<close>
  decodes it, is a list of resources with the attributes of their instances.
\<close>

record run_project_marker =
  mk_project_id :: string
  mk_name :: string

record tf_resource =
  tf_mode :: string
  tf_type :: string
  tf_provider :: string
  tf_instances :: "members list"

type_synonym tf_state = "tf_resource list"

text \<open>
  A command given to the runner: its arguments, where it runs and its environment. A directory
  made for one command holds a configuration and possibly a copied lock file.
\<close>

type_synonym env = "(string \<times> string) list"

datatype command_dir = Work_Dir string | Temp_Dir string "string option"

record command =
  cm_args :: "string list"
  cm_dir :: command_dir
  cm_env :: env

record 'w world =
  w_api :: 'w
  w_log :: "request list"
  w_cmds :: "command list"
  w_markers :: "string \<Rightarrow> json_file"

record 'w services =
  doer :: "request \<Rightarrow> 'w \<Rightarrow> (go_error + response) \<times> 'w"
  api_base :: string
  live_state :: "'w \<Rightarrow> string \<Rightarrow> json_file" \<comment> \<open>\<^verbatim>\<open>terraform-live.tfstate\<close> of a work directory\<close>
  marker_fault :: "'w \<Rightarrow> string \<Rightarrow> string option" \<comment> \<open>why the marker cannot be written\<close>
  print_body :: "document \<Rightarrow> string" \<comment> \<open>a decoded body as \<^verbatim>\<open>%v\<close> prints it\<close>

definition send :: "'w services \<Rightarrow> request \<Rightarrow> 'w world \<Rightarrow> (go_error + response) \<times> 'w world" where
  "send sv rq w =
     (let (r, a) = doer sv rq (w_api w) in (r, w\<lparr>w_api := a, w_log := w_log w @ [rq]\<rparr>))"

text \<open>A body read through a limit: text past it is cut off, and cut JSON does not decode.\<close>

definition limited_text :: "nat \<Rightarrow> response \<Rightarrow> string" where
  "limited_text n r = take n (rs_text r)"

definition limited_json :: "nat \<Rightarrow> response \<Rightarrow> document" where
  "limited_json n r = (if length (rs_text r) \<le> n then rs_json r else None)"

definition ok_status :: "int \<Rightarrow> bool" where
  "ok_status s \<longleftrightarrow> 200 \<le> s \<and> s \<le> 299"

subsection \<open>Run projects\<close>

record run_project =
  rp_id :: string
  rp_name :: string

record project_provenance =
  pv_exists :: bool
  pv_name :: string
  pv_description :: string

definition RunProjectNamePrefix :: string where
  "RunProjectNamePrefix = ''if-run-''"

definition RunProjectDescription :: string where
  "RunProjectDescription =
     ''infrafactory Layer 3 run project (ADR-0025). Disposable: created before apply, destroyed after.''"

definition maxRunProjectNameLength :: nat where
  "maxRunProjectNameLength = 60"

definition project_char :: "char \<Rightarrow> bool" where
  "project_char c \<longleftrightarrow> char_between CHR ''a'' CHR ''z'' c \<or> char_between CHR ''0'' CHR ''9'' c \<or> c = CHR ''-''"

definition runProjectNameUnsafe :: regex where
  "runProjectNameUnsafe = some_re (Chr (\<lambda>c. \<not> project_char c))"

definition runProjectNameHyphenRun :: regex where
  "runProjectNameHyphenRun = Seq (lit_char CHR ''-'') (some_re (lit_char CHR ''-''))"

definition trim_right_hyphens :: "string \<Rightarrow> string" where
  "trim_right_hyphens s = rev (dropWhile (\<lambda>c. c = CHR ''-'') (rev s))"

definition trim_hyphens :: "string \<Rightarrow> string" where
  "trim_hyphens s = trim_right_hyphens (dropWhile (\<lambda>c. c = CHR ''-'') s)"

definition clean_name :: "string \<Rightarrow> string" where
  "clean_name s =
     (let s1 = replace_all runProjectNameUnsafe (\<lambda>_. ''-'') (to_lower s)
      in trim_hyphens (replace_all runProjectNameHyphenRun (\<lambda>_. ''-'') s1))"

definition RunProjectName :: "string \<Rightarrow> string \<Rightarrow> string" where
  "RunProjectName scenario stamp =
     (let name0 = RunProjectNamePrefix @ clean_name scenario;
          s = clean_name stamp;
          name = (if s \<noteq> [] then name0 @ ''-'' @ s else name0)
      in if length name > maxRunProjectNameLength
         then trim_right_hyphens (take maxRunProjectNameLength name) else name)"

definition project_url :: "'w services \<Rightarrow> string \<Rightarrow> string" where
  "project_url sv pid = api_base sv @ ''/account/v3/projects/'' @ pid"

definition dec_id_name :: "members \<Rightarrow> (string \<times> string) option" where
  "dec_id_name m =
     (case (dec_string (jfield m ''id''), dec_string (jfield m ''name'')) of
        (Some i, Some n) \<Rightarrow> Some (i, n) | _ \<Rightarrow> None)"

definition http_text :: "int \<Rightarrow> nat \<Rightarrow> response \<Rightarrow> string" where
  "http_text st n r = ''http '' @ itoa st @ '': '' @ trim_space (limited_text n r)"

definition Create :: "'w services \<Rightarrow> string \<Rightarrow> string \<Rightarrow> string \<Rightarrow> string \<Rightarrow> 'w world
    \<Rightarrow> (go_error + run_project) \<times> 'w world" where
  "Create sv secretKey organizationID scenario stamp w =
     (if blank secretKey then (Inl (errorf ''create run project: no secret key''), w)
      else if blank organizationID then (Inl (errorf ''create run project: no organization id''), w)
      else
        let name = RunProjectName scenario stamp;
            (r, w') = send sv \<lparr>rq_method = POST, rq_url = api_base sv @ ''/account/v3/projects'',
              rq_token = secretKey, rq_body = [(''name'', JStr name),
                (''organization_id'', JStr organizationID), (''description'', JStr RunProjectDescription)]\<rparr> w
        in case r of
             Inl e \<Rightarrow> (Inl (Go_Error (''create project '' @ quote name @ '': '' @ err_text e) (err_is e)), w')
           | Inr rs \<Rightarrow>
               if \<not> ok_status (rs_status rs)
               then (Inl (errorf (''create project '' @ quote name @ '': '' @ http_text (rs_status rs) 8192 rs)), w')
               else (case limited_json 8192 rs of
                   None \<Rightarrow> (Inl (errorf ''decode create-project response''), w')
                 | Some j \<Rightarrow>
                     (case dec_struct dec_id_name (Some j) of
                        None \<Rightarrow> (Inl (errorf ''decode create-project response''), w')
                      | Some (i, n) \<Rightarrow>
                          if blank i
                          then (Inl (errorf (''create project '' @ quote name @
                            '': response carried no id, so the project cannot be tracked or destroyed'')), w')
                          else (Inr \<lparr>rp_id = i, rp_name = n\<rparr>, w'))))"

definition dec_name_description :: "members \<Rightarrow> (string \<times> string) option" where
  "dec_name_description m =
     (case (dec_string (jfield m ''name''), dec_string (jfield m ''description'')) of
        (Some n, Some d) \<Rightarrow> Some (n, d) | _ \<Rightarrow> None)"

definition gone :: project_provenance where
  "gone = \<lparr>pv_exists = False, pv_name = [], pv_description = []\<rparr>"

definition Describe :: "'w services \<Rightarrow> string \<Rightarrow> string \<Rightarrow> 'w world
    \<Rightarrow> (go_error + project_provenance) \<times> 'w world" where
  "Describe sv secretKey projectID w =
     (if blank secretKey then (Inl (errorf ''describe run project: no secret key''), w)
      else if blank projectID then (Inl (errorf ''describe run project: no project id''), w)
      else
        let (r, w') = send sv \<lparr>rq_method = GET, rq_url = project_url sv projectID,
              rq_token = secretKey, rq_body = []\<rparr> w
        in case r of
             Inl e \<Rightarrow> (Inl (Go_Error (''describe project '' @ projectID @ '': '' @ err_text e) (err_is e)), w')
           | Inr rs \<Rightarrow>
               if rs_status rs = 404 then (Inr gone, w')
               else if \<not> ok_status (rs_status rs)
               then (Inl (errorf (''describe project '' @ projectID @ '': '' @ http_text (rs_status rs) 8192 rs)), w')
               else (case limited_json 8192 rs of
                   None \<Rightarrow> (Inl (errorf ''decode describe-project response''), w')
                 | Some j \<Rightarrow>
                     (case dec_struct dec_name_description (Some j) of
                        None \<Rightarrow> (Inl (errorf ''decode describe-project response''), w')
                      | Some (n, d) \<Rightarrow>
                          (Inr \<lparr>pv_exists = True, pv_name = n, pv_description = d\<rparr>, w'))))"

definition Delete :: "'w services \<Rightarrow> string \<Rightarrow> string \<Rightarrow> 'w world \<Rightarrow> go_error option \<times> 'w world" where
  "Delete sv secretKey projectID w =
     (if blank secretKey then (Some (errorf ''delete run project: no secret key''), w)
      else if blank projectID then (Some (errorf ''delete run project: no project id''), w)
      else
        let (r, w') = send sv \<lparr>rq_method = DELETE, rq_url = project_url sv projectID,
              rq_token = secretKey, rq_body = []\<rparr> w
        in case r of
             Inl e \<Rightarrow> (Some (Go_Error (''delete project '' @ projectID @ '': '' @ err_text e) (err_is e)), w')
           | Inr rs \<Rightarrow>
               if rs_status rs = 404 then (None, w')
               else if \<not> ok_status (rs_status rs) then
                 (if rs_status rs = 412
                  then (Some (Go_Error (''delete project '' @ projectID @ '': ''
                          @ http_text (rs_status rs) 8192 rs
                          @ '': the API''@ [CHR 0x27] @ ''s resource check has not caught up yet'')
                        [ErrRunProjectNotYetDeletable]), w')
                  else (Some (errorf (''delete project '' @ projectID @ '': ''
                          @ http_text (rs_status rs) 8192 rs)), w'))
               else (None, w'))"

subsection \<open>Listing every project\<close>

record listed_project =
  lp_id :: string
  lp_name :: string
  lp_description :: string

definition maxProjectListPages :: nat where
  "maxProjectListPages = 50"

definition projectListPageSize :: nat where
  "projectListPageSize = 100"

definition dec_listed :: "members \<Rightarrow> listed_project option" where
  "dec_listed m =
     (case (dec_string (jfield m ''id''), dec_string (jfield m ''name''), dec_string (jfield m ''description'')) of
        (Some i, Some n, Some d) \<Rightarrow> Some \<lparr>lp_id = i, lp_name = n, lp_description = d\<rparr> | _ \<Rightarrow> None)"

text \<open>\<^verbatim>\<open>url.QueryEscape\<close>: unreserved bytes stay, a space is \<^verbatim>\<open>+\<close>, any other byte is \<^verbatim>\<open>%XX\<close>.\<close>

definition hex_digit :: "nat \<Rightarrow> char" where
  "hex_digit d = (if d < 10 then char_of (48 + d) else char_of (55 + d))"

definition query_char :: "char \<Rightarrow> string" where
  "query_char c =
     (if char_between CHR ''a'' CHR ''z'' c \<or> char_between CHR ''A'' CHR ''Z'' c
         \<or> char_between CHR ''0'' CHR ''9'' c \<or> c \<in> set ''-_.~'' then [c]
      else if c = CHR '' '' then ''+''
      else [CHR ''%'', hex_digit (of_char c div 16), hex_digit (of_char c mod 16)])"

definition QueryEscape :: "string \<Rightarrow> string" where
  "QueryEscape s = concat (map query_char s)"

definition listPage :: "'w services \<Rightarrow> string \<Rightarrow> string \<Rightarrow> nat \<Rightarrow> 'w world
    \<Rightarrow> (go_error + listed_project list) \<times> 'w world" where
  "listPage sv secretKey organizationID page w =
     (let (r, w') = send sv \<lparr>rq_method = GET, rq_url = api_base sv
              @ ''/account/v3/projects?organization_id='' @ QueryEscape organizationID
              @ ''&page='' @ nat_digits page @ ''&page_size='' @ nat_digits projectListPageSize,
            rq_token = secretKey, rq_body = []\<rparr> w
      in case r of
           Inl e \<Rightarrow> (Inl (Go_Error (''list projects (page '' @ nat_digits page @ ''): '' @ err_text e) (err_is e)), w')
         | Inr rs \<Rightarrow>
             if \<not> ok_status (rs_status rs)
             then (Inl (errorf (''list projects (page '' @ nat_digits page @ ''): ''
                     @ http_text (rs_status rs) 1048576 rs)), w')
             else (case limited_json 1048576 rs of
                 None \<Rightarrow> (Inl (errorf ''decode list-projects response''), w')
               | Some j \<Rightarrow>
                   (case dec_struct (\<lambda>m. dec_list (dec_struct dec_listed) (jfield m ''projects'')) (Some j) of
                      None \<Rightarrow> (Inl (errorf ''decode list-projects response''), w')
                    | Some ps \<Rightarrow> (Inr ps, w'))))"

text \<open>The loop over the pages, with the number of pages still allowed as its measure.\<close>

fun list_pages :: "(nat \<Rightarrow> 'w world \<Rightarrow> (go_error + listed_project list) \<times> 'w world) \<Rightarrow> string
    \<Rightarrow> nat \<Rightarrow> nat \<Rightarrow> listed_project list \<Rightarrow> 'w world \<Rightarrow> (go_error + listed_project list) \<times> 'w world" where
  "list_pages get org 0 page out w =
     (Inl (errorf (''list projects: more than '' @ nat_digits maxProjectListPages
        @ '' pages in organization '' @ org @ ''; refusing to report a partial estate'')), w)"
| "list_pages get org (Suc left) page out w =
     (case get page w of
        (Inl e, w') \<Rightarrow> (Inl e, w')
      | (Inr listed, w') \<Rightarrow>
          if length listed < projectListPageSize then (Inr (out @ listed), w')
          else list_pages get org left (Suc page) (out @ listed) w')"

definition ListProjects :: "'w services \<Rightarrow> string \<Rightarrow> string \<Rightarrow> 'w world
    \<Rightarrow> (go_error + listed_project list) \<times> 'w world" where
  "ListProjects sv secretKey organizationID w =
     (if blank secretKey then (Inl (errorf ''list projects: no secret key''), w)
      else if blank organizationID then (Inl (errorf ''list projects: no organization id''), w)
      else list_pages (listPage sv secretKey organizationID) organizationID maxProjectListPages 1 [] w)"

definition Provenance :: "listed_project \<Rightarrow> project_provenance" where
  "Provenance l = \<lparr>pv_exists = True, pv_name = lp_name l, pv_description = lp_description l\<rparr>"

subsection \<open>What an operation may have sent\<close>

text \<open>
  \<open>extends P w w'\<close>: the operation that went from \<open>w\<close> to \<open>w'\<close> sent only requests that satisfy
  \<open>P\<close>, in addition to what had been sent before, and wrote no marker.
\<close>

definition extends :: "(request \<Rightarrow> bool) \<Rightarrow> 'w world \<Rightarrow> 'w world \<Rightarrow> bool" where
  "extends P w w' \<longleftrightarrow> (\<exists>es. w_log w' = w_log w @ es \<and> list_all P es) \<and> w_markers w' = w_markers w"

lemma extends_refl [simp, intro]: "extends P w w"
  by (simp add: extends_def)

lemma extends_trans: "extends P w w' \<Longrightarrow> extends P w' w'' \<Longrightarrow> extends P w w''"
  by (fastforce simp: extends_def)

lemma extends_mono: "extends P w w' \<Longrightarrow> (\<And>r. P r \<Longrightarrow> Q r) \<Longrightarrow> extends Q w w'"
  by (auto simp: extends_def list_all_iff)

lemma extends_send: "P rq \<Longrightarrow> extends P w (snd (send sv rq w))"
  by (simp add: extends_def send_def split: prod.splits)

lemma extends_send_eq: "send sv rq w = (r, w') \<Longrightarrow> P rq \<Longrightarrow> extends P w w'"
  using extends_send [of P rq w sv] by simp

lemma extends_markers: "extends P w w' \<Longrightarrow> w_markers w' = w_markers w"
  by (simp add: extends_def)

definition is_get :: "request \<Rightarrow> bool" where
  "is_get rq \<longleftrightarrow> rq_method rq = GET"

definition deletes_project :: "'w services \<Rightarrow> string \<Rightarrow> request \<Rightarrow> bool" where
  "deletes_project sv pid rq \<longleftrightarrow> rq_method rq = DELETE \<and> rq_url rq = project_url sv pid"

named_theorems sent "what each operation of the client may send"

lemma Describe_sent [sent]: "extends is_get w (snd (Describe sv k p w))"
  by (auto simp: Describe_def Let_def is_get_def extends_send_eq
      split: prod.splits sum.splits option.splits)

lemma Delete_sent [sent]: "extends (deletes_project sv p) w (snd (Delete sv k p w))"
  by (auto simp: Delete_def Let_def deletes_project_def extends_send_eq
      split: prod.splits sum.splits option.splits)

lemma listPage_sent [sent]: "extends is_get w (snd (listPage sv k org page w))"
  by (auto simp: listPage_def Let_def is_get_def extends_send_eq
      split: prod.splits sum.splits option.splits)

subsection \<open>Paging\<close>

text \<open>Every page asked for starts one request, and no more than the bound are asked for.\<close>

lemma listPage_one: "\<exists>rq. w_log (snd (listPage sv k org page w)) = w_log w @ [rq]"
  by (auto simp: listPage_def Let_def send_def split: prod.splits sum.splits option.splits)

lemma list_pages_log:
  "\<exists>es. w_log (snd (list_pages (listPage sv k org) o' left page out w)) = w_log w @ es \<and> length es \<le> left"
proof (induction left arbitrary: page out w)
  case (Suc left)
  obtain r w' where p: "listPage sv k org page w = (r, w')" by fastforce
  with listPage_one [of sv k org page w] obtain rq where one: "w_log w' = w_log w @ [rq]" by auto
  show ?case
  proof (cases r)
    case (Inr listed)
    obtain es where "w_log (snd (list_pages (listPage sv k org) o' left (Suc page) (out @ listed) w')) = w_log w' @ es"
      "length es \<le> left"
      using Suc.IH by blast
    with p one Inr show ?thesis by (auto intro: exI [of _ "rq # es"])
  qed (use p one in auto)
qed simp

text \<open>
  What \<open>list_pages\<close> returns: the pages the client answered, from the first asked for on, each of
  them full but the last, which is short.
\<close>

inductive paged :: "(nat \<Rightarrow> 'w world \<Rightarrow> (go_error + listed_project list) \<times> 'w world)
    \<Rightarrow> nat \<Rightarrow> 'w world \<Rightarrow> listed_project list list \<Rightarrow> bool" for get where
  paged_last: "get page w = (Inr ps, w') \<Longrightarrow> length ps < projectListPageSize \<Longrightarrow> paged get page w [ps]"
| paged_more: "get page w = (Inr ps, w') \<Longrightarrow> projectListPageSize \<le> length ps \<Longrightarrow>
    paged get (Suc page) w' pss \<Longrightarrow> paged get page w (ps # pss)"

lemma list_pages_complete:
  "list_pages get org left page out w = (Inr res, w') \<Longrightarrow>
   \<exists>pss. paged get page w pss \<and> res = out @ concat pss \<and> length pss \<le> left"
proof (induction left arbitrary: page out w)
  case (Suc left)
  obtain r w1 where g: "get page w = (r, w1)" by fastforce
  show ?case
  proof (cases r)
    case (Inl e)
    with Suc.prems g show ?thesis by simp
  next
    case (Inr ps)
    show ?thesis
    proof (cases "length ps < projectListPageSize")
      case True
      with Suc.prems g Inr have "res = out @ ps" by simp
      with True g Inr show ?thesis by (auto intro!: exI [of _ "[ps]"] paged_last)
    next
      case False
      with Suc.prems g Inr have "list_pages get org left (Suc page) (out @ ps) w1 = (Inr res, w')" by simp
      from Suc.IH [OF this] obtain pss
        where "paged get (Suc page) w1 pss" "res = (out @ ps) @ concat pss" "length pss \<le> left" by blast
      with False g Inr show ?thesis by (auto intro!: exI [of _ "ps # pss"] paged_more)
    qed
  qed
qed simp

end
