(* ===== verification/Run_Project.thy ===== *)
theory Run_Project
  imports Scaleway Feedback
begin

text \<open>
  What decides whether a project may be deleted and whether it is gone: the run-project marker
  (\<^verbatim>\<open>harness/run_project_marker.go\<close>), the two deletability guards, the orphan sweep
  (\<^verbatim>\<open>harness/orphan_sweep.go\<close>) and the purge of what the API creates by itself
  (\<^verbatim>\<open>harness/auto_created_purge.go\<close>).
\<close>

definition LiveStateFilename :: string where
  "LiveStateFilename = ''terraform-live.tfstate''"

definition RunProjectMarkerFilename :: string where
  "RunProjectMarkerFilename = ''.infrafactory-run-project''"

definition ProjectResourceType :: string where
  "ProjectResourceType = ''scaleway_account_project''"

subsection \<open>The marker\<close>

definition marker_json :: "run_project \<Rightarrow> json" where
  "marker_json p = JObj [(''project_id'', JStr (rp_id p)), (''name'', JStr (rp_name p))]"

text \<open>The temporary file is renamed over the marker: a failed write leaves the old one.\<close>

definition WriteRunProjectMarker :: "'w services \<Rightarrow> string \<Rightarrow> run_project \<Rightarrow> 'w world
    \<Rightarrow> go_error option \<times> 'w world" where
  "WriteRunProjectMarker sv workDir p w =
     (if blank (rp_id p) then (Some (errorf ''write run project marker: no project id''), w)
      else (case marker_fault sv (w_api w) workDir of
          Some why \<Rightarrow> (Some (errorf why), w)
        | None \<Rightarrow> (None, w\<lparr>w_markers := (w_markers w)(workDir := File_Json (Some (marker_json p)))\<rparr>)))"

definition dec_marker :: "members \<Rightarrow> run_project_marker option" where
  "dec_marker m =
     (case (dec_string (jfield m ''project_id''), dec_string (jfield m ''name'')) of
        (Some i, Some n) \<Rightarrow> Some \<lparr>mk_project_id = i, mk_name = n\<rparr> | _ \<Rightarrow> None)"

definition ReadRunProjectMarker :: "'w world \<Rightarrow> string \<Rightarrow> go_error + run_project_marker" where
  "ReadRunProjectMarker w workDir =
     (case w_markers w workDir of
        File_Missing \<Rightarrow> Inl (Go_Error (''read run project marker: open '' @ workDir @ ''/''
          @ RunProjectMarkerFilename @ '': no such file or directory'') [ErrNotExist])
      | File_Unreadable why \<Rightarrow> Inl (errorf (''read run project marker: '' @ why))
      | File_Json None \<Rightarrow> Inl (errorf ''decode run project marker'')
      | File_Json (Some j) \<Rightarrow>
          (case dec_struct dec_marker (Some j) of
             None \<Rightarrow> Inl (errorf ''decode run project marker'')
           | Some mk \<Rightarrow>
               if blank (mk_project_id mk) then Inl (errorf ''run project marker records no project id'')
               else Inr mk))"

subsection \<open>Guards\<close>

definition IsInfrafactoryRunProject :: "project_provenance \<Rightarrow> bool" where
  "IsInfrafactoryRunProject p \<longleftrightarrow>
     has_prefix (pv_name p) RunProjectNamePrefix \<and> pv_description p = RunProjectDescription"

definition AssertRunProjectDeletable :: "run_project_marker \<Rightarrow> string \<Rightarrow> string \<Rightarrow> project_provenance
    \<Rightarrow> go_error option" where
  "AssertRunProjectDeletable marker targetProjectID organizationID provenance =
     (let target = trim_space targetProjectID; orgID = trim_space organizationID in
      if target = [] then Some (protected_err ''no project id given'')
      else if orgID \<noteq> [] \<and> target = orgID
      then Some (protected_err (target @ '' is the organization'' @ [CHR 0x27] @ ''s default project''))
      else if blank (mk_project_id marker)
      then Some (protected_err (target @ '' is not recorded in '' @ RunProjectMarkerFilename
             @ '', so this run did not create it''))
      else if target \<noteq> mk_project_id marker
      then Some (protected_err (target @ '' does not match the project recorded in ''
             @ RunProjectMarkerFilename @ '' ('' @ mk_project_id marker @ '')''))
      else if \<not> pv_exists provenance then None
      else if \<not> IsInfrafactoryRunProject provenance
      then Some (protected_err (target @ '' exists but does not carry infrafactory'' @ [CHR 0x27]
             @ ''s stamp (name '' @ quote (pv_name provenance) @ '', description ''
             @ quote (pv_description provenance) @ ''). The marker claims this run created it and the API disagrees -- refusing rather than guessing''))
      else None)"

definition AssertProjectDeletable :: "string \<Rightarrow> string \<Rightarrow> string \<Rightarrow> go_error option" where
  "AssertProjectDeletable stateProjectID targetProjectID organizationID =
     (let target = trim_space targetProjectID; orgID = trim_space organizationID in
      if target = [] then Some (protected_err ''no project id given'')
      else if orgID \<noteq> [] \<and> target = orgID
      then Some (protected_err (target @ '' is the organization'' @ [CHR 0x27] @ ''s default project''))
      else if blank stateProjectID
      then Some (protected_err (target @ '' is not recorded in '' @ LiveStateFilename
             @ '', so this run did not create it''))
      else if target \<noteq> stateProjectID
      then Some (protected_err (target @ '' does not match the project recorded in ''
             @ LiveStateFilename @ '' ('' @ stateProjectID @ '')''))
      else None)"

subsection \<open>The live state\<close>

definition dec_instance :: "members \<Rightarrow> members option" where
  "dec_instance m = dec_members (jfield m ''attributes'')"

definition dec_tf_resource :: "members \<Rightarrow> tf_resource option" where
  "dec_tf_resource m =
     (case (dec_string (jfield m ''mode''), dec_string (jfield m ''type''),
            dec_string (jfield m ''provider''),
            dec_list (dec_struct dec_instance) (jfield m ''instances'')) of
        (Some md, Some ty, Some pr, Some ins) \<Rightarrow>
          Some \<lparr>tf_mode = md, tf_type = ty, tf_provider = pr, tf_instances = ins\<rparr>
      | _ \<Rightarrow> None)"

definition dec_tf_state :: "members \<Rightarrow> tf_state option" where
  "dec_tf_state m = dec_list (dec_struct dec_tf_resource) (jfield m ''resources'')"

definition loadLiveTerraformState :: "string \<Rightarrow> json_file \<Rightarrow> go_error + tf_state" where
  "loadLiveTerraformState statePath f =
     (case f of
        File_Missing \<Rightarrow> Inl (Go_Error (''read live terraform state: open '' @ statePath
          @ '': no such file or directory'') [ErrNotExist])
      | File_Unreadable why \<Rightarrow> Inl (errorf (''read live terraform state: '' @ why))
      | File_Json None \<Rightarrow> Inl (errorf ''decode live terraform state'')
      | File_Json (Some j) \<Rightarrow>
          (case dec_struct dec_tf_state (Some j) of
             None \<Rightarrow> Inl (errorf ''decode live terraform state'')
           | Some st \<Rightarrow> Inr st))"

definition state_path :: "string \<Rightarrow> string" where
  "state_path workDir = workDir @ ''/'' @ LiveStateFilename"

text \<open>
  The first non-blank project id of a project resource, and the same at the head of the file.
\<close>

definition runProjectID :: "tf_state \<Rightarrow> string" where
  "runProjectID st =
     (case concat (map (\<lambda>r. if tf_type r \<noteq> ProjectResourceType then []
          else filter (\<lambda>i. \<not> blank i) (map (\<lambda>a. as_str (jget a ''id'')) (tf_instances r))) st) of
        [] \<Rightarrow> [] | i # _ \<Rightarrow> i)"

definition RunProjectIDFromState :: "'w services \<Rightarrow> 'w world \<Rightarrow> string \<Rightarrow> go_error + string" where
  "RunProjectIDFromState sv w workDir =
     (case loadLiveTerraformState (state_path workDir) (live_state sv (w_api w) workDir) of
        Inl e \<Rightarrow> Inl e | Inr st \<Rightarrow> Inr (runProjectID st))"

subsection \<open>The sweep\<close>

text \<open>The text of one stray: an instance that records another project than the run's.\<close>

definition stray_of :: "string \<Rightarrow> tf_resource \<Rightarrow> members \<Rightarrow> string list" where
  "stray_of projectID r a =
     (case jget a ''project_id'' of
        None \<Rightarrow> []
      | Some raw \<Rightarrow>
          let got = as_str (Some raw) in
          if blank got \<or> got = projectID then []
          else [tf_type r @ '' ('' @ as_str (jget a ''id'') @ '') in project '' @ got])"

definition strays :: "tf_state \<Rightarrow> string \<Rightarrow> string list" where
  "strays st projectID =
     concat (map (\<lambda>r. if tf_type r = ProjectResourceType then []
       else concat (map (stray_of projectID r) (tf_instances r))) st)"

definition em_dash :: string where
  "em_dash = [CHR 0xE2, CHR 0x80, CHR 0x94]"

definition sweep_failure :: "string \<Rightarrow> string \<Rightarrow> string \<Rightarrow> failure" where
  "sweep_failure check command detail = no_failure\<lparr>f_layer := ''sandbox_deploy'',
     f_stage := ''orphan_sweep'', f_check := check, f_command := command, f_detail := detail\<rparr>"

definition strayResourceFailures :: "tf_state \<Rightarrow> string \<Rightarrow> failure list" where
  "strayResourceFailures st projectID =
     (let ss = strays st projectID in
      if ss = [] then []
      else [sweep_failure ''resources_outside_run_project'' (''inspect '' @ LiveStateFilename)
        (itoa (int (length ss)) @ '' resource(s) were created outside the run project '' @ projectID
          @ '': '' @ join ''; '' (sort ss)
          @ ''. Destroying the run project will not remove them and a project-scoped sweep cannot see them ''
          @ em_dash @ '' they must carry project_id = scaleway_account_project.<name>.id'')])"

record sweep_target =
  st_project_id :: string
  st_strays :: "failure list"

definition CaptureSweepTarget :: "'w services \<Rightarrow> 'w world \<Rightarrow> string \<Rightarrow> go_error + sweep_target" where
  "CaptureSweepTarget sv w workDir =
     (case ReadRunProjectMarker w workDir of
        Inl e \<Rightarrow> Inl (sweep_err (err_text e @ '', so the run'' @ [CHR 0x27] @ ''s blast radius cannot be determined''))
      | Inr marker \<Rightarrow>
          (case loadLiveTerraformState (state_path workDir) (live_state sv (w_api w) workDir) of
             Inl e \<Rightarrow>
               if is_err e ErrNotExist
               then Inr \<lparr>st_project_id = mk_project_id marker, st_strays = []\<rparr>
               else Inl (sweep_err (err_text e @ '', so strays outside project ''
                      @ mk_project_id marker @ '' cannot be computed''))
           | Inr st \<Rightarrow> Inr \<lparr>st_project_id = mk_project_id marker,
               st_strays = strayResourceFailures st (mk_project_id marker)\<rparr>))"

definition projectExists :: "'w services \<Rightarrow> string \<Rightarrow> string \<Rightarrow> 'w world \<Rightarrow> (go_error + bool) \<times> 'w world" where
  "projectExists sv projectID secretKey w =
     (let (r, w') = send sv \<lparr>rq_method = GET, rq_url = project_url sv projectID,
            rq_token = secretKey, rq_body = []\<rparr> w
      in case r of
           Inl e \<Rightarrow> (Inl e, w')
         | Inr rs \<Rightarrow>
             if rs_status rs = 404 then (Inr False, w')
             else if rs_status rs = 200 then (Inr True, w')
             else (Inl (errorf (''unexpected status '' @ itoa (rs_status rs) @ '' from ''
                     @ project_url sv projectID @ '' (body: '' @ print_body sv (rs_json rs) @ '')'')), w'))"

record sweep_result =
  sr_project_id :: string
  sr_failures :: "failure list"

definition Sweep_Clean :: "sweep_result option \<Rightarrow> bool" where
  "Sweep_Clean r = (case r of None \<Rightarrow> False | Some s \<Rightarrow> sr_failures s = [])"

definition Sweep_Run :: "'w services \<Rightarrow> sweep_target option \<Rightarrow> string \<Rightarrow> 'w world
    \<Rightarrow> (go_error + sweep_result) \<times> 'w world" where
  "Sweep_Run sv target secretKey w =
     (case target of
        None \<Rightarrow> (Inl (sweep_err ''no sweep target captured before destroy''), w)
      | Some t \<Rightarrow>
          if blank (st_project_id t) then (Inl (sweep_err ''no sweep target captured before destroy''), w)
          else
            let (r, w') = projectExists sv (st_project_id t) secretKey w;
                command = ''GET '' @ project_url sv (st_project_id t);
                failing = (\<lambda>detail. \<lparr>sr_project_id = st_project_id t,
                  sr_failures = st_strays t @ [sweep_failure ''project_deleted'' command detail]\<rparr>)
            in (case r of
                  Inl e \<Rightarrow> (Inr (failing (''could not verify that project '' @ st_project_id t
                    @ '' was destroyed: '' @ err_text e
                    @ ''. Treating as a leak: an unverifiable sweep must not look like a clean one. Re-check with `infrafactory reap` once connectivity is restored.'')), w')
                | Inr True \<Rightarrow> (Inr (failing (''project '' @ st_project_id t
                    @ '' still exists after destroy -- it is billable until removed. Tear it down with `infrafactory reap`, then confirm in the Scaleway console.'')), w')
                | Inr False \<Rightarrow> (Inr \<lparr>sr_project_id = st_project_id t, sr_failures = st_strays t\<rparr>, w')))"

subsection \<open>The purge\<close>

definition InstanceZones :: "string list" where
  "InstanceZones = [''fr-par-1'', ''fr-par-2'', ''fr-par-3'', ''nl-ams-1'', ''nl-ams-2'', ''nl-ams-3'',
     ''pl-waw-1'', ''pl-waw-2'', ''pl-waw-3'', ''it-mil-1'']"

record security_group =
  sg_id :: string
  sg_name :: string
  sg_project :: string
  sg_default :: bool

definition dec_security_group :: "members \<Rightarrow> security_group option" where
  "dec_security_group m =
     (case (dec_string (jfield m ''id''), dec_string (jfield m ''name''),
            dec_string (jfield m ''project''), dec_bool (jfield m ''project_default'')) of
        (Some i, Some n, Some p, Some b) \<Rightarrow>
          Some \<lparr>sg_id = i, sg_name = n, sg_project = p, sg_default = b\<rparr>
      | _ \<Rightarrow> None)"

definition groups_url :: "'w services \<Rightarrow> string \<Rightarrow> string" where
  "groups_url sv zone = api_base sv @ ''/instance/v1/zones/'' @ zone @ ''/security_groups''"

definition listDefaultSecurityGroups :: "'w services \<Rightarrow> string \<Rightarrow> string \<Rightarrow> string \<Rightarrow> 'w world
    \<Rightarrow> (go_error + security_group list) \<times> 'w world" where
  "listDefaultSecurityGroups sv zone projectID secretKey w =
     (let (r, w') = send sv \<lparr>rq_method = GET,
            rq_url = groups_url sv zone @ ''?project='' @ projectID @ ''&per_page=100'',
            rq_token = secretKey, rq_body = []\<rparr> w
      in case r of
           Inl e \<Rightarrow> (Inl e, w')
         | Inr rs \<Rightarrow>
             if rs_status rs \<noteq> 200
             then (Inl (errorf (''unexpected status '' @ itoa (rs_status rs)
                     @ '' listing security groups in '' @ zone)), w')
             else (case rs_json rs of
                 None \<Rightarrow> (Inl (errorf ''decode security groups''), w')
               | Some j \<Rightarrow>
                   (case dec_struct (\<lambda>m. dec_list (dec_struct dec_security_group) (jfield m ''security_groups'')) (Some j) of
                      None \<Rightarrow> (Inl (errorf ''decode security groups''), w')
                    | Some gs \<Rightarrow> (Inr (filter (\<lambda>g. sg_default g \<and> sg_project g = projectID) gs), w'))))"

definition deleteSecurityGroup :: "'w services \<Rightarrow> string \<Rightarrow> string \<Rightarrow> string \<Rightarrow> 'w world
    \<Rightarrow> go_error option \<times> 'w world" where
  "deleteSecurityGroup sv zone gid secretKey w =
     (let (r, w') = send sv \<lparr>rq_method = DELETE, rq_url = groups_url sv zone @ ''/'' @ gid,
            rq_token = secretKey, rq_body = []\<rparr> w
      in case r of
           Inl e \<Rightarrow> (Some e, w')
         | Inr rs \<Rightarrow>
             if rs_status rs \<noteq> 204 \<and> rs_status rs \<noteq> 200
             then (Some (errorf (''unexpected status '' @ itoa (rs_status rs)
                     @ '' deleting security group '' @ gid)), w')
             else (None, w'))"

text \<open>The two loops of \<^verbatim>\<open>Run\<close>: over the groups of a zone, and over the zones.\<close>

fun purge_groups :: "'w services \<Rightarrow> string \<Rightarrow> string \<Rightarrow> security_group list \<Rightarrow> 'w world
    \<Rightarrow> string list \<times> 'w world" where
  "purge_groups sv zone secretKey [] w = ([], w)"
| "purge_groups sv zone secretKey (g # gs) w =
     (let (r, w1) = deleteSecurityGroup sv zone (sg_id g) secretKey w;
          (removed, w2) = purge_groups sv zone secretKey gs w1
      in case r of
           Some _ \<Rightarrow> (removed, w2)
         | None \<Rightarrow> ((''security_group '' @ sg_id g @ '' ('' @ sg_name g @ '') in '' @ zone) # removed, w2))"

fun purge_zones :: "'w services \<Rightarrow> string \<Rightarrow> string \<Rightarrow> string list \<Rightarrow> 'w world
    \<Rightarrow> string list \<times> 'w world" where
  "purge_zones sv projectID secretKey [] w = ([], w)"
| "purge_zones sv projectID secretKey (z # zs) w =
     (let (r, w1) = listDefaultSecurityGroups sv z projectID secretKey w;
          (here, w2) = (case r of Inl _ \<Rightarrow> ([], w1) | Inr gs \<Rightarrow> purge_groups sv z secretKey gs w1);
          (there, w3) = purge_zones sv projectID secretKey zs w2
      in (here @ there, w3))"

definition Purge_Run :: "'w services \<Rightarrow> string \<Rightarrow> string \<Rightarrow> 'w world
    \<Rightarrow> (go_error + string list) \<times> 'w world" where
  "Purge_Run sv projectID secretKey w =
     (if projectID = [] then (Inl (errorf ''purge requires a project id''), w)
      else let (removed, w') = purge_zones sv projectID secretKey InstanceZones w
           in (Inr removed, w'))"

subsection \<open>What each operation may send\<close>

definition deletes_group :: "'w services \<Rightarrow> string \<Rightarrow> string \<Rightarrow> request \<Rightarrow> bool" where
  "deletes_group sv zone gid rq \<longleftrightarrow> rq_method rq = DELETE \<and> rq_url rq = groups_url sv zone @ ''/'' @ gid"

text \<open>The API answered a listing of the zone with this group, marked as the project's default.\<close>

definition lists_default :: "'w services \<Rightarrow> string \<Rightarrow> string \<Rightarrow> string \<Rightarrow> string \<Rightarrow> bool" where
  "lists_default sv key pid zone gid \<longleftrightarrow>
     (\<exists>a rs m gs g. fst (doer sv \<lparr>rq_method = GET,
          rq_url = groups_url sv zone @ ''?project='' @ pid @ ''&per_page=100'',
          rq_token = key, rq_body = []\<rparr> a) = Inr rs
        \<and> rs_status rs = 200 \<and> rs_json rs = Some (JObj m)
        \<and> dec_list (dec_struct dec_security_group) (jfield m ''security_groups'') = Some gs
        \<and> g \<in> set gs \<and> sg_id g = gid \<and> sg_project g = pid \<and> sg_default g)"

definition purge_request :: "'w services \<Rightarrow> string \<Rightarrow> string \<Rightarrow> request \<Rightarrow> bool" where
  "purge_request sv key pid rq \<longleftrightarrow>
     is_get rq \<or> (\<exists>zone gid. zone \<in> set InstanceZones \<and> deletes_group sv zone gid rq
       \<and> lists_default sv key pid zone gid)"

lemma projectExists_sent [sent]: "extends is_get w (snd (projectExists sv p k w))"
  by (auto simp: projectExists_def Let_def is_get_def extends_send_eq
      split: prod.splits sum.splits)

lemma Sweep_Run_sent [sent]: "extends is_get w (snd (Sweep_Run sv t k w))"
proof (cases t)
  case (Some u)
  obtain r w' where p: "projectExists sv (st_project_id u) k w = (r, w')" by fastforce
  with projectExists_sent [of w sv "st_project_id u" k] have "extends is_get w w'" by simp
  with p Some show ?thesis by (auto simp: Sweep_Run_def Let_def split: sum.splits bool.splits)
qed (simp add: Sweep_Run_def)

lemma listDefault_sent: "extends is_get w (snd (listDefaultSecurityGroups sv z p k w))"
  by (auto simp: listDefaultSecurityGroups_def Let_def is_get_def extends_send_eq
      split: prod.splits sum.splits option.splits)

lemma deleteSecurityGroup_sent: "extends (deletes_group sv z g) w (snd (deleteSecurityGroup sv z g k w))"
  by (auto simp: deleteSecurityGroup_def Let_def deletes_group_def extends_send_eq
      split: prod.splits sum.splits)

lemma dec_empty_groups: "dec_list f (jfield [] k) = Some []"
  by (simp add: jfield_def)

lemma listDefault_lists:
  assumes "fst (listDefaultSecurityGroups sv z p k w) = Inr gs" and "g \<in> set gs"
  shows "lists_default sv k p z (sg_id g)"
proof -
  let ?rq = "\<lparr>rq_method = GET, rq_url = groups_url sv z @ ''?project='' @ p @ ''&per_page=100'',
     rq_token = k, rq_body = []\<rparr>"
  obtain rs j ls where rs: "fst (doer sv ?rq (w_api w)) = Inr rs" "rs_status rs = 200"
      "rs_json rs = Some j"
    and ls: "dec_struct (\<lambda>m. dec_list (dec_struct dec_security_group) (jfield m ''security_groups'')) (Some j) = Some ls"
    and gs: "gs = filter (\<lambda>g. sg_default g \<and> sg_project g = p) ls"
    using assms(1)
    by (auto simp: listDefaultSecurityGroups_def Let_def send_def
        split: prod.splits sum.splits option.splits if_splits)
  obtain m where m: "j = JObj m"
    using ls gs assms(2) by (cases j) (auto simp: dec_empty_groups)
  show ?thesis
    unfolding lists_default_def
    by (intro exI [of _ "w_api w"] exI [of _ rs] exI [of _ m] exI [of _ ls] exI [of _ g])
       (use rs ls gs assms(2) m in simp)
qed

lemma purge_groups_sent:
  "z \<in> set InstanceZones \<Longrightarrow> (\<And>g. g \<in> set gs \<Longrightarrow> lists_default sv k p z (sg_id g)) \<Longrightarrow>
   extends (purge_request sv k p) w (snd (purge_groups sv z k gs w))"
proof (induction gs arbitrary: w)
  case (Cons g gs)
  obtain r w1 where d: "deleteSecurityGroup sv z (sg_id g) k w = (r, w1)" by fastforce
  have "extends (purge_request sv k p) w w1"
    by (rule extends_mono [of "deletes_group sv z (sg_id g)"])
       (use deleteSecurityGroup_sent [of sv z "sg_id g" w k] d Cons.prems in \<open>auto simp: purge_request_def\<close>)
  moreover have "extends (purge_request sv k p) w1 (snd (purge_groups sv z k gs w1))"
    using Cons by auto
  ultimately show ?case
    using d by (auto simp: Let_def intro: extends_trans split: prod.splits option.splits)
qed simp

lemma purge_zones_sent:
  "set zs \<subseteq> set InstanceZones \<Longrightarrow> extends (purge_request sv k p) w (snd (purge_zones sv p k zs w))"
proof (induction zs arbitrary: w)
  case (Cons z zs)
  obtain r w1 where l: "listDefaultSecurityGroups sv z p k w = (r, w1)" by fastforce
  obtain here w2 where h: "(case r of Inl _ \<Rightarrow> ([], w1) | Inr gs \<Rightarrow> purge_groups sv z k gs w1) = (here, w2)"
    by fastforce
  have 1: "extends (purge_request sv k p) w w1"
    by (rule extends_mono [of is_get])
       (use listDefault_sent [of w sv z p k] l in \<open>auto simp: purge_request_def\<close>)
  have 2: "extends (purge_request sv k p) w1 w2"
  proof (cases r)
    case (Inr gs)
    with listDefault_lists [of sv z p k w gs] l
    have "extends (purge_request sv k p) w1 (snd (purge_groups sv z k gs w1))"
      by (intro purge_groups_sent) (use Cons.prems in auto)
    with h Inr show ?thesis by simp
  qed (use h in simp)
  have 3: "extends (purge_request sv k p) w2 (snd (purge_zones sv p k zs w2))"
    using Cons by auto
  show ?case
    using l h extends_trans [OF extends_trans [OF 1 2] 3] by (auto simp: Let_def split: prod.splits)
qed simp

lemma Purge_Run_sent [sent]: "extends (purge_request sv k p) w (snd (Purge_Run sv p k w))"
  using purge_zones_sent [of InstanceZones sv k p w]
  by (auto simp: Purge_Run_def Let_def split: prod.splits)

subsection \<open>The sweep's verdict\<close>

definition api_says_gone :: "'w services \<Rightarrow> string \<Rightarrow> string \<Rightarrow> 'w world \<Rightarrow> bool" where
  "api_says_gone sv pid key w \<longleftrightarrow>
     (case fst (doer sv \<lparr>rq_method = GET, rq_url = project_url sv pid, rq_token = key, rq_body = []\<rparr> (w_api w)) of
        Inl _ \<Rightarrow> False | Inr rs \<Rightarrow> rs_status rs = 404)"

lemma projectExists_gone: "fst (projectExists sv p k w) = Inr False \<longleftrightarrow> api_says_gone sv p k w"
  by (auto simp: projectExists_def api_says_gone_def send_def Let_def split: prod.splits sum.splits)

lemma Sweep_Run_clean:
  "fst (Sweep_Run sv (Some t) k w) = Inr r \<Longrightarrow>
   sr_failures r = [] \<longleftrightarrow> st_strays t = [] \<and> api_says_gone sv (st_project_id t) k w"
  by (auto simp: Sweep_Run_def Let_def projectExists_gone [symmetric]
      split: prod.splits sum.splits if_splits bool.splits)

lemma stray_of_Nil:
  "stray_of p r a = [] \<longleftrightarrow> blank (as_str (jget a ''project_id'')) \<or> as_str (jget a ''project_id'') = p"
  by (cases "jget a ''project_id''") (auto simp: stray_of_def Let_def)

lemma strays_Nil:
  "strays st p = [] \<longleftrightarrow>
     (\<forall>r\<in>set st. tf_type r \<noteq> ProjectResourceType \<longrightarrow> (\<forall>a\<in>set (tf_instances r).
        blank (as_str (jget a ''project_id'')) \<or> as_str (jget a ''project_id'') = p))"
proof -
  have "strays st p = [] \<longleftrightarrow> (\<forall>r\<in>set st. tf_type r = ProjectResourceType
      \<or> (\<forall>a\<in>set (tf_instances r). stray_of p r a = []))"
    by (induction st) (auto simp: strays_def)
  then show ?thesis by (auto simp: stray_of_Nil)
qed

lemma strayResourceFailures_Nil: "strayResourceFailures st p = [] \<longleftrightarrow> strays st p = []"
  by (simp add: strayResourceFailures_def Let_def)

subsection \<open>The guard\<close>

lemma guard_target:
  "AssertRunProjectDeletable marker target org prov = None \<Longrightarrow>
   mk_project_id marker = trim_space target \<and> \<not> blank target \<and> (\<not> blank org \<longrightarrow> trim_space target \<noteq> trim_space org)
   \<and> (pv_exists prov \<longrightarrow> IsInfrafactoryRunProject prov)"
  by (auto simp: AssertRunProjectDeletable_def Let_def blank_def split: if_splits)

lemma Read_after_Write:
  "fst (WriteRunProjectMarker sv d p w) = None \<Longrightarrow>
   ReadRunProjectMarker (snd (WriteRunProjectMarker sv d p w)) d
     = Inr \<lparr>mk_project_id = rp_id p, mk_name = rp_name p\<rparr>"
  by (auto simp: WriteRunProjectMarker_def ReadRunProjectMarker_def marker_json_def dec_marker_def
      jfield_def equal_fold_def to_lower_def lower_char_def char_between_def
      split: if_splits option.splits)

lemma run_project_marker_ok:
  "WriteRunProjectMarker sv d p w = (None, w') \<Longrightarrow>
   ReadRunProjectMarker w' d = Inr \<lparr>mk_project_id = rp_id p, mk_name = rp_name p\<rparr> \<and> \<not> blank (rp_id p)"
  using Read_after_Write [of sv d p w]
  by (auto simp: WriteRunProjectMarker_def split: option.splits if_splits)

subsection \<open>Properties\<close>

text \<open>
  C3. \<open>AssertRunProjectDeletable\<close> lets a project be deleted exactly when a target is given, it is
  not the organization's default project, the run's marker names it, and the API either says it
  is gone or shows infrafactory's name prefix and description on it. Any refusal is
  \<open>ErrProtectedProject\<close>.
\<close>

theorem AssertRunProjectDeletable_iff:
  "(AssertRunProjectDeletable marker target org prov = None \<longleftrightarrow>
      \<not> blank target \<and> trim_space target \<noteq> trim_space org
      \<and> \<not> blank (mk_project_id marker) \<and> mk_project_id marker = trim_space target
      \<and> (if pv_exists prov
         then has_prefix (pv_name prov) RunProjectNamePrefix \<and> pv_description prov = RunProjectDescription
         else True))
   \<and> (case AssertRunProjectDeletable marker target org prov of
        None \<Rightarrow> True | Some e \<Rightarrow> is_err e ErrProtectedProject)"
  by (auto simp: AssertRunProjectDeletable_def IsInfrafactoryRunProject_def Let_def blank_def)

text \<open>
  Whatever the account API answers, the purge sends nothing but reads and deletes of security
  groups in a known zone that the API itself listed with this project's id and the default mark.
\<close>

theorem Purge_deletes_only_defaults:
  "\<exists>es. w_log (snd (Purge_Run sv pid key w)) = w_log w @ es
     \<and> list_all (purge_request sv key pid) es"
  using Purge_Run_sent [of sv key pid w] by (auto simp: extends_def)

text \<open>
  The sweep reports a clean account only for a captured target with no stray, when the API
  answered the request for the project with 404: an unreachable API, any other status, a missing
  target or a surviving project is never clean.
\<close>

theorem Sweep_clean_iff:
  "Sweep_Clean (case fst (Sweep_Run sv target key w) of Inl _ \<Rightarrow> None | Inr r \<Rightarrow> Some r) \<longleftrightarrow>
   (case target of None \<Rightarrow> False
    | Some t \<Rightarrow> \<not> blank (st_project_id t) \<and> st_strays t = [] \<and> api_says_gone sv (st_project_id t) key w)"
proof (cases target)
  case (Some t)
  show ?thesis
  proof (cases "fst (Sweep_Run sv target key w)")
    case (Inl e)
    with Some have "blank (st_project_id t)"
      by (auto simp: Sweep_Run_def Let_def split: prod.splits sum.splits if_splits bool.splits)
    with Some Inl show ?thesis by (simp add: Sweep_Clean_def)
  next
    case (Inr r)
    with Some have "\<not> blank (st_project_id t)" by (auto simp: Sweep_Run_def)
    with Some Inr Sweep_Run_clean [of sv t key w r] show ?thesis by (simp add: Sweep_Clean_def)
  qed
qed (simp add: Sweep_Run_def Sweep_Clean_def)

text \<open>
  A marker that was written is read back with the project's id and name, whatever the
  directory held before; and a marker without a project id is never written.
\<close>

theorem run_project_marker_roundtrip:
  "case WriteRunProjectMarker sv d p w of
     (None, w') \<Rightarrow> ReadRunProjectMarker w' d = Inr \<lparr>mk_project_id = rp_id p, mk_name = rp_name p\<rparr>
       \<and> \<not> blank (rp_id p)
   | (Some _, w') \<Rightarrow> w' = w"
  using Read_after_Write [of sv d p w]
  by (auto simp: WriteRunProjectMarker_def split: option.splits if_splits)

text \<open>
  \<open>CaptureSweepTarget\<close> finds no stray exactly in a state where every instance that names a
  project names the run's; the marker decides which project that is.
\<close>

theorem strayResourceFailures_iff:
  "strayResourceFailures st pid = [] \<longleftrightarrow>
     list_all (\<lambda>r. tf_type r = ProjectResourceType
       \<or> list_all (\<lambda>a. blank (as_str (jget a ''project_id'')) \<or> as_str (jget a ''project_id'') = pid)
            (tf_instances r)) st"
  by (auto simp: strayResourceFailures_Nil strays_Nil list_all_iff)

text \<open>
  Listing the organization's projects never reports a partial estate: what it returns is the
  concatenation of at most 50 consecutive pages from the first one on, every page full except the
  last; otherwise it is an error.
\<close>

theorem ListProjects_complete:
  "case fst (ListProjects sv key org w) of
     Inl _ \<Rightarrow> True
   | Inr ps \<Rightarrow> \<exists>pss. paged (listPage sv key org) 1 w pss \<and> ps = concat pss
       \<and> length pss \<le> maxProjectListPages"
proof (cases "ListProjects sv key org w")
  case (Pair r w')
  show ?thesis
  proof (cases r)
    case (Inr ps)
    with Pair have "list_pages (listPage sv key org) org maxProjectListPages 1 [] w = (Inr ps, w')"
      by (auto simp: ListProjects_def split: if_splits)
    from list_pages_complete [OF this] show ?thesis using Pair Inr by simp
  qed (use Pair in simp)
qed

end
