(* ===== verification/Teardown.thy ===== *)
theory Teardown
  imports Run_Project Redaction Livestore
begin

text \<open>
  Layer 3 lifecycles: creating a run's project and recording it, destroying a stack
  (\<^verbatim>\<open>harness/sandbox_destroy.go\<close>, \<^verbatim>\<open>cli/destroy_retry.go\<close>), releasing the project
  (\<^verbatim>\<open>cli/run_project_lifecycle.go\<close>), judging the account with the sweep, and tearing down or
  forgetting a live deployment (\<^verbatim>\<open>cli/live_teardown.go\<close>).

  \<^verbatim>\<open>tofu\<close> is the parameter \<open>run_tofu\<close>: a command and the state of the outside world to an outcome
  and a new state. Every command run is appended to \<open>w_cmds\<close>. The environment of the process, the
  configuration and the wiring of optional dependencies are fields of \<open>runtime\<close>. Log entries are
  not modelled. The AWS arm of a dispatch is an argument of the dispatcher.
\<close>

subsection \<open>Stages and failures of a command\<close>

datatype stage_status = StageStatusPass | StageStatusFail | StageStatusSkip

record stage_summary =
  sm_layer :: string
  sm_stage :: string
  sm_status :: stage_status
  sm_detail :: string

record failure_summary =
  fs_layer :: string
  fs_stage :: string
  fs_check :: string
  fs_command :: string
  fs_detail :: string

type_synonym report = "stage_summary list \<times> failure_summary list"

definition stage :: "string \<Rightarrow> string \<Rightarrow> stage_status \<Rightarrow> string \<Rightarrow> stage_summary" where
  "stage layer name status detail =
     \<lparr>sm_layer = layer, sm_stage = name, sm_status = status, sm_detail = detail\<rparr>"

definition failing :: "string \<Rightarrow> string \<Rightarrow> string \<Rightarrow> string \<Rightarrow> string \<Rightarrow> failure_summary" where
  "failing layer name check command detail =
     \<lparr>fs_layer = layer, fs_stage = name, fs_check = check, fs_command = command, fs_detail = detail\<rparr>"

definition sandbox_deploy :: string where
  "sandbox_deploy = ''sandbox_deploy''"

subsection \<open>The clouds of Layer 3\<close>

datatype layer3_cloud = layer3Scaleway | layer3AWS | Other_Cloud string

fun cloud_text :: "layer3_cloud \<Rightarrow> string" where
  "cloud_text layer3Scaleway = ''scaleway''"
| "cloud_text layer3AWS = ''aws''"
| "cloud_text (Other_Cloud s) = s"

definition parseLayer3Cloud :: "string \<Rightarrow> go_error + layer3_cloud" where
  "parseLayer3Cloud raw =
     (if raw = [] \<or> raw = ''scaleway'' then Inr layer3Scaleway
      else if raw = ''aws'' then Inr layer3AWS
      else Inl (errorf (''cloud '' @ quote raw
        @ '' has no Layer 3 support, so nothing may run against its real API'')))"

definition layer3LiveCloud :: "string \<Rightarrow> string \<Rightarrow> go_error + layer3_cloud" where
  "layer3LiveCloud raw livePath =
     (case parseLayer3Cloud raw of
        Inl e \<Rightarrow> Inl (Go_Error (livePath @ '': '' @ err_text e) (err_is e))
      | Inr cloud \<Rightarrow>
          if cloud \<noteq> layer3Scaleway
          then Inl (errorf (livePath @ '' is refused for cloud '' @ cloud_text cloud
            @ '' until its live path lands: nothing could tear down or reap what it left running. Use `infrafactory run` or `infrafactory test`, which destroy what they apply''))
          else Inr cloud)"

definition layer3TeardownCloud :: "string \<Rightarrow> layer3_cloud" where
  "layer3TeardownCloud raw =
     (case parseLayer3Cloud raw of Inr cloud \<Rightarrow> cloud | Inl _ \<Rightarrow> Other_Cloud raw)"

definition layer3SeamRefused :: "layer3_cloud \<Rightarrow> string \<Rightarrow> go_error" where
  "layer3SeamRefused cloud seam =
     errorf (''cloud '' @ cloud_text cloud @ '' has no Layer 3 '' @ seam @ '', so it was not attempted'')"

definition layer3TeardownNotBuilt :: "layer3_cloud \<Rightarrow> string \<Rightarrow> string" where
  "layer3TeardownNotBuilt cloud statePath =
     cloud_text cloud @ '' Layer 3 teardown is not built; resources recorded in '' @ statePath
       @ '' may exist: destroy them by hand''"

subsection \<open>The runtime\<close>

record outcome =
  oc_err :: "go_error option"
  oc_stdout :: string
  oc_stderr :: string
  oc_exit :: int

datatype text_file = Text_Missing | Text_Unreadable string | Text_File string

record 'w runtime = "'w services" +
  run_tofu :: "command \<Rightarrow> 'w \<Rightarrow> outcome \<times> 'w"
  lock_file :: "'w \<Rightarrow> string \<Rightarrow> text_file"
  temp_fault :: "string \<Rightarrow> 'w \<Rightarrow> string option" \<comment> \<open>why a step in the temporary directory fails\<close>
  abs_dir :: "string \<Rightarrow> string"
  getenv :: "string \<Rightarrow> string"
  scw_config_path :: string
  scw_config :: json_file \<comment> \<open>the SDK's configuration file, parsed\<close>
  cfg_region :: string
  cfg_zone :: string
  cfg_fallback_project :: string
  cfg_accounts :: "string list" \<comment> \<open>the registered account ids\<close>
  print_store_error :: "store_error \<Rightarrow> string"
  has_run_project :: bool
  has_auto_created :: bool

definition env_get :: "env \<Rightarrow> string \<Rightarrow> string" where
  "env_get e k = (case map_of e k of None \<Rightarrow> [] | Some v \<Rightarrow> v)"

definition env_set :: "env \<Rightarrow> string \<Rightarrow> string \<Rightarrow> env" where
  "env_set e k v = (k, v) # filter (\<lambda>kv. fst kv \<noteq> k) e"

definition run_command :: "'w runtime \<Rightarrow> command \<Rightarrow> 'w world \<Rightarrow> outcome \<times> 'w world" where
  "run_command rt c w =
     (let (oc, a) = run_tofu rt c (w_api w) in (oc, w\<lparr>w_api := a, w_cmds := w_cmds w @ [c]\<rparr>))"

abbreviation svc :: "'w runtime \<Rightarrow> 'w services" where
  "svc rt \<equiv> services.truncate rt"

subsection \<open>The environment of a Layer 3 command\<close>

definition realScalewayAPIURL :: string where
  "realScalewayAPIURL = ''https://api.scaleway.com''"

definition scwConfigFileAPIURL :: "'w runtime \<Rightarrow> go_error + string" where
  "scwConfigFileAPIURL rt =
     (if scw_config_path rt = [] then Inr []
      else (case scw_config rt of
          File_Missing \<Rightarrow> Inr []
        | File_Unreadable why \<Rightarrow> Inl (errorf (''read '' @ scw_config_path rt @ '': '' @ why))
        | File_Json None \<Rightarrow> Inl (errorf (''parse '' @ scw_config_path rt))
        | File_Json (Some j) \<Rightarrow>
            (case dec_struct (\<lambda>m. dec_string (jget m ''api_url'')) (Some j) of
               None \<Rightarrow> Inl (errorf (''parse '' @ scw_config_path rt))
             | Some u \<Rightarrow> Inr (trim_space u))))"

definition assertRealScalewayEndpoint :: "'w runtime \<Rightarrow> env \<Rightarrow> go_error option" where
  "assertRealScalewayEndpoint rt e =
     (let v = trim_space (env_get e ''SCW_API_URL''); u = trim_space (getenv rt ''SCW_API_URL'') in
      if v \<noteq> [] \<and> v \<noteq> realScalewayAPIURL
      then Some (errorf (''refusing to run a Layer 3 apply against '' @ quote v
        @ '': sandbox deploy targets real Scaleway ('' @ realScalewayAPIURL @ '') only''))
      else if u \<noteq> [] \<and> u \<noteq> realScalewayAPIURL
      then Some (errorf (''refusing to run a Layer 3 apply: inherited SCW_API_URL='' @ quote u
        @ '' would retarget it away from real Scaleway ('' @ realScalewayAPIURL
        @ ''). This is usually a leftover from driving mockway by hand''))
      else (case scwConfigFileAPIURL rt of
          Inl er \<Rightarrow> Some (Go_Error (''cannot verify the Layer 3 endpoint: '' @ err_text er) (err_is er))
        | Inr a \<Rightarrow>
            if a \<noteq> [] \<and> a \<noteq> realScalewayAPIURL
            then Some (errorf (''refusing to run a Layer 3 apply: the default profile in ''
              @ scw_config_path rt @ '' sets api_url='' @ quote a @ '', not '' @ realScalewayAPIURL))
            else None))"

definition or_else :: "string \<Rightarrow> string \<Rightarrow> string" where
  "or_else v d = (if v = [] then d else v)"

definition base_env :: "'w runtime \<Rightarrow> env" where
  "base_env rt =
     [(''SCW_ACCESS_KEY'', trim_space (getenv rt ''SCW_ACCESS_KEY'')),
      (''SCW_SECRET_KEY'', trim_space (getenv rt ''SCW_SECRET_KEY'')),
      (''SCW_DEFAULT_ORGANIZATION_ID'', trim_space (getenv rt ''SCW_DEFAULT_ORGANIZATION_ID'')),
      (''SCW_DEFAULT_REGION'', or_else (trim_space (cfg_region rt)) ''fr-par''),
      (''SCW_DEFAULT_ZONE'', or_else (trim_space (cfg_zone rt)) ''fr-par-1'')]"

definition with_project :: "env \<Rightarrow> string \<Rightarrow> env" where
  "with_project e projectDefault =
     (if projectDefault = [] then e else env_set e ''SCW_DEFAULT_PROJECT_ID'' projectDefault)"

definition sandboxEnvWithProjectDefault :: "'w runtime \<Rightarrow> string \<Rightarrow> go_error + env" where
  "sandboxEnvWithProjectDefault rt runProject =
     (let orgID = trim_space (getenv rt ''SCW_DEFAULT_ORGANIZATION_ID'');
          run = trim_space runProject;
          projectDefault = or_else run (trim_space (cfg_fallback_project rt));
          source = (if run \<noteq> [] then ''the run'' @ [apostrophe] @ ''s own project''
                    else ''scaleway.fallback_project_id'');
          e = with_project (base_env rt) projectDefault
      in if blank (getenv rt ''SCW_ACCESS_KEY'')
         then Inl (errorf ''sandbox deploy requires SCW_ACCESS_KEY in the environment'')
         else if blank (getenv rt ''SCW_SECRET_KEY'')
         then Inl (errorf ''sandbox deploy requires SCW_SECRET_KEY in the environment'')
         else if orgID = [] then Inl (errorf ''sandbox deploy requires SCW_DEFAULT_ORGANIZATION_ID in the environment (scaleway_account_project needs an organization to create the run project in)'')
         else if projectDefault \<noteq> [] \<and> projectDefault = orgID
         then Inl (errorf (source @ '' must not be the organization'' @ [apostrophe]
           @ ''s default project ('' @ orgID @ ''): a stray resource would land next to real infrastructure, which is exactly what this setting exists to prevent''))
         else (case assertRealScalewayEndpoint rt e of Some er \<Rightarrow> Inl er | None \<Rightarrow> Inr e))"

definition sandboxCommandEnvForProject :: "'w runtime \<Rightarrow> (string \<Rightarrow> go_error + env) \<Rightarrow> layer3_cloud \<Rightarrow> string
    \<Rightarrow> go_error + env" where
  "sandboxCommandEnvForProject rt aws_arm cloud runProject =
     (case cloud of
        layer3AWS \<Rightarrow> aws_arm runProject
      | Other_Cloud _ \<Rightarrow> Inl (layer3SeamRefused cloud ''environment'')
      | layer3Scaleway \<Rightarrow>
          if blank runProject
          then Inl (errorf (''refusing to build a Layer 3 environment with no run project: a destroy scoped to the shared fallback is not the inverse of an apply that ran in the run'' @ [apostrophe] @ ''s own project''))
          else sandboxEnvWithProjectDefault rt runProject)"

subsection \<open>Destroying a stack\<close>

record stage_result =
  sr_stage :: string
  sr_cmd :: "string list"
  sr_stdout :: string
  sr_stderr :: string

record destroy_result =
  dr_destroy :: stage_result
  dr_without_config :: string

text \<open>A destroy's error: the structured one of the harness, or any other.\<close>

datatype destroy_error =
    Destroy_Error (de_stage: string) (de_stderr: string) (de_err: go_error)
  | Other_Error go_error

definition destroy_args :: "string \<Rightarrow> string list" where
  "destroy_args statePath = [''destroy'', ''-auto-approve'', ''-state='' @ statePath]"

definition stage_of :: "string \<Rightarrow> string list \<Rightarrow> outcome \<Rightarrow> stage_result" where
  "stage_of name args oc = \<lparr>sr_stage = name, sr_cmd = ''tofu'' # args,
     sr_stdout = oc_stdout oc, sr_stderr = oc_stderr oc\<rparr>"

definition SandboxDestroy_Run :: "'w runtime \<Rightarrow> string \<Rightarrow> env \<Rightarrow> 'w world
    \<Rightarrow> (destroy_error + destroy_result) \<times> 'w world" where
  "SandboxDestroy_Run rt workDir e w =
     (let args = destroy_args LiveStateFilename;
          (oc, w') = run_command rt \<lparr>cm_args = args, cm_dir = Work_Dir workDir, cm_env = e\<rparr> w
      in case oc_err oc of
           Some er \<Rightarrow> (Inl (Destroy_Error ''destroy'' (oc_stderr oc) er), w')
         | None \<Rightarrow> (Inr \<lparr>dr_destroy = stage_of ''destroy'' args oc, dr_without_config = []\<rparr>, w'))"

text \<open>\<^verbatim>\<open>path.Base\<close>.\<close>

definition path_base :: "string \<Rightarrow> string" where
  "path_base p =
     (if p = [] then ''.''
      else let s = rev (dropWhile (\<lambda>c. c = CHR ''/'') (rev p)) in
        if s = [] then ''/'' else rev (takeWhile (\<lambda>c. c \<noteq> CHR ''/'') (rev s)))"

definition ChildScopedTypes :: "string \<Rightarrow> string list option" where
  "ChildScopedTypes = map_of
     [(''scaleway_lb_backend'', [''lb_id'']),
      (''scaleway_lb_frontend'', [''lb_id'', ''backend_id'']),
      (''scaleway_lb_route'', [''frontend_id'', ''backend_id'']),
      (''scaleway_lb_certificate'', [''lb_id'']),
      (''scaleway_instance_private_nic'', [''server_id'', ''private_network_id''])]"

definition builtin_provider :: string where
  "builtin_provider = ''provider['' @ [CHR 0x22] @ ''terraform.io/builtin/''"

definition managedCloudResource :: "tf_resource \<Rightarrow> bool" where
  "managedCloudResource r \<longleftrightarrow> tf_mode r \<noteq> ''data'' \<and> \<not> has_prefix (tf_provider r) builtin_provider"

definition attr :: "members \<Rightarrow> string \<Rightarrow> string" where
  "attr a k = as_str (jget a k)"

definition state_ids :: "tf_state \<Rightarrow> string list" where
  "state_ids st = concat (map (\<lambda>r. map (\<lambda>a. path_base (attr a ''id''))
     (filter (\<lambda>a. attr a ''id'' \<noteq> []) (tf_instances r))) (filter managedCloudResource st))"

text \<open>What is wrong with one instance, \<open>ids\<close> being the ids the state manages.\<close>

definition unplaced_instance :: "string list \<Rightarrow> string \<Rightarrow> tf_resource \<Rightarrow> members \<Rightarrow> string list" where
  "unplaced_instance ids projectID r a =
     (let named = tf_type r @ '' ('' @ attr a ''id'' @ '')'' in
      case ChildScopedTypes (tf_type r) of
        None \<Rightarrow> if attr a ''project_id'' \<noteq> projectID
                then [named @ '' in project '' @ quote (attr a ''project_id'')] else []
      | Some parents \<Rightarrow> map (\<lambda>k. named @ '' whose '' @ k @ '' '' @ quote (attr a k) @ '' is not in the state'')
          (filter (\<lambda>k. attr a k = [] \<or> path_base (attr a k) \<notin> set ids) parents))"

definition unplacedResources :: "tf_state \<Rightarrow> string \<Rightarrow> string list" where
  "unplacedResources st projectID =
     concat (map (\<lambda>r. concat (map (unplaced_instance (state_ids st) projectID r) (tf_instances r)))
       (filter managedCloudResource st))"

definition newline :: string where
  "newline = [CHR 0x0A]"

definition rootProviderAddr :: regex where
  "rootProviderAddr = seqs [At_Start, text_re (''provider['' @ [CHR 0x22]),
     Grp 1 (some_re (Chr (\<lambda>c. c \<noteq> CHR 0x22))), text_re ([CHR 0x22] @ '']''),
     opt_re (Seq (lit_char CHR ''.'') (Grp 2 (some_re (Chr (\<lambda>c. alnum c \<or> c \<in> set ''_-''))))), At_End]"

text \<open>Source and alias of every provider configured in the root module.\<close>

definition root_providers :: "tf_state \<Rightarrow> (string \<times> string) list" where
  "root_providers st = concat (map (\<lambda>r. case find_first rootProviderAddr (tf_provider r) of
       None \<Rightarrow> []
     | Some (_, m) \<Rightarrow> if has_prefix (group_of m 1) ''terraform.io/builtin/'' then []
                     else [(group_of m 1, group_of m 2)]) st)"

definition provider_block :: "string \<times> string \<Rightarrow> string" where
  "provider_block p =
     (let name = path_base (fst p) in
      if snd p = [] then ''provider '' @ quote name @ '' {}'' @ newline
      else ''provider '' @ quote name @ '' {'' @ newline @ ''  alias = '' @ quote (snd p) @ newline @ ''}'' @ newline)"

definition teardownConfig :: "tf_state \<Rightarrow> string" where
  "teardownConfig st =
     (let ps = root_providers st;
          sources = map (\<lambda>p. (path_base (fst p), fst p)) ps;
          names = sort (remdups (map fst sources));
          source = (\<lambda>n. case map_of (rev sources) n of None \<Rightarrow> [] | Some s \<Rightarrow> s)
      in ''terraform {'' @ newline @ ''  required_providers {'' @ newline
         @ concat (map (\<lambda>n. ''    '' @ n @ '' = { source = '' @ quote (source n) @ '' }'' @ newline) names)
         @ ''  }'' @ newline @ ''}'' @ newline
         @ concat (map (\<lambda>b. newline @ b) (sort (remdups (map provider_block ps)))))"

definition WithoutConfigStage :: string where
  "WithoutConfigStage = ''destroy_without_config''"

definition RunWithoutConfig :: "'w runtime \<Rightarrow> string \<Rightarrow> string \<Rightarrow> env \<Rightarrow> 'w world
    \<Rightarrow> (destroy_error + destroy_result) \<times> 'w world" where
  "RunWithoutConfig rt workDir projectID e w =
     (let refuse = (\<lambda>er. (Inl (Destroy_Error WithoutConfigStage [] er), w));
          dir = abs_dir rt workDir;
          fault = (\<lambda>step. temp_fault rt step (w_api w))
      in
      if blank projectID then refuse (protected_err ''no run project to scope it to'')
      else (case loadLiveTerraformState (state_path dir) (live_state rt (w_api w) dir) of
          Inl er \<Rightarrow> refuse er
        | Inr st \<Rightarrow>
            if unplacedResources st projectID \<noteq> []
            then refuse (protected_err (''the state records resources that cannot be placed in run project ''
              @ projectID @ '': '' @ join ''; '' (unplacedResources st projectID)))
            else (case (fault ''mkdir'', fault ''main.tf'', lock_file rt (w_api w) dir, fault ''.terraform.lock.hcl'') of
                (Some why, _, _, _) \<Rightarrow> refuse (errorf why)
              | (None, Some why, _, _) \<Rightarrow> refuse (errorf why)
              | (None, None, Text_Unreadable why, _) \<Rightarrow> refuse (errorf why)
              | (None, None, Text_File _, Some why) \<Rightarrow> refuse (errorf why)
              | (None, None, lock, _) \<Rightarrow>
                  let args = destroy_args (state_path dir);
                      copied = (case lock of Text_File s \<Rightarrow> Some s | _ \<Rightarrow> None);
                      (oc, w') = run_command rt \<lparr>cm_args = args,
                        cm_dir = Temp_Dir (teardownConfig st) copied,
                        cm_env = env_set e ''TF_DATA_DIR'' (dir @ ''/.terraform'')\<rparr> w
                  in (case oc_err oc of
                        Some er \<Rightarrow> (Inl (Destroy_Error WithoutConfigStage (oc_stderr oc) er), w')
                      | None \<Rightarrow> (Inr \<lparr>dr_destroy = stage_of WithoutConfigStage args oc,
                          dr_without_config = []\<rparr>, w')))))"

subsection \<open>Failure details\<close>

definition failureStderrDetailMaxChars :: nat where
  "failureStderrDetailMaxChars = 2400"

definition ansiEscapeRE :: regex where
  "ansiEscapeRE = seqs [lit_char CHR 0x1B, lit_char CHR ''['',
     many (Chr (\<lambda>c. is_digit c \<or> c = CHR '';'')),
     Chr (\<lambda>c. char_between CHR ''A'' CHR ''Z'' c \<or> char_between CHR ''a'' CHR ''z'' c)]"

definition stripAnsi :: "string \<Rightarrow> string" where
  "stripAnsi s = replace_all ansiEscapeRE (\<lambda>_. []) s"

definition stderrFailureDetail :: "string list \<Rightarrow> go_error option \<Rightarrow> string \<Rightarrow> string" where
  "stderrFailureDetail known baseErr stderr =
     (let detail = (case baseErr of None \<Rightarrow> [] | Some e \<Rightarrow> err_text e);
          trimmed = stripAnsi (trim_space stderr);
          kept = (if length trimmed > failureStderrDetailMaxChars
                  then CutText known trimmed failureStderrDetailMaxChars @ ''...'' else trimmed)
      in if trimmed = [] then detail else detail @ '' | stderr: '' @ kept)"

fun sandboxDestroyErrDetail :: "string list \<Rightarrow> destroy_error \<Rightarrow> string" where
  "sandboxDestroyErrDetail known (Destroy_Error _ stderr e) = stderrFailureDetail known (Some e) stderr"
| "sandboxDestroyErrDetail known (Other_Error e) = err_text e"

fun withFallbackFailure :: "string list \<Rightarrow> destroy_error \<Rightarrow> destroy_error \<Rightarrow> destroy_error" where
  "withFallbackFailure known (Destroy_Error s stderr e) fallback =
     Destroy_Error s stderr (Go_Error (err_text e
       @ ''; destroying from the state without the configuration did not work either [''
       @ sandboxDestroyErrDetail known fallback @ '']'') (err_is e))"
| "withFallbackFailure known (Other_Error e) fallback =
     Other_Error (Go_Error (err_text e
       @ ''; destroying from the state without the configuration did not work either [''
       @ sandboxDestroyErrDetail known fallback @ '']'') (err_is e))"

subsection \<open>May this project be destroyed?\<close>

definition assertRunProjectDeletable :: "'w runtime \<Rightarrow> layer3_cloud \<Rightarrow> string \<Rightarrow> string \<Rightarrow> env \<Rightarrow> 'w world
    \<Rightarrow> go_error option \<times> 'w world" where
  "assertRunProjectDeletable rt cloud workDir targetProjectID e w =
     (if cloud \<noteq> layer3Scaleway
      then (Some (protected_err (err_text (layer3SeamRefused cloud ''deletable check''))), w)
      else (case ReadRunProjectMarker w workDir of
          Inl er \<Rightarrow> (Some (protected_err (err_text er)), w)
        | Inr marker \<Rightarrow>
            if \<not> has_run_project rt
            then (Some (protected_err ''no run-project client, so provenance cannot be checked''), w)
            else let (r, w') = Describe (svc rt) (env_get e ''SCW_SECRET_KEY'') targetProjectID w in
              (case r of
                 Inl er \<Rightarrow> (Some (protected_err (''could not verify project '' @ targetProjectID
                   @ '' with the API: '' @ err_text er)), w')
               | Inr provenance \<Rightarrow> (AssertRunProjectDeletable marker targetProjectID
                   (env_get e ''SCW_DEFAULT_ORGANIZATION_ID'') provenance, w'))))"

definition purgeAutoCreated :: "'w runtime \<Rightarrow> string \<Rightarrow> string \<Rightarrow> 'w world
    \<Rightarrow> (go_error + string list) \<times> 'w world" where
  "purgeAutoCreated rt projectID secretKey w =
     (if \<not> has_auto_created rt \<or> secretKey = [] then (Inr [], w)
      else Purge_Run (svc rt) projectID secretKey w)"

subsection \<open>Destroy, purge, retry, fall back\<close>

type_synonym destroyed = "destroy_result option \<times> string list \<times> destroy_error option"

fun as_destroyed :: "string list \<Rightarrow> destroy_error + destroy_result \<Rightarrow> destroyed" where
  "as_destroyed removed (Inl e) = (None, removed, Some e)"
| "as_destroyed removed (Inr r) = (Some r, removed, None)"

definition destroyAndPurge :: "'w runtime \<Rightarrow> layer3_cloud \<Rightarrow> string \<Rightarrow> env \<Rightarrow> string \<Rightarrow> 'w world
    \<Rightarrow> destroyed \<times> 'w world" where
  "destroyAndPurge rt cloud workDir e projectID w =
     (let (r, w1) = SandboxDestroy_Run rt workDir e w;
          secretKey = env_get e ''SCW_SECRET_KEY'';
          first = as_destroyed [] r
      in if (case r of Inr _ \<Rightarrow> True | Inl _ \<Rightarrow> False) \<or> projectID = [] then (first, w1)
         else if secretKey = [] then (first, w1)
         else if \<not> has_auto_created rt then (first, w1)
         else let (refusal, w2) = assertRunProjectDeletable rt cloud workDir projectID e w1 in
           (case refusal of
              Some _ \<Rightarrow> (first, w2)
            | None \<Rightarrow>
                let (p, w3) = Purge_Run (svc rt) projectID secretKey w2 in
                (case p of
                   Inl _ \<Rightarrow> (first, w3)
                 | Inr [] \<Rightarrow> (first, w3)
                 | Inr removed \<Rightarrow>
                     let (r', w4) = SandboxDestroy_Run rt workDir e w3
                     in (as_destroyed removed r', w4))))"

definition resolveRunProjectID :: "'w world \<Rightarrow> string \<Rightarrow> string \<Rightarrow> string" where
  "resolveRunProjectID w workDir projectID =
     (if projectID \<noteq> [] then projectID
      else (case ReadRunProjectMarker w workDir of Inl _ \<Rightarrow> [] | Inr marker \<Rightarrow> mk_project_id marker))"

definition destroyAWSSandbox :: "'w runtime \<Rightarrow> string \<Rightarrow> env \<Rightarrow> 'w world \<Rightarrow> destroyed \<times> 'w world" where
  "destroyAWSSandbox rt workDir e w =
     (if blank (env_get e ''AWS_ACCESS_KEY_ID'')
      then ((None, [], Some (Other_Error (errorf ''refusing an aws Layer 3 destroy: the environment has no AWS_ACCESS_KEY_ID, so it is not the sealed one''))), w)
      else let (r, w') = SandboxDestroy_Run rt workDir e w in (as_destroyed [] r, w'))"

definition destroySandbox :: "'w runtime \<Rightarrow> layer3_cloud \<Rightarrow> string \<Rightarrow> env \<Rightarrow> string \<Rightarrow> 'w world
    \<Rightarrow> destroyed \<times> 'w world" where
  "destroySandbox rt cloud workDir e projectID0 w =
     (case cloud of
        layer3AWS \<Rightarrow> destroyAWSSandbox rt workDir e w
      | Other_Cloud _ \<Rightarrow> ((None, [], Some (Other_Error (layer3SeamRefused cloud ''destroy''))), w)
      | layer3Scaleway \<Rightarrow>
          let projectID = resolveRunProjectID w workDir projectID0;
              ((result, removed, err), w1) = destroyAndPurge rt cloud workDir e projectID w
          in (case err of
                None \<Rightarrow> ((result, removed, None), w1)
              | Some er \<Rightarrow>
                  if projectID = [] then ((result, removed, Some er), w1)
                  else let (refusal, w2) = assertRunProjectDeletable rt cloud workDir projectID e w1 in
                    (case refusal of
                       Some ae \<Rightarrow> ((result, removed,
                         Some (withFallbackFailure (cfg_accounts rt) er (Other_Error ae))), w2)
                     | None \<Rightarrow>
                         let (f, w3) = RunWithoutConfig rt workDir projectID e w2 in
                         (case f of
                            Inl fe \<Rightarrow> ((result, removed,
                              Some (withFallbackFailure (cfg_accounts rt) er fe)), w3)
                          | Inr fallback \<Rightarrow>
                              ((Some (fallback\<lparr>dr_without_config :=
                                  sandboxDestroyErrDetail (cfg_accounts rt) er\<rparr>), removed, None), w3)))))"

definition autoCreatedPurgeStage :: "string list \<Rightarrow> stage_summary" where
  "autoCreatedPurgeStage removed = stage sandbox_deploy ''auto_created_purge'' StageStatusPass
     (''destroy was blocked by '' @ nat_digits (length removed)
       @ '' resource(s) the API created but Terraform did not own: '' @ join ''; '' removed)"

definition withoutConfigStage :: "string \<Rightarrow> stage_summary" where
  "withoutConfigStage reason = stage sandbox_deploy WithoutConfigStage StageStatusPass
     (''tofu destroy failed, so everything '' @ LiveStateFilename
       @ '' recorded was destroyed without evaluating the configuration. It failed with: '' @ reason)"

definition appendSandboxDestroyResult :: "string list \<Rightarrow> report \<Rightarrow> destroy_result option
    \<Rightarrow> destroy_error option \<Rightarrow> report" where
  "appendSandboxDestroyResult known rep result runErr =
     (let (stages, failures) = rep in
      case runErr of
        None \<Rightarrow>
          (case result of
             None \<Rightarrow> (stages, failures)
           | Some r \<Rightarrow>
               if dr_without_config r \<noteq> []
               then (stages @ [stage sandbox_deploy ''destroy'' StageStatusFail [],
                       withoutConfigStage (dr_without_config r)], failures)
               else if sr_stage (dr_destroy r) \<noteq> []
               then (stages @ [stage sandbox_deploy ''destroy'' StageStatusPass []], failures)
               else (stages, failures))
      | Some (Other_Error e) \<Rightarrow>
          (stages, failures @ [failing sandbox_deploy ''destroy'' [] [] (err_text e)])
      | Some (Destroy_Error s stderr e) \<Rightarrow>
          (stages @ [stage sandbox_deploy ''destroy'' StageStatusFail []],
           failures @ [failing sandbox_deploy s s ''sandbox destroy harness''
             (stderrFailureDetail known (Some e) stderr)]))"

subsection \<open>Creating and releasing the run's project\<close>

definition run_project_failed :: "string \<Rightarrow> string \<Rightarrow> string \<Rightarrow> string \<times> report" where
  "run_project_failed check command detail =
     ([], [stage sandbox_deploy ''run_project'' StageStatusFail []],
      [failing sandbox_deploy ''run_project'' check command detail])"

text \<open>\<open>aws_arm\<close> is the claim of the AWS scope, and \<open>stamp\<close> the time of the run as it is printed.\<close>

definition ensureRunProject :: "'w runtime \<Rightarrow> ('w world \<Rightarrow> (string \<times> report) \<times> 'w world) \<Rightarrow> layer3_cloud
    \<Rightarrow> string \<Rightarrow> string \<Rightarrow> string \<Rightarrow> 'w world \<Rightarrow> (string \<times> report) \<times> 'w world" where
  "ensureRunProject rt aws_arm cloud scenario workDir stamp w =
     (case cloud of
        layer3AWS \<Rightarrow> aws_arm w
      | Other_Cloud _ \<Rightarrow> (run_project_failed ''cloud'' ''create run project''
          (err_text (layer3SeamRefused cloud ''run project'')), w)
      | layer3Scaleway \<Rightarrow>
          if \<not> has_run_project rt
          then (run_project_failed ''dependency'' ''create run project''
            ''no run-project client is configured, so the run has no project to apply into'', w)
          else
            let secretKey = trim_space (getenv rt ''SCW_SECRET_KEY'');
                orgID = trim_space (getenv rt ''SCW_DEFAULT_ORGANIZATION_ID'');
                (r, w1) = Create (svc rt) secretKey orgID scenario stamp w
            in (case r of
                  Inl e \<Rightarrow> (run_project_failed ''create'' ''create run project'' (err_text e), w1)
                | Inr p \<Rightarrow>
                    let (we, w2) = WriteRunProjectMarker (svc rt) workDir p w1 in
                    (case we of
                       None \<Rightarrow> ((rp_id p, [stage sandbox_deploy ''run_project'' StageStatusPass
                         (''created '' @ rp_id p @ '' ('' @ rp_name p
                           @ '') before the apply; it is the provider default project for this run'')], []), w2)
                     | Some e \<Rightarrow>
                         let detail = ''created project '' @ rp_id p @ '' but could not record it in ''
                               @ RunProjectMarkerFilename @ '': '' @ err_text e;
                             (de, w3) = Delete (svc rt) secretKey (rp_id p) w2
                         in (run_project_failed ''marker'' ''record run project''
                              (case de of
                                 Some d \<Rightarrow> detail @ ''; deleting it also failed: '' @ err_text d
                                   @ ''. Destroy it by hand -- no teardown can prove this run owns it''
                               | None \<Rightarrow> detail @ ''; it was deleted again, so nothing was left behind''), w3))))"

definition delete_failed :: "string \<Rightarrow> string \<Rightarrow> report" where
  "delete_failed check detail = ([stage sandbox_deploy ''run_project_delete'' StageStatusFail []],
     [failing sandbox_deploy ''run_project_delete'' check ''delete run project'' detail])"

definition runProjectDeleteFailure :: "string \<Rightarrow> string \<Rightarrow> report" where
  "runProjectDeleteFailure projectID detail = delete_failed ''delete''
     (''the run'' @ [apostrophe] @ ''s resources were destroyed but its project '' @ projectID
       @ '' was not deleted: '' @ detail @ ''. An empty project is free but does not clean itself up'')"

definition runProjectDeleteNotYet :: "string \<Rightarrow> string \<Rightarrow> report" where
  "runProjectDeleteNotYet projectID detail = delete_failed ''delete_not_yet''
     (''the run'' @ [apostrophe] @ ''s resources were destroyed and nothing auto-created was left to purge, but the API will not delete project ''
       @ projectID @ '' yet. Its resource check can lag its own deletions; that usually clears within minutes and has taken up to twenty. Run `infrafactory reap` shortly, and if it still refuses, open the project in the console and look for what it is holding. Detail: '' @ detail)"

definition delete_passed :: "string \<Rightarrow> stage_summary" where
  "delete_passed detail = stage sandbox_deploy ''run_project_delete'' StageStatusPass detail"

definition releaseRunProject :: "'w runtime \<Rightarrow> layer3_cloud \<Rightarrow> string \<Rightarrow> string \<Rightarrow> env \<Rightarrow> 'w world
    \<Rightarrow> report \<times> 'w world" where
  "releaseRunProject rt cloud workDir projectID e w =
     (if cloud \<noteq> layer3Scaleway
      then (delete_failed ''cloud'' (err_text (layer3SeamRefused cloud ''run project delete'')), w)
      else if blank projectID \<or> \<not> has_run_project rt then (([], []), w)
      else (case ReadRunProjectMarker w workDir of
          Inl _ \<Rightarrow> (([stage sandbox_deploy ''run_project_delete'' StageStatusSkip
              (''no '' @ RunProjectMarkerFilename @ '' in '' @ workDir
                @ '', so nothing here created project '' @ projectID
                @ '' through the Account API. The orphan sweep decides whether it is gone'')], []), w)
        | Inr _ \<Rightarrow>
            let (refusal, w1) = assertRunProjectDeletable rt cloud workDir projectID e w in
            (case refusal of
               Some er \<Rightarrow> (runProjectDeleteFailure projectID (''refusing to delete it: '' @ err_text er), w1)
             | None \<Rightarrow>
                 let secretKey = env_get e ''SCW_SECRET_KEY'';
                     (de, w2) = Delete (svc rt) secretKey projectID w1
                 in (case de of
                       None \<Rightarrow> (([delete_passed (''deleted '' @ projectID)], []), w2)
                     | Some er \<Rightarrow>
                         let (p, w3) = purgeAutoCreated rt projectID secretKey w2;
                             removed = (case p of Inl _ \<Rightarrow> [] | Inr xs \<Rightarrow> xs);
                             listed = nat_digits (length removed)
                         in if removed = [] then
                              ((if is_err er ErrRunProjectNotYetDeletable
                                then runProjectDeleteNotYet projectID (err_text er)
                                else runProjectDeleteFailure projectID (err_text er)), w3)
                            else let (re, w4) = Delete (svc rt) secretKey projectID w3 in
                              (case re of
                                 Some r2 \<Rightarrow>
                                   ((if is_err r2 ErrRunProjectNotYetDeletable
                                     then runProjectDeleteNotYet projectID (err_text r2 @ '' (after purging ''
                                       @ listed @ '' API-auto-created resource(s): '' @ join ''; '' removed @ '')'')
                                     else runProjectDeleteFailure projectID (err_text r2 @ ''. Purging '' @ listed
                                       @ '' API-auto-created resource(s) ('' @ join ''; '' removed
                                       @ '') did not unblock it'')), w4)
                               | None \<Rightarrow> (([autoCreatedPurgeStage removed,
                                   delete_passed (''deleted '' @ projectID @ '' after purging '' @ listed
                                     @ '' resource(s) the API created but Terraform did not own'')], []), w4))))))"

definition runProjectReleased :: "stage_summary list \<Rightarrow> bool" where
  "runProjectReleased stages =
     list_ex (\<lambda>s. sm_stage s = ''run_project_delete'' \<and> sm_status s = StageStatusPass) stages"

subsection \<open>Is the account clean?\<close>

text \<open>Only a missing file, or one that decodes with no resources, holds nothing for certain.\<close>

definition liveStateMayHoldResources :: "json_file \<Rightarrow> bool" where
  "liveStateMayHoldResources f =
     (case f of
        File_Missing \<Rightarrow> False
      | File_Unreadable _ \<Rightarrow> True
      | File_Json None \<Rightarrow> True
      | File_Json (Some j) \<Rightarrow>
          (case dec_struct (\<lambda>m. dec_list Some (jfield m ''resources'')) (Some j) of
             None \<Rightarrow> True | Some rs \<Rightarrow> 0 < length rs))"

definition sweep_failed :: "report \<Rightarrow> string \<Rightarrow> string \<Rightarrow> report" where
  "sweep_failed rep command detail =
     (fst rep @ [stage sandbox_deploy ''orphan_sweep'' StageStatusFail []],
      snd rep @ [failing sandbox_deploy ''orphan_sweep'' ''no_orphans'' command detail])"

definition summary_of :: "failure \<Rightarrow> failure_summary" where
  "summary_of f = failing (f_layer f) (f_stage f) (f_check f) (f_command f) (f_detail f)"

definition appendOrphanSweepResult :: "'w runtime \<Rightarrow> layer3_cloud \<Rightarrow> (go_error + sweep_target) \<Rightarrow> env \<Rightarrow> report
    \<Rightarrow> 'w world \<Rightarrow> report \<times> 'w world" where
  "appendOrphanSweepResult rt cloud target e rep w =
     (if cloud \<noteq> layer3Scaleway
      then (sweep_failed rep ''orphan sweep'' (err_text (layer3SeamRefused cloud ''orphan sweep'')), w)
      else (case target of
          Inl er \<Rightarrow> (sweep_failed rep ''capture sweep target'' (err_text er), w)
        | Inr t \<Rightarrow>
            let (r, w') = Sweep_Run (svc rt) (Some t) (env_get e ''SCW_SECRET_KEY'') w in
            (case r of
               Inl er \<Rightarrow> (sweep_failed rep ''orphan sweep'' (err_text er), w')
             | Inr s \<Rightarrow>
                 if Sweep_Clean (Some s)
                 then ((fst rep @ [stage sandbox_deploy ''orphan_sweep'' StageStatusPass
                     (''project '' @ sr_project_id s @ '' destroyed; no resources left outside it'')], snd rep), w')
                 else ((fst rep @ [stage sandbox_deploy ''orphan_sweep'' StageStatusFail []],
                     snd rep @ map summary_of (sr_failures s)), w'))))"

subsection \<open>Tearing down a live deployment\<close>

text \<open>
  The state of a live command is the world and the store. The two early returns that cannot
  reclaim a record share \<open>unreclaimable\<close>.
\<close>

definition unreclaimable :: "deployment \<Rightarrow> report \<Rightarrow> string \<Rightarrow> report" where
  "unreclaimable d rep detail =
     (fst rep @ [stage ''live'' ''teardown'' StageStatusFail []],
      snd rep @ [failing ''live'' ''teardown'' ''reclaimable'' (''live teardown '' @ d_id d) detail])"

definition forget_hint :: "deployment \<Rightarrow> string" where
  "forget_hint d = ''`infrafactory live forget '' @ d_id d @ ''`''"

definition marker_project :: "'w world \<Rightarrow> deployment \<Rightarrow> string" where
  "marker_project w d =
     (case ReadRunProjectMarker w (d_work_dir d) of
        Inr marker \<Rightarrow> mk_project_id marker | Inl _ \<Rightarrow> d_project_id d)"

text \<open>The path of a record whose state holds nothing: release the project, sweep, release.\<close>

definition tearDownEmpty :: "'w runtime \<Rightarrow> (string \<Rightarrow> go_error + env) \<Rightarrow> deployment \<Rightarrow> 'w world \<times> store
    \<Rightarrow> report \<times> 'w world \<times> store" where
  "tearDownEmpty rt aws_arm d ws =
     (let (w, s) = ws in
      if d_sweep_failed d
      then (unreclaimable d ([], []) (d_id d
        @ '' had an orphan sweep FAIL before its state was emptied, so strays outside project '' @ d_project_id d
        @ '' cannot be recomputed and this pass cannot prove the account is clean. Verify by hand, then clear the record with ''
        @ forget_hint d), w, s)
      else (case sandboxCommandEnvForProject rt aws_arm layer3Scaleway (marker_project w d) of
          Inl er \<Rightarrow> (unreclaimable d ([], []) (d_id d
            @ '' has nothing to destroy, but the account cannot be verified: '' @ err_text er), w, s)
        | Inr e \<Rightarrow>
            let (rep1, w1) = releaseRunProject rt layer3Scaleway (d_work_dir d) (d_project_id d) e w;
                (rep2, w2) = appendOrphanSweepResult rt layer3Scaleway
                  (Inr \<lparr>st_project_id = d_project_id d, st_strays = []\<rparr>) e rep1 w1
            in if snd rep2 \<noteq> [] then (rep2, w2, s)
               else (case MarkReleased s (d_id d) of
                   (Some er, s') \<Rightarrow> (unreclaimable d rep2 (d_id d
                     @ '' was cleaned up and the account verified clean, but the record could not be released: ''
                     @ print_store_error rt er), w2, s')
                 | (None, s') \<Rightarrow> ((fst rep2 @ [stage ''live'' ''release'' StageStatusPass (d_id d
                     @ '' held no resources; its project was deleted, the account verified, record released'')],
                     snd rep2), w2, s'))))"

text \<open>What a failed sweep leaves on the record, and what a failed write of that reports.\<close>

definition record_sweep_failure :: "'w runtime \<Rightarrow> deployment \<Rightarrow> report \<Rightarrow> store \<Rightarrow> report \<times> store" where
  "record_sweep_failure rt d rep s =
     (case Put s (d\<lparr>d_sweep_failed := True\<rparr>) of
        (None, s') \<Rightarrow> (rep, s')
      | (Some er, s') \<Rightarrow>
          ((fst rep @ [stage ''live'' ''sweep_marker'' StageStatusFail []],
            snd rep @ [failing ''live'' ''sweep_marker'' ''record'' (''live teardown '' @ d_id d)
              (d_id d @ '' had an orphan sweep fail AND the marker recording that could not be written: ''
                @ print_store_error rt er
                @ ''. Do not re-run teardown expecting it to refuse -- verify project '' @ d_project_id d
                @ '' by hand'')]), s'))"

definition tearDownResources :: "'w runtime \<Rightarrow> (string \<Rightarrow> go_error + env) \<Rightarrow> deployment \<Rightarrow> 'w world \<times> store
    \<Rightarrow> report \<times> 'w world \<times> store" where
  "tearDownResources rt aws_arm d ws =
     (let (w, s) = ws in
      case sandboxCommandEnvForProject rt aws_arm layer3Scaleway (marker_project w d) of
        Inl er \<Rightarrow> (unreclaimable d ([], []) (''sandbox credentials for '' @ d_id d @ '': '' @ err_text er), w, s)
      | Inr e \<Rightarrow>
          let target = CaptureSweepTarget (svc rt) w (d_work_dir d);
              ((result, purged, err), w1) = destroySandbox rt layer3Scaleway (d_work_dir d) e
                (case target of Inl _ \<Rightarrow> [] | Inr t \<Rightarrow> st_project_id t) w;
              rep0 = appendSandboxDestroyResult (cfg_accounts rt) ([], []) result err;
              rep1 = (if purged = [] then rep0 else (fst rep0 @ [autoCreatedPurgeStage purged], snd rep0));
              (rep2, w2, s2) =
                (case err of
                   Some _ \<Rightarrow> (rep1, w1, s)
                 | None \<Rightarrow>
                     let (p, w1') = releaseRunProject rt layer3Scaleway (d_work_dir d) (d_project_id d) e w1;
                         before = (fst rep1 @ fst p, snd rep1 @ snd p);
                         (swept, w1'') = appendOrphanSweepResult rt layer3Scaleway target e before w1'
                     in if length (snd swept) > length (snd before)
                        then (let (rep', s') = record_sweep_failure rt d swept s in (rep', w1'', s'))
                        else (swept, w1'', s))
          in if snd rep2 \<noteq> [] then (rep2, w2, s2)
             else (case MarkReleased s2 (d_id d) of
                 (Some er, s3) \<Rightarrow>
                   ((fst rep2 @ [stage ''live'' ''release'' StageStatusFail []],
                     snd rep2 @ [failing ''live'' ''release'' ''record'' (''live teardown '' @ d_id d)
                       (d_id d @ '' was destroyed and swept, but the record could not be marked released: ''
                         @ print_store_error rt er
                         @ ''. Its resources are GONE -- delete the record by hand; do not expect a later reap to re-verify it, because destroy has already emptied the state it would read'')]), w2, s3)
               | (None, s3) \<Rightarrow>
                   ((fst rep2 @ [stage ''live'' ''release'' StageStatusPass
                     (d_id d @ '' released (project '' @ d_project_id d @ '' destroyed)'')], snd rep2), w2, s3)))"

definition tearDownDeployment :: "'w runtime \<Rightarrow> (string \<Rightarrow> go_error + env) \<Rightarrow> deployment \<Rightarrow> 'w world \<times> store
    \<Rightarrow> report \<times> 'w world \<times> store" where
  "tearDownDeployment rt aws_arm d ws =
     (let (w, s) = ws; cloud = layer3TeardownCloud (d_cloud d) in
      if d_work_dir d = [] then
        (unreclaimable d ([], [])
          (if d_undecodable d
           then ''deployment '' @ d_id d
             @ '' could not be decoded, so nothing can be destroyed from it. Its resources may still be running -- inspect ''
             @ d_id d @ ''.json by hand, destroy what it names, then clear it with '' @ forget_hint d
           else ''deployment '' @ d_id d
             @ '' records no work_dir, so there is no state to destroy from. Its project '' @ d_project_id d
             @ '' may still be running: destroy it by hand, then clear the record with '' @ forget_hint d), w, s)
      else if cloud \<noteq> layer3Scaleway then
        (unreclaimable d ([], []) (d_id d @ '' was applied to cloud '' @ quote (d_cloud d)
          @ '', whose Layer 3 teardown is not built: resources recorded in '' @ state_path (d_work_dir d)
          @ '' may exist. Destroy them by hand, then clear the record with '' @ forget_hint d), w, s)
      else if \<not> liveStateMayHoldResources (live_state rt (w_api w) (d_work_dir d))
      then tearDownEmpty rt aws_arm d ws
      else tearDownResources rt aws_arm d ws)"

subsection \<open>The live commands\<close>

definition teardownBuilt :: "deployment \<Rightarrow> bool" where
  "teardownBuilt d \<longleftrightarrow> parseLayer3Cloud (d_cloud d) = Inr layer3Scaleway"

definition reclaimable :: "'w runtime \<Rightarrow> 'w world \<Rightarrow> deployment \<Rightarrow> bool" where
  "reclaimable rt w d \<longleftrightarrow>
     (let state = live_state rt (w_api w) (d_work_dir d) in
      if d_undecodable d \<or> d_state d = StateReleased \<or> d_work_dir d = [] then False
      else if \<not> teardownBuilt d then False
      else if w_markers w (d_work_dir d) = File_Missing \<and> state = File_Missing then False
      else if blank (d_project_id d) then False
      else if d_sweep_failed d \<and> \<not> liveStateMayHoldResources state then False
      else True)"

text \<open>How a command ends: refused as misuse, failed, or with a report that decides its status.\<close>

datatype command_end = Refused string | Failed store_error | Finished report

definition finished_ok :: "command_end \<Rightarrow> bool" where
  "finished_ok c = (case c of Finished rep \<Rightarrow> snd rep = [] | _ \<Rightarrow> False)"

definition runLiveForgetCommand :: "'w runtime \<Rightarrow> string \<Rightarrow> 'w world \<times> store
    \<Rightarrow> command_end \<times> 'w world \<times> store" where
  "runLiveForgetCommand rt i ws =
     (let (w, s) = ws;
          known = (case Get s i of Inl _ \<Rightarrow> ''unreadable''
            | Inr d \<Rightarrow> ''scenario '' @ d_scenario d @ '', project '' @ d_project_id d);
          handled = (case Get s i of Inl _ \<Rightarrow> False | Inr d \<Rightarrow> reclaimable rt w d)
      in if handled
         then (Refused (i @ '' is reclaimable ('' @ known @ ''): use `infrafactory live teardown '' @ i
           @ ''`, which destroys and verifies. forget abandons tracking and is only for records teardown cannot act on''), w, s)
         else (case MarkReleased s i of
             (Some er, s') \<Rightarrow> (Failed er, w, s')
           | (None, s') \<Rightarrow> (Finished ([stage ''live'' ''forget'' StageStatusPass
               (i @ '' released without destroy or verification ('' @ known @ '')'')], []), w, s')))"

definition runLiveTeardownCommand :: "'w runtime \<Rightarrow> (string \<Rightarrow> go_error + env) \<Rightarrow> string \<Rightarrow> 'w world \<times> store
    \<Rightarrow> command_end \<times> 'w world \<times> store" where
  "runLiveTeardownCommand rt aws_arm i ws =
     (case Get (snd ws) i of
        Inl (ReadFailed x) \<Rightarrow> (Refused (print_store_error rt (ReadFailed x)), ws)
      | Inl _ \<Rightarrow> (let (rep, ws') = tearDownDeployment rt aws_arm
          (zero_deployment\<lparr>d_id := i, d_undecodable := True\<rparr>) ws in (Finished rep, ws'))
      | Inr d \<Rightarrow> (let (rep, ws') = tearDownDeployment rt aws_arm d ws in (Finished rep, ws')))"

fun reap_all :: "'w runtime \<Rightarrow> (string \<Rightarrow> go_error + env) \<Rightarrow> deployment list \<Rightarrow> report \<Rightarrow> 'w world \<times> store
    \<Rightarrow> report \<times> 'w world \<times> store" where
  "reap_all rt aws_arm [] rep ws = (rep, ws)"
| "reap_all rt aws_arm (d # ds) rep ws =
     (let (r, ws') = tearDownDeployment rt aws_arm d ws
      in reap_all rt aws_arm ds (fst rep @ fst r, snd rep @ snd r) ws')"

definition unreadable_report :: "'w runtime \<Rightarrow> store_error list \<Rightarrow> report" where
  "unreadable_report rt errs =
     (map (\<lambda>_. stage ''live'' ''scan'' StageStatusFail []) errs,
      map (\<lambda>e. failing ''live'' ''scan'' ''readable'' ''live reap'' (print_store_error rt e @ '' '' @ em_dash
        @ '' this record may describe running infrastructure that reap cannot reach'')) errs)"

definition runLiveReapCommand :: "'w runtime \<Rightarrow> (string \<Rightarrow> go_error + env) \<Rightarrow> bool \<Rightarrow> instant \<Rightarrow> 'w world \<times> store
    \<Rightarrow> command_end \<times> 'w world \<times> store" where
  "runLiveReapCommand rt aws_arm dryRun now ws =
     (let (expired, unreadable) = ReapableList (snd ws) now;
          rep = unreadable_report rt unreadable
      in if expired = []
         then (Finished (fst rep @ [stage ''live'' ''reap'' StageStatusPass ''no expired deployments''], snd rep), ws)
         else if dryRun
         then (Finished (fst rep @ [stage ''live'' ''reap'' StageStatusSkip (''--dry-run: ''
           @ nat_digits (length expired) @ '' deployment(s) would be torn down'')], snd rep), ws)
         else (let (rep', ws') = reap_all rt aws_arm expired rep ws in (Finished rep', ws')))"

subsection \<open>The interface of a guarded client\<close>

text \<open>
  What the lifecycles rely on: the guard only reads, and where it lets a target through, the
  target is allowed, which nothing the client sends can change; deleting and purging a target
  send only requests that remove things of that target. \<open>sent P s s'\<close> says that going from
  \<open>s\<close> to \<open>s'\<close> sent only requests that satisfy \<open>P\<close>. A request is safe for a start state when it
  reads, or removes things of a target that was allowed there.
\<close>

locale guarded_client =
  fixes sent :: "('r \<Rightarrow> bool) \<Rightarrow> 's \<Rightarrow> 's \<Rightarrow> bool"
    and guard :: "'p \<Rightarrow> 's \<Rightarrow> 'e option \<times> 's"
    and delete :: "'p \<Rightarrow> 's \<Rightarrow> 'e option \<times> 's"
    and purge :: "'p \<Rightarrow> 's \<Rightarrow> ('e + 'x list) \<times> 's"
    and allowed :: "'s \<Rightarrow> 'p \<Rightarrow> bool"
    and reads :: "'r \<Rightarrow> bool"
    and removes :: "'p \<Rightarrow> 'r \<Rightarrow> bool"
  assumes sent_refl: "sent P s s"
    and sent_trans: "sent P s s' \<Longrightarrow> sent P s' s'' \<Longrightarrow> sent P s s''"
    and sent_mono: "sent P s s' \<Longrightarrow> (\<And>r. P r \<Longrightarrow> Q r) \<Longrightarrow> sent Q s s'"
    and guard_reads: "sent reads s (snd (guard p s))"
    and guard_allows: "fst (guard p s) = None \<Longrightarrow> allowed s p"
    and allowed_stable: "sent P s s' \<Longrightarrow> allowed s' p \<longleftrightarrow> allowed s p"
    and delete_removes: "sent (removes p) s (snd (delete p s))"
    and purge_removes: "sent (\<lambda>r. reads r \<or> removes p r) s (snd (purge p s))"
begin

definition safe :: "'s \<Rightarrow> 'r \<Rightarrow> bool" where
  "safe s0 r \<longleftrightarrow> reads r \<or> (\<exists>p. allowed s0 p \<and> removes p r)"

lemma reading_step: "sent (safe s0) s0 s \<Longrightarrow> sent reads s s' \<Longrightarrow> sent (safe s0) s0 s'"
  by (rule sent_trans) (auto elim: sent_mono simp: safe_def)

lemma guard_step: "sent (safe s0) s0 s \<Longrightarrow> guard p s = (r, s') \<Longrightarrow> sent (safe s0) s0 s'"
  using reading_step guard_reads [of s p] by auto

lemma guard_allowed: "sent (safe s0) s0 s \<Longrightarrow> guard p s = (None, s') \<Longrightarrow> allowed s0 p"
  using guard_allows [of p s] allowed_stable by auto

lemma delete_step:
  "sent (safe s0) s0 s \<Longrightarrow> allowed s0 p \<Longrightarrow> delete p s = (r, s') \<Longrightarrow> sent (safe s0) s0 s'"
  using sent_trans [OF _ sent_mono [OF delete_removes [of p s]], of "safe s0" s0] by (auto simp: safe_def)

lemma purge_step:
  "sent (safe s0) s0 s \<Longrightarrow> allowed s0 p \<Longrightarrow> purge p s = (r, s') \<Longrightarrow> sent (safe s0) s0 s'"
  using sent_trans [OF _ sent_mono [OF purge_removes [of p s]], of "safe s0" s0] by (auto simp: safe_def)

text \<open>The whole sequence of a release: guard, delete, purge, delete again.\<close>

lemma guard_delete_purge_delete:
  assumes "guard p s0 = (None, s1)" and "delete p s1 = (r2, s2)" and "purge p s2 = (r3, s3)"
    and "delete p s3 = (r4, s4)"
  shows "sent (safe s0) s0 s1 \<and> sent (safe s0) s0 s2 \<and> sent (safe s0) s0 s3 \<and> sent (safe s0) s0 s4"
proof -
  have 1: "sent (safe s0) s0 s1" using guard_step [OF sent_refl assms(1)] .
  have ok: "allowed s0 p" using guard_allowed [OF sent_refl assms(1)] .
  have 2: "sent (safe s0) s0 s2" using delete_step [OF 1 ok assms(2)] .
  have 3: "sent (safe s0) s0 s3" using purge_step [OF 2 ok assms(3)] .
  show ?thesis using 1 2 3 delete_step [OF 3 ok assms(4)] by blast
qed

end

subsection \<open>The model's client\<close>

text \<open>
  A project may be destroyed from a work directory: its marker names the project, which is not
  the organization's default, and the API described it as gone or as infrafactory's own.
\<close>

definition authorised :: "'w services \<Rightarrow> string \<Rightarrow> string \<Rightarrow> string \<Rightarrow> 'w world \<Rightarrow> string \<Rightarrow> bool" where
  "authorised sv workDir key org w pid \<longleftrightarrow>
     (\<exists>marker. ReadRunProjectMarker w workDir = Inr marker \<and> mk_project_id marker = trim_space pid)
     \<and> \<not> blank pid \<and> (\<not> blank org \<longrightarrow> trim_space pid \<noteq> trim_space org)
     \<and> (\<exists>w0 prov. w_markers w0 = w_markers w \<and> fst (Describe sv key pid w0) = Inr prov
          \<and> (pv_exists prov \<longrightarrow> IsInfrafactoryRunProject prov))"

definition removes_of :: "'w services \<Rightarrow> string \<Rightarrow> string \<Rightarrow> request \<Rightarrow> bool" where
  "removes_of sv key pid rq \<longleftrightarrow> deletes_project sv pid rq
     \<or> (\<not> is_get rq \<and> purge_request sv key pid rq)"

lemma Read_markers: "w_markers w = w_markers w' \<Longrightarrow> ReadRunProjectMarker w d = ReadRunProjectMarker w' d"
  by (simp add: ReadRunProjectMarker_def)

lemma assert_sent: "extends is_get w (snd (assertRunProjectDeletable rt cloud d p e w))"
  using Describe_sent [of w "svc rt" "env_get e ''SCW_SECRET_KEY''" p]
  by (auto simp: assertRunProjectDeletable_def Let_def split: prod.splits sum.splits)

lemma assert_authorised:
  assumes "fst (assertRunProjectDeletable rt cloud d p e w) = None"
  shows "authorised (svc rt) d (env_get e ''SCW_SECRET_KEY'') (env_get e ''SCW_DEFAULT_ORGANIZATION_ID'') w p"
proof -
  obtain marker prov where m: "ReadRunProjectMarker w d = Inr marker"
    and p: "fst (Describe (svc rt) (env_get e ''SCW_SECRET_KEY'') p w) = Inr prov"
    and g: "AssertRunProjectDeletable marker p (env_get e ''SCW_DEFAULT_ORGANIZATION_ID'') prov = None"
    using assms by (auto simp: assertRunProjectDeletable_def Let_def split: prod.splits sum.splits if_splits)
  from guard_target [OF g] m p show ?thesis unfolding authorised_def by blast
qed

interpretation project: guarded_client extends
    "\<lambda>p. assertRunProjectDeletable rt cloud d p e"
    "Delete (svc rt) (env_get e ''SCW_SECRET_KEY'')"
    "\<lambda>p. Purge_Run (svc rt) p (env_get e ''SCW_SECRET_KEY'')"
    "authorised (svc rt) d (env_get e ''SCW_SECRET_KEY'') (env_get e ''SCW_DEFAULT_ORGANIZATION_ID'')"
    is_get "removes_of (svc rt) (env_get e ''SCW_SECRET_KEY'')"
  for rt :: "'w runtime" and cloud d e
proof
  let ?key = "env_get e ''SCW_SECRET_KEY''"
  fix P Q :: "request \<Rightarrow> bool" and s s' s'' :: "'w world" and p
  show "extends P s s" by simp
  show "extends P s s' \<Longrightarrow> extends P s' s'' \<Longrightarrow> extends P s s''" by (rule extends_trans)
  show "extends P s s' \<Longrightarrow> (\<And>r. P r \<Longrightarrow> Q r) \<Longrightarrow> extends Q s s'" by (rule extends_mono)
  show "extends is_get s (snd (assertRunProjectDeletable rt cloud d p e s))" by (rule assert_sent)
  show "fst (assertRunProjectDeletable rt cloud d p e s) = None \<Longrightarrow>
      authorised (svc rt) d ?key (env_get e ''SCW_DEFAULT_ORGANIZATION_ID'') s p" by (rule assert_authorised)
  show "extends P s s' \<Longrightarrow> authorised (svc rt) d ?key (env_get e ''SCW_DEFAULT_ORGANIZATION_ID'') s' p
      = authorised (svc rt) d ?key (env_get e ''SCW_DEFAULT_ORGANIZATION_ID'') s p"
    using Read_markers [of s' s d] by (simp add: authorised_def extends_markers)
  show "extends (removes_of (svc rt) ?key p) s (snd (Delete (svc rt) ?key p s))"
    by (rule extends_mono [OF Delete_sent]) (simp add: removes_of_def)
  show "extends (\<lambda>r. is_get r \<or> removes_of (svc rt) ?key p r) s (snd (Purge_Run (svc rt) p ?key s))"
    by (rule extends_mono [OF Purge_Run_sent]) (auto simp: removes_of_def)
qed

text \<open>A request a lifecycle may send, started in \<open>w\<close>.\<close>

definition safe_request :: "'w services \<Rightarrow> string \<Rightarrow> string \<Rightarrow> string \<Rightarrow> 'w world \<Rightarrow> request \<Rightarrow> bool" where
  "safe_request sv d key org w rq \<longleftrightarrow>
     is_get rq \<or> (\<exists>p. authorised sv d key org w p \<and> removes_of sv key p rq)"

abbreviation safe_in :: "'w runtime \<Rightarrow> string \<Rightarrow> env \<Rightarrow> 'w world \<Rightarrow> request \<Rightarrow> bool" where
  "safe_in rt d e \<equiv>
     safe_request (svc rt) d (env_get e ''SCW_SECRET_KEY'') (env_get e ''SCW_DEFAULT_ORGANIZATION_ID'')"

lemma safe_eq:
  "guarded_client.safe (authorised (svc rt) d (env_get e ''SCW_SECRET_KEY'')
       (env_get e ''SCW_DEFAULT_ORGANIZATION_ID'')) is_get
     (removes_of (svc rt) (env_get e ''SCW_SECRET_KEY'')) w = safe_in rt d e w"
  by (rule ext) (simp add: safe_request_def project.safe_def)

lemmas client_start = project.sent_refl
lemmas client_guard = project.guard_step [unfolded safe_eq]
lemmas client_allowed = project.guard_allowed [unfolded safe_eq]
lemmas client_delete = project.delete_step [unfolded safe_eq]
lemmas client_purge = project.purge_step [unfolded safe_eq]
lemmas client_read = project.reading_step [unfolded safe_eq]

lemma run_command_sent: "run_command rt c w = (oc, w') \<Longrightarrow> extends P w w'"
  by (auto simp: run_command_def extends_def split: prod.splits)

lemma SandboxDestroy_sent: "SandboxDestroy_Run rt d e w = (r, w') \<Longrightarrow> extends P w w'"
  by (auto simp: SandboxDestroy_Run_def Let_def run_command_sent split: prod.splits option.splits)

lemma RunWithoutConfig_sent: "RunWithoutConfig rt d p e w = (r, w') \<Longrightarrow> extends P w w'"
  by (auto simp: RunWithoutConfig_def Let_def run_command_sent
      split: prod.splits option.splits sum.splits if_splits text_file.splits)

lemma client_tofu: "extends P w0 w \<Longrightarrow> SandboxDestroy_Run rt d e w = (r, w') \<Longrightarrow> extends P w0 w'"
  using SandboxDestroy_sent extends_trans by blast

lemma client_without: "extends P w0 w \<Longrightarrow> RunWithoutConfig rt d p e w = (r, w') \<Longrightarrow> extends P w0 w'"
  using RunWithoutConfig_sent extends_trans by blast

lemma client_purge_auto:
  "extends (safe_in rt d e w0) w0 w \<Longrightarrow>
   authorised (svc rt) d (env_get e ''SCW_SECRET_KEY'') (env_get e ''SCW_DEFAULT_ORGANIZATION_ID'') w0 p \<Longrightarrow>
   purgeAutoCreated rt p (env_get e ''SCW_SECRET_KEY'') w = (r, w') \<Longrightarrow> extends (safe_in rt d e w0) w0 w'"
  by (auto simp: purgeAutoCreated_def client_purge split: if_splits)

lemma release_sent:
  "releaseRunProject rt cloud d p e w = (rep, w') \<Longrightarrow> extends (safe_in rt d e w) w w'"
proof -
  assume rel: "releaseRunProject rt cloud d p e w = (rep, w')"
  obtain ref w1 where g: "assertRunProjectDeletable rt cloud d p e w = (ref, w1)" by fastforce
  obtain de w2 where dl: "Delete (svc rt) (env_get e ''SCW_SECRET_KEY'') p w1 = (de, w2)" by fastforce
  obtain pu w3 where pg: "purgeAutoCreated rt p (env_get e ''SCW_SECRET_KEY'') w2 = (pu, w3)" by fastforce
  obtain re w4 where rd: "Delete (svc rt) (env_get e ''SCW_SECRET_KEY'') p w3 = (re, w4)" by fastforce
  have 1: "extends (safe_in rt d e w) w w1" using client_guard [OF client_start g] .
  have "extends (safe_in rt d e w) w w2 \<and> extends (safe_in rt d e w) w w3 \<and> extends (safe_in rt d e w) w w4"
    if "ref = None"
  proof -
    have ok: "authorised (svc rt) d (env_get e ''SCW_SECRET_KEY'') (env_get e ''SCW_DEFAULT_ORGANIZATION_ID'') w p"
      using client_allowed [OF client_start g [unfolded that]] .
    have 2: "extends (safe_in rt d e w) w w2" by (rule client_delete [OF 1 ok dl])
    have 3: "extends (safe_in rt d e w) w w3" by (rule client_purge_auto [OF 2 ok pg])
    show ?thesis using 2 3 client_delete [OF 3 ok rd] by blast
  qed
  moreover have "w' = w \<or> w' = w1 \<or> (ref = None \<and> (w' = w2 \<or> w' = w3 \<or> w' = w4))"
    using rel g unfolding releaseRunProject_def
    by (auto simp: Let_def dl pg rd split: if_splits sum.splits option.splits)
  ultimately show ?thesis using 1 by auto
qed

lemma destroyAndPurge_sent:
  "destroyAndPurge rt cloud d e p w = (r, w') \<Longrightarrow> extends (safe_in rt d e w) w w'"
proof -
  assume run: "destroyAndPurge rt cloud d e p w = (r, w')"
  obtain r1 w1 where a: "SandboxDestroy_Run rt d e w = (r1, w1)" by fastforce
  obtain ref w2 where g: "assertRunProjectDeletable rt cloud d p e w1 = (ref, w2)" by fastforce
  obtain pu w3 where pg: "Purge_Run (svc rt) p (env_get e ''SCW_SECRET_KEY'') w2 = (pu, w3)" by fastforce
  obtain r4 w4 where b: "SandboxDestroy_Run rt d e w3 = (r4, w4)" by fastforce
  have 1: "extends (safe_in rt d e w) w w1" using client_tofu [OF client_start a] .
  have 2: "extends (safe_in rt d e w) w w2" using client_guard [OF 1 g] .
  have "extends (safe_in rt d e w) w w3 \<and> extends (safe_in rt d e w) w w4" if "ref = None"
  proof -
    have 3: "extends (safe_in rt d e w) w w3"
      using client_purge [OF 2 client_allowed [OF 1 g [unfolded that]] pg] .
    show ?thesis using 3 client_tofu [OF 3 b] by blast
  qed
  moreover have "w' = w1 \<or> w' = w2 \<or> (ref = None \<and> (w' = w3 \<or> w' = w4))"
    using run unfolding destroyAndPurge_def
    by (auto simp: Let_def a g pg b split: if_splits sum.splits option.splits list.splits)
  ultimately show ?thesis using 1 2 by auto
qed

lemma destroySandbox_sent:
  "destroySandbox rt layer3Scaleway d e p w = (r, w') \<Longrightarrow> extends (safe_in rt d e w) w w'"
proof -
  assume run: "destroySandbox rt layer3Scaleway d e p w = (r, w')"
  let ?p = "resolveRunProjectID w d p"
  obtain res rem err w1 where a: "destroyAndPurge rt layer3Scaleway d e ?p w = ((res, rem, err), w1)"
    by (metis prod.exhaust)
  obtain ref w2 where g: "assertRunProjectDeletable rt layer3Scaleway d ?p e w1 = (ref, w2)" by fastforce
  obtain f w3 where b: "RunWithoutConfig rt d ?p e w2 = (f, w3)" by fastforce
  have 1: "extends (safe_in rt d e w) w w1" using destroyAndPurge_sent [OF a] .
  have 2: "extends (safe_in rt d e w) w w2" using client_guard [OF 1 g] .
  have 3: "extends (safe_in rt d e w) w w3" using client_without [OF 2 b] .
  have "w' = w1 \<or> w' = w2 \<or> w' = w3"
    using run unfolding destroySandbox_def
    by (auto simp: Let_def a g b split: if_splits sum.splits option.splits)
  then show ?thesis using 1 2 3 by auto
qed

subsection \<open>The environment and the sweep\<close>

lemma env_get_set: "env_get (env_set e k v) k' = (if k' = k then v else env_get e k')"
proof -
  have "k' \<noteq> k \<Longrightarrow> map_of (filter (\<lambda>kv. fst kv \<noteq> k) e) k' = map_of e k'"
    by (induction e) auto
  then show ?thesis by (simp add: env_get_def env_set_def)
qed

lemma base_env_get:
  "env_get (base_env rt) ''SCW_SECRET_KEY'' = trim_space (getenv rt ''SCW_SECRET_KEY'')"
  "env_get (base_env rt) ''SCW_DEFAULT_ORGANIZATION_ID'' = trim_space (getenv rt ''SCW_DEFAULT_ORGANIZATION_ID'')"
  "env_get (base_env rt) ''SCW_DEFAULT_PROJECT_ID'' = []"
  by (simp_all add: env_get_def base_env_def)

lemma sandboxEnv_Inr:
  "sandboxEnvWithProjectDefault rt run = Inr e \<Longrightarrow>
   \<exists>pd. e = with_project (base_env rt) pd \<and> pd = or_else (trim_space run) (trim_space (cfg_fallback_project rt))
     \<and> (pd \<noteq> [] \<longrightarrow> pd \<noteq> trim_space (getenv rt ''SCW_DEFAULT_ORGANIZATION_ID''))
     \<and> trim_space (getenv rt ''SCW_DEFAULT_ORGANIZATION_ID'') \<noteq> []
     \<and> assertRealScalewayEndpoint rt e = None"
  unfolding sandboxEnvWithProjectDefault_def Let_def by (auto split: if_splits option.splits)

lemma env_values:
  assumes "sandboxEnvWithProjectDefault rt run = Inr e"
  shows "env_get e ''SCW_SECRET_KEY'' = trim_space (getenv rt ''SCW_SECRET_KEY'')"
    and "env_get e ''SCW_DEFAULT_ORGANIZATION_ID'' = trim_space (getenv rt ''SCW_DEFAULT_ORGANIZATION_ID'')"
    and "env_get e ''SCW_DEFAULT_PROJECT_ID'' \<noteq> trim_space (getenv rt ''SCW_DEFAULT_ORGANIZATION_ID'')"
    and "\<not> blank run \<longrightarrow> env_get e ''SCW_DEFAULT_PROJECT_ID'' = trim_space run"
    and "assertRealScalewayEndpoint rt e = None"
  using sandboxEnv_Inr [OF assms]
  by (auto simp: with_project_def env_get_set base_env_get or_else_def blank_def)

lemma commandEnv_scaleway:
  "sandboxCommandEnvForProject rt arm layer3Scaleway run = Inr e \<Longrightarrow>
   sandboxEnvWithProjectDefault rt run = Inr e \<and> \<not> blank run"
  by (auto simp: sandboxCommandEnvForProject_def split: if_splits)

text \<open>The last request of \<open>w'\<close> asked for the project and was answered that it is gone.\<close>

definition last_answer_gone :: "'w services \<Rightarrow> string \<Rightarrow> string \<Rightarrow> 'w world \<Rightarrow> 'w world \<Rightarrow> bool" where
  "last_answer_gone sv pid key w w' \<longleftrightarrow>
     (\<exists>w1. extends (\<lambda>_. True) w w1 \<and> api_says_gone sv pid key w1
        \<and> w' = snd (send sv \<lparr>rq_method = GET, rq_url = project_url sv pid, rq_token = key, rq_body = []\<rparr> w1))"

lemma Sweep_Run_gone:
  "Sweep_Run sv (Some t) k w = (Inr r, w') \<Longrightarrow> sr_failures r = [] \<Longrightarrow>
   st_strays t = [] \<and> last_answer_gone sv (st_project_id t) k w w'"
proof -
  assume run: "Sweep_Run sv (Some t) k w = (Inr r, w')" and clean: "sr_failures r = []"
  then have "st_strays t = []" and gone: "api_says_gone sv (st_project_id t) k w"
    using Sweep_Run_clean [of sv t k w r] by auto
  moreover have "w' = snd (send sv \<lparr>rq_method = GET, rq_url = project_url sv (st_project_id t),
      rq_token = k, rq_body = []\<rparr> w)"
    using run by (auto simp: Sweep_Run_def projectExists_def Let_def
        split: if_splits prod.splits sum.splits bool.splits)
  ultimately show ?thesis by (auto simp: last_answer_gone_def)
qed

lemma append_sweep_sent:
  "appendOrphanSweepResult rt cloud target e rep w = (rep', w') \<Longrightarrow> extends is_get w w'"
proof -
  assume a: "appendOrphanSweepResult rt cloud target e rep w = (rep', w')"
  have "w' = w \<or> (\<exists>t. w' = snd (Sweep_Run (svc rt) (Some t) (env_get e ''SCW_SECRET_KEY'') w))"
    using a by (auto simp: appendOrphanSweepResult_def Let_def split: if_splits prod.splits sum.splits)
      (metis snd_conv)+
  then show ?thesis using Sweep_Run_sent by auto
qed

lemma append_sweep_verdict:
  assumes "appendOrphanSweepResult rt cloud target e rep w = (rep', w')"
  shows "\<exists>fs. snd rep' = snd rep @ fs \<and> (fs = [] \<longrightarrow> (\<exists>t. target = Inr t \<and> st_strays t = []
     \<and> last_answer_gone (svc rt) (st_project_id t) (env_get e ''SCW_SECRET_KEY'') w w'))"
proof (cases "cloud = layer3Scaleway")
  case False
  with assms show ?thesis by (auto simp: appendOrphanSweepResult_def sweep_failed_def)
next
  case sc: True
  show ?thesis
  proof (cases target)
    case (Inl er)
    with assms sc show ?thesis by (auto simp: appendOrphanSweepResult_def sweep_failed_def)
  next
    case (Inr t)
    obtain r w1 where s: "Sweep_Run (svc rt) (Some t) (env_get e ''SCW_SECRET_KEY'') w = (r, w1)" by fastforce
    show ?thesis
    proof (cases r)
      case (Inl er)
      with assms sc Inr s show ?thesis by (auto simp: appendOrphanSweepResult_def sweep_failed_def)
    next
      case r: (Inr res)
      show ?thesis
      proof (cases "sr_failures res = []")
        case True
        with Sweep_Run_gone [OF s [unfolded r]] assms sc Inr s r show ?thesis
          by (auto simp: appendOrphanSweepResult_def Sweep_Clean_def)
      next
        case False
        with assms sc Inr s r show ?thesis by (auto simp: appendOrphanSweepResult_def Sweep_Clean_def)
      qed
    qed
  qed
qed

lemma last_answer_trans:
  "extends P w w1 \<Longrightarrow> last_answer_gone sv pid key w1 w' \<Longrightarrow> last_answer_gone sv pid key w w'"
proof -
  assume e: "extends P w w1" and l: "last_answer_gone sv pid key w1 w'"
  from l obtain w2 where w2: "extends (\<lambda>_. True) w1 w2" "api_says_gone sv pid key w2"
      "w' = snd (send sv \<lparr>rq_method = GET, rq_url = project_url sv pid, rq_token = key, rq_body = []\<rparr> w2)"
    unfolding last_answer_gone_def by blast
  have "extends (\<lambda>_. True) w w1" by (rule extends_mono [OF e]) simp
  with w2 show ?thesis unfolding last_answer_gone_def using extends_trans by blast
qed

lemma MarkReleased_error: "MarkReleased s i = (Some er, s') \<Longrightarrow> s' = s"
proof -
  assume m: "MarkReleased s i = (Some er, s')"
  have wr: "write_record u d = (Some er, u') \<Longrightarrow> u' = u \<and> validateID (d_id d) \<noteq> None" for u d u'
    by (cases "validateID (d_id d)") (auto simp: write_record_eq)
  have "validateID i = None \<Longrightarrow> s' = s"
  proof (cases "Get s i")
    case (Inr d)
    then show "validateID i = None \<Longrightarrow> s' = s" using m wr by (auto simp: MarkReleased_def)
  next
    case (Inl e)
    then show "validateID i = None \<Longrightarrow> s' = s"
      using m wr [of _ "zero_deployment\<lparr>d_id := i, d_state := StateReleased\<rparr>"]
      by (cases "lookup_file s (path i)") (auto simp: MarkReleased_def)
  qed
  moreover have "validateID i \<noteq> None \<Longrightarrow> s' = s" using m by (auto simp: MarkReleased_def)
  ultimately show ?thesis by blast
qed

subsection \<open>Tearing down\<close>

text \<open>The credentials a teardown runs with.\<close>

abbreviation key_of :: "'w runtime \<Rightarrow> string" where
  "key_of rt \<equiv> trim_space (getenv rt ''SCW_SECRET_KEY'')"

abbreviation org_of :: "'w runtime \<Rightarrow> string" where
  "org_of rt \<equiv> trim_space (getenv rt ''SCW_DEFAULT_ORGANIZATION_ID'')"

definition flagged :: "deployment \<Rightarrow> store \<Rightarrow> store" where
  "flagged d s = snd (Put s (d\<lparr>d_sweep_failed := True\<rparr>))"

text \<open>What a teardown may leave: nothing released without a verdict, or the record released.\<close>

definition teardown_outcome :: "'w runtime \<Rightarrow> deployment \<Rightarrow> 'w world \<times> store \<Rightarrow> report \<Rightarrow> 'w world \<times> store \<Rightarrow> bool" where
  "teardown_outcome rt d ws rep ws' \<longleftrightarrow>
     (if snd rep = []
      then MarkReleased (snd ws) (d_id d) = (None, snd ws')
        \<and> (\<exists>t. (if liveStateMayHoldResources (live_state rt (w_api (fst ws)) (d_work_dir d))
                then CaptureSweepTarget (svc rt) (fst ws) (d_work_dir d) = Inr t
                else st_project_id t = d_project_id d \<and> \<not> d_sweep_failed d)
             \<and> st_strays t = []
             \<and> last_answer_gone (svc rt) (st_project_id t) (key_of rt) (fst ws) (fst ws'))
      else snd ws' = snd ws \<or> snd ws' = flagged d (snd ws))"

lemma tearDownEmpty_outcome:
  assumes "tearDownEmpty rt arm d (w, s) = (rep, w', s')"
    and "\<not> liveStateMayHoldResources (live_state rt (w_api w) (d_work_dir d))"
  shows "extends (safe_request (svc rt) (d_work_dir d) (key_of rt) (org_of rt) w) w w'
    \<and> teardown_outcome rt d (w, s) rep (w', s')"
proof (cases "d_sweep_failed d")
  case True
  with assms show ?thesis by (auto simp: tearDownEmpty_def unreclaimable_def teardown_outcome_def)
next
  case nf: False
  show ?thesis
  proof (cases "sandboxCommandEnvForProject rt arm layer3Scaleway (marker_project w d)")
    case (Inl er)
    with assms nf show ?thesis by (auto simp: tearDownEmpty_def unreclaimable_def teardown_outcome_def)
  next
    case (Inr e)
    note env = env_values(1,2) [OF conjunct1 [OF commandEnv_scaleway [OF Inr]]]
    let ?t = "\<lparr>st_project_id = d_project_id d, st_strays = []\<rparr>"
    obtain rep1 w1 where rl: "releaseRunProject rt layer3Scaleway (d_work_dir d) (d_project_id d) e w = (rep1, w1)"
      by fastforce
    obtain rep2 w2 where sw: "appendOrphanSweepResult rt layer3Scaleway (Inr ?t) e rep1 w1 = (rep2, w2)"
      by fastforce
    obtain mr s2 where m: "MarkReleased s (d_id d) = (mr, s2)" by fastforce
    have 1: "extends (safe_in rt (d_work_dir d) e w) w w1" using release_sent [OF rl] .
    have 2: "extends (safe_in rt (d_work_dir d) e w) w w2"
      using client_read [OF 1 append_sweep_sent [OF sw]] .
    have w': "w' = w2"
      using assms(1) nf Inr rl sw m by (auto simp: tearDownEmpty_def Let_def split: if_splits option.splits)
    have "snd rep2 = [] \<Longrightarrow> last_answer_gone (svc rt) (d_project_id d) (key_of rt) w w2"
      using append_sweep_verdict [OF sw] last_answer_trans [OF 1] env by auto
    then have "teardown_outcome rt d (w, s) rep (w', s')"
      using assms nf Inr rl sw m w' MarkReleased_error [of s "d_id d" _ s2]
      by (auto simp: tearDownEmpty_def teardown_outcome_def unreclaimable_def Let_def
          intro!: exI [of _ ?t] split: if_splits option.splits)
    with 2 w' env show ?thesis by simp
  qed
qed

lemma record_sweep_failure_cases:
  "record_sweep_failure rt d rep s = (rep', s') \<Longrightarrow>
   s' = flagged d s \<and> (\<exists>fs. snd rep' = snd rep @ fs)"
  by (auto simp: record_sweep_failure_def flagged_def split: prod.splits option.splits)

text \<open>The middle of the path with resources: release, sweep, and the flag where the sweep failed.\<close>

lemma swept_verdict:
  assumes "appendOrphanSweepResult rt cloud target e before w = (rep, w')"
    and "(if length (snd rep) > length (snd before)
          then (case record_sweep_failure rt d rep s of (r, s') \<Rightarrow> (r, w', s')) else (rep, w', s)) = (rep2, w2, s2)"
  shows "w2 = w' \<and> (s2 = s \<or> s2 = flagged d s) \<and> (snd rep2 = [] \<longrightarrow> s2 = s \<and>
     (\<exists>t. target = Inr t \<and> st_strays t = []
        \<and> last_answer_gone (svc rt) (st_project_id t) (env_get e ''SCW_SECRET_KEY'') w w'))"
proof -
  obtain fs where fs: "snd rep = snd before @ fs" "fs = [] \<longrightarrow> (\<exists>t. target = Inr t \<and> st_strays t = []
      \<and> last_answer_gone (svc rt) (st_project_id t) (env_get e ''SCW_SECRET_KEY'') w w')"
    using append_sweep_verdict [OF assms(1)] by blast
  show ?thesis
  proof (cases "fs = []")
    case True
    with assms(2) fs show ?thesis by auto
  next
    case False
    obtain r s' where rs: "record_sweep_failure rt d rep s = (r, s')" by fastforce
    with assms(2) fs False have eq: "rep2 = r" "w2 = w'" "s2 = s'" by auto
    from record_sweep_failure_cases [OF rs] eq fs False show ?thesis by auto
  qed
qed

lemma tearDownResources_outcome:
  assumes "tearDownResources rt arm d (w, s) = (rep, w', s')"
    and "liveStateMayHoldResources (live_state rt (w_api w) (d_work_dir d))"
  shows "extends (safe_request (svc rt) (d_work_dir d) (key_of rt) (org_of rt) w) w w'
    \<and> teardown_outcome rt d (w, s) rep (w', s')"
proof (cases "sandboxCommandEnvForProject rt arm layer3Scaleway (marker_project w d)")
  case (Inl er)
  with assms show ?thesis by (auto simp: tearDownResources_def unreclaimable_def teardown_outcome_def)
next
  case (Inr e)
  note env = env_values(1,2) [OF conjunct1 [OF commandEnv_scaleway [OF Inr]]]
  let ?dir = "d_work_dir d" and ?target = "CaptureSweepTarget (svc rt) w (d_work_dir d)"
  let ?p = "case ?target of Inl _ \<Rightarrow> [] | Inr t \<Rightarrow> st_project_id t"
  obtain res pur err w1 where ds: "destroySandbox rt layer3Scaleway ?dir e ?p w = ((res, pur, err), w1)"
    by (metis prod.exhaust)
  let ?rep0 = "appendSandboxDestroyResult (cfg_accounts rt) ([], []) res err"
  let ?rep1 = "if pur = [] then ?rep0 else (fst ?rep0 @ [autoCreatedPurgeStage pur], snd ?rep0)"
  obtain q wq where rl: "releaseRunProject rt layer3Scaleway ?dir (d_project_id d) e w1 = (q, wq)" by fastforce
  let ?before = "(fst ?rep1 @ fst q, snd ?rep1 @ snd q)"
  obtain swept ws where sw: "appendOrphanSweepResult rt layer3Scaleway ?target e ?before wq = (swept, ws)"
    by fastforce
  let ?mid = "if length (snd swept) > length (snd ?before)
      then (case record_sweep_failure rt d swept s of (r, s') \<Rightarrow> (r, ws, s')) else (swept, ws, s)"
  obtain rep2 w2 s2 where mid: "(case err of Some _ \<Rightarrow> (?rep1, w1, s) | None \<Rightarrow> ?mid) = (rep2, w2, s2)"
    by (metis prod.exhaust)
  obtain mr s3 where m: "MarkReleased s2 (d_id d) = (mr, s3)" by fastforce
  have 1: "extends (safe_in rt ?dir e w) w w1" using destroySandbox_sent [OF ds] .
  have markers: "w_markers w1 = w_markers w" using extends_markers [OF 1] .
  have auth: "authorised (svc rt) ?dir k g w1 = authorised (svc rt) ?dir k g w" for k g
    using Read_markers [OF markers] markers by (intro ext) (simp add: authorised_def)
  have "extends (safe_in rt ?dir e w1) w1 wq" using release_sent [OF rl] .
  then have "extends (safe_in rt ?dir e w) w1 wq"
    by (rule extends_mono) (simp add: safe_request_def auth)
  then have 2: "extends (safe_in rt ?dir e w) w wq" using 1 extends_trans by blast
  have 3: "extends (safe_in rt ?dir e w) w ws" using client_read [OF 2 append_sweep_sent [OF sw]] .
  have run: "w' = w2 \<and> (if snd rep2 \<noteq> [] then rep = rep2 \<and> s' = s2
      else (case mr of Some er \<Rightarrow> snd rep \<noteq> [] \<and> s' = s3 | None \<Rightarrow> snd rep = [] \<and> s' = s3))"
    using assms(1)
    unfolding tearDownResources_def Inr prod.case sum.case Let_def ds rl sw mid m
    by (auto split: if_splits option.splits)
  have fin: "(w2 = w1 \<or> w2 = ws) \<and> (s2 = s \<or> s2 = flagged d s) \<and> (snd rep2 = [] \<longrightarrow> s2 = s
     \<and> (\<exists>t. ?target = Inr t \<and> st_strays t = []
          \<and> last_answer_gone (svc rt) (st_project_id t) (key_of rt) w w2))"
  proof (cases err)
    case None
    with mid have "?mid = (rep2, w2, s2)" by simp
    note swept_verdict [OF sw this]
    moreover have "last_answer_gone (svc rt) p (key_of rt) wq ws \<Longrightarrow> last_answer_gone (svc rt) p (key_of rt) w ws"
      for p by (rule last_answer_trans [OF 2])
    ultimately show ?thesis unfolding env by blast
  next
    case (Some x)
    then have "snd ?rep1 \<noteq> []" by (cases x) (auto simp: appendSandboxDestroyResult_def)
    with mid Some show ?thesis by auto
  qed
  have "teardown_outcome rt d (w, s) rep (w', s')"
  proof (cases "snd rep2 = []")
    case False
    with run fin show ?thesis by (auto simp: teardown_outcome_def)
  next
    case True
    show ?thesis
    proof (cases mr)
      case (Some er)
      with MarkReleased_error m have "s3 = s2" by blast
      with True run fin Some show ?thesis by (auto simp: teardown_outcome_def)
    next
      case None
      with True run fin m assms(2) show ?thesis by (auto simp: teardown_outcome_def)
    qed
  qed
  moreover have "extends (safe_in rt ?dir e w) w w'" using run fin 1 3 by auto
  ultimately show ?thesis using env by simp
qed

lemma tearDown_summary:
  assumes "tearDownDeployment rt arm d (w, s) = (rep, w', s')"
  shows "extends (safe_request (svc rt) (d_work_dir d) (key_of rt) (org_of rt) w) w w'
    \<and> teardown_outcome rt d (w, s) rep (w', s')"
proof -
  let ?early = "d_work_dir d = [] \<or> layer3TeardownCloud (d_cloud d) \<noteq> layer3Scaleway"
  show ?thesis
  proof (cases ?early)
    case True
    with assms have "w' = w \<and> s' = s \<and> snd rep \<noteq> []"
      by (auto simp: tearDownDeployment_def Let_def unreclaimable_def split: if_splits)
    then show ?thesis by (auto simp: teardown_outcome_def)
  next
    case False
    with assms tearDownEmpty_outcome [of rt arm d w s rep w' s'] tearDownResources_outcome [of rt arm d w s rep w' s']
    show ?thesis by (auto simp: tearDownDeployment_def Let_def split: if_splits)
  qed
qed

subsection \<open>The commands a destroy runs\<close>

definition runs :: "(command \<Rightarrow> bool) \<Rightarrow> 'w world \<Rightarrow> 'w world \<Rightarrow> bool" where
  "runs P w w' \<longleftrightarrow> (\<exists>cs. w_cmds w' = w_cmds w @ cs \<and> list_all P cs)"

lemma runs_refl: "runs P w w"
  by (simp add: runs_def)

lemma runs_trans: "runs P w w' \<Longrightarrow> runs P w' w'' \<Longrightarrow> runs P w w''"
  by (fastforce simp: runs_def)

lemma runs_same: "w_cmds w' = w_cmds w \<Longrightarrow> runs P w w'"
  by (simp add: runs_def)

lemma send_cmds [simp]: "send sv rq w = (r, w') \<Longrightarrow> w_cmds w' = w_cmds w"
  by (auto simp: send_def split: prod.splits)

lemma Describe_cmds: "w_cmds (snd (Describe sv k p w)) = w_cmds w"
  by (auto simp: Describe_def Let_def split: prod.splits sum.splits option.splits)

lemma assert_cmds: "assertRunProjectDeletable rt cloud d p e w = (r, w') \<Longrightarrow> w_cmds w' = w_cmds w"
  using Describe_cmds [of "svc rt" "env_get e ''SCW_SECRET_KEY''" p w]
  by (auto simp: assertRunProjectDeletable_def Let_def split: prod.splits sum.splits if_splits)

lemma purge_groups_cmds: "w_cmds (snd (purge_groups sv z k gs w)) = w_cmds w"
proof (induction gs arbitrary: w)
  case (Cons g gs)
  obtain r w1 where d: "deleteSecurityGroup sv z (sg_id g) k w = (r, w1)" by fastforce
  then have "w_cmds w1 = w_cmds w"
    by (auto simp: deleteSecurityGroup_def Let_def split: prod.splits sum.splits if_splits)
  with Cons.IH [of w1] d show ?case by (auto simp: Let_def split: prod.splits option.splits)
qed simp

lemma purge_zones_cmds: "w_cmds (snd (purge_zones sv p k zs w)) = w_cmds w"
proof (induction zs arbitrary: w)
  case (Cons z zs)
  obtain r w1 where l: "listDefaultSecurityGroups sv z p k w = (r, w1)" by fastforce
  then have 1: "w_cmds w1 = w_cmds w"
    by (auto simp: listDefaultSecurityGroups_def Let_def split: prod.splits sum.splits option.splits if_splits)
  obtain here w2 where h: "(case r of Inl _ \<Rightarrow> ([], w1) | Inr gs \<Rightarrow> purge_groups sv z k gs w1) = (here, w2)"
    by fastforce
  then have "w_cmds w2 = w_cmds w1"
    using purge_groups_cmds [of sv z k _ w1] by (auto split: sum.splits) (metis snd_conv)
  with 1 l h Cons.IH [of w2] show ?case by (auto simp: Let_def split: prod.splits)
qed simp

lemma Purge_Run_cmds: "Purge_Run sv p k w = (r, w') \<Longrightarrow> w_cmds w' = w_cmds w"
  using purge_zones_cmds [of sv p k InstanceZones w]
  by (auto simp: Purge_Run_def Let_def split: prod.splits if_splits)

text \<open>
  A command a destroy may run: the ordinary destroy of the work directory, or a destroy without
  the configuration, of a loaded state all of whose resources belong to an authorised project.
\<close>

definition safe_command :: "'w runtime \<Rightarrow> string \<Rightarrow> env \<Rightarrow> 'w world \<Rightarrow> command \<Rightarrow> bool" where
  "safe_command rt d e w c \<longleftrightarrow>
     c = \<lparr>cm_args = destroy_args LiveStateFilename, cm_dir = Work_Dir d, cm_env = e\<rparr>
   \<or> (\<exists>pid st a lock. authorised (svc rt) d (env_get e ''SCW_SECRET_KEY'')
          (env_get e ''SCW_DEFAULT_ORGANIZATION_ID'') w pid
        \<and> loadLiveTerraformState (state_path (abs_dir rt d)) (live_state rt a (abs_dir rt d)) = Inr st
        \<and> unplacedResources st pid = []
        \<and> cm_args c = destroy_args (state_path (abs_dir rt d))
        \<and> cm_dir c = Temp_Dir (teardownConfig st) lock)"

lemma SandboxDestroy_runs:
  "SandboxDestroy_Run rt d e w = (r, w') \<Longrightarrow> runs (safe_command rt d e w0) w w'"
  by (auto simp: SandboxDestroy_Run_def run_command_def runs_def safe_command_def Let_def
      split: prod.splits option.splits)

lemma RunWithoutConfig_runs:
  assumes "RunWithoutConfig rt d p e w = (r, w')"
    and "authorised (svc rt) d (env_get e ''SCW_SECRET_KEY'') (env_get e ''SCW_DEFAULT_ORGANIZATION_ID'') w0 p"
  shows "runs (safe_command rt d e w0) w w'"
proof (cases "w' = w")
  case True
  then show ?thesis by (simp add: runs_refl)
next
  case False
  let ?dir = "abs_dir rt d"
  obtain st lock oc where st: "loadLiveTerraformState (state_path ?dir) (live_state rt (w_api w) ?dir) = Inr st"
    and un: "unplacedResources st p = []"
    and run: "run_command rt \<lparr>cm_args = destroy_args (state_path ?dir), cm_dir = Temp_Dir (teardownConfig st) lock,
      cm_env = env_set e ''TF_DATA_DIR'' (?dir @ ''/.terraform'')\<rparr> w = (oc, w')"
    using assms(1) False unfolding RunWithoutConfig_def Let_def
    by (auto split: if_splits sum.splits option.splits text_file.splits prod.splits)
  have "safe_command rt d e w0 \<lparr>cm_args = destroy_args (state_path ?dir), cm_dir = Temp_Dir (teardownConfig st) lock,
      cm_env = env_set e ''TF_DATA_DIR'' (?dir @ ''/.terraform'')\<rparr>"
    unfolding safe_command_def using assms(2) st un by auto
  with run show ?thesis by (auto simp: run_command_def runs_def split: prod.splits)
qed

lemma destroyAndPurge_runs:
  assumes "destroyAndPurge rt cloud d e p w = (r, w')"
  shows "runs (safe_command rt d e w0) w w'"
proof -
  obtain r1 w1 where a: "SandboxDestroy_Run rt d e w = (r1, w1)" by fastforce
  obtain ref w2 where g: "assertRunProjectDeletable rt cloud d p e w1 = (ref, w2)" by fastforce
  obtain pu w3 where pg: "Purge_Run (svc rt) p (env_get e ''SCW_SECRET_KEY'') w2 = (pu, w3)" by fastforce
  obtain r4 w4 where b: "SandboxDestroy_Run rt d e w3 = (r4, w4)" by fastforce
  let ?P = "safe_command rt d e w0"
  have 1: "runs ?P w w1" by (rule SandboxDestroy_runs [OF a])
  have 2: "runs ?P w w2" by (rule runs_trans [OF 1]) (simp add: runs_same assert_cmds [OF g])
  have 3: "runs ?P w w3" by (rule runs_trans [OF 2]) (simp add: runs_same Purge_Run_cmds [OF pg])
  have 4: "runs ?P w w4" by (rule runs_trans [OF 3]) (rule SandboxDestroy_runs [OF b])
  have "w' = w1 \<or> w' = w2 \<or> w' = w3 \<or> w' = w4"
    using assms unfolding destroyAndPurge_def
    by (auto simp: Let_def a g pg b split: if_splits sum.splits option.splits list.splits)
  with 1 2 3 4 show ?thesis by auto
qed

lemma destroySandbox_runs:
  assumes "destroySandbox rt layer3Scaleway d e p w = (r, w')"
  shows "runs (safe_command rt d e w) w w'"
proof -
  let ?p = "resolveRunProjectID w d p" and ?P = "safe_command rt d e w"
  obtain res rem err w1 where a: "destroyAndPurge rt layer3Scaleway d e ?p w = ((res, rem, err), w1)"
    by (metis prod.exhaust)
  obtain ref w2 where g: "assertRunProjectDeletable rt layer3Scaleway d ?p e w1 = (ref, w2)" by fastforce
  obtain f w3 where b: "RunWithoutConfig rt d ?p e w2 = (f, w3)" by fastforce
  have s1: "extends (safe_in rt d e w) w w1" using destroyAndPurge_sent [OF a] .
  have 1: "runs ?P w w1" by (rule destroyAndPurge_runs [OF a])
  have 2: "runs ?P w w2" by (rule runs_trans [OF 1]) (simp add: runs_same assert_cmds [OF g])
  have 3: "runs ?P w w3" if "ref = None"
    by (rule runs_trans [OF 2]) (rule RunWithoutConfig_runs [OF b client_allowed [OF s1 g [unfolded that]]])
  have "w' = w1 \<or> w' = w2 \<or> (ref = None \<and> w' = w3)"
    using assms unfolding destroySandbox_def
    by (auto simp: Let_def a g b split: if_splits sum.splits option.splits)
  with 1 2 3 show ?thesis by auto
qed

subsection \<open>Unplaced resources and the two readings of the state\<close>

lemma unplaced_instance_Nil:
  "unplaced_instance ids pid r a = [] \<longleftrightarrow>
     (case ChildScopedTypes (tf_type r) of
        None \<Rightarrow> attr a ''project_id'' = pid
      | Some ks \<Rightarrow> list_all (\<lambda>k. attr a k \<noteq> [] \<and> path_base (attr a k) \<in> set ids) ks)"
  by (auto simp: unplaced_instance_def Let_def filter_empty_conv list_all_iff split: option.splits)

lemma concat_map_Nil: "concat (map f xs) = [] \<longleftrightarrow> list_all (\<lambda>x. f x = []) xs"
  by (induction xs) auto

lemma traverse_total: "traverse (\<lambda>x. Some (g x)) xs = Some (map g xs)"
  by (induction xs) auto

lemma traverse_Nil_iff: "traverse f xs = Some [] \<longleftrightarrow> xs = []"
  by (cases xs) (auto split: option.splits)

lemma dec_list_Nil:
  "dec_list f j = Some [] \<longleftrightarrow> dec_list Some j = Some []"
  by (cases j; cases "the j") (auto simp: traverse_Nil_iff traverse_map)

lemma dec_list_None: "dec_list Some q = None \<Longrightarrow> dec_list f q = None"
  by (cases q; cases "the q") (auto simp: traverse_total)

subsection \<open>Properties\<close>

text \<open>
  C1. Tearing down a live deployment, whatever the account API and \<^verbatim>\<open>tofu\<close> do, sends nothing but
  reads, except for a project that the work directory's own run-project marker names, that is not
  the organization's default, and that the API described as gone or as infrafactory's: that
  project may be deleted, and the default security groups the API listed in it.
\<close>

theorem teardown_requests_safe:
  "case tearDownDeployment rt arm d (w, s) of (rep, w', s') \<Rightarrow>
     \<exists>es. w_log w' = w_log w @ es
       \<and> list_all (safe_request (svc rt) (d_work_dir d) (key_of rt) (org_of rt) w) es"
  using tearDown_summary [of rt arm d w s] by (fastforce simp: extends_def split: prod.splits)

text \<open>
  C2. A teardown that reports success released the record, and its last request asked the API for
  the project and was answered 404, with no stray outside it in the state captured before the
  destroy. A teardown that reports a failure leaves the record unreleased: the store is unchanged,
  or the record carries the mark that a sweep failed.
\<close>

theorem teardown_releases_only_verified:
  "case tearDownDeployment rt arm d (w, s) of (rep, ws') \<Rightarrow> teardown_outcome rt d (w, s) rep ws'"
  using tearDown_summary [of rt arm d w s] by (auto split: prod.splits)

text \<open>
  C4. The commands \<open>destroySandbox\<close> runs are the ordinary destroy of the work directory, and at most
  a destroy without the configuration of a state all of whose managed resources were placed in a
  project the guard authorised.
\<close>

theorem destroySandbox_commands:
  "case destroySandbox rt layer3Scaleway d e p w of (r, w') \<Rightarrow>
     \<exists>cs. w_cmds w' = w_cmds w @ cs \<and> list_all (safe_command rt d e w) cs"
  using destroySandbox_runs [of rt d e p w] by (auto simp: runs_def split: prod.splits)

text \<open>
  \<open>unplacedResources\<close> is empty exactly when every managed instance is placed: one of a type
  scoped by its parents names, for each parent attribute, an id the state itself manages, up to
  the locality prefix; any other records the project itself.
\<close>

theorem unplacedResources_iff:
  "unplacedResources st pid = [] \<longleftrightarrow>
     list_all (\<lambda>r. list_all (\<lambda>a. case ChildScopedTypes (tf_type r) of
         None \<Rightarrow> attr a ''project_id'' = pid
       | Some ks \<Rightarrow> list_all (\<lambda>k. attr a k \<noteq> [] \<and> path_base (attr a k) \<in> set (state_ids st)) ks)
       (tf_instances r)) (filter managedCloudResource st)"
  by (simp add: unplacedResources_def concat_map_Nil unplaced_instance_Nil list_all_iff)

text \<open>
  A run's project is recorded before anything else happens: when creating it reports no
  failure, the marker in the work directory names the project whose id is returned; and when it
  reports a failure, no id is returned and no marker has changed.
\<close>

theorem ensureRunProject_recorded:
  "case ensureRunProject rt arm layer3Scaleway scenario workDir stamp w of ((i, rep), w') \<Rightarrow>
     if snd rep = []
     then \<not> blank i \<and> (\<exists>n. ReadRunProjectMarker w' workDir = Inr \<lparr>mk_project_id = i, mk_name = n\<rparr>)
     else i = [] \<and> w_markers w' = w_markers w"
proof -
  let ?k = "trim_space (getenv rt ''SCW_SECRET_KEY'')"
    and ?g = "trim_space (getenv rt ''SCW_DEFAULT_ORGANIZATION_ID'')"
  obtain r w1 where c: "Create (svc rt) ?k ?g scenario stamp w = (r, w1)" by fastforce
  have mk: "w_markers w1 = w_markers w"
    using c by (auto simp: Create_def send_def Let_def split: prod.splits sum.splits option.splits if_splits)
  show ?thesis
  proof (cases r)
    case (Inl er)
    with c mk show ?thesis by (auto simp: ensureRunProject_def run_project_failed_def)
  next
    case (Inr p)
    obtain we w2 where wr: "WriteRunProjectMarker (svc rt) workDir p w1 = (we, w2)" by fastforce
    obtain de w3 where de: "Delete (svc rt) ?k (rp_id p) w2 = (de, w3)" by fastforce
    show ?thesis
    proof (cases we)
      case None
      with run_project_marker_ok [of "svc rt" workDir p w1] wr c Inr show ?thesis
        by (auto simp: ensureRunProject_def run_project_failed_def)
    next
      case (Some er)
      with wr have "w2 = w1" by (auto simp: WriteRunProjectMarker_def split: if_splits option.splits)
      with Delete_sent [of "svc rt" "rp_id p" w2 ?k] de mk have "w_markers w3 = w_markers w"
        using extends_markers by fastforce
      with c Inr wr Some de show ?thesis
        by (auto simp: ensureRunProject_def run_project_failed_def Let_def)
    qed
  qed
qed

text \<open>
  \<open>releaseRunProject\<close> reports the project released only when it reports no failure, the guard
  authorised the project, and a delete of it succeeded.
\<close>

theorem runProjectReleased_true:
  "case releaseRunProject rt cloud d p e w of (rep, w') \<Rightarrow>
     if runProjectReleased (fst rep)
     then snd rep = [] \<and> authorised (svc rt) d (env_get e ''SCW_SECRET_KEY'')
         (env_get e ''SCW_DEFAULT_ORGANIZATION_ID'') w p
       \<and> (\<exists>w1. Delete (svc rt) (env_get e ''SCW_SECRET_KEY'') p w1 = (None, w'))
     else True"
proof -
  obtain rep w' where rel: "releaseRunProject rt cloud d p e w = (rep, w')" by fastforce
  obtain ref w1 where g: "assertRunProjectDeletable rt cloud d p e w = (ref, w1)" by fastforce
  obtain de w2 where dl: "Delete (svc rt) (env_get e ''SCW_SECRET_KEY'') p w1 = (de, w2)" by fastforce
  obtain pu w3 where pg: "purgeAutoCreated rt p (env_get e ''SCW_SECRET_KEY'') w2 = (pu, w3)" by fastforce
  obtain re w4 where rd: "Delete (svc rt) (env_get e ''SCW_SECRET_KEY'') p w3 = (re, w4)" by fastforce
  have a: "ref = None \<Longrightarrow> authorised (svc rt) d (env_get e ''SCW_SECRET_KEY'')
      (env_get e ''SCW_DEFAULT_ORGANIZATION_ID'') w p"
    using assert_authorised [of rt cloud d p e w] g by simp
  show ?thesis
  proof (cases "runProjectReleased (fst rep)")
    case True
    have "snd rep = [] \<and> ref = None \<and> ((de = None \<and> w' = w2) \<or> (re = None \<and> w' = w4))"
      using rel g True unfolding releaseRunProject_def
      by (auto simp: Let_def dl pg rd runProjectReleased_def delete_failed_def runProjectDeleteFailure_def
          runProjectDeleteNotYet_def stage_def split: if_splits sum.splits option.splits)
    with a dl rd rel True show ?thesis by auto
  qed (use rel in auto)
qed

text \<open>
  The environment of a Layer 3 command for a run's project has that project as the provider's
  default, never the organization's, and only when the endpoint was asserted to be the real one.
\<close>

theorem sandboxCommandEnv_scoped:
  "case sandboxCommandEnvForProject rt arm layer3Scaleway pid of
     Inl _ \<Rightarrow> True
   | Inr e \<Rightarrow> \<not> blank pid \<and> env_get e ''SCW_DEFAULT_PROJECT_ID'' = trim_space pid
       \<and> trim_space pid \<noteq> org_of rt \<and> assertRealScalewayEndpoint rt e = None"
proof (cases "sandboxCommandEnvForProject rt arm layer3Scaleway pid")
  case (Inr e)
  from commandEnv_scaleway [OF Inr] env_values [of rt pid e] show ?thesis using Inr by auto
qed simp

text \<open>
  The teardown's two readings of the state file agree: it may hold resources unless the file
  is missing or the full decoding finds an empty list of resources.
\<close>

theorem liveStateMayHoldResources_iff:
  "liveStateMayHoldResources f \<longleftrightarrow>
     (case loadLiveTerraformState p f of Inl e \<Rightarrow> \<not> is_err e ErrNotExist | Inr st \<Rightarrow> st \<noteq> [])"
proof -
  have fields: "(case dec_list Some q of None \<Rightarrow> True | Some rs \<Rightarrow> 0 < length rs) \<longleftrightarrow>
      (case dec_list (dec_struct dec_tf_resource) q of None \<Rightarrow> True | Some st \<Rightarrow> st \<noteq> [])" for q
    using dec_list_Nil [of "dec_struct dec_tf_resource" q] dec_list_None [of q "dec_struct dec_tf_resource"]
    by (auto split: option.splits)
  show ?thesis
  proof (cases f)
    case (File_Json doc)
    have err: "\<not> is_err (errorf s) ErrNotExist" for s by (simp add: is_err_def errorf_def)
    have load: "(case dec_struct dec_tf_state (Some j) of None \<Rightarrow> True | Some st \<Rightarrow> st \<noteq> []) \<longleftrightarrow>
        (case dec_struct (\<lambda>m. dec_list Some (jfield m ''resources'')) (Some j) of None \<Rightarrow> True | Some rs \<Rightarrow> 0 < length rs)"
      for j by (cases j) (simp_all add: dec_tf_state_def fields)
    show ?thesis
    proof (cases doc)
      case (Some j)
      then show ?thesis using load [of j] err File_Json
        by (auto simp: liveStateMayHoldResources_def loadLiveTerraformState_def split: option.splits)
    qed (use File_Json err in \<open>simp add: liveStateMayHoldResources_def loadLiveTerraformState_def\<close>)
  qed (auto simp: liveStateMayHoldResources_def loadLiveTerraformState_def is_err_def errorf_def)
qed

definition gives_up :: "'w runtime \<Rightarrow> deployment \<Rightarrow> 'w world \<Rightarrow> bool" where
  "gives_up rt d w \<longleftrightarrow> d_work_dir d = [] \<or> layer3TeardownCloud (d_cloud d) \<noteq> layer3Scaleway
     \<or> (d_sweep_failed d \<and> \<not> liveStateMayHoldResources (live_state rt (w_api w) (d_work_dir d)))"

text \<open>
  The two commands never point at each other: where \<^verbatim>\<open>live forget\<close> refuses a record, teardown
  does not give up on it before acting; and forgetting never sends a request or runs a command.
\<close>

theorem forget_and_teardown_agree:
  "case runLiveForgetCommand rt i (w, s) of (c, w', s') \<Rightarrow> w' = w \<and>
     (case c of
        Refused _ \<Rightarrow> s' = s \<and> (case Get s i of Inl _ \<Rightarrow> False | Inr d \<Rightarrow> \<not> gives_up rt d w)
      | Failed er \<Rightarrow> s' = s \<and> MarkReleased s i = (Some er, s')
      | Finished _ \<Rightarrow> MarkReleased s i = (None, s'))"
  using MarkReleased_error [of s i]
  by (auto simp: runLiveForgetCommand_def reclaimable_def teardownBuilt_def gives_up_def
      layer3TeardownCloud_def Let_def split: prod.splits sum.splits option.splits if_splits)

end
