(* ===== verification/Topology_Derive.thy ===== *)
theory Topology_Derive
  imports Json "HOL-Library.Multiset"
begin

text \<open>
  \<^verbatim>\<open>internal/harness/topology_derive.go\<close> and \<^verbatim>\<open>topology_derive_gcp.go\<close>: which connections and which
  HTTP probes the raw state of a Scaleway or GCP mock supports. A Go map filled by assignments is
  the list of the assignments, in order; a lookup finds the last one for its key, and marshalling
  it gives the object with these members.
\<close>

type_synonym bool_map = "(string \<times> bool) list"
type_synonym text_map = "(string \<times> string) list"

definition last_of :: "('k \<times> 'v) list \<Rightarrow> 'k \<Rightarrow> 'v option" where
  "last_of m k = map_of (rev m) k"

definition truth :: "bool_map \<Rightarrow> string \<Rightarrow> bool" where
  "truth m k = (case last_of m k of None \<Rightarrow> False | Some b \<Rightarrow> b)"

lemma last_of_append: "last_of (m @ n) k = (case last_of n k of None \<Rightarrow> last_of m k | Some v \<Rightarrow> Some v)"
  by (simp add: last_of_def map_add_def split: option.splits)

lemma last_of_Some: "last_of m k = Some v \<Longrightarrow> (k, v) \<in> set m"
  by (auto simp: last_of_def dest: map_of_SomeD)

lemma last_of_None: "last_of m k = None \<longleftrightarrow> k \<notin> fst ` set m"
  by (auto simp: last_of_def map_of_eq_None_iff)

definition marshal_bools :: "bool_map \<Rightarrow> json" where
  "marshal_bools m = JObj (map (\<lambda>(k, b). (k, JBool b)) m)"

text \<open>The keys of the two maps. A port that is not positive has no part in a connectivity key.\<close>

definition connectivityKey :: "string \<Rightarrow> string \<Rightarrow> int \<Rightarrow> string" where
  "connectivityKey src dst port =
     (let key = src @ ''->'' @ dst in if port > 0 then key @ '':'' @ itoa port else key)"

definition httpProbeKey :: "string \<Rightarrow> int \<Rightarrow> string" where
  "httpProbeKey target port = target @ '':'' @ itoa port"

lemma httpProbeKey_inject [simp]: "httpProbeKey t p = httpProbeKey t q \<longleftrightarrow> p = q"
  by (simp add: httpProbeKey_def)

lemma connectivityKey_inject:
  "p > 0 \<Longrightarrow> connectivityKey s d p = connectivityKey s d q \<Longrightarrow> p = q"
  by (auto simp: connectivityKey_def Let_def split: if_splits)

subsection \<open>The raw state of the Scaleway mock\<close>

record raw_state =
  rw_servers :: "members list"
  rw_ips :: "members list"
  rw_nics :: "members list"
  rw_lbs :: "members list"
  rw_lb_ips :: "members list"
  rw_frontends :: "members list"
  rw_backends :: "members list"
  rw_private_networks :: "members list"
  rw_rdb :: "members list"
  rw_redis :: "members list"

definition maps_at :: "string \<Rightarrow> members \<Rightarrow> members list option" where
  "maps_at k m = dec_member_list (jfield m k)"

definition within :: "string \<Rightarrow> (members \<Rightarrow> 'a option) \<Rightarrow> members \<Rightarrow> 'a option" where
  "within k f m = dec_struct f (jfield m k)"

definition dec_raw_state :: "members \<Rightarrow> raw_state option" where
  "dec_raw_state m =
     (case (within ''instance'' (maps_at ''servers'') m, within ''instance'' (maps_at ''ips'') m,
            within ''instance'' (maps_at ''private_nics'') m,
            within ''lb'' (maps_at ''lbs'') m, within ''lb'' (maps_at ''ips'') m,
            within ''lb'' (maps_at ''frontends'') m, within ''lb'' (maps_at ''backends'') m,
            within ''vpc'' (maps_at ''private_networks'') m,
            within ''rdb'' (maps_at ''instances'') m, within ''redis'' (maps_at ''clusters'') m) of
        (Some a, Some b, Some c, Some d, Some e, Some f, Some g, Some h, Some i, Some j) \<Rightarrow>
          Some \<lparr>rw_servers = a, rw_ips = b, rw_nics = c, rw_lbs = d, rw_lb_ips = e, rw_frontends = f,
            rw_backends = g, rw_private_networks = h, rw_rdb = i, rw_redis = j\<rparr>
      | _ \<Rightarrow> None)"

subsection \<open>Probes of load balancers\<close>

definition httpProbeReason :: "bool \<Rightarrow> bool \<Rightarrow> string" where
  "httpProbeReason hasBackend hasIP =
     (if \<not> hasBackend \<and> \<not> hasIP then ''no backend attached and no public ip on lb''
      else if \<not> hasBackend then ''no backend attached''
      else if \<not> hasIP then ''no public ip on lb''
      else ''unknown'')"

definition lbFallbackReason :: "int list \<Rightarrow> bool \<Rightarrow> bool \<Rightarrow> string" where
  "lbFallbackReason frontendPorts hasBackend hasIP =
     (if frontendPorts = [] then
        (if \<not> hasIP \<and> \<not> hasBackend then ''no frontends, no backend, no public ip on lb''
         else if \<not> hasIP then ''no frontends and no public ip on lb''
         else if \<not> hasBackend then ''no frontends and no backend attached''
         else ''no frontends configured on lb'')
      else let listing = join '','' (map itoa frontendPorts) in
        (if \<not> hasIP \<and> \<not> hasBackend
         then ''frontends on port '' @ listing @ '', no backend attached, no public ip on lb''
         else if \<not> hasIP then ''frontends on port '' @ listing @ '', no public ip on lb''
         else if \<not> hasBackend then ''frontends on port '' @ listing @ '', no backend attached''
         else ''frontends on port '' @ listing))"

definition httpProbeFallbackKey :: string where
  "httpProbeFallbackKey = ''load_balancer''"

definition names_lb :: "string \<Rightarrow> members \<Rightarrow> bool" where
  "names_lb lbID m \<longleftrightarrow> jsonStr m ''lb_id'' = lbID"

definition frontend_ports :: "raw_state \<Rightarrow> string \<Rightarrow> int list" where
  "frontend_ports st lbID =
     sort (filter (\<lambda>p. p \<noteq> 0)
       (map (\<lambda>f. jsonInt (jget f ''inbound_port'')) (filter (names_lb lbID) (rw_frontends st))))"

text \<open>What one load balancer adds to the probe map and to the diagnostics.\<close>

definition probe_lb :: "raw_state \<Rightarrow> members \<Rightarrow> bool_map \<times> text_map" where
  "probe_lb st lb =
     (let lbID = jsonStr lb ''id'' in
      if lbID = [] then ([], [])
      else
        let hasBackend = list_ex (names_lb lbID) (rw_backends st);
            hasIP = list_ex (names_lb lbID) (rw_lb_ips st);
            ports = frontend_ports st lbID;
            reachable = (hasBackend \<and> hasIP);
            msg = lbFallbackReason ports hasBackend hasIP
        in (map (\<lambda>p. (httpProbeKey ''load_balancer'' p, reachable)) ports,
            (if reachable then [] else map (\<lambda>p. (httpProbeKey ''load_balancer'' p,
               httpProbeReason hasBackend hasIP)) ports)
            @ (if msg \<noteq> [] then [(httpProbeFallbackKey, msg)] else [])))"

definition deriveHTTPProbe :: "raw_state \<Rightarrow> bool_map \<times> text_map" where
  "deriveHTTPProbe st =
     (concat (map (\<lambda>lb. fst (probe_lb st lb)) (rw_lbs st)),
      concat (map (\<lambda>lb. snd (probe_lb st lb)) (rw_lbs st)))"

subsection \<open>Connectivity\<close>

definition objects_at :: "string \<Rightarrow> members \<Rightarrow> members list" where
  "objects_at k m =
     (case as_arr (jget m k) of None \<Rightarrow> []
      | Some xs \<Rightarrow> concat (map (\<lambda>x. case as_obj (Some x) of None \<Rightarrow> [] | Some ob \<Rightarrow> [ob]) xs))"

definition server_networks :: "raw_state \<Rightarrow> string list" where
  "server_networks st =
     filter (\<lambda>i. i \<noteq> []) (map (\<lambda>nic. jsonStr nic ''private_network_id'') (rw_nics st))"

text \<open>
  The edge of one endpoint of a service: through a private network a server is attached to, or
  publicly where the service may be public and the endpoint names no network.
\<close>

definition endpoint_edge :: "raw_state \<Rightarrow> string \<Rightarrow> bool \<Rightarrow> members \<Rightarrow> string list" where
  "endpoint_edge st service may_be_public ep =
     (let port = jsonInt (jget ep ''port'') in
      if port = 0 then []
      else (case jget ep ''private_network'' of
          Some (JObj pn) \<Rightarrow>
            let pnID = jsonStr pn ''id'' in
            if pnID \<noteq> [] \<and> pnID \<in> set (server_networks st)
            then [connectivityKey ''compute'' service port] else []
        | None \<Rightarrow> if may_be_public then [connectivityKey ''public_internet'' service port] else []
        | Some JNull \<Rightarrow> if may_be_public then [connectivityKey ''public_internet'' service port] else []
        | Some _ \<Rightarrow> []))"

definition service_edges :: "raw_state \<Rightarrow> string \<Rightarrow> bool \<Rightarrow> members list \<Rightarrow> string list" where
  "service_edges st service may_be_public ms =
     concat (map (\<lambda>m. concat (map (endpoint_edge st service may_be_public) (objects_at ''endpoints'' m))) ms)"

definition frontend_edge :: "raw_state \<Rightarrow> members \<Rightarrow> string list" where
  "frontend_edge st f =
     (let lbID = jsonStr f ''lb_id''; port = jsonInt (jget f ''inbound_port'') in
      if lbID = [] \<or> port = 0 then []
      else if list_ex (names_lb lbID) (rw_lb_ips st)
      then [connectivityKey ''public_internet'' ''load_balancer'' port] else [])"

definition attached_ip :: "members \<Rightarrow> bool" where
  "attached_ip ip = (case as_obj (jget ip ''server'') of None \<Rightarrow> False | Some sv \<Rightarrow> jsonStr sv ''id'' \<noteq> [])"

definition deriveConnectivity :: "raw_state \<Rightarrow> bool_map" where
  "deriveConnectivity st = map (\<lambda>k. (k, True))
     (service_edges st ''database'' True (rw_rdb st)
      @ service_edges st ''redis'' False (rw_redis st)
      @ concat (map (frontend_edge st) (rw_frontends st))
      @ (if list_ex attached_ip (rw_ips st) then [connectivityKey ''public_internet'' ''compute'' 0] else []))"

text \<open>What a derivation returns: the marshalled document and the diagnostics, or an error.\<close>

type_synonym derived = "string + (json \<times> text_map)"

definition derived_json :: "json \<Rightarrow> json \<Rightarrow> json" where
  "derived_json connectivity probe = JObj [(''connectivity'', connectivity), (''http_probe'', probe)]"

definition deriveTopologyScaleway :: "document \<Rightarrow> derived" where
  "deriveTopologyScaleway doc =
     (case doc of None \<Rightarrow> Inl ''unmarshal raw state''
      | Some j \<Rightarrow>
          (case dec_struct dec_raw_state (Some j) of
             None \<Rightarrow> Inl ''unmarshal raw state''
           | Some st \<Rightarrow>
               let (probe, diagnostics) = deriveHTTPProbe st
               in Inr (derived_json (marshal_bools (deriveConnectivity st)) (marshal_bools probe), diagnostics)))"

subsection \<open>GCP\<close>

record gcp_state =
  gc_firewalls :: "members list"
  gc_instances :: "members list"
  gc_clusters :: "members list"
  gc_sql :: "members list"
  gc_rules :: "members list"
  gc_backend_services :: "members list"

definition dec_gcp_state :: "members \<Rightarrow> gcp_state option" where
  "dec_gcp_state m =
     (case (within ''compute'' (maps_at ''firewalls'') m, within ''compute'' (maps_at ''instances'') m,
            within ''container'' (maps_at ''clusters'') m, within ''sql'' (maps_at ''instances'') m,
            within ''lb'' (maps_at ''global_forwarding_rules'') m,
            within ''lb'' (maps_at ''backend_services'') m) of
        (Some a, Some b, Some c, Some d, Some e, Some f) \<Rightarrow>
          Some \<lparr>gc_firewalls = a, gc_instances = b, gc_clusters = c, gc_sql = d, gc_rules = e,
            gc_backend_services = f\<rparr>
      | _ \<Rightarrow> None)"

definition index_byte :: "string \<Rightarrow> char \<Rightarrow> nat" where
  "index_byte s c = length (takeWhile (\<lambda>d. d \<noteq> c) s)"

text \<open>A dash that is neither first nor missing cuts the text.\<close>

definition parseLeadingInt :: "string \<Rightarrow> int" where
  "parseLeadingInt s0 =
     (let s1 = trim_space s0; dash = index_byte s1 CHR ''-'';
          s = (if 0 < dash \<and> dash < length s1 then take dash s1 else s1)
      in case atoi s of None \<Rightarrow> 0 | Some n \<Rightarrow> n)"

definition validTCPPort :: "int \<Rightarrow> bool" where
  "validTCPPort p \<longleftrightarrow> 1 \<le> p \<and> p \<le> 65535"

definition range_port :: "members \<Rightarrow> string \<Rightarrow> int list" where
  "range_port fr k =
     (let pr = as_str (jget fr k); port = parseLeadingInt pr in
      if pr \<noteq> [] \<and> validTCPPort port then [port] else [])"

definition first_port :: "members \<Rightarrow> int list" where
  "first_port fr =
     (case as_arr (jget fr ''ports'') of
        Some (JStr v # _) \<Rightarrow> filter validTCPPort [parseLeadingInt v]
      | Some (JNum n _ # _) \<Rightarrow> filter validTCPPort [n]
      | _ \<Rightarrow> [])"

definition gcpForwardingRulePort :: "members \<Rightarrow> int" where
  "gcpForwardingRulePort fr =
     (case range_port fr ''portRange'' @ range_port fr ''port_range'' @ first_port fr of
        [] \<Rightarrow> 0 | p # _ \<Rightarrow> p)"

definition insert_int :: "int \<Rightarrow> int list \<Rightarrow> int list" where
  "insert_int x xs = (let ys = rev xs in
     rev (takeWhile (\<lambda>y. y > x) ys @ x # dropWhile (\<lambda>y. y > x) ys))"

text \<open>The insertion sort: each element moves down past the larger ones before it.\<close>

definition sortInts :: "int list \<Rightarrow> int list" where
  "sortInts xs = foldl (\<lambda>acc x. insert_int x acc) [] xs"

definition has_backends :: "members \<Rightarrow> bool" where
  "has_backends bs = (case as_arr (jget bs ''backends'') of None \<Rightarrow> False | Some xs \<Rightarrow> xs \<noteq> [])"

definition deriveGCPHTTPProbe :: "gcp_state \<Rightarrow> bool_map \<times> text_map" where
  "deriveGCPHTTPProbe st =
     (let hasBackend = list_ex has_backends (gc_backend_services st);
          ports = filter (\<lambda>p. p \<noteq> 0) (map gcpForwardingRulePort (gc_rules st));
          missing = ''no backend services with backends attached''
      in if gc_rules st = [] then ([], [])
         else (map (\<lambda>p. (httpProbeKey ''load_balancer'' p, hasBackend)) ports,
           (if hasBackend then [] else map (\<lambda>p. (httpProbeKey ''load_balancer'' p, missing)) ports)
           @ [(''load_balancer'',
               if ports = [] then ''forwarding rules with no parseable port''
               else if \<not> hasBackend then missing
               else ''forwarding rules on port '' @ join '','' (map itoa (sortInts (remdups ports))))]))"

definition gcpSQLPort :: "members \<Rightarrow> int" where
  "gcpSQLPort sql =
     (let upper = to_upper (as_str (jget sql ''databaseVersion'')) in
      if upper = [] then 5432
      else if has_prefix upper ''POSTGRES'' then 5432
      else if has_prefix upper ''MYSQL'' then 3306
      else if has_prefix upper ''SQLSERVER'' then 1433
      else 0)"

text \<open>The first spelling under which a value of the wanted kind is found.\<close>

fun first_some :: "('k \<Rightarrow> 'v option) \<Rightarrow> 'k list \<Rightarrow> 'v option" where
  "first_some f [] = None"
| "first_some f (k # ks) = (case f k of Some v \<Rightarrow> Some v | None \<Rightarrow> first_some f ks)"

definition everywhere :: string where
  "everywhere = ''0.0.0.0/0''"

definition gcpSQLPublicReachable :: "members \<Rightarrow> bool" where
  "gcpSQLPublicReachable sql =
     (case as_obj (jget sql ''settings'') of
        None \<Rightarrow> False
      | Some settings \<Rightarrow>
          (case first_some (\<lambda>k. as_obj (jget settings k)) [''ipConfiguration'', ''ip_configuration''] of
             None \<Rightarrow> False
           | Some cfg \<Rightarrow>
               (case first_some (\<lambda>k. as_arr (jget cfg k)) [''authorizedNetworks'', ''authorized_networks''] of
                  None \<Rightarrow> False
                | Some auth \<Rightarrow> list_ex (\<lambda>e. case as_obj (Some e) of
                      None \<Rightarrow> False | Some m \<Rightarrow> as_str (jget m ''value'') = everywhere) auth)))"

definition hasGCPAllowRule :: "members \<Rightarrow> bool" where
  "hasGCPAllowRule fw = (case as_arr (jget fw ''allowed'') of None \<Rightarrow> False | Some xs \<Rightarrow> xs \<noteq> [])"

definition admits_everyone :: "members \<Rightarrow> bool" where
  "admits_everyone fw =
     (let direction = as_str (jget fw ''direction'');
          ranges = (case first_some (\<lambda>k. as_arr (jget fw k)) [''sourceRanges'', ''source_ranges''] of
            None \<Rightarrow> [] | Some rs \<Rightarrow> rs)
      in (direction = [] \<or> equal_fold direction ''INGRESS'')
         \<and> list_ex (\<lambda>r. as_str (Some r) = everywhere) ranges \<and> hasGCPAllowRule fw)"

definition gcpHasPublicIngressFirewall :: "members list \<Rightarrow> bool" where
  "gcpHasPublicIngressFirewall firewalls = list_ex admits_everyone firewalls"

definition sql_edges :: "bool \<Rightarrow> bool_map \<Rightarrow> members \<Rightarrow> bool_map" where
  "sql_edges hasCompute conn sql =
     (let port = gcpSQLPort sql; pub = connectivityKey ''public_internet'' ''database'' port in
      if port = 0 then conn
      else conn @ (if hasCompute then [(connectivityKey ''compute'' ''database'' port, True)] else [])
             @ [(pub, truth conn pub \<or> gcpSQLPublicReachable sql)])"

definition deriveGCPConnectivity :: "gcp_state \<Rightarrow> bool_map" where
  "deriveGCPConnectivity st =
     (let hasCompute = (gc_instances st \<noteq> []); hasKubernetes = (gc_clusters st \<noteq> []) in
      foldl (sql_edges hasCompute) [] (gc_sql st)
      @ (if hasCompute \<and> hasKubernetes then [(''compute->kubernetes'', True)] else [])
      @ (if hasCompute then [(''public_internet->compute'', gcpHasPublicIngressFirewall (gc_firewalls st))] else []))"

definition deriveTopologyGCP :: "document \<Rightarrow> derived" where
  "deriveTopologyGCP doc =
     (case doc of None \<Rightarrow> Inl ''unmarshal raw gcp state''
      | Some j \<Rightarrow>
          (case dec_struct dec_gcp_state (Some j) of
             None \<Rightarrow> Inl ''unmarshal raw gcp state''
           | Some st \<Rightarrow>
               let (probe, diagnostics) = deriveGCPHTTPProbe st
               in Inr (derived_json (marshal_bools (deriveGCPConnectivity st)) (marshal_bools probe), diagnostics)))"

subsection \<open>What the maps say\<close>

lemma truth_const: "truth (map (\<lambda>k. (k, True)) ks) k \<longleftrightarrow> k \<in> set ks"
proof -
  have "last_of (map (\<lambda>k. (k, True)) ks) k = (if k \<in> set ks then Some True else None)"
    by (induction ks rule: rev_induct) (auto simp: last_of_def)
  then show ?thesis by (simp add: truth_def)
qed

lemma truth_mem: "truth m k \<Longrightarrow> (k, True) \<in> set m"
  by (auto simp: truth_def dest: last_of_Some split: option.splits)

lemma connectivityKey_prefix: "\<exists>s. connectivityKey src dst p = src @ ''->'' @ dst @ s"
  by (auto simp: connectivityKey_def Let_def)

lemma endpoint_edge_mem:
  "k \<in> set (endpoint_edge st service pub ep) \<longleftrightarrow>
     (let port = jsonInt (jget ep ''port'') in port \<noteq> 0 \<and>
       ((\<exists>pn. jget ep ''private_network'' = Some (JObj pn) \<and> jsonStr pn ''id'' \<noteq> []
           \<and> jsonStr pn ''id'' \<in> set (server_networks st) \<and> k = connectivityKey ''compute'' service port)
        \<or> (pub \<and> (jget ep ''private_network'' = None \<or> jget ep ''private_network'' = Some JNull)
           \<and> k = connectivityKey ''public_internet'' service port)))"
  by (auto simp: endpoint_edge_def Let_def split: option.splits json.splits)

lemma probe_lb_true:
  "(httpProbeKey ''load_balancer'' p, True) \<in> set (fst (probe_lb st lb)) \<Longrightarrow>
   jsonStr lb ''id'' \<noteq> [] \<and> list_ex (names_lb (jsonStr lb ''id'')) (rw_lb_ips st)
   \<and> list_ex (names_lb (jsonStr lb ''id'')) (rw_backends st) \<and> p \<in> set (frontend_ports st (jsonStr lb ''id''))"
  by (auto simp: probe_lb_def Let_def split: if_splits)

lemma frontend_edge_port:
  "lbID \<noteq> [] \<Longrightarrow> list_ex (names_lb lbID) (rw_lb_ips st) \<Longrightarrow> p \<in> set (frontend_ports st lbID) \<Longrightarrow>
   \<exists>f \<in> set (rw_frontends st). connectivityKey ''public_internet'' ''load_balancer'' p \<in> set (frontend_edge st f)"
  by (fastforce simp: frontend_ports_def frontend_edge_def names_lb_def Let_def)

lemma dropWhile_greater:
  "sorted (rev ys) \<Longrightarrow> y \<in> set (dropWhile (\<lambda>y. x < y) ys) \<Longrightarrow> y \<le> (x :: int)"
  by (induction ys) (auto simp: sorted_append split: if_splits)

lemma insert_int_sorted: "sorted xs \<Longrightarrow> sorted (insert_int x xs)"
proof -
  let ?d = "dropWhile (\<lambda>y. x < y) (rev xs)" and ?t = "takeWhile (\<lambda>y. x < y) (rev xs)"
  assume s: "sorted xs"
  have "xs = rev ?d @ rev ?t" by (metis rev_append rev_rev_ident takeWhile_dropWhile_id)
  with s have "sorted (rev ?d @ rev ?t)" by simp
  moreover have "\<forall>y \<in> set ?t. x \<le> y" by (auto dest: set_takeWhileD)
  moreover have "\<forall>y \<in> set ?d. y \<le> x" using s dropWhile_greater [of "rev xs"] by auto
  ultimately show ?thesis by (auto simp: insert_int_def Let_def sorted_append)
qed

lemma insert_int_mset: "mset (insert_int x xs) = add_mset x (mset xs)"
proof -
  have "mset (takeWhile (\<lambda>y. x < y) (rev xs)) + mset (dropWhile (\<lambda>y. x < y) (rev xs)) = mset xs"
    by (metis mset_append mset_rev takeWhile_dropWhile_id)
  then show ?thesis by (simp add: insert_int_def Let_def add.commute)
qed

lemma sortInts_fold:
  "sorted acc \<Longrightarrow> sorted (foldl (\<lambda>acc x. insert_int x acc) acc xs)
     \<and> mset (foldl (\<lambda>acc x. insert_int x acc) acc xs) = mset acc + mset xs"
  by (induction xs arbitrary: acc) (simp_all add: insert_int_sorted insert_int_mset)

end
