(* ===== verification/Topology.thy ===== *)
theory Topology
  imports Topology_Derive Feedback
begin

text \<open>
  The derivations for AWS and Genesys (\<^verbatim>\<open>topology_derive_aws.go\<close>, \<^verbatim>\<open>topology_derive_genesys.go\<close>),
  the dispatch on the shape of the state (\<^verbatim>\<open>DeriveTopology\<close>) and the evaluation of a scenario's
  connectivity and probe checks (\<^verbatim>\<open>topology.go\<close>), with what they guarantee.
\<close>

subsection \<open>The raw state of the AWS mock\<close>

record aws_permission =
  pm_protocol :: string
  pm_from :: int
  pm_to :: int
  pm_v4 :: "string list"
  pm_v6 :: "string list"

record aws_group =
  ag_id :: string
  ag_permissions :: "aws_permission list"

record aws_instance =
  ai_id :: string
  ai_subnet :: string
  ai_public_ip :: string
  ai_groups :: "string list"

record aws_route =
  ar_table :: string
  ar_destination :: string
  ar_gateway :: string

record aws_association =
  aa_table :: string
  aa_subnet :: string
  aa_main :: bool
  aa_state :: string

record aws_state =
  as_instances :: "aws_instance list"
  as_groups :: "aws_group list"
  as_subnets :: "(string \<times> string) list" \<comment> \<open>id and VPC\<close>
  as_gateways :: "(string \<times> string) list"
  as_routes :: "aws_route list"
  as_tables :: "(string \<times> string) list"
  as_associations :: "aws_association list"

definition str_at :: "string \<Rightarrow> members \<Rightarrow> string option" where
  "str_at k m = dec_string (jfield m k)"

definition structs_at :: "string \<Rightarrow> (members \<Rightarrow> 'a option) \<Rightarrow> members \<Rightarrow> 'a list option" where
  "structs_at k f m = dec_list (dec_struct f) (jfield m k)"

definition dec_permission :: "members \<Rightarrow> aws_permission option" where
  "dec_permission m =
     (case (str_at ''ip_protocol'' m, dec_int (jfield m ''from_port''), dec_int (jfield m ''to_port''),
            structs_at ''ip_ranges'' (str_at ''cidr_ip'') m,
            structs_at ''ipv6_ranges'' (str_at ''cidr_ipv6'') m) of
        (Some p, Some f, Some t, Some v4, Some v6) \<Rightarrow>
          Some \<lparr>pm_protocol = p, pm_from = f, pm_to = t, pm_v4 = v4, pm_v6 = v6\<rparr>
      | _ \<Rightarrow> None)"

definition dec_group :: "members \<Rightarrow> aws_group option" where
  "dec_group m =
     (case (str_at ''id'' m, structs_at ''ip_permissions'' dec_permission m) of
        (Some i, Some ps) \<Rightarrow> Some \<lparr>ag_id = i, ag_permissions = ps\<rparr> | _ \<Rightarrow> None)"

definition dec_instance :: "members \<Rightarrow> aws_instance option" where
  "dec_instance m =
     (case (str_at ''id'' m, str_at ''subnet_id'' m, str_at ''public_ip'' m,
            dec_list dec_string (jfield m ''vpc_security_group_ids'')) of
        (Some i, Some s, Some p, Some gs) \<Rightarrow>
          Some \<lparr>ai_id = i, ai_subnet = s, ai_public_ip = p, ai_groups = gs\<rparr>
      | _ \<Rightarrow> None)"

definition dec_in_vpc :: "members \<Rightarrow> (string \<times> string) option" where
  "dec_in_vpc m = (case (str_at ''id'' m, str_at ''vpc_id'' m) of (Some i, Some v) \<Rightarrow> Some (i, v) | _ \<Rightarrow> None)"

definition dec_route :: "members \<Rightarrow> aws_route option" where
  "dec_route m =
     (case (str_at ''route_table_id'' m, str_at ''destination_cidr_block'' m, str_at ''gateway_id'' m) of
        (Some t, Some d, Some g) \<Rightarrow> Some \<lparr>ar_table = t, ar_destination = d, ar_gateway = g\<rparr> | _ \<Rightarrow> None)"

definition dec_association :: "members \<Rightarrow> aws_association option" where
  "dec_association m =
     (case (str_at ''route_table_id'' m, str_at ''subnet_id'' m, dec_bool (jfield m ''main''), str_at ''state'' m) of
        (Some t, Some s, Some b, Some st) \<Rightarrow>
          Some \<lparr>aa_table = t, aa_subnet = s, aa_main = b, aa_state = st\<rparr>
      | _ \<Rightarrow> None)"

definition dec_aws_state :: "members \<Rightarrow> aws_state option" where
  "dec_aws_state = within ''ec2'' (\<lambda>m.
     (case (structs_at ''instances'' dec_instance m, structs_at ''security_groups'' dec_group m,
            structs_at ''subnets'' dec_in_vpc m, structs_at ''internet_gateways'' dec_in_vpc m,
            structs_at ''routes'' dec_route m, structs_at ''route_tables'' dec_in_vpc m,
            structs_at ''route_table_associations'' dec_association m) of
        (Some a, Some b, Some c, Some d, Some e, Some f, Some g) \<Rightarrow>
          Some \<lparr>as_instances = a, as_groups = b, as_subnets = c, as_gateways = d, as_routes = e,
            as_tables = f, as_associations = g\<rparr>
      | _ \<Rightarrow> None))"

subsection \<open>Ingress by port\<close>

text \<open>
  The nested map of ports and groups is the list of what was appended to it, in order: a port, a
  group, and the sources of one rule.
\<close>

type_synonym ingress = "int \<times> string \<times> string list \<times> string list"

definition rule_ingress :: "string \<Rightarrow> aws_permission \<Rightarrow> ingress list \<times> string list" where
  "rule_ingress gid p =
     (if pm_v4 p = [] \<and> pm_v6 p = [] then ([], [])
      else if pm_protocol p = ''-1''
      then ([], [''protocol -1 (all traffic) rule on '' @ gid @ '' not derived''])
      else if pm_protocol p \<noteq> ''tcp'' \<and> pm_protocol p \<noteq> ''6'' then ([], [])
      else if pm_from p \<noteq> pm_to p
      then ([], [''tcp port range '' @ itoa (pm_from p) @ ''-'' @ itoa (pm_to p) @ '' on '' @ gid @ '' not derived''])
      else ([(pm_from p, gid, pm_v4 p, pm_v6 p)], []))"

definition awsIngressByPort :: "aws_state \<Rightarrow> ingress list \<times> string list" where
  "awsIngressByPort st =
     (let rs = concat (map (\<lambda>g. map (rule_ingress (ag_id g)) (ag_permissions g)) (as_groups st))
      in (concat (map fst rs), concat (map snd rs)))"

definition group_v4 :: "ingress list \<Rightarrow> int \<Rightarrow> string \<Rightarrow> string list" where
  "group_v4 ing port gid =
     concat (map (\<lambda>(p, g, v4, v6). if p = port \<and> g = gid then v4 else []) ing)"

definition group_v6 :: "ingress list \<Rightarrow> int \<Rightarrow> string \<Rightarrow> string list" where
  "group_v6 ing port gid =
     concat (map (\<lambda>(p, g, v4, v6). if p = port \<and> g = gid then v6 else []) ing)"

definition ingress_ports :: "ingress list \<Rightarrow> int list" where
  "ingress_ports ing = sort (remdups (map fst ing))"

subsection \<open>Routes\<close>

definition awsSubnetRouteTable :: "aws_state \<Rightarrow> string \<Rightarrow> string" where
  "awsSubnetRouteTable st subnetID =
     foldl (\<lambda>t a. if (aa_state a = [] \<or> aa_state a = ''associated'') \<and> aa_subnet a \<noteq> []
                      \<and> aa_subnet a = subnetID then aa_table a else t) [] (as_associations st)"

definition awsStateMainRouteTable :: "aws_state \<Rightarrow> string \<Rightarrow> string" where
  "awsStateMainRouteTable st vpcID =
     (case concat (map (\<lambda>a. map fst (filter (\<lambda>(i, v). i = aa_table a \<and> v = vpcID) (as_tables st)))
             (filter aa_main (as_associations st))) of
        [] \<Rightarrow> [] | i # _ \<Rightarrow> i)"

text \<open>The VPC of the last subnet with the id.\<close>

definition subnet_vpc :: "aws_state \<Rightarrow> string \<Rightarrow> string option" where
  "subnet_vpc st subnetID = last_of (as_subnets st) subnetID"

definition routed :: "aws_state \<Rightarrow> string \<Rightarrow> string \<Rightarrow> bool" where
  "routed st tableID vpcID \<longleftrightarrow>
     list_ex (\<lambda>r. ar_table r = tableID \<and> ar_destination r = everywhere
        \<and> list_ex (\<lambda>(i, v). i = ar_gateway r \<and> v = vpcID) (as_gateways st)) (as_routes st)"

definition awsSubnetUnrouted :: "aws_state \<Rightarrow> string \<Rightarrow> string" where
  "awsSubnetUnrouted st subnetID =
     (case subnet_vpc st subnetID of
        None \<Rightarrow> ''subnet '' @ subnetID @ '' is not in the mock state''
      | Some vpcID \<Rightarrow>
          if vpcID = [] then ''subnet '' @ subnetID @ '' has no vpc''
          else
            let own = awsSubnetRouteTable st subnetID;
                main = awsStateMainRouteTable st vpcID;
                tableID = (if own = [] then main else own);
                table = (if own = []
                  then ''main route table '' @ main @ '' of vpc '' @ vpcID @ '' (subnet '' @ subnetID @ '' has no association)''
                  else ''route table '' @ own @ '' of subnet '' @ subnetID)
            in if tableID = []
               then ''subnet '' @ subnetID @ '' has no route table association and vpc '' @ vpcID @ '' has no main route table''
               else if routed st tableID vpcID then []
               else table @ '' has no 0.0.0.0/0 route to an internet gateway of '' @ vpcID)"

definition awsInstanceUnreachable :: "aws_state \<Rightarrow> ingress list \<Rightarrow> aws_instance \<Rightarrow> int \<Rightarrow> string" where
  "awsInstanceUnreachable st ing inst port =
     (let v4 = concat (map (group_v4 ing port) (ai_groups inst));
          v6 = concat (map (group_v6 ing port) (ai_groups inst));
          i = ai_id inst; p = itoa port
      in if everywhere \<in> set v4 then
           (if ai_public_ip inst = [] then ''instance '' @ i @ '' has no public IPv4 address''
            else if ai_subnet inst = [] then ''instance '' @ i @ '' has no subnet''
            else awsSubnetUnrouted st (ai_subnet inst))
         else if v4 \<noteq> []
         then ''instance '' @ i @ '' admits tcp '' @ p @ '' only from '' @ join '','' v4 @ '', not 0.0.0.0/0''
         else if v6 \<noteq> []
         then ''instance '' @ i @ '' admits tcp '' @ p @ '' only from '' @ join '','' v6
                @ '': IPv6-only ingress, and the probe dials the IPv4 public_ip''
         else ''no security group attached to instance '' @ i @ '' admits tcp '' @ p)"

text \<open>The loop over the instances: the first that answers, or the reason of the last.\<close>

fun port_reason :: "(aws_instance \<Rightarrow> string) \<Rightarrow> string \<Rightarrow> aws_instance list \<Rightarrow> string" where
  "port_reason f reason [] = reason"
| "port_reason f reason (i # is) = (if f i = [] then [] else port_reason f (f i) is)"

definition awsComputeFallback :: "int list \<Rightarrow> string list \<Rightarrow> string" where
  "awsComputeFallback ports notes =
     join ''; '' ((if ports = [] then ''no single-port tcp ingress rule with a cidr source''
       else ''tcp ingress on port '' @ join '','' (map itoa ports)) # notes)"

definition aws_probe :: "aws_state \<Rightarrow> bool_map" where
  "aws_probe st =
     (let ing = fst (awsIngressByPort st) in
      map (\<lambda>p. (httpProbeKey ''compute'' p,
        port_reason (\<lambda>i. awsInstanceUnreachable st ing i p) ''no instances'' (as_instances st) = []))
      (ingress_ports ing))"

definition deriveTopologyAWS :: "document \<Rightarrow> derived" where
  "deriveTopologyAWS doc =
     (case doc of None \<Rightarrow> Inl ''unmarshal aws state''
      | Some j \<Rightarrow>
          (case dec_struct dec_aws_state (Some j) of
             None \<Rightarrow> Inl ''unmarshal aws state''
           | Some st \<Rightarrow>
               let (ing, notes) = awsIngressByPort st; ports = ingress_ports ing;
                   reason = (\<lambda>p. port_reason (\<lambda>i. awsInstanceUnreachable st ing i p) ''no instances'' (as_instances st))
               in Inr (derived_json (JObj []) (marshal_bools (aws_probe st)),
                 map (\<lambda>p. (httpProbeKey ''compute'' p, reason p)) (filter (\<lambda>p. reason p \<noteq> []) ports)
                 @ [(''compute'', awsComputeFallback ports notes)])))"

subsection \<open>Genesys\<close>

record genesys_queue =
  gq_id :: string
  gq_name :: string
  gq_skills :: "string list"
  gq_wrapups :: "string list"
  gq_languages :: "string list"

definition dec_queue :: "members \<Rightarrow> genesys_queue option" where
  "dec_queue m =
     (case (str_at ''id'' m, str_at ''name'' m, structs_at ''skills'' (str_at ''id'') m,
            structs_at ''wrapupCodes'' (str_at ''id'') m, structs_at ''languages'' (str_at ''id'') m) of
        (Some i, Some n, Some s, Some w, Some l) \<Rightarrow>
          Some \<lparr>gq_id = i, gq_name = n, gq_skills = s, gq_wrapups = w, gq_languages = l\<rparr>
      | _ \<Rightarrow> None)"

definition dec_member :: "members \<Rightarrow> (string \<times> string) option" where
  "dec_member m = (case (str_at ''queueId'' m, str_at ''userId'' m) of (Some q, Some u) \<Rightarrow> Some (q, u) | _ \<Rightarrow> None)"

definition dec_flow :: "members \<Rightarrow> (string \<times> string \<times> string \<times> string) option" where
  "dec_flow m =
     (case (str_at ''id'' m, str_at ''name'' m, str_at ''state'' m, within ''lockedUser'' (str_at ''id'') m) of
        (Some i, Some n, Some s, Some u) \<Rightarrow> Some (i, n, s, u) | _ \<Rightarrow> None)"

definition texts :: "string list \<Rightarrow> json" where
  "texts xs = JArr (map JStr xs)"

text \<open>A nil slice marshals as null: a queue without members.\<close>

definition queue_entry :: "(string \<times> string) list \<Rightarrow> genesys_queue \<Rightarrow> string \<times> json" where
  "queue_entry ms q =
     (let members = sort (map snd (filter (\<lambda>m. fst m = gq_id q) ms)) in
      (''routing_queue:'' @ gq_id q,
       JObj [(''name'', JStr (gq_name q)), (''members'', if members = [] then JNull else texts members),
         (''skills'', texts (gq_skills q)), (''wrapup_codes'', texts (gq_wrapups q)),
         (''languages'', texts (gq_languages q))]))"

definition queue_diagnostic :: "(string \<times> string) list \<Rightarrow> genesys_queue \<Rightarrow> text_map" where
  "queue_diagnostic ms q =
     (if filter (\<lambda>m. fst m = gq_id q) ms = [] \<and> gq_skills q = []
      then [(''routing_queue:'' @ gq_id q,
        ''queue has no members and no skill requirements; calls may queue indefinitely'')]
      else [])"

definition flow_entry :: "string \<times> string \<times> string \<times> string \<Rightarrow> string \<times> json" where
  "flow_entry f =
     (let (i, n, s, u) = f in
      (''flow:'' @ i, JObj ([(''name'', JStr n), (''state'', JStr s)]
        @ (if u \<noteq> [] then [(''locked_by_user'', JStr u)] else []))))"

definition somes :: "'a option list \<Rightarrow> 'a list" where
  "somes xs = concat (map (\<lambda>x. case x of None \<Rightarrow> [] | Some y \<Rightarrow> [y]) xs)"

definition deriveTopologyGenesys :: "document \<Rightarrow> derived" where
  "deriveTopologyGenesys doc =
     (case doc of None \<Rightarrow> Inl ''unmarshal genesys state''
      | Some j \<Rightarrow>
          (case dec_struct (\<lambda>m. case (dec_list Some (jfield m ''routing_queues''),
                  structs_at ''routing_queue_members'' dec_member m, dec_list Some (jfield m ''flows'')) of
                (Some qs, Some ms, Some fs) \<Rightarrow> Some (qs, ms, fs) | _ \<Rightarrow> None) (Some j) of
             None \<Rightarrow> Inl ''unmarshal genesys state''
           | Some (qs, ms, fs) \<Rightarrow>
               let queues = somes (map (dec_struct dec_queue) qs);
                   flows = somes (map (dec_struct dec_flow) fs)
               in Inr (derived_json (JObj (map (queue_entry ms) queues @ map flow_entry flows)) (JObj []),
                    concat (map (queue_diagnostic ms) queues))))"

subsection \<open>Dispatch\<close>

datatype mock_cloud = Cloud_Scaleway | Cloud_GCP | Cloud_AWS | Cloud_Genesys

definition present :: "members \<Rightarrow> string \<Rightarrow> bool" where
  "present m k \<longleftrightarrow> jfield m k \<noteq> None \<and> jfield m k \<noteq> Some JNull"

definition detectCloud :: "document \<Rightarrow> mock_cloud" where
  "detectCloud doc =
     (case doc of
        Some (JObj m) \<Rightarrow>
          let versioned = (jfield m ''schema_version'' \<noteq> None) in
          if versioned \<and> present m ''routing_queues'' \<and> present m ''flows'' then Cloud_Genesys
          else if versioned \<and> present m ''s3'' \<and> present m ''iam'' then Cloud_AWS
          else if present m ''compute'' then Cloud_GCP
          else Cloud_Scaleway
      | _ \<Rightarrow> Cloud_Scaleway)"

definition DeriveTopology :: "document \<Rightarrow> derived" where
  "DeriveTopology doc =
     (case detectCloud doc of
        Cloud_GCP \<Rightarrow> deriveTopologyGCP doc
      | Cloud_AWS \<Rightarrow> deriveTopologyAWS doc
      | Cloud_Genesys \<Rightarrow> deriveTopologyGenesys doc
      | Cloud_Scaleway \<Rightarrow> deriveTopologyScaleway doc)"

subsection \<open>Evaluation\<close>

record topology_check =
  tc_type :: string
  tc_from :: string
  tc_to :: string
  tc_target :: string
  tc_port :: int
  tc_expect :: string

text \<open>The two maps of a state; \<open>None\<close> is the nil map, which null and absence decode to.\<close>

record topology_state =
  ts_connectivity :: "bool_map option"
  ts_probe :: "bool_map option"

fun dec_bool_map :: "json option \<Rightarrow> bool_map option option" where
  "dec_bool_map None = Some None"
| "dec_bool_map (Some JNull) = Some None"
| "dec_bool_map (Some (JObj m)) =
     map_option Some (traverse (\<lambda>(k, v). map_option (Pair k) (dec_bool (Some v))) m)"
| "dec_bool_map _ = None"

definition dec_topology :: "members \<Rightarrow> topology_state option" where
  "dec_topology m =
     (case (dec_bool_map (jfield m ''connectivity''), dec_bool_map (jfield m ''http_probe'')) of
        (Some c, Some p) \<Rightarrow> Some \<lparr>ts_connectivity = c, ts_probe = p\<rparr> | _ \<Rightarrow> None)"

definition the_map :: "bool_map option \<Rightarrow> bool_map" where
  "the_map m = (case m of None \<Rightarrow> [] | Some b \<Rightarrow> b)"

definition httpProbeDiagnostic :: "text_map \<Rightarrow> string \<Rightarrow> string \<Rightarrow> string" where
  "httpProbeDiagnostic diagnostics target exactKey =
     (let at = (\<lambda>k. case last_of diagnostics k of None \<Rightarrow> [] | Some s \<Rightarrow> s) in
      if diagnostics = [] then [] else if at exactKey \<noteq> [] then at exactKey else at target)"

definition topology_failure :: "string \<Rightarrow> string \<Rightarrow> failure" where
  "topology_failure check detail = no_failure\<lparr>f_layer := ''mock_deploy'', f_stage := ''topology'',
     f_status := ''fail'', f_check := check, f_command := ''topology evaluator'', f_detail := detail\<rparr>"

definition expectation :: "string \<Rightarrow> bool \<Rightarrow> bool \<Rightarrow> string" where
  "expectation key expected actual =
     quote key @ '' expected '' @ show_bool expected @ '' got '' @ show_bool actual"

definition evaluate_check :: "bool_map \<Rightarrow> bool_map \<Rightarrow> text_map \<Rightarrow> topology_check \<Rightarrow> failure list" where
  "evaluate_check conn probe diagnostics c =
     (if tc_type c = ''connectivity'' then
        (let key = connectivityKey (tc_from c) (tc_to c) (tc_port c);
             actual = truth conn key; expected = (tc_expect c = ''success'')
         in if actual = expected then []
            else [topology_failure ''connectivity'' (''connectivity '' @ expectation key expected actual)])
      else if tc_type c = ''http_probe'' then
        (let key = httpProbeKey (tc_target c) (tc_port c);
             actual = truth probe key; expected = (tc_expect c = ''reachable'');
             reason = httpProbeDiagnostic diagnostics (tc_target c) key;
             detail = ''http probe '' @ expectation key expected actual
         in if actual = expected then []
            else [topology_failure ''http_probe'' (if reason \<noteq> [] then detail @ '': '' @ reason else detail)])
      else [])"

definition EvaluateTopology :: "document \<Rightarrow> topology_check list \<Rightarrow> string + failure list" where
  "EvaluateTopology doc checks =
     (case (case doc of None \<Rightarrow> None | Some j \<Rightarrow> dec_struct dec_topology (Some j)) of
        None \<Rightarrow> Inl ''decode mock state''
      | Some st \<Rightarrow>
          if ts_connectivity st = None \<and> ts_probe st = None then
            (case DeriveTopology doc of
               Inl e \<Rightarrow> Inl (''derive topology: '' @ e)
             | Inr (d, diagnostics) \<Rightarrow>
                 (case dec_struct dec_topology (Some d) of
                    None \<Rightarrow> Inl ''decode derived topology''
                  | Some st' \<Rightarrow> Inr (concat (map (evaluate_check (the_map (ts_connectivity st'))
                      (the_map (ts_probe st')) diagnostics) checks))))
          else Inr (concat (map (evaluate_check (the_map (ts_connectivity st)) (the_map (ts_probe st)) []) checks)))"

subsection \<open>Decoding what was derived\<close>

lemma traverse_bools: "traverse (\<lambda>(k, v). map_option (Pair k) (dec_bool (Some v))) (map (\<lambda>(k, b). (k, JBool b)) m) = Some m"
  by (induction m) auto

lemma dec_marshal_bools [simp]: "dec_bool_map (Some (marshal_bools m)) = Some (Some m)"
  by (simp add: marshal_bools_def traverse_bools)

lemma jfield_derived [simp]:
  "jfield [(''connectivity'', c), (''http_probe'', p)] ''connectivity'' = Some c"
  "jfield [(''connectivity'', c), (''http_probe'', p)] ''http_probe'' = Some p"
  by (simp_all add: jfield_def equal_fold_def to_lower_def lower_char_def char_between_def)

lemma dec_derived_bools:
  "dec_struct dec_topology (Some (derived_json (marshal_bools c) (marshal_bools p)))
     = Some \<lparr>ts_connectivity = Some c, ts_probe = Some p\<rparr>"
  by (simp add: derived_json_def dec_topology_def)

lemma derived_bools:
  "detectCloud doc \<noteq> Cloud_Genesys \<Longrightarrow> DeriveTopology doc = Inr (d, dg) \<Longrightarrow>
   \<exists>c p. d = derived_json (marshal_bools c) (marshal_bools p)"
proof -
  assume g: "detectCloud doc \<noteq> Cloud_Genesys" and d: "DeriveTopology doc = Inr (d, dg)"
  have e: "JObj [] = marshal_bools []" by (simp add: marshal_bools_def)
  show ?thesis
  proof (cases "detectCloud doc")
    case Cloud_Scaleway
    with d show ?thesis
      by (auto simp: DeriveTopology_def deriveTopologyScaleway_def split: option.splits prod.splits)
  next
    case Cloud_GCP
    with d show ?thesis
      by (auto simp: DeriveTopology_def deriveTopologyGCP_def split: option.splits prod.splits)
  next
    case Cloud_AWS
    with d show ?thesis
      by (auto simp: DeriveTopology_def deriveTopologyAWS_def e Let_def split: option.splits prod.splits)
  qed (use g in simp)
qed

lemma genesys_entry_objects:
  "dec_bool_map (Some (JObj (map (queue_entry ms) qs @ map flow_entry fs))) =
     (if qs = [] \<and> fs = [] then Some (Some []) else None)"
proof -
  have q: "\<exists>m. snd (queue_entry ms q) = JObj m" for q by (simp add: queue_entry_def Let_def)
  have f: "\<exists>m. snd (flow_entry f) = JObj m" for f by (cases f) (simp add: flow_entry_def)
  let ?g = "\<lambda>(k, v). map_option (Pair k) (dec_bool (Some v))"
  have none: "traverse ?g (x # xs) = None" if "\<exists>m. snd x = JObj m" for x :: "string \<times> json" and xs
    using that by (cases x) auto
  show ?thesis
  proof (cases qs)
    case (Cons a qs')
    then show ?thesis using none [OF q [of a]] by simp
  next
    case Nil
    then show ?thesis using none [OF f] by (cases fs) auto
  qed
qed

subsection \<open>AWS: which instance answers\<close>

definition serves :: "aws_state \<Rightarrow> int \<Rightarrow> aws_instance \<Rightarrow> bool" where
  "serves st p inst \<longleftrightarrow>
     (\<exists>g \<in> set (ai_groups inst). \<exists>gr \<in> set (as_groups st). \<exists>r \<in> set (ag_permissions gr).
        ag_id gr = g \<and> (pm_protocol r = ''tcp'' \<or> pm_protocol r = ''6'')
        \<and> pm_from r = p \<and> pm_to r = p \<and> everywhere \<in> set (pm_v4 r))
     \<and> ai_public_ip inst \<noteq> [] \<and> ai_subnet inst \<noteq> []
     \<and> (\<exists>vpc. subnet_vpc st (ai_subnet inst) = Some vpc \<and> vpc \<noteq> []
          \<and> (let own = awsSubnetRouteTable st (ai_subnet inst);
                 table = (if own = [] then awsStateMainRouteTable st vpc else own)
             in table \<noteq> [] \<and> routed st table vpc))"

lemma rule_ingress_mem:
  "(p, g, v4, v6) \<in> set (fst (rule_ingress gid r)) \<longleftrightarrow> gid = g
     \<and> (pm_protocol r = ''tcp'' \<or> pm_protocol r = ''6'') \<and> pm_from r = p \<and> pm_to r = p
     \<and> v4 = pm_v4 r \<and> v6 = pm_v6 r \<and> (v4 \<noteq> [] \<or> v6 \<noteq> [])"
  by (auto simp: rule_ingress_def)

lemma ingress_mem:
  "(p, g, v4, v6) \<in> set (fst (awsIngressByPort st)) \<longleftrightarrow>
     (\<exists>gr \<in> set (as_groups st). \<exists>r \<in> set (ag_permissions gr). ag_id gr = g
        \<and> (pm_protocol r = ''tcp'' \<or> pm_protocol r = ''6'') \<and> pm_from r = p \<and> pm_to r = p
        \<and> v4 = pm_v4 r \<and> v6 = pm_v6 r \<and> (v4 \<noteq> [] \<or> v6 \<noteq> []))"
  by (simp add: awsIngressByPort_def Let_def rule_ingress_mem)

lemma group_v4_mem:
  "c \<in> set (group_v4 ing p g) \<longleftrightarrow> (\<exists>v4 v6. (p, g, v4, v6) \<in> set ing \<and> c \<in> set v4)"
  by (force simp: group_v4_def split: if_splits)

lemma group_v4_ingress:
  "c \<in> set (group_v4 (fst (awsIngressByPort st)) p g) \<longleftrightarrow>
     (\<exists>gr \<in> set (as_groups st). \<exists>r \<in> set (ag_permissions gr). ag_id gr = g
        \<and> (pm_protocol r = ''tcp'' \<or> pm_protocol r = ''6'') \<and> pm_from r = p \<and> pm_to r = p
        \<and> c \<in> set (pm_v4 r))" (is "?l = ?r")
proof
  assume ?l
  then show ?r unfolding group_v4_mem ingress_mem by blast
next
  assume ?r
  then obtain gr r where r: "gr \<in> set (as_groups st)" "r \<in> set (ag_permissions gr)" "ag_id gr = g"
      "pm_protocol r = ''tcp'' \<or> pm_protocol r = ''6''" "pm_from r = p" "pm_to r = p" "c \<in> set (pm_v4 r)"
    by blast
  then have "pm_v4 r \<noteq> []" by auto
  with r have "(p, g, pm_v4 r, pm_v6 r) \<in> set (fst (awsIngressByPort st))" unfolding ingress_mem by blast
  with r show ?l unfolding group_v4_mem by blast
qed

lemma awsSubnetUnrouted_Nil:
  "awsSubnetUnrouted st s = [] \<longleftrightarrow>
     (\<exists>vpc. subnet_vpc st s = Some vpc \<and> vpc \<noteq> []
        \<and> (let own = awsSubnetRouteTable st s; table = (if own = [] then awsStateMainRouteTable st vpc else own)
           in table \<noteq> [] \<and> routed st table vpc))"
  by (auto simp: awsSubnetUnrouted_def Let_def split: option.splits)

lemma awsInstanceUnreachable_Nil:
  "awsInstanceUnreachable st (fst (awsIngressByPort st)) inst p = [] \<longleftrightarrow> serves st p inst"
proof -
  have v4: "everywhere \<in> set (concat (map (group_v4 (fst (awsIngressByPort st)) p) (ai_groups inst))) \<longleftrightarrow>
     (\<exists>g \<in> set (ai_groups inst). \<exists>gr \<in> set (as_groups st). \<exists>r \<in> set (ag_permissions gr).
        ag_id gr = g \<and> (pm_protocol r = ''tcp'' \<or> pm_protocol r = ''6'')
        \<and> pm_from r = p \<and> pm_to r = p \<and> everywhere \<in> set (pm_v4 r))"
    by (simp add: group_v4_ingress)
  show ?thesis
    unfolding awsInstanceUnreachable_def Let_def serves_def v4 [symmetric]
    using awsSubnetUnrouted_Nil [of st "ai_subnet inst"] by (simp add: Let_def)
qed

lemma port_reason_Nil: "reason \<noteq> [] \<Longrightarrow> port_reason f reason is = [] \<longleftrightarrow> (\<exists>i \<in> set is. f i = [])"
  by (induction f reason "is" rule: port_reason.induct) auto

lemma truth_keyed:
  "inj g \<Longrightarrow> truth (map (\<lambda>p. (g p, P p)) ps) (g p) \<longleftrightarrow> p \<in> set ps \<and> P p"
proof -
  assume g: "inj g"
  have "last_of (map (\<lambda>p. (g p, P p)) ps) (g p) = (if p \<in> set ps then Some (P p) else None)"
    by (induction ps rule: rev_induct) (auto simp: last_of_def inj_eq [OF g])
  then show ?thesis by (simp add: truth_def)
qed

subsection \<open>Properties\<close>

text \<open>
  C39. The AWS derivation says a port answers exactly when some instance serves it: one of its own
  groups admits that single tcp port from everywhere, it has a public address and a subnet, and the
  subnet's own route table, or else its VPC's main one, routes everywhere to a gateway of the VPC.
\<close>

theorem aws_probe_iff:
  "truth (aws_probe st) (httpProbeKey ''compute'' p) \<longleftrightarrow> (\<exists>inst \<in> set (as_instances st). serves st p inst)"
proof -
  let ?ing = "fst (awsIngressByPort st)"
  have "truth (aws_probe st) (httpProbeKey ''compute'' p) \<longleftrightarrow>
      p \<in> set (ingress_ports ?ing) \<and> (\<exists>inst \<in> set (as_instances st). serves st p inst)"
    unfolding aws_probe_def Let_def
    by (subst truth_keyed) (auto simp: inj_def port_reason_Nil awsInstanceUnreachable_Nil)
  moreover have "serves st p inst \<Longrightarrow> p \<in> set (ingress_ports ?ing)" for inst
  proof -
    assume "serves st p inst"
    then obtain gr r where r: "gr \<in> set (as_groups st)" "r \<in> set (ag_permissions gr)"
        "pm_protocol r = ''tcp'' \<or> pm_protocol r = ''6''" "pm_from r = p" "pm_to r = p" "everywhere \<in> set (pm_v4 r)"
      by (auto simp: serves_def)
    then have "pm_v4 r \<noteq> []" by auto
    with r have "(p, ag_id gr, pm_v4 r, pm_v6 r) \<in> set ?ing" unfolding ingress_mem by blast
    then show ?thesis by (force simp: ingress_ports_def)
  qed
  ultimately show ?thesis by blast
qed

text \<open>
  In a Scaleway state, a load balancer's port that answers HTTP also accepts connections: the
  derived probe is never stronger than the derived connectivity.
\<close>

theorem probe_implies_connectivity:
  "truth (fst (deriveHTTPProbe st)) (httpProbeKey ''load_balancer'' p)
     \<le> truth (deriveConnectivity st) (connectivityKey ''public_internet'' ''load_balancer'' p)"
proof (rule le_boolI)
  assume "truth (fst (deriveHTTPProbe st)) (httpProbeKey ''load_balancer'' p)"
  then obtain lb where "(httpProbeKey ''load_balancer'' p, True) \<in> set (fst (probe_lb st lb))"
    by (auto simp: deriveHTTPProbe_def dest!: truth_mem)
  from probe_lb_true [OF this] frontend_edge_port [of "jsonStr lb ''id''" st p]
  show "truth (deriveConnectivity st) (connectivityKey ''public_internet'' ''load_balancer'' p)"
    unfolding deriveConnectivity_def truth_const by auto
qed

text \<open>
  A database of the Scaleway state is reachable from the public internet on a port exactly when
  some endpoint has that port and names no private network.
\<close>

theorem public_database_iff:
  assumes "p > 0"
  shows "truth (deriveConnectivity st) (connectivityKey ''public_internet'' ''database'' p) \<longleftrightarrow>
     (\<exists>m \<in> set (rw_rdb st). \<exists>ep \<in> set (objects_at ''endpoints'' m). jsonInt (jget ep ''port'') = p
        \<and> (jget ep ''private_network'' = None \<or> jget ep ''private_network'' = Some JNull))"
proof -
  let ?k = "connectivityKey ''public_internet'' ''database'' p"
  have other: "?k \<noteq> connectivityKey s d q" if "(s, d) \<in> {(''compute'', ''database''), (''compute'', ''redis''),
      (''public_internet'', ''load_balancer''), (''public_internet'', ''compute''), (''public_internet'', ''redis'')}" for s d q
    using that by (auto simp: connectivityKey_def Let_def)
  have rdb: "?k \<in> set (endpoint_edge st ''database'' True ep) \<longleftrightarrow> jsonInt (jget ep ''port'') = p
      \<and> (jget ep ''private_network'' = None \<or> jget ep ''private_network'' = Some JNull)" for ep
    using assms other [of "''compute''" "''database''"] connectivityKey_inject [OF assms]
    by (auto simp: endpoint_edge_mem Let_def)
  have redis: "?k \<notin> set (endpoint_edge st ''redis'' False ep)" for ep
    using other [of "''compute''" "''redis''"] by (auto simp: endpoint_edge_mem Let_def)
  have fe: "?k \<notin> set (frontend_edge st f)" for f
    using other [of "''public_internet''" "''load_balancer''"] by (auto simp: frontend_edge_def Let_def)
  have co: "?k \<noteq> connectivityKey ''public_internet'' ''compute'' 0"
    using other [of "''public_internet''" "''compute''"] by auto
  show ?thesis
    unfolding deriveConnectivity_def truth_const service_edges_def
    using rdb redis fe co by auto
qed

definition sample_raw_state :: raw_state where
  "sample_raw_state = \<lparr>rw_servers = [], rw_ips = [], rw_nics = [], rw_lbs = [], rw_lb_ips = [],
     rw_frontends = [], rw_backends = [], rw_private_networks = [],
     rw_rdb = [[(''endpoints'', JArr [JObj [(''port'', JNum 5432 True)]])]], rw_redis = []\<rparr>"

theorem public_database_iff_witness:
  "truth (deriveConnectivity sample_raw_state) (connectivityKey ''public_internet'' ''database'' 5432)"
  by (subst public_database_iff)
     (simp_all add: sample_raw_state_def objects_at_def jget_def)


definition sample_genesys :: document where
  "sample_genesys = Some (JObj [(''schema_version'', JNum 1 True),
     (''routing_queues'', JArr [JObj [(''id'', JStr ''q'')]]), (''flows'', JArr [])])"


text \<open>
  For every other cloud the evaluation decodes what was derived: once the state itself decodes
  and carries no maps of its own, evaluating it fails only where deriving it does, and the failures
  are those of the checks in their order.
\<close>

theorem evaluation_follows_derivation:
  assumes "detectCloud doc \<noteq> Cloud_Genesys"
    and "dec_struct dec_topology doc = Some \<lparr>ts_connectivity = None, ts_probe = None\<rparr>" and "doc \<noteq> None"
  shows "case DeriveTopology doc of
      Inl e \<Rightarrow> EvaluateTopology doc checks = Inl (''derive topology: '' @ e)
    | Inr (d, dg) \<Rightarrow> \<exists>c p. d = derived_json (marshal_bools c) (marshal_bools p)
        \<and> EvaluateTopology doc checks = Inr (concat (map (evaluate_check c p dg) checks))"
proof (cases "DeriveTopology doc")
  case (Inl e)
  then show ?thesis using assms by (auto simp: EvaluateTopology_def)
next
  case (Inr r)
  obtain d dg where r: "r = (d, dg)" by fastforce
  from derived_bools [OF assms(1)] Inr r obtain c p where "d = derived_json (marshal_bools c) (marshal_bools p)"
    by blast
  with assms Inr r have "EvaluateTopology doc checks = Inr (concat (map (evaluate_check c p dg) checks))"
    by (auto simp: EvaluateTopology_def dec_derived_bools the_map_def)
  with \<open>d = _\<close> Inr r show ?thesis by auto
qed

definition sample_aws :: document where
  "sample_aws = Some (JObj [(''schema_version'', JNum 1 True), (''s3'', JObj []), (''iam'', JObj [])])"

theorem evaluation_follows_derivation_witness:
  "\<exists>c p. fst (case DeriveTopology sample_aws of Inr r \<Rightarrow> r) = derived_json (marshal_bools c) (marshal_bools p)"
proof -
  have "detectCloud sample_aws \<noteq> Cloud_Genesys" by code_simp
  moreover have "dec_struct dec_topology sample_aws = Some \<lparr>ts_connectivity = None, ts_probe = None\<rparr>" by code_simp
  moreover have "sample_aws \<noteq> None" by (simp add: sample_aws_def)
  moreover have "DeriveTopology sample_aws = Inr (derived_json (JObj []) (JObj []),
      [(''compute'', ''no single-port tcp ingress rule with a cidr source'')])" by code_simp
  ultimately show ?thesis using evaluation_follows_derivation [of sample_aws "[]"] by auto
qed

text \<open>The insertion sort of the GCP derivation sorts.\<close>

lemma sortInts_sorts: "sortInts xs = sort xs"
  using sortInts_fold [of "[]" xs] unfolding sortInts_def
  by (metis empty_neutral(1) mset.simps(1) properties_for_sort sorted_wrt.simps(1))

end
