(* ===== verification/Learning.thy ===== *)
theory Learning
  imports Redaction Feedback
begin

text \<open>
  What a run learns from a failure: \<^verbatim>\<open>internal/generator/gate_pitfalls.go\<close>, and from
  \<^verbatim>\<open>pitfalls_learn.go\<close> the signals, the router, the extractors of rules and the register of mock
  gaps. The registered account ids (\<open>known\<close>) are those of the redaction.
\<close>

subsection \<open>Substrings\<close>

text \<open>\<^verbatim>\<open>strings.Index\<close>.\<close>

fun str_index :: "string \<Rightarrow> string \<Rightarrow> nat option" where
  "str_index [] p = (if p = [] then Some 0 else None)"
| "str_index (c # s) p = (if has_prefix (c # s) p then Some 0 else map_option Suc (str_index s p))"

definition dquote :: string where "dquote = [CHR 0x22]"
definition squote :: string where "squote = [CHR 0x27]"
definition em_dash :: string where "em_dash = [CHR 0xE2, CHR 0x80, CHR 0x94]"
definition right_arrow :: string where "right_arrow = [CHR 0xE2, CHR 0x86, CHR 0x92]"

lemma str_index_Some:
  "str_index s p = Some n \<Longrightarrow> n + length p \<le> length s \<and> take (length p) (drop n s) = p"
  by (induction s p arbitrary: n rule: str_index.induct)
     (auto simp: has_prefix_def split: if_splits dest: arg_cong [where f = length])

lemma str_index_None: "str_index s p = None \<longleftrightarrow> \<not> contains s p"
  by (induction s p rule: str_index.induct) (auto simp: has_prefix_def)

subsection \<open>Signals\<close>

datatype signal_class = mockOnly | mockOrCloud | weather

definition signals :: "(string \<times> signal_class) list" where
  "signals =
     [(''501 not implemented'', mockOnly),
      (''501: not implemented'', mockOnly),
      (dquote @ ''reason'' @ dquote @ '':'' @ dquote @ ''notimplemented'' @ dquote, mockOnly),
      (''reason: '' @ dquote @ ''notimplemented'' @ dquote, mockOnly),
      (''not modelled by fakeaws'', mockOnly),
      (''plugin did not respond'', mockOnly),
      (''the plugin encountered an error'', mockOnly),
      (''access_token_type_unsupported'', mockOnly),
      (''request had invalid authentication credentials'', mockOnly),
      (''couldn'' @ squote @ ''t find resource'', mockOrCloud),
      (''resourcenotfoundexception'', mockOrCloud),
      (dquote @ ''error'' @ dquote @ '':'' @ dquote @ ''unimplemented'' @ dquote, mockOnly),
      (''waiting for state to become '' @ squote @ ''true'' @ squote, mockOrCloud),
      (''waiting for state to become '' @ squote @ ''true'' @ squote @ '' (last state: '' @ squote @ ''false'' @ squote @ '', timeout:'', mockOrCloud),
      (''empty result'', mockOrCloud),
      (''no valid credential sources'', weather),
      (''invalidclienttokenid'', weather),
      (''signaturedoesnotmatch'', weather),
      (''expiredtoken'', weather),
      (''unrecognizedclientexception'', weather),
      (''authfailure'', weather),
      (''plugin crashed'', weather),
      (''requestlimitexceeded'', weather),
      (''throttling'', weather),
      (''rate exceeded'', weather),
      (''insufficientinstancecapacity'', weather),
      (''vcpulimitexceeded'', weather),
      (''accessdenied'', weather),
      (''unauthorizedoperation'', weather),
      (''insufficient permissions'', weather),
      (''quota exceeded'', weather),
      (''quotas exceeded'', weather)]"

definition firstSignal :: "string \<Rightarrow> signal_class list \<Rightarrow> string" where
  "firstSignal detail classes =
     (case filter (\<lambda>(t, c). c \<in> set classes \<and> contains (to_lower detail) t) signals of
        [] \<Rightarrow> [] | (t, _) # _ \<Rightarrow> t)"

definition FirstMockSignal :: "string \<Rightarrow> string" where
  "FirstMockSignal detail = firstSignal detail [mockOnly, mockOrCloud]"

definition MockDeployLayer :: string where "MockDeployLayer = ''mock_deploy''"
definition SandboxDeployLayer :: string where "SandboxDeployLayer = ''sandbox_deploy''"

definition IsMockLayer :: "string \<Rightarrow> bool" where
  "IsMockLayer layer \<longleftrightarrow> layer \<in> set [''static'', MockDeployLayer, ''destruction'']"

definition llmActionableEscapeResources :: "string list" where
  "llmActionableEscapeResources = [''google_project_service'', ''google_service_networking_connection'',
     ''google_project_iam_member'', ''google_project_iam_binding'', ''google_project_iam_policy'']"

definition containsLLMActionableEscapeResource :: "string \<Rightarrow> bool" where
  "containsLLMActionableEscapeResource detail = list_ex (contains detail) llmActionableEscapeResources"

definition IsMockServerBug :: "string \<Rightarrow> bool" where
  "IsMockServerBug detail =
     (let sig = FirstMockSignal detail in
      if sig = [] then False
      else sig \<noteq> ''access_token_type_unsupported'' \<or> \<not> containsLLMActionableEscapeResource detail)"

subsection \<open>Refusals of a gate\<close>

definition Layer3GatePrefix :: string where
  "Layer3GatePrefix = ''layer 3 refuses this configuration: ''"

definition Layer3AllowlistPrefix :: string where
  "Layer3AllowlistPrefix = ''layer 3 refuses to apply resource type(s) ''"

definition looksLikeNewProblem :: "string \<Rightarrow> bool" where
  "looksLikeNewProblem segment =
     (case str_index segment '': '' of
        None \<Rightarrow> False
      | Some n \<Rightarrow> n > 0 \<and> has_suffix (take n segment) ''.tf'' \<and> \<not> contains (take n segment) '' '')"

definition cut_stderr :: "string \<Rightarrow> string" where
  "cut_stderr rest =
     (case str_index rest '' | stderr:'' of
        None \<Rightarrow> rest
      | Some n \<Rightarrow> if n > 0 then trim_space (take n rest) else rest)"

text \<open>
  Where the first problem ends: the first semicolon followed by a new one. \<open>offset\<close> is how far
  the loop has looked.
\<close>

function cut_problem :: "string \<Rightarrow> nat \<Rightarrow> string" where
  "cut_problem rest offset =
     (case str_index (drop offset rest) ''; '' of
        None \<Rightarrow> rest
      | Some n \<Rightarrow>
          if looksLikeNewProblem (drop (offset + n + 2) rest) then take (offset + n) rest
          else cut_problem rest (offset + n + 2))"
  by pat_completeness auto
termination
  by (relation "measure (\<lambda>(rest, offset). length rest - offset)")
     (auto dest!: str_index_Some)

declare cut_problem.simps [simp del]

definition strip_file :: "string \<Rightarrow> string" where
  "strip_file rest =
     (case str_index rest ''.tf: '' of
        None \<Rightarrow> rest
      | Some n \<Rightarrow> if n > 0 \<and> \<not> contains (take n rest) '' '' then trim_space (drop (n + 5) rest) else rest)"

text \<open>
  The refusal in a failure detail, empty when there is none. \<open>None\<close> is the run-time panic of the
  allowlist arm: it slices the trimmed text at the length of its prefix, whose last byte is a space
  the trim may have removed.
\<close>

definition gateRefusalMessage :: "string \<Rightarrow> string option" where
  "gateRefusalMessage detail =
     (case str_index detail Layer3GatePrefix of
        Some n \<Rightarrow>
          Some (strip_file (cut_problem (cut_stderr (trim_space (drop (n + length Layer3GatePrefix) detail))) 0))
      | None \<Rightarrow>
          (case str_index detail Layer3AllowlistPrefix of
             None \<Rightarrow> Some []
           | Some n \<Rightarrow>
               let rest = cut_stderr (trim_space (drop n detail)) in
               if length rest < length Layer3AllowlistPrefix then None
               else let names = drop (length Layer3AllowlistPrefix) rest in
                 (case str_index names '':'' of
                    None \<Rightarrow> Some rest
                  | Some k \<Rightarrow> if contains (take k names) '','' then Some [] else Some rest)))"

subsection \<open>The router\<close>

datatype route = RouteLearn | RouteMockGap | RouteSkip

definition learnableSandboxStages :: "string list" where
  "learnableSandboxStages = [''allowlist'', ''init'', ''plan'', ''apply'', ''destroy'', ''real_probe'']"

definition RouteFailure :: "string \<Rightarrow> string \<Rightarrow> string \<Rightarrow> bool \<Rightarrow> (route \<times> string) option" where
  "RouteFailure layer st detail layer3 =
     (case gateRefusalMessage detail of
        None \<Rightarrow> None
      | Some refusal \<Rightarrow> Some (
          if refusal \<noteq> [] then (RouteLearn, [])
          else if IsMockLayer layer \<or> layer = [] \<and> \<not> layer3
          then (if IsMockServerBug detail then (RouteMockGap, []) else (RouteLearn, []))
          else if layer = SandboxDeployLayer \<and> st \<notin> set learnableSandboxStages
          then (RouteSkip, ''stage '' @ quote st @ '' is setup, not the HCL'')
          else let sig = firstSignal detail [mockOnly, weather] in
            if sig \<noteq> [] then (RouteSkip, ''signal '' @ quote sig @ '' teaches nothing outside the mock'')
            else (RouteLearn, [])))"

definition LearnedLayer :: "string \<Rightarrow> string \<Rightarrow> bool \<Rightarrow> string" where
  "LearnedLayer origin layer layer3 =
     (if origin \<noteq> [] then origin else if \<not> layer3 then [] else layer)"

record learned_pitfall =
  lp_resource :: string
  lp_rule :: string
  lp_source :: string
  lp_from :: string
  lp_layer :: string

definition learned :: "string \<Rightarrow> string \<Rightarrow> string \<Rightarrow> learned_pitfall" where
  "learned resource rule scenario =
     \<lparr>lp_resource = resource, lp_rule = rule, lp_source = [], lp_from = scenario, lp_layer = []\<rparr>"

text \<open>An entry as the ratchet reads it: its rule as an apply failure at its layer.\<close>

definition RouteEntry :: "string \<Rightarrow> string \<Rightarrow> route option" where
  "RouteEntry layer rule = map_option fst (RouteFailure layer ''apply'' rule (layer \<noteq> []))"
subsection \<open>Patterns of a diagnostic\<close>

definition ident_char :: "char \<Rightarrow> bool" where
  "ident_char c \<longleftrightarrow> char_between CHR ''A'' CHR ''Z'' c \<or> char_between CHR ''a'' CHR ''z'' c
     \<or> is_digit c \<or> c = CHR ''_''"

definition quoted_ident :: "regex list" where
  "quoted_ident = [lit_char CHR 0x22, Grp 1 (some_re (Chr ident_char)), lit_char CHR 0x22]"

definition resourceNameRe :: regex where
  "resourceNameRe = Grp 1 (seqs [alts (text_re ''scaleway'') [text_re ''google'', text_re ''aws'',
     text_re ''genesyscloud''], lit_char CHR ''_'', some_re word_re])"

definition line_char :: regex where
  "line_char = Chr (\<lambda>c. c \<noteq> CHR 0x0A)"

definition unsupportedArgRe :: regex where
  "unsupportedArgRe = seqs [text_re ''Unsupported argument'', many line_char, lit_char CHR 0x22,
     Grp 1 (some_re word_re), lit_char CHR 0x22]"

definition unsupportedAttrNameRe :: regex where
  "unsupportedAttrNameRe = seqs ([fold_re ''attribute'', some_re space_re, fold_re ''named'',
     some_re space_re] @ quoted_ident)"

definition namedArgumentRe :: regex where
  "namedArgumentRe = seqs ([fold_re ''argument'', some_re space_re, fold_re ''named'',
     some_re space_re] @ quoted_ident)"

definition inResourceTypeRe :: regex where
  "inResourceTypeRe = seqs [text_re ''in'', some_re space_re, text_re ''resource'', some_re space_re,
     lit_char CHR 0x22,
     Grp 1 (Seq (Chr (char_between CHR ''a'' CHR ''z''))
       (many (Chr (\<lambda>c. char_between CHR ''a'' CHR ''z'' c \<or> is_digit c \<or> c = CHR ''_'')))),
     lit_char CHR 0x22]"

definition didYouMeanRe :: regex where
  "didYouMeanRe = seqs ([fold_re ''Did you mean ''] @ quoted_ident @ [opt_re (lit_char CHR ''?'')])"

definition atLeastOneOfRe :: regex where
  "atLeastOneOfRe = seqs [text_re ''at least one of'', some_re space_re,
     Grp 1 (Seq line_char (Star False line_char)),
     alts (Seq (some_re space_re) (text_re ''must''))
       [Seq (some_re space_re) (text_re ''should''), Seq (many space_re) (lit_char CHR ''('')]]"

definition cleaned_detail :: "string \<Rightarrow> string" where
  "cleaned_detail detail = replace_all boxDrawingRe (\<lambda>_. '' '') detail"

definition submatch :: "regex \<Rightarrow> string \<Rightarrow> nat \<Rightarrow> string option" where
  "submatch re s i = map_option (\<lambda>(_, m). group_of m i) (find_first re s)"

definition extractResource :: "string \<Rightarrow> string" where
  "extractResource t = (case find_first resourceNameRe t of None \<Rightarrow> [] | Some (hit, _) \<Rightarrow> hit)"

definition resourceOwningAttribute :: "string \<Rightarrow> string \<Rightarrow> string" where
  "resourceOwningAttribute detail nm =
     (case submatch (seqs [Word_Boundary,
          Grp 1 (seqs [alts (text_re ''scaleway'') [text_re ''google'', text_re ''aws''],
            lit_char CHR ''_'', some_re word_re]),
          many (Chr (\<lambda>c. word_char c \<or> c \<in> set ''.[]*'')),
          lit_char CHR ''.'', text_re nm, Word_Boundary]) detail 1 of
        None \<Rightarrow> [] | Some r \<Rightarrow> r)"

subsection \<open>Rules for known shapes of error\<close>

definition named :: "string \<Rightarrow> (string \<Rightarrow> string) \<Rightarrow> string \<Rightarrow> learned_pitfall option" where
  "named resource rule scenario =
     (if resource = [] then None else Some (learned resource (rule resource) scenario))"

definition mentions :: "string \<Rightarrow> string list \<Rightarrow> bool" where
  "mentions lower xs = list_ex (contains lower) xs"

definition matchMissingSubnetwork :: "string \<Rightarrow> string \<Rightarrow> learned_pitfall option" where
  "matchMissingSubnetwork detail scenario =
     (let lower = to_lower detail in
      if \<not> mentions lower [''subnetwork'', ''network_interface''] then None
      else if \<not> mentions lower [''no network'', ''must be attached'', ''must reference''] then None
      else named (extractResource detail) (\<lambda>resource.
     ''Always declare a `google_compute_network` AND at least one `google_compute_subnetwork` in the scenario''
     @ squote
     @ ''s region. Then on `google_compute_instance` set `network_interface { subnetwork = google_compute_subnetwork.NAME.id }`. On `google_container_cluster` set BOTH `network = google_compute_network.NAME.id` AND `subnetwork = google_compute_subnetwork.NAME.id`. Do NOT use the `default` VPC ''
     @ em_dash @ '' it is often disabled by org policy.'') scenario)"

definition matchMissingEncryption :: "string \<Rightarrow> string \<Rightarrow> learned_pitfall option" where
  "matchMissingEncryption detail scenario = None"

definition matchNotImplemented :: "string \<Rightarrow> string \<Rightarrow> learned_pitfall option" where
  "matchNotImplemented detail scenario =
     (if \<not> mentions (to_lower detail) [''501'', ''not implemented''] then None
      else named (extractResource detail) (\<lambda>resource.
     ''`'' @ resource
     @ ''` is not implemented by the matching mock server. Do NOT use this resource type '' @ em_dash
     @ '' pick an alternative that the mock supports. Check the mock'' @ squote
     @ ''s regression_manifest.go for the LandedServices list.'') scenario)"

definition matchOAuthEscape :: "string \<Rightarrow> string \<Rightarrow> learned_pitfall option" where
  "matchOAuthEscape detail scenario =
     (let lower = to_lower detail in
      if \<not> contains lower ''401'' then None
      else if \<not> mentions lower [''oauth'', ''authentication credentials'', ''invalid_grant''] then None
      else named (extractResource detail) (\<lambda>resource.
     ''`'' @ resource
     @ ''` is escaping to the REAL cloud API (401 OAuth/auth error). The provider block in `providers.tf` is missing a `*_custom_endpoint` override for this resource''
     @ squote @ ''s service. Either add the matching custom_endpoint OR remove `'' @ resource
     @ ''` from this scenario (the mock doesn'' @ squote @ ''t intercept it).'') scenario)"

definition matchScalewayMissingPrivateNic :: "string \<Rightarrow> string \<Rightarrow> learned_pitfall option" where
  "matchScalewayMissingPrivateNic detail scenario =
     (let lower = to_lower detail; found = extractResource detail in
      if \<not> contains lower ''scaleway_instance_private_nic'' then None
      else if \<not> mentions lower [''not attached'', ''must be attached''] then None
      else named (if found = [] then ''scaleway_instance_server'' else found) (\<lambda>resource.
     ''Attach every `scaleway_instance_server` to a private network with the provider'' @ squote
     @ ''s INLINE block: `private_network { pn_id = scaleway_vpc_private_network.NAME.id }`. Declare the `scaleway_vpc_private_network` too. Do NOT use a standalone `scaleway_instance_private_nic`: the Layer 3 gate refuses it. With `count` on the server the block comes with it. Do not set `project_id`, and do not use `routed_ip_enabled`, which the provider does not accept.'') scenario)"

definition matchUnsupportedAttribute :: "string \<Rightarrow> string \<Rightarrow> learned_pitfall option" where
  "matchUnsupportedAttribute detail scenario =
     (if \<not> mentions (to_lower detail) [''unsupported attribute'', ''exported attribute named''] then None
      else (case submatch unsupportedAttrNameRe (cleaned_detail detail) 1 of
          None \<Rightarrow> None
        | Some nm \<Rightarrow>
            let owner = resourceOwningAttribute detail nm;
                suggestion = (case submatch didYouMeanRe detail 1 of None \<Rightarrow> [] | Some t \<Rightarrow> t)
            in named (if owner = [] then extractResource detail else owner) (\<lambda>resource.
              if suggestion \<noteq> [] then
     ''`'' @ resource @ ''` has no attribute `'' @ nm @ ''` '' @ em_dash @ '' use `'' @ suggestion
     @ ''` instead. The provider error suggested this directly: `Did you mean '' @ dquote
     @ suggestion @ dquote
     @ ''?`. Update every reference (`server_ips`, outputs, depends_on, etc.) to the suggested attribute name.''
              else
     ''`'' @ resource @ ''` has no attribute named `'' @ nm
     @ ''`. Check the provider docs for the exact exported-attribute name (plural vs singular is the most common trap: `private_ips`, `public_ips`, `network_interfaces`). Do NOT keep retrying with the same name.'') scenario))"

definition matchUnsupportedArgument :: "string \<Rightarrow> string \<Rightarrow> learned_pitfall option" where
  "matchUnsupportedArgument detail scenario =
     (if \<not> mentions (to_lower detail) [''unsupported argument'', ''is not expected here''] then None
      else (case submatch namedArgumentRe (cleaned_detail detail) 1 of
          None \<Rightarrow> None
        | Some nm \<Rightarrow>
            named (case submatch inResourceTypeRe (cleaned_detail detail) 1 of
                None \<Rightarrow> extractResource detail | Some t \<Rightarrow> t) (\<lambda>resource.
     ''`'' @ resource @ ''` does NOT accept the argument `'' @ nm @ ''` '' @ em_dash
     @ '' the provider rejects it with '' @ dquote @ ''An argument named '' @ dquote @ nm @ dquote
     @ '' is not expected here.'' @ dquote @ '' Remove the `'' @ nm @ '' = ...` line from every `''
     @ resource
     @ ''` block; do NOT reintroduce it across iterations. Check the provider docs for the canonical argument set (common traps: deprecated/renamed args, v1''
     @ right_arrow @ ''v2 service rewrites where the old arg moved or disappeared).'') scenario))"

definition matchDestroyBlockers :: "string \<Rightarrow> string \<Rightarrow> learned_pitfall option" where
  "matchDestroyBlockers detail scenario =
     (let lower = to_lower detail in
      if contains lower ''deletion_protection'' \<and> mentions lower [''enabled'', ''true'']
      then named (extractResource detail) (\<lambda>resource.
     ''`'' @ resource
     @ ''` defaults `deletion_protection = true`. For test scenarios, explicitly set `deletion_protection = false` so `tofu destroy` can tear the resource down.'') scenario
      else if contains lower ''bucketnotempty'' \<or> contains lower ''force_destroy'' \<and> contains lower ''bucket''
      then named (extractResource detail) (\<lambda>resource.
     ''`'' @ resource
     @ ''` must set `force_destroy = true` for test scenarios. The provider default is `false`, which makes destroy fail with BucketNotEmpty when objects/keys remain.'') scenario
      else if contains lower ''skip_final_snapshot''
        \<or> contains lower ''final snapshot'' \<and> contains lower ''must be specified''
      then named (extractResource detail) (\<lambda>resource.
     ''`'' @ resource
     @ ''` requires `skip_final_snapshot = true` (test) or an explicit `final_snapshot_identifier`. Default behavior blocks destroy with ''
     @ squote @ ''final snapshot must be specified'' @ squote @ ''.'') scenario
      else None)"

subsection \<open>The extractors\<close>

definition maxDescriptiveRuleBytes :: nat where "maxDescriptiveRuleBytes = 300"
definition maxGapDetailBytes :: nat where "maxGapDetailBytes = 240"
definition ellipsis :: string where "ellipsis = ''...''"

definition ellipsize :: "string list \<Rightarrow> string \<Rightarrow> nat \<Rightarrow> string" where
  "ellipsize known s n =
     (if length s \<le> n then s else CutText known s (n - length ellipsis) @ ellipsis)"

definition password_shape :: "string \<Rightarrow> bool" where
  "password_shape lower \<longleftrightarrow> contains lower ''password does not respect constraint''
     \<or> contains lower ''password'' \<and> contains lower ''complexity''"

definition version_shape :: "string \<Rightarrow> bool" where
  "version_shape lower \<longleftrightarrow> contains lower ''minor version'' \<and> contains lower ''auto upgrade''
     \<or> contains lower ''auto_upgrade'' \<and> contains lower ''version''"

text \<open>The first answer of the matchers, in order.\<close>

fun first_answer :: "'a option list \<Rightarrow> 'a option" where
  "first_answer [] = None"
| "first_answer (Some x # xs) = Some x"
| "first_answer (None # xs) = first_answer xs"

definition ExtractDescriptivePitfall :: "string list \<Rightarrow> string \<Rightarrow> string \<Rightarrow> learned_pitfall option" where
  "ExtractDescriptivePitfall known detail scenario =
     (let lower = to_lower detail; found = extractResource detail in
      if detail = [] then None
      else if password_shape lower then named found (\<lambda>_.
     ''The password must meet the provider'' @ squote
     @ ''s complexity requirements (minimum length, uppercase, lowercase, digit, and special character).'') scenario
      else if version_shape lower then named found (\<lambda>_.
     ''Version and auto_upgrade MUST be consistent: WITHOUT auto_upgrade use a full patch version like ''
     @ dquote @ ''1.31.2'' @ dquote @ ''; WITH auto_upgrade enabled use ONLY a minor version like ''
     @ dquote @ ''1.31'' @ dquote @ ''.'') scenario
      else first_answer [
        (case submatch unsupportedArgRe (cleaned_detail detail) 1 of
           None \<Rightarrow> None
         | Some nm \<Rightarrow> named found (\<lambda>_. ''The argument '' @ quote nm @ '' is not supported. Do not use it.'') scenario),
        (case submatch atLeastOneOfRe (cleaned_detail detail) 1 of
           None \<Rightarrow> None
         | Some c \<Rightarrow> named found (\<lambda>_. ''At least one of '' @ trim_space c @ '' must be set.'') scenario),
        matchMissingSubnetwork detail scenario,
        matchMissingEncryption detail scenario,
        matchNotImplemented detail scenario,
        matchOAuthEscape detail scenario,
        matchDestroyBlockers detail scenario,
        matchUnsupportedAttribute detail scenario,
        matchScalewayMissingPrivateNic detail scenario,
        matchUnsupportedArgument detail scenario,
        (if length detail > 40
         then named found (\<lambda>_. ellipsize known detail maxDescriptiveRuleBytes) scenario else None)])"

definition ExtractGatePitfall :: "string \<Rightarrow> string \<Rightarrow> learned_pitfall option option" where
  "ExtractGatePitfall detail scenario =
     map_option (\<lambda>rule. if rule = [] \<or> extractResource rule = [] then None
       else Some ((learned (extractResource rule) rule scenario)\<lparr>lp_source := ''fix''\<rparr>))
       (gateRefusalMessage detail)"

text \<open>Refusals first, then provider errors; the run's learners ask in this order.\<close>

definition extract_lesson :: "string list \<Rightarrow> string \<Rightarrow> string \<Rightarrow> learned_pitfall option option" where
  "extract_lesson known detail scenario =
     map_option (\<lambda>g. case g of Some p \<Rightarrow> Some p | None \<Rightarrow> ExtractDescriptivePitfall known detail scenario)
       (ExtractGatePitfall detail scenario)"
subsection \<open>The register of gaps\<close>

record mock_gap =
  mg_cloud :: string
  mg_signal :: string
  mg_resource :: string
  mg_scenario :: string
  mg_detail :: string
  mg_timestamp :: string

text \<open>What a call does to the file: refuses, leaves it, or writes it.\<close>

datatype gap_write = Gap_Refused string | Gap_Unchanged | Gap_Written string

definition nl :: string where "nl = [CHR 0x0A]"

definition gap_cell :: "string list \<Rightarrow> string \<Rightarrow> string" where
  "gap_cell known detail =
     concat (map (\<lambda>c. if c = CHR 0x0A then '' '' else if c = CHR ''|'' then [CHR 0x5C, CHR ''|''] else [c])
       (ellipsize known (trim_space detail) maxGapDetailBytes))"

text \<open>A row goes to the end of its section: before the next heading, or to the end of the text.\<close>

definition insert_row :: "string \<Rightarrow> string \<Rightarrow> string \<Rightarrow> string \<Rightarrow> string" where
  "insert_row content heading table row =
     (let c = (if contains content heading then content else content @ heading @ table);
          start = (case str_index c heading of None \<Rightarrow> 0 | Some n \<Rightarrow> n) + length heading
      in case str_index (drop start c) ''## '' of
           None \<Rightarrow> c @ row
         | Some k \<Rightarrow> take (start + k) c @ row @ nl @ drop (start + k) c)"

definition mock_gap_header :: string where
  "mock_gap_header = ''# Mock-server gaps'' @ nl @ nl
     @ ''This file collects failures the auto-learning pipeline detects'' @ nl
     @ ''as mock-server bugs (missing routes, wrong response shapes,'' @ nl
     @ ''auth escape, stale state) rather than LLM-generated HCL'' @ nl
     @ ''mistakes. They belong against the matching mock repo'' @ nl
     @ ''(`fakeaws`, `fakegcp`, `mockway`), NOT in `pitfalls/<cloud>.yaml`.'' @ nl @ nl
     @ ''Entries dedup on (cloud, signal, resource). See'' @ nl
     @ ''`internal/generator/pitfalls_learn.go::IsMockServerBug` for'' @ nl
     @ ''the detection signals.'' @ nl @ nl"

definition append_row :: "string list \<Rightarrow> string \<Rightarrow> string option \<Rightarrow> string \<Rightarrow> string \<Rightarrow> string \<Rightarrow> string \<Rightarrow> gap_write" where
  "append_row known header existing key cloud table row =
     (let old = (case existing of None \<Rightarrow> [] | Some c \<Rightarrow> c);
          content = ScrubAccountIDs known old
      in if contains content (ScrubAccountIDs known key)
         then (if content \<noteq> old then Gap_Written content else Gap_Unchanged)
         else Gap_Written (ScrubAccountIDs known
           (insert_row (if content = [] then header else content) (''## '' @ cloud @ nl @ nl) table row)))"

definition AppendMockGap :: "string list \<Rightarrow> string \<Rightarrow> string option \<Rightarrow> mock_gap \<Rightarrow> gap_write" where
  "AppendMockGap known docsDir existing gap =
     (if docsDir = [] then Gap_Refused ''docs dir is required''
      else if mg_cloud gap = [] \<or> mg_signal gap = [] then Gap_Refused ''cloud and signal are required''
      else let cell = (if mg_resource gap = [] then ''_(none)_'' else mg_resource gap);
               key = ''| '' @ cell @ '' | `'' @ mg_signal gap @ ''` |''
        in append_row known mock_gap_header existing key (mg_cloud gap)
             (''| Resource | Signal | Scenario | Detail | First seen |'' @ nl @ ''|---|---|---|---|---|'' @ nl)
             (key @ '' '' @ mg_scenario gap @ '' | '' @ gap_cell known (mg_detail gap) @ '' | ''
               @ mg_timestamp gap @ '' |'' @ nl))"

subsection \<open>What a rule is made of\<close>

lemma sublist_trim_space: "sublist (trim_space s) s"
proof -
  have l: "suffix (trim_left t) t" for t by (simp add: trim_left_def suffix_trim_with)
  have "prefix (trim_right t) t" for t
    using suffix_trim_with [of rev_space_len "rev t"] by (simp add: trim_right_def suffix_to_prefix)
  with l show ?thesis unfolding trim_space_def
    by (metis prefix_imp_sublist suffix_imp_sublist sublist_order.order_trans)
qed

lemma sublist_cut_stderr: "sublist (cut_stderr s) s"
  unfolding cut_stderr_def
  by (auto split: option.splits intro: sublist_order.order_trans [OF sublist_trim_space] sublist_take)

lemma sublist_cut_problem: "sublist (cut_problem s n) s"
proof (induction s n rule: cut_problem.induct)
  case (1 s n)
  show ?case
  proof (cases "str_index (drop n s) ''; ''")
    case None
    then show ?thesis by (simp add: cut_problem.simps [of s n])
  next
    case (Some k)
    with 1 show ?thesis
      by (cases "looksLikeNewProblem (drop (n + k + 2) s)") (auto simp: cut_problem.simps [of s n] sublist_take)
  qed
qed

lemma sublist_strip_file: "sublist (strip_file s) s"
  unfolding strip_file_def
  by (auto split: option.splits intro: sublist_order.order_trans [OF sublist_trim_space] sublist_drop)

lemma sublist_problem: "sublist (strip_file (cut_problem (cut_stderr (trim_space (drop n s))) 0)) s"
  by (meson sublist_strip_file sublist_cut_problem sublist_cut_stderr sublist_trim_space sublist_drop
      sublist_order.order_trans)

lemma sublist_allowlist: "sublist (cut_stderr (trim_space (drop n s))) s"
  by (meson sublist_cut_stderr sublist_trim_space sublist_drop sublist_order.order_trans)

lemma named_Some: "named r f sc = Some p \<Longrightarrow> r \<noteq> [] \<and> p = learned r (f r) sc"
  by (auto simp: named_def split: if_splits)

lemma first_answer_Some: "first_answer xs = Some x \<Longrightarrow> Some x \<in> set xs"
  by (induction xs rule: first_answer.induct) auto

subsection \<open>Properties\<close>

text \<open>
  A rule learned from a gate's refusal is the gate's own words: the message is a part of the
  failure's detail, byte for byte.
\<close>

theorem gateRefusalMessage_verbatim:
  assumes "gateRefusalMessage detail = Some rule"
  shows "\<exists>before after. detail = before @ rule @ after"
proof -
  have "sublist rule detail"
    using assms sublist_problem sublist_allowlist unfolding gateRefusalMessage_def Let_def
    by (auto split: option.splits if_splits)
  then show ?thesis by (simp add: sublist_def)
qed

definition sample_refusal :: string where
  "sample_refusal = ''exit 1: layer 3 refuses this configuration: main.tf: use DEV1-S; b.tf: no''"

theorem gateRefusalMessage_verbatim_witness:
  "gateRefusalMessage sample_refusal = Some ''use DEV1-S''
     \<and> (\<exists>before after. sample_refusal = before @ ''use DEV1-S'' @ after)"
proof -
  have "gateRefusalMessage sample_refusal = Some ''use DEV1-S''" by code_simp
  with gateRefusalMessage_verbatim [OF this] show ?thesis by blast
qed

text \<open>
  The ratchet that reads a learned entry back takes it as the router took the failure: the
  layer stamped on the entry leads to the same route, for every failure of a stage the router may
  learn from, unless a run with Layer 3 on built the failure itself under no layer or a mock's.
\<close>

theorem RouteEntry_agrees:
  assumes "RouteFailure origin st detail layer3 = Some (r, why)"
    and "origin = SandboxDeployLayer \<Longrightarrow> st \<in> set learnableSandboxStages"
    and "origin = [] \<Longrightarrow> layer3 \<Longrightarrow> layer \<noteq> [] \<and> \<not> IsMockLayer layer"
  shows "RouteEntry (LearnedLayer origin layer layer3) detail = Some r"
proof -
  have ap: "''apply'' \<in> set learnableSandboxStages" by (simp add: learnableSandboxStages_def)
  have em: "\<not> IsMockLayer []" by (simp add: IsMockLayer_def MockDeployLayer_def)
  have es: "[] \<noteq> SandboxDeployLayer" by (simp add: SandboxDeployLayer_def)
  show ?thesis
    using assms ap em es
    by (cases "origin = []"; cases layer3)
       (auto simp: RouteEntry_def RouteFailure_def LearnedLayer_def Let_def split: option.splits if_splits)
qed

theorem RouteEntry_agrees_witness:
  "RouteEntry ''mock_deploy'' ''x: 501 not implemented'' = Some RouteMockGap"
proof -
  have "RouteFailure ''mock_deploy'' ''apply'' ''x: 501 not implemented'' False = Some (RouteMockGap, [])"
    by code_simp
  from RouteEntry_agrees [OF this, of "''run''"] show ?thesis
    by (simp add: LearnedLayer_def SandboxDeployLayer_def)
qed

text \<open>
  Where Go panics: a detail that ends with the allowlist's prefix. And a gap recorded for one cloud
  hides the same signal and resource of every other: the key does not name the cloud.
\<close>

lemma allowlist_panics: "gateRefusalMessage Layer3AllowlistPrefix = None"
  by code_simp

lemma recorded_gap_hides_other_clouds:
  "AppendMockGap known docs (Some c) g = Gap_Unchanged \<Longrightarrow> k \<noteq> [] \<Longrightarrow>
   AppendMockGap known docs (Some c) (g\<lparr>mg_cloud := k\<rparr>) = Gap_Unchanged"
  by (auto simp: AppendMockGap_def append_row_def Let_def split: if_splits)

subsection \<open>A lesson names a resource\<close>

definition filed :: "learned_pitfall option \<Rightarrow> bool" where
  "filed po = (case po of None \<Rightarrow> True | Some p \<Rightarrow> lp_resource p \<noteq> [])"

lemma filed_None [simp]: "filed None"
  by (simp add: filed_def)

lemma filed_named [simp]: "filed (named r f sc)"
  by (simp add: filed_def named_def learned_def)

lemma filed_first: "list_all filed xs \<Longrightarrow> filed (first_answer xs)"
  by (induction xs rule: first_answer.induct) auto

lemma filed_matchers:
  "filed (matchMissingSubnetwork d sc)" "filed (matchMissingEncryption d sc)"
  "filed (matchNotImplemented d sc)" "filed (matchOAuthEscape d sc)"
  "filed (matchDestroyBlockers d sc)" "filed (matchScalewayMissingPrivateNic d sc)"
  unfolding matchMissingSubnetwork_def matchMissingEncryption_def matchNotImplemented_def
    matchOAuthEscape_def matchDestroyBlockers_def matchScalewayMissingPrivateNic_def Let_def
  by (simp_all only: filed_named filed_None split: if_split) simp_all

lemma filed_unsupported:
  "filed (matchUnsupportedAttribute d sc)" "filed (matchUnsupportedArgument d sc)"
  unfolding matchUnsupportedAttribute_def matchUnsupportedArgument_def Let_def
  by (cases "submatch unsupportedAttrNameRe (cleaned_detail d) 1";
      cases "submatch namedArgumentRe (cleaned_detail d) 1"; simp only: option.case if_cancel filed_named filed_None
      split: if_split; simp)+

lemma filed_descriptive: "filed (ExtractDescriptivePitfall known d sc)"
proof -
  have o: "filed (case x of None \<Rightarrow> None | Some t \<Rightarrow> named r (f t) sc')" for x :: "string option" and r f sc'
    by (cases x) simp_all
  show ?thesis unfolding ExtractDescriptivePitfall_def Let_def
    by (simp only: if_True filed_named filed_None split: if_split)
       (auto intro!: filed_first simp: o filed_matchers filed_unsupported)
qed

lemma extract_lesson_names_resource:
  assumes "extract_lesson known detail scenario = Some (Some p)"
  shows "lp_resource p \<noteq> []"
  using assms filed_descriptive [of known detail scenario]
  by (auto simp: extract_lesson_def ExtractGatePitfall_def learned_def filed_def split: option.splits if_splits)

end
