(* ===== verification/Orphans.thy ===== *)
theory Orphans
  imports Learning Json
begin

text \<open>
  What a destroy left behind: \<^verbatim>\<open>internal/generator/orphan_classify.go\<close>. The post-destroy gate counts
  what \<open>Orphans\<close> returns, and \<open>ClassifyOrphans\<close> routes it to a pitfall, to the register of mock
  gaps, or to a person.
\<close>

datatype orphan_subshape =
    SubshapeUnknown | SubshapeLLMSoftDelete | SubshapeMockAutoSeed | SubshapeMockCascade
  | SubshapeMockProviderDivergence | SubshapeProviderSoftDelete

record orphan_subshape_entry =
  os_cloud :: string
  os_service :: string
  os_collection :: string
  os_subshape :: orphan_subshape
  os_rule :: string
  os_signal :: string
  os_resource :: string

definition orphanSubshapeTable :: "orphan_subshape_entry list" where
  "orphanSubshapeTable =
     [\<lparr>os_cloud = ''aws'', os_service = ''secretsmanager'', os_collection = ''secrets'', os_subshape = SubshapeLLMSoftDelete,
        os_rule = ''`aws_secretsmanager_secret` has soft-delete semantics '' @ em_dash @ '' AWS schedules deletion with a recovery window (default 30 days). For hermetic test scenarios, set `recovery_window_in_days = 0` on every `aws_secretsmanager_secret` so destroy fully removes the row from mock state (otherwise the orphan_check post-destroy gate fails). Real-cloud scenarios may choose a longer window per their recovery policy.'',
        os_signal = [],
        os_resource = ''aws_secretsmanager_secret''\<rparr>,
      \<lparr>os_cloud = ''aws'', os_service = ''iam'', os_collection = ''policies'', os_subshape = SubshapeMockAutoSeed,
        os_rule = [],
        os_signal = ''fakeaws auto-seeded managed-policy ARN leaked into /mock/state '' @ em_dash @ '' filter regression?'',
        os_resource = ''aws_iam_policy''\<rparr>,
      \<lparr>os_cloud = ''aws'', os_service = ''ec2'', os_collection = ''subnets'', os_subshape = SubshapeMockProviderDivergence,
        os_rule = [],
        os_signal = ''fakeaws subnet MapPublicIpOnLaunch attribute doesn'' @ squote @ ''t persist (T8); provider wait-loop times out and the row lingers after destroy'',
        os_resource = ''aws_subnet''\<rparr>,
      \<lparr>os_cloud = ''aws'', os_service = ''kms'', os_collection = ''keys'', os_subshape = SubshapeMockProviderDivergence,
        os_rule = [],
        os_signal = ''fakeaws KMS key not PendingDeletion after destroy: destroy never scheduled its deletion, so tofu state had lost the key fakeaws created '' @ em_dash @ '' a read the provider makes after CreateKey disagrees with fakeaws'',
        os_resource = ''aws_kms_key''\<rparr>,
      \<lparr>os_cloud = ''gcp'', os_service = ''secretmanager'', os_collection = ''secrets'', os_subshape = SubshapeLLMSoftDelete,
        os_rule = ''`google_secret_manager_secret` may have soft-delete semantics depending on the provider version (deletion_protection, version_destroy_ttl). For hermetic test scenarios, set whichever argument the provider exposes to disable scheduled deletion so destroy fully removes the row (check the provider docs for the canonical name). The orphan_check post-destroy gate flags PendingDeletion rows.'',
        os_signal = [],
        os_resource = ''google_secret_manager_secret''\<rparr>,
      \<lparr>os_cloud = ''gcp'', os_service = ''kms'', os_collection = ''crypto_keys'', os_subshape = SubshapeProviderSoftDelete,
        os_rule = [],
        os_signal = ''google_kms_crypto_key destroy schedules deletion (no force flag) '' @ em_dash @ '' fakegcp should hard-delete on its side to match the '' @ squote @ ''infra fully gone'' @ squote @ '' semantic the orphan_check gate expects'',
        os_resource = ''google_kms_crypto_key''\<rparr>]"

definition ignoredOrphanRoots :: "string list" where
  "ignoredOrphanRoots = [''metadata'', ''operations'', ''audit'', ''schema_version'']"

definition ignoredOrphanCollections :: "string list" where
  "ignoredOrphanCollections = [''events'', ''metrics'', ''messages'']"

definition mockwayDefaultProjectID :: string where
  "mockwayDefaultProjectID = ''00000000-0000-0000-0000-000000000000''"

definition autoCreatedVPCName :: string where
  "autoCreatedVPCName = ''default''"

definition kmsPendingDeletion :: string where
  "kmsPendingDeletion = ''PendingDeletion''"

definition leftByCleanDestroy :: "string \<Rightarrow> string \<Rightarrow> members \<Rightarrow> bool" where
  "leftByCleanDestroy root collection item =
     (if root = ''account'' \<and> collection = ''projects'' then as_str (jget item ''id'') = mockwayDefaultProjectID
      else if root = ''vpc'' \<and> collection = ''vpcs'' then as_str (jget item ''name'') = autoCreatedVPCName
      else if root = ''kms'' \<and> collection = ''keys'' then as_str (jget item ''state'') = kmsPendingDeletion
      else False)"

record orphan_collection =
  oc_service :: string
  oc_collection :: string
  oc_indexes :: "nat list"

text \<open>The keys of a Go map in order, each once.\<close>

definition sorted_keys :: "members \<Rightarrow> string list" where
  "sorted_keys m = sort (remdups (map fst m))"

definition orphan_row :: "string \<Rightarrow> string \<Rightarrow> json \<Rightarrow> bool" where
  "orphan_row service collection item =
     (case item of JObj m \<Rightarrow> \<not> leftByCleanDestroy service collection m | _ \<Rightarrow> True)"

definition orphan_indexes :: "string \<Rightarrow> string \<Rightarrow> json list \<Rightarrow> nat list" where
  "orphan_indexes service collection items =
     filter (\<lambda>i. orphan_row service collection (items ! i)) [0..<length items]"

definition collection_orphans :: "string \<Rightarrow> members \<Rightarrow> string \<Rightarrow> orphan_collection list" where
  "collection_orphans service collections collection =
     (case as_arr (jget collections collection) of
        None \<Rightarrow> []
      | Some items \<Rightarrow>
          if collection \<in> set ignoredOrphanCollections then []
          else let is = orphan_indexes service collection items in
            if is = [] then []
            else [\<lparr>oc_service = service, oc_collection = collection, oc_indexes = is\<rparr>])"

definition service_orphans :: "members \<Rightarrow> string \<Rightarrow> orphan_collection list" where
  "service_orphans state service =
     (case as_obj (jget state service) of
        None \<Rightarrow> []
      | Some collections \<Rightarrow>
          if service \<in> set ignoredOrphanRoots then []
          else concat (map (collection_orphans service collections) (sorted_keys collections)))"

definition Orphans :: "document \<Rightarrow> string + orphan_collection list" where
  "Orphans doc =
     (case doc of
        Some (JObj state) \<Rightarrow> Inr (concat (map (service_orphans state) (sorted_keys state)))
      | Some JNull \<Rightarrow> Inl ''decode state snapshot: not an object''
      | _ \<Rightarrow> Inl ''decode state snapshot'')"

subsection \<open>Routing\<close>

definition lookupOrphanSubshape :: "string \<Rightarrow> string \<Rightarrow> string \<Rightarrow> orphan_subshape_entry option" where
  "lookupOrphanSubshape cloud service collection =
     (case filter (\<lambda>e. os_cloud e = cloud \<and> os_service e = service \<and> os_collection e = collection)
          orphanSubshapeTable of
        [] \<Rightarrow> None | e # _ \<Rightarrow> Some e)"

record orphan_routing =
  or_pitfalls :: "learned_pitfall list"
  or_gaps :: "mock_gap list"
  or_unclassified :: "(string \<times> string \<times> nat) list"

definition route_orphan :: "string \<Rightarrow> string \<Rightarrow> string \<Rightarrow> orphan_routing \<Rightarrow> orphan_collection \<Rightarrow> orphan_routing" where
  "route_orphan cloud scenario timestamp r oc =
     (case lookupOrphanSubshape cloud (oc_service oc) (oc_collection oc) of
        None \<Rightarrow> r\<lparr>or_unclassified := or_unclassified r
          @ map (\<lambda>i. (oc_service oc, oc_collection oc, i)) (oc_indexes oc)\<rparr>
      | Some e \<Rightarrow>
          (case os_subshape e of
             SubshapeUnknown \<Rightarrow> r
           | SubshapeLLMSoftDelete \<Rightarrow>
               r\<lparr>or_pitfalls := or_pitfalls r @ [learned (os_resource e) (os_rule e) scenario]\<rparr>
           | _ \<Rightarrow> r\<lparr>or_gaps := or_gaps r @ [\<lparr>mg_cloud = cloud, mg_signal = os_signal e,
               mg_resource = os_resource e, mg_scenario = scenario,
               mg_detail = ''orphan_check: '' @ oc_service oc @ ''.'' @ oc_collection oc @ '' had ''
                 @ nat_digits (length (oc_indexes oc)) @ '' non-empty entries after destroy'',
               mg_timestamp = timestamp\<rparr>]\<rparr>))"

definition no_routing :: orphan_routing where
  "no_routing = \<lparr>or_pitfalls = [], or_gaps = [], or_unclassified = []\<rparr>"

definition ClassifyOrphans :: "document \<Rightarrow> string \<Rightarrow> string \<Rightarrow> string \<Rightarrow> orphan_routing" where
  "ClassifyOrphans doc cloud scenario timestamp =
     (if cloud = [] then no_routing
      else (case Orphans doc of
          Inl _ \<Rightarrow> no_routing
        | Inr ocs \<Rightarrow> foldl (route_orphan cloud scenario timestamp) no_routing ocs))"

subsection \<open>What the gate counts\<close>

text \<open>The rows of a state the gate looks at, with where they are.\<close>

definition counted_items :: "string \<Rightarrow> members \<Rightarrow> string \<Rightarrow> (string \<times> string \<times> json) list" where
  "counted_items service collections collection =
     (if collection \<in> set ignoredOrphanCollections then []
      else (case as_arr (jget collections collection) of
          None \<Rightarrow> [] | Some items \<Rightarrow> map (\<lambda>i. (service, collection, i)) items))"

definition counted_rows :: "members \<Rightarrow> (string \<times> string \<times> json) list" where
  "counted_rows state =
     concat (map (\<lambda>service. if service \<in> set ignoredOrphanRoots then []
       else (case as_obj (jget state service) of
           None \<Rightarrow> []
         | Some cs \<Rightarrow> concat (map (counted_items service cs) (sorted_keys cs)))) (sorted_keys state))"

definition explained :: "string \<times> string \<times> json \<Rightarrow> bool" where
  "explained row = (case row of (service, collection, item) \<Rightarrow>
     (case item of
        JObj m \<Rightarrow>
          (service, collection, as_str (jget m ''id'')) = (''account'', ''projects'', mockwayDefaultProjectID)
          \<or> (service, collection, as_str (jget m ''name'')) = (''vpc'', ''vpcs'', ''default'')
          \<or> (service, collection, as_str (jget m ''state'')) = (''kms'', ''keys'', ''PendingDeletion'')
      | _ \<Rightarrow> False))"

lemma explained_iff: "explained (s, c, item) \<longleftrightarrow> \<not> orphan_row s c item"
  by (auto simp: explained_def orphan_row_def leftByCleanDestroy_def autoCreatedVPCName_def kmsPendingDeletion_def
      split: json.splits)

lemma orphan_indexes_Nil: "orphan_indexes s c items = [] \<longleftrightarrow> list_all (\<lambda>i. \<not> orphan_row s c i) items"
  by (auto simp: orphan_indexes_def filter_empty_conv list_all_length)

lemma collection_orphans_Nil:
  "collection_orphans s cs c = [] \<longleftrightarrow> list_all explained (counted_items s cs c)"
  by (cases "as_arr (jget cs c)")
     (simp_all add: collection_orphans_def counted_items_def Let_def orphan_indexes_Nil list_all_iff explained_iff)

lemma service_orphans_Nil:
  "service_orphans state s = [] \<longleftrightarrow>
     list_all explained (if s \<in> set ignoredOrphanRoots then []
       else (case as_obj (jget state s) of
           None \<Rightarrow> [] | Some cs \<Rightarrow> concat (map (counted_items s cs) (sorted_keys cs))))"
  by (cases "as_obj (jget state s)")
     (simp_all add: service_orphans_def collection_orphans_Nil list_all_iff)

text \<open>
  The post-destroy gate passes exactly when every row of every collection it looks at is one a
  clean destroy leaves; a row that is no object never is.
\<close>

theorem Orphans_clean_iff:
  "Orphans (Some (JObj state)) = Inr [] \<longleftrightarrow> list_all explained (counted_rows state)"
proof -
  have "Orphans (Some (JObj state)) = Inr [] \<longleftrightarrow> list_all (\<lambda>s. service_orphans state s = []) (sorted_keys state)"
    by (simp add: Orphans_def list_all_iff)
  also have "\<dots> \<longleftrightarrow> list_all explained (counted_rows state)"
    unfolding service_orphans_Nil counted_rows_def by (simp only: list_all_iff set_concat set_map) blast
  finally show ?thesis .
qed

text \<open>The rows of a collection the table does not know.\<close>

definition unknown_rows :: "string \<Rightarrow> orphan_collection \<Rightarrow> (string \<times> string \<times> nat) list" where
  "unknown_rows cloud oc =
     (if lookupOrphanSubshape cloud (oc_service oc) (oc_collection oc) = None
      then map (\<lambda>i. (oc_service oc, oc_collection oc, i)) (oc_indexes oc) else [])"

definition known_collection :: "string \<Rightarrow> orphan_collection \<Rightarrow> bool" where
  "known_collection cloud oc \<longleftrightarrow> lookupOrphanSubshape cloud (oc_service oc) (oc_collection oc) \<noteq> None"

lemma table_subshapes: "list_all (\<lambda>e. os_subshape e \<noteq> SubshapeUnknown) orphanSubshapeTable"
  by (simp add: orphanSubshapeTable_def)

lemma lookup_subshape: "lookupOrphanSubshape c s k = Some e \<Longrightarrow> os_subshape e \<noteq> SubshapeUnknown"
proof -
  assume "lookupOrphanSubshape c s k = Some e"
  then have "e \<in> set orphanSubshapeTable"
    unfolding lookupOrphanSubshape_def
    by (cases "filter (\<lambda>e. os_cloud e = c \<and> os_service e = s \<and> os_collection e = k) orphanSubshapeTable")
       (simp_all, metis (no_types, lifting) filter_is_subset list.set_intros(1) subset_code(1))
  with table_subshapes show ?thesis by (auto simp: list_all_iff)
qed

lemma route_orphan_counts:
  "length (or_pitfalls (route_orphan c sc ts r oc)) + length (or_gaps (route_orphan c sc ts r oc))
     = length (or_pitfalls r) + length (or_gaps r) + (if known_collection c oc then 1 else 0)"
  "or_unclassified (route_orphan c sc ts r oc) = or_unclassified r @ unknown_rows c oc"
  using lookup_subshape [of c "oc_service oc" "oc_collection oc"]
  by (auto simp: route_orphan_def known_collection_def unknown_rows_def
      split: option.splits orphan_subshape.splits)

text \<open>
  The classifier routes what the post-destroy gate counted and nothing else: each collection of
  a kind the table knows becomes one lesson or one gap, and each row of the others is listed.
\<close>

theorem ClassifyOrphans_complete:
  "case Orphans doc of
     Inl _ \<Rightarrow> ClassifyOrphans doc cloud scenario timestamp = no_routing
   | Inr ocs \<Rightarrow>
       (let r = ClassifyOrphans doc cloud scenario timestamp in
        if cloud = [] then r = no_routing
        else length (or_pitfalls r) + length (or_gaps r) = length (filter (known_collection cloud) ocs)
          \<and> or_unclassified r = concat (map (unknown_rows cloud) ocs))"
proof -
  have "length (or_pitfalls (foldl (route_orphan c sc ts) r ocs)) + length (or_gaps (foldl (route_orphan c sc ts) r ocs))
       = length (or_pitfalls r) + length (or_gaps r) + length (filter (known_collection c) ocs)
     \<and> or_unclassified (foldl (route_orphan c sc ts) r ocs)
       = or_unclassified r @ concat (map (unknown_rows c) ocs)" for c sc ts r ocs
    by (induction ocs arbitrary: r) (simp_all add: route_orphan_counts)
  note fold = this [of cloud scenario timestamp no_routing]
  show ?thesis using fold
    by (auto simp: ClassifyOrphans_def no_routing_def Let_def split: sum.splits)
qed

end
