(* ===== verification/Corpus.thy ===== *)
theory Corpus
  imports Learning "HOL-Library.Multiset"
begin

text \<open>
  The corpus of learned rules and the ledger of retired ones: \<^verbatim>\<open>AppendPitfall\<close> and its dedup from
  \<^verbatim>\<open>internal/generator/pitfalls_learn.go\<close>, \<^verbatim>\<open>pitfalls_retire.go\<close> and the ledger of
  \<^verbatim>\<open>pitfalls_avoid_retire.go\<close>. A YAML file is what it decodes to; a write scrubs every string of
  it, as \<^verbatim>\<open>marshalScrubbed\<close> does. A time stamp is absent, unusable, or an instant in nanoseconds,
  which a write cuts to whole seconds (RFC 3339). Write faults of the disk are not modelled.
\<close>

subsection \<open>Entries, files and the ledger\<close>

datatype stamp = No_Stamp | Bad_Stamp string | Stamp int

definition whole_second :: "int \<Rightarrow> int" where
  "whole_second t = t - t mod 10 ^ 9"

record pitfall_entry =
  pe_resource :: string
  pe_rule :: string
  pe_source :: string
  pe_from :: string
  pe_layer :: string
  pe_key :: string
  pe_seen :: stamp

record avoid_check =
  ck_id :: string
  ck_at :: stamp
  ck_from :: string
  ck_sha :: string
  ck_apply :: "int option"
  ck_plan :: "int option"
  ck_outcome :: string
  ck_detail :: string

record ledger_record =
  lr_status :: string
  lr_resource :: string
  lr_attributes :: "string list"
  lr_layer :: string
  lr_evidence :: string
  lr_entry :: "pitfall_entry option"
  lr_check :: "avoid_check option"
  lr_from :: string
  lr_rule :: string
  lr_at :: stamp

datatype corpus_file =
    Corpus_Missing
  | Corpus_Unreadable string
  | Corpus_Malformed string
  | Corpus_File string "pitfall_entry list"

datatype ledger_file =
    Ledger_Missing
  | Ledger_Unreadable string
  | Ledger_Malformed string
  | Ledger_File string "ledger_record list"

record corpus =
  cp_files :: "string \<Rightarrow> corpus_file"
  cp_ledgers :: "string \<Rightarrow> ledger_file"

datatype corpus_error = Corpus_Error string | Bad_Retention int

definition LiveSource :: string where "LiveSource = ''live''"
definition FixSource :: string where "FixSource = ''fix''"
definition AvoidSource :: string where "AvoidSource = ''avoid''"

subsection \<open>The scrub of what is stored\<close>

fun scrub_stamp :: "string list \<Rightarrow> stamp \<Rightarrow> stamp" where
  "scrub_stamp known (Bad_Stamp t) = Bad_Stamp (ScrubAccountIDs known t)"
| "scrub_stamp known t = t"

definition scrub_entry :: "string list \<Rightarrow> pitfall_entry \<Rightarrow> pitfall_entry" where
  "scrub_entry known e =
     (let s = ScrubAccountIDs known in
      \<lparr>pe_resource = s (pe_resource e), pe_rule = s (pe_rule e), pe_source = s (pe_source e),
       pe_from = s (pe_from e), pe_layer = s (pe_layer e), pe_key = s (pe_key e),
       pe_seen = scrub_stamp known (pe_seen e)\<rparr>)"

definition scrub_check :: "string list \<Rightarrow> avoid_check \<Rightarrow> avoid_check" where
  "scrub_check known c =
     (let s = ScrubAccountIDs known in
      \<lparr>ck_id = s (ck_id c), ck_at = scrub_stamp known (ck_at c), ck_from = s (ck_from c),
       ck_sha = s (ck_sha c), ck_apply = ck_apply c, ck_plan = ck_plan c,
       ck_outcome = s (ck_outcome c), ck_detail = s (ck_detail c)\<rparr>)"

definition scrub_record :: "string list \<Rightarrow> ledger_record \<Rightarrow> ledger_record" where
  "scrub_record known r =
     (let s = ScrubAccountIDs known in
      \<lparr>lr_status = s (lr_status r), lr_resource = s (lr_resource r), lr_attributes = map s (lr_attributes r),
       lr_layer = s (lr_layer r), lr_evidence = s (lr_evidence r),
       lr_entry = map_option (scrub_entry known) (lr_entry r),
       lr_check = map_option (scrub_check known) (lr_check r),
       lr_from = s (lr_from r), lr_rule = s (lr_rule r), lr_at = scrub_stamp known (lr_at r)\<rparr>)"

definition scrub_learned :: "string list \<Rightarrow> learned_pitfall \<Rightarrow> learned_pitfall" where
  "scrub_learned known p =
     (let s = ScrubAccountIDs known in
      \<lparr>lp_resource = s (lp_resource p), lp_rule = s (lp_rule p), lp_source = s (lp_source p),
       lp_from = s (lp_from p), lp_layer = s (lp_layer p)\<rparr>)"

definition writePitfallsFile :: "string list \<Rightarrow> string \<Rightarrow> string \<Rightarrow> pitfall_entry list \<Rightarrow> corpus \<Rightarrow> corpus" where
  "writePitfallsFile known cloud provider entries c =
     c\<lparr>cp_files := (cp_files c)(cloud :=
        Corpus_File (ScrubAccountIDs known provider) (map (scrub_entry known) entries))\<rparr>"

definition assertCloudName :: "string \<Rightarrow> string option" where
  "assertCloudName cloud =
     (if trim_space cloud = [] then Some ''cloud is required''
      else if cloud \<noteq> trim_space cloud then Some (''cloud '' @ quote cloud @ '' has leading or trailing whitespace'')
      else if contains cloud ''/'' then Some (''cloud '' @ quote cloud @ '' contains a path separator'')
      else if cloud = ''.'' \<or> cloud = ''..'' \<or> contains cloud ''..''
      then Some (''cloud '' @ quote cloud @ '' contains a parent-directory reference'')
      else None)"

text \<open>The file and its scrubbed entries, or nothing when there is none.\<close>

definition loadCloudPitfalls :: "string list \<Rightarrow> corpus \<Rightarrow> string
    \<Rightarrow> corpus_error + (string \<times> pitfall_entry list) option" where
  "loadCloudPitfalls known c cloud =
     (case assertCloudName cloud of
        Some e \<Rightarrow> Inl (Corpus_Error e)
      | None \<Rightarrow>
          (case cp_files c cloud of
             Corpus_Missing \<Rightarrow> Inr None
           | Corpus_Unreadable e \<Rightarrow> Inl (Corpus_Error (''read pitfalls for '' @ cloud @ '': '' @ e))
           | Corpus_Malformed e \<Rightarrow> Inl (Corpus_Error (''parse pitfalls for '' @ cloud @ '': '' @ e))
           | Corpus_File p es \<Rightarrow> Inr (Some (ScrubAccountIDs known p, map (scrub_entry known) es))))"

subsection \<open>Retiring what is stale\<close>

definition usable_stamp :: "stamp \<Rightarrow> int option" where
  "usable_stamp t = (case t of Stamp i \<Rightarrow> Some i | _ \<Rightarrow> None)"

definition retirable :: "int \<Rightarrow> int \<Rightarrow> pitfall_entry \<Rightarrow> bool" where
  "retirable now retention e \<longleftrightarrow> pe_source e = LiveSource
     \<and> (case usable_stamp (pe_seen e) of None \<Rightarrow> False | Some t \<Rightarrow> now - t > retention)"

record retired_pitfall =
  rp_resource :: string
  rp_rule :: string
  rp_last_seen :: int
  rp_age :: int

definition retired_of :: "int \<Rightarrow> pitfall_entry \<Rightarrow> retired_pitfall" where
  "retired_of now e =
     (let t = (case usable_stamp (pe_seen e) of None \<Rightarrow> 0 | Some t \<Rightarrow> t) in
      \<lparr>rp_resource = pe_resource e, rp_rule = pe_rule e, rp_last_seen = t, rp_age = now - t\<rparr>)"

definition partitionStale :: "int \<Rightarrow> int \<Rightarrow> pitfall_entry list \<Rightarrow> pitfall_entry list \<times> retired_pitfall list" where
  "partitionStale now retention entries =
     (filter (\<lambda>e. \<not> retirable now retention e) entries,
      sort_key (\<lambda>r. - rp_age r) (map (retired_of now) (filter (retirable now retention) entries)))"

definition RetireStaleLivePitfalls :: "string list \<Rightarrow> string \<Rightarrow> int \<Rightarrow> int \<Rightarrow> corpus
    \<Rightarrow> (corpus_error + retired_pitfall list) \<times> corpus" where
  "RetireStaleLivePitfalls known cloud retention now c =
     (if retention \<le> 0 then (Inl (Bad_Retention retention), c)
      else (case loadCloudPitfalls known c cloud of
          Inl e \<Rightarrow> (Inl e, c)
        | Inr None \<Rightarrow> (Inr [], c)
        | Inr (Some (p, es)) \<Rightarrow>
            let (kept, stale) = partitionStale now retention es in
            if stale = [] then (Inr [], c)
            else (Inr stale, writePitfallsFile known cloud p kept c)))"

definition StaleLivePitfalls :: "string list \<Rightarrow> string \<Rightarrow> int \<Rightarrow> int \<Rightarrow> corpus
    \<Rightarrow> corpus_error + retired_pitfall list" where
  "StaleLivePitfalls known cloud retention now c =
     (if retention \<le> 0 then Inl (Bad_Retention retention)
      else (case loadCloudPitfalls known c cloud of
          Inl e \<Rightarrow> Inl e
        | Inr None \<Rightarrow> Inr []
        | Inr (Some (p, es)) \<Rightarrow> Inr (snd (partitionStale now retention es))))"

subsection \<open>Lessons of a running service\<close>

text \<open>The first entry the predicate holds of, changed; nothing when there is none.\<close>

fun update_first :: "('a \<Rightarrow> bool) \<Rightarrow> ('a \<Rightarrow> 'a) \<Rightarrow> 'a list \<Rightarrow> 'a list option" where
  "update_first P f [] = None"
| "update_first P f (x # xs) = (if P x then Some (f x # xs) else map_option (Cons x) (update_first P f xs))"

definition live_entry :: "string \<Rightarrow> string \<Rightarrow> pitfall_entry \<Rightarrow> bool" where
  "live_entry resource key e \<longleftrightarrow>
     pe_source e = LiveSource \<and> pe_resource e = resource \<and> pe_key e = key"

definition refreshLivePitfall :: "string list \<Rightarrow> string \<Rightarrow> string \<Rightarrow> learned_pitfall \<Rightarrow> int \<Rightarrow> corpus
    \<Rightarrow> (corpus_error + bool) \<times> corpus" where
  "refreshLivePitfall known cloud key p now c =
     (case loadCloudPitfalls known c cloud of
        Inl e \<Rightarrow> (Inl e, c)
      | Inr None \<Rightarrow> (Inr False, c)
      | Inr (Some (pr, es)) \<Rightarrow>
          (case update_first (live_entry (lp_resource p) key)
              (\<lambda>e. e\<lparr>pe_rule := lp_rule p, pe_from := lp_from p, pe_seen := Stamp (whole_second now)\<rparr>) es of
             None \<Rightarrow> (Inr False, c)
           | Some es' \<Rightarrow> (Inr True, writePitfallsFile known cloud pr es' c)))"

definition AppendLivePitfall :: "string list \<Rightarrow> string \<Rightarrow> string \<Rightarrow> learned_pitfall \<Rightarrow> int \<Rightarrow> corpus
    \<Rightarrow> corpus_error option \<times> corpus" where
  "AppendLivePitfall known cloud observedKey0 p0 now c =
     (let p = (scrub_learned known p0)\<lparr>lp_source := LiveSource\<rparr>; key = ScrubAccountIDs known observedKey0 in
      if key = [] then (Some (Corpus_Error ''a live pitfall needs an observed key, or it can never be recognised again''), c)
      else (case refreshLivePitfall known cloud key p now c of
          (Inl e, c') \<Rightarrow> (Some e, c')
        | (Inr True, c') \<Rightarrow> (None, c')
        | (Inr False, c') \<Rightarrow>
            (case loadCloudPitfalls known c' cloud of
               Inl e \<Rightarrow> (Some e, c')
             | Inr loaded \<Rightarrow>
                 let (pr, es) = (case loaded of None \<Rightarrow> (cloud, []) | Some f \<Rightarrow> f) in
                 (None, writePitfallsFile known cloud pr (es @
                   [\<lparr>pe_resource = lp_resource p, pe_rule = lp_rule p, pe_source = LiveSource,
                     pe_from = lp_from p, pe_layer = [], pe_key = key, pe_seen = Stamp (whole_second now)\<rparr>]) c'))))"

definition TouchLivePitfall :: "string list \<Rightarrow> string \<Rightarrow> string \<Rightarrow> string \<Rightarrow> int \<Rightarrow> corpus
    \<Rightarrow> corpus_error option \<times> corpus" where
  "TouchLivePitfall known cloud resource0 rule0 now c =
     (let resource = ScrubAccountIDs known resource0; rule = ScrubAccountIDs known rule0 in
      case loadCloudPitfalls known c cloud of
        Inl e \<Rightarrow> (Some e, c)
      | Inr None \<Rightarrow> (Some (Corpus_Error (''read pitfalls for '' @ cloud @ '': file does not exist'')), c)
      | Inr (Some (pr, es)) \<Rightarrow>
          (case update_first (\<lambda>e. pe_source e = LiveSource \<and> pe_resource e = resource \<and> pe_rule e = rule)
              (\<lambda>e. e\<lparr>pe_seen := Stamp (whole_second now)\<rparr>) es of
             None \<Rightarrow> (Some (Corpus_Error (''no live pitfall for '' @ resource @ '' matching that rule'')), c)
           | Some es' \<Rightarrow> (None, writePitfallsFile known cloud pr es' c)))"
subsection \<open>Is a rule already known?\<close>

fun word_len :: "string \<Rightarrow> nat" where
  "word_len [] = 0"
| "word_len (c # s) = (if space_len (c # s) > 0 then 0 else Suc (word_len s))"

text \<open>\<^verbatim>\<open>strings.Fields\<close>.\<close>

function fields :: "string \<Rightarrow> string list" where
  "fields s = (let t = trim_left s in
     if t = [] then [] else take (word_len t) t # fields (drop (word_len t) t))"
  by pat_completeness auto
termination
proof (relation "measure length")
  fix s t :: string
  assume t: "t = trim_left s" and ne: "t \<noteq> []"
  have "space_len t = 0" using t ne trim_with_fixed [of space_len s] by (simp add: trim_left_def)
  then have "word_len t > 0" using ne by (cases t) auto
  moreover have "length t \<le> length s" using t suffix_trim_with [of space_len s]
    by (simp add: trim_left_def suffix_length_le)
  moreover have "length t > 0" using ne by simp
  ultimately have "length t - word_len t < length s" by linarith
  then show "(drop (word_len t) t, s) \<in> measure length" by simp
qed simp

declare fields.simps [simp del]

definition trim_set :: "string \<Rightarrow> string \<Rightarrow> string" where
  "trim_set cs s = rev (dropWhile (\<lambda>c. c \<in> set cs) (rev (dropWhile (\<lambda>c. c \<in> set cs) s)))"

definition stop_words :: "string list" where
  "stop_words = [''that'', ''this'', ''with'', ''from'', ''have'', ''will'', ''when'', ''must'', ''does'',
     ''should'', ''would'', ''could'', ''than'', ''also'', ''into'', ''only'', ''each'', ''such'', ''they'',
     ''been'', ''like'', ''then'', ''some'', ''your'', ''them'', ''more'', ''make'', ''very'']"

definition significantWords :: "string \<Rightarrow> string list" where
  "significantWords t = remdups (filter (\<lambda>w. length w \<ge> 4 \<and> w \<notin> set stop_words)
     (map (trim_set (''.,;:!?'' @ dquote @ squote @ ''`()[]{}/<>'')) (fields (to_lower t))))"

definition isVerbatimFallback :: "string \<Rightarrow> bool" where
  "isVerbatimFallback rule \<longleftrightarrow>
     list_ex (contains rule) [[CHR 0xE2, CHR 0x94, CHR 0x82], [CHR 0xE2, CHR 0x95, CHR 0xB7],
       [CHR 0xE2, CHR 0x95, CHR 0xB5], [CHR 0xE2, CHR 0x94, CHR 0x80]]
     \<or> contains rule ''exit status 1 | stderr:''"

definition supersedes :: "learned_pitfall \<Rightarrow> pitfall_entry \<Rightarrow> bool" where
  "supersedes p e \<longleftrightarrow>
     \<not> isVerbatimFallback (lp_rule p) \<and> isVerbatimFallback (pe_rule e)
     \<or> lp_source p = FixSource \<and> pe_source e \<noteq> FixSource"

definition same_rule :: "learned_pitfall \<Rightarrow> pitfall_entry \<Rightarrow> bool" where
  "same_rule p e =
     (if pe_resource e \<noteq> lp_resource p then False
      else if lp_source p = AvoidSource \<and> pe_layer e \<noteq> lp_layer p then False
      else if pe_rule e = lp_rule p then True
      else if supersedes p e then False
      else length (filter (\<lambda>w. w \<in> set (significantWords (pe_rule e))) (significantWords (lp_rule p))) \<ge> 3)"

definition isDuplicate :: "pitfall_entry list \<Rightarrow> learned_pitfall \<Rightarrow> bool" where
  "isDuplicate existing p = list_ex (same_rule p) existing"

definition pitfallSource :: "learned_pitfall \<Rightarrow> string" where
  "pitfallSource p = (if lp_source p = [] then ''descriptive'' else lp_source p)"

subsection \<open>Avoid rules\<close>

definition upper_first :: "string \<Rightarrow> string" where
  "upper_first p = to_upper (take 1 p) @ drop 1 p"

fun split_on :: "char \<Rightarrow> string \<Rightarrow> string list" where
  "split_on d [] = [[]]"
| "split_on d (c # s) =
     (if c = d then [] # split_on d s
      else (case split_on d s of [] \<Rightarrow> [[c]] | w # ws \<Rightarrow> (c # w) # ws))"

definition snakeToCamel :: "string \<Rightarrow> string" where
  "snakeToCamel s = concat (map upper_first (filter (\<lambda>p. p \<noteq> []) (split_on CHR ''_'' s)))"

definition attributeAppearsInDetail :: "string \<Rightarrow> string \<Rightarrow> bool" where
  "attributeAppearsInDetail detail nm \<longleftrightarrow>
     contains detail nm \<or> contains (to_lower detail) nm
     \<or> (let camel = snakeToCamel nm in camel \<noteq> []
          \<and> (contains detail camel \<or> contains detail (to_lower (take 1 camel) @ drop 1 camel)))"

definition tick_ident :: "nat \<Rightarrow> regex list" where
  "tick_ident n = [lit_char CHR ''`'', (if n = 0 then some_re (Chr ident_char) else Grp n (some_re (Chr ident_char))),
     lit_char CHR ''`'']"

definition avoidRuleRe :: regex where
  "avoidRuleRe = seqs ([At_Start, some_re (Chr (\<lambda>_. True)), text_re '' Do NOT use '',
     Grp 1 (seqs ([text_re ''attribute ''] @ tick_ident 0
       @ [many (seqs ([text_re '' and attribute ''] @ tick_ident 0))])),
     text_re '' on ''] @ tick_ident 2
     @ [text_re ('' '' @ em_dash @ '' observed in scenario '' @ dquote),
        many (Alt (Chr (\<lambda>c. c \<noteq> CHR 0x22 \<and> c \<noteq> CHR 0x5C)) (Seq (lit_char CHR 0x5C) (Chr (\<lambda>_. True)))),
        text_re (dquote @ '' to cause the failure above.''), At_End])"

definition avoidAttrRe :: regex where
  "avoidAttrRe = seqs ([text_re ''attribute ''] @ tick_ident 1)"

definition ParseAvoidRule :: "string \<Rightarrow> (string \<times> string list) option" where
  "ParseAvoidRule rule = map_option (\<lambda>(_, m).
     (group_of m 2, map (\<lambda>(_, a). group_of a 1) (find_all avoidAttrRe (group_of m 1)))) (find_first avoidRuleRe rule)"

subsection \<open>The ledger\<close>

definition AvoidRecordRetired :: string where "AvoidRecordRetired = ''retired''"
definition AvoidRecordKept :: string where "AvoidRecordKept = ''kept''"
definition AvoidRecordRelearned :: string where "AvoidRecordRelearned = ''relearned''"
definition AvoidOutcomeContradicted :: string where "AvoidOutcomeContradicted = ''contradicted''"
definition AvoidOutcomeRecurred :: string where "AvoidOutcomeRecurred = ''recurred''"
definition AvoidOutcomeInconclusive :: string where "AvoidOutcomeInconclusive = ''inconclusive''"

definition checkIDRe :: regex where
  "checkIDRe = (let an = (\<lambda>c. char_between CHR ''A'' CHR ''Z'' c \<or> char_between CHR ''a'' CHR ''z'' c \<or> is_digit c)
     in seqs [At_Start, Chr an, many (Chr (\<lambda>c. an c \<or> c \<in> set ''._-'')), At_End])"

text \<open>The text of a stamp that is not RFC 3339; a missing one is the empty text.\<close>

definition validRFC3339 :: "string \<Rightarrow> stamp \<Rightarrow> string option" where
  "validRFC3339 field t =
     (case t of Stamp _ \<Rightarrow> None
      | No_Stamp \<Rightarrow> Some (field @ '' '' @ quote [] @ '' is not RFC3339'')
      | Bad_Stamp v \<Rightarrow> Some (field @ '' '' @ quote v @ '' is not RFC3339''))"

definition validateChecked :: "ledger_record \<Rightarrow> string option" where
  "validateChecked r =
     (case (lr_entry r, lr_check r) of
        (Some e, Some c) \<Rightarrow>
          if lr_layer r \<noteq> MockDeployLayer
          then Some (''learned_layer '' @ quote (lr_layer r) @ '': only a mock_deploy rule is checked against the mock'')
          else if pe_layer e \<noteq> MockDeployLayer \<and> lr_evidence r = []
          then Some (''the entry'' @ squote @ ''s learned_layer is '' @ quote (pe_layer e)
            @ '' and no layer_evidence establishes it was mock_deploy'')
          else (case (ck_apply c, ck_plan c) of
              (Some ax, Some px) \<Rightarrow>
                if ck_id c = [] \<or> ck_from c = [] \<or> ck_sha c = []
                then Some ''check id, from, shape_sha256, apply_exit and plan_exit are required''
                else if \<not> matches checkIDRe (ck_id c)
                then Some (''check id '' @ quote (ck_id c) @ '' is not a plain name'')
                else (case validRFC3339 ''check at'' (ck_at c) of
                    Some e \<Rightarrow> Some e
                  | None \<Rightarrow>
                      let contradicted = (ck_outcome c = AvoidOutcomeContradicted) in
                      if contradicted \<and> (ax \<noteq> 0 \<or> px \<noteq> 0)
                      then Some (''outcome contradicted needs apply_exit 0 and plan_exit 0, got ''
                        @ itoa ax @ '' and '' @ itoa px)
                      else if lr_status r = AvoidRecordRetired \<and> \<not> contradicted
                      then Some (''outcome '' @ quote (ck_outcome c) @ '' does not retire a rule: only contradicted does'')
                      else if lr_status r = AvoidRecordKept \<and> ck_outcome c \<noteq> AvoidOutcomeRecurred
                        \<and> ck_outcome c \<noteq> AvoidOutcomeInconclusive
                      then Some (''outcome '' @ quote (ck_outcome c) @ '' is not recurred or inconclusive'')
                      else None)
            | _ \<Rightarrow> Some ''check id, from, shape_sha256, apply_exit and plan_exit are required'')
      | _ \<Rightarrow> Some (''a '' @ lr_status r @ '' record needs the entry and the check''))"

definition validate_record :: "ledger_record \<Rightarrow> string option" where
  "validate_record r =
     (if lr_resource r = [] \<or> lr_attributes r = [] \<or> [] \<in> set (lr_attributes r)
      then Some ''resource and attributes are required''
      else if lr_layer r = [] then Some ''learned_layer is required''
      else if lr_status r = AvoidRecordRelearned then
        (if IsMockLayer (lr_layer r)
         then Some (''a relearned record must come from a layer other than a mock'' @ squote @ ''s, not '' @ lr_layer r)
         else if lr_rule r = [] then Some ''a relearned record needs its rule''
         else validRFC3339 ''at'' (lr_at r))
      else if lr_status r = AvoidRecordRetired \<or> lr_status r = AvoidRecordKept then validateChecked r
      else Some (''status '' @ quote (lr_status r) @ '' is not retired, kept or relearned''))"

definition ReadAvoidLedger :: "corpus \<Rightarrow> string \<Rightarrow> string + ledger_record list" where
  "ReadAvoidLedger c cloud =
     (case assertCloudName cloud of
        Some e \<Rightarrow> Inl e
      | None \<Rightarrow>
          (case cp_ledgers c cloud of
             Ledger_Missing \<Rightarrow> Inr []
           | Ledger_Unreadable e \<Rightarrow> Inl (''read avoid-check ledger '' @ cloud @ '': '' @ e)
           | Ledger_Malformed e \<Rightarrow> Inl (''parse avoid-check ledger '' @ cloud @ '': '' @ e)
           | Ledger_File p rs \<Rightarrow>
               if p \<noteq> cloud then Inl (''avoid-check ledger '' @ cloud @ '': provider '' @ quote p @ '', want '' @ quote cloud)
               else (case filter (\<lambda>(i, r). validate_record r \<noteq> None) (zip [0..<length rs] rs) of
                   [] \<Rightarrow> Inr rs
                 | (i, r) # _ \<Rightarrow> Inl (''avoid-check ledger '' @ cloud @ '': record '' @ nat_digits i @ '': ''
                     @ (case validate_record r of None \<Rightarrow> [] | Some e \<Rightarrow> e)))))"

definition appendAvoidLedgerRecord :: "string list \<Rightarrow> string \<Rightarrow> ledger_record list \<Rightarrow> ledger_record \<Rightarrow> corpus
    \<Rightarrow> string option \<times> corpus" where
  "appendAvoidLedgerRecord known cloud ledger r c =
     (case validate_record r of
        Some e \<Rightarrow> (Some e, c)
      | None \<Rightarrow> (None, c\<lparr>cp_ledgers := (cp_ledgers c)(cloud :=
          Ledger_File (ScrubAccountIDs known cloud) (map (scrub_record known) (ledger @ [r])))\<rparr>))"

text \<open>Which check last retired an attribute that was not re-admitted since.\<close>

definition retire_record :: "string \<Rightarrow> (string \<rightharpoonup> string) \<Rightarrow> ledger_record \<Rightarrow> (string \<rightharpoonup> string)" where
  "retire_record resource m r =
     (if lr_resource r \<noteq> resource then m
      else if lr_status r = AvoidRecordRetired
      then foldl (\<lambda>m a. m(a \<mapsto> (case lr_check r of None \<Rightarrow> [] | Some c \<Rightarrow> ck_id c))) m (lr_attributes r)
      else if lr_status r = AvoidRecordRelearned then foldl (\<lambda>m a. m(a := None)) m (lr_attributes r)
      else m)"

definition retired_by :: "ledger_record list \<Rightarrow> string \<Rightarrow> (string \<rightharpoonup> string)" where
  "retired_by rs resource = foldl (retire_record resource) Map.empty rs"

definition retiredAttributesNamed :: "ledger_record list \<Rightarrow> string \<Rightarrow> string \<Rightarrow> (string \<times> string) list" where
  "retiredAttributesNamed rs resource t =
     concat (map (\<lambda>a. case retired_by rs resource a of
         None \<Rightarrow> [] | Some i \<Rightarrow> if attributeAppearsInDetail t a then [(a, i)] else [])
       (sort (remdups (concat (map lr_attributes rs)))))"
subsection \<open>Appending a learned rule\<close>

definition show_list :: "string list \<Rightarrow> string" where
  "show_list xs = ''['' @ join '' '' xs @ '']''"

definition recurrenceError :: "learned_pitfall \<Rightarrow> (string \<times> string) list \<Rightarrow> string" where
  "recurrenceError p hits =
     (let names = map (\<lambda>(a, i). ''`'' @ a @ ''` (retired by check '' @ i @ '')'') hits;
          layer = (if lp_layer p = [] then ''an unknown layer'' else lp_layer p);
          msg = ''refusing '' @ pitfallSource p @ '' pitfall on '' @ lp_resource p @ '' learned at '' @ layer
            @ '': it names '' @ join '', '' names @ ''; a mock recurrence of a retired rule is a mock regression'';
          fresh = (case ParseAvoidRule (lp_rule p) of
            None \<Rightarrow> []
          | Some (_, attrs) \<Rightarrow> map (\<lambda>a. ''`'' @ a @ ''`'') (filter (\<lambda>a. a \<notin> fst ` set hits) attrs))
      in if fresh = [] then msg else msg @ ''; '' @ join '', '' fresh @ '', which it also forbids, is not learned'')"

definition entry_of :: "learned_pitfall \<Rightarrow> pitfall_entry" where
  "entry_of p = \<lparr>pe_resource = lp_resource p, pe_rule = lp_rule p, pe_source = pitfallSource p,
     pe_from = lp_from p, pe_layer = lp_layer p, pe_key = [], pe_seen = No_Stamp\<rparr>"

definition relearned_record :: "learned_pitfall \<Rightarrow> (string \<times> string) list \<Rightarrow> int \<Rightarrow> ledger_record" where
  "relearned_record p hits now =
     \<lparr>lr_status = AvoidRecordRelearned, lr_resource = lp_resource p, lr_attributes = map fst hits,
      lr_layer = lp_layer p, lr_evidence = [], lr_entry = None, lr_check = None,
      lr_from = lp_from p, lr_rule = lp_rule p, lr_at = Stamp (whole_second now)\<rparr>"

definition appendPitfall :: "string list \<Rightarrow> int \<Rightarrow> string \<Rightarrow> learned_pitfall \<Rightarrow> ledger_record list
    \<Rightarrow> (string \<times> string) list \<Rightarrow> corpus \<Rightarrow> string option \<times> corpus" where
  "appendPitfall known now cloud p ledger hits c =
     (case (case cp_files c cloud of
          Corpus_Missing \<Rightarrow> Inr (cloud, [])
        | Corpus_Unreadable e \<Rightarrow> Inl (''read pitfalls file: '' @ e)
        | Corpus_Malformed e \<Rightarrow> Inl (''parse pitfalls file: '' @ e)
        | Corpus_File pr es \<Rightarrow> Inr (pr, es)) of
        Inl e \<Rightarrow> (Some e, c)
      | Inr (pr0, es0) \<Rightarrow>
          let pr = ScrubAccountIDs known pr0; es = map (scrub_entry known) es0 in
          if isDuplicate es p then (None, c)
          else let (le, c') = (if hits = [] then (None, c)
              else appendAvoidLedgerRecord known cloud ledger (relearned_record p hits now) c)
            in (case le of
                  Some e \<Rightarrow> (Some (''record relearned avoid attributes: '' @ e), c')
                | None \<Rightarrow> (None, writePitfallsFile known cloud pr (es @ [entry_of p]) c')))"

definition retired_hits :: "corpus \<Rightarrow> string \<Rightarrow> learned_pitfall \<Rightarrow> (string \<times> string) list" where
  "retired_hits c cloud p =
     (case ReadAvoidLedger c cloud of
        Inl _ \<Rightarrow> []
      | Inr rs \<Rightarrow> if lp_source p \<noteq> LiveSource then retiredAttributesNamed rs (lp_resource p) (lp_rule p) else [])"

definition AppendPitfall :: "string list \<Rightarrow> int \<Rightarrow> string \<Rightarrow> string \<Rightarrow> learned_pitfall \<Rightarrow> corpus
    \<Rightarrow> string option \<times> corpus" where
  "AppendPitfall known now pitfallsDir cloud p0 c =
     (if pitfallsDir = [] \<or> cloud = [] then (None, c)
      else
        let p = scrub_learned known p0; ledger = ReadAvoidLedger c cloud; hits = retired_hits c cloud p in
        if hits \<noteq> [] \<and> (lp_layer p = [] \<or> IsMockLayer (lp_layer p)) then (Some (recurrenceError p hits), c)
        else let (e, c') = appendPitfall known now cloud p (case ledger of Inl _ \<Rightarrow> [] | Inr rs \<Rightarrow> rs) hits c
          in (case (e, ledger) of
                (Some er, _) \<Rightarrow> (Some er, c')
              | (None, Inl le) \<Rightarrow> (Some (''pitfall appended, but the avoid-check ledger is unreadable, so retired rules were not checked: '' @ le), c')
              | (None, Inr _) \<Rightarrow> (None, c')))"

subsection \<open>Retiring an avoid rule\<close>

record avoid_retirement =
  ret_resource :: string
  ret_attributes :: "string list"
  ret_evidence :: string
  ret_check :: avoid_check

definition namesAnyAttribute :: "string \<Rightarrow> string list \<Rightarrow> bool" where
  "namesAnyAttribute t attrs = list_ex (attributeAppearsInDetail t) attrs"

definition sameSet :: "string list \<Rightarrow> string list \<Rightarrow> bool" where
  "sameSet a b \<longleftrightarrow> sort (remdups a) = sort (remdups b)"

definition concerns :: "avoid_retirement \<Rightarrow> pitfall_entry \<Rightarrow> bool" where
  "concerns req e \<longleftrightarrow> pe_resource e = ret_resource req \<and> namesAnyAttribute (pe_rule e) (ret_attributes req)"

text \<open>Why an entry that names a requested attribute cannot be the one to retire.\<close>

definition entry_refusal :: "avoid_retirement \<Rightarrow> nat \<Rightarrow> nat option \<Rightarrow> pitfall_entry \<Rightarrow> string option" where
  "entry_refusal req i found e =
     (let at_entry = ''entry '' @ nat_digits i @ '' on '' @ pe_resource e in
      case (if pe_source e = AvoidSource then ParseAvoidRule (pe_rule e) else None) of
        None \<Rightarrow> Some (at_entry @ '' (source '' @ pe_source e @ '') names '' @ show_list (ret_attributes req)
          @ '' but is not an avoid rule in the attribute form'')
      | Some (resource, attrs) \<Rightarrow>
          if resource \<noteq> ret_resource req
          then Some (at_entry @ '' (source '' @ pe_source e @ '') names '' @ show_list (ret_attributes req)
            @ '' but is not an avoid rule in the attribute form'')
          else if pe_layer e \<noteq> [] \<and> pe_layer e \<noteq> MockDeployLayer
          then Some (at_entry @ '' was learned at '' @ pe_layer e @ '', not mock_deploy: mock evidence cannot retire it'')
          else if pe_layer e = [] \<and> ret_evidence req = []
          then Some (at_entry @ '' has no learned_layer and no layer_evidence establishes it was mock_deploy'')
          else (case found of
              Some k \<Rightarrow> Some (''entries '' @ nat_digits k @ '' and '' @ nat_digits i @ '' on '' @ pe_resource e
                @ '' both name '' @ show_list (ret_attributes req) @ ''; retire one rule at a time'')
            | None \<Rightarrow>
                if \<not> sameSet attrs (ret_attributes req)
                then Some (at_entry @ '' forbids '' @ show_list attrs
                  @ ''; a check must cover every attribute, got '' @ show_list (ret_attributes req))
                else None))"

fun find_entry :: "avoid_retirement \<Rightarrow> nat \<Rightarrow> nat option \<Rightarrow> pitfall_entry list \<Rightarrow> string + nat option" where
  "find_entry req i found [] = Inr found"
| "find_entry req i found (e # es) =
     (if \<not> concerns req e then find_entry req (Suc i) found es
      else (case entry_refusal req i found e of
          Some er \<Rightarrow> Inl er
        | None \<Rightarrow> find_entry req (Suc i) (Some i) es))"

definition findRetirableEntry :: "pitfall_entry list \<Rightarrow> avoid_retirement \<Rightarrow> string + nat" where
  "findRetirableEntry entries req =
     (if ret_resource req = [] \<or> ret_attributes req = [] \<or> [] \<in> set (ret_attributes req)
      then Inl ''a resource and at least one attribute are required''
      else (case find_entry req 0 None entries of
          Inl e \<Rightarrow> Inl e
        | Inr None \<Rightarrow> Inl (''no corpus entry on '' @ ret_resource req @ '' names '' @ show_list (ret_attributes req))
        | Inr (Some i) \<Rightarrow> Inr i))"

text \<open>\<open>checkStoredShape\<close> is the reading of the stored HCL: why the shape is not the one checked.\<close>

definition RetireAvoidPitfall :: "string list \<Rightarrow> (avoid_retirement \<Rightarrow> string option) \<Rightarrow> string \<Rightarrow> avoid_retirement
    \<Rightarrow> corpus \<Rightarrow> (corpus_error + ledger_record) \<times> corpus" where
  "RetireAvoidPitfall known checkStoredShape cloud req c =
     (case ReadAvoidLedger c cloud of
        Inl e \<Rightarrow> (Inl (Corpus_Error (''refusing: avoid-check ledger unreadable: '' @ e)), c)
      | Inr ledger \<Rightarrow>
          (case loadCloudPitfalls known c cloud of
             Inl e \<Rightarrow> (Inl e, c)
           | Inr None \<Rightarrow> (Inl (Corpus_Error (''refusing: no pitfalls corpus for '' @ cloud)), c)
           | Inr (Some (pr, es)) \<Rightarrow>
               (case findRetirableEntry es req of
                  Inl e \<Rightarrow> (Inl (Corpus_Error (''refusing: '' @ e)), c)
                | Inr i \<Rightarrow>
                    let r = \<lparr>lr_status = (if ck_outcome (ret_check req) = AvoidOutcomeContradicted
                               then AvoidRecordRetired else AvoidRecordKept),
                             lr_resource = ret_resource req, lr_attributes = ret_attributes req,
                             lr_layer = MockDeployLayer, lr_evidence = ret_evidence req,
                             lr_entry = Some (es ! i), lr_check = Some (ret_check req),
                             lr_from = [], lr_rule = [], lr_at = No_Stamp\<rparr>
                    in (case validate_record r of
                          Some e \<Rightarrow> (Inl (Corpus_Error (''refusing: '' @ e)), c)
                        | None \<Rightarrow>
                            (case checkStoredShape req of
                               Some e \<Rightarrow> (Inl (Corpus_Error (''refusing: '' @ e)), c)
                             | None \<Rightarrow>
                                 let c' = snd (appendAvoidLedgerRecord known cloud ledger r c) in
                                 if lr_status r = AvoidRecordKept then (Inr r, c')
                                 else (Inr r, writePitfallsFile known cloud pr (take i es @ drop (Suc i) es) c'))))))"
subsection \<open>What the ledger says last\<close>

definition speaks_of :: "string \<Rightarrow> string \<Rightarrow> ledger_record \<Rightarrow> bool" where
  "speaks_of resource a r \<longleftrightarrow> lr_resource r = resource \<and> a \<in> set (lr_attributes r)
     \<and> (lr_status r = AvoidRecordRetired \<or> lr_status r = AvoidRecordRelearned)"

definition check_of :: "ledger_record \<Rightarrow> string" where
  "check_of r = (case lr_check r of None \<Rightarrow> [] | Some c \<Rightarrow> ck_id c)"

text \<open>The last record that retires or re-admits the attribute decides.\<close>

definition last_word :: "ledger_record list \<Rightarrow> string \<Rightarrow> string \<Rightarrow> string option" where
  "last_word rs resource a =
     (case filter (speaks_of resource a) (rev rs) of
        [] \<Rightarrow> None
      | r # _ \<Rightarrow> if lr_status r = AvoidRecordRetired then Some (check_of r) else None)"

lemma foldl_upd: "foldl (\<lambda>m a. m(a := v)) m as a = (if a \<in> set as then v else m a)"
  by (induction "as" arbitrary: m) auto

lemma statuses_differ: "AvoidRecordRetired \<noteq> AvoidRecordRelearned"
  by (simp add: AvoidRecordRetired_def AvoidRecordRelearned_def)

lemma retire_record_at:
  "retire_record resource m r a =
     (if speaks_of resource a r
      then (if lr_status r = AvoidRecordRetired then Some (check_of r) else None) else m a)"
  using statuses_differ by (auto simp: retire_record_def speaks_of_def check_of_def foldl_upd)

lemma retired_by_last_word: "retired_by rs resource a = last_word rs resource a"
  by (induction rs rule: rev_induct) (auto simp: retired_by_def last_word_def retire_record_at)

lemma last_word_named:
  "last_word rs resource a = Some i \<Longrightarrow> a \<in> set (concat (map lr_attributes rs))"
  unfolding last_word_def
  by (cases "filter (speaks_of resource a) (rev rs)")
     (auto simp: speaks_of_def filter_eq_Cons_iff dest!: arg_cong [where f = set] split: if_splits)

lemma retiredAttributesNamed_mem:
  "(a, i) \<in> set (retiredAttributesNamed rs resource t) \<longleftrightarrow>
     last_word rs resource a = Some i \<and> attributeAppearsInDetail t a"
  using last_word_named [of rs resource a i]
  by (auto simp: retiredAttributesNamed_def retired_by_last_word split: option.splits if_splits)

subsection \<open>Properties\<close>

definition stored :: "string list \<Rightarrow> corpus \<Rightarrow> string \<Rightarrow> pitfall_entry list" where
  "stored known c cloud =
     (case cp_files c cloud of Corpus_File _ es \<Rightarrow> map (scrub_entry known) es | _ \<Rightarrow> [])"

lemma appendAvoidLedgerRecord_files [simp]:
  "cp_files (snd (appendAvoidLedgerRecord known cloud rs r c)) = cp_files c"
  by (simp add: appendAvoidLedgerRecord_def split: option.splits)

lemma appendAvoidLedgerRecord_kept:
  "appendAvoidLedgerRecord known cloud rs r c = (e, c') \<Longrightarrow> cp_files c' = cp_files c"
  using appendAvoidLedgerRecord_files [of known cloud rs r c] by simp

lemma sort_key_Nil_iff [simp]: "sort_key f xs = [] \<longleftrightarrow> xs = []"
  by (metis length_0_conv length_sort)

lemma AppendPitfall_adds:
  "case AppendPitfall known now dir cloud p c of (err, c') \<Rightarrow>
     cp_files c' = cp_files c
     \<or> (\<exists>pr. cp_files c' = (cp_files c)(cloud := Corpus_File pr
            (map (scrub_entry known) (stored known c cloud @ [entry_of (scrub_learned known p)])))
          \<and> isDuplicate (stored known c cloud) (scrub_learned known p) = False)"
proof -
  let ?p = "scrub_learned known p"
  have a: "case appendPitfall known now cloud ?p rs hits c of (err, c') \<Rightarrow>
      cp_files c' = cp_files c \<or> (\<exists>pr. cp_files c' = (cp_files c)(cloud := Corpus_File pr
            (map (scrub_entry known) (stored known c cloud @ [entry_of ?p])))
          \<and> isDuplicate (stored known c cloud) ?p = False)" for rs hits
    by (cases "cp_files c cloud")
       (auto dest!: appendAvoidLedgerRecord_kept simp: appendPitfall_def stored_def Let_def writePitfallsFile_def isDuplicate_def
        split: prod.splits option.splits if_splits)
  obtain e c1 where ap: "appendPitfall known now cloud ?p
      (case ReadAvoidLedger c cloud of Inl _ \<Rightarrow> [] | Inr rs \<Rightarrow> rs) (retired_hits c cloud ?p) c = (e, c1)"
    by fastforce
  have "snd (AppendPitfall known now dir cloud p c) = c \<or> snd (AppendPitfall known now dir cloud p c) = c1"
    by (simp add: AppendPitfall_def Let_def ap split: option.splits sum.splits)
  then show ?thesis
    using a [of "case ReadAvoidLedger c cloud of Inl _ \<Rightarrow> [] | Inr rs \<Rightarrow> rs" "retired_hits c cloud ?p"] ap
    by (auto split: prod.splits)
qed

text \<open>
  Learning only adds: whatever \<open>AppendPitfall\<close> returns, the files of the corpus are as they were,
  or the cloud's file holds its scrubbed entries in their order followed by the one new entry, which
  duplicates none of them.
\<close>

theorem AppendPitfall_only_adds:
  "case AppendPitfall known now dir cloud p c of (err, c') \<Rightarrow>
     cp_files c' = cp_files c
     \<or> (\<exists>pr. cp_files c' = (cp_files c)(cloud := Corpus_File pr
            (map (scrub_entry known) (stored known c cloud @ [entry_of (scrub_learned known p)])))
          \<and> isDuplicate (stored known c cloud) (scrub_learned known p) = False)"
  by (rule AppendPitfall_adds)

text \<open>
  A rule that was contradicted on the mock does not come back from the mock: when the ledger's
  last word on an attribute of the resource is that it was retired, a candidate that names it and was
  learned at a mock's layer, or at none, is refused and nothing is written.
\<close>

theorem retired_not_relearned_from_mock:
  assumes "ReadAvoidLedger c cloud = Inr rs" and "pitfallsDir \<noteq> []" and "cloud \<noteq> []"
    and "last_word rs (lp_resource (scrub_learned known p)) a = Some i"
    and "attributeAppearsInDetail (lp_rule (scrub_learned known p)) a"
    and "lp_source (scrub_learned known p) \<noteq> LiveSource"
    and "lp_layer (scrub_learned known p) = [] \<or> IsMockLayer (lp_layer (scrub_learned known p))"
  shows "AppendPitfall known now pitfallsDir cloud p c =
    (Some (recurrenceError (scrub_learned known p) (retired_hits c cloud (scrub_learned known p))), c)"
proof -
  have "(a, i) \<in> set (retired_hits c cloud (scrub_learned known p))"
    using assms by (simp add: retired_hits_def retiredAttributesNamed_mem)
  then have "retired_hits c cloud (scrub_learned known p) \<noteq> []" by auto
  with assms show ?thesis by (simp add: AppendPitfall_def Let_def)
qed

definition sample_entry :: pitfall_entry where
  "sample_entry = \<lparr>pe_resource = ''r'', pe_rule = ''x'', pe_source = AvoidSource, pe_from = [],
     pe_layer = MockDeployLayer, pe_key = [], pe_seen = No_Stamp\<rparr>"

definition sample_ledger :: "ledger_record list" where
  "sample_ledger = [\<lparr>lr_status = AvoidRecordRetired, lr_resource = ''r'', lr_attributes = [''ab''],
     lr_layer = MockDeployLayer, lr_evidence = [], lr_entry = Some sample_entry,
     lr_check = Some \<lparr>ck_id = ''k'', ck_at = Stamp 0, ck_from = ''f'', ck_sha = ''s'', ck_apply = Some 0,
       ck_plan = Some 0, ck_outcome = AvoidOutcomeContradicted, ck_detail = []\<rparr>,
     lr_from = [], lr_rule = [], lr_at = No_Stamp\<rparr>]"

definition sample_corpus :: corpus where
  "sample_corpus = \<lparr>cp_files = (\<lambda>_. Corpus_Missing),
     cp_ledgers = (\<lambda>k. if k = ''aws'' then Ledger_File ''aws'' sample_ledger else Ledger_Missing)\<rparr>"

definition sample_candidate :: learned_pitfall where
  "sample_candidate = \<lparr>lp_resource = ''r'', lp_rule = ''no ab'', lp_source = AvoidSource, lp_from = [],
     lp_layer = MockDeployLayer\<rparr>"

theorem retired_not_relearned_from_mock_witness:
  "snd (AppendPitfall [] 0 ''d'' ''aws'' sample_candidate sample_corpus) = sample_corpus"
proof -
  have sc: "scrub_learned [] sample_candidate = sample_candidate" by code_simp
  have "ReadAvoidLedger sample_corpus ''aws'' = Inr sample_ledger"
    unfolding sample_corpus_def by code_simp
  moreover have "last_word sample_ledger (lp_resource sample_candidate) ''ab'' = Some ''k''" by code_simp
  moreover have "attributeAppearsInDetail (lp_rule sample_candidate) ''ab''" by code_simp
  moreover have "lp_source sample_candidate \<noteq> LiveSource" by code_simp
  moreover have "IsMockLayer (lp_layer sample_candidate)" by code_simp
  ultimately show ?thesis
    using retired_not_relearned_from_mock [of sample_corpus "''aws''" sample_ledger "''d''" "[]" sample_candidate
        "''ab''" "''k''" 0] by (simp add: sc)
qed

text \<open>
  Retirement takes out exactly the stale entries: those learned from a running service whose time
  stamp is usable and older than the retention. The rest stay as they were, in order, nothing is
  written when none is stale, and the dry run reports the same.
\<close>

theorem RetireStaleLivePitfalls_exact:
  "case RetireStaleLivePitfalls known cloud retention now c of (r, c') \<Rightarrow>
     r = StaleLivePitfalls known cloud retention now c
     \<and> (case r of
          Inl _ \<Rightarrow> c' = c
        | Inr gone \<Rightarrow>
            mset gone = image_mset (retired_of now) (mset (filter (retirable now retention) (stored known c cloud)))
            \<and> (if gone = [] then c' = c
               else (\<exists>pr. c' = c\<lparr>cp_files := (cp_files c)(cloud := Corpus_File pr
                 (map (scrub_entry known) (filter (\<lambda>e. \<not> retirable now retention e) (stored known c cloud))))\<rparr>)))"
proof (cases "loadCloudPitfalls known c cloud")
  case (Inl e)
  then show ?thesis by (simp add: RetireStaleLivePitfalls_def StaleLivePitfalls_def)
next
  case (Inr l)
  then have st: "stored known c cloud = (case l of None \<Rightarrow> [] | Some (_, es) \<Rightarrow> es)"
    by (auto simp: loadCloudPitfalls_def stored_def split: option.splits corpus_file.splits)
  show ?thesis
  proof (cases l)
    case None
    with Inr st show ?thesis by (simp add: RetireStaleLivePitfalls_def StaleLivePitfalls_def)
  next
    case (Some f)
    obtain pr es where "f = (pr, es)" by fastforce
    with Inr st Some show ?thesis
      by (auto simp: RetireStaleLivePitfalls_def StaleLivePitfalls_def partitionStale_def writePitfallsFile_def
          Let_def)
  qed
qed
subsection \<open>Retirement on evidence\<close>

lemma find_entry_Some:
  "find_entry req i found es = Inr (Some k) \<Longrightarrow> found = Some k \<or>
     (i \<le> k \<and> k - i < length es \<and> concerns req (es ! (k - i))
       \<and> (\<exists>f. entry_refusal req k f (es ! (k - i)) = None))"
proof (induction req i found es rule: find_entry.induct)
  case (2 req i found e es)
  show ?case
  proof (cases "concerns req e")
    case True
    with 2 have ne: "entry_refusal req i found e = None" by (auto split: option.splits)
    with 2 True consider "k = i" | "Suc i \<le> k \<and> k - Suc i < length es \<and> concerns req (es ! (k - Suc i))
        \<and> (\<exists>f. entry_refusal req k f (es ! (k - Suc i)) = None)" by auto
    then show ?thesis
    proof cases
      case 1
      with True ne show ?thesis by auto
    next
      case 2
      moreover have "k - i = Suc (k - Suc i)" using calculation by linarith
      ultimately show ?thesis by auto
    qed
  next
    case False
    with 2 have "found = Some k \<or> Suc i \<le> k \<and> k - Suc i < length es \<and> concerns req (es ! (k - Suc i))
        \<and> (\<exists>f. entry_refusal req k f (es ! (k - Suc i)) = None)" by simp
    moreover have "Suc i \<le> k \<Longrightarrow> k - i = Suc (k - Suc i)" by simp
    ultimately show ?thesis by auto
  qed
qed simp

text \<open>What the entry taken out is: an avoid rule of the mock for exactly the checked attributes.\<close>

definition retirable_avoid :: "avoid_retirement \<Rightarrow> pitfall_entry \<Rightarrow> bool" where
  "retirable_avoid req e \<longleftrightarrow> pe_resource e = ret_resource req \<and> pe_source e = AvoidSource
     \<and> (pe_layer e = MockDeployLayer \<or> ret_evidence req \<noteq> [])
     \<and> (case ParseAvoidRule (pe_rule e) of
          None \<Rightarrow> False
        | Some (resource, attrs) \<Rightarrow> resource = ret_resource req \<and> sameSet attrs (ret_attributes req))"

lemma entry_refusal_None:
  "concerns req e \<Longrightarrow> entry_refusal req i f e = None \<Longrightarrow> retirable_avoid req e"
  by (auto simp: entry_refusal_def retirable_avoid_def concerns_def Let_def split: option.splits if_splits)

lemma findRetirableEntry_Inr:
  "findRetirableEntry es req = Inr i \<Longrightarrow> i < length es \<and> retirable_avoid req (es ! i)"
  by (auto simp: findRetirableEntry_def split: if_splits sum.splits option.splits
      dest!: find_entry_Some intro: entry_refusal_None)

text \<open>
  An avoid rule leaves the corpus only on evidence: \<open>RetireAvoidPitfall\<close> changes the corpus only
  when the check's outcome is that the rule was contradicted, with both exits zero, and then takes out
  one entry, an avoid rule the mock taught for exactly the attributes checked, its shape confirmed. Any
  refusal leaves corpus and ledger alone.
\<close>

theorem RetireAvoidPitfall_on_evidence:
  "case RetireAvoidPitfall known shape cloud req c of (r, c') \<Rightarrow>
     (case r of
        Inl _ \<Rightarrow> c' = c
      | Inr _ \<Rightarrow> shape req = None \<and>
          (if ck_outcome (ret_check req) = AvoidOutcomeContradicted
           then ck_apply (ret_check req) = Some 0 \<and> ck_plan (ret_check req) = Some 0
             \<and> (\<exists>i pr. i < length (stored known c cloud) \<and> retirable_avoid req (stored known c cloud ! i)
                \<and> cp_files c' = (cp_files c)(cloud := Corpus_File pr (map (scrub_entry known)
                    (take i (stored known c cloud) @ drop (Suc i) (stored known c cloud)))))
           else cp_files c' = cp_files c))"
proof -
  have st: "loadCloudPitfalls known c cloud = Inr (Some (pr, es)) \<Longrightarrow> stored known c cloud = es" for pr es
    by (auto simp: loadCloudPitfalls_def stored_def split: option.splits corpus_file.splits)
  have v: "validate_record r = None \<Longrightarrow> lr_status r = AvoidRecordRetired \<Longrightarrow> lr_check r = Some k \<Longrightarrow>
      ck_outcome k = AvoidOutcomeContradicted \<Longrightarrow> ck_apply k = Some 0 \<and> ck_plan k = Some 0" for r k
    using statuses_differ
    by (auto simp: validate_record_def validateChecked_def Let_def split: option.splits if_splits)
  have kr: "AvoidRecordKept \<noteq> AvoidRecordRetired" by (simp add: AvoidRecordKept_def AvoidRecordRetired_def)
  show ?thesis
    unfolding RetireAvoidPitfall_def
    by (auto simp: Let_def writePitfallsFile_def kr kr [symmetric] st dest: v findRetirableEntry_Inr
        split: sum.splits option.splits prod.splits if_splits)
qed

end
