(* ===== verification/Pitfall_Prompt.thy ===== *)
theory Pitfall_Prompt
  imports Corpus
begin

text \<open>
  How the corpus reaches a prompt, \<^verbatim>\<open>generator/pitfalls.go\<close>: the entries of the cloud's file, then the
  common ones, printed as a list grouped by resource. The file a rule came from is its second
  component.
\<close>

definition commonPitfallsFile :: string where
  "commonPitfallsFile = ''common.yaml''"

definition path_join :: "string \<Rightarrow> string \<Rightarrow> string" where
  "path_join dir name = dir @ ''/'' @ name"

definition loadPitfallsFile :: "corpus \<Rightarrow> string \<Rightarrow> string \<Rightarrow> string + pitfall_entry list" where
  "loadPitfallsFile c path cloud =
     (case cp_files c cloud of
        Corpus_Missing \<Rightarrow> Inr []
      | Corpus_Unreadable e \<Rightarrow> Inl e
      | Corpus_Malformed e \<Rightarrow> Inl (''parse '' @ quote path @ '': '' @ e)
      | Corpus_File _ es \<Rightarrow> Inr es)"

definition LoadPitfallEntries :: "corpus \<Rightarrow> string \<Rightarrow> string \<Rightarrow> string + pitfall_entry list" where
  "LoadPitfallEntries c dir cloud =
     (if dir = [] \<or> cloud = [] then Inr []
      else loadPitfallsFile c (path_join dir (cloud @ ''.yaml'')) cloud)"

definition load_named :: "corpus \<Rightarrow> string \<Rightarrow> string \<Rightarrow> string + (pitfall_entry \<times> string) list" where
  "load_named c dir name =
     (case loadPitfallsFile c (path_join dir name) (trim_suffix name ''.yaml'') of
        Inl e \<Rightarrow> Inl (''load pitfalls '' @ quote (path_join dir name) @ '': '' @ e)
      | Inr es \<Rightarrow> Inr (map (\<lambda>e. (e, name)) es))"

definition LoadRenderedPitfalls :: "corpus \<Rightarrow> string \<Rightarrow> string \<Rightarrow> string + (pitfall_entry \<times> string) list" where
  "LoadRenderedPitfalls c dir cloud =
     (if dir = [] \<or> cloud = [] then Inr []
      else (case load_named c dir (cloud @ ''.yaml'') of
              Inl e \<Rightarrow> Inl e
            | Inr own \<Rightarrow>
                (case load_named c dir commonPitfallsFile of
                   Inl e \<Rightarrow> Inl e
                 | Inr common \<Rightarrow> Inr (own @ common))))"

text \<open>The entries in the order they are printed, and the text.\<close>

definition grouped :: "pitfall_entry list \<Rightarrow> pitfall_entry list" where
  "grouped entries =
     concat (map (\<lambda>r. filter (\<lambda>e. pe_resource e = r) entries)
       (sort (nub_by (\<lambda>r. r) (map pe_resource entries))))"

definition rule_line :: "pitfall_entry \<Rightarrow> string" where
  "rule_line e = ''- `'' @ pe_resource e @ ''`: '' @ trim_space (pe_rule e) @ nl"

definition trim_newlines :: "string \<Rightarrow> string" where
  "trim_newlines s = rev (dropWhile (\<lambda>c. c = CHR 0x0A) (rev s))"

definition renderPitfalls :: "pitfall_entry list \<Rightarrow> string" where
  "renderPitfalls entries = trim_newlines (concat (map rule_line (grouped entries)))"

definition LoadPitfalls :: "corpus \<Rightarrow> string \<Rightarrow> string \<Rightarrow> string + string" where
  "LoadPitfalls c dir cloud =
     (case LoadRenderedPitfalls c dir cloud of
        Inl e \<Rightarrow> Inl e
      | Inr [] \<Rightarrow> Inr []
      | Inr es \<Rightarrow> Inr (renderPitfalls (map fst es)))"

subsection \<open>The order of a prompt\<close>

lemma count_by_key: "count (mset xs) a = count (mset (filter (\<lambda>x. f x = f a) xs)) a"
  by (simp add: count_mset)

lemma concat_filter_sorted:
  fixes f :: "'a \<Rightarrow> 'k :: linorder"
  assumes "sorted ks" and "distinct ks" and "f ` set xs \<subseteq> set ks"
  shows "concat (map (\<lambda>k. filter (\<lambda>x. f x = k) xs) ks) = sort_key f xs"
proof -
  let ?ys = "concat (map (\<lambda>k. filter (\<lambda>x. f x = k) xs) ks)"
  have sorted: "sorted (map f ?ys)" using assms(1)
    by (induction ks) (auto simp: sorted_append sorted_map_same [of f "\<lambda>_. k" for k])
  have same: "filter (\<lambda>x. f x = k) ?ys = filter (\<lambda>x. f x = k) xs" for k
  proof (cases "k \<in> set ks")
    case True
    with assms(2) obtain as bs where ks: "ks = as @ k # bs" "k \<notin> set as" "k \<notin> set bs"
      by (metis Un_iff distinct.simps(2) distinct_append disjoint_iff list.set_intros(1) split_list)
    have other: "k \<notin> set js \<Longrightarrow>
        filter (\<lambda>x. f x = k) (concat (map (\<lambda>k. filter (\<lambda>x. f x = k) xs) js)) = []" for js
      by (auto simp: filter_empty_conv)
    from ks show ?thesis by (simp add: other)
  next
    case False
    with assms(3) have "filter (\<lambda>x. f x = k) ?ys = []" "filter (\<lambda>x. f x = k) xs = []"
      by (auto simp: filter_empty_conv)
    then show ?thesis by simp
  qed
  have "mset ?ys = mset xs"
    by (rule multiset_eqI) (metis count_by_key same)
  moreover have "filter (\<lambda>x. f k = f x) ?ys = filter (\<lambda>x. f k = f x) xs" for k
    using same [of "f k"] by (simp only: eq_commute [of "f k"])
  ultimately show ?thesis
    using sorted by (intro properties_for_sort_key [symmetric]) simp_all
qed

text \<open>
  C36. What a prompt carries is the cloud's rules and the common ones, each exactly once, sorted by
  resource; rules of one resource keep the order of the files, the cloud's own first.
\<close>

theorem renderPitfalls_sorted:
  "renderPitfalls entries = trim_newlines (concat (map rule_line (sort_key pe_resource entries)))"
proof -
  have "distinct (nub_by (\<lambda>r. r) (map pe_resource entries))"
    using distinct_nub_by [of "\<lambda>r. r" "map pe_resource entries"] by simp
  then have "grouped entries = sort_key pe_resource entries"
    unfolding grouped_def by (intro concat_filter_sorted) auto
  then show ?thesis by (simp add: renderPitfalls_def)
qed

end
