(* ===== verification/Prescriptive.thy ===== *)
theory Prescriptive
  imports Corpus "HOL-Library.AList"
begin

text \<open>
  Lessons read from the difference of two configurations, \<^verbatim>\<open>generator/prescriptive_extractor.go\<close>: what
  an iteration added to a resource that failed before (\<open>fix\<close>), and what it removed (\<open>avoid\<close>). A
  directory is what \<^verbatim>\<open>os.ReadDir\<close> and \<^verbatim>\<open>os.ReadFile\<close> answer for it. A map of blocks is an association
  list; every iteration over it is sorted before it shows.
\<close>

subsection \<open>Resource blocks of a configuration\<close>

datatype tf_entry = Sub_Dir | Text string | Broken string

datatype tf_dir = Dir_Missing | Dir_Error string | Dir_Entries "(string \<times> tf_entry) list"

record resource_block =
  rb_type :: string
  rb_name :: string
  rb_body :: string

type_synonym blocks = "(string \<times> resource_block) list"

definition lines_of :: "string \<Rightarrow> string list" where
  "lines_of s = split_on CHR 0x0A s"

definition lower_start :: "char \<Rightarrow> bool" where
  "lower_start c \<longleftrightarrow> char_between CHR ''a'' CHR ''z'' c"

definition name_char :: "char \<Rightarrow> bool" where
  "name_char c \<longleftrightarrow> ident_char c \<or> c = CHR ''-''"

definition type_re :: regex where
  "type_re = Seq (Chr lower_start) (many (Chr (\<lambda>c. lower_start c \<or> is_digit c \<or> c = CHR ''_'')))"

definition name_re :: regex where
  "name_re = Seq (Chr (\<lambda>c. ident_char c \<and> \<not> is_digit c \<and> c \<noteq> CHR ''_'')) (many (Chr name_char))"

definition resourceHeaderRe :: regex where
  "resourceHeaderRe = seqs [At_Start, many space_re, text_re ''resource'', some_re space_re,
     lit_char CHR 0x22, Grp 1 type_re, lit_char CHR 0x22, some_re space_re,
     lit_char CHR 0x22, Grp 2 name_re, lit_char CHR 0x22, many space_re, lit_char CHR 0x7B]"

definition addressRe :: regex where
  "addressRe = seqs [Grp 1 (seqs [alts (text_re ''scaleway'') [text_re ''google'', text_re ''aws'',
       text_re ''random'', text_re ''genesyscloud''], lit_char CHR ''_'',
       some_re (Chr (\<lambda>c. lower_start c \<or> c = CHR ''_''))]),
     lit_char CHR ''.'', Grp 2 name_re,
     opt_re (seqs [lit_char CHR ''['', some_re digit_re, lit_char CHR '']''])]"

text \<open>The change of the brace depth on a line.\<close>

definition brace_delta :: "string \<Rightarrow> int" where
  "brace_delta l = int (length (filter (\<lambda>c. c = CHR 0x7B) l)) - int (length (filter (\<lambda>c. c = CHR 0x7D) l))"

text \<open>The body of a block opened on the line before, and the lines after the one that closes it.\<close>

fun take_body :: "int \<Rightarrow> string list \<Rightarrow> string list \<times> string list" where
  "take_body depth [] = ([], [])"
| "take_body depth (l # ls) =
     (let d = depth + brace_delta l in
      if d \<le> 0 then ([], ls) else (let (b, r) = take_body d ls in (l # b, r)))"

lemma take_body_shrinks: "length (snd (take_body d ls)) \<le> length ls"
proof (induction d ls rule: take_body.induct)
  case (2 d l ls)
  show ?case
  proof (cases "d + brace_delta l \<le> 0")
    case False
    with 2 [OF refl False] show ?thesis
      by (simp add: Let_def) (metis (no_types, lifting) case_prod_beta le_SucI snd_conv)
  qed (simp add: Let_def)
qed simp

function scan_blocks :: "string list \<Rightarrow> resource_block list" where
  "scan_blocks [] = []"
| "scan_blocks (l # ls) =
     (case find_first resourceHeaderRe l of
        None \<Rightarrow> scan_blocks ls
      | Some (_, m) \<Rightarrow>
          \<lparr>rb_type = group_of m 1, rb_name = group_of m 2, rb_body = join nl (fst (take_body 1 ls))\<rparr>
            # scan_blocks (snd (take_body 1 ls)))"
  by pat_completeness auto
termination
  by (relation "measure length") (auto simp: less_Suc_eq_le take_body_shrinks)

definition extractResourceBlocks :: "string \<Rightarrow> resource_block list" where
  "extractResourceBlocks src = scan_blocks (lines_of src)"

definition block_addr :: "resource_block \<Rightarrow> string" where
  "block_addr b = rb_type b @ ''.'' @ rb_name b"

fun load_entries :: "(string \<times> tf_entry) list \<Rightarrow> blocks \<Rightarrow> string + blocks" where
  "load_entries [] out = Inr out"
| "load_entries ((name, e) # es) out =
     (case e of
        Sub_Dir \<Rightarrow> load_entries es out
      | Broken err \<Rightarrow> if has_suffix name ''.tf'' then Inl err else load_entries es out
      | Text t \<Rightarrow>
          if has_suffix name ''.tf''
          then load_entries es (fold (\<lambda>b. AList.update (block_addr b) b) (extractResourceBlocks t) out)
          else load_entries es out)"

definition loadResourceBlocks :: "(string \<Rightarrow> tf_dir) \<Rightarrow> string \<Rightarrow> string + blocks" where
  "loadResourceBlocks read dir =
     (if dir = [] then Inr []
      else (case read dir of
              Dir_Missing \<Rightarrow> Inr []
            | Dir_Error e \<Rightarrow> Inl e
            | Dir_Entries es \<Rightarrow> load_entries es []))"

subsection \<open>Comparing bodies\<close>

text \<open>One pass of \<^verbatim>\<open>strings.ReplaceAll(t, "  ", " ")\<close>, and the loop around it.\<close>

fun halve :: "string \<Rightarrow> string" where
  "halve (a # b # s) = (if a = CHR '' '' \<and> b = CHR '' '' then a # halve s else a # halve (b # s))"
| "halve s = s"

lemma halve_length: "length (halve s) \<le> length s"
  by (induction s rule: halve.induct) auto

lemma halve_shrinks: "contains s ''  '' \<Longrightarrow> length (halve s) < length s"
proof (induction s rule: halve.induct)
  case (1 a b s)
  show ?case
  proof (cases "a = CHR '' '' \<and> b = CHR '' ''")
    case True
    with halve_length [of s] show ?thesis by (simp add: le_imp_less_Suc less_SucI)
  next
    case False
    with 1 show ?thesis by (auto simp: has_prefix_def)
  qed
qed (auto simp: has_prefix_def)

function collapse_spaces :: "string \<Rightarrow> string" where
  "collapse_spaces t = (if contains t ''  '' then collapse_spaces (halve t) else t)"
  by pat_completeness auto
termination
  by (relation "measure length") (auto intro: halve_shrinks)

declare collapse_spaces.simps [simp del]

definition normalizeLine :: "string \<Rightarrow> string" where
  "normalizeLine line =
     (let t = trim_space line in if t = [] then [] else collapse_spaces t)"

definition comment_line :: "string \<Rightarrow> bool" where
  "comment_line line \<longleftrightarrow> has_prefix (trim_space line) ''#'' \<or> has_prefix (trim_space line) ''//''"

text \<open>The lines of \<open>there\<close> that \<open>here\<close> has not.\<close>

definition new_lines :: "string \<Rightarrow> string \<Rightarrow> string list" where
  "new_lines here there =
     filter (\<lambda>l. normalizeLine l \<noteq> [] \<and> normalizeLine l \<notin> set (map normalizeLine (lines_of here))
       \<and> \<not> comment_line l) (lines_of there)"

definition blockAdditions :: "string \<Rightarrow> string \<Rightarrow> string" where
  "blockAdditions failed passing = join nl (new_lines failed passing)"

definition blockRemovals :: "string \<Rightarrow> string \<Rightarrow> string" where
  "blockRemovals failed passing = join nl (new_lines passing failed)"

definition normalizeBody :: "string \<Rightarrow> string" where
  "normalizeBody s = join nl (filter (\<lambda>n. n \<noteq> []) (map normalizeLine (lines_of s)))"

definition newResourceAddresses :: "blocks \<Rightarrow> blocks \<Rightarrow> string list" where
  "newResourceAddresses failed passing = sort (filter (\<lambda>a. map_of failed a = None) (map fst passing))"

definition removedResourceAddresses :: "blocks \<Rightarrow> blocks \<Rightarrow> string list" where
  "removedResourceAddresses failed passing = sort (filter (\<lambda>a. map_of passing a = None) (map fst failed))"

definition body_changed :: "blocks \<Rightarrow> string \<times> resource_block \<Rightarrow> bool" where
  "body_changed failed ab =
     (case map_of failed (fst ab) of
        None \<Rightarrow> True
      | Some f \<Rightarrow> normalizeBody (rb_body f) \<noteq> normalizeBody (rb_body (snd ab)))"

definition changedResourcesOfType :: "blocks \<Rightarrow> blocks \<Rightarrow> string \<Rightarrow> string list" where
  "changedResourcesOfType failed passing rtype =
     sort (map fst (filter (\<lambda>ab. rb_type (snd ab) = rtype \<and> body_changed failed ab) passing))"

text \<open>The exported functions read the two directories first.\<close>

definition with_blocks :: "(string \<Rightarrow> tf_dir) \<Rightarrow> string \<Rightarrow> string \<Rightarrow> (blocks \<Rightarrow> blocks \<Rightarrow> 'a) \<Rightarrow> string + 'a" where
  "with_blocks read failedDir passingDir f =
     (case loadResourceBlocks read failedDir of
        Inl e \<Rightarrow> Inl (''read failed dir '' @ quote failedDir @ '': '' @ e)
      | Inr failed \<Rightarrow>
          (case loadResourceBlocks read passingDir of
             Inl e \<Rightarrow> Inl (''read passing dir '' @ quote passingDir @ '': '' @ e)
           | Inr passing \<Rightarrow> Inr (f failed passing)))"

definition ChangedResourceAddresses :: "(string \<Rightarrow> tf_dir) \<Rightarrow> string \<Rightarrow> string \<Rightarrow> string + string list" where
  "ChangedResourceAddresses read failedDir passingDir =
     with_blocks read failedDir passingDir (\<lambda>failed passing.
       sort (map fst (filter (body_changed failed) passing)
         @ filter (\<lambda>a. map_of passing a = None) (map fst failed)))"

subsection \<open>Attribution\<close>

definition firstResourceAddress :: "string \<Rightarrow> string" where
  "firstResourceAddress detail =
     (case find_first addressRe detail of
        None \<Rightarrow> []
      | Some (_, m) \<Rightarrow> group_of m 1 @ ''.'' @ group_of m 2)"

definition detailTypeHints :: "(string \<times> string) list" where
  "detailTypeHints =
     [(''Cloud SQL instance'', ''google_sql_database_instance''),
      (''storage bucket'', ''google_storage_bucket''),
      (''Compute Disk'', ''google_compute_disk''),
      (''compute disk'', ''google_compute_disk''),
      (''GKE cluster'', ''google_container_cluster''),
      (''Memorystore'', ''google_redis_instance'')]"

definition inferResourceTypeFromDetail :: "string \<Rightarrow> string" where
  "inferResourceTypeFromDetail detail =
     (case filter (\<lambda>(phrase, _). contains detail phrase) detailTypeHints of
        [] \<Rightarrow> []
      | (_, rtype) # _ \<Rightarrow> rtype)"

text \<open>The type and the name of an address; what follows a second dot is cut.\<close>

definition splitAddress :: "string \<Rightarrow> (string \<times> string) option" where
  "splitAddress addr =
     (case str_index addr ''.'' of
        None \<Rightarrow> None
      | Some i \<Rightarrow>
          if i = 0 \<or> Suc i = length addr then None
          else let rest = drop (Suc i) addr in
            Some (take i addr, case str_index rest ''.'' of None \<Rightarrow> rest | Some j \<Rightarrow> take j rest))"

definition address_in :: "string \<Rightarrow> string \<Rightarrow> string" where
  "address_in resource detail = (if resource \<noteq> [] then resource else firstResourceAddress detail)"

definition fix_address :: "blocks \<Rightarrow> blocks \<Rightarrow> string \<Rightarrow> string \<Rightarrow> string" where
  "fix_address failed passing resource detail =
     (let addr = address_in resource detail; hint = inferResourceTypeFromDetail detail in
      if addr \<noteq> [] then addr
      else if hint = [] then []
      else (case changedResourcesOfType failed passing hint of [only] \<Rightarrow> only | _ \<Rightarrow> []))"

subsection \<open>The text of a rule\<close>

text \<open>\<^verbatim>\<open>strings.LastIndex\<close>.\<close>

definition last_index :: "string \<Rightarrow> string \<Rightarrow> nat option" where
  "last_index s t = map_option (\<lambda>i. length s - i - length t) (str_index (rev s) (rev t))"

definition snippetMaxBytes :: nat where "snippetMaxBytes = 600"

definition truncated :: string where "truncated = ''# ... (truncated)''"

definition trimSnippet :: "string list \<Rightarrow> string \<Rightarrow> nat \<Rightarrow> string" where
  "trimSnippet known s n =
     (if length s \<le> n then s
      else
        let by_line = (case last_index (take n s) nl of
              None \<Rightarrow> CutText known s n @ nl @ truncated
            | Some k \<Rightarrow> if k = 0 then CutText known s n @ nl @ truncated
                else take k s @ nl @ truncated)
        in (case last_index (take n s) (nl @ ''}'' @ nl) of
              None \<Rightarrow> by_line
            | Some idx \<Rightarrow> if idx = 0 then by_line else take (idx + 3) s @ truncated @ nl))"

text \<open>\<^verbatim>\<open>strings.TrimLeft\<close> of the box drawing runes a diagnostic starts its lines with.\<close>

fun trim_boxes :: "string \<Rightarrow> string" where
  "trim_boxes (a # b # c # s) =
     (if [a, b, c] \<in> {[CHR 0xE2, CHR 0x94, CHR 0x82], [CHR 0xE2, CHR 0x95, CHR 0xB7], [CHR 0xE2, CHR 0x95, CHR 0xB5]}
      then trim_boxes s else a # b # c # s)"
| "trim_boxes s = s"

definition sentence_of :: "string \<Rightarrow> string" where
  "sentence_of l =
     (let t = trim_space (trim_boxes l) in
      if t = [] \<or> has_prefix t ''Error:'' then trim_space (trim_prefix t ''Error:'') else t)"

definition firstSentence :: "string list \<Rightarrow> string \<Rightarrow> string" where
  "firstSentence known detail =
     (case filter (\<lambda>t. t \<noteq> []) (map sentence_of (lines_of (trim_space detail))) of
        [] \<Rightarrow> []
      | t # _ \<Rightarrow> ellipsize known t maxGapDetailBytes)"

definition buildRule :: "string list \<Rightarrow> string \<Rightarrow> string \<Rightarrow> string \<Rightarrow> string \<Rightarrow> string" where
  "buildRule known resource snippet scenario detail =
     (let s = firstSentence known detail;
          summary = (if s = [] then resource @ '' failure cleared by HCL change shown below.'' else s)
      in summary @ '' Fix observed in scenario '' @ quote scenario @ '': add the following HCL.'' @ nl @ snippet)"

definition avoid_terms :: "string list \<Rightarrow> string list \<Rightarrow> string list" where
  "avoid_terms attrs types =
     map (\<lambda>a. ''attribute `'' @ a @ ''`'') attrs @ map (\<lambda>t. ''resource type `'' @ t @ ''`'') types"

definition buildAvoidRule :: "string list \<Rightarrow> string \<Rightarrow> string list \<Rightarrow> string list \<Rightarrow> string \<Rightarrow> string \<Rightarrow> string" where
  "buildAvoidRule known resource attrs types detail scenario =
     (let s = firstSentence known detail;
          summary = (if s = [] then resource @ '' failure cleared by deletion.'' else s)
      in summary @ '' Do NOT use '' @ join '' and '' (avoid_terms attrs types) @ '' on `'' @ resource
         @ ''` '' @ em_dash @ '' observed in scenario '' @ quote scenario @ '' to cause the failure above.'')"

definition indent :: "string \<Rightarrow> string" where
  "indent body =
     (if body = [] then []
      else join nl (map (\<lambda>l. if l = [] then [] else ''  '' @ l) (lines_of body)))"

definition referencesIn :: "string \<Rightarrow> string list \<Rightarrow> string list" where
  "referencesIn t candidates =
     filter (\<lambda>c. contains t (c @ ''.'') \<or> contains t (c @ nl) \<or> contains t (c @ '' '')) candidates"

definition block_text :: "string \<Rightarrow> string \<Rightarrow> string \<Rightarrow> string" where
  "block_text rtype name body =
     ''resource '' @ quote rtype @ '' '' @ quote name @ '' {'' @ nl @ body @ nl @ ''}''"

subsection \<open>What was added\<close>

definition own_addition :: "blocks \<Rightarrow> blocks \<Rightarrow> string \<Rightarrow> string \<Rightarrow> string list" where
  "own_addition failed passing addr rtype =
     (case map_of passing addr of
        None \<Rightarrow> []
      | Some p \<Rightarrow>
          let diff = blockAdditions (case map_of failed addr of None \<Rightarrow> [] | Some f \<Rightarrow> rb_body f) (rb_body p)
          in if diff = [] then [] else [block_text rtype (rb_name p) diff])"

definition sibling_text :: "blocks \<Rightarrow> string \<Rightarrow> string list" where
  "sibling_text passing sib =
     (case map_of passing sib of
        None \<Rightarrow> []
      | Some b \<Rightarrow>
          (case splitAddress sib of
             None \<Rightarrow> [block_text [] [] (indent (trim_space (rb_body b)))]
           | Some (t, n) \<Rightarrow> [block_text t n (indent (trim_space (rb_body b)))]))"

definition fix_snippet :: "string list \<Rightarrow> blocks \<Rightarrow> blocks \<Rightarrow> string \<Rightarrow> string \<Rightarrow> string" where
  "fix_snippet known failed passing addr rtype =
     (let own = own_addition failed passing addr rtype in
      if own = [] then []
      else trimSnippet known (join nl (own @ concat (map (sibling_text passing)
             (referencesIn (join nl own) (newResourceAddresses failed passing))))) snippetMaxBytes)"

definition fix_lesson :: "string list \<Rightarrow> blocks \<Rightarrow> blocks \<Rightarrow> string \<Rightarrow> string \<Rightarrow> string \<Rightarrow> learned_pitfall option" where
  "fix_lesson known failed passing detail resource scenario =
     (let addr = fix_address failed passing resource detail in
      if addr = [] then None
      else (case splitAddress addr of
              None \<Rightarrow> None
            | Some (rtype, _) \<Rightarrow>
                let snippet = fix_snippet known failed passing addr rtype in
                if snippet = [] then None
                else Some ((learned rtype (buildRule known rtype snippet scenario detail) scenario)
                             \<lparr>lp_source := FixSource\<rparr>)))"

definition ExtractFixPitfall :: "string list \<Rightarrow> (string \<Rightarrow> tf_dir) \<Rightarrow> string \<Rightarrow> string \<Rightarrow> string \<Rightarrow> string \<Rightarrow> string
    \<Rightarrow> string + learned_pitfall option" where
  "ExtractFixPitfall known read failedDir passingDir detail resource scenario =
     with_blocks read failedDir passingDir (\<lambda>failed passing.
       fix_lesson known failed passing detail resource scenario)"

subsection \<open>What was removed\<close>

definition attributeNameRe :: regex where
  "attributeNameRe = seqs [At_Start, many space_re,
     Grp 1 (Seq (Chr (\<lambda>c. lower_start c \<or> c = CHR ''_''))
       (many (Chr (\<lambda>c. lower_start c \<or> is_digit c \<or> c = CHR ''_'')))),
     many space_re, lit_char CHR ''='']"

definition extractAttributeName :: "string \<Rightarrow> string" where
  "extractAttributeName line = (case submatch attributeNameRe line 1 of None \<Rightarrow> [] | Some a \<Rightarrow> a)"

definition avoid_attrs :: "blocks \<Rightarrow> blocks \<Rightarrow> string \<Rightarrow> string \<Rightarrow> string list" where
  "avoid_attrs failed passing addr detail =
     (if addr = [] then []
      else (case (map_of failed addr, map_of passing addr) of
              (Some f, Some p) \<Rightarrow>
                nub_by (\<lambda>a. a) (filter (\<lambda>a. a \<noteq> [] \<and> attributeAppearsInDetail detail a)
                  (map extractAttributeName (lines_of (blockRemovals (rb_body f) (rb_body p)))))
            | _ \<Rightarrow> []))"

definition types_of :: "string list \<Rightarrow> string list" where
  "types_of addrs = concat (map (\<lambda>a. case splitAddress a of None \<Rightarrow> [] | Some (t, _) \<Rightarrow> [t]) addrs)"

definition avoid_types :: "blocks \<Rightarrow> blocks \<Rightarrow> string \<Rightarrow> string list" where
  "avoid_types failed passing detail =
     sort (remdups (filter (\<lambda>t. t \<notin> set (types_of (map fst passing)) \<and> contains detail t)
       (types_of (removedResourceAddresses failed passing))))"

definition avoid_lesson :: "string list \<Rightarrow> blocks \<Rightarrow> blocks \<Rightarrow> string \<Rightarrow> string \<Rightarrow> string \<Rightarrow> learned_pitfall option" where
  "avoid_lesson known failed passing detail resource scenario =
     (let addr = address_in resource detail;
          rtype = (if addr = [] then [] else (case splitAddress addr of None \<Rightarrow> [] | Some (t, _) \<Rightarrow> t));
          attrs = avoid_attrs failed passing addr detail;
          types = avoid_types failed passing detail;
          emit = (if rtype = [] then (case types of [] \<Rightarrow> [] | t # _ \<Rightarrow> t) else rtype)
      in if attrs = [] \<and> types = [] then None
         else if emit = [] then None
         else Some ((learned emit (buildAvoidRule known emit attrs types detail scenario) scenario)
                      \<lparr>lp_source := AvoidSource\<rparr>))"

definition ExtractAvoidPitfall :: "string list \<Rightarrow> (string \<Rightarrow> tf_dir) \<Rightarrow> string \<Rightarrow> string \<Rightarrow> string \<Rightarrow> string \<Rightarrow> string
    \<Rightarrow> string + learned_pitfall option" where
  "ExtractAvoidPitfall known read failedDir passingDir detail resource scenario =
     with_blocks read failedDir passingDir (\<lambda>failed passing.
       avoid_lesson known failed passing detail resource scenario)"

subsection \<open>Lines\<close>

lemma split_on_no_sep: "w \<in> set (split_on d s) \<Longrightarrow> d \<notin> set w"
  by (induction d s arbitrary: w rule: split_on.induct) (auto split: if_splits list.splits)

lemma split_on_not_Nil [simp]: "split_on d s \<noteq> []"
  by (cases s) (auto split: list.splits)

lemma split_on_append:
  "split_on d (a @ d # b) = split_on d a @ split_on d b"
  by (induction a) (auto split: list.splits)

lemma split_on_plain: "d \<notin> set w \<Longrightarrow> split_on d w = [w]"
  by (induction w) auto

lemma lines_of_join:
  assumes "xs \<noteq> []" and "list_all (\<lambda>l. CHR 0x0A \<notin> set l) xs"
  shows "lines_of (join nl xs) = xs"
  using assms
proof (induction xs)
  case (Cons x xs)
  then show ?case
    by (cases xs) (simp_all add: lines_of_def nl_def split_on_append split_on_plain)
qed simp

lemma lines_of_append: "lines_of (a @ nl @ b) = lines_of a @ lines_of b"
  by (simp add: lines_of_def nl_def split_on_append)

lemma lines_no_newline: "list_all (\<lambda>l. CHR 0x0A \<notin> set l) (lines_of s)"
  by (auto simp: list_all_iff lines_of_def dest: split_on_no_sep)

subsection \<open>The normal form of a line\<close>

fun squeeze :: "string \<Rightarrow> string" where
  "squeeze (a # b # s) =
     (if a = CHR '' '' \<and> b = CHR '' '' then squeeze (b # s) else a # squeeze (b # s))"
| "squeeze s = s"

lemma squeeze_space: "squeeze (CHR '' '' # CHR '' '' # s) = squeeze (CHR '' '' # s)" by simp

lemma hd_halve: "halve (CHR '' '' # s) = CHR '' '' # tl (halve (CHR '' '' # s))"
  by (cases s) auto

lemma squeeze_cong:
  "squeeze s = squeeze t \<Longrightarrow> squeeze (a # s) = squeeze (a # t)"
proof -
  assume eq: "squeeze s = squeeze t"
  have first: "(case squeeze u of [] \<Rightarrow> u = [] | c # _ \<Rightarrow> u \<noteq> [] \<and> hd u = c)" for u
    by (induction u rule: squeeze.induct) (auto split: list.splits)
  show ?thesis
  proof (cases s)
    case Nil
    with first [of s] first [of t] eq have "t = []" by (simp split: list.splits)
    with Nil show ?thesis by simp
  next
    case (Cons b s')
    with first [of s] first [of t] eq obtain t' where "t = b # t'"
      by (cases t) (auto split: list.splits)
    with Cons eq show ?thesis by auto
  qed
qed

lemma squeeze_halve: "squeeze (halve s) = squeeze s"
proof (induction s rule: halve.induct)
  case (1 a b s)
  show ?case
  proof (cases "a = CHR '' '' \<and> b = CHR '' ''")
    case True
    have "squeeze (a # halve s) = squeeze (a # s)"
      by (rule squeeze_cong) (rule 1(1) [OF True])
    with True show ?thesis by simp
  next
    case False
    have "squeeze (a # halve (b # s)) = squeeze (a # b # s)"
      by (rule squeeze_cong) (rule 1(2) [OF False])
    with False show ?thesis by (simp only: halve.simps if_False)
  qed
qed simp_all

lemma squeeze_single_spaced: "\<not> contains s ''  '' \<Longrightarrow> squeeze s = s"
  by (induction s rule: squeeze.induct) (auto simp: has_prefix_def)

lemma collapse_spaces_squeeze: "collapse_spaces s = squeeze s"
proof (induction s rule: collapse_spaces.induct)
  case (1 t)
  then show ?case
    by (subst collapse_spaces.simps) (simp add: squeeze_halve squeeze_single_spaced)
qed

subsection \<open>Two shapes the comparison misreads\<close>

definition header :: "string \<Rightarrow> string \<Rightarrow> string" where
  "header rtype name = ''resource '' @ dquote @ rtype @ dquote @ '' '' @ dquote @ name @ dquote @ '' {''"

text \<open>
  The scan counts no brace on the line of the header, so a block written on one line is taken to
  run on: it swallows the blocks that follow it.
\<close>

lemma one_line_block_swallows:
  "map block_addr (extractResourceBlocks (join nl
     [header ''random_id'' ''x'' @ ''}'', header ''aws_vpc'' ''v'', ''  a = 1'', ''}''])) = [''random_id.x'']"
  by code_simp

text \<open>
  A line whose value changed counts as removed, so an attribute the passing configuration still
  sets can become a rule not to use it.
\<close>

definition resized :: "string \<Rightarrow> blocks" where
  "resized v = [(''aws_ebs_volume.d'', \<lparr>rb_type = ''aws_ebs_volume'', rb_name = ''d'', rb_body = ''  size = '' @ v\<rparr>)]"

lemma changed_value_is_avoided:
  "map_option lp_rule (avoid_lesson [] (resized ''1'') (resized ''9'') ''aws_ebs_volume.d: size too small'' [] ''s'')
     = Some (''aws_ebs_volume.d: size too small Do NOT use attribute `size` on `aws_ebs_volume` ''
          @ em_dash @ '' observed in scenario '' @ dquote @ ''s'' @ dquote @ '' to cause the failure above.'')"
  by code_simp

subsection \<open>What the two lessons rest on\<close>

lemma new_lines_no_newline: "list_all (\<lambda>l. CHR 0x0A \<notin> set l) (new_lines here there)"
  using lines_no_newline by (auto simp: new_lines_def list_all_iff)

lemma lines_of_new_lines:
  "l \<in> set (lines_of (join nl (new_lines here there))) \<Longrightarrow> l \<noteq> [] \<Longrightarrow> l \<in> set (new_lines here there)"
  using lines_of_join [OF _ new_lines_no_newline]
  by (cases "new_lines here there = []") (auto simp: lines_of_def)

text \<open>A line of the failing body that the passing body does not have.\<close>

definition gone_line :: "blocks \<Rightarrow> blocks \<Rightarrow> string \<Rightarrow> string \<Rightarrow> bool" where
  "gone_line failed passing addr l \<longleftrightarrow>
     (case (map_of failed addr, map_of passing addr) of
        (Some f, Some p) \<Rightarrow> l \<in> set (lines_of (rb_body f))
          \<and> normalizeLine l \<notin> set (map normalizeLine (lines_of (rb_body p)))
      | _ \<Rightarrow> False)"

lemma extractAttributeName_Nil: "extractAttributeName [] = []"
  by code_simp

lemma avoid_attrs_evidence:
  assumes "a \<in> set (avoid_attrs failed passing addr detail)"
  shows "attributeAppearsInDetail detail a
     \<and> list_ex (\<lambda>l. gone_line failed passing addr l \<and> extractAttributeName l = a)
         (case map_of failed addr of None \<Rightarrow> [] | Some f \<Rightarrow> lines_of (rb_body f))"
proof -
  from assms obtain f p where fp: "map_of failed addr = Some f" "map_of passing addr = Some p"
    by (cases "map_of failed addr"; cases "map_of passing addr") (auto simp: avoid_attrs_def split: if_splits)
  with assms have a: "a \<noteq> []" "attributeAppearsInDetail detail a"
      "a \<in> extractAttributeName ` set (lines_of (blockRemovals (rb_body f) (rb_body p)))"
    by (auto simp: avoid_attrs_def split: if_splits)
  then obtain l where l: "l \<in> set (lines_of (blockRemovals (rb_body f) (rb_body p)))"
    "extractAttributeName l = a" by blast
  with a have "l \<noteq> []" using extractAttributeName_Nil by auto
  with l have "l \<in> set (new_lines (rb_body p) (rb_body f))"
    unfolding blockRemovals_def by (blast intro: lines_of_new_lines)
  with fp a l show ?thesis
    by (auto simp: gone_line_def new_lines_def list_ex_iff)
qed

lemma types_of_iff: "t \<in> set (types_of as) \<longleftrightarrow> list_ex (\<lambda>a. map_option fst (splitAddress a) = Some t) as"
proof -
  have "t \<in> set (case x of None \<Rightarrow> [] | Some (u, n) \<Rightarrow> [u]) \<longleftrightarrow> map_option fst x = Some t"
    for x :: "(string \<times> string) option" by (auto split: option.splits)
  then show ?thesis by (simp add: types_of_def list_ex_iff)
qed

lemma avoid_types_evidence:
  assumes "t \<in> set (avoid_types failed passing detail)"
  shows "contains detail t \<and> t \<in> set (types_of (map fst failed)) \<and> t \<notin> set (types_of (map fst passing))"
  using assms
  by (auto simp: avoid_types_def types_of_iff list_ex_iff removedResourceAddresses_def)

text \<open>
  A rule to avoid something rests on the evidence its comment names: each attribute stands on a
  line of the failing block that the passing block no longer has, and each resource type is in the
  failing configuration and nowhere in the passing one; the failure names every one of them.
\<close>

theorem ExtractAvoidPitfall_evidence:
  "case ExtractAvoidPitfall known read failedDir passingDir detail resource scenario of
     Inr (Some p) \<Rightarrow>
       (\<exists>failed passing attrs types.
          loadResourceBlocks read failedDir = Inr failed \<and> loadResourceBlocks read passingDir = Inr passing
          \<and> lp_source p = AvoidSource \<and> attrs @ types \<noteq> []
          \<and> lp_rule p = buildAvoidRule known (lp_resource p) attrs types detail scenario
          \<and> list_all (\<lambda>a. attributeAppearsInDetail detail a
               \<and> (\<exists>l. gone_line failed passing (address_in resource detail) l \<and> extractAttributeName l = a)) attrs
          \<and> list_all (\<lambda>t. contains detail t \<and> t \<in> set (types_of (map fst failed))
               \<and> t \<notin> set (types_of (map fst passing))) types)
   | _ \<Rightarrow> True"
proof (cases "ExtractAvoidPitfall known read failedDir passingDir detail resource scenario")
  case (Inr r)
  then obtain failed passing where load: "loadResourceBlocks read failedDir = Inr failed"
      "loadResourceBlocks read passingDir = Inr passing"
    and r: "r = avoid_lesson known failed passing detail resource scenario"
    by (auto simp: ExtractAvoidPitfall_def with_blocks_def split: sum.splits)
  show ?thesis
  proof (cases r)
    case (Some p)
    let ?attrs = "avoid_attrs failed passing (address_in resource detail) detail"
    let ?types = "avoid_types failed passing detail"
    from Some r have "lp_source p = AvoidSource" "?attrs @ ?types \<noteq> []"
      "lp_rule p = buildAvoidRule known (lp_resource p) ?attrs ?types detail scenario"
      by (auto simp: avoid_lesson_def Let_def learned_def split: if_splits)
    moreover have "list_all (\<lambda>a. attributeAppearsInDetail detail a
        \<and> (\<exists>l. gone_line failed passing (address_in resource detail) l \<and> extractAttributeName l = a)) ?attrs"
      using avoid_attrs_evidence [of _ failed passing "address_in resource detail" detail]
      unfolding list_all_iff list_ex_iff by blast
    moreover have "list_all (\<lambda>t. contains detail t \<and> t \<in> set (types_of (map fst failed))
        \<and> t \<notin> set (types_of (map fst passing))) ?types"
      by (auto simp: list_all_iff dest: avoid_types_evidence)
    ultimately show ?thesis using Inr Some load by auto
  qed (use Inr in simp)
qed simp

subsection \<open>Which resources changed\<close>

lemma load_entries_distinct:
  "load_entries es out = Inr bs \<Longrightarrow> distinct (map fst out) \<Longrightarrow> distinct (map fst bs)"
proof (induction es out rule: load_entries.induct)
  case (2 name e es out)
  have "distinct (map fst (fold (\<lambda>b. AList.update (block_addr b) b) bl xs))"
    if "distinct (map fst xs)" for bl and xs :: blocks
    using that by (induction bl arbitrary: xs) (simp_all add: AList.distinct_update)
  with 2 show ?case by (auto split: tf_entry.splits if_splits)
qed simp

lemma loadResourceBlocks_distinct: "loadResourceBlocks read dir = Inr bs \<Longrightarrow> distinct (map fst bs)"
  by (auto simp: loadResourceBlocks_def load_entries_distinct split: if_splits tf_dir.splits)

definition differs :: "resource_block option \<Rightarrow> resource_block option \<Rightarrow> bool" where
  "differs f p = (case (f, p) of
     (None, None) \<Rightarrow> False
   | (Some b, Some c) \<Rightarrow> normalizeBody (rb_body b) \<noteq> normalizeBody (rb_body c)
   | _ \<Rightarrow> True)"

lemma body_changed_in:
  assumes "distinct (map fst passing)"
  shows "a \<in> fst ` set (filter (body_changed failed) passing)
     \<longleftrightarrow> (\<exists>p. map_of passing a = Some p \<and> differs (map_of failed a) (Some p))"
proof -
  have "(a, p) \<in> set passing \<longleftrightarrow> map_of passing a = Some p" for p
    using assms by simp
  then have "a \<in> fst ` set (filter (body_changed failed) passing)
     \<longleftrightarrow> (\<exists>p. map_of passing a = Some p \<and> body_changed failed (a, p))"
    by (auto simp: image_iff)
  then show ?thesis by (simp add: body_changed_def differs_def option.case_eq_if)
qed

text \<open>
  The addresses reported as changed are exactly those whose body differs beyond spacing, or that
  stand in one configuration only, a deletion included; sorted, each once.
\<close>

theorem ChangedResourceAddresses_exact:
  "case ChangedResourceAddresses read failedDir passingDir of
     Inl _ \<Rightarrow> True
   | Inr out \<Rightarrow>
       (\<exists>failed passing. loadResourceBlocks read failedDir = Inr failed
          \<and> loadResourceBlocks read passingDir = Inr passing
          \<and> sorted out \<and> distinct out
          \<and> (\<forall>a. a \<in> set out \<longleftrightarrow> differs (map_of failed a) (map_of passing a)))"
proof (cases "ChangedResourceAddresses read failedDir passingDir")
  case (Inr out)
  then obtain failed passing where load: "loadResourceBlocks read failedDir = Inr failed"
      "loadResourceBlocks read passingDir = Inr passing"
    and out: "out = sort (map fst (filter (body_changed failed) passing)
         @ filter (\<lambda>a. map_of passing a = None) (map fst failed))"
    by (auto simp: ChangedResourceAddresses_def with_blocks_def split: sum.splits)
  from load have d: "distinct (map fst failed)" "distinct (map fst passing)"
    by (simp_all add: loadResourceBlocks_distinct)
  have "a \<in> set out \<longleftrightarrow> differs (map_of failed a) (map_of passing a)" for a
  proof -
    have "a \<in> set out \<longleftrightarrow> (\<exists>p. map_of passing a = Some p \<and> differs (map_of failed a) (Some p))
        \<or> map_of passing a = None \<and> map_of failed a \<noteq> None"
      using body_changed_in [OF d(2), of a failed] by (auto simp: out map_of_eq_None_iff)
    then show ?thesis by (cases "map_of passing a"; cases "map_of failed a") (simp_all add: differs_def)
  qed
  moreover have "distinct out"
    using d by (auto simp: out distinct_map_filter map_of_eq_None_iff)
  ultimately show ?thesis using Inr load out by auto
qed simp

subsection \<open>A printed block is read back\<close>

definition header_line :: "resource_block \<Rightarrow> string" where
  "header_line b = ''resource '' @ quote (rb_type b) @ '' '' @ quote (rb_name b) @ '' {''"

text \<open>Lines over which the depth stays positive, and ends where it began.\<close>

fun stays_open :: "int \<Rightarrow> string list \<Rightarrow> bool" where
  "stays_open d [] = (d = 1)"
| "stays_open d (l # ls) = (d + brace_delta l > 0 \<and> stays_open (d + brace_delta l) ls)"

definition printable_block :: "resource_block \<Rightarrow> bool" where
  "printable_block b \<longleftrightarrow> CHR 0x0A \<notin> set (header_line b)
     \<and> (case find_first resourceHeaderRe (header_line b) of
          None \<Rightarrow> False
        | Some (_, m) \<Rightarrow> group_of m 1 = rb_type b \<and> group_of m 2 = rb_name b)
     \<and> stays_open 1 (lines_of (rb_body b))"

definition printed :: "resource_block \<Rightarrow> string" where
  "printed b = block_text (rb_type b) (rb_name b) (rb_body b)"

lemma take_body_open: "stays_open d ls \<Longrightarrow> take_body d (ls @ ''}'' # rest) = (ls, rest)"
  by (induction ls arbitrary: d) (auto simp: brace_delta_def Let_def)

lemma join_lines_of: "join nl (lines_of s) = s"
proof (induction s)
  case (Cons c s)
  have "lines_of s \<noteq> []" by (simp add: lines_of_def)
  with Cons show ?case
    by (cases "lines_of s"; cases "tl (lines_of s)") (auto simp: lines_of_def nl_def)
qed (simp add: lines_of_def)

lemma lines_of_printed:
  "CHR 0x0A \<notin> set (header_line b) \<Longrightarrow> lines_of (printed b) = header_line b # lines_of (rb_body b) @ [''}'']"
proof -
  assume h: "CHR 0x0A \<notin> set (header_line b)"
  have "printed b = header_line b @ nl @ rb_body b @ nl @ ''}''"
    by (simp add: printed_def block_text_def header_line_def)
  then have "lines_of (printed b) = lines_of (header_line b) @ lines_of (rb_body b) @ lines_of ''}''"
    by (simp only: lines_of_append)
  moreover have "lines_of (header_line b) = [header_line b]" "lines_of ''}'' = [''}'']"
    using h by (simp_all add: lines_of_def split_on_plain)
  ultimately show ?thesis by simp
qed

lemma scan_printed:
  "printable_block b \<Longrightarrow> scan_blocks (lines_of (printed b) @ rest) = b # scan_blocks rest"
  by (auto simp: printable_block_def lines_of_printed take_body_open join_lines_of split: option.splits)

text \<open>
  The scanner reads back what the rules print: the text of resource blocks, one after the other,
  gives those blocks, whatever nested blocks their bodies hold as long as the braces balance.
\<close>

theorem printed_blocks_read_back:
  "list_all printable_block bs \<Longrightarrow> extractResourceBlocks (join nl (map printed bs)) = bs"
proof (induction bs)
  case Nil
  then show ?case by code_simp
next
  case (Cons b bs)
  show ?case
  proof (cases bs)
    case Nil
    with Cons.prems scan_printed [of b "[]"] show ?thesis by (simp add: extractResourceBlocks_def)
  next
    case (Cons c cs)
    then have "join nl (map printed (b # bs)) = printed b @ nl @ join nl (map printed bs)" by simp
    with Cons.prems Cons.IH show ?thesis
      by (simp add: extractResourceBlocks_def lines_of_append scan_printed)
  qed
qed

definition sample_blocks :: "resource_block list" where
  "sample_blocks =
     [\<lparr>rb_type = ''aws_vpc'', rb_name = ''v'', rb_body = ''  tags = {'' @ nl @ ''  }''\<rparr>,
      \<lparr>rb_type = ''aws_subnet'', rb_name = ''s'', rb_body = ''  a = 1''\<rparr>]"

theorem printed_blocks_read_back_witness:
  "extractResourceBlocks (join nl (map printed sample_blocks)) = sample_blocks"
proof -
  have "list_all printable_block sample_blocks" by code_simp
  then show ?thesis by (rule printed_blocks_read_back)
qed

end
