(* ===== verification/Policy_Gap.thy ===== *)
theory Policy_Gap
  imports Pitfall_Prompt Prescriptive
begin

text \<open>
  Policies that reject what the corpus prescribes, \<^verbatim>\<open>generator/policy_gap.go\<close>: the detection and the
  register \<^verbatim>\<open>docs/policy-gaps.md\<close>, which has the shape of the register of mock gaps.
\<close>

record policy_gap =
  pg_cloud :: string
  pg_policy :: string
  pg_resource :: string
  pg_scenario :: string
  pg_detail :: string
  pg_timestamp :: string

definition rego_name_re :: regex where
  "rego_name_re = Seq (Chr lower_start) (many (Chr (\<lambda>c. lower_start c \<or> is_digit c \<or> c = CHR ''_'')))"

definition policyNameRe :: regex where
  "policyNameRe = Seq (text_re ''policy='') (Grp 1 (seqs [rego_name_re, lit_char CHR ''.'', rego_name_re]))"

definition lower_word_re :: regex where
  "lower_word_re = some_re (Chr (\<lambda>c. lower_start c \<or> c = CHR ''_''))"

definition resourceAddressRe :: regex where
  "resourceAddressRe = seqs [Grp 1 (seqs [alts (text_re ''scaleway'') [text_re ''google'', text_re ''aws''],
       lit_char CHR ''_'', lower_word_re]), lit_char CHR ''.'', lower_word_re,
     opt_re (seqs [lit_char CHR ''['', some_re digit_re, lit_char CHR '']''])]"

definition backtickedIdentRe :: regex where
  "backtickedIdentRe = seqs [lit_char CHR ''`'',
     Grp 1 (Seq (Chr (\<lambda>c. ident_char c \<and> \<not> is_digit c)) (some_re (Chr ident_char))), lit_char CHR ''`'']"

definition first_group :: "regex \<Rightarrow> string \<Rightarrow> string" where
  "first_group re s = (case submatch re s 1 of None \<Rightarrow> [] | Some g \<Rightarrow> g)"

definition extractPolicyName :: "string \<Rightarrow> string" where
  "extractPolicyName detail = first_group policyNameRe detail"

definition extractRegoResource :: "string \<Rightarrow> string" where
  "extractRegoResource detail = first_group resourceAddressRe detail"

definition extractKeywords :: "string \<Rightarrow> string list" where
  "extractKeywords rule =
     nub_by (\<lambda>w. w) (filter (\<lambda>w. length w > 3 \<and> w \<notin> {''count'', ''for'', ''and'', ''the'', ''NOT'', ''not''})
       (map (\<lambda>(_, m). group_of m 1) (find_all backtickedIdentRe rule)))"

definition hclContainsAllKeywords :: "string \<Rightarrow> string list \<Rightarrow> bool" where
  "hclContainsAllKeywords hcl keywords \<longleftrightarrow> keywords \<noteq> [] \<and> list_all (contains hcl) keywords"

definition DetectPolicyConflict :: "string \<Rightarrow> string \<Rightarrow> string \<Rightarrow> pitfall_entry list \<Rightarrow> string \<Rightarrow> string \<Rightarrow> string
    \<Rightarrow> policy_gap option" where
  "DetectPolicyConflict policy0 detail hcl pitfalls cloud scenario timestamp =
     (let policy = (if policy0 = [] then extractPolicyName detail else policy0);
          resource = extractRegoResource detail
      in if policy = [] \<or> resource = [] then None
         else if list_ex (\<lambda>p. pe_resource p = resource
                \<and> hclContainsAllKeywords hcl (extractKeywords (pe_rule p))) pitfalls
         then Some \<lparr>pg_cloud = cloud, pg_policy = policy, pg_resource = resource,
                    pg_scenario = scenario, pg_detail = detail, pg_timestamp = timestamp\<rparr>
         else None)"

definition policy_gap_header :: string where
  "policy_gap_header = ''# Policy gaps'' @ nl @ nl
     @ ''This file collects cases where the auto-learning pipeline'' @ nl
     @ ''detected a **policy_pitfall_conflict**: the LLM'' @ squote @ ''s HCL matched'' @ nl
     @ ''all the keywords of an existing prescriptive pitfall, but a'' @ nl
     @ ''policy gate (Rego deny rule) still fired. That'' @ squote @ ''s a policy'' @ nl
     @ ''bug, not an LLM bug '' @ em_dash @ '' the policy disagrees with its own'' @ nl
     @ ''pitfall.'' @ nl @ nl
     @ ''Entries belong to `policies/<cloud>/*.rego`, NOT to'' @ nl
     @ ''`pitfalls/<cloud>.yaml`. See ADR-0017 (`docs/decisions/0017-policy-pitfall-conflict.md`)'' @ nl
     @ ''and `internal/generator/policy_gap.go::DetectPolicyConflict`'' @ nl
     @ ''for the detection mechanism.'' @ nl @ nl"

definition AppendPolicyGap :: "string list \<Rightarrow> string \<Rightarrow> string option \<Rightarrow> policy_gap \<Rightarrow> gap_write" where
  "AppendPolicyGap known docsDir existing gap =
     (if docsDir = [] then Gap_Refused ''docs dir is required''
      else if pg_cloud gap = [] \<or> pg_policy gap = [] \<or> pg_resource gap = []
      then Gap_Refused ''cloud, policy, and resource are required''
      else let key = ''| `'' @ pg_policy gap @ ''` | `'' @ pg_resource gap @ ''` |''
        in append_row known policy_gap_header existing key (pg_cloud gap)
             (''| Policy | Resource | Scenario | Detail | First seen |'' @ nl @ ''|---|---|---|---|---|'' @ nl)
             (key @ '' '' @ pg_scenario gap @ '' | '' @ gap_cell known (pg_detail gap) @ '' | ''
               @ pg_timestamp gap @ '' |'' @ nl))"

subsection \<open>When a conflict is reported\<close>

lemma DetectPolicyConflict_names:
  "DetectPolicyConflict policy detail hcl pitfalls cloud scenario timestamp = Some g \<Longrightarrow>
     pg_resource g = extractRegoResource detail \<and> pg_policy g \<noteq> [] \<and> pg_resource g \<noteq> [] \<and> pg_cloud g = cloud
     \<and> (\<exists>p \<in> set pitfalls. pe_resource p = pg_resource g
          \<and> hclContainsAllKeywords hcl (extractKeywords (pe_rule p)))"
  by (auto simp: DetectPolicyConflict_def Let_def list_ex_iff split: if_splits)

text \<open>A conflict that was detected is one the register takes, for any cloud that is named.\<close>

lemma detected_gap_is_accepted:
  assumes "DetectPolicyConflict policy detail hcl pitfalls cloud scenario timestamp = Some g"
    and "cloud \<noteq> []" and "docs \<noteq> []"
  shows "AppendPolicyGap known docs existing g \<noteq> Gap_Refused e"
  using DetectPolicyConflict_names [OF assms(1)] assms(2,3)
  by (auto simp: AppendPolicyGap_def append_row_def Let_def)

end
