(* ===== verification/Run_Lessons.thy ===== *)
theory Run_Lessons
  imports Policy_Gap Orphans Teardown
begin

text \<open>
  What a run learns: the learner paths of \<^verbatim>\<open>cli/run_command.go\<close>. A failure is routed; what may be
  learned from it goes to the corpus, a gap of the mock to the register of gaps. The three writers
  are the self-correction of a run that reached its target, the harvest of one that got stuck or ran
  out of budget, and the comparison of neighbouring iterations.

  The notebook is everything these paths write: the corpus with its ledger, and the two registers.
  \<open>None\<close> is the run-time panic of \<open>gateRefusalMessage\<close>. The configurations of the iterations, the
  state of the mock and the clock are parameters; log entries are not modelled.
\<close>

subsection \<open>Failures of a run\<close>

record run_summary = failure_summary +
  fs_policy :: string
  fs_resource :: string
  fs_matches :: string
  fs_origin :: string
  fs_origin_stage :: string

definition own_failure :: "string \<Rightarrow> string \<Rightarrow> string \<Rightarrow> string \<Rightarrow> string \<Rightarrow> run_summary" where
  "own_failure layer name check command detail =
     \<lparr>fs_layer = layer, fs_stage = name, fs_check = check, fs_command = command, fs_detail = detail,
      fs_policy = [], fs_resource = [], fs_matches = [], fs_origin = [], fs_origin_stage = []\<rparr>"

definition toFeedbackFailure :: "run_summary \<Rightarrow> failure" where
  "toFeedbackFailure f = no_failure\<lparr>f_layer := fs_layer f, f_stage := fs_stage f, f_check := fs_check f,
     f_policy := fs_policy f, f_command := fs_command f, f_resource := fs_resource f,
     f_detail := fs_detail f, f_origin := fs_origin f, f_origin_stage := fs_origin_stage f\<rparr>"

definition toFeedbackFailures :: "run_summary list \<Rightarrow> failure list" where
  "toFeedbackFailures fs = map toFeedbackFailure fs"

definition failureLayer :: "failure \<Rightarrow> string" where
  "failureLayer f = (if f_origin f \<noteq> [] then f_origin f else f_layer f)"

definition learnKey :: "failure \<Rightarrow> string" where
  "learnKey f = failureLayer f @ ''|'' @ f_resource f @ ''|'' @ NormalizeDetail (f_detail f)"

definition routeLesson :: "failure \<Rightarrow> bool \<Rightarrow> (route \<times> string \<times> string) option" where
  "routeLesson f layer3 =
     map_option (\<lambda>(r, reason). (r, reason, LearnedLayer (f_origin f) (f_layer f) layer3))
       (RouteFailure (f_origin f) (f_origin_stage f) (f_detail f) layer3)"

definition pitfallResourceMatchesCloud :: "string \<Rightarrow> string \<Rightarrow> bool" where
  "pitfallResourceMatchesCloud resource cloud =
     (if cloud = [] \<or> resource = [] then True
      else if cloud = ''scaleway'' then has_prefix resource ''scaleway_''
      else if cloud = ''gcp'' then has_prefix resource ''google_''
      else if cloud = ''aws'' then has_prefix resource ''aws_''
      else if cloud = ''genesys'' then has_prefix resource ''genesyscloud_''
      else True)"

subsection \<open>The notebook\<close>

record notebook =
  nb_corpus :: corpus
  nb_gaps :: "string option"
  nb_policies :: "string option"

record lesson_env =
  le_known :: "string list"
  le_now :: int
  le_pitfalls :: string
  le_docs :: string
  le_cloud :: string
  le_scenario :: string
  le_run :: string
  le_layer3 :: bool
  le_root :: string
  le_read :: "string \<Rightarrow> tf_dir"

definition append_lesson :: "lesson_env \<Rightarrow> learned_pitfall \<Rightarrow> notebook \<Rightarrow> notebook" where
  "append_lesson env p nb =
     nb\<lparr>nb_corpus := snd (AppendPitfall (le_known env) (le_now env) (le_pitfalls env) (le_cloud env) p (nb_corpus nb))\<rparr>"

definition append_gap :: "lesson_env \<Rightarrow> mock_gap \<Rightarrow> notebook \<Rightarrow> notebook" where
  "append_gap env g nb =
     (case AppendMockGap (le_known env) (le_docs env) (nb_gaps nb) g of
        Gap_Written t \<Rightarrow> nb\<lparr>nb_gaps := Some t\<rparr> | _ \<Rightarrow> nb)"

definition append_policy_gap :: "lesson_env \<Rightarrow> policy_gap \<Rightarrow> notebook \<Rightarrow> notebook" where
  "append_policy_gap env g nb =
     (case AppendPolicyGap (le_known env) (le_docs env) (nb_policies nb) g of
        Gap_Written t \<Rightarrow> nb\<lparr>nb_policies := Some t\<rparr> | _ \<Rightarrow> nb)"

definition recordMockGap :: "lesson_env \<Rightarrow> string \<Rightarrow> notebook \<Rightarrow> notebook" where
  "recordMockGap env detail nb =
     append_gap env \<lparr>mg_cloud = le_cloud env, mg_signal = FirstMockSignal detail,
       mg_resource = extractResource detail, mg_scenario = le_scenario env, mg_detail = detail,
       mg_timestamp = le_run env\<rparr> nb"

text \<open>Whether the extractors may learn from a failure, and the layer a lesson is stamped with.\<close>

definition learnsFrom :: "lesson_env \<Rightarrow> failure \<Rightarrow> notebook \<Rightarrow> (string option \<times> notebook) option" where
  "learnsFrom env f nb =
     (case routeLesson f (le_layer3 env) of
        None \<Rightarrow> None
      | Some (RouteMockGap, _, _) \<Rightarrow> Some (None, recordMockGap env (f_detail f) nb)
      | Some (RouteSkip, _, _) \<Rightarrow> Some (None, nb)
      | Some (RouteLearn, _, layer) \<Rightarrow> Some (Some layer, nb))"

text \<open>A lesson is stamped and filed when its resource fits the cloud.\<close>

definition file_lesson :: "lesson_env \<Rightarrow> string \<Rightarrow> learned_pitfall option \<Rightarrow> notebook \<Rightarrow> notebook" where
  "file_lesson env layer lesson nb =
     (case lesson of
        None \<Rightarrow> nb
      | Some p \<Rightarrow>
          if pitfallResourceMatchesCloud (lp_resource p) (le_cloud env)
          then append_lesson env (p\<lparr>lp_layer := layer\<rparr>) nb else nb)"

definition learn_failure :: "lesson_env \<Rightarrow> failure \<Rightarrow> notebook \<Rightarrow> notebook option" where
  "learn_failure env f nb =
     (case learnsFrom env f nb of
        None \<Rightarrow> None
      | Some (None, nb1) \<Rightarrow> Some nb1
      | Some (Some layer, nb1) \<Rightarrow>
          map_option (\<lambda>lesson. file_lesson env layer lesson nb1)
            (extract_lesson (le_known env) (f_detail f) (le_scenario env)))"

fun fold_learn :: "('a \<Rightarrow> 's \<Rightarrow> 's option) \<Rightarrow> 'a list \<Rightarrow> 's \<Rightarrow> 's option" where
  "fold_learn f [] s = Some s"
| "fold_learn f (x # xs) s = (case f x s of None \<Rightarrow> None | Some s1 \<Rightarrow> fold_learn f xs s1)"

subsection \<open>The harvest of a run that did not pass\<close>

definition candidates_of :: "iteration_result list \<Rightarrow> failure list" where
  "candidates_of history = nub_by learnKey (concat (map ir_failures history))"

definition orphan_lessons :: "lesson_env \<Rightarrow> string \<Rightarrow> document \<Rightarrow> notebook \<Rightarrow> notebook" where
  "orphan_lessons env layer doc nb =
     (let r = ClassifyOrphans doc (le_cloud env) (le_scenario env) (le_run env)
      in fold (append_gap env) (or_gaps r)
           (fold (\<lambda>p. file_lesson env layer (Some p)) (or_pitfalls r) nb))"

definition orphaned :: "failure \<Rightarrow> bool" where
  "orphaned f \<longleftrightarrow> contains (to_lower (f_detail f)) ''orphaned resources''"

definition learn_orphans :: "lesson_env \<Rightarrow> (string + document) option \<Rightarrow> failure list \<Rightarrow> notebook \<Rightarrow> notebook option" where
  "learn_orphans env mock candidates nb =
     (case filter orphaned candidates of
        [] \<Rightarrow> Some nb
      | f # _ \<Rightarrow>
          (case learnsFrom env f nb of
             None \<Rightarrow> None
           | Some (None, nb1) \<Rightarrow> Some nb1
           | Some (Some layer, nb1) \<Rightarrow>
               Some (case mock of Some (Inr doc) \<Rightarrow> orphan_lessons env layer doc nb1 | _ \<Rightarrow> nb1)))"

definition iterationGeneratedDir :: "lesson_env \<Rightarrow> int \<Rightarrow> string" where
  "iterationGeneratedDir env i =
     (if i < 1 then []
      else le_root env @ ''/'' @ le_scenario env @ ''/'' @ le_run env @ ''/iterations/'' @ itoa i @ ''/generated'')"

definition entry_text :: "string \<times> tf_entry \<Rightarrow> string" where
  "entry_text e = (case e of (name, Text t) \<Rightarrow> if has_suffix name ''.tf'' then t @ nl else [] | _ \<Rightarrow> [])"

definition readLatestGeneratedHCL :: "lesson_env \<Rightarrow> int \<Rightarrow> string" where
  "readLatestGeneratedHCL env completed =
     (if completed < 1 then []
      else (case le_read env (iterationGeneratedDir env completed) of
              Dir_Entries es \<Rightarrow> concat (map entry_text es)
            | _ \<Rightarrow> []))"

definition learn_conflict :: "lesson_env \<Rightarrow> string \<Rightarrow> pitfall_entry list \<Rightarrow> failure \<Rightarrow> notebook \<Rightarrow> notebook" where
  "learn_conflict env hcl entries f nb =
     (case DetectPolicyConflict (f_policy f) (f_detail f) hcl entries (le_cloud env) (le_scenario env) (le_run env) of
        None \<Rightarrow> nb
      | Some g \<Rightarrow> append_policy_gap env g nb)"

definition learn_conflicts :: "lesson_env \<Rightarrow> int \<Rightarrow> failure list \<Rightarrow> notebook \<Rightarrow> notebook" where
  "learn_conflicts env completed candidates nb =
     (let entries = (case LoadPitfallEntries (nb_corpus nb) (le_pitfalls env) (le_cloud env) of
                       Inl _ \<Rightarrow> [] | Inr es \<Rightarrow> es)
      in fold (learn_conflict env (readLatestGeneratedHCL env completed) entries) candidates nb)"

definition harvest :: "lesson_env \<Rightarrow> (string + document) option \<Rightarrow> int \<Rightarrow> iteration_result list \<Rightarrow> notebook \<Rightarrow> notebook option" where
  "harvest env mock completed history nb =
     (let candidates = candidates_of history in
      case fold_learn (learn_failure env) candidates nb of
        None \<Rightarrow> None
      | Some nb1 \<Rightarrow> map_option (learn_conflicts env completed candidates) (learn_orphans env mock candidates nb1))"

subsection \<open>The lessons of a run that passed\<close>

definition learn_cleared :: "lesson_env \<Rightarrow> string \<Rightarrow> string \<Rightarrow> failure \<Rightarrow> notebook \<Rightarrow> notebook option" where
  "learn_cleared env failedDir passingDir f nb =
     (case learnsFrom env f nb of
        None \<Rightarrow> None
      | Some (None, nb1) \<Rightarrow> Some nb1
      | Some (Some layer, nb1) \<Rightarrow>
          let file = (\<lambda>r. case r of Inl _ \<Rightarrow> (\<lambda>n. n) | Inr lesson \<Rightarrow> file_lesson env layer lesson)
          in Some (file (ExtractAvoidPitfall (le_known env) (le_read env) failedDir passingDir
                       (f_detail f) (f_resource f) (le_scenario env))
               (file (ExtractFixPitfall (le_known env) (le_read env) failedDir passingDir
                       (f_detail f) (f_resource f) (le_scenario env)) nb1)))"

definition cleared :: "iteration_result \<Rightarrow> iteration_result \<Rightarrow> failure list" where
  "cleared before after = filter (\<lambda>f. learnKey f \<notin> learnKey ` set (ir_failures after)) (ir_failures before)"

definition learn_pair :: "lesson_env \<Rightarrow> iteration_result \<times> iteration_result \<Rightarrow> notebook \<Rightarrow> notebook option" where
  "learn_pair env pair nb =
     (case pair of (before, after) \<Rightarrow>
        fold_learn (learn_cleared env (iterationGeneratedDir env (ir_iteration before))
            (iterationGeneratedDir env (ir_iteration after))) (cleared before after) nb)"

definition prescriptive :: "lesson_env \<Rightarrow> iteration_result list \<Rightarrow> notebook \<Rightarrow> notebook option" where
  "prescriptive env history nb = fold_learn (learn_pair env) (zip history (tl history)) nb"

text \<open>
  What a run learns, given how it ended. \<open>previous\<close> are the failures of the iteration before the
  passing one; the self-correction runs in the loop, before the terminal passes.
\<close>

definition lessons_of_run :: "lesson_env \<Rightarrow> (string + document) option \<Rightarrow> string \<Rightarrow> int \<Rightarrow> failure list
    \<Rightarrow> iteration_result list \<Rightarrow> notebook \<Rightarrow> notebook option" where
  "lessons_of_run env mock reason completed previous history nb =
     (if reason = ''target_reached'' then
        (case (if completed > 1 then fold_learn (learn_failure env) previous nb else Some nb) of
           None \<Rightarrow> None
         | Some nb1 \<Rightarrow> prescriptive env history nb1)
      else if reason = ''repair_budget_exhausted'' \<or> reason = ''stuck''
      then harvest env mock completed history nb
      else Some nb)"

subsection \<open>What may have been written\<close>

text \<open>
  The corpus after any number of appends of lessons that satisfy \<open>ok\<close>.
\<close>

inductive taught :: "lesson_env \<Rightarrow> (learned_pitfall \<Rightarrow> bool) \<Rightarrow> corpus \<Rightarrow> corpus \<Rightarrow> bool"
  for env :: lesson_env and ok :: "learned_pitfall \<Rightarrow> bool"
where
  untaught: "taught env ok c c"
| lesson: "taught env ok c d \<Longrightarrow> ok p \<Longrightarrow>
     taught env ok c (snd (AppendPitfall (le_known env) (le_now env) (le_pitfalls env) (le_cloud env) p d))"

lemma taught_trans: "taught env ok d e \<Longrightarrow> taught env ok c d \<Longrightarrow> taught env ok c e"
  by (induction rule: taught.induct) (auto intro: taught.lesson)

lemma taught_mono: "taught env ok c d \<Longrightarrow> (\<And>p. ok p \<Longrightarrow> ok2 p) \<Longrightarrow> taught env ok2 c d"
  by (induction rule: taught.induct) (auto intro: taught.intros)

lemma taught_other_files: "taught env ok c d \<Longrightarrow> x \<noteq> le_cloud env \<Longrightarrow> cp_files d x = cp_files c x"
proof (induction rule: taught.induct)
  case (lesson c d p)
  let ?r = "AppendPitfall (le_known env) (le_now env) (le_pitfalls env) (le_cloud env) p d"
  from AppendPitfall_adds [where known = "le_known env" and now = "le_now env" and dir = "le_pitfalls env"
      and cloud = "le_cloud env" and p = p and c = d] lesson
  show ?case by (auto split: prod.splits)
qed simp

text \<open>A lesson rests on a failure the router lets teach, carries its layer, and fits the cloud.\<close>

definition teaches :: "lesson_env \<Rightarrow> failure list \<Rightarrow> learned_pitfall \<Rightarrow> bool" where
  "teaches env fs p \<longleftrightarrow> pitfallResourceMatchesCloud (lp_resource p) (le_cloud env)
     \<and> list_ex (\<lambda>f. case routeLesson f (le_layer3 env) of
          Some (RouteLearn, _, layer) \<Rightarrow> lp_layer p = layer | _ \<Rightarrow> False) fs"

lemma teaches_mono: "teaches env fs p \<Longrightarrow> set fs \<subseteq> set gs \<Longrightarrow> teaches env gs p"
  by (auto simp: teaches_def list_ex_iff)

lemma append_gap_corpus [simp]: "nb_corpus (append_gap env g nb) = nb_corpus nb"
  by (simp add: append_gap_def split: gap_write.splits)

lemma append_policy_gap_corpus [simp]: "nb_corpus (append_policy_gap env g nb) = nb_corpus nb"
  by (simp add: append_policy_gap_def split: gap_write.splits)

lemma fold_gap_corpus [simp]: "nb_corpus (fold (append_gap env) gs nb) = nb_corpus nb"
  by (induction gs arbitrary: nb) simp_all

lemma learn_conflicts_corpus [simp]: "nb_corpus (learn_conflicts env i fs nb) = nb_corpus nb"
proof -
  have "nb_corpus (fold (learn_conflict env hcl es) fs nb) = nb_corpus nb" for hcl es
    by (induction fs arbitrary: nb) (simp_all add: learn_conflict_def split: option.splits)
  then show ?thesis by (simp add: learn_conflicts_def)
qed

lemma learnsFrom_corpus:
  "learnsFrom env f nb = Some (layer, nb1) \<Longrightarrow> nb_corpus nb1 = nb_corpus nb"
  by (auto simp: learnsFrom_def recordMockGap_def split: option.splits route.splits)

lemma taught_wider:
  "taught env (teaches env fs) c d \<Longrightarrow> set fs \<subseteq> set gs \<Longrightarrow> taught env (teaches env gs) c d"
  by (erule taught_mono) (erule teaches_mono)

lemma learnsFrom_layer:
  "learnsFrom env f nb = Some (Some layer, nb1) \<Longrightarrow> pitfallResourceMatchesCloud (lp_resource p) (le_cloud env)
     \<Longrightarrow> teaches env [f] (p\<lparr>lp_layer := layer\<rparr>)"
  by (auto simp: learnsFrom_def teaches_def split: option.splits route.splits)

lemma file_lesson_taught:
  "learnsFrom env f nb0 = Some (Some layer, nb1) \<Longrightarrow>
     taught env (teaches env [f]) (nb_corpus nb) (nb_corpus (file_lesson env layer lesson nb))"
  by (auto simp: file_lesson_def append_lesson_def intro: taught.intros learnsFrom_layer split: option.splits)

lemma learn_failure_taught:
  "learn_failure env f nb = Some nb' \<Longrightarrow> taught env (teaches env [f]) (nb_corpus nb) (nb_corpus nb')"
proof -
  assume a: "learn_failure env f nb = Some nb'"
  then obtain o1 nb1 where lf: "learnsFrom env f nb = Some (o1, nb1)"
    by (auto simp: learn_failure_def split: option.splits)
  note eq = learnsFrom_corpus [OF lf]
  show ?thesis
  proof (cases o1)
    case None
    with a lf have "nb' = nb1" by (simp add: learn_failure_def)
    with eq show ?thesis by (simp add: taught.untaught)
  next
    case (Some layer)
    with a lf obtain lesson where "nb' = file_lesson env layer lesson nb1"
      by (auto simp: learn_failure_def)
    with file_lesson_taught [of env f nb layer nb1 nb1 lesson] lf Some eq show ?thesis by simp
  qed
qed

lemma fold_learn_taught:
  assumes "\<And>x s s'. x \<in> set xs \<Longrightarrow> f x s = Some s' \<Longrightarrow> taught env ok (nb_corpus s) (nb_corpus s')"
  shows "fold_learn f xs nb = Some nb' \<Longrightarrow> taught env ok (nb_corpus nb) (nb_corpus nb')"
  using assms
proof (induction xs arbitrary: nb)
  case (Cons x xs)
  then obtain s where s: "f x nb = Some s" "fold_learn f xs s = Some nb'" by (auto split: option.splits)
  have "taught env ok (nb_corpus s) (nb_corpus nb')"
    using Cons.IH [OF s(2) Cons.prems(2) [OF list.set_intros(2)]] by simp
  moreover have "taught env ok (nb_corpus nb) (nb_corpus s)"
    using Cons.prems(2) [OF _ s(1)] by simp
  ultimately show ?case by (rule taught_trans)
qed (simp add: taught.untaught)

lemma fold_failures_taught:
  assumes "\<And>f s s'. f \<in> set fs \<Longrightarrow> step f s = Some s' \<Longrightarrow> taught env (teaches env [f]) (nb_corpus s) (nb_corpus s')"
    and "fold_learn step fs nb = Some nb'" and "set fs \<subseteq> set gs"
  shows "taught env (teaches env gs) (nb_corpus nb) (nb_corpus nb')"
proof (rule fold_learn_taught [OF _ assms(2)])
  fix f s s'
  assume f: "f \<in> set fs" and "step f s = Some s'"
  then have "taught env (teaches env [f]) (nb_corpus s) (nb_corpus s')" by (rule assms(1))
  moreover have "set [f] \<subseteq> set gs" using f assms(3) by auto
  ultimately show "taught env (teaches env gs) (nb_corpus s) (nb_corpus s')"
    by (blast intro: taught_mono teaches_mono)
qed

lemma learn_cleared_taught:
  "learn_cleared env d1 d2 f nb = Some nb' \<Longrightarrow> taught env (teaches env [f]) (nb_corpus nb) (nb_corpus nb')"
proof -
  assume a: "learn_cleared env d1 d2 f nb = Some nb'"
  then obtain o1 nb1 where lf: "learnsFrom env f nb = Some (o1, nb1)"
    by (auto simp: learn_cleared_def split: option.splits)
  have filed: "taught env (teaches env [f]) (nb_corpus n)
      (nb_corpus ((case r of Inl _ \<Rightarrow> (\<lambda>n. n) | Inr lesson \<Rightarrow> file_lesson env layer lesson) n))"
    if "o1 = Some layer" for layer n and r :: "string + learned_pitfall option"
    using lf that by (auto intro: taught.untaught file_lesson_taught split: sum.splits)
  note eq = learnsFrom_corpus [OF lf]
  show ?thesis
  proof (cases o1)
    case None
    with a lf have "nb' = nb1" by (simp add: learn_cleared_def)
    with eq show ?thesis by (simp add: taught.untaught)
  next
    case (Some layer)
    let ?file = "\<lambda>r. case r of Inl _ \<Rightarrow> (\<lambda>n. n) | Inr lesson \<Rightarrow> file_lesson env layer lesson"
    let ?r1 = "ExtractFixPitfall (le_known env) (le_read env) d1 d2 (f_detail f) (f_resource f) (le_scenario env)"
    let ?r2 = "ExtractAvoidPitfall (le_known env) (le_read env) d1 d2 (f_detail f) (f_resource f) (le_scenario env)"
    from a lf Some have "nb' = ?file ?r2 (?file ?r1 nb1)"
      by (auto simp: learn_cleared_def Let_def)
    with taught_trans [OF filed [OF Some, of "?file ?r1 nb1" ?r2] filed [OF Some, of nb1 ?r1]] eq
    show ?thesis by simp
  qed
qed

lemma orphan_lessons_taught:
  "learnsFrom env f nb0 = Some (Some layer, nb1) \<Longrightarrow>
     taught env (teaches env [f]) (nb_corpus nb) (nb_corpus (orphan_lessons env layer doc nb))"
proof -
  assume lf: "learnsFrom env f nb0 = Some (Some layer, nb1)"
  have "taught env (teaches env [f]) (nb_corpus nb)
      (nb_corpus (fold (\<lambda>p. file_lesson env layer (Some p)) ps nb))" for ps
  proof (induction ps arbitrary: nb)
    case (Cons p ps)
    from taught_trans [OF Cons.IH file_lesson_taught [OF lf, of nb "Some p"]] show ?case by simp
  qed (simp add: taught.untaught)
  then show ?thesis by (simp add: orphan_lessons_def Let_def)
qed

lemma learn_orphans_taught:
  assumes "learn_orphans env mock fs nb = Some nb'"
  shows "taught env (teaches env fs) (nb_corpus nb) (nb_corpus nb')"
proof (cases "filter orphaned fs")
  case Nil
  with assms show ?thesis by (simp add: learn_orphans_def taught.untaught)
next
  case (Cons f rest)
  then have "f \<in> set (filter orphaned fs)" by simp
  then have sub: "set [f] \<subseteq> set fs" by simp
  from assms Cons obtain o1 nb1 where lf: "learnsFrom env f nb = Some (o1, nb1)"
    by (auto simp: learn_orphans_def split: option.splits)
  note eq = learnsFrom_corpus [OF lf]
  have "taught env (teaches env [f]) (nb_corpus nb) (nb_corpus nb')"
  proof (cases o1)
    case None
    with assms Cons lf have "nb' = nb1" by (simp add: learn_orphans_def)
    with eq show ?thesis by (simp add: taught.untaught)
  next
    case (Some layer)
    with assms Cons lf have "nb' = (case mock of Some (Inr doc) \<Rightarrow> orphan_lessons env layer doc nb1 | _ \<Rightarrow> nb1)"
      by (simp add: learn_orphans_def)
    with orphan_lessons_taught [of env f nb layer nb1 nb1] lf Some eq show ?thesis
      by (auto intro: taught.untaught split: option.splits sum.splits)
  qed
  then show ?thesis by (rule taught_wider [OF _ sub])
qed

lemma set_candidates: "set (candidates_of history) \<subseteq> set (concat (map ir_failures history))"
  unfolding candidates_of_def by (rule set_nub_by)

lemma harvest_taught:
  assumes "harvest env mock completed history nb = Some nb'"
  shows "taught env (teaches env (concat (map ir_failures history))) (nb_corpus nb) (nb_corpus nb')"
proof -
  let ?fs = "candidates_of history" and ?gs = "concat (map ir_failures history)"
  from assms obtain nb1 nb2 where
    h: "fold_learn (learn_failure env) ?fs nb = Some nb1" "learn_orphans env mock ?fs nb1 = Some nb2"
    "nb' = learn_conflicts env completed ?fs nb2"
    by (auto simp: harvest_def Let_def split: option.splits)
  have "taught env (teaches env ?gs) (nb_corpus nb) (nb_corpus nb1)"
    by (rule fold_failures_taught [OF learn_failure_taught h(1) set_candidates])
  moreover have "taught env (teaches env ?gs) (nb_corpus nb1) (nb_corpus nb2)"
    by (rule taught_wider [OF learn_orphans_taught [OF h(2)] set_candidates])
  ultimately have "taught env (teaches env ?gs) (nb_corpus nb) (nb_corpus nb2)"
    by (rule taught_trans [rotated])
  with h(3) show ?thesis by simp
qed

lemma prescriptive_taught:
  assumes "prescriptive env history nb = Some nb'"
  shows "taught env (teaches env (concat (map ir_failures history))) (nb_corpus nb) (nb_corpus nb')"
proof (rule fold_learn_taught [OF _ assms [unfolded prescriptive_def]])
  fix pair s s'
  assume pair: "pair \<in> set (zip history (tl history))" and step: "learn_pair env pair s = Some s'"
  obtain before after where ba: "pair = (before, after)" by fastforce
  with pair have "before \<in> set history" by (metis in_set_zipE)
  then have "set (cleared before after) \<subseteq> set (concat (map ir_failures history))"
    by (auto simp: cleared_def)
  with step ba show "taught env (teaches env (concat (map ir_failures history))) (nb_corpus s) (nb_corpus s')"
    by (intro fold_failures_taught [OF learn_cleared_taught]) (simp_all add: learn_pair_def)
qed

subsection \<open>When the learners panic\<close>

definition panics :: "failure \<Rightarrow> bool" where
  "panics f \<longleftrightarrow> gateRefusalMessage (f_detail f) = None"

lemma learnsFrom_panics: "learnsFrom env f nb = None \<longleftrightarrow> panics f"
  by (auto simp: learnsFrom_def routeLesson_def RouteFailure_def panics_def
      split: option.splits prod.splits route.splits)

lemma extract_lesson_panics: "extract_lesson known (f_detail f) scenario = None \<longleftrightarrow> panics f"
  by (simp add: extract_lesson_def ExtractGatePitfall_def panics_def)

lemma learn_failure_panics: "learn_failure env f nb = None \<Longrightarrow> panics f"
  by (auto simp: learn_failure_def learnsFrom_panics extract_lesson_panics split: option.splits)

lemma learn_cleared_panics: "learn_cleared env d1 d2 f nb = None \<Longrightarrow> panics f"
  by (auto simp: learn_cleared_def learnsFrom_panics Let_def split: option.splits)

lemma fold_learn_None:
  assumes "fold_learn f xs s = None"
  obtains x u where "x \<in> set xs" and "f x u = None"
  using assms by (induction xs arbitrary: s) (auto split: option.splits)

lemma fold_learn_panics:
  assumes "fold_learn step fs nb = None" and "\<And>f u. step f u = None \<Longrightarrow> panics f" and "set fs \<subseteq> set gs"
  shows "list_ex panics gs"
  using fold_learn_None [OF assms(1)] assms(2,3) by (metis list_ex_iff subsetD)

lemma learn_orphans_panics:
  assumes "learn_orphans env mock fs nb = None"
  shows "list_ex panics fs"
proof (cases "filter orphaned fs")
  case Nil
  with assms show ?thesis by (simp add: learn_orphans_def)
next
  case (Cons f rest)
  with assms have "panics f" by (auto simp: learn_orphans_def learnsFrom_panics split: option.splits)
  moreover from Cons have "f \<in> set (filter orphaned fs)" by simp
  ultimately show ?thesis by (auto simp: list_ex_iff)
qed

lemma harvest_panics:
  assumes "harvest env mock completed history nb = None"
  shows "list_ex panics (concat (map ir_failures history))"
proof (cases "fold_learn (learn_failure env) (candidates_of history) nb")
  case None
  then show ?thesis by (rule fold_learn_panics [OF _ learn_failure_panics set_candidates])
next
  case (Some nb1)
  with assms have "learn_orphans env mock (candidates_of history) nb1 = None"
    by (simp add: harvest_def Let_def)
  then have "list_ex panics (candidates_of history)" by (rule learn_orphans_panics)
  then show ?thesis using set_candidates [of history] unfolding list_ex_iff by blast
qed

lemma prescriptive_panics:
  assumes "prescriptive env history nb = None"
  shows "list_ex panics (concat (map ir_failures history))"
proof -
  from assms obtain pair u where pair: "pair \<in> set (zip history (tl history))"
    and step: "learn_pair env pair u = None"
    unfolding prescriptive_def by (rule fold_learn_None)
  obtain before after where ba: "pair = (before, after)" by fastforce
  with pair have "before \<in> set history" by (metis in_set_zipE)
  then have sub: "set (cleared before after) \<subseteq> set (concat (map ir_failures history))"
    by (auto simp: cleared_def)
  from step show ?thesis
    unfolding ba learn_pair_def prod.case by (rule fold_learn_panics [OF _ learn_cleared_panics sub])
qed

text \<open>
  C23. A run files a lesson only on evidence the router lets teach: every lesson that enters the corpus
  comes from a failure of the run, is stamped with the layer that failure came from and names a
  resource of the scenario's cloud; no other cloud's file changes; a run that ended for any other
  reason (interrupted, a failed holdout, drift, an unavailable mock, a kept claim) writes nothing. The
  learners panic only on a failure whose gate refusal cannot be cut.
\<close>

theorem lessons_of_run_evidence:
  "case lessons_of_run env mock reason completed previous history nb of
     None \<Rightarrow> list_ex panics (previous @ concat (map ir_failures history))
   | Some nb' \<Rightarrow>
       taught env (teaches env (previous @ concat (map ir_failures history))) (nb_corpus nb) (nb_corpus nb')
       \<and> (\<forall>x. x = le_cloud env \<or> cp_files (nb_corpus nb') x = cp_files (nb_corpus nb) x)
       \<and> (reason = ''target_reached'' \<or> reason = ''repair_budget_exhausted'' \<or> reason = ''stuck'' \<or> nb' = nb)"
proof (cases "lessons_of_run env mock reason completed previous history nb")
  case None
  have "list_ex panics (previous @ concat (map ir_failures history))"
  proof (cases "reason = ''target_reached''")
    case True
    show ?thesis
    proof (cases "fold_learn (learn_failure env) previous nb")
      case None
      then show ?thesis by (rule fold_learn_panics [OF _ learn_failure_panics]) auto
    next
      case (Some nb1)
      with None True obtain nb2 where "prescriptive env history nb2 = None"
        by (auto simp: lessons_of_run_def split: if_splits)
      then show ?thesis by (simp add: prescriptive_panics)
    qed
  next
    case False
    with None have "harvest env mock completed history nb = None"
      by (auto simp: lessons_of_run_def split: if_splits)
    then show ?thesis by (simp add: harvest_panics)
  qed
  with None show ?thesis by simp
next
  case (Some nb')
  let ?gs = "previous @ concat (map ir_failures history)"
  have sub: "set (concat (map ir_failures history)) \<subseteq> set ?gs" by simp
  have taught: "taught env (teaches env ?gs) (nb_corpus nb) (nb_corpus nb')"
  proof (cases "reason = ''target_reached''")
    case True
    then obtain nb1 where nb1: "(if completed > 1 then fold_learn (learn_failure env) previous nb else Some nb) = Some nb1"
      "prescriptive env history nb1 = Some nb'"
      using Some by (auto simp: lessons_of_run_def split: option.splits)
    have "taught env (teaches env ?gs) (nb_corpus nb) (nb_corpus nb1)"
    proof (cases "completed > 1")
      case True
      with nb1(1) have fl: "fold_learn (learn_failure env) previous nb = Some nb1" by simp
      show ?thesis by (rule fold_failures_taught [OF learn_failure_taught fl]) auto
    qed (use nb1(1) in \<open>simp add: taught.untaught\<close>)
    with taught_wider [OF prescriptive_taught [OF nb1(2)] sub] show ?thesis by (rule taught_trans)
  next
    case False
    show ?thesis
    proof (cases "nb' = nb")
      case True
      then show ?thesis by (simp add: taught.untaught)
    next
      case changed: False
      with Some False have "harvest env mock completed history nb = Some nb'"
        by (simp add: lessons_of_run_def split: if_splits)
      then show ?thesis by (rule taught_wider [OF harvest_taught sub])
    qed
  qed
  moreover have "x = le_cloud env \<or> cp_files (nb_corpus nb') x = cp_files (nb_corpus nb) x" for x
    using taught_other_files [OF taught] by blast
  moreover have "reason = ''target_reached'' \<or> reason = ''repair_budget_exhausted'' \<or> reason = ''stuck'' \<or> nb' = nb"
    using Some by (auto simp: lessons_of_run_def split: if_splits)
  ultimately show ?thesis using Some by simp
qed

end
