(* ===== verification/Run_Iteration.thy ===== *)
theory Run_Iteration
  imports Run_Lessons
begin

text \<open>
  One iteration of the run loop, \<^verbatim>\<open>cli/run_command.go\<close>: generate, validate and test in order, the first
  error ending the iteration, and what of a step's report the run carries up. The steps themselves
  are services over a world \<open>'s\<close>, about which nothing is assumed; a generated configuration is \<open>'g\<close>.
\<close>

subsection \<open>Names of stages\<close>

definition iterationStage :: "int \<Rightarrow> string \<Rightarrow> string" where
  "iterationStage i name = ''iteration_'' @ itoa i @ ''_'' @ name"

definition holdoutCheckName :: string where "holdoutCheckName = ''holdout''"
definition convergeCheckName :: string where "convergeCheckName = ''idempotent''"
definition StageAWSScopeClaimKept :: string where "StageAWSScopeClaimKept = ''aws_scope_claim_kept''"

definition hasHoldoutFailure :: "run_summary list \<Rightarrow> bool" where
  "hasHoldoutFailure fs \<longleftrightarrow> list_ex (\<lambda>f. fs_check f = holdoutCheckName) fs"

definition hasConvergeFailure :: "run_summary list \<Rightarrow> bool" where
  "hasConvergeFailure fs \<longleftrightarrow> list_ex (\<lambda>f. fs_check f = convergeCheckName) fs"

definition isMockResetFailure :: "run_summary \<Rightarrow> bool" where
  "isMockResetFailure f \<longleftrightarrow> fs_origin f = ''mock_deploy'' \<and> fs_check f = ''reset''"

definition holdoutStages :: "stage_summary list \<Rightarrow> int \<Rightarrow> stage_summary list" where
  "holdoutStages stages i =
     map (\<lambda>s. s\<lparr>sm_stage := iterationStage i (sm_stage s)\<rparr>) (filter (\<lambda>s. sm_layer s = ''holdout'') stages)"

definition holdoutStageName :: "string \<Rightarrow> string" where
  "holdoutStageName name =
     (if has_prefix name ''iteration_'' then
        let rest = drop 10 name in
        (case str_index rest ''_'' of
           None \<Rightarrow> name
         | Some k \<Rightarrow> if atoi (take k rest) = None then name else drop (Suc k) rest)
      else name)"

definition HoldoutPass :: string where "HoldoutPass = ''pass''"
definition HoldoutFail :: string where "HoldoutFail = ''fail''"

text \<open>The verdict of the holdout stages: the first failure decides.\<close>

fun outcome_from :: "string \<Rightarrow> stage_summary list \<Rightarrow> string" where
  "outcome_from acc [] = acc"
| "outcome_from acc (s # ss) =
     (if sm_layer s \<noteq> ''holdout'' then outcome_from acc ss
      else if holdoutStageName (sm_stage s) = ''discovery'' \<or> holdoutStageName (sm_stage s) = ''skipped''
      then outcome_from acc ss
      else if sm_status s = StageStatusFail then HoldoutFail
      else outcome_from (if sm_status s = StageStatusPass then HoldoutPass else acc) ss)"

definition holdoutOutcome :: "stage_summary list \<Rightarrow> string" where
  "holdoutOutcome stages = outcome_from [] stages"

definition runStageName :: "string \<Rightarrow> string \<Rightarrow> int \<Rightarrow> layer3_cloud \<Rightarrow> string option" where
  "runStageName layer name i cloud =
     (if has_prefix name ''aws_scope_'' then Some name
      else if cloud = layer3AWS \<and> layer = ''sandbox_deploy'' \<and> name \<noteq> ''run'' then Some (iterationStage i name)
      else None)"

definition awsDetailStages :: "string list" where
  "awsDetailStages = [''apply'', ''account_check'', ''user_data_check'', ''real_probe'']"

text \<open>A carried stage under its run name, its detail dropped unless it is one of the few kept.\<close>

definition carried :: "int \<Rightarrow> layer3_cloud \<Rightarrow> stage_summary \<Rightarrow> stage_summary option" where
  "carried i cloud s =
     map_option (\<lambda>name. s\<lparr>sm_stage := name,
         sm_detail := (if name \<noteq> sm_stage s \<and> sm_stage s \<notin> set awsDetailStages then [] else sm_detail s)\<rparr>)
       (runStageName (sm_layer s) (sm_stage s) i cloud)"

text \<open>The stages carried up, and the run names of the fail lines among them; a later line wins.\<close>

definition awsRunStages :: "stage_summary list \<Rightarrow> int \<Rightarrow> layer3_cloud
    \<Rightarrow> stage_summary list \<times> (string \<times> string \<rightharpoonup> string)" where
  "awsRunStages stages i cloud =
     (concat (map (\<lambda>s. case carried i cloud s of None \<Rightarrow> [] | Some t \<Rightarrow> [t]) stages),
      map_of (rev (concat (map (\<lambda>s. case carried i cloud s of
          None \<Rightarrow> []
        | Some t \<Rightarrow> if sm_status s = StageStatusFail then [((sm_layer s, sm_stage s), sm_stage t)] else []) stages))))"

definition runFailureStage :: "run_summary \<Rightarrow> (string \<times> string \<rightharpoonup> string) \<Rightarrow> string option" where
  "runFailureStage f failLines = failLines (fs_layer f, fs_stage f)"

subsection \<open>A step and its report\<close>

record step_result =
  tr_stages :: "stage_summary list"
  tr_failures :: "run_summary list"

definition no_result :: step_result where
  "no_result = \<lparr>tr_stages = [], tr_failures = []\<rparr>"

definition lifted_failure :: "string \<Rightarrow> string \<Rightarrow> (string \<times> string \<rightharpoonup> string) \<Rightarrow> run_summary \<Rightarrow> run_summary" where
  "lifted_failure name command failLines f =
     (let (layer, st) = (case runFailureStage f failLines of
            None \<Rightarrow> (''run'', name) | Some n \<Rightarrow> (fs_layer f, n))
      in \<lparr>fs_layer = layer, fs_stage = st, fs_check = fs_check f, fs_command = command,
          fs_detail = fs_detail f, fs_policy = fs_policy f, fs_resource = fs_resource f, fs_matches = [],
          fs_origin = fs_layer f, fs_origin_stage = fs_stage f\<rparr>)"

definition step_report :: "int \<Rightarrow> layer3_cloud \<Rightarrow> string \<Rightarrow> step_result \<Rightarrow> string option
    \<Rightarrow> stage_summary list \<times> run_summary list" where
  "step_report i cloud name tr err =
     (let nm = iterationStage i name; (up, failLines) = awsRunStages (tr_stages tr) i cloud;
          tail = holdoutStages (tr_stages tr) i @ up
      in case err of
           None \<Rightarrow> (stage ''run'' nm StageStatusPass [] # tail, [])
         | Some e \<Rightarrow>
             (stage ''run'' nm StageStatusFail [] # tail,
              if (name = ''test'' \<or> name = ''validate'') \<and> tr_failures tr \<noteq> []
              then map (lifted_failure nm name failLines) (tr_failures tr)
              else [own_failure ''run'' nm name name e]))"

subsection \<open>The services of an iteration\<close>

record ('s, 'g) run_services =
  sv_generate :: "run_summary list \<Rightarrow> int \<Rightarrow> 's \<Rightarrow> ((string \<times> 'g option) + 'g) \<times> 's"
  sv_write_generated :: "'g \<Rightarrow> 's \<Rightarrow> string option \<times> 's"
  sv_write_iteration :: "int \<Rightarrow> 'g \<Rightarrow> 's \<Rightarrow> string option \<times> 's"
  sv_write_raw :: "int \<Rightarrow> 'g \<Rightarrow> 's \<Rightarrow> string option \<times> 's"
  sv_validate :: "int \<Rightarrow> 's \<Rightarrow> (step_result \<times> string \<times> string option) \<times> 's"
  sv_write_plan :: "string \<Rightarrow> 's \<Rightarrow> string option \<times> 's"
  sv_test :: "int \<Rightarrow> 's \<Rightarrow> (step_result \<times> string \<times> string option) \<times> 's"
  sv_write_plan_live :: "int \<Rightarrow> string \<Rightarrow> 's \<Rightarrow> string option \<times> 's"
  sv_persist :: "int \<Rightarrow> stage_summary list \<Rightarrow> run_summary list \<Rightarrow> 's \<Rightarrow> string option \<times> 's"
  sv_match :: "'g \<Rightarrow> run_summary \<Rightarrow> string option"
  sv_interrupted :: "'s \<Rightarrow> bool"
  sv_capture_raw :: bool

text \<open>Writing the artifacts of a generation, each only when nothing failed before.\<close>

definition store_generated :: "('s, 'g) run_services \<Rightarrow> int \<Rightarrow> 'g \<Rightarrow> 's \<Rightarrow> string option \<times> 's" where
  "store_generated sv i g w =
     (case sv_write_generated sv g w of
        (Some e, w1) \<Rightarrow> (Some e, w1)
      | (None, w1) \<Rightarrow>
          (case sv_write_iteration sv i g w1 of
             (Some e, w2) \<Rightarrow> (Some e, w2)
           | (None, w2) \<Rightarrow> if sv_capture_raw sv then sv_write_raw sv i g w2 else (None, w2)))"

definition generate_step :: "('s, 'g) run_services \<Rightarrow> run_summary list \<Rightarrow> int \<Rightarrow> 's
    \<Rightarrow> (string option \<times> 'g option) \<times> 's" where
  "generate_step sv shown i w =
     (case sv_generate sv shown i w of
        (Inl (e, g), w1) \<Rightarrow> ((Some e, g), w1)
      | (Inr g, w1) \<Rightarrow> (case store_generated sv i g w1 of (e, w2) \<Rightarrow> ((e, Some g), w2)))"

text \<open>A plan is written whenever there is one; its error counts only when the step had none.\<close>

definition keep_plan :: "(string \<Rightarrow> 's \<Rightarrow> string option \<times> 's) \<Rightarrow> (step_result \<times> string \<times> string option) \<times> 's
    \<Rightarrow> (step_result \<times> string option) \<times> 's" where
  "keep_plan write r =
     (case r of ((tr, plan, err), w) \<Rightarrow>
        if plan = [] then ((tr, err), w)
        else (case write plan w of (we, w1) \<Rightarrow> ((tr, if err = None then we else err), w1)))"

record ('s, 'g) iteration =
  it_stages :: "stage_summary list"
  it_failures :: "run_summary list"
  it_generated :: "'g option"
  it_world :: 's

definition runIteration :: "('s, 'g) run_services \<Rightarrow> layer3_cloud \<Rightarrow> run_summary list \<Rightarrow> int \<Rightarrow> 's
    \<Rightarrow> ('s, 'g) iteration" where
  "runIteration sv cloud shown i w =
     (case generate_step sv shown i w of
        ((err1, g), w1) \<Rightarrow>
          let (st1, f1) = step_report i cloud ''generate'' no_result err1 in
          if err1 \<noteq> None then \<lparr>it_stages = st1, it_failures = f1, it_generated = g, it_world = w1\<rparr>
          else (case keep_plan (sv_write_plan sv) (sv_validate sv i w1) of
                  ((tr2, err2), w2) \<Rightarrow>
                    let (st2, f2) = step_report i cloud ''validate'' tr2 err2 in
                    if err2 \<noteq> None
                    then \<lparr>it_stages = st1 @ st2, it_failures = f1 @ f2, it_generated = g, it_world = w2\<rparr>
                    else (case keep_plan (sv_write_plan_live sv i) (sv_test sv i w2) of
                            ((tr3, err3), w3) \<Rightarrow>
                              let (st3, f3) = step_report i cloud ''test'' tr3 err3 in
                              \<lparr>it_stages = st1 @ st2 @ st3, it_failures = f1 @ f2 @ f3,
                               it_generated = g, it_world = w3\<rparr>)))"

text \<open>Each failure is matched against the rules the prompts carried; a match that fails leaves it.\<close>

definition recordPitfallUsage :: "('s, 'g) run_services \<Rightarrow> 'g option \<Rightarrow> run_summary list \<Rightarrow> run_summary list" where
  "recordPitfallUsage sv generated failures =
     (case generated of
        None \<Rightarrow> failures
      | Some g \<Rightarrow> map (\<lambda>f. case sv_match sv g f of None \<Rightarrow> f | Some m \<Rightarrow> f\<lparr>fs_matches := m\<rparr>) failures)"

subsection \<open>Names are undone\<close>

lemma nat_digits_not_Nil [simp]: "nat_digits n \<noteq> []"
  by (subst nat_digits.simps) simp

lemma atoi_itoa: "0 \<le> i \<Longrightarrow> i < 2 ^ 63 \<Longrightarrow> atoi (itoa i) = Some i"
proof -
  assume i: "0 \<le> i" "i < 2 ^ 63"
  then have it: "itoa i = nat_digits (nat i)" by (simp add: itoa_def)
  obtain c cs where c: "nat_digits (nat i) = c # cs" by (cases "nat_digits (nat i)") auto
  have dig: "list_all is_digit (c # cs)" using nat_digits_digits [of _ "nat i"] c by (auto simp: list_all_iff)
  then have "c \<noteq> CHR ''-''" "c \<noteq> CHR ''+''" by (auto simp: is_digit_def char_between_def)
  moreover have "digits_value (c # cs) = nat i" by (metis c digits_value_nat_digits)
  ultimately show ?thesis using i dig by (auto simp: atoi_def it c Let_def list_ex_iff list_all_iff)
qed

lemma itoa_no_underscore: "0 \<le> i \<Longrightarrow> CHR ''_'' \<notin> set (itoa i)"
proof
  assume "0 \<le> i" and "CHR ''_'' \<in> set (itoa i)"
  then have "is_digit CHR ''_''" using nat_digits_digits by (auto simp: itoa_def)
  then show False by (simp add: is_digit_def char_between_def)
qed

lemma str_index_sep: "c \<notin> set s \<Longrightarrow> str_index (s @ c # t) [c] = Some (length s)"
  by (induction s) (auto simp: has_prefix_def)

text \<open>The name a run gives a stage is undone by the reader, whatever the stage is called.\<close>

lemma holdoutStageName_iterationStage:
  assumes "0 \<le> i" and "i < 2 ^ 63"
  shows "holdoutStageName (iterationStage i name) = name"
proof -
  have "str_index (itoa i @ ''_'' @ name) ''_'' = Some (length (itoa i))"
    using str_index_sep [OF itoa_no_underscore [OF assms(1)]] by simp
  moreover have "iterationStage i name = ''iteration_'' @ (itoa i @ ''_'' @ name)"
    by (simp add: iterationStage_def)
  ultimately show ?thesis
    using atoi_itoa [OF assms] by (simp add: holdoutStageName_def has_prefix_def Let_def)
qed

subsection \<open>What the holdout said\<close>

definition holdout_verdict :: "stage_summary list \<Rightarrow> string" where
  "holdout_verdict stages =
     (let ran = filter (\<lambda>s. sm_layer s = ''holdout'' \<and> sm_stage s \<notin> {''discovery'', ''skipped''}) stages
      in if list_ex (\<lambda>s. sm_status s = StageStatusFail) ran then HoldoutFail
         else if list_ex (\<lambda>s. sm_status s = StageStatusPass) ran then HoldoutPass else [])"

lemma outcome_from_append:
  "outcome_from acc (xs @ ys) =
     (if outcome_from acc xs = HoldoutFail \<and> (acc \<noteq> HoldoutFail \<or> outcome_from [] xs = HoldoutFail)
      then HoldoutFail else outcome_from (outcome_from acc xs) ys)"
  if "acc \<noteq> HoldoutFail"
  using that by (induction xs arbitrary: acc) (auto simp: HoldoutFail_def HoldoutPass_def)

lemma verdicts_differ [simp]:
  "HoldoutPass \<noteq> HoldoutFail" "HoldoutFail \<noteq> HoldoutPass" "HoldoutPass \<noteq> []" "HoldoutFail \<noteq> []" "[] \<noteq> HoldoutFail"
  by (simp_all add: HoldoutPass_def HoldoutFail_def)

lemma outcome_from_carried:
  assumes "0 \<le> i" and "i < 2 ^ 63"
  shows "outcome_from acc (holdoutStages stages i) =
     (if holdout_verdict stages = [] then acc else holdout_verdict stages)"
  by (induction stages arbitrary: acc)
     (auto simp: holdoutStages_def holdoutStageName_iterationStage [OF assms] Let_def holdout_verdict_def)

lemma holdout_verdict_append:
  "holdout_verdict (a @ b) =
     (if holdout_verdict a = HoldoutFail then HoldoutFail
      else if holdout_verdict b = [] then holdout_verdict a else holdout_verdict b)"
proof -
  define ran :: "stage_summary list \<Rightarrow> stage_summary list"
    where "ran = filter (\<lambda>s. sm_layer s = ''holdout'' \<and> sm_stage s \<notin> {''discovery'', ''skipped''})"
  have "holdout_verdict ss = (if list_ex (\<lambda>s. sm_status s = StageStatusFail) (ran ss) then HoldoutFail
      else if list_ex (\<lambda>s. sm_status s = StageStatusPass) (ran ss) then HoldoutPass else [])" for ss
    by (simp add: holdout_verdict_def ran_def Let_def)
  moreover have "ran (a @ b) = ran a @ ran b" by (simp add: ran_def)
  ultimately show ?thesis by auto
qed

text \<open>
  What a run records of its holdouts is what the tests reported: under their numbered names, over
  all iterations, the outcome is a failure when any unseen check failed, a pass when some passed, and
  nothing when none ran; a discovery or a skip counts for neither.
\<close>

theorem holdoutOutcome_of_run:
  assumes "list_all (\<lambda>(i, stages). 0 \<le> i \<and> i < 2 ^ 63) laps"
  shows "holdoutOutcome (concat (map (\<lambda>(i, stages). holdoutStages stages i) laps)) = holdout_verdict (concat (map snd laps))"
proof -
  have "outcome_from acc (concat (map (\<lambda>(i, stages). holdoutStages stages i) laps)) =
      (if holdout_verdict (concat (map snd laps)) = [] then acc else holdout_verdict (concat (map snd laps)))"
    if "acc \<noteq> HoldoutFail" for acc
    using assms that
  proof (induction laps arbitrary: acc)
    case Nil
    then show ?case by (simp add: holdout_verdict_def)
  next
    case (Cons lap laps)
    obtain i stages where lap: "lap = (i, stages)" by fastforce
    with Cons.prems have i: "0 \<le> i" "i < 2 ^ 63" by simp_all
    let ?v = "holdout_verdict stages"
    have "outcome_from acc (holdoutStages stages i) = (if ?v = [] then acc else ?v)"
      by (rule outcome_from_carried [OF i])
    with Cons.prems Cons.IH [of "if ?v = [] then acc else ?v"] show ?case
      by (cases "?v = HoldoutFail"; cases "?v = []") (auto simp: lap outcome_from_append holdout_verdict_append)
  qed
  from this [of "[]"] verdicts_differ(4) show ?thesis
    by (simp add: holdoutOutcome_def)
qed

theorem holdoutOutcome_of_run_witness:
  "holdoutOutcome (concat (map (\<lambda>(i, stages). holdoutStages stages i)
      [(1, [stage ''holdout'' ''skipped'' StageStatusSkip []]), (2, [stage ''holdout'' ''unseen'' StageStatusPass []])]))
    = holdout_verdict [stage ''holdout'' ''skipped'' StageStatusSkip [], stage ''holdout'' ''unseen'' StageStatusPass []]"
  using holdoutOutcome_of_run [of "[(1, [stage ''holdout'' ''skipped'' StageStatusSkip []]),
      (2, [stage ''holdout'' ''unseen'' StageStatusPass []])]"]
  by simp

subsection \<open>Failures and stages of an iteration\<close>

definition fail_line :: "stage_summary list \<Rightarrow> run_summary \<Rightarrow> bool" where
  "fail_line stages f \<longleftrightarrow>
     list_ex (\<lambda>s. sm_layer s = fs_layer f \<and> sm_stage s = fs_stage f \<and> sm_status s = StageStatusFail) stages"

lemma fail_line_append: "fail_line (as @ bs) f \<longleftrightarrow> fail_line as f \<or> fail_line bs f"
  by (simp add: fail_line_def)

lemma carried_keeps: "carried i cloud s = Some t \<Longrightarrow> sm_layer t = sm_layer s \<and> sm_status t = sm_status s"
  by (auto simp: carried_def)

lemma awsRunStages_fail_lines:
  assumes "awsRunStages stages i cloud = (up, failLines)" and "failLines (layer, st) = Some n"
  shows "list_ex (\<lambda>s. sm_layer s = layer \<and> sm_stage s = n \<and> sm_status s = StageStatusFail) up"
proof -
  from assms have "((layer, st), n) \<in> set (concat (map (\<lambda>s. case carried i cloud s of None \<Rightarrow> []
        | Some t \<Rightarrow> if sm_status s = StageStatusFail then [((sm_layer s, sm_stage s), sm_stage t)] else []) stages))"
    by (auto simp: awsRunStages_def dest!: map_of_SomeD)
  then obtain s where in_s: "s \<in> set stages" and pair: "((layer, st), n) \<in> set (case carried i cloud s of None \<Rightarrow> []
        | Some t \<Rightarrow> if sm_status s = StageStatusFail then [((sm_layer s, sm_stage s), sm_stage t)] else [])"
    by auto
  then obtain t where s: "s \<in> set stages" "carried i cloud s = Some t" "sm_status s = StageStatusFail"
    "layer = sm_layer s" "n = sm_stage t"
    by (cases "carried i cloud s") (auto split: if_splits)
  then have "t \<in> set up" using assms(1) by (force simp: awsRunStages_def)
  with s carried_keeps [OF s(2)] show ?thesis by (auto simp: list_ex_iff)
qed

lemma step_report_fail_lines:
  "step_report i cloud name tr err = (stages, failures) \<Longrightarrow> list_all (fail_line stages) failures"
proof -
  assume r: "step_report i cloud name tr err = (stages, failures)"
  obtain up failLines where a: "awsRunStages (tr_stages tr) i cloud = (up, failLines)" by fastforce
  have "fail_line (stage ''run'' nm StageStatusFail [] # holdoutStages (tr_stages tr) i @ up) (lifted_failure nm name failLines f)"
    for nm f
    using awsRunStages_fail_lines [OF a, of "fs_layer f" "fs_stage f"]
    by (auto simp: fail_line_def lifted_failure_def runFailureStage_def stage_def Let_def split: option.splits)
  note lifted = this
  have own: "fail_line (stage ''run'' nm StageStatusFail [] # ss) (own_failure ''run'' nm c d e)" for nm c d e ss
    by (simp add: fail_line_def own_failure_def stage_def)
  show ?thesis
  proof (cases err)
    case None
    with r a show ?thesis by (auto simp: step_report_def Let_def)
  next
    case (Some e)
    let ?nm = "iterationStage i name"
    let ?tail = "holdoutStages (tr_stages tr) i @ up"
    have "list_all (fail_line (stage ''run'' ?nm StageStatusFail [] # ?tail)) (map (lifted_failure ?nm name failLines) (tr_failures tr))"
      using lifted by (simp add: list_all_iff)
    moreover have "list_all (fail_line (stage ''run'' ?nm StageStatusFail [] # ?tail)) [own_failure ''run'' ?nm name name e]"
      using own by simp
    moreover have "stages = stage ''run'' ?nm StageStatusFail [] # ?tail"
      and "failures = map (lifted_failure ?nm name failLines) (tr_failures tr)
        \<or> failures = [own_failure ''run'' ?nm name name e]"
      using r a Some by (auto simp: step_report_def Let_def split: if_splits)
    ultimately show ?thesis by metis
  qed
qed

text \<open>
  A failure of an iteration never names a stage its record lacks or records only as passed: for
  each one there is a fail line with its layer and stage.
\<close>

theorem iteration_failures_have_fail_lines:
  "list_all (fail_line (it_stages (runIteration sv cloud shown i w))) (it_failures (runIteration sv cloud shown i w))"
proof -
  have mono: "list_all (fail_line as) fs \<Longrightarrow> set as \<subseteq> set bs \<Longrightarrow> list_all (fail_line bs) fs" for as bs fs
    by (auto simp: list_all_iff fail_line_def list_ex_iff)
  obtain err1 g w1 where g: "generate_step sv shown i w = ((err1, g), w1)" by (metis surj_pair)
  obtain tr2 err2 w2 where v: "keep_plan (sv_write_plan sv) (sv_validate sv i w1) = ((tr2, err2), w2)" by (metis surj_pair)
  obtain tr3 err3 w3 where t: "keep_plan (sv_write_plan_live sv i) (sv_test sv i w2) = ((tr3, err3), w3)" by (metis surj_pair)
  obtain s1 f1 where r1: "step_report i cloud ''generate'' no_result err1 = (s1, f1)" by fastforce
  obtain s2 f2 where r2: "step_report i cloud ''validate'' tr2 err2 = (s2, f2)" by fastforce
  obtain s3 f3 where r3: "step_report i cloud ''test'' tr3 err3 = (s3, f3)" by fastforce
  note ok = step_report_fail_lines [OF r1] step_report_fail_lines [OF r2] step_report_fail_lines [OF r3]
  have "list_all (fail_line (s1 @ s2)) (f1 @ f2)" "list_all (fail_line (s1 @ s2 @ s3)) (f1 @ f2 @ f3)"
    using ok by (auto intro: mono)
  with ok(1) show ?thesis by (simp add: runIteration_def g v t r1 r2 r3 Let_def)
qed

end
