(* ===== verification/Run_Loop.thy ===== *)
theory Run_Loop
  imports Run_Iteration
begin

text \<open>
  The run loop, \<^verbatim>\<open>iterate\<close> in \<^verbatim>\<open>cli/run_command.go\<close>: its state, the verdict on an iteration in the
  order of the code, and the loop itself, which ends because every iteration that goes on has failed
  and fewer than \<open>RepairIterationsMax\<close> may. Also the controls of a run and its mode.
\<close>

subsection \<open>Controls\<close>

record run_controls =
  rc_max :: int
  rc_clean :: bool
  rc_no_destroy :: bool
  rc_keep :: bool
  rc_continue_on_drift :: bool
  rc_holdout :: bool
  rc_reset_mocks :: bool

text \<open>The flags as they were given, and the configured maximum they fall back to.\<close>

definition resolveRunControls :: "run_controls \<Rightarrow> int \<Rightarrow> string + run_controls" where
  "resolveRunControls flags configured =
     (let most = (if rc_max flags = 0 then configured else rc_max flags) in
      if rc_clean flags \<and> rc_no_destroy flags then Inl ''clean and no-destroy are mutually exclusive''
      else if rc_keep flags \<and> rc_no_destroy flags
      then Inl (''keep and no-destroy are mutually exclusive: --keep registers what it leaves running, ''
                @ ''--no-destroy leaves it untracked'')
      else if most < 1 then Inl ''repair iterations max must be >= 1''
      else Inr (flags\<lparr>rc_max := most\<rparr>))"

datatype run_mode = runModeClean | runModeIncremental

record detected_run_mode =
  dm_mode :: run_mode
  dm_reason :: string
  dm_previous :: string

definition mockStateHasResources :: "document \<Rightarrow> bool option" where
  "mockStateHasResources doc =
     (case doc of
        Some (JObj roots) \<Rightarrow>
          Some (list_ex (\<lambda>k. case as_obj (jget roots k) of
              None \<Rightarrow> False
            | Some m \<Rightarrow> list_ex (\<lambda>c. case as_arr (jget m c) of None \<Rightarrow> False | Some items \<Rightarrow> items \<noteq> []) (map fst m))
            (map fst roots))
      | Some JNull \<Rightarrow> Some False
      | _ \<Rightarrow> None)"

text \<open>The state of the mock, whether there is a local state, and the latest successful run.\<close>

definition detectRunMode :: "run_controls \<Rightarrow> string + document \<Rightarrow> bool \<Rightarrow> string + string \<Rightarrow> string + detected_run_mode" where
  "detectRunMode controls mock hasTFState latest =
     (case mock of
        Inl e \<Rightarrow> Inl ((if rc_clean controls then ''capture baseline state for clean run: ''
                      else ''detect run mode from mockway state: '') @ e)
      | Inr doc \<Rightarrow>
          if rc_clean controls
          then Inr \<lparr>dm_mode = runModeClean, dm_reason = ''forced by --clean'', dm_previous = []\<rparr>
          else (case mockStateHasResources doc of
                  None \<Rightarrow> Inl ''decode mockway state for run mode detection''
                | Some hasMock \<Rightarrow>
                    (case latest of
                       Inl e \<Rightarrow> Inl (''detect previous successful run: '' @ e)
                     | Inr previous \<Rightarrow>
                         let missing = (if hasMock then [] else [''mockway state''])
                               @ (if hasTFState then [] else [''terraform.tfstate''])
                               @ (if previous = [] then [''previous successful run''] else [])
                         in if missing = []
                            then Inr \<lparr>dm_mode = runModeIncremental,
                                   dm_reason = ''auto-detected from mockway state, terraform.tfstate, and previous successful run'',
                                   dm_previous = previous\<rparr>
                            else Inr \<lparr>dm_mode = runModeClean, dm_reason = ''missing '' @ join '', '' missing,
                                   dm_previous = []\<rparr>)))"

subsection \<open>Classes of failures\<close>

definition feedbackFailureClassForSummary :: "run_summary \<Rightarrow> string" where
  "feedbackFailureClassForSummary f =
     (if fs_check f \<in> {''stuck'', ''repair_budget_exhausted'', ''target_reached''} then ''orchestration_control''
      else if has_prefix (fs_check f) ''transport_'' \<or> contains (fs_detail f) ''transport'' then ''transport_runtime''
      else ''iac_validation'')"

definition failuresAreTransportDominated :: "run_summary list \<Rightarrow> bool" where
  "failuresAreTransportDominated fs \<longleftrightarrow>
     fs \<noteq> [] \<and> list_all (\<lambda>f. feedbackFailureClassForSummary f = ''transport_runtime'') fs"

definition transportFailureRetryBudget :: int where "transportFailureRetryBudget = 2"

definition feedback_key :: "run_summary \<Rightarrow> string" where
  "feedback_key f = fs_check f @ ''|'' @ fs_resource f @ ''|'' @ NormalizeDetail (fs_detail f)"

definition appendDistinctFailures :: "run_summary list \<Rightarrow> run_summary list \<Rightarrow> run_summary list" where
  "appendDistinctFailures history failures =
     history @ nub_by feedback_key (filter (\<lambda>f. feedback_key f \<notin> feedback_key ` set history) failures)"

subsection \<open>The state of the loop\<close>

record 's loop_state =
  lp_iteration :: int
  lp_stages :: "stage_summary list"
  lp_failures :: "run_summary list"
  lp_history :: "failure_signature list"
  lp_previous :: "run_summary list"
  lp_feedback :: "run_summary list"
  lp_iterations :: "iteration_result list"
  lp_failed :: int
  lp_transport :: int
  lp_world :: 's

definition loop_start :: "stage_summary list \<Rightarrow> 's \<Rightarrow> 's loop_state" where
  "loop_start stages w =
     \<lparr>lp_iteration = 0, lp_stages = stages, lp_failures = [], lp_history = [], lp_previous = [],
      lp_feedback = [], lp_iterations = [], lp_failed = 0, lp_transport = 0, lp_world = w\<rparr>"

record ('s, 'g) loop_config =
  lc_services :: "('s, 'g) run_services"
  lc_controls :: run_controls
  lc_cloud :: layer3_cloud
  lc_resolved :: "stage_summary list"

datatype loop_next = Go_On | Stop string | Broken string

definition loop_failure :: "int \<Rightarrow> string \<Rightarrow> string \<Rightarrow> run_summary" where
  "loop_failure i check detail = own_failure ''run'' (''iteration_'' @ itoa i) check ''run loop'' detail"

definition transport_detail :: "int \<Rightarrow> string" where
  "transport_detail n = ''stopped early after '' @ itoa n @ '' consecutive transport-runtime failures; ''
     @ ''consider adjusting agent timeouts/retries or fixing transport dependencies''"

text \<open>
  The verdict on a failed iteration, given the state with the failure counted: the reason to stop
  and the failure the stop adds, in the order of the code. Nothing when the loop goes on.
\<close>

definition stop_reason :: "('s, 'g) loop_config \<Rightarrow> stage_summary list \<Rightarrow> run_summary list \<Rightarrow> 's loop_state
    \<Rightarrow> (string \<times> run_summary list) option" where
  "stop_reason cfg stages failures st =
     (let i = lp_iteration st in
      if list_ex (\<lambda>s. sm_stage s = StageAWSScopeClaimKept) stages then Some (''aws_scope_claim_kept'', [])
      else if sv_interrupted (lc_services cfg) (lp_world st) then Some (''interrupted'', [])
      else if list_ex isMockResetFailure failures then Some (''mock_unavailable'', [])
      else if hasHoldoutFailure failures then Some (''holdout_failed'', [])
      else if \<not> rc_continue_on_drift (lc_controls cfg) \<and> hasConvergeFailure failures then Some (''drift'', [])
      else if lp_transport st \<ge> transportFailureRetryBudget
      then Some (''repair_budget_exhausted'',
             [loop_failure i ''transport_runtime_dominated'' (transport_detail (lp_transport st))])
      else if IsStuck (lp_history st) (toFeedbackFailures failures)
      then Some (''stuck'', [loop_failure i ''stuck'' ''stopped due to stuck detection''])
      else None)"

text \<open>What the loop remembers of a failed iteration it goes on from.\<close>

definition remember :: "run_summary list \<Rightarrow> 's loop_state \<Rightarrow> 's loop_state" where
  "remember failures st =
     st\<lparr>lp_history := lp_history st @ FailureSignatures (toFeedbackFailures failures),
        lp_previous := failures,
        lp_feedback := appendDistinctFailures (lp_feedback st) failures\<rparr>"

definition count_failure :: "run_summary list \<Rightarrow> 's loop_state \<Rightarrow> 's loop_state" where
  "count_failure failures st =
     st\<lparr>lp_failed := lp_failed st + 1, lp_failures := lp_failures st @ failures,
        lp_transport := (if failuresAreTransportDominated failures then lp_transport st + 1 else 0),
        lp_iterations := lp_iterations st @
          [\<lparr>ir_iteration = lp_iteration st, ir_failures = toFeedbackFailures failures\<rparr>]\<rparr>"

definition judge :: "('s, 'g) loop_config \<Rightarrow> stage_summary list \<Rightarrow> run_summary list \<Rightarrow> 's loop_state
    \<Rightarrow> 's loop_state \<times> loop_next" where
  "judge cfg stages failures st0 =
     (if failures = []
      then (st0\<lparr>lp_iterations := lp_iterations st0 @ [\<lparr>ir_iteration = lp_iteration st0, ir_failures = []\<rparr>]\<rparr>,
            Stop ''target_reached'')
      else let st = count_failure failures st0 in
        (case stop_reason cfg stages failures st of
           Some (reason, extra) \<Rightarrow> (st\<lparr>lp_failures := lp_failures st @ extra\<rparr>, Stop reason)
         | None \<Rightarrow>
             let st1 = remember failures st; most = rc_max (lc_controls cfg) in
             if lp_failed st1 \<ge> most
             then (st1\<lparr>lp_failures := lp_failures st1 @ [loop_failure (lp_iteration st1) ''repair_budget_exhausted''
                        (''reached repair iterations max ('' @ itoa most @ '')'')]\<rparr>,
                   Stop ''repair_budget_exhausted'')
             else (st1, Go_On)))"

text \<open>One turn of the loop: run the iteration, match its failures, persist it, judge it.\<close>

definition turn_of :: "('s, 'g) loop_config \<Rightarrow> 's loop_state \<Rightarrow> ('s, 'g) iteration" where
  "turn_of cfg st =
     runIteration (lc_services cfg) (lc_cloud cfg) (lp_feedback st) (lp_iteration st + 1) (lp_world st)"

definition turn_failures :: "('s, 'g) loop_config \<Rightarrow> 's loop_state \<Rightarrow> run_summary list" where
  "turn_failures cfg st =
     recordPitfallUsage (lc_services cfg) (it_generated (turn_of cfg st)) (it_failures (turn_of cfg st))"

definition turn_persist :: "('s, 'g) loop_config \<Rightarrow> 's loop_state \<Rightarrow> string option \<times> 's" where
  "turn_persist cfg st =
     sv_persist (lc_services cfg) (lp_iteration st + 1) (lc_resolved cfg @ it_stages (turn_of cfg st))
       (turn_failures cfg st) (it_world (turn_of cfg st))"

definition advanced :: "('s, 'g) loop_config \<Rightarrow> 's loop_state \<Rightarrow> 's loop_state" where
  "advanced cfg st =
     st\<lparr>lp_iteration := lp_iteration st + 1, lp_stages := lp_stages st @ it_stages (turn_of cfg st),
        lp_world := snd (turn_persist cfg st)\<rparr>"

definition loop_turn :: "('s, 'g) loop_config \<Rightarrow> 's loop_state \<Rightarrow> 's loop_state \<times> loop_next" where
  "loop_turn cfg st =
     (case fst (turn_persist cfg st) of
        Some e \<Rightarrow> (advanced cfg st, Broken (''persist run iteration '' @ itoa (lp_iteration st + 1) @ '': '' @ e))
      | None \<Rightarrow> judge cfg (it_stages (turn_of cfg st)) (turn_failures cfg st) (advanced cfg st))"

lemma judge_Go_On:
  assumes "judge cfg stages failures st0 = (st, Go_On)"
  shows "failures \<noteq> []"
    and "stop_reason cfg stages failures (count_failure failures st0) = None"
    and "st = remember failures (count_failure failures st0)"
    and "lp_failed st = lp_failed st0 + 1"
    and "lp_failed st < rc_max (lc_controls cfg)"
  using assms
  by (auto simp: judge_def Let_def remember_def count_failure_def split: if_splits option.splits)

lemma loop_turn_Go_On:
  assumes "loop_turn cfg st0 = (st, Go_On)"
  shows "judge cfg (it_stages (turn_of cfg st0)) (turn_failures cfg st0) (advanced cfg st0) = (st, Go_On)"
  using assms by (simp add: loop_turn_def split: option.splits)

lemma loop_turn_counts:
  assumes "loop_turn cfg st0 = (st, Go_On)"
  shows "lp_failed st = lp_failed st0 + 1" and "lp_failed st < rc_max (lc_controls cfg)"
  using judge_Go_On(4,5) [OF loop_turn_Go_On [OF assms]] by (simp_all add: advanced_def)

lemma loop_turn_less:
  "(st, Go_On) = loop_turn cfg st0 \<Longrightarrow> lp_failed st0 < rc_max (lc_controls cfg) \<and> lp_failed st = lp_failed st0 + 1"
  using loop_turn_counts [of cfg st0 st] by simp

function run_loop :: "('s, 'g) loop_config \<Rightarrow> 's loop_state \<Rightarrow> 's loop_state \<times> loop_next" where
  "run_loop cfg st =
     (case loop_turn cfg st of
        (st1, Go_On) \<Rightarrow> run_loop cfg st1
      | (st1, ending) \<Rightarrow> (st1, ending))"
  by pat_completeness auto
termination
  by (relation "measure (\<lambda>(cfg, st). nat (rc_max (lc_controls cfg) - lp_failed st))")
     (auto dest: loop_turn_less)

declare run_loop.simps [simp del]

text \<open>The states the loop passes through before each of its iterations, the last one included.\<close>

function loop_states :: "('s, 'g) loop_config \<Rightarrow> 's loop_state \<Rightarrow> 's loop_state list" where
  "loop_states cfg st =
     st # (case loop_turn cfg st of (st1, Go_On) \<Rightarrow> loop_states cfg st1 | _ \<Rightarrow> [])"
  by pat_completeness auto
termination
  by (relation "measure (\<lambda>(cfg, st). nat (rc_max (lc_controls cfg) - lp_failed st))")
     (auto dest: loop_turn_less)

declare loop_states.simps [simp del]

subsection \<open>Invariants of the loop\<close>

lemma loop_states_invariant:
  "P st \<Longrightarrow> (\<And>s s'. P s \<Longrightarrow> loop_turn cfg s = (s', Go_On) \<Longrightarrow> P s') \<Longrightarrow> list_all P (loop_states cfg st)"
proof (induction cfg st rule: loop_states.induct)
  case (1 cfg st)
  show ?case
  proof (cases "loop_turn cfg st")
    case (Pair st1 e)
    show ?thesis
    proof (cases "e = Go_On")
      case True
      with Pair have turn: "loop_turn cfg st = (st1, Go_On)" by simp
      have "list_all P (loop_states cfg st1)"
        using 1(1) [OF turn [symmetric] refl] 1(2,3) turn by blast
      with 1(2) turn show ?thesis by (subst loop_states.simps) simp
    next
      case False
      with Pair 1(2) show ?thesis by (subst loop_states.simps) (auto split: loop_next.splits)
    qed
  qed
qed

text \<open>The loop ends with the turn of the last state it passes through.\<close>

lemma run_loop_last:
  "run_loop cfg st = loop_turn cfg (last (loop_states cfg st)) \<and> snd (run_loop cfg st) \<noteq> Go_On"
proof (induction cfg st rule: run_loop.induct)
  case (1 cfg st)
  have ne: "loop_states cfg s \<noteq> []" for s by (subst loop_states.simps) simp
  show ?case
  proof (cases "loop_turn cfg st")
    case (Pair st1 e)
    show ?thesis
    proof (cases "e = Go_On")
      case True
      with Pair have turn: "loop_turn cfg st = (st1, Go_On)" by simp
      have "run_loop cfg st = run_loop cfg st1" by (subst run_loop.simps) (simp add: turn)
      moreover have "last (loop_states cfg st) = last (loop_states cfg st1)"
        by (subst loop_states.simps) (simp add: turn ne)
      ultimately show ?thesis using 1 [OF turn [symmetric] refl] by metis
    next
      case False
      with Pair have "run_loop cfg st = (st1, e)" by (subst run_loop.simps) (auto split: loop_next.splits)
      moreover have "last (loop_states cfg st) = st"
        using Pair False by (subst loop_states.simps) (auto split: loop_next.splits)
      ultimately show ?thesis using Pair False by simp
    qed
  qed
qed

lemma last_loop_state:
  assumes "P st" and "\<And>s s'. P s \<Longrightarrow> loop_turn cfg s = (s', Go_On) \<Longrightarrow> P s'"
  shows "P (last (loop_states cfg st))"
proof -
  have "loop_states cfg st \<noteq> []" by (subst loop_states.simps) simp
  moreover have "list_all P (loop_states cfg st)" using assms by (rule loop_states_invariant)
  ultimately show ?thesis by (auto simp: list_all_iff)
qed

subsection \<open>How often and why the loop ends\<close>

definition counts_ok :: "('s, 'g) loop_config \<Rightarrow> 's loop_state \<Rightarrow> bool" where
  "counts_ok cfg st \<longleftrightarrow> lp_iteration st = lp_failed st \<and> 0 \<le> lp_failed st
     \<and> (lp_failed st = 0 \<or> lp_failed st < rc_max (lc_controls cfg))"

lemma counts_step: "counts_ok cfg s \<Longrightarrow> loop_turn cfg s = (s', Go_On) \<Longrightarrow> counts_ok cfg s'"
proof -
  assume ok: "counts_ok cfg s" and turn: "loop_turn cfg s = (s', Go_On)"
  have "lp_iteration s' = lp_iteration s + 1"
    using judge_Go_On(3) [OF loop_turn_Go_On [OF turn]]
    by (simp add: remember_def count_failure_def advanced_def)
  with ok loop_turn_counts [OF turn] show ?thesis by (simp add: counts_ok_def)
qed

lemma loop_turn_iteration: "lp_iteration (fst (loop_turn cfg s)) = lp_iteration s + 1"
  by (simp add: loop_turn_def judge_def Let_def advanced_def count_failure_def remember_def
      split: option.splits prod.splits)

text \<open>
  C22. The run loop always ends, after at least one iteration and at most \<open>RepairIterationsMax\<close> of
  them (one when that is not positive), whatever the generator, the checks and the files do.
\<close>

theorem run_loop_bounded:
  "case run_loop cfg (loop_start stages w) of (st, ending) \<Rightarrow>
     ending \<noteq> Go_On \<and> 1 \<le> lp_iteration st \<and> lp_iteration st \<le> max 1 (rc_max (lc_controls cfg))"
proof -
  have "counts_ok cfg (last (loop_states cfg (loop_start stages w)))"
    by (rule last_loop_state) (simp_all add: counts_step, simp add: counts_ok_def loop_start_def)
  then show ?thesis
    using run_loop_last [of cfg "loop_start stages w"]
      loop_turn_iteration [of cfg "last (loop_states cfg (loop_start stages w))"]
    by (auto simp: counts_ok_def split: prod.splits)
qed

definition stop_reasons :: "string list" where
  "stop_reasons = [''target_reached'', ''aws_scope_claim_kept'', ''interrupted'', ''mock_unavailable'',
     ''holdout_failed'', ''drift'', ''repair_budget_exhausted'', ''stuck'']"

lemma stop_reason_known:
  "stop_reason cfg stages failures st = Some (r, extra) \<Longrightarrow> r \<in> set stop_reasons \<and> r \<noteq> ''target_reached''"
  by (auto simp: stop_reason_def stop_reasons_def Let_def split: if_splits)

lemma judge_ending:
  "judge cfg stages failures st0 = (st, Stop r) \<Longrightarrow>
     r \<in> set stop_reasons
     \<and> lp_iterations st \<noteq> [] \<and> ir_failures (last (lp_iterations st)) = toFeedbackFailures failures
     \<and> (r = ''target_reached'' \<longleftrightarrow> failures = [])"
  by (auto simp: judge_def Let_def count_failure_def remember_def toFeedbackFailures_def stop_reasons_def
      dest: stop_reason_known split: if_splits option.splits)

text \<open>
  Why a run stops. The reason is one of eight; it is \<open>target_reached\<close> exactly when the last
  iteration reported no failure, so no failing iteration is ever taken for a pass and no passing one
  is repaired; and a run that stops short of the target has a failure to show.
\<close>

theorem run_loop_reason:
  "case run_loop cfg (loop_start stages w) of
     (st, Stop r) \<Rightarrow>
       r \<in> set stop_reasons \<and> lp_iterations st \<noteq> []
       \<and> (if ir_failures (last (lp_iterations st)) = [] then r = ''target_reached''
          else r \<noteq> ''target_reached'' \<and> lp_failures st \<noteq> [])
   | (_, Broken _) \<Rightarrow> True
   | (_, Go_On) \<Rightarrow> False"
proof -
  let ?s = "last (loop_states cfg (loop_start stages w))"
  obtain st e where run: "run_loop cfg (loop_start stages w) = (st, e)" by fastforce
  with run_loop_last [of cfg "loop_start stages w"] have turn: "loop_turn cfg ?s = (st, e)" and "e \<noteq> Go_On"
    by auto
  show ?thesis
  proof (cases e)
    case (Stop r)
    with turn have j: "judge cfg (it_stages (turn_of cfg ?s)) (turn_failures cfg ?s) (advanced cfg ?s) = (st, Stop r)"
      by (simp add: loop_turn_def split: option.splits)
    then have "r = ''target_reached'' \<or> lp_failures st \<noteq> []"
      by (auto simp: judge_def Let_def count_failure_def remember_def split: if_splits option.splits)
    with judge_ending [OF j] run Stop show ?thesis by (auto simp: toFeedbackFailures_def)
  qed (use run \<open>e \<noteq> Go_On\<close> in simp_all)
qed

subsection \<open>What the generator is shown\<close>

definition repairable :: "('s, 'g) loop_config \<Rightarrow> run_summary \<Rightarrow> bool" where
  "repairable cfg f \<longleftrightarrow> fs_check f \<noteq> holdoutCheckName \<and> \<not> isMockResetFailure f
     \<and> (rc_continue_on_drift (lc_controls cfg) \<or> fs_check f \<noteq> convergeCheckName)"

lemma goes_on_repairable:
  "stop_reason cfg stages failures st = None \<Longrightarrow> list_all (repairable cfg) failures"
  by (auto simp: stop_reason_def repairable_def hasHoldoutFailure_def hasConvergeFailure_def
      list_all_iff list_ex_iff Let_def split: if_splits)

lemma set_appendDistinctFailures:
  "set (appendDistinctFailures h fs) \<subseteq> set h \<union> set fs"
  using set_nub_by by (fastforce simp: appendDistinctFailures_def)

lemma keys_appendDistinctFailures:
  "feedback_key ` set (appendDistinctFailures h fs) = feedback_key ` set h \<union> feedback_key ` set fs"
  by (auto simp: appendDistinctFailures_def image_Un)

lemma distinct_appendDistinctFailures:
  "distinct (map feedback_key h) \<Longrightarrow> distinct (map feedback_key (appendDistinctFailures h fs))"
  using distinct_nub_by [of feedback_key "filter (\<lambda>f. feedback_key f \<notin> feedback_key ` set h) fs"]
    set_nub_by [of feedback_key "filter (\<lambda>f. feedback_key f \<notin> feedback_key ` set h) fs"]
  by (auto simp: appendDistinctFailures_def image_iff)

definition feedback_ok :: "('s, 'g) loop_config \<Rightarrow> 's loop_state \<Rightarrow> bool" where
  "feedback_ok cfg st \<longleftrightarrow> list_all (repairable cfg) (lp_feedback st)
     \<and> distinct (map feedback_key (lp_feedback st))
     \<and> set (lp_feedback st) \<subseteq> set (lp_failures st)
     \<and> feedback_key ` set (lp_feedback st) = feedback_key ` set (lp_failures st)"

lemma feedback_step: "feedback_ok cfg s \<Longrightarrow> loop_turn cfg s = (s', Go_On) \<Longrightarrow> feedback_ok cfg s'"
proof -
  assume ok: "feedback_ok cfg s" and turn: "loop_turn cfg s = (s', Go_On)"
  let ?fs = "turn_failures cfg s"
  note j = judge_Go_On [OF loop_turn_Go_On [OF turn]]
  have s': "lp_feedback s' = appendDistinctFailures (lp_feedback s) ?fs" "lp_failures s' = lp_failures s @ ?fs"
    using j(3) by (simp_all add: remember_def count_failure_def advanced_def)
  have "list_all (repairable cfg) ?fs" by (rule goes_on_repairable [OF j(2)])
  then have "list_all (repairable cfg) (lp_feedback s')"
    using ok set_appendDistinctFailures [of "lp_feedback s" ?fs]
    by (auto simp: feedback_ok_def s' list_all_iff)
  moreover have "set (lp_feedback s') \<subseteq> set (lp_failures s')"
    using ok set_appendDistinctFailures [of "lp_feedback s" ?fs] by (auto simp: feedback_ok_def s')
  ultimately show ?thesis
    using ok by (simp add: feedback_ok_def s' keys_appendDistinctFailures distinct_appendDistinctFailures image_Un)
qed


subsection \<open>Every lap brings something new\<close>

lemma not_stuck_new:
  "\<not> IsStuck history fs \<Longrightarrow> fs \<noteq> [] \<Longrightarrow> \<exists>sig \<in> set (FailureSignatures fs). sig \<notin> set history"
  by (auto simp: IsStuck_def Let_def list_all_iff split: if_splits)

definition progress_ok :: "'s loop_state \<Rightarrow> bool" where
  "progress_ok st \<longleftrightarrow> 0 \<le> lp_failed st \<and> nat (lp_failed st) \<le> card (set (lp_history st))
     \<and> set (lp_history st) = signature_of ` set (toFeedbackFailures (lp_failures st))"

lemma progress_step: "progress_ok s \<Longrightarrow> loop_turn cfg s = (s', Go_On) \<Longrightarrow> progress_ok s'"
proof -
  assume ok: "progress_ok s" and turn: "loop_turn cfg s = (s', Go_On)"
  let ?fs = "toFeedbackFailures (turn_failures cfg s)"
  note j = judge_Go_On [OF loop_turn_Go_On [OF turn]]
  have s': "lp_history s' = lp_history s @ FailureSignatures ?fs" "lp_failed s' = lp_failed s + 1"
    "lp_failures s' = lp_failures s @ turn_failures cfg s"
    using j(3) by (simp_all add: remember_def count_failure_def advanced_def)
  have "\<not> IsStuck (lp_history s) ?fs"
    using j(2) by (auto simp: stop_reason_def Let_def count_failure_def advanced_def split: if_splits)
  moreover have "?fs \<noteq> []" using j(1) by (simp add: toFeedbackFailures_def)
  ultimately obtain sig where sig: "sig \<in> set (FailureSignatures ?fs)" "sig \<notin> set (lp_history s)"
    using not_stuck_new by blast
  then have "set (lp_history s) \<subset> set (lp_history s')" by (auto simp: s')
  then have "card (set (lp_history s)) < card (set (lp_history s'))" by (simp add: psubset_card_mono)
  with ok show ?thesis by (auto simp: progress_ok_def s' toFeedbackFailures_def image_Un)
qed

text \<open>
  The loop goes on only when it learned something: whenever an iteration starts, the run has seen
  at least as many different failure signatures as it has failed iterations, so a repair that only
  alternates between known failures ends the run.
\<close>

theorem every_lap_brings_a_signature:
  "list_all (\<lambda>st. nat (lp_failed st) \<le> card (set (lp_history st))
      \<and> set (lp_history st) = signature_of ` set (toFeedbackFailures (lp_failures st)))
    (loop_states cfg (loop_start stages w))"
proof -
  have "list_all progress_ok (loop_states cfg (loop_start stages w))"
    by (rule loop_states_invariant)
       (simp_all add: progress_step, simp add: progress_ok_def loop_start_def toFeedbackFailures_def)
  then show ?thesis by (rule list.pred_mono_strong) (auto simp only: progress_ok_def)
qed

end
