(* ===== verification/Run_Keep.thy ===== *)
theory Run_Keep
  imports Run_Loop Live_Reconcile
begin

text \<open>
  What a run checks before it starts and after its loop: whether \<^verbatim>\<open>--keep\<close> and \<^verbatim>\<open>--holdout\<close> can be
  honoured, the registration of what \<^verbatim>\<open>--keep\<close> left running (\<^verbatim>\<open>cli/run_keep.go\<close>,
  \<^verbatim>\<open>cli/deploy_command.go\<close>), the projects nothing explains (\<^verbatim>\<open>cli/stray_run_projects.go\<close>), and the
  recovery command a failure names.

  Parameters: the copy of the output directory, the address found in the live state, the parsed TTL,
  the new deployment id and the printing of times.
\<close>

subsection \<open>The recovery command\<close>

definition shellSafeArgRE :: regex where
  "shellSafeArgRE = seqs [At_Start, some_re (Chr (\<lambda>c. alnum c \<or> c \<in> set ''_@%+=:,./-'')), At_End]"

definition shellQuote :: "string \<Rightarrow> string" where
  "shellQuote s =
     (if s \<noteq> [] \<and> find_first shellSafeArgRE s \<noteq> None then s
      else squote @ concat (map (\<lambda>c. if [c] = squote then squote @ [CHR 0x5C] @ squote @ squote else [c]) s) @ squote)"

definition DefaultPath :: string where
  "DefaultPath = ''./infrafactory.yaml''"

definition reapCommand :: "string \<Rightarrow> string \<Rightarrow> string" where
  "reapCommand configPath scenarioPath =
     (let trimmed = trim_space configPath;
          cmd = ''infrafactory''
            @ (if trimmed \<noteq> [] \<and> trimmed \<noteq> DefaultPath then '' --config '' @ shellQuote trimmed else [])
      in if scenarioPath = [] then cmd @ '' reap <scenario file>''
         else cmd @ '' reap '' @ shellQuote scenarioPath)"

definition annotateWithRecoveryCommand :: "string \<Rightarrow> string \<Rightarrow> failure_summary list \<Rightarrow> failure_summary list" where
  "annotateWithRecoveryCommand configPath scenarioPath failures =
     map (\<lambda>f. f\<lparr>fs_detail := trim_space (trim_space (fs_detail f)
          @ '' | real Scaleway resources may still exist: run `'' @ reapCommand configPath scenarioPath
          @ ''` to tear them down and verify'')\<rparr>) failures"

subsection \<open>What can be honoured\<close>

record service_spec =
  ss_image :: string
  ss_tag :: string
  ss_port :: int
  ss_health_path :: string
  ss_version_path :: string
  ss_ttl :: "go_error + duration"

record run_scenario =
  sc_name :: string
  sc_cloud :: string
  sc_service :: "service_spec option"

definition assertKeepable :: "bool \<Rightarrow> bool \<Rightarrow> run_scenario \<Rightarrow> string option" where
  "assertKeepable keep sandboxEnabled sc =
     (if \<not> keep then None
      else if \<not> sandboxEnabled
      then Some (''--keep leaves real infrastructure running and needs validation.layers.sandbox_deploy.enabled; ''
             @ ''without it the run only touches the mock, which there is nothing to keep'')
      else (case layer3LiveCloud (sc_cloud sc) ''--keep'' of
              Inl e \<Rightarrow> Some (err_text e)
            | Inr _ \<Rightarrow>
                (case sc_service sc of
                   None \<Rightarrow> Some (''scenario '' @ quote (sc_name sc)
                     @ '' declares no service: block, so a kept stack would have no TTL and nothing would ever ''
                     @ ''reap it. Add service.ttl, or run without --keep'')
                 | Some s \<Rightarrow>
                     (case ss_ttl s of
                        Inl e \<Rightarrow> Some (''scenario '' @ quote (sc_name sc)
                          @ '' has an unusable service.ttl, so a kept stack could not be given a deadline: '' @ err_text e)
                      | Inr _ \<Rightarrow> None))))"

definition assertHoldoutRunnable :: "bool \<Rightarrow> bool \<Rightarrow> string option" where
  "assertHoldoutRunnable holdout sandboxEnabled =
     (if \<not> holdout \<or> sandboxEnabled then None
      else Some (''--holdout probes a REAL running stack and needs validation.layers.sandbox_deploy.enabled; ''
             @ ''against the mock alone there is nothing to probe''))"

subsection \<open>Registering what runs on\<close>

record 'w keep_env =
  ke_copy :: "string \<Rightarrow> string \<Rightarrow> 'w world \<Rightarrow> string option \<times> 'w world"
  ke_endpoint :: "'w world \<Rightarrow> string \<Rightarrow> string \<times> string" \<comment> \<open>address and resource type\<close>
  ke_now :: instant
  ke_id :: string
  ke_root :: string
  ke_print_time :: "instant \<Rightarrow> string"
  ke_print_duration :: "duration \<Rightarrow> string"

definition register_failed :: "string \<Rightarrow> string \<Rightarrow> report" where
  "register_failed check detail =
     ([stage ''live'' ''register'' StageStatusFail []], [failing ''live'' ''register'' check ''deploy'' detail])"

text \<open>The record of a deployment, as \<^verbatim>\<open>registerDeployment\<close> writes it.\<close>

definition deployment_record :: "'w keep_env \<Rightarrow> run_scenario \<Rightarrow> service_spec \<Rightarrow> string \<Rightarrow> string \<Rightarrow> string \<times> string
    \<Rightarrow> duration \<Rightarrow> string \<Rightarrow> deployment" where
  "deployment_record ke sc s workDir projectID endpoint ttl holdout =
     zero_deployment\<lparr>d_id := ke_id ke, d_scenario := sc_name sc, d_project_id := projectID,
       d_address := fst endpoint, d_image := ss_image s, d_tag := ss_tag s, d_port := ss_port s,
       d_health_path := ss_health_path s, d_version_path := ss_version_path s,
       d_address_resource := snd endpoint, d_cloud := sc_cloud sc, d_state := StateLive,
       d_holdout := holdout, d_work_dir := workDir, d_created_at := ke_now ke,
       d_expires_at := ke_now ke + ttl\<rparr>"

definition registerDeployment :: "'w runtime \<Rightarrow> 'w keep_env \<Rightarrow> run_scenario \<Rightarrow> service_spec \<Rightarrow> string \<Rightarrow> string
    \<Rightarrow> duration \<Rightarrow> string \<Rightarrow> 'w world \<times> store \<Rightarrow> report \<times> store" where
  "registerDeployment rt ke sc svc_spec workDir projectID ttl holdout ws =
     (let (w, s) = ws in
      if blank projectID
      then (register_failed ''project_id'' (''no run project was recorded for '' @ workDir
             @ '', so a deployment that may be running cannot be reaped. Destroy it by hand''), s)
      else let d = deployment_record ke sc svc_spec workDir projectID (ke_endpoint ke w workDir) ttl holdout in
        (case Put s d of
           (Some e, s') \<Rightarrow> (register_failed ''record'' (''project '' @ projectID
               @ '' is live but could not be recorded: '' @ print_store_error rt e
               @ ''. Destroy it by hand '' @ em_dash @ '' nothing will reap it''), s')
         | (None, s') \<Rightarrow> (([stage ''live'' ''register'' StageStatusPass (ke_id ke @ '' recorded (project ''
               @ projectID @ '', expires '' @ ke_print_time ke (d_expires_at d) @ '')'')], []), s')))"

definition keepFailed :: "'w world \<Rightarrow> string \<Rightarrow> string \<Rightarrow> report" where
  "keepFailed w outputDir detail =
     (let project = (case ReadRunProjectMarker w outputDir of Inl _ \<Rightarrow> ''unknown'' | Inr m \<Rightarrow> mk_project_id m)
      in ([stage ''live'' ''keep'' StageStatusFail []],
          [failing ''live'' ''keep'' ''registered'' ''run --keep'' (detail @ ''. The stack in project '' @ project
             @ '' is still running and nothing tracks it: destroy it by hand'')]))"

definition deploymentWorkDir :: "string \<Rightarrow> string \<Rightarrow> string" where
  "deploymentWorkDir root deploymentID = root @ ''/workdirs/'' @ deploymentID"

definition registerKeptRun :: "'w runtime \<Rightarrow> 'w keep_env \<Rightarrow> run_scenario \<Rightarrow> service_spec \<Rightarrow> string
    \<Rightarrow> stage_summary list \<Rightarrow> 'w world \<times> store \<Rightarrow> report \<times> 'w world \<times> store" where
  "registerKeptRun rt ke sc svc_spec outputDir runStages ws =
     (let (w, s) = ws in
      case ss_ttl svc_spec of
        Inl e \<Rightarrow> (keepFailed w outputDir (''service.ttl became unusable mid-run: '' @ err_text e), w, s)
      | Inr ttl \<Rightarrow>
          let project = (case ReadRunProjectMarker w outputDir of Inl _ \<Rightarrow> [] | Inr m \<Rightarrow> mk_project_id m);
              own = deploymentWorkDir (ke_root ke) (ke_id ke);
              (copyErr, w1) = ke_copy ke outputDir own w;
              workDir = (if copyErr = None then own else outputDir);
              (rep, s1) = registerDeployment rt ke sc svc_spec workDir project ttl (holdoutOutcome runStages) (w1, s)
          in if snd rep \<noteq> [] then (rep, w1, s1)
             else (case copyErr of
                 Some e \<Rightarrow> ((fst rep @ [stage ''live'' ''keep_workdir'' StageStatusFail []],
                     [failing ''live'' ''keep_workdir'' ''isolated_state'' (''live teardown '' @ ke_id ke)
                       (ke_id ke @ '' is kept and tracked, but its state could not be copied out of '' @ outputDir
                         @ '': '' @ e @ ''. The next run of '' @ sc_name sc
                         @ '' overwrites that state, so tear this down BEFORE running the scenario again'')]), w1, s1)
               | None \<Rightarrow> ((fst rep @ [stage ''live'' ''keep'' StageStatusPass (''kept as '' @ ke_id ke
                     @ ''; expires in '' @ ke_print_duration ke ttl @ '', or `infrafactory live teardown ''
                     @ ke_id ke @ ''`'')], []), w1, s1)))"

subsection \<open>Projects nothing explains\<close>

definition stampedProjects :: "listed_project list \<Rightarrow> stamped_project list" where
  "stampedProjects listed =
     map (\<lambda>l. \<lparr>sp_id = lp_id l, sp_name = lp_name l, sp_ours = IsInfrafactoryRunProject (Provenance l)\<rparr>) listed"

definition stray_failure :: "string \<Rightarrow> string \<Rightarrow> failure_summary" where
  "stray_failure check detail = failing ''live'' ''stray_run_projects'' check ''run'' detail"

definition unreadable_failure :: "'w runtime \<Rightarrow> store_error \<Rightarrow> failure_summary" where
  "unreadable_failure rt e = stray_failure ''record''
     (''a live record could not be read, so a project it explains cannot be told from a stray: '' @ print_store_error rt e)"

definition unrecorded_failure :: "unrecorded_project \<Rightarrow> failure_summary" where
  "unrecorded_failure p = stray_failure ''unrecorded''
     (''project '' @ up_project_id p @ '' ('' @ up_name p @ '') carries infrafactory'' @ squote
       @ ''s stamp but nothing explains it '' @ em_dash @ '' it has no TTL and nothing will reap it. Nothing was destroyed. ''
       @ ''Inspect it and tear it down: `scw account project delete project-id='' @ up_project_id p
       @ ''`, or `live reconcile` for the full picture'')"

definition reportStrayRunProjects :: "'w runtime \<Rightarrow> layer3_cloud \<Rightarrow> 'w world \<times> store \<Rightarrow> report \<times> 'w world" where
  "reportStrayRunProjects rt cloud ws =
     (let (w, s) = ws;
          key = trim_space (getenv rt ''SCW_SECRET_KEY'');
          org = trim_space (getenv rt ''SCW_DEFAULT_ORGANIZATION_ID'')
      in if cloud \<noteq> layer3Scaleway
         then (([stage ''live'' ''stray_run_projects'' StageStatusFail []],
                [stray_failure ''cloud'' (err_text (layer3SeamRefused cloud ''stray project check''))]), w)
         else if \<not> has_run_project rt \<or> key = [] \<or> org = [] then (([], []), w)
         else (case ListProjects (svc rt) key org w of
             (Inl e, w1) \<Rightarrow> (([], [stray_failure ''reconcile''
                 (''could not list the organization'' @ squote
                   @ ''s projects, so stray run projects cannot be ruled out: '' @ err_text e)]), w1)
           | (Inr listed, w1) \<Rightarrow>
               let (deployments, unreadable) = List s;
                   stamped = stampedProjects listed;
                   strays = r_unrecorded (Reconcile stamped deployments)
               in if strays = [] \<and> unreadable = []
                  then (([stage ''live'' ''stray_run_projects'' StageStatusPass
                      (nat_digits (length (filter sp_ours stamped)) @ '' project(s) carry infrafactory'' @ squote
                        @ ''s stamp and all are accounted for ('' @ nat_digits (length listed)
                        @ '' in the organization)'')], []), w1)
                  else (([stage ''live'' ''stray_run_projects'' StageStatusFail
                      (nat_digits (length strays) @ '' run project(s) nothing explains, ''
                        @ nat_digits (length unreadable) @ '' live record(s) unreadable'')],
                    map (unreadable_failure rt) unreadable @ map unrecorded_failure strays), w1)))"

end
