(* ===== verification/Run_Command.thy ===== *)
theory Run_Command
  imports Run_Keep
begin

text \<open>
  The ending of a run, \<^verbatim>\<open>cli/run_command.go\<close> from the end of the loop: the automatic destroy of a run
  that did not reach its target, the registration of a kept one, the projects nothing explains, and
  the verdict. The state is the world and the live store, over which the loop runs too.

  A context is a predicate on the world, \<open>su_ended\<close>, and the fresh one of \<^verbatim>\<open>teardownContext\<close> is
  \<open>su_fresh\<close>. The AWS arm is a parameter. \<open>None\<close> is the dereference of a missing service block.
\<close>

subsection \<open>What a run is given\<close>

record 'w run_setup =
  su_rt :: "'w runtime"
  su_cloud :: layer3_cloud
  su_enabled :: bool
  su_output_dir :: string
  su_config_path :: string
  su_scenario_path :: string
  su_scenario :: run_scenario
  su_keep :: "'w keep_env"
  su_aws :: "stage_summary list \<Rightarrow> 'w world \<Rightarrow> report \<times> 'w world"
  su_aws_env :: "string \<Rightarrow> go_error + env"
  su_ended :: "'w \<Rightarrow> bool"
  su_fresh :: "'w \<Rightarrow> 'w"
  su_write_metadata :: "bool \<Rightarrow> string \<Rightarrow> 'w world \<times> store \<Rightarrow> string option"
  su_write_output :: "bool \<Rightarrow> stage_summary list \<Rightarrow> run_summary list \<Rightarrow> string option"

subsection \<open>The automatic destroy\<close>

text \<open>A teardown a signal cut short runs again on a fresh context; only the last run's report counts.\<close>

definition freshen :: "('w \<Rightarrow> 'w) \<Rightarrow> 'w world \<Rightarrow> 'w world" where
  "freshen fresh w = w\<lparr>w_api := fresh (w_api w)\<rparr>"

definition finishTeardown :: "('w \<Rightarrow> bool) \<Rightarrow> ('w \<Rightarrow> 'w) \<Rightarrow> ('w world \<Rightarrow> report \<times> 'w world) \<Rightarrow> 'w world
    \<Rightarrow> report \<times> 'w world" where
  "finishTeardown ended fresh teardown w =
     (if ended (w_api w) then teardown (freshen fresh w)
      else (case teardown w of
              (rep, w1) \<Rightarrow> if snd rep = [] \<or> \<not> ended (w_api w1) then (rep, w1)
                           else teardown (freshen fresh w1)))"

definition sweepTargetProjectID :: "go_error + sweep_target \<Rightarrow> string" where
  "sweepTargetProjectID target = (case target of Inl _ \<Rightarrow> [] | Inr t \<Rightarrow> st_project_id t)"

text \<open>Destroy, project and sweep as one teardown.\<close>

definition project_teardown :: "'w runtime \<Rightarrow> layer3_cloud \<Rightarrow> string \<Rightarrow> env \<Rightarrow> string \<Rightarrow> go_error + sweep_target
    \<Rightarrow> 'w world \<Rightarrow> report \<times> 'w world" where
  "project_teardown rt cloud dir e project target w =
     (let ((result, purged, err), w1) = destroySandbox rt cloud dir e (sweepTargetProjectID target) w;
          rep0 = appendSandboxDestroyResult (cfg_accounts rt) ([], []) result err;
          rep1 = (if purged = [] then rep0 else (fst rep0 @ [autoCreatedPurgeStage purged], snd rep0))
      in if err \<noteq> None then (rep1, w1)
         else let (released, w2) = releaseRunProject rt cloud dir project e w1
           in appendOrphanSweepResult rt cloud target e (fst rep1 @ fst released, snd rep1 @ snd released) w2)"

definition arm_teardown :: "'w run_setup \<Rightarrow> env \<Rightarrow> string \<Rightarrow> go_error + sweep_target \<Rightarrow> 'w world
    \<Rightarrow> report \<times> 'w world" where
  "arm_teardown su e markerProject target w =
     project_teardown (su_rt su) (su_cloud su) (su_output_dir su) e markerProject target w"

definition preflight_failed :: "string \<Rightarrow> string \<Rightarrow> report" where
  "preflight_failed check detail =
     ([stage sandbox_deploy ''auto_destroy_preflight'' StageStatusFail []],
      [failing sandbox_deploy ''auto_destroy_preflight'' check ''auto-destroy preflight'' detail])"

definition recoverable :: "'w run_setup \<Rightarrow> report \<Rightarrow> report" where
  "recoverable su rep =
     (fst rep, annotateWithRecoveryCommand (su_config_path su) (su_scenario_path su) (snd rep))"

text \<open>The arm of a cloud with run projects: the project is the marker's, never a guess.\<close>

definition scaleway_arm :: "'w run_setup \<Rightarrow> 'w world \<Rightarrow> report \<times> 'w world" where
  "scaleway_arm su w =
     (let rt = su_rt su; dir = su_output_dir su; target = CaptureSweepTarget (svc rt) w dir;
          env = (case ReadRunProjectMarker w dir of
                   Inl er \<Rightarrow> Inl er
                 | Inr marker \<Rightarrow> map_sum (\<lambda>er. er) (\<lambda>e. (mk_project_id marker, e))
                     (sandboxCommandEnvForProject rt (su_aws_env su) (su_cloud su) (mk_project_id marker)))
      in case env of
           Inl er \<Rightarrow> (recoverable su (preflight_failed ''run_project''
             (''real resources are live and were NOT destroyed: '' @ err_text er
               @ ''. Destroying against the shared ''
               @ ''fallback project would not be the inverse of the apply, so it was refused'')), w)
         | Inr (project, e) \<Rightarrow>
             (case finishTeardown (su_ended su) (su_fresh su) (arm_teardown su e project target) w of
                (rep, w1) \<Rightarrow> (recoverable su rep, w1)))"

definition auto_destroy :: "'w run_setup \<Rightarrow> bool \<Rightarrow> string \<Rightarrow> stage_summary list \<Rightarrow> 'w world
    \<Rightarrow> report \<times> 'w world" where
  "auto_destroy su noDestroy reason stages w =
     (let mayHold = liveStateMayHoldResources (live_state (su_rt su) (w_api w) (su_output_dir su)) in
      if \<not> su_enabled su \<or> noDestroy \<or> reason = ''target_reached'' then (([], []), w)
      else if su_cloud su = layer3AWS
      then finishTeardown (su_ended su) (su_fresh su) (su_aws su stages) w
      else if mayHold \<and> su_cloud su \<noteq> layer3Scaleway
      then (preflight_failed ''cloud''
              (layer3TeardownNotBuilt (su_cloud su) (su_output_dir su @ ''/'' @ LiveStateFilename)), w)
      else if mayHold then scaleway_arm su w
      else (([], []), w))"

subsection \<open>The verdict\<close>

definition runCommandStatus :: "string \<Rightarrow> bool \<Rightarrow> bool \<Rightarrow> bool" where
  "runCommandStatus reason strayBlocked keepBlocked \<longleftrightarrow>
     \<not> (reason \<noteq> ''target_reached'' \<or> strayBlocked \<or> keepBlocked)"

definition run_failures :: "failure_summary list \<Rightarrow> run_summary list" where
  "run_failures fs = map (\<lambda>f. own_failure (fs_layer f) (fs_stage f) (fs_check f) (fs_command f) (fs_detail f)) fs"

definition run_error :: "string \<Rightarrow> bool \<Rightarrow> int \<Rightarrow> string" where
  "run_error reason strayBlocked completed =
     (if strayBlocked then ''run projects remain that nothing explains; they have no TTL and nothing will reap them''
      else if reason = ''holdout_failed''
      then ''a holdout check failed: every criterion the generator was SHOWN passed, and one it was not shown did not''
      else ''run stopped with terminal reason '' @ quote reason @ '' after '' @ itoa completed @ '' iteration(s)'')"

record 'w run_result =
  rr_success :: bool
  rr_reason :: string
  rr_stages :: "stage_summary list"
  rr_failures :: "run_summary list"
  rr_error :: "string option"
  rr_world :: "'w world \<times> store"

text \<open>What was kept is registered before the projects are checked, so that it is explained.\<close>

definition keep_step :: "'w run_setup \<Rightarrow> bool \<Rightarrow> string \<Rightarrow> stage_summary list \<Rightarrow> 'w world \<times> store
    \<Rightarrow> (report \<times> 'w world \<times> store) option" where
  "keep_step su keep reason stages ws =
     (if keep \<and> reason = ''target_reached''
      then (case sc_service (su_scenario su) of
              None \<Rightarrow> None
            | Some spec \<Rightarrow> Some (registerKeptRun (su_rt su) (su_keep su) (su_scenario su) spec (su_output_dir su) stages ws))
      else Some (([], []), ws))"

definition stray_step :: "'w run_setup \<Rightarrow> 'w world \<times> store \<Rightarrow> report \<times> 'w world" where
  "stray_step su ws =
     (if su_enabled su \<and> su_cloud su \<noteq> layer3Scaleway
      then (([stage ''live'' ''stray_run_projects'' StageStatusSkip
               (''cloud '' @ cloud_text (su_cloud su) @ '' has no run projects to check'')], []), fst ws)
      else if su_enabled su then reportStrayRunProjects (su_rt su) (su_cloud su) ws
      else (([], []), fst ws))"

definition closing_stages :: "string \<Rightarrow> string \<Rightarrow> stage_summary list" where
  "closing_stages runID reason =
     stage ''run'' ''metadata'' StageStatusPass (''run_id='' @ runID)
       # (if reason = [] then [] else [stage ''run'' ''terminal_reason'' StageStatusPass reason])"

definition run_end :: "'w run_setup \<Rightarrow> run_controls \<Rightarrow> string \<Rightarrow> string \<Rightarrow> ('w world \<times> store) loop_state
    \<Rightarrow> 'w run_result option" where
  "run_end su controls runID reason st =
     (let (w0, s0) = lp_world st;
          (arm, w1) = auto_destroy su (rc_no_destroy controls) reason (lp_stages st) w0;
          stages1 = lp_stages st @ fst arm
      in case keep_step su (rc_keep controls) reason stages1 (w1, s0) of
           None \<Rightarrow> None
         | Some (kept, w2, s2) \<Rightarrow>
             let (stray, w3) = stray_step su (w2, s2);
                 failures = lp_failures st @ run_failures (snd arm @ snd kept @ snd stray);
                 ok = runCommandStatus reason (snd stray \<noteq> []) (snd kept \<noteq> []);
                 stages = stages1 @ fst kept @ fst stray @ closing_stages runID reason;
                 error = (case su_write_metadata su ok reason (w3, s2) of
                            Some e \<Rightarrow> Some (''write run metadata: '' @ e)
                          | None \<Rightarrow>
                              (case su_write_output su ok stages failures of
                                 Some e \<Rightarrow> Some e
                               | None \<Rightarrow> if ok then None
                                   else Some (run_error reason (snd stray \<noteq> []) (lp_iteration st))))
             in Some \<lparr>rr_success = ok, rr_reason = reason, rr_stages = stages, rr_failures = failures,
                      rr_error = error, rr_world = (w3, s2)\<rparr>)"

text \<open>A run: the refusals that come before any generation, the loop, and the ending.\<close>

definition runRunWithNotify :: "('w world \<times> store, 'g) loop_config \<Rightarrow> 'w run_setup \<Rightarrow> string \<Rightarrow> stage_summary list
    \<Rightarrow> 'w world \<times> store \<Rightarrow> (string + 'w run_result) option" where
  "runRunWithNotify cfg su runID stages ws =
     (let controls = lc_controls cfg in
      case assertKeepable (rc_keep controls) (su_enabled su) (su_scenario su) of
        Some e \<Rightarrow> Some (Inl e)
      | None \<Rightarrow>
          (case assertHoldoutRunnable (rc_holdout controls) (su_enabled su) of
             Some e \<Rightarrow> Some (Inl e)
           | None \<Rightarrow>
               (case run_loop cfg (loop_start stages ws) of
                  (st, Stop reason) \<Rightarrow> map_option Inr (run_end su controls runID reason st)
                | (st, Broken e) \<Rightarrow> Some (Inl e)
                | (st, Go_On) \<Rightarrow> None)))"

subsection \<open>What the automatic destroy proves\<close>

lemma extends_freshen: "extends P w u \<Longrightarrow> extends P w (freshen fresh u)"
  by (simp add: extends_def freshen_def)

text \<open>
  A teardown that, wherever it starts, stays within \<open>P\<close> and earns \<open>G\<close> with a report free of
  failures, does so when it is finished on a fresh context.
\<close>

lemma finishTeardown_keeps:
  assumes "\<And>u rep u'. extends P w u \<Longrightarrow> teardown u = (rep, u') \<Longrightarrow>
      extends P w u' \<and> (if snd rep = [] then G u' else True)"
    and "finishTeardown ended fresh teardown w = (rep, w')"
  shows "extends P w w' \<and> (if snd rep = [] then G w' else True)"
proof (cases "ended (w_api w)")
  case True
  with assms(2) have "teardown (freshen fresh w) = (rep, w')" by (simp add: finishTeardown_def)
  then show ?thesis by (rule assms(1) [OF extends_freshen [OF extends_refl]])
next
  case False
  obtain rep1 w1 where td: "teardown w = (rep1, w1)" by fastforce
  note first = assms(1) [OF extends_refl td]
  show ?thesis
  proof (cases "snd rep1 = [] \<or> \<not> ended (w_api w1)")
    case True
    with assms(2) False td first show ?thesis by (auto simp: finishTeardown_def)
  next
    case again: False
    with assms(2) False td have "teardown (freshen fresh w1) = (rep, w')" by (simp add: finishTeardown_def)
    then show ?thesis using assms(1) [OF extends_freshen] first by blast
  qed
qed

lemma authorised_markers:
  "w_markers w1 = w_markers w \<Longrightarrow> authorised sv d k g w1 = authorised sv d k g w"
  by (rule ext) (simp add: authorised_def Read_markers [of w1 w])

lemma safe_in_extends: "extends P w w1 \<Longrightarrow> safe_in rt d e w1 = safe_in rt d e w"
  by (rule ext) (simp only: safe_request_def authorised_markers [OF extends_markers])

lemma safe_in_trans:
  "extends (safe_in rt d e w) w w1 \<Longrightarrow> extends (safe_in rt d e w1) w1 w2 \<Longrightarrow> extends (safe_in rt d e w) w w2"
  by (simp only: safe_in_extends) (rule extends_trans)

lemma client_release:
  "extends (safe_in rt d e w) w w1 \<Longrightarrow> releaseRunProject rt cloud d p e w1 = (rep, w2) \<Longrightarrow>
     extends (safe_in rt d e w) w w2"
  by (rule safe_in_trans [OF _ release_sent])

lemma client_destroy:
  "extends (safe_in rt d e w) w w1 \<Longrightarrow> destroySandbox rt layer3Scaleway d e p w1 = (r, w2) \<Longrightarrow>
     extends (safe_in rt d e w) w w2"
  by (rule safe_in_trans [OF _ destroySandbox_sent])

lemma project_teardown_verdict:
  assumes "extends (safe_in rt dir e w) w u"
    and "project_teardown rt layer3Scaleway dir e project target u = (rep, u')"
  shows "extends (safe_in rt dir e w) w u'
     \<and> (if snd rep = [] then \<exists>t. target = Inr t \<and> st_strays t = []
            \<and> last_answer_gone (svc rt) (st_project_id t) (env_get e ''SCW_SECRET_KEY'') w u'
        else True)"
proof -
  obtain res pur err w1 where ds:
    "destroySandbox rt layer3Scaleway dir e (sweepTargetProjectID target) u = ((res, pur, err), w1)"
    by (metis prod.exhaust)
  let ?rep0 = "appendSandboxDestroyResult (cfg_accounts rt) ([], []) res err"
  let ?rep1 = "if pur = [] then ?rep0 else (fst ?rep0 @ [autoCreatedPurgeStage pur], snd ?rep0)"
  obtain q w2 where rl: "releaseRunProject rt layer3Scaleway dir project e w1 = (q, w2)" by fastforce
  obtain swept w3 where sw: "appendOrphanSweepResult rt layer3Scaleway target e
      (fst ?rep1 @ fst q, snd ?rep1 @ snd q) w2 = (swept, w3)" by fastforce
  have run: "(rep, u') = (if err \<noteq> None then (?rep1, w1) else (swept, w3))"
    using assms(2) unfolding project_teardown_def Let_def ds prod.case rl sw by simp
  have 1: "extends (safe_in rt dir e w) w w1" using client_destroy [OF assms(1) ds] .
  have 2: "extends (safe_in rt dir e w) w w2" using client_release [OF 1 rl] .
  have 3: "extends (safe_in rt dir e w) w w3" using client_read [OF 2 append_sweep_sent [OF sw]] .
  show ?thesis
  proof (cases err)
    case (Some x)
    then have "snd ?rep1 \<noteq> []" by (cases x) (auto simp: appendSandboxDestroyResult_def)
    with run Some 1 show ?thesis by simp
  next
    case None
    with run have "rep = swept" "u' = w3" by simp_all
    with append_sweep_verdict [OF sw] last_answer_trans [OF 2] 3 show ?thesis by auto
  qed
qed

lemma arm_teardown_verdict:
  assumes "extends (safe_in (su_rt su) (su_output_dir su) e w) w u"
    and "arm_teardown su e project target u = (rep, u')" and "su_cloud su = layer3Scaleway"
  shows "extends (safe_in (su_rt su) (su_output_dir su) e w) w u'
     \<and> (if snd rep = [] then \<exists>t. target = Inr t \<and> st_strays t = []
            \<and> last_answer_gone (svc (su_rt su)) (st_project_id t) (env_get e ''SCW_SECRET_KEY'') w u'
        else True)"
  using project_teardown_verdict [OF assms(1)] assms(2,3) by (simp add: arm_teardown_def)

lemma recoverable_failures [simp]: "snd (recoverable su rep) = [] \<longleftrightarrow> snd rep = []"
  by (simp add: recoverable_def annotateWithRecoveryCommand_def)

lemma scaleway_arm_verdict:
  assumes "scaleway_arm su w = (rep, w')" and "su_cloud su = layer3Scaleway"
  shows "extends (safe_request (svc (su_rt su)) (su_output_dir su) (key_of (su_rt su)) (org_of (su_rt su)) w) w w'
     \<and> (if snd rep = [] then \<exists>t. CaptureSweepTarget (svc (su_rt su)) w (su_output_dir su) = Inr t
            \<and> st_strays t = [] \<and> last_answer_gone (svc (su_rt su)) (st_project_id t) (key_of (su_rt su)) w w'
        else True)"
proof (cases "ReadRunProjectMarker w (su_output_dir su)")
  case (Inl er)
  with assms show ?thesis by (auto simp: scaleway_arm_def Let_def preflight_failed_def)
next
  case (Inr marker)
  show ?thesis
  proof (cases "sandboxCommandEnvForProject (su_rt su) (su_aws_env su) layer3Scaleway (mk_project_id marker)")
    case (Inl er)
    with assms Inr show ?thesis by (auto simp: scaleway_arm_def Let_def preflight_failed_def)
  next
    case env: (Inr e)
    let ?target = "CaptureSweepTarget (svc (su_rt su)) w (su_output_dir su)"
    note creds = env_values(1,2) [OF conjunct1 [OF commandEnv_scaleway [OF env]]]
    obtain rep1 where fin: "finishTeardown (su_ended su) (su_fresh su)
        (arm_teardown su e (mk_project_id marker) ?target) w = (rep1, w')" "rep = recoverable su rep1"
      using assms Inr env by (auto simp: scaleway_arm_def Let_def split: prod.splits)
    have "extends (safe_in (su_rt su) (su_output_dir su) e w) w w' \<and> (if snd rep1 = [] then
        \<exists>t. ?target = Inr t \<and> st_strays t = []
          \<and> last_answer_gone (svc (su_rt su)) (st_project_id t) (env_get e ''SCW_SECRET_KEY'') w w' else True)"
      by (rule finishTeardown_keeps [OF _ fin(1)]) (rule arm_teardown_verdict [OF _ _ assms(2)])
    with fin(2) show ?thesis unfolding creds by simp
  qed
qed


subsection \<open>What a kept run leaves behind\<close>

lemma Put_lists:
  assumes "Put s d = (None, s')"
  shows "list_ex (\<lambda>r. d_id r = d_id d \<and> d_project_id r = d_project_id d \<and> d_expires_at r = d_expires_at d
     \<and> d_state r = d_state (stored d)) (fst (List s'))"
proof -
  have ok: "Validate d = None" using assms by (auto simp: Put_def split: option.splits)
  then have w: "write_record s d = (None, s')" using assms by (simp add: Put_def)
  then have look: "lookup_file s' (path (d_id d)) = Some (Rec (stored d))"
    using lookup_write_record [of s d "path (d_id d)"] Validate_validateID [OF ok] by simp
  with Validate_validateID [OF ok] obtain r where r: "Get s' (d_id d) = Inr r"
    and same: "d_id r = d_id d" "d_project_id r = d_project_id d" "d_expires_at r = d_expires_at d"
      "d_state r = d_state (stored d)"
    by (auto simp: Get_def stored_def)
  from look r have "r \<in> set (fst (List s'))" unfolding set_List by (auto simp: list_entry_path)
  with same show ?thesis by (auto simp: list_ex_iff)
qed

text \<open>
  What \<^verbatim>\<open>--keep\<close> leaves running is explained. A registration without failures has written a
  live record of the marker's project, with the deadline the scenario declares, into the store; so
  whatever the organization lists, that project is never among those nothing explains.
\<close>

theorem kept_run_is_explained:
  "case registerKeptRun rt ke sc spec outputDir stages (w, s) of (rep, w', s') \<Rightarrow>
     if snd rep = []
     then \<exists>marker ttl. ReadRunProjectMarker w outputDir = Inr marker \<and> ss_ttl spec = Inr ttl
        \<and> list_ex (\<lambda>d. d_id d = ke_id ke \<and> d_project_id d = mk_project_id marker \<and> d_state d = StateLive
             \<and> d_expires_at d = ke_now ke + ttl) (fst (List s'))
        \<and> mk_project_id marker \<notin> up_project_id ` set (r_unrecorded (Reconcile projects (fst (List s'))))
     else True"
proof (cases "registerKeptRun rt ke sc spec outputDir stages (w, s)")
  case (fields rep w' s')
  show ?thesis
  proof (cases "snd rep = []")
    case True
    obtain copyErr w1 where copy: "ke_copy ke outputDir (deploymentWorkDir (ke_root ke) (ke_id ke)) w = (copyErr, w1)"
      by fastforce
    let ?dir = "if copyErr = None then deploymentWorkDir (ke_root ke) (ke_id ke) else outputDir"
    let ?project = "case ReadRunProjectMarker w outputDir of Inl _ \<Rightarrow> [] | Inr m \<Rightarrow> mk_project_id m"
    from fields True obtain ttl where ttl: "ss_ttl spec = Inr ttl"
      by (auto simp: registerKeptRun_def keepFailed_def split: sum.splits)
    let ?d = "deployment_record ke sc spec ?dir ?project (ke_endpoint ke w1 ?dir) ttl (holdoutOutcome stages)"
    from fields True ttl copy have put: "Put s ?d = (None, s')" and nb: "\<not> blank ?project"
      by (auto simp: registerKeptRun_def registerDeployment_def register_failed_def Let_def
          split: if_splits prod.splits option.splits)
    from nb obtain marker where m: "ReadRunProjectMarker w outputDir = Inr marker"
      by (cases "ReadRunProjectMarker w outputDir") (auto simp: blank_def)
    have listed: "list_ex (\<lambda>d. d_id d = ke_id ke \<and> d_project_id d = mk_project_id marker \<and> d_state d = StateLive
        \<and> d_expires_at d = ke_now ke + ttl) (fst (List s'))"
      using Put_lists [OF put] m by (auto simp: deployment_record_def stored_def list_ex_iff)
    moreover have "mk_project_id marker \<noteq> []" using nb m by (auto simp: blank_def)
    ultimately have "mk_project_id marker \<notin> up_project_id ` set (r_unrecorded (Reconcile projects (fst (List s'))))"
      unfolding set_unrecorded by (auto simp: list_ex_iff)
    with listed m ttl fields True show ?thesis by auto
  qed (use fields in simp)
qed

subsection \<open>What a success means\<close>

lemma stray_step_clean:
  assumes "stray_step su (w, s) = (rep, w')" and "snd rep = []"
  shows "if su_enabled su \<and> su_cloud su = layer3Scaleway \<and> has_run_project (su_rt su)
       \<and> key_of (su_rt su) \<noteq> [] \<and> org_of (su_rt su) \<noteq> []
     then snd (List s) = [] \<and> (\<exists>listed. ListProjects (svc (su_rt su)) (key_of (su_rt su)) (org_of (su_rt su)) w = (Inr listed, w')
        \<and> r_unrecorded (Reconcile (stampedProjects listed) (fst (List s))) = [])
     else True"
  using assms
  by (auto simp: stray_step_def reportStrayRunProjects_def Let_def split: if_splits prod.splits sum.splits)

definition ours_explained :: "listed_project list \<Rightarrow> deployment list \<Rightarrow> bool" where
  "ours_explained listed deployments =
     list_all (\<lambda>l. if IsInfrafactoryRunProject (Provenance l)
       then list_ex (\<lambda>d. d_project_id d \<noteq> [] \<and> d_project_id d = lp_id l) deployments else True) listed"

lemma no_unrecorded_explained:
  "r_unrecorded (Reconcile (stampedProjects listed) ds) = [] \<Longrightarrow> ours_explained listed ds"
proof -
  assume "r_unrecorded (Reconcile (stampedProjects listed) ds) = []"
  then have none: "\<not> (p \<in> set (stampedProjects listed) \<and> sp_ours p
      \<and> \<not> (\<exists>d \<in> set ds. d_project_id d \<noteq> [] \<and> d_project_id d = sp_id p))" for p
    using set_unrecorded [of "stampedProjects listed" ds] by auto
  have "list_ex (\<lambda>d. d_project_id d \<noteq> [] \<and> d_project_id d = lp_id l) ds"
    if "l \<in> set listed" and "IsInfrafactoryRunProject (Provenance l)" for l
    using none [of "\<lparr>sp_id = lp_id l, sp_name = lp_name l,
        sp_ours = IsInfrafactoryRunProject (Provenance l)\<rparr>"] that
    by (auto simp: stampedProjects_def list_ex_iff)
  then show ?thesis by (simp add: ours_explained_def list_all_iff)
qed

text \<open>
  The evidence of a success: where the check could run, the last thing done was to list the projects,
  and all of them are explained by the records.
\<close>

definition success_evidence :: "'w run_setup \<Rightarrow> 'w world \<times> store \<Rightarrow> bool" where
  "success_evidence su ws =
     (if su_enabled su \<and> su_cloud su = layer3Scaleway \<and> has_run_project (su_rt su)
        \<and> key_of (su_rt su) \<noteq> [] \<and> org_of (su_rt su) \<noteq> []
      then snd (List (snd ws)) = []
        \<and> (\<exists>w listed. ListProjects (svc (su_rt su)) (key_of (su_rt su)) (org_of (su_rt su)) w = (Inr listed, fst ws)
             \<and> ours_explained listed (fst (List (snd ws))))
      else True)"

lemma run_end_evidence:
  assumes "run_end su controls runID reason st = Some r"
  shows "rr_reason r = reason \<and> (rr_error r = None \<longrightarrow> rr_success r)
     \<and> (rr_success r \<longrightarrow> reason = ''target_reached'' \<and> success_evidence su (rr_world r))"
proof -
  obtain w0 s0 where lw: "lp_world st = (w0, s0)" by fastforce
  obtain arm w1 where arm: "auto_destroy su (rc_no_destroy controls) reason (lp_stages st) w0 = (arm, w1)" by fastforce
  from assms lw arm obtain kept w2 s2 where kept:
    "keep_step su (rc_keep controls) reason (lp_stages st @ fst arm) (w1, s0) = Some (kept, w2, s2)"
    by (auto simp: run_end_def Let_def split: option.splits)
  obtain stray w3 where stray: "stray_step su (w2, s2) = (stray, w3)" by fastforce
  from assms lw arm kept stray have
    r: "rr_success r = runCommandStatus reason (snd stray \<noteq> []) (snd kept \<noteq> [])"
       "rr_world r = (w3, s2)" "rr_reason r = reason" "rr_error r = None \<longrightarrow> rr_success r"
    by (auto simp: run_end_def Let_def split: option.splits if_splits)
  have "snd stray = [] \<Longrightarrow> success_evidence su (w3, s2)"
    using stray_step_clean [OF stray] no_unrecorded_explained
    unfolding success_evidence_def by (auto split: if_splits)
  with r show ?thesis by (auto simp: runCommandStatus_def)
qed

lemma run_end_total:
  "assertKeepable (rc_keep controls) enabled (su_scenario su) = None \<Longrightarrow> run_end su controls runID reason st \<noteq> None"
  by (auto simp: run_end_def keep_step_def assertKeepable_def Let_def split: option.splits prod.splits if_splits sum.splits)

text \<open>
  C5. What a run's success means. A run always ends with a result or a refusal, a missing service
  block never being dereferenced. The process exits without an error only if the result it wrote
  says success; and it says success only if the loop reached its target and, where run projects can
  be checked, every record was read, and every project with infrafactory's stamp in the listing that
  ended the run has one.
\<close>

theorem run_success_is_evidence:
  "case runRunWithNotify cfg su runID stages ws of
     None \<Rightarrow> False
   | Some (Inl _) \<Rightarrow> True
   | Some (Inr r) \<Rightarrow>
       (if rr_error r = None then rr_success r else True)
       \<and> (if rr_success r then rr_reason r = ''target_reached'' \<and> success_evidence su (rr_world r) else True)"
proof -
  obtain st ending where lp: "run_loop cfg (loop_start stages ws) = (st, ending)" by fastforce
  with run_loop_last [of cfg "loop_start stages ws"] have "ending \<noteq> Go_On" by auto
  show ?thesis
  proof (cases "assertKeepable (rc_keep (lc_controls cfg)) (su_enabled su) (su_scenario su) = None
      \<and> assertHoldoutRunnable (rc_holdout (lc_controls cfg)) (su_enabled su) = None")
    case False
    then show ?thesis by (auto simp: runRunWithNotify_def Let_def split: option.splits)
  next
    case True
    show ?thesis
    proof (cases ending)
      case (Stop reason)
      from run_end_total [of _ _ su runID reason st] True
      obtain r where r: "run_end su (lc_controls cfg) runID reason st = Some r" by blast
      from run_end_evidence [OF r] show ?thesis
        using True lp Stop r by (auto simp: runRunWithNotify_def Let_def)
    qed (use True lp \<open>ending \<noteq> Go_On\<close> in \<open>simp_all add: runRunWithNotify_def Let_def\<close>)
  qed
qed

end
