(* ===== verification/Aws_Scope.thy ===== *)
theory Aws_Scope
  imports Teardown Learning
begin

text \<open>
  The AWS Layer 3 scope: its claim and its stamp (\<^verbatim>\<open>harness/aws_scope.go\<close>), and the sweep that proves it
  empty (\<^verbatim>\<open>harness/aws_sweep.go\<close>).

  The AWS clients are a parameter \<open>aws_api\<close>: functions on a world \<open>'w\<close> about which nothing is assumed
  except where a statement names the documented behaviour of SSM, \<open>ssm_lawful\<close>. Every request is
  logged. A listing whose pages never end does not return: \<open>None\<close>.
\<close>

subsection \<open>The clients\<close>

record aws_error =
  ae_code :: string
  ae_text :: string

record aws_attachment =
  at_state :: string
  at_target :: "string option"

record aws_association =
  as_main :: bool
  as_id :: "string option"

text \<open>What the source reads of any resource; each operation fills in what its resources have.\<close>

record aws_item =
  ai_id :: "string option"
  ai_state :: string \<comment> \<open>\<^verbatim>\<open>""\<close> for one without\<close>
  ai_tags :: "(string option \<times> string option) list"
  ai_name :: "string option"
  ai_default :: bool
  ai_attachments :: "aws_attachment list"
  ai_associations :: "aws_association list"
  ai_association :: "string option"
  ai_attachment :: "string option option"
  ai_ingress :: "string list"
  ai_egress :: "string list"

datatype aws_call =
    Put_Parameter string string
  | Get_Parameter string
  | Delete_Parameter string
  | Describe string "string option"
  | Describe_One string string
  | Change string string "string list" \<comment> \<open>action, id, arguments\<close>
  | Get_Identity

record 'w aws_api =
  api_put :: "string \<Rightarrow> string \<Rightarrow> 'w \<Rightarrow> aws_error option \<times> 'w" \<comment> \<open>never overwrites\<close>
  api_get :: "string \<Rightarrow> 'w \<Rightarrow> (aws_error + string option) \<times> 'w"
  api_delete :: "string \<Rightarrow> 'w \<Rightarrow> aws_error option \<times> 'w"
  api_page :: "string \<Rightarrow> string option \<Rightarrow> 'w \<Rightarrow> (aws_error + aws_item list \<times> string option) \<times> 'w"
  api_one :: "string \<Rightarrow> string \<Rightarrow> 'w \<Rightarrow> (aws_error + aws_item list) \<times> 'w"
  api_change :: "string \<Rightarrow> string \<Rightarrow> string list \<Rightarrow> 'w \<Rightarrow> aws_error option \<times> 'w"
  api_identity :: "'w \<Rightarrow> (aws_error + string \<times> string) \<times> 'w"
  api_sleep :: "'w \<Rightarrow> string option \<times> 'w"
  ssm_fault :: "string option" \<comment> \<open>why the client cannot be built\<close>
  ec2_fault :: "string option"
  host_name :: "string + string"
  pid_exists :: "int \<Rightarrow> 'w \<Rightarrow> bool"

text \<open>What a process knows of the claim; the zero value is unknown.\<close>

datatype aws_claim =
    awsClaimUnknown
  | awsClaimHeld
  | awsClaimNotHeld
  | awsClaimHeldByOther (claim_other: string)

record 'w aws_world =
  az_world :: 'w
  az_log :: "aws_call list"
  az_claim :: aws_claim

definition sent_call :: "aws_call \<Rightarrow> 'w \<Rightarrow> 'w aws_world \<Rightarrow> 'w aws_world" where
  "sent_call c w st = st\<lparr>az_world := w, az_log := az_log st @ [c]\<rparr>"

definition call_put :: "'w aws_api \<Rightarrow> string \<Rightarrow> string \<Rightarrow> 'w aws_world \<Rightarrow> aws_error option \<times> 'w aws_world" where
  "call_put api name v st = map_prod id (\<lambda>w. sent_call (Put_Parameter name v) w st) (api_put api name v (az_world st))"

definition call_get :: "'w aws_api \<Rightarrow> string \<Rightarrow> 'w aws_world \<Rightarrow> (aws_error + string option) \<times> 'w aws_world" where
  "call_get api name st = map_prod id (\<lambda>w. sent_call (Get_Parameter name) w st) (api_get api name (az_world st))"

definition call_delete :: "'w aws_api \<Rightarrow> string \<Rightarrow> 'w aws_world \<Rightarrow> aws_error option \<times> 'w aws_world" where
  "call_delete api name st = map_prod id (\<lambda>w. sent_call (Delete_Parameter name) w st) (api_delete api name (az_world st))"

definition call_page :: "'w aws_api \<Rightarrow> string \<Rightarrow> string option \<Rightarrow> 'w aws_world
    \<Rightarrow> (aws_error + aws_item list \<times> string option) \<times> 'w aws_world" where
  "call_page api op token st = map_prod id (\<lambda>w. sent_call (Describe op token) w st) (api_page api op token (az_world st))"

definition call_sleep :: "'w aws_api \<Rightarrow> 'w aws_world \<Rightarrow> string option \<times> 'w aws_world" where
  "call_sleep api st = map_prod id (\<lambda>w. st\<lparr>az_world := w\<rparr>) (api_sleep api (az_world st))"

subsection \<open>The claim\<close>

definition AWSClaimParameter :: string where "AWSClaimParameter = ''/infrafactory/layer3/claim''"
definition AWSStampParameter :: string where "AWSStampParameter = ''/infrafactory/layer3/stamp''"

datatype scope_sentinel =
    ErrAWSScopeClaimed (claimed_by: string)
  | ErrAWSClaimOutcomeUnknown
  | ErrAWSNoClaimHeld
  | ErrAWSPreviousClaimDeleted

text \<open>An error's text and what \<^verbatim>\<open>errors.Is\<close> and \<^verbatim>\<open>errors.As\<close> find in it, in the order they look.\<close>

datatype scope_error = Scope_Error (se_text: string) (se_is: "scope_sentinel list")

definition scope_errorf :: "string \<Rightarrow> scope_error" where
  "scope_errorf s = Scope_Error s []"

definition claimed_text :: "string \<Rightarrow> string" where
  "claimed_text holder = ''the aws Layer 3 scope is claimed by '' @ quote holder"

definition claim_name_re :: "string \<Rightarrow> regex" where
  "claim_name_re extra = some_re (Chr (\<lambda>c. alnum c \<or> c \<in> set extra))"

definition awsClaimHolderRe :: regex where
  "awsClaimHolderRe = seqs [At_Start, claim_name_re ''._+-'', lit_char CHR ''@'', claim_name_re ''.-'',
     lit_char CHR '':'', some_re digit_re, At_End]"

definition checkAWSClaimHolder :: "string \<Rightarrow> scope_error option" where
  "checkAWSClaimHolder holder =
     (if find_first awsClaimHolderRe holder \<noteq> None then None
      else Some (scope_errorf (''aws scope claim: '' @ quote holder
             @ '' is not a holder of the form <run id>@<host>:<pid>'')))"

definition NewAWSClaimHolder :: "'w aws_api \<Rightarrow> string \<Rightarrow> int \<Rightarrow> scope_error + string" where
  "NewAWSClaimHolder api runID pid =
     (case host_name api of
        Inl e \<Rightarrow> Inl (scope_errorf (''aws scope claim: reading the hostname: '' @ e))
      | Inr host \<Rightarrow>
          let holder = runID @ ''@'' @ host @ '':'' @ itoa pid in
          (case checkAWSClaimHolder holder of Some e \<Rightarrow> Inl e | None \<Rightarrow> Inr holder))"

definition getAWSParameter :: "'w aws_api \<Rightarrow> string \<Rightarrow> 'w aws_world \<Rightarrow> (string + string option) \<times> 'w aws_world" where
  "getAWSParameter api name st =
     (case call_get api name st of
        (Inl e, st1) \<Rightarrow> (if ae_code e = ''ParameterNotFound'' then (Inr None, st1)
                        else (Inl (''ssm:GetParameter '' @ name @ '' failed: '' @ ae_text e), st1))
      | (Inr None, st1) \<Rightarrow> (Inl (''ssm:GetParameter '' @ name @ '' returned no value''), st1)
      | (Inr (Some v), st1) \<Rightarrow> (Inr (Some v), st1))"

text \<open>When the put fails, whatever the error, the stored value decides.\<close>

definition takeAWSClaim :: "'w aws_api \<Rightarrow> string \<Rightarrow> 'w aws_world \<Rightarrow> scope_error option \<times> 'w aws_world" where
  "takeAWSClaim api holder st =
     (case call_put api AWSClaimParameter holder st of
        (None, st1) \<Rightarrow> (None, st1)
      | (Some putErr, st1) \<Rightarrow>
          (case getAWSParameter api AWSClaimParameter st1 of
             (Inl e, st2) \<Rightarrow>
               (Some (Scope_Error (''the aws Layer 3 claim'' @ [apostrophe] @ ''s outcome is unknown: ssm:PutParameter ''
                  @ AWSClaimParameter @ '' failed ('' @ ae_text putErr @ ''), and reading it back failed: '' @ e)
                  [ErrAWSClaimOutcomeUnknown]), st2)
           | (Inr (Some v), st2) \<Rightarrow>
               (if v = holder then None else Some (Scope_Error (claimed_text v) [ErrAWSScopeClaimed v]), st2)
           | (Inr None, st2) \<Rightarrow>
               (Some (scope_errorf (''aws scope claim: ssm:PutParameter '' @ AWSClaimParameter
                  @ '' failed and no claim is stored: '' @ ae_text putErr)), st2)))"

text \<open>The holder is checked and the client built before anything is asked.\<close>

definition with_ssm :: "'w aws_api \<Rightarrow> string list \<Rightarrow> ('w aws_world \<Rightarrow> scope_error option \<times> 'w aws_world)
    \<Rightarrow> 'w aws_world \<Rightarrow> scope_error option \<times> 'w aws_world" where
  "with_ssm api holders act st =
     (case filter (\<lambda>h. checkAWSClaimHolder h \<noteq> None) holders of
        h # _ \<Rightarrow> (checkAWSClaimHolder h, st)
      | [] \<Rightarrow> (case ssm_fault api of Some e \<Rightarrow> (Some (scope_errorf e), st) | None \<Rightarrow> act st))"

definition TakeAWSClaim :: "'w aws_api \<Rightarrow> string \<Rightarrow> 'w aws_world \<Rightarrow> scope_error option \<times> 'w aws_world" where
  "TakeAWSClaim api holder = with_ssm api [holder] (takeAWSClaim api holder)"

definition ReadAWSClaimHolder :: "'w aws_api \<Rightarrow> 'w aws_world \<Rightarrow> (scope_error + string option) \<times> 'w aws_world" where
  "ReadAWSClaimHolder api st =
     (case ssm_fault api of
        Some e \<Rightarrow> (Inl (scope_errorf e), st)
      | None \<Rightarrow>
          (case getAWSParameter api AWSClaimParameter st of
             (Inl e, st1) \<Rightarrow> (Inl (scope_errorf (''aws scope claim: '' @ e)), st1)
           | (Inr None, st1) \<Rightarrow> (Inr None, st1)
           | (Inr (Some v), st1) \<Rightarrow>
               ((case checkAWSClaimHolder v of Some e \<Rightarrow> Inl e | None \<Rightarrow> Inr (Some v)), st1)))"

definition deleteAWSClaimHeldBy :: "'w aws_api \<Rightarrow> string \<Rightarrow> 'w aws_world \<Rightarrow> scope_error option \<times> 'w aws_world" where
  "deleteAWSClaimHeldBy api want st =
     (case getAWSParameter api AWSClaimParameter st of
        (Inl e, st1) \<Rightarrow> (Some (scope_errorf (''aws scope claim: '' @ e)), st1)
      | (Inr None, st1) \<Rightarrow>
          (Some (Scope_Error (''aws scope claim: refusing to delete '' @ AWSClaimParameter
             @ '': no claim is held, and '' @ quote want @ '' expected to hold it'') [ErrAWSNoClaimHeld]), st1)
      | (Inr (Some v), st1) \<Rightarrow>
          if v \<noteq> want
          then (Some (Scope_Error (''aws scope claim: refusing to delete '' @ AWSClaimParameter @ '': ''
                  @ claimed_text v @ '', not '' @ quote want) [ErrAWSScopeClaimed v]), st1)
          else (case call_delete api AWSClaimParameter st1 of
                  (None, st2) \<Rightarrow> (None, st2)
                | (Some e, st2) \<Rightarrow>
                    (if ae_code e = ''ParameterNotFound'' then None
                     else Some (scope_errorf (''aws scope claim: ssm:DeleteParameter '' @ AWSClaimParameter
                            @ '' failed: '' @ ae_text e)), st2)))"

definition ReleaseAWSClaim :: "'w aws_api \<Rightarrow> string \<Rightarrow> 'w aws_world \<Rightarrow> scope_error option \<times> 'w aws_world" where
  "ReleaseAWSClaim api holder = with_ssm api [holder] (deleteAWSClaimHeldBy api holder)"

text \<open>The host and the process id of a holder.\<close>

definition holder_host :: "string \<Rightarrow> string \<times> string" where
  "holder_host holder =
     (let hostPID = (case str_index holder ''@'' of None \<Rightarrow> [] | Some k \<Rightarrow> drop (Suc k) holder) in
      case str_index hostPID '':'' of None \<Rightarrow> (hostPID, []) | Some k \<Rightarrow> (take k hostPID, drop (Suc k) hostPID))"

definition refuseLiveLocalHolder :: "'w aws_api \<Rightarrow> string \<Rightarrow> 'w \<Rightarrow> scope_error option" where
  "refuseLiveLocalHolder api holder w =
     (let (host, pidText) = holder_host holder in
      case host_name api of
        Inl e \<Rightarrow> Some (scope_errorf (''aws scope claim: reading the hostname: '' @ e))
      | Inr self \<Rightarrow>
          if host \<noteq> self then None
          else (case atoi pidText of
                  None \<Rightarrow> Some (scope_errorf (''aws scope claim: holder '' @ quote holder @ '' has pid '' @ quote pidText))
                | Some pid \<Rightarrow>
                    if pid_exists api pid w
                    then Some (scope_errorf (''aws scope claim: refusing to take over from '' @ quote holder
                           @ '': process '' @ itoa pid @ '' on this host is still running''))
                    else None))"

definition TakeOverAWSClaim :: "'w aws_api \<Rightarrow> string \<Rightarrow> string \<Rightarrow> 'w aws_world \<Rightarrow> scope_error option \<times> 'w aws_world" where
  "TakeOverAWSClaim api previous holder st =
     (case filter (\<lambda>h. checkAWSClaimHolder h \<noteq> None) [previous, holder] of
        h # _ \<Rightarrow> (checkAWSClaimHolder h, st)
      | [] \<Rightarrow>
          (case refuseLiveLocalHolder api previous (az_world st) of
             Some e \<Rightarrow> (Some e, st)
           | None \<Rightarrow>
               with_ssm api [] (\<lambda>st0.
                 case deleteAWSClaimHeldBy api previous st0 of
                   (Some e, st1) \<Rightarrow> (Some e, st1)
                 | (None, st1) \<Rightarrow>
                     (case takeAWSClaim api holder st1 of
                        (Some e, st2) \<Rightarrow>
                          (Some (Scope_Error (''the previous holder'' @ [apostrophe] @ ''s aws Layer 3 claim was deleted: ''
                             @ se_text e) (ErrAWSPreviousClaimDeleted # se_is e)), st2)
                      | (None, st2) \<Rightarrow> (None, st2))) st))"

text \<open>What the outcomes say of the claim (\<^verbatim>\<open>cli/aws_scope_lifecycle.go\<close>).\<close>

definition named_holder :: "scope_error \<Rightarrow> string option" where
  "named_holder e =
     (case filter (\<lambda>x. case x of ErrAWSScopeClaimed _ \<Rightarrow> True | _ \<Rightarrow> False) (se_is e) of
        ErrAWSScopeClaimed h # _ \<Rightarrow> Some h | _ \<Rightarrow> None)"

definition awsClaimAfterTake :: "scope_error option \<Rightarrow> aws_claim" where
  "awsClaimAfterTake err =
     (case err of
        None \<Rightarrow> awsClaimHeld
      | Some e \<Rightarrow>
          if ErrAWSClaimOutcomeUnknown \<in> set (se_is e) then awsClaimUnknown
          else (case named_holder e of Some h \<Rightarrow> awsClaimHeldByOther h | None \<Rightarrow> awsClaimNotHeld))"

definition awsClaimAfterRelease :: "scope_error option \<Rightarrow> aws_claim" where
  "awsClaimAfterRelease err =
     (case err of
        None \<Rightarrow> awsClaimNotHeld
      | Some e \<Rightarrow>
          if ErrAWSNoClaimHeld \<in> set (se_is e) then awsClaimNotHeld
          else (case named_holder e of Some h \<Rightarrow> awsClaimHeldByOther h | None \<Rightarrow> awsClaimUnknown))"

subsection \<open>The stamp and the default VPC\<close>

definition AssertAWSScopeStamp :: "'w aws_api \<Rightarrow> string \<Rightarrow> 'w aws_world \<Rightarrow> string option \<times> 'w aws_world" where
  "AssertAWSScopeStamp api account st =
     (if account = [] then (Some ''aws scope stamp: the expected account must be set'', st)
      else (case ssm_fault api of
          Some e \<Rightarrow> (Some e, st)
        | None \<Rightarrow>
            (case getAWSParameter api AWSStampParameter st of
               (Inl e, st1) \<Rightarrow> (Some (''aws scope stamp: '' @ e), st1)
             | (Inr None, st1) \<Rightarrow> (Some (''aws scope stamp: '' @ AWSStampParameter
                 @ '' does not exist, so this account is not a stamped Layer 3 scope; it is written at setup (docs/operations.md ''
                 @ [CHR 0xC2, CHR 0xA7] @ '' Layer 3 (AWS))''), st1)
             | (Inr (Some v), st1) \<Rightarrow>
                 (if v \<noteq> account then Some (''aws scope stamp: '' @ AWSStampParameter @ '' holds '' @ quote v
                    @ '', not the configured account '' @ quote account) else None, st1))))"

text \<open>Every page is read, and the flag of each VPC; the client's paginator ends at an empty token.\<close>

definition token_text :: "string option \<Rightarrow> string" where
  "token_text t = (case t of None \<Rightarrow> [] | Some s \<Rightarrow> s)"

partial_function (option) vpc_pages :: "'w aws_api \<Rightarrow> string option \<Rightarrow> 'w aws_world
    \<Rightarrow> (string option \<times> 'w aws_world) option" where
  "vpc_pages api token st =
     (case call_page api ''DescribeVpcs'' token st of
        (Inl e, st1) \<Rightarrow> Some (Some (''aws default vpc check: DescribeVpcs failed: '' @ ae_text e), st1)
      | (Inr (vpcs, nxt), st1) \<Rightarrow>
          (case filter ai_default vpcs of
             v # _ \<Rightarrow> Some (Some (''aws default vpc check: '' @ token_text (ai_id v)
                 @ '' is the region'' @ [apostrophe] @ ''s default VPC, which setup deletes (docs/operations.md ''
                 @ [CHR 0xC2, CHR 0xA7] @ '' Layer 3 (AWS))''), st1)
           | [] \<Rightarrow> if token_text nxt = [] then Some (None, st1) else vpc_pages api nxt st1))"

definition AssertNoAWSDefaultVPC :: "'w aws_api \<Rightarrow> 'w aws_world \<Rightarrow> (string option \<times> 'w aws_world) option" where
  "AssertNoAWSDefaultVPC api st =
     (case ec2_fault api of Some e \<Rightarrow> Some (Some e, st) | None \<Rightarrow> vpc_pages api None st)"

subsection \<open>The sweep\<close>

record aws_stray =
  sy_collection :: string
  sy_id :: string
  sy_state :: string
  sy_run :: string

definition AWSRunIDTagKey :: string where "AWSRunIDTagKey = ''infrafactory-run-id''"
definition AWSSweepMaxPolls :: nat where "AWSSweepMaxPolls = 60"

definition awsSettlingStates :: "string list" where
  "awsSettlingStates = [''shutting-down'', ''deleting'', ''detaching'']"

definition stray_text :: "aws_stray \<Rightarrow> string" where
  "stray_text s =
     (let detail = (if sy_state s = [] then [] else [sy_state s])
            @ (if sy_run s = [] then [] else [AWSRunIDTagKey @ ''='' @ sy_run s])
      in if detail = [] then sy_collection s @ '' '' @ sy_id s
         else sy_collection s @ '' '' @ sy_id s @ '' ('' @ join '', '' detail @ '')'')"

definition joinAWSStrays :: "aws_stray list \<Rightarrow> string" where
  "joinAWSStrays leaks = join ''; '' (map stray_text leaks)"

definition awsRunIDTag :: "(string option \<times> string option) list \<Rightarrow> string" where
  "awsRunIDTag tags =
     (case filter (\<lambda>(k, _). token_text k = AWSRunIDTagKey) tags of (_, v) # _ \<Rightarrow> token_text v | [] \<Rightarrow> [])"

definition found_stray :: "string \<Rightarrow> aws_item \<Rightarrow> aws_stray" where
  "found_stray state i =
     \<lparr>sy_collection = [], sy_id = token_text (ai_id i), sy_state = state, sy_run = awsRunIDTag (ai_tags i)\<rparr>"

text \<open>Pages in turn, from no token until one comes back empty; a token seen before is an error.\<close>

partial_function (option) awsPages :: "'w aws_api \<Rightarrow> string \<Rightarrow> string option \<Rightarrow> string list \<Rightarrow> aws_item list
    \<Rightarrow> 'w aws_world \<Rightarrow> ((string + aws_item list) \<times> 'w aws_world) option" where
  "awsPages api op token seen acc st =
     (case call_page api op token st of
        (Inl e, st1) \<Rightarrow> Some (Inl (ae_text e), st1)
      | (Inr (items, nxt), st1) \<Rightarrow>
          if token_text nxt = [] then Some (Inr (acc @ items), st1)
          else if token_text nxt \<in> set seen
          then Some (Inl (''NextToken '' @ quote (token_text nxt)
                 @ '' came back a second time, so the listing cycles and is incomplete''), st1)
          else awsPages api op nxt (token_text nxt # seen) (acc @ items) st1)"

text \<open>A listing: what each item is, nothing for one that is no leak.\<close>

type_synonym 'w lister = "'w aws_api \<Rightarrow> 'w aws_world \<Rightarrow> ((string + aws_stray list) \<times> 'w aws_world) option"

definition kept_strays :: "(aws_item \<Rightarrow> bool) \<Rightarrow> (aws_item \<Rightarrow> string) \<Rightarrow> aws_item list \<Rightarrow> aws_stray list" where
  "kept_strays exempt state items = map (\<lambda>i. found_stray (state i) i) (filter (\<lambda>i. \<not> exempt i) items)"

definition paged :: "string \<Rightarrow> (aws_item \<Rightarrow> bool) \<Rightarrow> (aws_item \<Rightarrow> string) \<Rightarrow> 'w lister" where
  "paged op exempt state api st =
     map_option (map_prod (map_sum (\<lambda>e. e) (kept_strays exempt state)) (\<lambda>s. s)) (awsPages api op None [] [] st)"

definition unpaged :: "string \<Rightarrow> 'w lister" where
  "unpaged op api st =
     (case call_page api op None st of
        (Inl e, st1) \<Rightarrow> Some (Inl (ae_text e), st1)
      | (Inr (items, _), st1) \<Rightarrow> Some (Inr (kept_strays (\<lambda>_. False) (\<lambda>_. []) items), st1))"

definition listAWSInstances :: "'w lister" where
  "listAWSInstances = paged ''DescribeInstances'' (\<lambda>i. ai_state i = ''terminated'') ai_state"

definition volume_state :: "aws_item \<Rightarrow> string" where
  "volume_state i =
     (if list_ex (\<lambda>a. at_state a = ''detaching'') (ai_attachments i) then ''detaching'' else ai_state i)"

definition listAWSVolumes :: "'w lister" where
  "listAWSVolumes = paged ''DescribeVolumes'' (\<lambda>_. False) volume_state"

definition listAWSNetworkInterfaces :: "'w lister" where
  "listAWSNetworkInterfaces = paged ''DescribeNetworkInterfaces'' (\<lambda>_. False) ai_state"

definition listAWSAddresses :: "'w lister" where
  "listAWSAddresses = unpaged ''DescribeAddresses''"

definition listAWSSecurityGroups :: "'w lister" where
  "listAWSSecurityGroups = paged ''DescribeSecurityGroups'' (\<lambda>i. token_text (ai_name i) = ''default'') (\<lambda>_. [])"

definition listAWSVPCs :: "'w lister" where
  "listAWSVPCs = paged ''DescribeVpcs'' (\<lambda>_. False) ai_state"

definition listAWSSubnets :: "'w lister" where
  "listAWSSubnets = paged ''DescribeSubnets'' (\<lambda>_. False) ai_state"

definition gateway_state :: "aws_item \<Rightarrow> string" where
  "gateway_state i = (if ai_attachments i = [] then [] else at_state (last (ai_attachments i)))"

definition listAWSInternetGateways :: "'w lister" where
  "listAWSInternetGateways = paged ''DescribeInternetGateways'' (\<lambda>_. False) gateway_state"

definition awsMainRouteTable :: "aws_item \<Rightarrow> bool" where
  "awsMainRouteTable i \<longleftrightarrow> list_ex as_main (ai_associations i)"

definition listAWSRouteTables :: "'w lister" where
  "listAWSRouteTables = paged ''DescribeRouteTables'' awsMainRouteTable (\<lambda>_. [])"

definition listAWSNATGateways :: "'w lister" where
  "listAWSNATGateways = paged ''DescribeNatGateways'' (\<lambda>i. ai_state i = ''deleted'') ai_state"

definition listAWSKeyPairs :: "'w lister" where
  "listAWSKeyPairs = unpaged ''DescribeKeyPairs''"

definition listAWSImages :: "'w lister" where
  "listAWSImages = paged ''DescribeImages Owners=self IncludeDisabled=true'' (\<lambda>_. False) ai_state"

definition listAWSSnapshots :: "'w lister" where
  "listAWSSnapshots = paged ''DescribeSnapshots OwnerIds=self'' (\<lambda>_. False) ai_state"

definition listAWSLaunchTemplates :: "'w lister" where
  "listAWSLaunchTemplates = paged ''DescribeLaunchTemplates'' (\<lambda>_. False) (\<lambda>_. [])"

text \<open>Parameters are named, not tagged.\<close>

definition parameter_strays :: "aws_item list \<Rightarrow> aws_stray list" where
  "parameter_strays items =
     map (\<lambda>i. \<lparr>sy_collection = [], sy_id = token_text (ai_name i), sy_state = [], sy_run = []\<rparr>)
       (filter (\<lambda>i. token_text (ai_name i) \<notin> {AWSClaimParameter, AWSStampParameter}) items)"

definition listAWSParameters :: "'w lister" where
  "listAWSParameters api st =
     map_option (map_prod (map_sum (\<lambda>e. e) parameter_strays) (\<lambda>s. s)) (awsPages api ''DescribeParameters'' None [] [] st)"

definition AWSSweepCollections :: "(string \<times> 'w lister) list" where
  "AWSSweepCollections =
     [(''instances'', listAWSInstances), (''volumes'', listAWSVolumes),
      (''network interfaces'', listAWSNetworkInterfaces), (''elastic ips'', listAWSAddresses),
      (''security groups'', listAWSSecurityGroups), (''vpcs'', listAWSVPCs), (''subnets'', listAWSSubnets),
      (''internet gateways'', listAWSInternetGateways), (''route tables'', listAWSRouteTables),
      (''nat gateways'', listAWSNATGateways), (''key pairs'', listAWSKeyPairs), (''images'', listAWSImages),
      (''snapshots'', listAWSSnapshots), (''launch templates'', listAWSLaunchTemplates),
      (''ssm parameters'', listAWSParameters)]"

fun poll_rows :: "'w aws_api \<Rightarrow> (string \<times> 'w lister) list \<Rightarrow> aws_stray list \<Rightarrow> 'w aws_world
    \<Rightarrow> ((string + aws_stray list) \<times> 'w aws_world) option" where
  "poll_rows api [] acc st = Some (Inr acc, st)"
| "poll_rows api ((name, lister) # rows) acc st =
     (case lister api st of
        None \<Rightarrow> None
      | Some (Inl e, st1) \<Rightarrow> Some (Inl (''aws scope sweep: '' @ name @ '': '' @ e), st1)
      | Some (Inr found, st1) \<Rightarrow> poll_rows api rows (acc @ map (\<lambda>s. s\<lparr>sy_collection := name\<rparr>) found) st1)"

definition pollAWSScope :: "'w aws_api \<Rightarrow> 'w aws_world \<Rightarrow> ((string + aws_stray list) \<times> 'w aws_world) option" where
  "pollAWSScope api st = poll_rows api AWSSweepCollections [] st"

definition awsScopeSettling :: "aws_stray list \<Rightarrow> bool" where
  "awsScopeSettling leaks \<longleftrightarrow> list_ex (\<lambda>s. sy_state s \<in> set awsSettlingStates) leaks"

text \<open>The polls left, the one to come included; the last one fails when something still settles.\<close>

fun sweep_polls :: "'w aws_api \<Rightarrow> nat \<Rightarrow> 'w aws_world
    \<Rightarrow> ((aws_stray list \<times> string option) \<times> 'w aws_world) option" where
  "sweep_polls api left st =
     (case pollAWSScope api st of
        None \<Rightarrow> None
      | Some (Inl e, st1) \<Rightarrow> Some (([], Some e), st1)
      | Some (Inr leaks, st1) \<Rightarrow>
          if \<not> awsScopeSettling leaks
          then Some (if leaks = [] then ([], None)
                     else (leaks, Some (''aws scope sweep: the scope is not empty: '' @ joinAWSStrays leaks)), st1)
          else (case left of
                  Suc (Suc n) \<Rightarrow>
                    (case call_sleep api st1 of
                       (Some e, st2) \<Rightarrow> Some (([], Some (''aws scope sweep: waiting to poll again: '' @ e)), st2)
                     | (None, st2) \<Rightarrow> sweep_polls api (Suc n) st2)
                | _ \<Rightarrow> Some ((leaks, Some (''aws scope sweep: still settling after '' @ nat_digits AWSSweepMaxPolls
                         @ '' polls: '' @ joinAWSStrays leaks)), st1)))"

definition SweepAWSScope :: "'w aws_api \<Rightarrow> 'w aws_world \<Rightarrow> ((aws_stray list \<times> string option) \<times> 'w aws_world) option" where
  "SweepAWSScope api st =
     (case (ec2_fault api, ssm_fault api) of
        (Some e, _) \<Rightarrow> Some (([], Some (''aws scope sweep: '' @ e)), st)
      | (None, Some e) \<Rightarrow> Some (([], Some (''aws scope sweep: '' @ e)), st)
      | (None, None) \<Rightarrow> sweep_polls api AWSSweepMaxPolls st)"

subsection \<open>What a process knows of the claim is true\<close>

text \<open>
  The documented behaviour of SSM, for the parameters \<open>val\<close> reads off the world. A put that does not
  overwrite succeeds only on an absent parameter. A failed put or delete may have landed, its
  response lost; a parameter answered or reported missing is so.
\<close>

definition ssm_lawful :: "'w aws_api \<Rightarrow> ('w \<Rightarrow> string \<Rightarrow> string option) \<Rightarrow> bool" where
  "ssm_lawful api val \<longleftrightarrow>
     (\<forall>n v w. case api_put api n v w of
         (None, w') \<Rightarrow> val w n = None \<and> val w' = (val w)(n \<mapsto> v)
       | (Some e, w') \<Rightarrow> val w' = val w \<or> (val w n = None \<and> val w' = (val w)(n \<mapsto> v)))
     \<and> (\<forall>n w. case api_get api n w of
         (Inr answer, w') \<Rightarrow> val w' = val w \<and> (answer = None \<or> answer = val w n)
       | (Inl e, w') \<Rightarrow> val w' = val w \<and> (ae_code e = ''ParameterNotFound'' \<longrightarrow> val w n = None))
     \<and> (\<forall>n w. case api_delete api n w of
         (None, w') \<Rightarrow> val w n \<noteq> None \<and> val w' = (val w)(n := None)
       | (Some e, w') \<Rightarrow> (val w' = val w \<or> val w' = (val w)(n := None))
           \<and> (ae_code e = ''ParameterNotFound'' \<longrightarrow> val w' n = None))"

text \<open>What a process believes, against the stored value.\<close>

fun claim_true :: "string \<Rightarrow> aws_claim \<Rightarrow> string option \<Rightarrow> bool" where
  "claim_true holder awsClaimHeld v \<longleftrightarrow> v = Some holder"
| "claim_true holder awsClaimNotHeld v \<longleftrightarrow> v = None"
| "claim_true holder (awsClaimHeldByOther other) v \<longleftrightarrow> v = Some other \<and> other \<noteq> holder"
| "claim_true holder awsClaimUnknown v \<longleftrightarrow> True"

lemma lawful_put:
  assumes "ssm_lawful api val" and put: "call_put api n v st = (r, st')"
  shows "case r of None \<Rightarrow> val (az_world st) n = None \<and> val (az_world st') = (val (az_world st))(n \<mapsto> v)
      | Some _ \<Rightarrow> val (az_world st') = val (az_world st)
          \<or> (val (az_world st) n = None \<and> val (az_world st') = (val (az_world st))(n \<mapsto> v))"
proof -
  obtain r0 w' where 0: "api_put api n v (az_world st) = (r0, w')" by fastforce
  from assms(1) have "\<forall>n v w. case api_put api n v w of
         (None, w') \<Rightarrow> val w n = None \<and> val w' = (val w)(n \<mapsto> v)
       | (Some e, w') \<Rightarrow> val w' = val w \<or> (val w n = None \<and> val w' = (val w)(n \<mapsto> v))"
    unfolding ssm_lawful_def by (rule conjunct1)
  from this [THEN spec, of n, THEN spec, of v, THEN spec, of "az_world st"] 0 put show ?thesis
    by (cases r0) (auto simp: call_put_def sent_call_def)
qed

lemma lawful_get:
  "ssm_lawful api val \<Longrightarrow> getAWSParameter api n st = (r, st') \<Longrightarrow>
     val (az_world st') = val (az_world st)
     \<and> (case r of Inl _ \<Rightarrow> True | Inr answer \<Rightarrow> answer = val (az_world st) n)"
  by (cases "api_get api n (az_world st)"; cases "fst (api_get api n (az_world st))")
     (auto simp: ssm_lawful_def getAWSParameter_def call_get_def sent_call_def
        split: option.splits prod.splits if_splits dest!: spec [of _ n] spec [of _ "az_world st"])

lemma lawful_delete:
  "ssm_lawful api val \<Longrightarrow> call_delete api n st = (r, st') \<Longrightarrow>
     (val (az_world st') = val (az_world st) \<or> val (az_world st') = (val (az_world st))(n := None))
     \<and> (case r of None \<Rightarrow> val (az_world st') n = None
        | Some e \<Rightarrow> ae_code e = ''ParameterNotFound'' \<longrightarrow> val (az_world st') n = None)"
  by (cases "api_delete api n (az_world st)")
     (auto simp: ssm_lawful_def call_delete_def sent_call_def split: option.splits prod.splits
        dest!: spec [of _ n] spec [of _ "az_world st"])

lemma take_is_true:
  assumes law: "ssm_lawful api val" and run: "takeAWSClaim api holder st = (err, st')"
  shows "claim_true holder (awsClaimAfterTake err) (val (az_world st') AWSClaimParameter)"
proof -
  obtain pe st1 where put: "call_put api AWSClaimParameter holder st = (pe, st1)" by fastforce
  note 1 = lawful_put [OF law put]
  show ?thesis
  proof (cases pe)
    case None
    with run put 1 show ?thesis by (auto simp: takeAWSClaim_def awsClaimAfterTake_def)
  next
    case (Some e)
    obtain g st2 where get: "getAWSParameter api AWSClaimParameter st1 = (g, st2)" by fastforce
    from lawful_get [OF law get] run put Some get show ?thesis
      by (auto simp: takeAWSClaim_def awsClaimAfterTake_def named_holder_def scope_errorf_def
          split: sum.splits option.splits if_splits)
  qed
qed

lemma release_is_true:
  assumes law: "ssm_lawful api val" and run: "deleteAWSClaimHeldBy api holder st = (err, st')"
  shows "claim_true holder (awsClaimAfterRelease err) (val (az_world st') AWSClaimParameter)"
proof -
  obtain g st1 where get: "getAWSParameter api AWSClaimParameter st = (g, st1)" by fastforce
  obtain de st2 where del: "call_delete api AWSClaimParameter st1 = (de, st2)" by fastforce
  from lawful_get [OF law get] lawful_delete [OF law del] run get del show ?thesis
    by (auto simp: deleteAWSClaimHeldBy_def awsClaimAfterRelease_def named_holder_def scope_errorf_def
        split: sum.splits option.splits if_splits)
qed

text \<open>
  C18. A process that takes or releases the claim ends up knowing the truth about it, whatever SSM
  loses on the way: held means stored under its name, not held means not stored at all, held by
  another means stored under that other name; when it cannot tell it says unknown.
\<close>

theorem claim_knowledge_is_true:
  assumes "ssm_lawful api val"
  shows "(case takeAWSClaim api holder st of (err, st') \<Rightarrow>
           claim_true holder (awsClaimAfterTake err) (val (az_world st') AWSClaimParameter))
    \<and> (case deleteAWSClaimHeldBy api holder st of (err, st') \<Rightarrow>
           claim_true holder (awsClaimAfterRelease err) (val (az_world st') AWSClaimParameter))"
  using take_is_true [OF assms] release_is_true [OF assms] by (auto split: prod.splits)

text \<open>
  A store that loses the response of every other write it performs: the world is the parameters and
  whether the next response is lost.
\<close>

definition lossy_ssm :: "((string \<rightharpoonup> string) \<times> bool) aws_api" where
  "lossy_ssm =
     \<lparr>api_put = (\<lambda>n v (m, lost). if m n = None
          then (if lost then Some \<lparr>ae_code = ''Timeout'', ae_text = ''timeout''\<rparr> else None, (m(n \<mapsto> v), \<not> lost))
          else (Some \<lparr>ae_code = ''ParameterAlreadyExists'', ae_text = ''exists''\<rparr>, (m, lost))),
      api_get = (\<lambda>n (m, lost). (case m n of None \<Rightarrow> Inl \<lparr>ae_code = ''ParameterNotFound'', ae_text = ''none''\<rparr>
          | Some v \<Rightarrow> Inr (Some v), (m, lost))),
      api_delete = (\<lambda>n (m, lost). if m n = None
          then (Some \<lparr>ae_code = ''ParameterNotFound'', ae_text = ''none''\<rparr>, (m, lost))
          else (if lost then Some \<lparr>ae_code = ''Timeout'', ae_text = ''timeout''\<rparr> else None, (m(n := None), \<not> lost))),
      api_page = (\<lambda>_ _ w. (Inr ([], None), w)), api_one = (\<lambda>_ _ w. (Inr [], w)),
      api_change = (\<lambda>_ _ _ w. (None, w)),
      api_identity = (\<lambda>w. (Inr (''123456789012'', ''arn''), w)), api_sleep = (\<lambda>w. (None, w)),
      ssm_fault = None, ec2_fault = None, host_name = Inr ''box'', pid_exists = (\<lambda>_ _. False)\<rparr>"

lemma lossy_ssm_lawful: "ssm_lawful lossy_ssm fst"
  by (auto simp: ssm_lawful_def lossy_ssm_def split: prod.splits option.splits if_splits)

theorem claim_knowledge_is_true_witness:
  "(case takeAWSClaim lossy_ssm ''r@box:7'' \<lparr>az_world = (Map.empty, True), az_log = [], az_claim = awsClaimNotHeld\<rparr> of
     (err, st') \<Rightarrow> err = None \<and> fst (az_world st') AWSClaimParameter = Some ''r@box:7'')"
  using claim_knowledge_is_true [OF lossy_ssm_lawful, of "''r@box:7''"
      "\<lparr>az_world = (Map.empty, True), az_log = [], az_claim = awsClaimNotHeld\<rparr>"]
  by (auto simp: takeAWSClaim_def getAWSParameter_def call_put_def call_get_def sent_call_def lossy_ssm_def
      awsClaimAfterTake_def split: prod.splits option.splits sum.splits)

subsection \<open>What a clean sweep shows\<close>

text \<open>
  The account's listings: \<open>left w op token\<close> is what is still to be listed of \<open>op\<close> from a token on. The
  law is the paging contract of EC2 and SSM for a scope nothing else changes while it is listed;
  between two polls anything may change.
\<close>

type_synonym 'w contents = "'w \<Rightarrow> string \<Rightarrow> string option \<Rightarrow> aws_item list"

definition lists_scope :: "'w aws_api \<Rightarrow> 'w contents \<Rightarrow> bool" where
  "lists_scope api left \<longleftrightarrow>
     (\<forall>op token w. case api_page api op token w of
         (Inl e, w') \<Rightarrow> left w' = left w
       | (Inr (items, nxt), w') \<Rightarrow> left w' = left w
           \<and> (op \<in> {''DescribeAddresses'', ''DescribeKeyPairs''} \<longrightarrow> token_text nxt = []) \<comment> \<open>neither paginates\<close>
           \<and> left w op token = (if token_text nxt = [] then items else items @ left w op nxt))"

lemma listed_page:
  assumes "lists_scope api left" and call: "call_page api op token st = (r, st')"
  shows "left (az_world st') = left (az_world st)
    \<and> (case r of Inl _ \<Rightarrow> True
        | Inr (items, nxt) \<Rightarrow> (op \<in> {''DescribeAddresses'', ''DescribeKeyPairs''} \<longrightarrow> token_text nxt = [])
            \<and> left (az_world st) op token = (if token_text nxt = [] then items else items @ left (az_world st) op nxt))"
proof -
  obtain r0 w' where 0: "api_page api op token (az_world st) = (r0, w')" by fastforce
  note law = assms(1) [unfolded lists_scope_def, THEN spec, of op, THEN spec, of token, THEN spec, of "az_world st"]
  show ?thesis
  proof (cases r0)
    case (Inl e)
    with law 0 call show ?thesis by (auto simp: call_page_def sent_call_def)
  next
    case (Inr page)
    with law 0 call show ?thesis by (cases page) (auto simp: call_page_def sent_call_def)
  qed
qed

lemma awsPages_listed:
  assumes law: "lists_scope api left" and run: "awsPages api op token seen acc st = Some out"
  shows "left (az_world (snd out)) = left (az_world st)
     \<and> (case fst out of Inl _ \<Rightarrow> True | Inr items \<Rightarrow> items = acc @ left (az_world st) op token)"
  using run law
proof (induction rule: awsPages.raw_induct [rotated, consumes 1])
  case (1 pages api op token seen acc st out)
  obtain p st1 where call: "call_page api op token st = (p, st1)" by fastforce
  note step = listed_page [OF "1.prems" call]
  show ?case
  proof (cases p)
    case (Inl e)
    with 1 call step show ?thesis by auto
  next
    case (Inr page)
    obtain items nxt where page: "page = (items, nxt)" by fastforce
    consider "token_text nxt = []" | "token_text nxt \<noteq> []" "token_text nxt \<in> set seen"
      | "token_text nxt \<noteq> []" "token_text nxt \<notin> set seen" by blast
    then show ?thesis
    proof cases
      case 3
      with "1.hyps" call Inr page
      have "pages api op nxt (token_text nxt # seen) (acc @ items) st1 = Some out" by simp
      from "1.IH" [OF this "1.prems"] step Inr page 3 show ?thesis by (auto split: sum.splits)
    qed (use 1 call step Inr page in auto)
  qed
qed

text \<open>Every collection listed to its end, one after the other, with nothing in it that is a leak.\<close>

fun rows_empty :: "'w aws_api \<Rightarrow> (string \<times> 'w lister) list \<Rightarrow> 'w aws_world \<Rightarrow> 'w aws_world \<Rightarrow> bool" where
  "rows_empty api [] st st' \<longleftrightarrow> st' = st"
| "rows_empty api ((name, lister) # rows) st st' \<longleftrightarrow>
     (case lister api st of Some (Inr found, st1) \<Rightarrow> found = [] \<and> rows_empty api rows st1 st' | _ \<Rightarrow> False)"

lemma poll_rows_empty:
  "poll_rows api rows acc st = Some (Inr [], st') \<Longrightarrow> acc = [] \<and> rows_empty api rows st st'"
proof (induction rows arbitrary: acc st)
  case (Cons row rows)
  obtain name lister where row: "row = (name, lister)" by fastforce
  from Cons.prems row obtain found st1 where l: "lister api st = Some (Inr found, st1)"
    "poll_rows api rows (acc @ map (\<lambda>s. s\<lparr>sy_collection := name\<rparr>) found) st1 = Some (Inr [], st')"
    by (auto split: option.splits prod.splits sum.splits)
  from Cons.IH [OF l(2)] l row show ?case by simp
qed simp

lemma sweep_polls_clean:
  "sweep_polls api n st = Some ((leaks, None), st') \<Longrightarrow>
     leaks = [] \<and> (\<exists>st0. rows_empty api AWSSweepCollections st0 st')"
proof (induction n arbitrary: st)
  case 0
  then show ?case
    by (auto simp: pollAWSScope_def dest: poll_rows_empty split: option.splits sum.splits if_splits prod.splits)
next
  case (Suc n)
  obtain r st1 where p: "pollAWSScope api st = Some (r, st1)" using Suc.prems by (auto split: option.splits)
  show ?case
  proof (cases r)
    case (Inl e)
    with Suc.prems p show ?thesis by simp
  next
    case (Inr found)
    show ?thesis
    proof (cases "awsScopeSettling found")
      case False
      with Suc.prems p Inr have "found = []" "leaks = []" "st1 = st'" by (auto split: if_splits)
      with p Inr poll_rows_empty show ?thesis unfolding pollAWSScope_def by blast
    next
      case True
      with Suc.prems p Inr obtain m st2 where "n = Suc m" "sweep_polls api n st2 = Some ((leaks, None), st')"
        by (auto split: nat.splits prod.splits option.splits simp del: sweep_polls.simps
            simp: sweep_polls.simps [of api "Suc n" st])
      with Suc.IH show ?thesis by blast
    qed
  qed
qed

text \<open>What may be in a scope that holds nothing: a listing and what of it is no leak.\<close>

definition scope_empty :: "(string \<Rightarrow> string option \<Rightarrow> aws_item list) \<Rightarrow> bool" where
  "scope_empty c \<longleftrightarrow>
     list_all (\<lambda>i. ai_state i = ''terminated'') (c ''DescribeInstances'' None)
     \<and> c ''DescribeVolumes'' None = [] \<and> c ''DescribeNetworkInterfaces'' None = []
     \<and> list_all (\<lambda>i. token_text (ai_name i) = ''default'') (c ''DescribeSecurityGroups'' None)
     \<and> c ''DescribeVpcs'' None = [] \<and> c ''DescribeSubnets'' None = [] \<and> c ''DescribeInternetGateways'' None = []
     \<and> list_all awsMainRouteTable (c ''DescribeRouteTables'' None)
     \<and> list_all (\<lambda>i. ai_state i = ''deleted'') (c ''DescribeNatGateways'' None)
     \<and> c ''DescribeImages Owners=self IncludeDisabled=true'' None = []
     \<and> c ''DescribeSnapshots OwnerIds=self'' None = []
     \<and> c ''DescribeAddresses'' None = [] \<and> c ''DescribeKeyPairs'' None = [] \<and> c ''DescribeLaunchTemplates'' None = []
     \<and> list_all (\<lambda>i. token_text (ai_name i) \<in> {AWSClaimParameter, AWSStampParameter}) (c ''DescribeParameters'' None)"

text \<open>A lister that finds nothing has read all of its operation and changed nothing.\<close>

definition lister_sees :: "'w aws_api \<Rightarrow> 'w contents \<Rightarrow> 'w lister \<Rightarrow> (aws_item list \<Rightarrow> bool) \<Rightarrow> string \<Rightarrow> bool" where
  "lister_sees api left lister ok op \<longleftrightarrow>
     (\<forall>st found st'. lister api st = Some (Inr found, st') \<longrightarrow> left (az_world st') = left (az_world st)
        \<and> (found = [] \<longrightarrow> ok (left (az_world st) op None)))"

lemma paged_sees:
  "lists_scope api left \<Longrightarrow> lister_sees api left (paged op exempt state) (list_all exempt) op"
  unfolding lister_sees_def paged_def kept_strays_def
  by (auto simp: list_all_iff filter_empty_conv dest!: awsPages_listed split: sum.splits)

lemma parameters_see:
  "lists_scope api left \<Longrightarrow> lister_sees api left listAWSParameters
     (list_all (\<lambda>i. token_text (ai_name i) \<in> {AWSClaimParameter, AWSStampParameter})) ''DescribeParameters''"
  unfolding lister_sees_def listAWSParameters_def parameter_strays_def
  by (auto simp: list_all_iff filter_empty_conv dest!: awsPages_listed split: sum.splits)

lemma unpaged_sees:
  assumes op: "op \<in> {''DescribeAddresses'', ''DescribeKeyPairs''}" and law: "lists_scope api left"
  shows "lister_sees api left (unpaged op) (list_all (\<lambda>_. False)) op"
  unfolding lister_sees_def
proof (intro allI impI)
  fix st found st'
  assume run: "unpaged op api st = Some (Inr found, st')"
  obtain r st1 where call: "call_page api op None st = (r, st1)" by fastforce
  with listed_page [OF law call] op run
  show "left (az_world st') = left (az_world st)
      \<and> (found = [] \<longrightarrow> list_all (\<lambda>_. False) (left (az_world st) op None))"
    by (auto simp: unpaged_def kept_strays_def split: sum.splits)
qed

lemma list_all_False: "list_all (\<lambda>_. False) xs \<longleftrightarrow> xs = []"
  by (cases xs) auto

lemma rows_empty_step:
  assumes rows: "rows_empty api ((name, lister) # rows) st st'" and see: "lister_sees api left lister ok op"
  shows "\<exists>st1. rows_empty api rows st1 st' \<and> left (az_world st1) = left (az_world st) \<and> ok (left (az_world st) op None)"
proof -
  from rows obtain st1 where "lister api st = Some (Inr [], st1)" "rows_empty api rows st1 st'"
    by (cases "lister api st"; cases "fst (the (lister api st))") auto
  with see show ?thesis unfolding lister_sees_def by blast
qed

fun seen_empty :: "'w aws_api \<Rightarrow> 'w contents \<Rightarrow> (string \<times> 'w lister) list \<Rightarrow> ((aws_item list \<Rightarrow> bool) \<times> string) list \<Rightarrow> bool" where
  "seen_empty api left [] [] \<longleftrightarrow> True"
| "seen_empty api left ((name, lister) # rows) ((ok, op) # oks) \<longleftrightarrow> lister_sees api left lister ok op \<and> seen_empty api left rows oks"
| "seen_empty api left _ _ \<longleftrightarrow> False"

lemma rows_empty_seen:
  "rows_empty api rows st st' \<Longrightarrow> seen_empty api left rows oks
     \<Longrightarrow> left (az_world st') = left (az_world st) \<and> list_all (\<lambda>(ok, op). ok (left (az_world st) op None)) oks"
proof (induction api left rows oks arbitrary: st rule: seen_empty.induct)
  case (2 api left name lister rows ok op oks)
  from 2(3) have see: "lister_sees api left lister ok op" by simp
  from rows_empty_step [OF 2(2) see] obtain st1 where
    "rows_empty api rows st1 st'" "left (az_world st1) = left (az_world st)" "ok (left (az_world st) op None)" by blast
  note st1 = this
  from 2(3) have "seen_empty api left rows oks" by simp
  from 2(1) [OF st1(1) this] st1 show ?case by simp
qed auto

lemma clean_poll_empty:
  assumes law: "lists_scope api left" and rows: "rows_empty api AWSSweepCollections st st'"
  shows "scope_empty (left (az_world st'))"
proof -
  note see = paged_sees [OF law] parameters_see [OF law] unpaged_sees [OF _ law]
  let ?none = "list_all (\<lambda>_ :: aws_item. False)"
  let ?oks = "[(list_all (\<lambda>i. ai_state i = ''terminated''), ''DescribeInstances''), (?none, ''DescribeVolumes''),
     (?none, ''DescribeNetworkInterfaces''), (?none, ''DescribeAddresses''),
     (list_all (\<lambda>i. token_text (ai_name i) = ''default''), ''DescribeSecurityGroups''), (?none, ''DescribeVpcs''),
     (?none, ''DescribeSubnets''), (?none, ''DescribeInternetGateways''), (list_all awsMainRouteTable, ''DescribeRouteTables''),
     (list_all (\<lambda>i. ai_state i = ''deleted''), ''DescribeNatGateways''), (?none, ''DescribeKeyPairs''),
     (?none, ''DescribeImages Owners=self IncludeDisabled=true''), (?none, ''DescribeSnapshots OwnerIds=self''),
     (?none, ''DescribeLaunchTemplates''),
     (list_all (\<lambda>i. token_text (ai_name i) \<in> {AWSClaimParameter, AWSStampParameter}), ''DescribeParameters'')]"
  have "seen_empty api left AWSSweepCollections ?oks"
    unfolding AWSSweepCollections_def listAWSInstances_def listAWSVolumes_def listAWSNetworkInterfaces_def
      listAWSAddresses_def listAWSSecurityGroups_def listAWSVPCs_def listAWSSubnets_def listAWSInternetGateways_def
      listAWSRouteTables_def listAWSNATGateways_def listAWSKeyPairs_def listAWSImages_def listAWSSnapshots_def
      listAWSLaunchTemplates_def
    by (simp only: seen_empty.simps) (intro conjI TrueI see; simp)
  from rows_empty_seen [OF rows this] show ?thesis
    by (simp only: scope_empty_def list.pred_inject prod.case list_all_False simp_thms)
qed

text \<open>
  C19. A sweep that ends clean leaves nothing unseen: in a scope that nothing else changes during a
  poll, whatever happens between polls, every listing of the account, page by page to its last,
  holds only what the sweep excuses (terminated instances, default security groups, main route
  tables, deleted NAT gateways, the claim and the stamp).
\<close>

theorem clean_sweep_is_empty:
  assumes "lists_scope api left" "SweepAWSScope api st = Some ((leaks, None), st')"
  shows "leaks = [] \<and> scope_empty (left (az_world st'))"
  using assms(2) sweep_polls_clean [of api AWSSweepMaxPolls st leaks st'] clean_poll_empty [OF assms(1)]
  by (auto simp: SweepAWSScope_def simp del: sweep_polls.simps split: option.splits)

text \<open>
  Two pages of instances, and a volume that the first wait sees detached and gone: the world says
  whether the volume is still there.
\<close>

definition some_item :: "string \<Rightarrow> string \<Rightarrow> aws_item" where
  "some_item n state = \<lparr>ai_id = Some n, ai_state = state, ai_tags = [], ai_name = None, ai_default = False,
     ai_attachments = [], ai_associations = [], ai_association = None, ai_attachment = None, ai_ingress = [],
     ai_egress = []\<rparr>"

definition paged_account :: "bool \<Rightarrow> string \<Rightarrow> string option \<Rightarrow> aws_item list \<times> string option" where
  "paged_account there op token =
     (if op = ''DescribeInstances'' then
        (if token = None then ([some_item ''i-1'' ''terminated''], Some ''2'') else ([some_item ''i-2'' ''terminated''], None))
      else if op = ''DescribeVolumes'' \<and> there then ([some_item ''vol-1'' ''deleting''], None) else ([], None))"

definition paged_aws :: "bool aws_api" where
  "paged_aws =
     \<lparr>api_put = (\<lambda>_ _ w. (None, w)), api_get = (\<lambda>_ w. (Inr (Some ''v''), w)), api_delete = (\<lambda>_ w. (None, w)),
      api_page = (\<lambda>op token w. (Inr (paged_account w op token), w)), api_one = (\<lambda>_ _ w. (Inr [], w)),
      api_change = (\<lambda>_ _ _ w. (None, w)),
      api_identity = (\<lambda>w. (Inr (''123456789012'', ''arn''), w)), api_sleep = (\<lambda>w. (None, False)),
      ssm_fault = None, ec2_fault = None, host_name = Inr ''box'', pid_exists = (\<lambda>_ _. False)\<rparr>"

definition paged_left :: "bool contents" where
  "paged_left there op token =
     (let (items, nxt) = paged_account there op token in
      if token_text nxt = [] then items else items @ fst (paged_account there op nxt))"

lemma paged_lists: "lists_scope paged_aws paged_left"
  by (auto simp: lists_scope_def paged_aws_def paged_left_def paged_account_def token_text_def)

lemmas listers =
  listAWSInstances_def listAWSVolumes_def listAWSNetworkInterfaces_def listAWSAddresses_def
  listAWSSecurityGroups_def listAWSVPCs_def listAWSSubnets_def listAWSInternetGateways_def
  listAWSRouteTables_def listAWSNATGateways_def listAWSKeyPairs_def listAWSImages_def
  listAWSSnapshots_def listAWSLaunchTemplates_def listAWSParameters_def

lemma paged_page:
  "call_page paged_aws op token st = (Inr (paged_account (az_world st) op token), st\<lparr>az_log := az_log st @ [Describe op token]\<rparr>)"
  by (simp add: call_page_def paged_aws_def sent_call_def)

lemma paged_pages:
  "awsPages paged_aws op None [] [] st =
     Some (Inr (paged_left (az_world st) op None), st\<lparr>az_log := az_log st @
        (if op = ''DescribeInstances'' then [Describe op None, Describe op (Some ''2'')] else [Describe op None])\<rparr>)"
  by (subst awsPages.simps, subst awsPages.simps) (simp add: paged_page paged_left_def paged_account_def token_text_def)

lemma paged_sleep: "call_sleep paged_aws st = (None, st\<lparr>az_world := False\<rparr>)"
  by (simp add: call_sleep_def paged_aws_def)

lemma paged_faults: "ec2_fault paged_aws = None" "ssm_fault paged_aws = None"
  by (simp_all add: paged_aws_def)

lemma paged_poll:
  "pollAWSScope paged_aws st = Some (Inr (if az_world st then
       [\<lparr>sy_collection = ''volumes'', sy_id = ''vol-1'', sy_state = ''deleting'', sy_run = []\<rparr>] else []),
     st\<lparr>az_log := az_log st @ [Describe ''DescribeInstances'' None, Describe ''DescribeInstances'' (Some ''2'')]
        @ map (\<lambda>op. Describe op None) [''DescribeVolumes'', ''DescribeNetworkInterfaces'', ''DescribeAddresses'',
            ''DescribeSecurityGroups'', ''DescribeVpcs'', ''DescribeSubnets'', ''DescribeInternetGateways'',
            ''DescribeRouteTables'', ''DescribeNatGateways'', ''DescribeKeyPairs'',
            ''DescribeImages Owners=self IncludeDisabled=true'', ''DescribeSnapshots OwnerIds=self'',
            ''DescribeLaunchTemplates'', ''DescribeParameters'']\<rparr>)"
  by (simp add: pollAWSScope_def AWSSweepCollections_def listers paged_def unpaged_def
        paged_pages paged_page paged_left_def paged_account_def kept_strays_def parameter_strays_def
        token_text_def some_item_def found_stray_def volume_state_def awsRunIDTag_def)

theorem clean_sweep_is_empty_witness:
  "case SweepAWSScope paged_aws \<lparr>az_world = True, az_log = [], az_claim = awsClaimHeld\<rparr> of
     Some ((leaks, None), st') \<Rightarrow> leaks = [] \<and> scope_empty (paged_left (az_world st')) \<and> length (az_log st') = 32
   | _ \<Rightarrow> False"
proof -
  let ?st = "\<lparr>az_world = True, az_log = [], az_claim = awsClaimHeld\<rparr>"
  have polls: "AWSSweepMaxPolls = Suc (Suc 58)" by (simp add: AWSSweepMaxPolls_def)
  obtain st' where run: "SweepAWSScope paged_aws ?st = Some (([], None), st')" "length (az_log st') = 32"
    by (simp add: SweepAWSScope_def polls paged_faults paged_poll paged_sleep awsScopeSettling_def awsSettlingStates_def)
  from clean_sweep_is_empty [OF paged_lists run(1)] run show ?thesis by simp
qed

subsection \<open>A sweep ends\<close>

text \<open>The service gives out the tokens \<open>T\<close> only.\<close>

definition tokens_from :: "'w aws_api \<Rightarrow> string set \<Rightarrow> bool" where
  "tokens_from api T \<longleftrightarrow>
     (\<forall>op token w. case api_page api op token w of (Inr (_, Some t), _) \<Rightarrow> t \<in> T | _ \<Rightarrow> True)"

lemma token_of_page:
  assumes "tokens_from api T" "call_page api op token st = (Inr (items, nxt), st')" "token_text nxt \<noteq> []"
  shows "token_text nxt \<in> T"
proof -
  from assms(2) obtain w' where "api_page api op token (az_world st) = (Inr (items, nxt), w')"
    by (cases "api_page api op token (az_world st)") (auto simp: call_page_def)
  with assms(1) [unfolded tokens_from_def, THEN spec, of op, THEN spec, of token, THEN spec, of "az_world st"] assms(3)
  show ?thesis by (cases nxt) (auto simp: token_text_def)
qed

lemma awsPages_ends:
  assumes "finite T" "tokens_from api T"
  shows "awsPages api op token seen acc st \<noteq> None"
proof (induction "card (T - set seen)" arbitrary: token seen acc st rule: less_induct)
  case less
  obtain p st1 where call: "call_page api op token st = (p, st1)" by fastforce
  show ?case
  proof (cases p)
    case (Inl e)
    with call show ?thesis by (subst awsPages.simps) simp
  next
    case (Inr page)
    obtain items nxt where page: "page = (items, nxt)" by fastforce
    note call = call [unfolded Inr page]
    show ?thesis
    proof (cases "token_text nxt \<noteq> [] \<and> token_text nxt \<notin> set seen")
      case False
      with call show ?thesis by (subst awsPages.simps) auto
    next
      case True
      with token_of_page [OF assms(2) call] have "token_text nxt \<in> T - set seen" by simp
      then have "card (T - set (token_text nxt # seen)) < card (T - set seen)"
        using assms(1) by (intro psubset_card_mono) auto
      from less [OF this] True call show ?thesis by (subst awsPages.simps) simp
    qed
  qed
qed

lemma poll_ends:
  assumes "finite T" "tokens_from api T"
  shows "pollAWSScope api st \<noteq> None"
proof -
  have "poll_rows api rows acc st \<noteq> None"
    if "list_all (\<lambda>(_, lister). \<forall>st. lister api st \<noteq> None) rows" for rows acc st
    using that by (induction api rows acc st rule: poll_rows.induct)
      (auto split: option.splits sum.splits prod.splits)
  moreover have "list_all (\<lambda>(_, lister). \<forall>st. lister api st \<noteq> None) AWSSweepCollections"
    using awsPages_ends [OF assms]
    by (simp add: AWSSweepCollections_def listers paged_def unpaged_def del: not_None_eq not_Some_eq
        split: prod.splits sum.splits)
  ultimately show ?thesis unfolding pollAWSScope_def by blast
qed

lemma sweep_polls_ends:
  assumes "finite T" "tokens_from api T"
  shows "sweep_polls api n st \<noteq> None"
proof (induction n arbitrary: st)
  case 0
  then show ?case using poll_ends [OF assms, of st] by (auto split: option.splits sum.splits prod.splits)
next
  case (Suc n)
  then show ?case using poll_ends [OF assms, of st]
    by (subst sweep_polls.simps) (auto split: option.splits sum.splits prod.splits nat.splits simp del: sweep_polls.simps)
qed

text \<open>
  C20. A sweep always ends, cycling listings included: as long as the service gives out finitely many
  page tokens, every listing stops at its last page or at the first token it sees twice, and at most
  60 polls are made.
\<close>

theorem sweep_ends:
  assumes "finite T" "tokens_from api T"
  shows "SweepAWSScope api st \<noteq> None"
  using sweep_polls_ends [OF assms] by (simp add: SweepAWSScope_def del: sweep_polls.simps split: option.splits)

text \<open>A service whose second page names the second page again.\<close>

definition cycling_aws :: "bool aws_api" where
  "cycling_aws = paged_aws\<lparr>api_page := (\<lambda>op token w. (Inr ([], Some ''2''), w))\<rparr>"

theorem sweep_ends_witness:
  "case SweepAWSScope cycling_aws \<lparr>az_world = True, az_log = [], az_claim = awsClaimHeld\<rparr> of
     Some ((_, Some e), st') \<Rightarrow> e = ''aws scope sweep: instances: NextToken '' @ quote ''2''
         @ '' came back a second time, so the listing cycles and is incomplete'' \<and> length (az_log st') = 2
   | _ \<Rightarrow> False"
proof -
  let ?st = "\<lparr>az_world = True, az_log = [], az_claim = awsClaimHeld\<rparr>"
  have law: "tokens_from cycling_aws {''2''}" by (simp add: tokens_from_def cycling_aws_def)
  have page: "call_page cycling_aws op token st = (Inr ([], Some ''2''), st\<lparr>az_log := az_log st @ [Describe op token]\<rparr>)"
    for op token and st :: "bool aws_world"
    by (simp add: call_page_def cycling_aws_def sent_call_def)
  have pages: "awsPages cycling_aws op None [] [] st =
      Some (Inl (''NextToken '' @ quote ''2'' @ '' came back a second time, so the listing cycles and is incomplete''),
        st\<lparr>az_log := az_log st @ [Describe op None, Describe op (Some ''2'')]\<rparr>)" for op and st :: "bool aws_world"
    by (subst awsPages.simps, subst awsPages.simps) (simp add: page token_text_def)
  have polls: "AWSSweepMaxPolls = Suc (Suc 58)" by (simp add: AWSSweepMaxPolls_def)
  obtain out where "SweepAWSScope cycling_aws ?st = Some out"
    using sweep_ends [OF _ law] by fastforce
  moreover have "ec2_fault cycling_aws = None" "ssm_fault cycling_aws = None"
    by (simp_all add: cycling_aws_def paged_faults)
  ultimately show ?thesis
    by (auto simp add: SweepAWSScope_def polls pollAWSScope_def AWSSweepCollections_def listAWSInstances_def paged_def pages)
qed

end
