(* ===== verification/Aws_Reap.thy ===== *)
theory Aws_Reap
  imports Aws_Scope
begin

text \<open>
  The reap of an AWS scope, \<^verbatim>\<open>harness/aws_reap.go\<close>: the gate (identity, stamp, claim), then the deletion of
  a sweep's findings, collection by collection in dependency order.
\<close>

subsection \<open>The key\<close>

definition call_identity :: "'w aws_api \<Rightarrow> 'w aws_world \<Rightarrow> (aws_error + string \<times> string) \<times> 'w aws_world" where
  "call_identity api st = map_prod id (\<lambda>w. sent_call Get_Identity w st) (api_identity api (az_world st))"

text \<open>\<open>sts\<close> is why the STS client cannot be built.\<close>

definition VerifyAWSIdentity :: "'w aws_api \<Rightarrow> string option \<Rightarrow> string \<Rightarrow> string \<Rightarrow> 'w aws_world
    \<Rightarrow> string option \<times> 'w aws_world" where
  "VerifyAWSIdentity api sts account key_arn st =
     (if account = [] \<or> key_arn = []
      then (Some ''aws identity check: the expected account and principal must both be set'', st)
      else (case sts of
          Some e \<Rightarrow> (Some e, st)
        | None \<Rightarrow>
            (case call_identity api st of
               (Inl e, st1) \<Rightarrow> (Some (''aws identity check: sts:GetCallerIdentity failed: '' @ ae_text e), st1)
             | (Inr (acc, arn), st1) \<Rightarrow>
                 (if acc \<noteq> account
                  then Some (''aws identity check: the key belongs to account '' @ quote acc
                    @ '', not the configured account '' @ quote account)
                  else if arn \<noteq> key_arn
                  then Some (''aws identity check: the key is principal '' @ quote arn
                    @ '', not the configured principal '' @ quote key_arn)
                  else None, st1))))"

subsection \<open>One item\<close>

definition call_change :: "'w aws_api \<Rightarrow> string \<Rightarrow> string \<Rightarrow> string list \<Rightarrow> 'w aws_world
    \<Rightarrow> aws_error option \<times> 'w aws_world" where
  "call_change api action target args st =
     map_prod id (\<lambda>w. sent_call (Change action target args) w st) (api_change api action target args (az_world st))"

definition call_one :: "'w aws_api \<Rightarrow> string \<Rightarrow> string \<Rightarrow> 'w aws_world \<Rightarrow> (aws_error + aws_item list) \<times> 'w aws_world" where
  "call_one api op target st =
     map_prod id (\<lambda>w. sent_call (Describe_One op target) w st) (api_one api op target (az_world st))"

definition awsNotFound :: "aws_error \<Rightarrow> bool" where
  "awsNotFound e \<longleftrightarrow> suffix ''NotFound'' (ae_code e)"

definition awsReapErr :: "string \<Rightarrow> string \<Rightarrow> aws_error option \<Rightarrow> string option" where
  "awsReapErr target action err =
     (case err of
        None \<Rightarrow> None
      | Some e \<Rightarrow> if awsNotFound e then None
                  else Some (target @ '': ec2:'' @ action @ '' failed: '' @ ae_text e))"

definition awsOne :: "'w aws_api \<Rightarrow> string \<Rightarrow> string \<Rightarrow> 'w aws_world \<Rightarrow> (aws_error + aws_item option) \<times> 'w aws_world" where
  "awsOne api op target st =
     (case call_one api op target st of
        (Inl e, st1) \<Rightarrow> (if awsNotFound e then Inr None else Inl e, st1)
      | (Inr items, st1) \<Rightarrow> (Inr (find (\<lambda>i. token_text (ai_id i) = target) items), st1))"

text \<open>A change, as one step of an item's deletion.\<close>

definition change :: "string \<Rightarrow> string \<Rightarrow> string list \<Rightarrow> string \<Rightarrow> 'w aws_api \<Rightarrow> 'w aws_world \<Rightarrow> string option \<times> 'w aws_world" where
  "change action target args who api st =
     (case call_change api action target args st of (err, st1) \<Rightarrow> (awsReapErr who action err, st1))"

text \<open>The polls left, the one to come included, until the item is as wanted or gone.\<close>

fun settle :: "'w aws_api \<Rightarrow> nat \<Rightarrow> string \<Rightarrow> string \<Rightarrow> string \<Rightarrow> (aws_item \<Rightarrow> bool) \<Rightarrow> 'w aws_world
    \<Rightarrow> (string + aws_item option) \<times> 'w aws_world" where
  "settle api left op target want ready st =
     (case awsOne api op target st of
        (Inl e, st1) \<Rightarrow> (Inl (target @ '': waiting until '' @ want @ '': '' @ ae_text e), st1)
      | (Inr item, st1) \<Rightarrow>
          if (case item of None \<Rightarrow> True | Some i \<Rightarrow> ready i) then (Inr item, st1)
          else (case left of
                  Suc (Suc n) \<Rightarrow>
                    (case call_sleep api st1 of
                       (Some e, st2) \<Rightarrow> (Inl (target @ '': waiting until '' @ want @ '': '' @ e), st2)
                     | (None, st2) \<Rightarrow> settle api (Suc n) op target want ready st2)
                | _ \<Rightarrow> (Inl (target @ '': not '' @ want @ '' after '' @ nat_digits AWSSweepMaxPolls @ '' polls''), st1)))"

type_synonym 'w reap_item = "'w aws_api \<Rightarrow> string \<Rightarrow> 'w aws_world \<Rightarrow> string option \<times> 'w aws_world"

definition only_change :: "string \<Rightarrow> 'w reap_item" where
  "only_change action api target = change action target [] target api"

text \<open>A change of the item, unless it is gone.\<close>

definition with_item :: "string \<Rightarrow> (aws_item \<Rightarrow> 'w aws_world \<Rightarrow> string option \<times> 'w aws_world) \<Rightarrow> 'w reap_item" where
  "with_item op act api target st =
     (case awsOne api op target st of
        (Inl e, st1) \<Rightarrow> (awsReapErr target op (Some e), st1)
      | (Inr None, st1) \<Rightarrow> (None, st1)
      | (Inr (Some i), st1) \<Rightarrow> act i st1)"

definition and_then :: "('w aws_world \<Rightarrow> string option \<times> 'w aws_world) \<Rightarrow> ('w aws_world \<Rightarrow> string option \<times> 'w aws_world)
    \<Rightarrow> 'w aws_world \<Rightarrow> string option \<times> 'w aws_world" where
  "and_then a b st = (case a st of (Some e, st1) \<Rightarrow> (Some e, st1) | (None, st1) \<Rightarrow> b st1)"

definition no_change :: "'w aws_world \<Rightarrow> string option \<times> 'w aws_world" where
  "no_change st = (None, st)"

fun changes :: "('a \<Rightarrow> 'w aws_world \<Rightarrow> string option \<times> 'w aws_world) \<Rightarrow> 'a list \<Rightarrow> 'w aws_world \<Rightarrow> string option \<times> 'w aws_world" where
  "changes f [] = no_change"
| "changes f (x # xs) = and_then (f x) (changes f xs)"

definition awaits :: "string \<Rightarrow> string \<Rightarrow> (aws_item \<Rightarrow> bool) \<Rightarrow> 'w reap_item" where
  "awaits op want ready api target st =
     (case settle api AWSSweepMaxPolls op target want ready st of
        (Inl e, st1) \<Rightarrow> (Some e, st1) | (Inr _, st1) \<Rightarrow> (None, st1))"

text \<open>Deleted once it is available, unless it is gone by then.\<close>

definition delete_available :: "string \<Rightarrow> string \<Rightarrow> 'w reap_item" where
  "delete_available op action api target st =
     (case settle api AWSSweepMaxPolls op target ''available'' (\<lambda>i. ai_state i = ''available'') st of
        (Inl e, st1) \<Rightarrow> (Some e, st1)
      | (Inr None, st1) \<Rightarrow> (None, st1)
      | (Inr (Some _), st1) \<Rightarrow> only_change action api target st1)"

definition terminateAWSInstance :: "'w reap_item" where
  "terminateAWSInstance = only_change ''TerminateInstances''"

definition awaitAWSInstanceTerminated :: "'w reap_item" where
  "awaitAWSInstanceTerminated = awaits ''DescribeInstances'' ''terminated'' (\<lambda>i. ai_state i = ''terminated'')"

definition deleteAWSNATGateway :: "'w reap_item" where
  "deleteAWSNATGateway = only_change ''DeleteNatGateway''"

definition awaitAWSNATGatewayDeleted :: "'w reap_item" where
  "awaitAWSNATGatewayDeleted = awaits ''DescribeNatGateways'' ''deleted'' (\<lambda>i. ai_state i = ''deleted'')"

definition releaseAWSAddress :: "'w reap_item" where
  "releaseAWSAddress api target = with_item ''DescribeAddresses''
     (\<lambda>i. and_then (case ai_association i of None \<Rightarrow> no_change | Some a \<Rightarrow> change ''DisassociateAddress'' a [] target api)
        (only_change ''ReleaseAddress'' api target)) api target"

definition deleteAWSLaunchTemplate :: "'w reap_item" where
  "deleteAWSLaunchTemplate = only_change ''DeleteLaunchTemplate''"

definition deregisterAWSImage :: "'w reap_item" where
  "deregisterAWSImage = only_change ''DeregisterImage''"

definition deleteAWSSnapshot :: "'w reap_item" where
  "deleteAWSSnapshot = only_change ''DeleteSnapshot''"

definition deleteAWSVolume :: "'w reap_item" where
  "deleteAWSVolume = delete_available ''DescribeVolumes'' ''DeleteVolume''"

definition deleteAWSNetworkInterface :: "'w reap_item" where
  "deleteAWSNetworkInterface api target = with_item ''DescribeNetworkInterfaces''
     (\<lambda>i. and_then (case (ai_state i = ''in-use'', ai_attachment i) of
            (True, Some a) \<Rightarrow> change ''DetachNetworkInterface'' (token_text a) [] target api
          | _ \<Rightarrow> no_change)
        (delete_available ''DescribeNetworkInterfaces'' ''DeleteNetworkInterface'' api target)) api target"

definition deleteAWSKeyPair :: "'w reap_item" where
  "deleteAWSKeyPair = only_change ''DeleteKeyPair''"

definition revokeAWSGroupRules :: "'w reap_item" where
  "revokeAWSGroupRules api target = with_item ''DescribeSecurityGroups''
     (\<lambda>i. and_then (if ai_ingress i = [] then no_change
                    else change ''RevokeSecurityGroupIngress'' target (ai_ingress i) target api)
        (if ai_egress i = [] then no_change
         else change ''RevokeSecurityGroupEgress'' target (ai_egress i) target api)) api target"

definition deleteAWSSecurityGroup :: "'w reap_item" where
  "deleteAWSSecurityGroup = only_change ''DeleteSecurityGroup''"

definition deleteAWSRouteTable :: "'w reap_item" where
  "deleteAWSRouteTable api target = with_item ''DescribeRouteTables''
     (\<lambda>i. and_then (changes (\<lambda>a. change ''DisassociateRouteTable'' (token_text (as_id a)) [] target api)
            (filter (\<lambda>a. \<not> as_main a) (ai_associations i)))
        (only_change ''DeleteRouteTable'' api target)) api target"

definition deleteAWSSubnet :: "'w reap_item" where
  "deleteAWSSubnet = only_change ''DeleteSubnet''"

definition deleteAWSInternetGateway :: "'w reap_item" where
  "deleteAWSInternetGateway api target = with_item ''DescribeInternetGateways''
     (\<lambda>i. and_then (changes (\<lambda>a. change ''DetachInternetGateway'' target [token_text (at_target a)] target api)
            (ai_attachments i))
        (only_change ''DeleteInternetGateway'' api target)) api target"

definition deleteAWSVPC :: "'w reap_item" where
  "deleteAWSVPC = only_change ''DeleteVpc''"

subsection \<open>The steps\<close>

type_synonym 'w reap_step = "'w aws_api \<Rightarrow> string list \<Rightarrow> 'w aws_world \<Rightarrow> string list \<times> 'w aws_world"

fun eachAWS :: "'w reap_item \<Rightarrow> 'w reap_step" where
  "eachAWS reap api [] st = ([], st)"
| "eachAWS reap api (i # ids) st =
     (let (err, st1) = reap api i st; (errs, st2) = eachAWS reap api ids st1
      in ((case err of None \<Rightarrow> [] | Some e \<Rightarrow> [e]) @ errs, st2))"

text \<open>The first phase over every id: its errors, and the ids it did not fail on.\<close>

fun phase :: "'w reap_item \<Rightarrow> 'w aws_api \<Rightarrow> string list \<Rightarrow> 'w aws_world \<Rightarrow> (string list \<times> string list) \<times> 'w aws_world" where
  "phase reap api [] st = (([], []), st)"
| "phase reap api (i # ids) st =
     (let (err, st1) = reap api i st; ((errs, passed), st2) = phase reap api ids st1
      in (case err of None \<Rightarrow> (errs, i # passed) | Some e \<Rightarrow> (e # errs, passed), st2))"

definition twoPhase :: "'w reap_item \<Rightarrow> 'w reap_item \<Rightarrow> 'w reap_step" where
  "twoPhase first second api ids st =
     (let ((errs, passed), st1) = phase first api ids st; (errs2, st2) = eachAWS second api passed st1
      in (errs @ errs2, st2))"

definition AWSReapSteps :: "(string \<times> string list \<times> 'w reap_step) list" where
  "AWSReapSteps =
     [(''instances'', [''TerminateInstances'', ''DescribeInstances''], twoPhase terminateAWSInstance awaitAWSInstanceTerminated),
      (''nat gateways'', [''DeleteNatGateway'', ''DescribeNatGateways''], twoPhase deleteAWSNATGateway awaitAWSNATGatewayDeleted),
      (''elastic ips'', [''DescribeAddresses'', ''DisassociateAddress'', ''ReleaseAddress''], eachAWS releaseAWSAddress),
      (''launch templates'', [''DeleteLaunchTemplate''], eachAWS deleteAWSLaunchTemplate),
      (''images'', [''DeregisterImage''], eachAWS deregisterAWSImage),
      (''snapshots'', [''DeleteSnapshot''], eachAWS deleteAWSSnapshot),
      (''volumes'', [''DescribeVolumes'', ''DeleteVolume''], eachAWS deleteAWSVolume),
      (''network interfaces'', [''DescribeNetworkInterfaces'', ''DetachNetworkInterface'', ''DeleteNetworkInterface''],
         eachAWS deleteAWSNetworkInterface),
      (''key pairs'', [''DeleteKeyPair''], eachAWS deleteAWSKeyPair),
      (''security groups'', [''DescribeSecurityGroups'', ''RevokeSecurityGroupIngress'', ''RevokeSecurityGroupEgress'',
         ''DeleteSecurityGroup''], twoPhase revokeAWSGroupRules deleteAWSSecurityGroup),
      (''route tables'', [''DescribeRouteTables'', ''DisassociateRouteTable'', ''DeleteRouteTable''], eachAWS deleteAWSRouteTable),
      (''subnets'', [''DeleteSubnet''], eachAWS deleteAWSSubnet),
      (''internet gateways'', [''DescribeInternetGateways'', ''DetachInternetGateway'', ''DeleteInternetGateway''],
         eachAWS deleteAWSInternetGateway),
      (''vpcs'', [''DeleteVpc''], eachAWS deleteAWSVPC)]"

definition stray_ids :: "aws_stray list \<Rightarrow> string \<Rightarrow> string list" where
  "stray_ids leaks collection = map sy_id (filter (\<lambda>s. sy_collection s = collection) leaks)"

fun reap_steps :: "'w aws_api \<Rightarrow> (string \<times> string list \<times> 'w reap_step) list \<Rightarrow> aws_stray list \<Rightarrow> 'w aws_world
    \<Rightarrow> string list \<times> 'w aws_world" where
  "reap_steps api [] leaks st = ([], st)"
| "reap_steps api ((collection, _, reap) # steps) leaks st =
     (let (errs, st1) = reap api (stray_ids leaks collection) st; (errs2, st2) = reap_steps api steps leaks st1
      in (map (\<lambda>e. ''aws scope reap: '' @ collection @ '' '' @ e) errs @ errs2, st2))"

definition unreaped :: "aws_stray list \<Rightarrow> string list" where
  "unreaped leaks =
     map (\<lambda>s. ''aws scope reap: '' @ stray_text s @ '': reap does not delete this; remove it by hand'')
       (filter (\<lambda>s. sy_collection s \<notin> fst ` set (AWSReapSteps :: (string \<times> string list \<times> unit reap_step) list)) leaks)"

text \<open>The errors, one per failed item; none is success.\<close>

definition ReapAWSScope :: "'w aws_api \<Rightarrow> string option \<Rightarrow> string \<Rightarrow> string \<Rightarrow> string \<Rightarrow> aws_stray list \<Rightarrow> 'w aws_world
    \<Rightarrow> string list \<times> 'w aws_world" where
  "ReapAWSScope api sts account key_arn holder leaks st =
     (case VerifyAWSIdentity api sts account key_arn st of
        (Some e, st1) \<Rightarrow> ([''aws scope reap: '' @ e], st1)
      | (None, st1) \<Rightarrow>
     (case AssertAWSScopeStamp api account st1 of
        (Some e, st2) \<Rightarrow> ([''aws scope reap: '' @ e], st2)
      | (None, st2) \<Rightarrow>
     (case ReadAWSClaimHolder api st2 of
        (Inl e, st3) \<Rightarrow> ([''aws scope reap: '' @ se_text e], st3)
      | (Inr None, st3) \<Rightarrow> ([''aws scope reap: refusing: no claim is held, and '' @ quote holder @ '' expected to hold it''], st3)
      | (Inr (Some other), st3) \<Rightarrow>
          if other \<noteq> holder
          then ([''aws scope reap: refusing: the aws Layer 3 scope is claimed by '' @ quote other @ '', not '' @ quote holder], st3)
          else (case ec2_fault api of
                  Some e \<Rightarrow> ([''aws scope reap: '' @ e], st3)
                | None \<Rightarrow> (case reap_steps api AWSReapSteps leaks st3 of (errs, st4) \<Rightarrow> (errs @ unreaped leaks, st4))))))"

subsection \<open>What a step sends\<close>

definition sends :: "(aws_call \<Rightarrow> bool) \<Rightarrow> ('w aws_world \<Rightarrow> 'a \<times> 'w aws_world) \<Rightarrow> bool" where
  "sends P f \<longleftrightarrow>
     (\<forall>st. \<exists>calls. az_log (snd (f st)) = az_log st @ calls \<and> list_all P calls \<and> az_claim (snd (f st)) = az_claim st)"

named_theorems sends_intro

lemma sends_apply:
  "sends P f \<Longrightarrow> f st = (r, st') \<Longrightarrow>
     \<exists>calls. az_log st' = az_log st @ calls \<and> list_all P calls \<and> az_claim st' = az_claim st"
  unfolding sends_def by (metis snd_conv)

lemma sends_return [sends_intro]: "sends P (\<lambda>st. (x, st))"
  by (simp add: sends_def)

lemma sends_bind:
  assumes "sends P f" and "\<And>r. sends P (g r)"
  shows "sends P (\<lambda>st. case f st of (r, st1) \<Rightarrow> g r st1)"
  unfolding sends_def
proof
  fix st
  obtain r st1 where f: "f st = (r, st1)" by fastforce
  obtain r2 st2 where g: "g r st1 = (r2, st2)" by fastforce
  from sends_apply [OF assms(1) f] sends_apply [OF assms(2) g] f g
  show "\<exists>calls. az_log (snd (case f st of (r, st1) \<Rightarrow> g r st1)) = az_log st @ calls \<and> list_all P calls
      \<and> az_claim (snd (case f st of (r, st1) \<Rightarrow> g r st1)) = az_claim st"
    by force
qed

lemma sends_sum [sends_intro]:
  "(\<And>x. sends P (f x)) \<Longrightarrow> (\<And>y. sends P (g y)) \<Longrightarrow> sends P (\<lambda>st. case r of Inl x \<Rightarrow> f x st | Inr y \<Rightarrow> g y st)"
  by (cases r) (simp_all add: sends_def)

lemma sends_option [sends_intro]:
  "sends P f \<Longrightarrow> (\<And>x. sends P (g x)) \<Longrightarrow> sends P (\<lambda>st. case r of None \<Rightarrow> f st | Some x \<Rightarrow> g x st)"
  by (cases r) (simp_all add: sends_def)

lemma sends_if [sends_intro]:
  "sends P f \<Longrightarrow> sends P g \<Longrightarrow> sends P (\<lambda>st. if b then f st else g st)"
  by (simp add: sends_def)

lemma sends_change_call [sends_intro]: "P (Change a i xs) \<Longrightarrow> sends P (call_change api a i xs)"
  by (simp add: sends_def call_change_def sent_call_def split: prod.splits)

lemma sends_one_call [sends_intro]: "P (Describe_One op i) \<Longrightarrow> sends P (call_one api op i)"
  by (simp add: sends_def call_one_def sent_call_def split: prod.splits)

lemma sends_sleep [sends_intro]: "sends P (call_sleep api)"
  by (simp add: sends_def call_sleep_def split: prod.splits)

lemma sends_change [sends_intro]: "P (Change a i xs) \<Longrightarrow> sends P (change a i xs who api)"
  unfolding change_def by (intro sends_bind sends_intro)

lemma sends_awsOne [sends_intro]: "P (Describe_One op i) \<Longrightarrow> sends P (awsOne api op i)"
  unfolding awsOne_def by (intro sends_bind sends_intro)

lemma sends_nat:
  "(k = 0 \<Longrightarrow> sends P f) \<Longrightarrow> (\<And>n. k = Suc n \<Longrightarrow> sends P (g n)) \<Longrightarrow> sends P (\<lambda>st. case k of 0 \<Rightarrow> f st | Suc n \<Rightarrow> g n st)"
  by (cases k) simp_all

lemma sends_settle [sends_intro]:
  assumes P: "P (Describe_One op i)"
  shows "sends P (settle api k op i want ready)"
proof (induction k rule: less_induct)
  case (less k)
  have again: "sends P (settle api (Suc m) op i want ready)" if "k = Suc (Suc m)" for m
    by (rule less) (simp add: that)
  show ?case
    by (subst settle.simps [abs_def]) (intro sends_bind sends_intro sends_nat P again; simp)
qed

lemma sends_and_then [sends_intro]: "sends P a \<Longrightarrow> sends P b \<Longrightarrow> sends P (and_then a b)"
  unfolding and_then_def by (intro sends_bind sends_intro)

lemma sends_no_change [sends_intro]: "sends P no_change"
  unfolding no_change_def by (rule sends_return)

lemma sends_changes [sends_intro]: "(\<And>x. sends P (f x)) \<Longrightarrow> sends P (changes f xs)"
  by (induction xs) (auto intro: sends_intro)

lemma sends_only_change [sends_intro]: "P (Change a i []) \<Longrightarrow> sends P (only_change a api i)"
  unfolding only_change_def by (rule sends_change)

lemma sends_with_item [sends_intro]:
  "P (Describe_One op i) \<Longrightarrow> (\<And>x. sends P (act x)) \<Longrightarrow> sends P (with_item op act api i)"
  unfolding with_item_def by (intro sends_bind sends_intro)

lemma sends_awaits [sends_intro]: "P (Describe_One op i) \<Longrightarrow> sends P (awaits op want ready api i)"
  unfolding awaits_def by (intro sends_bind sends_intro)

lemma sends_delete_available [sends_intro]:
  "P (Describe_One op i) \<Longrightarrow> P (Change a i []) \<Longrightarrow> sends P (delete_available op a api i)"
  unfolding delete_available_def by (intro sends_bind sends_intro)

subsection \<open>What a reap sends, and in which order\<close>

lemma sends_trans:
  "\<exists>calls. az_log st1 = az_log st @ calls \<and> list_all P calls \<and> az_claim st1 = az_claim st \<Longrightarrow>
   \<exists>calls. az_log st2 = az_log st1 @ calls \<and> list_all P calls \<and> az_claim st2 = az_claim st1 \<Longrightarrow>
   \<exists>calls. az_log st2 = az_log st @ calls \<and> list_all P calls \<and> az_claim st2 = az_claim st"
  by force

lemma sends_each: "(\<And>i. i \<in> set ids \<Longrightarrow> sends P (reap api i)) \<Longrightarrow> sends P (eachAWS reap api ids)"
proof (induction ids)
  case (Cons i ids)
  have "sends P (\<lambda>st. case reap api i st of (err, st1) \<Rightarrow> (case eachAWS reap api ids st1 of (errs, st2) \<Rightarrow>
      ((case err of None \<Rightarrow> [] | Some e \<Rightarrow> [e]) @ errs, st2)))"
    using Cons by (intro sends_bind sends_return) auto
  then show ?case by (simp add: sends_def)
qed (simp add: sends_def)

lemma phase_sends:
  "(\<And>i. i \<in> set ids \<Longrightarrow> sends P (reap api i)) \<Longrightarrow> phase reap api ids st = ((errs, passed), st') \<Longrightarrow>
     (\<exists>calls. az_log st' = az_log st @ calls \<and> list_all P calls \<and> az_claim st' = az_claim st) \<and> set passed \<subseteq> set ids"
proof (induction ids arbitrary: st st' errs passed)
  case (Cons i ids)
  obtain err st1 where r: "reap api i st = (err, st1)" by fastforce
  obtain errs1 passed1 st2 where p: "phase reap api ids st1 = ((errs1, passed1), st2)" by (metis prod.exhaust)
  from Cons.prems(1) [of i] have "sends P (reap api i)" by simp
  note a = sends_apply [OF this r]
  from Cons.IH [OF _ p] Cons.prems(1)
  have b: "\<exists>calls. az_log st2 = az_log st1 @ calls \<and> list_all P calls \<and> az_claim st2 = az_claim st1" "set passed1 \<subseteq> set ids"
    by simp_all
  from sends_trans [OF a b(1)] b(2) Cons.prems(2) r p show ?case by (auto split: option.splits)
qed simp

lemma sends_twoPhase:
  assumes "\<And>i. i \<in> set ids \<Longrightarrow> sends P (first api i)" "\<And>i. i \<in> set ids \<Longrightarrow> sends P (second api i)"
  shows "sends P (twoPhase first second api ids)"
  unfolding sends_def
proof
  fix st
  obtain errs passed st1 where p: "phase first api ids st = ((errs, passed), st1)" by (metis prod.exhaust)
  obtain errs2 st2 where e: "eachAWS second api passed st1 = (errs2, st2)" by fastforce
  note a = phase_sends [OF assms(1) p]
  from a assms(2) have "sends P (eachAWS second api passed)" by (intro sends_each) auto
  from sends_trans [OF conjunct1 [OF a] sends_apply [OF this e]] p e
  show "\<exists>calls. az_log (snd (twoPhase first second api ids st)) = az_log st @ calls \<and> list_all P calls
      \<and> az_claim (snd (twoPhase first second api ids st)) = az_claim st"
    by (simp add: twoPhase_def)
qed

text \<open>
  A call of one of the step's actions on one of its ids; what is attached to an item is detached by
  the name the item's description gives.
\<close>

definition detaches :: "string list" where
  "detaches = [''DisassociateAddress'', ''DetachNetworkInterface'', ''DisassociateRouteTable'']"

fun call_in :: "string list \<Rightarrow> string list \<Rightarrow> aws_call \<Rightarrow> bool" where
  "call_in actions ids (Describe_One op i) \<longleftrightarrow> op \<in> set actions \<and> i \<in> set ids"
| "call_in actions ids (Change a i xs) \<longleftrightarrow> a \<in> set actions \<and> (a \<in> set detaches \<or> i \<in> set ids)"
| "call_in actions ids _ \<longleftrightarrow> False"

lemmas reapers =
  terminateAWSInstance_def awaitAWSInstanceTerminated_def deleteAWSNATGateway_def awaitAWSNATGatewayDeleted_def
  releaseAWSAddress_def deleteAWSLaunchTemplate_def deregisterAWSImage_def deleteAWSSnapshot_def deleteAWSVolume_def
  deleteAWSNetworkInterface_def deleteAWSKeyPair_def revokeAWSGroupRules_def deleteAWSSecurityGroup_def
  deleteAWSRouteTable_def deleteAWSSubnet_def deleteAWSInternetGateway_def deleteAWSVPC_def

lemma sends_cases [sends_intro]:
  "sends P f \<Longrightarrow> (\<And>x. sends P (h x)) \<Longrightarrow> sends P (case r of None \<Rightarrow> f | Some x \<Rightarrow> h x)"
  "sends P f \<Longrightarrow> sends P g \<Longrightarrow> sends P (if b then f else g)"
  "sends P f \<Longrightarrow> sends P g \<Longrightarrow> sends P (case b of True \<Rightarrow> f | False \<Rightarrow> g)"
  by (auto split: bool.splits option.splits)

lemma step_sends:
  "list_all (\<lambda>(collection, actions, reap). \<forall>ids. sends (call_in actions ids) (reap api ids)) AWSReapSteps"
  unfolding AWSReapSteps_def list.pred_inject prod.case reapers
  by (intro conjI allI) ((intro sends_each sends_twoPhase sends_intro; simp add: detaches_def)+, simp)

lemma reap_steps_segments:
  "list_all (\<lambda>(collection, actions, reap). \<forall>ids. sends (call_in actions ids) (reap api ids)) steps \<Longrightarrow>
   reap_steps api steps leaks st = (errs, st') \<Longrightarrow>
     \<exists>segs. az_log st' = az_log st @ concat segs \<and> az_claim st' = az_claim st
       \<and> list_all2 (\<lambda>(collection, actions, _) seg. list_all (call_in actions (stray_ids leaks collection)) seg) steps segs"
proof (induction steps arbitrary: st st' errs)
  case Nil
  then show ?case by (intro exI [of _ "[]"]) simp
next
  case (Cons step steps)
  obtain collection actions reap where s: "step = (collection, actions, reap)" by (metis prod.exhaust)
  obtain errs1 st1 where r: "reap api (stray_ids leaks collection) st = (errs1, st1)" by fastforce
  obtain errs2 st2 where rs: "reap_steps api steps leaks st1 = (errs2, st2)" by fastforce
  from Cons.prems(1) s have "sends (call_in actions (stray_ids leaks collection)) (reap api (stray_ids leaks collection))"
    by simp
  from sends_apply [OF this r] obtain seg where
    seg: "az_log st1 = az_log st @ seg" "list_all (call_in actions (stray_ids leaks collection)) seg" "az_claim st1 = az_claim st"
    by blast
  from Cons.prems s r rs have "st' = st2" by simp
  with Cons.IH [OF _ rs] Cons.prems(1) s obtain segs where
    "az_log st' = az_log st1 @ concat segs" "az_claim st' = az_claim st1"
    "list_all2 (\<lambda>(collection, actions, _) seg. list_all (call_in actions (stray_ids leaks collection)) seg) steps segs"
    by auto
  with seg s show ?case by (intro exI [of _ "seg # segs"]) simp
qed

text \<open>The gate: the key is the configured principal, the stamp holds the account, the claim is the holder's.\<close>

definition gate_passed :: "'w aws_api \<Rightarrow> string \<Rightarrow> string \<Rightarrow> string \<Rightarrow> 'w \<Rightarrow> bool" where
  "gate_passed api account key_arn holder w \<longleftrightarrow>
     (case api_identity api w of
        (Inl _, _) \<Rightarrow> False
      | (Inr (acc, arn), w1) \<Rightarrow> acc = account \<and> arn = key_arn
          \<and> (case api_get api AWSStampParameter w1 of
               (r, w2) \<Rightarrow> r = Inr (Some account) \<and> fst (api_get api AWSClaimParameter w2) = Inr (Some holder)))"

definition gate_calls :: "aws_call list" where
  "gate_calls = [Get_Identity, Get_Parameter AWSStampParameter, Get_Parameter AWSClaimParameter]"

lemma identity_gate:
  "VerifyAWSIdentity api sts account key_arn st = (err, st1) \<Longrightarrow>
     az_claim st1 = az_claim st
     \<and> (case err of
          None \<Rightarrow> az_log st1 = az_log st @ [Get_Identity]
            \<and> (\<exists>w. api_identity api (az_world st) = (Inr (account, key_arn), w) \<and> az_world st1 = w)
        | Some _ \<Rightarrow> az_log st1 = az_log st \<or> az_log st1 = az_log st @ [Get_Identity])"
  by (cases "api_identity api (az_world st)")
    (auto simp: VerifyAWSIdentity_def call_identity_def sent_call_def split: option.splits sum.splits if_splits prod.splits)

lemma get_gate:
  "getAWSParameter api n st = (r, st1) \<Longrightarrow>
     az_claim st1 = az_claim st \<and> az_log st1 = az_log st @ [Get_Parameter n]
     \<and> az_world st1 = snd (api_get api n (az_world st))
     \<and> (case r of Inr (Some v) \<Rightarrow> fst (api_get api n (az_world st)) = Inr (Some v) | _ \<Rightarrow> True)"
  by (cases "api_get api n (az_world st)"; cases "fst (api_get api n (az_world st))")
    (auto simp: getAWSParameter_def call_get_def sent_call_def split: option.splits if_splits)

lemma stamp_gate:
  "AssertAWSScopeStamp api account st = (err, st1) \<Longrightarrow>
     az_claim st1 = az_claim st
     \<and> (case err of
          None \<Rightarrow> az_log st1 = az_log st @ [Get_Parameter AWSStampParameter]
            \<and> api_get api AWSStampParameter (az_world st) = (Inr (Some account), az_world st1)
        | Some _ \<Rightarrow> az_log st1 = az_log st \<or> az_log st1 = az_log st @ [Get_Parameter AWSStampParameter])"
proof (cases "ssm_fault api = None \<and> account \<noteq> []")
  case False
  then show "AssertAWSScopeStamp api account st = (err, st1) \<Longrightarrow> ?thesis"
    by (cases "ssm_fault api"; cases "account = []") (auto simp: AssertAWSScopeStamp_def)
next
  case True
  show "AssertAWSScopeStamp api account st = (err, st1) \<Longrightarrow> ?thesis"
    by (insert True, cases "getAWSParameter api AWSStampParameter st", frule get_gate,
        cases "api_get api AWSStampParameter (az_world st)")
      (auto simp: AssertAWSScopeStamp_def split: option.splits sum.splits if_splits)
qed

lemma claim_gate:
  "ReadAWSClaimHolder api st = (r, st1) \<Longrightarrow>
     az_claim st1 = az_claim st
     \<and> (case r of
          Inr (Some v) \<Rightarrow> az_log st1 = az_log st @ [Get_Parameter AWSClaimParameter]
            \<and> fst (api_get api AWSClaimParameter (az_world st)) = Inr (Some v)
        | _ \<Rightarrow> az_log st1 = az_log st \<or> az_log st1 = az_log st @ [Get_Parameter AWSClaimParameter])"
  by (cases "getAWSParameter api AWSClaimParameter st"; frule get_gate)
    (auto simp: ReadAWSClaimHolder_def split: option.splits sum.splits if_splits)

lemma step_names: "fst ` set (AWSReapSteps :: (string \<times> string list \<times> 'w reap_step) list) =
    fst ` set (AWSReapSteps :: (string \<times> string list \<times> 'v reap_step) list)"
  by (simp add: AWSReapSteps_def)

lemma unreaped_Nil:
  "unreaped leaks = [] \<Longrightarrow>
     list_all (\<lambda>s. sy_collection s \<in> fst ` set (AWSReapSteps :: (string \<times> string list \<times> 'w reap_step) list)) leaks"
  by (simp add: unreaped_def filter_empty_conv list_all_iff step_names [where 'w = unit and 'v = 'w])

text \<open>
  C14. A reap deletes strays only, in dependency order, and only behind the gate. Whatever AWS answers,
  it asks for its identity, the stamp and the claim first, in that order; if it sends anything more,
  each of the three gave the expected answer, and what it sends are, step by step in the order of the
  steps, only that step's own EC2 actions on ids the sweep found in that step's collection (a detach
  names what the item's description names). It never writes or deletes a parameter, and it reports
  success only if every stray it was given has a step.
\<close>

theorem reap_gated:
  "case ReapAWSScope (api :: 'w aws_api) sts account key_arn holder leaks st of (errs, st') \<Rightarrow>
     az_claim st' = az_claim st
     \<and> (\<exists>gate segs. az_log st' = az_log st @ gate @ concat segs \<and> prefix gate gate_calls
          \<and> (if segs = [] then errs \<noteq> []
             else gate = gate_calls \<and> gate_passed api account key_arn holder (az_world st)
               \<and> list_all2 (\<lambda>(collection, actions, _) seg. list_all (call_in actions (stray_ids leaks collection)) seg)
                   (AWSReapSteps :: (string \<times> string list \<times> 'w reap_step) list) segs
               \<and> (if errs = [] then
                    list_all (\<lambda>s. sy_collection s \<in> fst ` set (AWSReapSteps :: (string \<times> string list \<times> 'w reap_step) list)) leaks
                  else True)))"
proof -
  obtain err1 st1 where v: "VerifyAWSIdentity api sts account key_arn st = (err1, st1)" by fastforce
  note V = identity_gate [OF v]
  show ?thesis
  proof (cases err1)
    case (Some e)
    with V v show ?thesis
      by (auto simp: ReapAWSScope_def gate_calls_def
          intro: exI [of _ "[]"] exI [of _ "[Get_Identity]"])
  next
    case None
    obtain err2 st2 where a: "AssertAWSScopeStamp api account st1 = (err2, st2)" by fastforce
    note A = stamp_gate [OF a]
    show ?thesis
    proof (cases err2)
      case (Some e)
      with A V v None a show ?thesis
        by (auto simp: ReapAWSScope_def gate_calls_def
            intro: exI [of _ "[Get_Identity]"] exI [of _ "[Get_Identity, Get_Parameter AWSStampParameter]"] exI [of _ "[]"])
    next
      case stamped: None
      obtain r st3 where c: "ReadAWSClaimHolder api st2 = (r, st3)" by fastforce
      note C = claim_gate [OF c]
      show ?thesis
      proof (cases "r = Inr (Some holder) \<and> ec2_fault api = None")
        case False
        with v None a stamped c obtain e where
          e: "ReapAWSScope api sts account key_arn holder leaks st = ([e], st3)"
          by (cases r; cases "projr r"; cases "the (projr r) = holder"; cases "ec2_fault api") (auto simp: ReapAWSScope_def)
        have "az_claim st3 = az_claim st \<and> (az_log st3 = az_log st2 \<or> az_log st3 = az_log st2 @ [Get_Parameter AWSClaimParameter])"
          using C A V None stamped by (auto split: sum.splits option.splits)
        with A V None stamped have "az_claim st3 = az_claim st" "\<exists>gate. az_log st3 = az_log st @ gate \<and> prefix gate gate_calls"
          by (auto simp: gate_calls_def)
        with e show ?thesis by (auto intro: exI [of _ "[]"])
      next
        case True
        obtain errs st4 where rs: "reap_steps api AWSReapSteps leaks st3 = (errs, st4)" by fastforce
        from reap_steps_segments [OF step_sends rs] obtain segs where
          segs: "az_log st4 = az_log st3 @ concat segs" "az_claim st4 = az_claim st3"
          "list_all2 (\<lambda>(collection, actions, _) seg. list_all (call_in actions (stray_ids leaks collection)) seg)
             (AWSReapSteps :: (string \<times> string list \<times> 'w reap_step) list) segs"
          by (elim exE conjE) (rule that)
        have "length (AWSReapSteps :: (string \<times> string list \<times> 'w reap_step) list) = 14" by (simp add: AWSReapSteps_def)
        with segs(3) have ne: "segs \<noteq> []" using list_all2_lengthD by fastforce
        have run: "ReapAWSScope api sts account key_arn holder leaks st = (errs @ unreaped leaks, st4)"
          using v None a stamped c True rs by (simp add: ReapAWSScope_def)
        have gate: "gate_passed api account key_arn holder (az_world st)"
          using V A C None stamped True by (auto simp: gate_passed_def)
        have logged: "az_log st4 = az_log st @ gate_calls @ concat segs" "az_claim st4 = az_claim st"
          using V A C None stamped True segs by (simp_all add: gate_calls_def)
        have reaped: "if errs @ unreaped leaks = []
          then list_all (\<lambda>s. sy_collection s \<in> fst ` set (AWSReapSteps :: (string \<times> string list \<times> 'w reap_step) list)) leaks
          else True"
          using unreaped_Nil [of leaks, where 'w = 'w] by simp
        show ?thesis unfolding run prod.case
        proof (intro conjI logged(2), rule exI [of _ gate_calls], rule exI [of _ segs], intro conjI logged(1))
          show "prefix gate_calls gate_calls" by simp
        qed (simp only: ne if_False gate segs(3) simp_thms, rule reaped)
      qed
    qed
  qed
qed

end
