(* ===== verification/Aws_Lifecycle.thy ===== *)
theory Aws_Lifecycle
  imports Aws_Reap Run_Keep
begin

text \<open>
  The life of the AWS claim in one process: taken before the first apply, kept or released by the one
  teardown, taken over by a reap (\<^verbatim>\<open>cli/aws_scope_lifecycle.go\<close>, \<^verbatim>\<open>cli/aws_preflight.go\<close>, the AWS part of
  \<^verbatim>\<open>cli/reap_command.go\<close> and \<^verbatim>\<open>awsRunFailureTeardown\<close> of \<^verbatim>\<open>cli/run_command.go\<close>).

  The world the AWS clients act on is the world tofu acts on. What a process knows of the claim is the
  field \<open>az_claim\<close>. A sweep that never ends does not return: \<open>None\<close>.
\<close>

subsection \<open>What a process is given\<close>

record 'v aws_run =
  ar_rt :: "'v runtime"
  ar_api :: "'v world aws_api"
  ar_sts :: "string option" \<comment> \<open>why the STS client cannot be built\<close>
  ar_dir :: string
  ar_config_path :: string
  ar_scenario_path :: string
  ar_holder :: string
  ar_actor :: string
  ar_region :: string
  ar_account :: string
  ar_key_arn :: string
  ar_home :: "string + string"
  ar_credentials :: "string \<Rightarrow> string + string \<times> string" \<comment> \<open>key id and secret of the credential file\<close>
  ar_destruction :: bool
  ar_hold_copy :: "'v world \<Rightarrow> string option \<times> 'v world"
  ar_copy_there :: "'v \<Rightarrow> bool"
  ar_ended :: "'v \<Rightarrow> bool" \<comment> \<open>the run's own context\<close>

subsection \<open>The environment\<close>

definition awsRegionPattern :: regex where
  "awsRegionPattern =
     (let lower = Chr (char_between CHR ''a'' CHR ''z'') in
      seqs [At_Start, lower, lower, some_re (Seq (lit_char CHR ''-'') (some_re lower)),
        lit_char CHR ''-'', some_re digit_re, At_End])"

definition ValidAWSRegion :: "string \<Rightarrow> bool" where
  "ValidAWSRegion region \<longleftrightarrow> find_first awsRegionPattern region \<noteq> None"

definition AWSSealedEnv :: "'v aws_run \<Rightarrow> string \<Rightarrow> string \<Rightarrow> string + env" where
  "AWSSealedEnv ar credFile region =
     (if \<not> ValidAWSRegion region
      then Inl (''aws sealed env: region '' @ quote region @ '' is not an AWS region name'')
      else (case ar_credentials ar credFile of
          Inl e \<Rightarrow> Inl (''aws sealed env: '' @ e)
        | Inr (key, secret) \<Rightarrow>
            Inr [(''AWS_ACCESS_KEY_ID'', key), (''AWS_SECRET_ACCESS_KEY'', secret), (''AWS_REGION'', region),
              (''AWS_EC2_METADATA_DISABLED'', ''true''),
              (''AWS_SHARED_CREDENTIALS_FILE'', ''/dev/null/infrafactory-aws-credentials''),
              (''AWS_CONFIG_FILE'', ''/dev/null/infrafactory-aws-config'')]))"

definition awsLayer3Env :: "'v aws_run \<Rightarrow> string + env" where
  "awsLayer3Env ar =
     (case filter (\<lambda>(_, v). blank v) [(''aws.region'', ar_region ar), (''aws.account_id'', ar_account ar),
          (''aws.principal_arn'', ar_key_arn ar)] of
        (name, _) # _ \<Rightarrow> Inl (''aws Layer 3 preflight: '' @ name @ '' is empty in the config'')
      | [] \<Rightarrow>
          if \<not> ValidAWSRegion (ar_region ar)
          then Inl (''aws Layer 3 preflight: aws.region '' @ quote (ar_region ar) @ '' is not an AWS region name'')
          else (case ar_home ar of
              Inl e \<Rightarrow> Inl (''aws Layer 3 preflight: locating the credential file: '' @ e)
            | Inr home \<Rightarrow>
                (case AWSSealedEnv ar (home @ ''/.config/infrafactory/layer3-aws.env'') (ar_region ar) of
                   Inl e \<Rightarrow> Inl (''aws Layer 3 preflight: '' @ e) | Inr env \<Rightarrow> Inr env)))"

definition awsCommandEnvForAccount :: "'v aws_run \<Rightarrow> string \<Rightarrow> string + env" where
  "awsCommandEnvForAccount ar scope =
     (if blank scope then Inl ''refusing to build an aws Layer 3 environment with no account scope''
      else if scope \<noteq> ar_account ar
      then Inl (''refusing to build an aws Layer 3 environment for account '' @ quote scope
             @ '': aws.account_id is '' @ quote (ar_account ar))
      else awsLayer3Env ar)"

definition awsVerifiedEnv :: "'v aws_run \<Rightarrow> 'v world aws_world \<Rightarrow> (string + env) \<times> 'v world aws_world" where
  "awsVerifiedEnv ar st =
     (case awsLayer3Env ar of
        Inl e \<Rightarrow> (Inl e, st)
      | Inr env \<Rightarrow>
          (case VerifyAWSIdentity (ar_api ar) (ar_sts ar) (ar_account ar) (ar_key_arn ar) st of
             (Some e, st1) \<Rightarrow> (Inl e, st1) | (None, st1) \<Rightarrow> (Inr env, st1)))"

subsection \<open>What a process says of the claim\<close>

text \<open>What the advice can act on; \<open>None\<close> is a claim whose holder has no name here.\<close>

definition known :: "aws_claim \<Rightarrow> string \<Rightarrow> aws_claim option" where
  "known c holder =
     (if (c \<in> {awsClaimHeld, awsClaimUnknown} \<and> holder = []) \<or> c = awsClaimHeldByOther [] then None else Some c)"

definition awsActorRun :: string where "awsActorRun = ''this run''"
definition awsActorReap :: string where "awsActorReap = ''this reap''"

definition awsActor :: "'v aws_run \<Rightarrow> string" where
  "awsActor ar = (if ar_actor ar = [] then awsActorRun else ar_actor ar)"

definition awsTakeOverOf :: "string \<Rightarrow> string \<Rightarrow> string" where
  "awsTakeOverOf plain holder = (if holder = [] then plain else plain @ '' --take-over '' @ shellQuote holder)"

definition awsTakeOverCommand :: "'v aws_run \<Rightarrow> string \<Rightarrow> string" where
  "awsTakeOverCommand ar holder = awsTakeOverOf (reapCommand (ar_config_path ar) (ar_scenario_path ar)) holder"

definition awsReapAdviceFor :: "'v aws_run \<Rightarrow> string \<Rightarrow> aws_claim \<Rightarrow> string" where
  "awsReapAdviceFor ar plain claim =
     (let holder = ar_holder ar;
          does = ''sweeps the scope, destroys what is left and releases the claim'' in
      case known claim holder of
        Some awsClaimHeld \<Rightarrow> ''`'' @ awsTakeOverOf plain holder @ ''` '' @ does
      | Some awsClaimUnknown \<Rightarrow> ''If '' @ awsActor ar @ '' holds the claim, `'' @ awsTakeOverOf plain holder @ ''` '' @ does
          @ ''; if no one holds it, `'' @ plain @ ''` does''
      | Some (awsClaimHeldByOther other) \<Rightarrow> ''Once that run has ended, `'' @ awsTakeOverOf plain other @ ''` '' @ does
      | None \<Rightarrow> ''The claim'' @ [apostrophe] @ ''s holder is unknown here: if no one holds it, `'' @ plain @ ''` '' @ does
          @ ''; if someone does, it refuses, naming the holder and the --take-over that takes the claim over''
      | Some awsClaimNotHeld \<Rightarrow> ''`'' @ plain @ ''` '' @ does)"

definition awsReapAdvice :: "'v aws_run \<Rightarrow> aws_claim \<Rightarrow> string" where
  "awsReapAdvice ar claim = awsReapAdviceFor ar (reapCommand (ar_config_path ar) (ar_scenario_path ar)) claim"

definition awsClaimHead :: "'v aws_run \<Rightarrow> aws_claim \<Rightarrow> string" where
  "awsClaimHead ar claim =
     (let holder = ar_holder ar; actor = awsActor ar; scope = ''the aws scope'' @ [apostrophe] @ ''s claim'' in
      case known claim holder of
        Some awsClaimHeld \<Rightarrow> actor @ '' keeps '' @ scope @ '' for '' @ holder
      | Some (awsClaimHeldByOther other) \<Rightarrow> actor @ '' does not hold '' @ scope @ '': '' @ other @ '' does''
      | Some awsClaimNotHeld \<Rightarrow> actor @ '' does not hold '' @ scope
      | None \<Rightarrow> actor @ '' may hold '' @ scope
      | Some awsClaimUnknown \<Rightarrow>
          if actor = awsActorReap then actor @ '' may hold '' @ scope @ '' as '' @ holder
          else actor @ '' may hold '' @ scope @ '' for '' @ holder)"

definition firstSignalNotice :: "'v aws_run \<Rightarrow> layer3_cloud \<Rightarrow> string \<Rightarrow> string" where
  "firstSignalNotice ar cloud scenarioPath =
     (let plain = reapCommand (ar_config_path ar) scenarioPath in
      case cloud of
        layer3AWS \<Rightarrow> newline @ ''Interrupted '' @ Learning.em_dash
          @ '' finishing teardown before exit; Ctrl-C again abandons it. Should the process die first, ''
          @ awsClaimHead ar awsClaimUnknown @ ''. '' @ awsReapAdviceFor ar plain awsClaimUnknown @ ''.'' @ newline
      | layer3Scaleway \<Rightarrow> newline @ ''Interrupted '' @ Learning.em_dash
          @ '' finishing cleanup before exit; Ctrl-C again abandons it. Should the process die first, ''
          @ ''if this run applied anything, `'' @ plain @ ''` cleans it up.'' @ newline
      | Other_Cloud _ \<Rightarrow> [])"

definition awsRunEndNotice :: "'v aws_run \<Rightarrow> aws_claim \<Rightarrow> string" where
  "awsRunEndNotice ar claim =
     (if ar_holder ar = [] \<or> claim \<notin> {awsClaimHeld, awsClaimUnknown} then []
      else newline @ ''Run ended: '' @ awsClaimHead ar claim @ ''. '' @ awsReapAdvice ar claim @ ''.'' @ newline)"

definition awsInterruptNotice :: "'v aws_run \<Rightarrow> aws_claim \<Rightarrow> string" where
  "awsInterruptNotice ar claim =
     (let tail = (case known claim (ar_holder ar) of
              Some awsClaimNotHeld \<Rightarrow> '': it never took it, or its sweep proved the scope empty and released it''
            | Some (awsClaimHeldByOther _) \<Rightarrow> []
            | _ \<Rightarrow> '', and what it applied may still exist'')
      in newline @ ''Interrupted: '' @ awsClaimHead ar claim @ tail @ ''. '' @ awsReapAdvice ar claim @ ''.'' @ newline)"

subsection \<open>Taking the claim\<close>

definition mintAWSClaimHolder :: "'v aws_run \<Rightarrow> layer3_cloud \<Rightarrow> bool \<Rightarrow> string \<Rightarrow> int \<Rightarrow> 'v world aws_world
    \<Rightarrow> scope_error + 'v aws_run \<times> 'v world aws_world" where
  "mintAWSClaimHolder ar cloud layer3 runID pid st =
     (if cloud \<noteq> layer3AWS \<or> \<not> layer3 then Inr (ar, st)
      else (case NewAWSClaimHolder (ar_api ar) runID pid of
          Inl e \<Rightarrow> Inl e
        | Inr holder \<Rightarrow> Inr (ar\<lparr>ar_holder := holder, ar_actor := awsActorRun\<rparr>, st\<lparr>az_claim := awsClaimNotHeld\<rparr>)))"

definition awsScopeClaimFailed :: "string \<Rightarrow> string \<Rightarrow> string \<Rightarrow> string \<times> report" where
  "awsScopeClaimFailed held check detail =
     (held, [stage sandbox_deploy ''aws_scope_claim'' StageStatusFail []],
      [failing sandbox_deploy ''aws_scope_claim'' check ''claim aws scope'' detail])"

text \<open>The stamp, the default VPC, then the claim; the account is returned when the claim may be held.\<close>

definition ensureAWSScopeClaim :: "'v aws_run \<Rightarrow> 'v world aws_world \<Rightarrow> ((string \<times> report) \<times> 'v world aws_world) option" where
  "ensureAWSScopeClaim ar st0 =
     (let api = ar_api ar; account = ar_account ar; holder = ar_holder ar;
          st = (if az_claim st0 \<noteq> awsClaimHeld then st0\<lparr>az_claim := awsClaimNotHeld\<rparr> else st0) in
      case awsLayer3Env ar of
        Inl e \<Rightarrow> Some (awsScopeClaimFailed [] ''credentials'' e, st)
      | Inr env \<Rightarrow>
     (case AssertAWSScopeStamp api account st of
        (Some e, st1) \<Rightarrow> Some (awsScopeClaimFailed [] ''stamp'' e, st1)
      | (None, st1) \<Rightarrow>
     (case AssertNoAWSDefaultVPC api st1 of
        None \<Rightarrow> None
      | Some (Some e, st2) \<Rightarrow> Some (awsScopeClaimFailed [] ''default_vpc'' e, st2)
      | Some (None, st2) \<Rightarrow>
     (case TakeAWSClaim api holder st2 of
        (err, st3) \<Rightarrow>
          let st4 = st3\<lparr>az_claim := awsClaimAfterTake err\<rparr> in
          Some (case err of
             None \<Rightarrow> ((account, [stage sandbox_deploy ''aws_scope_claim'' StageStatusPass
               (''claimed the configured account for '' @ holder
                 @ '' after checking its stamp and that it has no default VPC'')], []), st4)
           | Some e \<Rightarrow>
               if ErrAWSClaimOutcomeUnknown \<in> set (se_is e)
               then (awsScopeClaimFailed account ''claim'' (se_text e), st4)
               else (awsScopeClaimFailed [] ''claim'' (se_text e), st4))))))"

subsection \<open>Releasing or keeping it\<close>

definition awsScopeClaimKept :: "'v aws_run \<Rightarrow> aws_claim \<Rightarrow> report \<Rightarrow> string \<Rightarrow> report" where
  "awsScopeClaimKept ar claim rep reason =
     (if (case known claim (ar_holder ar) of
            Some awsClaimNotHeld \<Rightarrow> True | Some (awsClaimHeldByOther _) \<Rightarrow> True | _ \<Rightarrow> False)
      then (fst rep @ [stage sandbox_deploy ''aws_scope_claim'' StageStatusFail []],
            snd rep @ [failing sandbox_deploy ''aws_scope_claim'' ''claim'' ''release aws scope''
              (awsClaimHead ar claim @ '': '' @ reason @ ''. '' @ awsReapAdvice ar claim)])
      else (fst rep @ [stage sandbox_deploy StageAWSScopeClaimKept StageStatusFail []],
            snd rep @ [failing sandbox_deploy StageAWSScopeClaimKept ''claim'' ''release aws scope''
              (awsClaimHead ar claim @ '': '' @ reason @ '', so resources may still exist in the scope. ''
                @ awsReapAdvice ar claim)]))"

definition awsReleaseAfterCleanSweep :: "'v aws_run \<Rightarrow> 'v world aws_world \<Rightarrow> (report \<times> 'v world aws_world) option" where
  "awsReleaseAfterCleanSweep ar st =
     (case SweepAWSScope (ar_api ar) st of
        None \<Rightarrow> None
      | Some ((_, Some e), st1) \<Rightarrow>
          Some (([stage sandbox_deploy ''aws_scope_sweep'' StageStatusFail []],
             [failing sandbox_deploy ''aws_scope_sweep'' ''no_orphans'' ''aws scope sweep'' e]), st1)
      | Some ((_, None), st1) \<Rightarrow>
          let swept = stage sandbox_deploy ''aws_scope_sweep'' StageStatusPass ''every swept collection in the scope is empty'';
              (err, st2) = ReleaseAWSClaim (ar_api ar) (ar_holder ar) st1;
              st3 = st2\<lparr>az_claim := awsClaimAfterRelease err\<rparr>
          in Some (case err of
               Some e \<Rightarrow> (([swept, stage sandbox_deploy ''aws_scope_release'' StageStatusFail []],
                  [failing sandbox_deploy ''aws_scope_release'' ''claim'' ''release aws scope'' (se_text e)]), st3)
             | None \<Rightarrow> (([swept, stage sandbox_deploy ''aws_scope_release'' StageStatusPass
                  (''released the claim '' @ ar_holder ar @ '' held'')], []), st3)))"

text \<open>What the state records, destroyed.\<close>

definition destroy_recorded :: "'v aws_run \<Rightarrow> env \<Rightarrow> 'v world aws_world \<Rightarrow> report \<times> 'v world aws_world" where
  "destroy_recorded ar env st =
     (let rt = ar_rt ar in
      if \<not> liveStateMayHoldResources (live_state rt (w_api (az_world st)) (ar_dir ar)) then (([], []), st)
      else (case destroyAWSSandbox rt (ar_dir ar) env (az_world st) of
              ((result, _, err), w) \<Rightarrow> (appendSandboxDestroyResult (cfg_accounts rt) ([], []) result err, st\<lparr>az_world := w\<rparr>)))"

definition both :: "report \<Rightarrow> report \<Rightarrow> report" where
  "both a b = (fst a @ fst b, snd a @ snd b)"

text \<open>The release, or the claim kept, after \<open>rep\<close>.\<close>

definition release_or_keep :: "'v aws_run \<Rightarrow> report \<Rightarrow> 'v world aws_world \<Rightarrow> (report \<times> 'v world aws_world) option" where
  "release_or_keep ar rep st =
     (case awsReleaseAfterCleanSweep ar st of
        None \<Rightarrow> None
      | Some (released, st1) \<Rightarrow>
          Some (if snd released \<noteq> []
                then awsScopeClaimKept ar (az_claim st1) (both rep released) ''the scope was not proven empty and released''
                else both rep released, st1))"

definition awsDestroyAndRelease :: "'v aws_run \<Rightarrow> env \<Rightarrow> 'v world aws_world \<Rightarrow> (report \<times> 'v world aws_world) option" where
  "awsDestroyAndRelease ar env st =
     (case destroy_recorded ar env st of (rep, st1) \<Rightarrow> release_or_keep ar rep st1)"

subsection \<open>The teardown of a test\<close>

definition StageAWSHold :: string where "StageAWSHold = ''aws_hold''"
definition awsHoldScenario :: string where "awsHoldScenario = ''aws-web-live''"

definition holdCopyPath :: "string \<Rightarrow> string" where
  "holdCopyPath scenarioName = ''.infrafactory/holds/'' @ scenarioName @ ''/'' @ LiveStateFilename"

definition awsHoldFellThrough :: "bool \<Rightarrow> string \<Rightarrow> string \<Rightarrow> string \<Rightarrow> report \<times> bool" where
  "awsHoldFellThrough there copyPath check why =
     (let detail = ''not held, so the teardown runs as it does for any other run: '' @ why
            @ (if there then ''. The copy '' @ copyPath @ '' is kept: generate, run and test of '' @ awsHoldScenario
                 @ '' are refused until it is deleted by hand'' else [])
      in (([stage sandbox_deploy StageAWSHold StageStatusFail detail],
           if check = [] then []
           else [failing sandbox_deploy StageAWSHold check ''hold the stack'' detail]), False))"

definition awsKeptOnPurpose :: "string \<Rightarrow> string \<Rightarrow> string \<Rightarrow> stage_summary list" where
  "awsKeptOnPurpose holder reason release =
     [stage sandbox_deploy StageAWSScopeClaimKept StageStatusSkip
        (''kept the aws scope'' @ [apostrophe] @ ''s claim for '' @ holder @ '' on purpose ('' @ reason
          @ ''): what this run applied is still there. '' @ release)]"

text \<open>The third component: held.\<close>

definition awsKeepHold :: "'v aws_run \<Rightarrow> 'v world aws_world \<Rightarrow> (report \<times> bool) \<times> 'v world aws_world" where
  "awsKeepHold ar st =
     (let copyPath = holdCopyPath awsHoldScenario; holder = ar_holder ar;
          fell = (\<lambda>s. awsHoldFellThrough (ar_copy_there ar (w_api (az_world s))) copyPath);
          ended = (\<lambda>s. ar_ended ar (w_api (az_world s))) in
      if known (az_claim st) holder \<noteq> Some awsClaimHeld
      then (fell st ''claim'' (awsClaimHead ar (az_claim st)), st)
      else (case (if ended st then (None, az_world st) else ar_hold_copy ar (az_world st)) of
          (Some e, w) \<Rightarrow>
            let st1 = st\<lparr>az_world := w\<rparr> in
            (fell st1 ''hold_copy'' (''its tfstate copy '' @ copyPath @ '' could not be written: '' @ e), st1)
        | (None, w) \<Rightarrow>
            let st1 = st\<lparr>az_world := w\<rparr> in
            if ended st1 then (fell st1 [] ''the run was interrupted'', st1)
            else (((awsKeptOnPurpose holder ''--hold'' (''Its tfstate is copied to '' @ copyPath
                      @ '', and nothing expires the hold. Once the read is done, `'' @ awsTakeOverCommand ar holder
                      @ '' --release-hold` destroys it, sweeps the scope and releases the claim''), []), True), st1)))"

definition awsHolderSuffix :: "string \<Rightarrow> string" where
  "awsHolderSuffix holder = (if holder = [] then [] else '' for '' @ holder)"

definition awsTeardownSkipped :: "'v aws_run \<Rightarrow> aws_claim \<Rightarrow> string \<Rightarrow> stage_summary list" where
  "awsTeardownSkipped ar claim reason =
     (let holder = ar_holder ar; advice = awsReapAdvice ar claim; scope = ''the aws scope'' @ [apostrophe] @ ''s claim'' in
      case known claim holder of
        Some awsClaimHeld \<Rightarrow> awsKeptOnPurpose holder reason advice
      | Some (awsClaimHeldByOther other) \<Rightarrow> [stage sandbox_deploy ''aws_scope_claim'' StageStatusSkip
          (''skipped the teardown ('' @ reason @ ''); '' @ scope @ '' is held by '' @ other @ '', not this run. '' @ advice)]
      | Some awsClaimNotHeld \<Rightarrow> [stage sandbox_deploy ''aws_scope_claim'' StageStatusSkip
          (''skipped the teardown ('' @ reason @ ''); this run does not hold '' @ scope @ ''. '' @ advice)]
      | _ \<Rightarrow> [stage sandbox_deploy StageAWSScopeClaimKept StageStatusSkip
          (''skipped the teardown ('' @ reason @ '') though this run may hold '' @ scope @ awsHolderSuffix holder
            @ '', so what it applied may still be there. '' @ advice)])"

definition awsScopeTeardown :: "'v aws_run \<Rightarrow> bool \<Rightarrow> bool \<Rightarrow> 'v world aws_world \<Rightarrow> (report \<times> 'v world aws_world) option" where
  "awsScopeTeardown ar skipDestroy holdWanted st =
     (if skipDestroy \<or> \<not> ar_destruction ar
      then Some ((awsTeardownSkipped ar (az_claim st)
              (if skipDestroy then ''--no-destroy'' else ''destruction is disabled''), []), st)
      else let ((rep, held), st1) = (if holdWanted then awsKeepHold ar st else ((([], []), False), st)) in
        if held then Some (rep, st1)
        else (case awsCommandEnvForAccount ar (ar_account ar) of
            Inl e \<Rightarrow> Some (awsScopeClaimKept ar (az_claim st1) rep e, st1)
          | Inr env \<Rightarrow> map_option (map_prod (both rep) (\<lambda>s. s)) (awsDestroyAndRelease ar env st1)))"

subsection \<open>The teardown of a run that failed\<close>

definition awsClaimTaken :: "stage_summary \<Rightarrow> bool" where
  "awsClaimTaken s \<longleftrightarrow> (sm_stage s = ''aws_scope_claim'' \<and> sm_status s = StageStatusPass) \<or> sm_stage s = StageAWSScopeClaimKept"

definition awsRunFailureTeardown :: "'v aws_run \<Rightarrow> stage_summary list \<Rightarrow> 'v world aws_world
    \<Rightarrow> (report \<times> 'v world aws_world) option" where
  "awsRunFailureTeardown ar stages st =
     (if \<not> list_ex awsClaimTaken stages
      then Some (([stage sandbox_deploy ''auto_destroy'' StageStatusSkip
             (''no iteration took the aws scope'' @ [apostrophe] @ ''s claim, so none applied to it'')], []), st)
      else (case awsCommandEnvForAccount ar (ar_account ar) of
          Inl e \<Rightarrow> Some (awsScopeClaimKept ar (az_claim st) ([], []) e, st)
        | Inr env \<Rightarrow>
            (case ReadAWSClaimHolder (ar_api ar) st of
               (Inl e, st1) \<Rightarrow>
                 Some (awsScopeClaimKept ar awsClaimUnknown ([], []) (se_text e), st1\<lparr>az_claim := awsClaimUnknown\<rparr>)
             | (Inr current, st1) \<Rightarrow>
                 if current \<noteq> Some (ar_holder ar)
                 then Some (([stage sandbox_deploy ''auto_destroy'' StageStatusSkip
                        (''the aws scope'' @ [apostrophe] @ ''s claim is not held by this run, so it tears nothing down'')], []),
                      st1\<lparr>az_claim := (case current of None \<Rightarrow> awsClaimNotHeld | Some other \<Rightarrow> awsClaimHeldByOther other)\<rparr>)
                 else awsDestroyAndRelease ar env (st1\<lparr>az_claim := awsClaimHeld\<rparr>))))"

subsection \<open>The reap command\<close>

definition awsReapTakeFailure :: "'v aws_run \<Rightarrow> scope_error option \<Rightarrow> 'v world aws_world \<Rightarrow> string option \<times> 'v world aws_world" where
  "awsReapTakeFailure ar err st =
     (case err of
        None \<Rightarrow> (None, st)
      | Some e \<Rightarrow>
          if ErrAWSNoClaimHeld \<in> set (se_is e)
          then (Some (se_text e @ '': run plain `'' @ reapCommand (ar_config_path ar) (ar_scenario_path ar) @ ''`''), st)
          else if ErrAWSPreviousClaimDeleted \<in> set (se_is e) \<or> ErrAWSClaimOutcomeUnknown \<in> set (se_is e)
            \<or> named_holder e \<noteq> None
          then let claim = awsClaimAfterTake err in
            (Some (se_text e @ ''. '' @ awsReapAdvice ar claim), st\<lparr>az_claim := claim\<rparr>)
          else (Some (se_text e), st))"

definition claimAWSScopeForReap :: "'v aws_run \<Rightarrow> string \<Rightarrow> 'v world aws_world \<Rightarrow> string option \<times> 'v world aws_world" where
  "claimAWSScopeForReap ar takeOver st =
     (if takeOver \<noteq> []
      then (case TakeOverAWSClaim (ar_api ar) takeOver (ar_holder ar) st of (err, st1) \<Rightarrow> awsReapTakeFailure ar err st1)
      else (case ReadAWSClaimHolder (ar_api ar) st of
          (Inl e, st1) \<Rightarrow> (Some (se_text e), st1)
        | (Inr (Some current), st1) \<Rightarrow>
            (Some (''refusing to reap: the aws Layer 3 scope is claimed by '' @ current
               @ ''. Once that run has ended, `'' @ awsTakeOverCommand ar current @ ''` takes the claim over from it''), st1)
        | (Inr None, st1) \<Rightarrow>
            (case TakeAWSClaim (ar_api ar) (ar_holder ar) st1 of (err, st2) \<Rightarrow> awsReapTakeFailure ar err st2)))"

definition reap_findings :: "'v aws_run \<Rightarrow> aws_stray list \<Rightarrow> 'v world aws_world \<Rightarrow> report \<times> 'v world aws_world" where
  "reap_findings ar leaks st =
     (if leaks = [] then (([], []), st)
      else (case ReapAWSScope (ar_api ar) (ar_sts ar) (ar_account ar) (ar_key_arn ar) (ar_holder ar) leaks st of
          ([], st1) \<Rightarrow> (([stage sandbox_deploy ''aws_scope_reap'' StageStatusPass (''deleted '' @ joinAWSStrays leaks)], []), st1)
        | (errs, st1) \<Rightarrow> (([stage sandbox_deploy ''aws_scope_reap'' StageStatusFail []],
            [failing sandbox_deploy ''aws_scope_reap'' ''delete'' ''aws scope reap'' (join newline errs)]), st1)))"

definition reapClaimedAWSScope :: "'v aws_run \<Rightarrow> env \<Rightarrow> 'v world aws_world \<Rightarrow> (report \<times> 'v world aws_world) option" where
  "reapClaimedAWSScope ar env st =
     (let claimed = ([stage sandbox_deploy ''aws_scope_claim'' StageStatusPass
            (''claimed account '' @ ar_account ar @ '' for '' @ ar_holder ar)], []);
          (destroyed, st1) = destroy_recorded ar env st in
      case SweepAWSScope (ar_api ar) st1 of
        None \<Rightarrow> None
      | Some ((leaks, _), st2) \<Rightarrow>
          (case reap_findings ar leaks st2 of
             (reaped, st3) \<Rightarrow> release_or_keep ar (both (both claimed destroyed) reaped) st3))"

text \<open>The error, if any, and the report; \<open>pid\<close> and \<open>stamp\<close> name the reap's own holder.\<close>

definition runAWSReap :: "'v aws_run \<Rightarrow> string \<Rightarrow> bool \<Rightarrow> string \<Rightarrow> int \<Rightarrow> 'v world aws_world
    \<Rightarrow> ((string option \<times> report) \<times> 'v world aws_world) option" where
  "runAWSReap ar takeOver dryRun stamp pid st =
     (let refused = (\<lambda>e s. Some ((Some e, [], []), s)) in
      case awsVerifiedEnv ar st of
        (Inl e, st1) \<Rightarrow> refused e st1
      | (Inr _, st1) \<Rightarrow>
     (case awsCommandEnvForAccount ar (ar_account ar) of
        Inl e \<Rightarrow> refused e st1
      | Inr env \<Rightarrow>
     (case AssertAWSScopeStamp (ar_api ar) (ar_account ar) st1 of
        (Some e, st2) \<Rightarrow> refused e st2
      | (None, st2) \<Rightarrow>
          if dryRun
          then (case SweepAWSScope (ar_api ar) st2 of
              None \<Rightarrow> None
            | Some ((_, Some e), st3) \<Rightarrow> refused (''--dry-run, nothing deleted: '' @ e) st3
            | Some ((_, None), st3) \<Rightarrow> Some ((None, [], []), st3))
          else (case NewAWSClaimHolder (ar_api ar) (''reap-'' @ stamp) pid of
              Inl e \<Rightarrow> refused (se_text e) st2
            | Inr holder \<Rightarrow>
                let ar' = ar\<lparr>ar_holder := holder, ar_actor := awsActorReap\<rparr> in
                (case claimAWSScopeForReap ar' takeOver st2 of
                   (Some e, st3) \<Rightarrow> refused e st3
                 | (None, st3) \<Rightarrow>
                     map_option (map_prod (\<lambda>rep. (if snd rep = [] then None
                         else Some ''reap did not leave the aws scope provably empty'', rep)) (\<lambda>s. s))
                       (reapClaimedAWSScope ar' env (st3\<lparr>az_claim := awsClaimHeld\<rparr>)))))))"

subsection \<open>What a sweep and a release send\<close>

fun is_describe :: "aws_call \<Rightarrow> bool" where
  "is_describe (Describe _ _) \<longleftrightarrow> True" | "is_describe _ \<longleftrightarrow> False"

fun changes_claim :: "aws_call \<Rightarrow> bool" where
  "changes_claim (Put_Parameter _ _) \<longleftrightarrow> True"
| "changes_claim (Delete_Parameter _) \<longleftrightarrow> True"
| "changes_claim _ \<longleftrightarrow> False"

text \<open>\<open>logged P st st'\<close>: from one state to the other, only calls of \<open>P\<close> were made.\<close>

definition logged :: "(aws_call \<Rightarrow> bool) \<Rightarrow> 'w aws_world \<Rightarrow> 'w aws_world \<Rightarrow> bool" where
  "logged P st st' \<longleftrightarrow> (\<exists>calls. az_log st' = az_log st @ calls \<and> list_all P calls)"

lemma logged_refl [simp]: "logged P st st"
  by (simp add: logged_def)

lemma logged_trans: "logged P st st1 \<Longrightarrow> logged P st1 st2 \<Longrightarrow> logged P st st2"
  by (fastforce simp: logged_def)

lemma logged_page: "call_page api op token st = (r, st1) \<Longrightarrow> logged is_describe st st1"
  by (cases "api_page api op token (az_world st)") (auto simp: call_page_def logged_def sent_call_def)

lemma logged_pages: "awsPages api op token seen acc st = Some out \<Longrightarrow> logged is_describe st (snd out)"
proof (induction rule: awsPages.raw_induct [rotated, consumes 1])
  case (1 pages api op token seen acc st out)
  obtain p st1 where call: "call_page api op token st = (p, st1)" by fastforce
  note step = logged_page [OF call]
  show ?case
  proof (cases p)
    case (Inl e)
    with 1 call step show ?thesis by auto
  next
    case (Inr page)
    obtain items nxt where page: "page = (items, nxt)" by fastforce
    show ?thesis
    proof (cases "token_text nxt \<noteq> [] \<and> token_text nxt \<notin> set seen")
      case True
      with "1.hyps" call Inr page
      have "pages api op nxt (token_text nxt # seen) (acc @ items) st1 = Some out" by simp
      from logged_trans [OF step "1.IH" [OF this]] show ?thesis .
    qed (use 1 call step Inr page in \<open>auto split: if_splits\<close>)
  qed
qed

lemma logged_lister:
  "list_all (\<lambda>(_, lister). \<forall>st out. lister api st = Some out \<longrightarrow> logged is_describe st (snd out)) AWSSweepCollections"
  unfolding AWSSweepCollections_def listers paged_def unpaged_def list.pred_inject prod.case
  by (intro conjI allI impI TrueI) (auto dest!: logged_pages logged_page split: prod.splits sum.splits)

lemma logged_rows:
  "list_all (\<lambda>(_, lister). \<forall>st out. lister api st = Some out \<longrightarrow> logged is_describe st (snd out)) rows \<Longrightarrow>
   poll_rows api rows acc st = Some out \<Longrightarrow> logged is_describe st (snd out)"
proof (induction rows arbitrary: acc st)
  case (Cons row rows)
  obtain name lister where row: "row = (name, lister)" by fastforce
  with Cons.prems(2) obtain r st1 where l: "lister api st = Some (r, st1)" by (auto split: option.splits)
  with Cons.prems(1) row have "logged is_describe st st1" by fastforce
  note step = this
  show ?case
  proof (cases r)
    case (Inl e)
    with Cons.prems row l step show ?thesis by auto
  next
    case (Inr found)
    with Cons.prems row l have
      "poll_rows api rows (acc @ map (\<lambda>s. s\<lparr>sy_collection := name\<rparr>) found) st1 = Some out" by simp
    with Cons row logged_trans [OF step] show ?thesis by auto
  qed
qed auto

lemma logged_sweep_polls: "sweep_polls api n st = Some out \<Longrightarrow> logged is_describe st (snd out)"
proof (induction n arbitrary: st rule: less_induct)
  case (less n)
  obtain r st1 where p: "pollAWSScope api st = Some (r, st1)"
    using less.prems by (subst (asm) sweep_polls.simps) (auto split: option.splits)
  then have step: "logged is_describe st st1"
    using logged_rows [OF logged_lister] unfolding pollAWSScope_def by fastforce
  obtain e st2 where sl: "call_sleep api st1 = (e, st2)" by fastforce
  then have "az_log st2 = az_log st1" by (cases "api_sleep api (az_world st1)") (auto simp: call_sleep_def)
  then have slept: "logged is_describe st st2" using step by (simp add: logged_def)
  from less.prems p sl step slept less.IH show ?case
    by (subst (asm) sweep_polls.simps)
      (auto split: sum.splits if_splits nat.splits option.splits simp del: sweep_polls.simps intro: logged_trans)
qed

lemma logged_sweep: "SweepAWSScope api st = Some out \<Longrightarrow> logged is_describe st (snd out)"
  using logged_sweep_polls [of api AWSSweepMaxPolls st out]
  by (auto simp: SweepAWSScope_def simp del: sweep_polls.simps split: option.splits)

lemma check_is_plain: "checkAWSClaimHolder h = Some e \<Longrightarrow> se_is e = []"
  by (auto simp: checkAWSClaimHolder_def scope_errorf_def split: if_splits)

lemma with_ssm_cases:
  assumes "with_ssm api holders act st = (err, st')"
  obtains (refused) e where "err = Some e" "se_is e = []" "st' = st" | (asked) "act st = (err, st')"
proof (cases "filter (\<lambda>h. checkAWSClaimHolder h \<noteq> None) holders")
  case Nil
  with assms show ?thesis
    by (cases "ssm_fault api") (auto simp: with_ssm_def scope_errorf_def intro: refused asked)
next
  case (Cons h hs)
  then have "h \<in> set (filter (\<lambda>h. checkAWSClaimHolder h \<noteq> None) holders)" by simp
  then obtain e where e: "checkAWSClaimHolder h = Some e" by auto
  moreover from Cons assms have "err = checkAWSClaimHolder h" "st' = st" by (simp_all add: with_ssm_def)
  ultimately show ?thesis using refused check_is_plain [OF e] by simp
qed

lemma logged_delete: "call_delete api n st = (r, st1) \<Longrightarrow> az_log st1 = az_log st @ [Delete_Parameter n]"
  by (cases "api_delete api n (az_world st)") (auto simp: call_delete_def sent_call_def)

lemma release_log:
  assumes "ReleaseAWSClaim api holder st = (err, st')"
  shows "\<exists>calls. az_log st' = az_log st @ calls
     \<and> (if list_ex changes_claim calls then fst (getAWSParameter api AWSClaimParameter st) = Inr (Some holder) else err \<noteq> None)"
  using assms unfolding ReleaseAWSClaim_def
proof (cases rule: with_ssm_cases)
  case asked
  obtain g st1 where get: "getAWSParameter api AWSClaimParameter st = (g, st1)" by fastforce
  obtain de st2 where del: "call_delete api AWSClaimParameter st1 = (de, st2)" by fastforce
  show ?thesis
  proof (cases "g = Inr (Some holder)")
    case True
    with get_gate [OF get] logged_delete [OF del] asked get del have "az_log st' = az_log st @
        [Get_Parameter AWSClaimParameter, Delete_Parameter AWSClaimParameter]"
      by (auto simp: deleteAWSClaimHeldBy_def split: option.splits)
    with True get show ?thesis by auto
  next
    case False
    with get_gate [OF get] asked get have "az_log st' = az_log st @ [Get_Parameter AWSClaimParameter]" "err \<noteq> None"
      by (auto simp: deleteAWSClaimHeldBy_def split: sum.splits option.splits if_splits)
    then show ?thesis by auto
  qed
qed auto

lemma release_truth:
  assumes "ssm_lawful api val" "ReleaseAWSClaim api holder st = (err, st')"
  shows "claim_true holder (awsClaimAfterRelease err) (val (az_world st') AWSClaimParameter)"
  using assms(2) unfolding ReleaseAWSClaim_def
proof (cases rule: with_ssm_cases)
  case asked
  then show ?thesis by (rule release_is_true [OF assms(1)])
qed (simp add: awsClaimAfterRelease_def named_holder_def)

lemma no_change_described: "list_all is_describe calls \<Longrightarrow> \<not> list_ex changes_claim calls"
  by (induction calls) (auto elim: is_describe.elims)

lemma sweep_clean_empty:
  assumes "lists_scope api left" "SweepAWSScope api st = Some ((leaks, None), st')"
  shows "scope_empty (left (az_world st'))"
  using assms(2) sweep_polls_clean [of api AWSSweepMaxPolls st leaks st'] clean_poll_empty [OF assms(1)]
  by (auto simp: SweepAWSScope_def simp del: sweep_polls.simps split: option.splits)

text \<open>
  The claim, after \<open>calls\<close>: if a call may have changed it, then at a moment when the scope was empty and
  the claim was this process's.
\<close>

definition changed_when_empty :: "('w \<Rightarrow> string \<Rightarrow> string option) \<Rightarrow> 'w contents \<Rightarrow> string \<Rightarrow> aws_call list \<Rightarrow> bool" where
  "changed_when_empty val left holder calls \<longleftrightarrow>
     (if list_ex changes_claim calls
      then \<exists>w. scope_empty (left w) \<and> val w AWSClaimParameter = Some holder else True)"

lemma release_after_sweep:
  assumes scope: "lists_scope (ar_api ar) left" and law: "ssm_lawful (ar_api ar) val"
    and run: "awsReleaseAfterCleanSweep ar st = Some (rep, st')"
  shows "\<exists>calls. az_log st' = az_log st @ calls \<and> changed_when_empty val left (ar_holder ar) calls
     \<and> (if snd rep = [] then az_claim st' = awsClaimNotHeld \<and> val (az_world st') AWSClaimParameter = None
          \<and> list_ex changes_claim calls else True)"
proof -
  from run obtain leaks err st1 where sweep: "SweepAWSScope (ar_api ar) st = Some ((leaks, err), st1)"
    by (auto simp: awsReleaseAfterCleanSweep_def split: option.splits)
  from logged_sweep [OF sweep] obtain calls1 where
    swept: "az_log st1 = az_log st @ calls1" "list_all is_describe calls1" by (auto simp: logged_def)
  show ?thesis
  proof (cases err)
    case (Some e)
    with run sweep swept no_change_described show ?thesis
      by (auto simp: awsReleaseAfterCleanSweep_def changed_when_empty_def)
  next
    case None
    note empty = sweep_clean_empty [OF scope sweep [unfolded None]]
    obtain rerr st2 where rel: "ReleaseAWSClaim (ar_api ar) (ar_holder ar) st1 = (rerr, st2)" by fastforce
    from release_log [OF rel] obtain calls2 where
      released: "az_log st2 = az_log st1 @ calls2"
        "if list_ex changes_claim calls2 then fst (getAWSParameter (ar_api ar) AWSClaimParameter st1) = Inr (Some (ar_holder ar))
         else rerr \<noteq> None" by blast
    have st': "az_log st' = az_log st2" "az_world st' = az_world st2" "az_claim st' = awsClaimAfterRelease rerr"
      "snd rep = [] \<longleftrightarrow> rerr = None"
      using run sweep None rel by (auto simp: awsReleaseAfterCleanSweep_def Let_def split: option.splits)
    have "val (az_world st1) AWSClaimParameter = Some (ar_holder ar)" if "list_ex changes_claim calls2"
      using released(2) that lawful_get [OF law, of AWSClaimParameter st1]
      by (cases "getAWSParameter (ar_api ar) AWSClaimParameter st1") auto
    moreover have "\<not> list_ex changes_claim calls1" by (rule no_change_described [OF swept(2)])
    moreover have "val (az_world st') AWSClaimParameter = None" if "rerr = None"
      using release_truth [OF law rel] st' that by (simp add: awsClaimAfterRelease_def)
    ultimately show ?thesis using swept released st' empty
      by (intro exI [of _ "calls1 @ calls2"]) (auto simp: changed_when_empty_def awsClaimAfterRelease_def split: if_splits)
  qed
qed

text \<open>Some failure's detail ends with the command that reaps, for what the process knows of the claim.\<close>

definition names_reap :: "'v aws_run \<Rightarrow> aws_claim \<Rightarrow> report \<Rightarrow> bool" where
  "names_reap ar claim rep \<longleftrightarrow> list_ex (\<lambda>f. suffix (awsReapAdvice ar claim) (fs_detail f)) (snd rep)"

lemma kept_names_reap: "names_reap ar claim (awsScopeClaimKept ar claim rep reason)"
  by (auto simp: names_reap_def awsScopeClaimKept_def failing_def suffix_def)

lemma kept_fails: "snd (awsScopeClaimKept ar claim rep reason) \<noteq> []"
  by (simp add: awsScopeClaimKept_def)

lemma destroy_recorded_log:
  "destroy_recorded ar env st = (rep, st1) \<Longrightarrow> az_log st1 = az_log st \<and> az_claim st1 = az_claim st"
  by (auto simp: destroy_recorded_def Let_def split: if_splits prod.splits)

text \<open>A claim is settled when the report names the reap, or the claim is no longer this process's.\<close>

definition settled :: "('w \<Rightarrow> string \<Rightarrow> string option) \<Rightarrow> 'v aws_run \<Rightarrow> aws_claim \<Rightarrow> 'w \<Rightarrow> report \<Rightarrow> bool" where
  "settled val ar claim w rep \<longleftrightarrow>
     (if names_reap ar claim rep then True else val w AWSClaimParameter \<noteq> Some (ar_holder ar))"

lemma release_or_keep_settles:
  assumes "lists_scope (ar_api ar) left" "ssm_lawful (ar_api ar) val"
    and run: "release_or_keep ar rep st = Some (rep', st')"
  shows "\<exists>calls. az_log st' = az_log st @ calls \<and> changed_when_empty val left (ar_holder ar) calls
     \<and> settled val ar (az_claim st') (az_world st') rep'
     \<and> (if snd rep' = [] then val (az_world st') AWSClaimParameter = None \<and> list_ex changes_claim calls else True)"
proof -
  from run obtain released where rel: "awsReleaseAfterCleanSweep ar st = Some (released, st')"
    and rep': "rep' = (if snd released \<noteq> []
        then awsScopeClaimKept ar (az_claim st') (both rep released) ''the scope was not proven empty and released''
        else both rep released)"
    by (auto simp: release_or_keep_def split: option.splits)
  from release_after_sweep [OF assms(1,2) rel] obtain calls where
    "az_log st' = az_log st @ calls" "changed_when_empty val left (ar_holder ar) calls"
    "if snd released = [] then az_claim st' = awsClaimNotHeld \<and> val (az_world st') AWSClaimParameter = None
          \<and> list_ex changes_claim calls else True" by blast
  then show ?thesis
    by (intro exI [of _ calls]) (auto simp: rep' settled_def kept_names_reap kept_fails)
qed

lemma get_describes:
  "ReadAWSClaimHolder api st = (r, st1) \<Longrightarrow>
     \<exists>calls. az_log st1 = az_log st @ calls \<and> \<not> list_ex changes_claim calls"
  using claim_gate [of api st r st1] by (auto split: sum.splits option.splits)

lemma changed_append:
  "\<not> list_ex changes_claim calls \<Longrightarrow> changed_when_empty val left h (calls @ calls') = changed_when_empty val left h calls'"
  by (simp add: changed_when_empty_def)

lemma both_names: "names_reap ar c b \<Longrightarrow> names_reap ar c (both a b)"
  by (simp add: names_reap_def both_def)

lemma read_claim_true:
  assumes "ssm_lawful api val" "ReadAWSClaimHolder api st = (Inr current, st1)"
  shows "val (az_world st1) AWSClaimParameter = current"
proof -
  obtain g st2 where get: "getAWSParameter api AWSClaimParameter st = (g, st2)" by fastforce
  from lawful_get [OF assms(1) get] get assms(2) show ?thesis
    by (auto simp: ReadAWSClaimHolder_def split: option.splits sum.splits)
qed

text \<open>
  C17. A run that failed never walks away from the claim in silence. If one of its stages took the claim,
  its teardown either ends with the stored claim no longer the run's, or reports a failure whose detail
  ends in the reap command that fits what it knows. And the claim was deleted at all only at a moment
  when the whole scope was empty and the claim was this run's.
\<close>

theorem failed_run_settles_claim:
  assumes "lists_scope (ar_api ar) left" "ssm_lawful (ar_api ar) val"
    and "list_ex awsClaimTaken stages"
    and run: "awsRunFailureTeardown ar stages st = Some (rep, st')"
  shows "settled val ar (az_claim st') (az_world st') rep
    \<and> (\<exists>calls. az_log st' = az_log st @ calls \<and> changed_when_empty val left (ar_holder ar) calls)"
proof (cases "awsCommandEnvForAccount ar (ar_account ar)")
  case (Inl e)
  with run assms(3) show ?thesis
    by (auto simp: awsRunFailureTeardown_def settled_def kept_names_reap changed_when_empty_def)
next
  case (Inr env)
  obtain r st1 where read: "ReadAWSClaimHolder (ar_api ar) st = (r, st1)" by fastforce
  from get_describes [OF read] obtain calls where calls: "az_log st1 = az_log st @ calls" "\<not> list_ex changes_claim calls" by blast
  consider (failed) e where "r = Inl e" | (other) current where "r = Inr current" "current \<noteq> Some (ar_holder ar)"
    | (ours) "r = Inr (Some (ar_holder ar))" by (cases r) auto
  then show ?thesis
  proof cases
    case failed
    with run assms(3) Inr read calls show ?thesis
      by (auto simp: awsRunFailureTeardown_def settled_def kept_names_reap changed_when_empty_def)
  next
    case other
    with read read_claim_true [OF assms(2), of st current st1] have "val (az_world st1) AWSClaimParameter \<noteq> Some (ar_holder ar)"
      by simp
    with other run assms(3) Inr read calls show ?thesis
      by (auto simp: awsRunFailureTeardown_def settled_def changed_when_empty_def)
  next
    case ours
    obtain destroyed st2 where d: "destroy_recorded ar env (st1\<lparr>az_claim := awsClaimHeld\<rparr>) = (destroyed, st2)" by fastforce
    from ours run assms(3) Inr read d have keep: "release_or_keep ar destroyed st2 = Some (rep, st')"
      by (simp add: awsRunFailureTeardown_def awsDestroyAndRelease_def)
    from release_or_keep_settles [OF assms(1,2) keep] obtain calls2 where
      "az_log st' = az_log st2 @ calls2" "changed_when_empty val left (ar_holder ar) calls2"
      "settled val ar (az_claim st') (az_world st') rep" by blast
    with destroy_recorded_log [OF d] calls show ?thesis
      by (auto intro!: exI [of _ "calls @ calls2"] simp: changed_append)
  qed
qed

text \<open>
  An empty scope over \<open>lossy_ssm\<close>, and a run of it that recorded resources, now destroyed: the response
  to the release is lost.
\<close>

type_synonym scope = "(string \<rightharpoonup> string) \<times> bool"

definition on_api :: "('v \<Rightarrow> 'a \<times> 'v) \<Rightarrow> 'v world \<Rightarrow> 'a \<times> 'v world" where
  "on_api f w = (case f (w_api w) of (r, v) \<Rightarrow> (r, w\<lparr>w_api := v\<rparr>))"

definition scope_aws :: "scope world aws_api" where
  "scope_aws =
     \<lparr>api_put = (\<lambda>n v. on_api (api_put lossy_ssm n v)), api_get = (\<lambda>n. on_api (api_get lossy_ssm n)),
      api_delete = (\<lambda>n. on_api (api_delete lossy_ssm n)), api_page = (\<lambda>_ _ w. (Inr ([], None), w)),
      api_one = (\<lambda>_ _ w. (Inr [], w)), api_change = (\<lambda>_ _ _ w. (None, w)),
      api_identity = (\<lambda>w. (Inr (''123456789012'', ''arn:aws:iam::123456789012:user/if''), w)),
      api_sleep = (\<lambda>w. (None, w)), ssm_fault = None, ec2_fault = None, host_name = Inr ''box'',
      pid_exists = (\<lambda>_ _. False)\<rparr>"

definition scope_rt :: "scope runtime" where
  "scope_rt =
     \<lparr>doer = (\<lambda>_ w. (Inl (errorf ''no network''), w)), api_base = [], live_state = (\<lambda>_ _. File_Unreadable ''permission''),
      marker_fault = (\<lambda>_ _. None), print_body = (\<lambda>_. []),
      run_tofu = (\<lambda>_ w. (\<lparr>oc_err = None, oc_stdout = [], oc_stderr = [], oc_exit = 0\<rparr>, w)), lock_file = (\<lambda>_ _. Text_Missing),
      temp_fault = (\<lambda>_ _. None), abs_dir = (\<lambda>d. d), getenv = (\<lambda>_. []), scw_config_path = [],
      scw_config = File_Missing, cfg_region = [], cfg_zone = [], cfg_fallback_project = [], cfg_accounts = [],
      print_store_error = (\<lambda>_. []), has_run_project = False, has_auto_created = False\<rparr>"

definition scope_run :: "scope aws_run" where
  "scope_run =
     \<lparr>ar_rt = scope_rt, ar_api = scope_aws, ar_sts = None, ar_dir = ''out'', ar_config_path = [],
      ar_scenario_path = ''web.yaml'', ar_holder = ''r@box:7'', ar_actor = [], ar_region = ''eu-west-2'',
      ar_account = ''123456789012'', ar_key_arn = ''arn:aws:iam::123456789012:user/if'', ar_home = Inr ''/home/if'',
      ar_credentials = (\<lambda>_. Inr (''AKIA'', ''secret'')), ar_destruction = True, ar_hold_copy = (\<lambda>w. (None, w)),
      ar_copy_there = (\<lambda>_. False), ar_ended = (\<lambda>_. False)\<rparr>"

definition scope_params :: "scope world \<Rightarrow> string \<Rightarrow> string option" where
  "scope_params w = fst (w_api w)"

definition scope_world :: "scope world aws_world" where
  "scope_world =
     \<lparr>az_world = \<lparr>w_api = ([AWSClaimParameter \<mapsto> ''r@box:7'', AWSStampParameter \<mapsto> ''123456789012''], True),
        w_log = [], w_cmds = [], w_markers = (\<lambda>_. File_Missing)\<rparr>,
      az_log = [], az_claim = awsClaimHeld\<rparr>"

lemma scope_lists: "lists_scope scope_aws (\<lambda>_ _ _. [])"
  by (simp add: lists_scope_def scope_aws_def token_text_def)

lemma scope_lawful: "ssm_lawful scope_aws scope_params"
  by (auto simp: ssm_lawful_def scope_aws_def scope_params_def on_api_def lossy_ssm_def
      split: prod.splits option.splits if_splits)

lemma scope_page: "call_page scope_aws op token st = (Inr ([], None), st\<lparr>az_log := az_log st @ [Describe op token]\<rparr>)"
  by (simp add: call_page_def scope_aws_def sent_call_def)

lemma scope_pages:
  "awsPages scope_aws op None [] [] st = Some (Inr [], st\<lparr>az_log := az_log st @ [Describe op None]\<rparr>)"
  by (subst awsPages.simps) (simp add: scope_page token_text_def)

lemma scope_faults: "ec2_fault scope_aws = None" "ssm_fault scope_aws = None"
  by (simp_all add: scope_aws_def)

lemma scope_sweep:
  "\<exists>st'. SweepAWSScope scope_aws st = Some (([], None), st') \<and> az_world st' = az_world st"
  by (simp add: SweepAWSScope_def scope_faults sweep_polls.simps pollAWSScope_def AWSSweepCollections_def listers paged_def
      unpaged_def scope_pages scope_page kept_strays_def parameter_strays_def awsScopeSettling_def)

lemma scope_holder: "checkAWSClaimHolder ''r@box:7'' = None"
  by code_simp

lemma scope_env:
  "\<exists>env. awsCommandEnvForAccount scope_run (ar_account scope_run) = Inr env \<and> \<not> blank (env_get env ''AWS_ACCESS_KEY_ID'')"
proof -
  have "ValidAWSRegion ''eu-west-2''" by code_simp
  moreover have "\<not> blank ''eu-west-2''" by code_simp
  moreover have "\<not> blank ''123456789012''" by code_simp
  moreover have "\<not> blank ''arn:aws:iam::123456789012:user/if''" by code_simp
  moreover have "\<not> blank ''AKIA''" by code_simp
  ultimately show ?thesis
    by (simp add: awsCommandEnvForAccount_def awsLayer3Env_def AWSSealedEnv_def scope_run_def env_get_def)
qed

lemma scope_read:
  "fst (w_api (az_world st)) AWSClaimParameter = Some ''r@box:7'' \<Longrightarrow>
     getAWSParameter scope_aws AWSClaimParameter st
       = (Inr (Some ''r@box:7''), st\<lparr>az_log := az_log st @ [Get_Parameter AWSClaimParameter]\<rparr>)"
  by (cases "w_api (az_world st)")
    (simp add: getAWSParameter_def call_get_def scope_aws_def on_api_def lossy_ssm_def sent_call_def)

lemma scope_release:
  assumes "w_api (az_world st) = (m, True)" "m AWSClaimParameter = Some ''r@box:7''"
  shows "\<exists>e st'. ReleaseAWSClaim scope_aws ''r@box:7'' st = (Some e, st') \<and> awsClaimAfterRelease (Some e) = awsClaimUnknown
     \<and> w_api (az_world st') = (m(AWSClaimParameter := None), False)"
  using assms scope_read [of st]
  by (simp add: ReleaseAWSClaim_def with_ssm_def scope_holder scope_faults deleteAWSClaimHeldBy_def call_delete_def
      sent_call_def)
    (simp add: scope_aws_def on_api_def lossy_ssm_def scope_errorf_def awsClaimAfterRelease_def named_holder_def)

lemma scope_destroyed:
  assumes "\<not> blank (env_get env ''AWS_ACCESS_KEY_ID'')"
  shows "\<exists>rep st1. destroy_recorded scope_run env st = (rep, st1) \<and> w_api (az_world st1) = w_api (az_world st)"
  using assms
  by (simp add: destroy_recorded_def scope_run_def scope_rt_def liveStateMayHoldResources_def destroyAWSSandbox_def
      SandboxDestroy_Run_def run_command_def Let_def)

lemma scope_claimed:
  "w_api (az_world scope_world) = ([AWSClaimParameter \<mapsto> ''r@box:7'', AWSStampParameter \<mapsto> ''123456789012''], True)"
  "AWSClaimParameter \<noteq> AWSStampParameter"
  by (simp_all add: scope_world_def AWSClaimParameter_def AWSStampParameter_def)

theorem failed_run_settles_claim_witness:
  "case awsRunFailureTeardown scope_run [stage sandbox_deploy ''aws_scope_claim'' StageStatusPass []] scope_world of
     Some (rep, st') \<Rightarrow> settled scope_params scope_run (az_claim st') (az_world st') rep
       \<and> az_claim st' = awsClaimUnknown \<and> scope_params (az_world st') AWSClaimParameter = None
   | None \<Rightarrow> False"
proof -
  let ?stages = "[stage sandbox_deploy ''aws_scope_claim'' StageStatusPass []]"
  have api: "ar_api scope_run = scope_aws" and holder: "ar_holder scope_run = ''r@box:7''" by (simp_all add: scope_run_def)
  have taken: "list_ex awsClaimTaken ?stages" by (simp add: awsClaimTaken_def stage_def)
  obtain env where env: "awsCommandEnvForAccount scope_run (ar_account scope_run) = Inr env"
    "\<not> blank (env_get env ''AWS_ACCESS_KEY_ID'')" using scope_env by blast
  obtain st1 where read: "ReadAWSClaimHolder scope_aws scope_world = (Inr (Some ''r@box:7''), st1)"
    "w_api (az_world st1) = w_api (az_world scope_world)"
    using scope_read [of scope_world] by (simp add: ReadAWSClaimHolder_def scope_faults scope_holder scope_claimed)
  obtain destroyed st2 where d: "destroy_recorded scope_run env (st1\<lparr>az_claim := awsClaimHeld\<rparr>) = (destroyed, st2)"
    "w_api (az_world st2) = w_api (az_world st1)"
    using scope_destroyed [OF env(2), of "st1\<lparr>az_claim := awsClaimHeld\<rparr>"] by auto
  obtain st3 where sweep: "SweepAWSScope scope_aws st2 = Some (([], None), st3)" "az_world st3 = az_world st2"
    using scope_sweep by blast
  have "w_api (az_world st3) = ([AWSClaimParameter \<mapsto> ''r@box:7'', AWSStampParameter \<mapsto> ''123456789012''], True)"
    using sweep(2) d(2) read(2) by (simp add: scope_claimed)
  then obtain e st4 where rel: "ReleaseAWSClaim scope_aws ''r@box:7'' st3 = (Some e, st4)"
    "awsClaimAfterRelease (Some e) = awsClaimUnknown" "fst (w_api (az_world st4)) AWSClaimParameter = None"
    using scope_release [of st3 "[AWSClaimParameter \<mapsto> ''r@box:7'', AWSStampParameter \<mapsto> ''123456789012'']"] scope_claimed(2)
    by auto
  obtain rep st' where run: "awsRunFailureTeardown scope_run ?stages scope_world = Some (rep, st')"
    and fin: "az_claim st' = awsClaimUnknown" "scope_params (az_world st') AWSClaimParameter = None"
    using taken env(1) read d(1) sweep(1) rel
    by (simp add: awsRunFailureTeardown_def awsDestroyAndRelease_def release_or_keep_def awsReleaseAfterCleanSweep_def
        api holder scope_params_def)
  from failed_run_settles_claim [of scope_run "\<lambda>_ _ _. []" scope_params, OF _ _ taken run] scope_lists scope_lawful run fin
  show ?thesis by (simp add: api)
qed

subsection \<open>What a reap proves\<close>

fun asks :: "aws_call \<Rightarrow> bool" where
  "asks (Put_Parameter _ _) \<longleftrightarrow> False" | "asks (Delete_Parameter _) \<longleftrightarrow> False" | "asks (Change _ _ _) \<longleftrightarrow> False"
| "asks _ \<longleftrightarrow> True"

lemma logged_mono: "logged P st st' \<Longrightarrow> (\<And>c. P c \<Longrightarrow> Q c) \<Longrightarrow> logged Q st st'"
  by (auto simp: logged_def list_all_iff)

lemma describe_asks: "is_describe c \<Longrightarrow> asks c"
  by (cases c) auto

lemma verified_asks:
  "awsVerifiedEnv ar st = (r, st1) \<Longrightarrow> logged asks st st1"
proof (cases "awsLayer3Env ar")
  case (Inr env)
  obtain e st2 where v: "VerifyAWSIdentity (ar_api ar) (ar_sts ar) (ar_account ar) (ar_key_arn ar) st = (e, st2)" by fastforce
  assume "awsVerifiedEnv ar st = (r, st1)"
  with Inr v have "st1 = st2" by (auto simp: awsVerifiedEnv_def split: option.splits)
  with identity_gate [OF v] show ?thesis by (auto simp: logged_def split: option.splits)
qed (auto simp: awsVerifiedEnv_def)

lemma stamp_asks: "AssertAWSScopeStamp api account st = (r, st1) \<Longrightarrow> logged asks st st1"
  by (drule stamp_gate) (auto simp: logged_def split: option.splits)

text \<open>
  A reap that succeeds has proven the scope empty. If the command reports no error, then a sweep found
  the scope to hold nothing but what the sweep excuses: after \<^verbatim>\<open>--dry-run\<close> that is the scope as it is
  left, and nothing but questions were asked; otherwise the claim was the reap's own at that moment,
  and no claim is stored at the end.
\<close>

theorem reap_success_is_empty:
  assumes "lists_scope (ar_api ar) left" "ssm_lawful (ar_api ar) val"
    and run: "runAWSReap ar takeOver dryRun stamp pid st = Some ((None, rep), st')"
  shows "if dryRun then scope_empty (left (az_world st')) \<and> logged asks st st'
    else val (az_world st') AWSClaimParameter = None
      \<and> (\<exists>w holder. scope_empty (left w) \<and> NewAWSClaimHolder (ar_api ar) (''reap-'' @ stamp) pid = Inr holder
           \<and> val w AWSClaimParameter = Some holder)"
proof -
  obtain v st1 where v: "awsVerifiedEnv ar st = (Inr v, st1)"
    using run by (cases "awsVerifiedEnv ar st"; cases "fst (awsVerifiedEnv ar st)") (auto simp: runAWSReap_def)
  obtain env where env: "awsCommandEnvForAccount ar (ar_account ar) = Inr env"
    using run v by (cases "awsCommandEnvForAccount ar (ar_account ar)") (auto simp: runAWSReap_def)
  obtain st2 where st2: "AssertAWSScopeStamp (ar_api ar) (ar_account ar) st1 = (None, st2)"
    using run v env by (cases "AssertAWSScopeStamp (ar_api ar) (ar_account ar) st1";
        cases "fst (AssertAWSScopeStamp (ar_api ar) (ar_account ar) st1)") (auto simp: runAWSReap_def)
  show ?thesis
  proof (cases dryRun)
    case True
    from run v env st2 True obtain leaks where sweep: "SweepAWSScope (ar_api ar) st2 = Some ((leaks, None), st')"
      by (auto simp: runAWSReap_def split: option.splits)
    have "logged asks st2 st'" using logged_mono [OF logged_sweep [OF sweep] describe_asks] by simp
    with True sweep_clean_empty [OF assms(1) sweep] logged_trans [OF verified_asks [OF v] logged_trans [OF stamp_asks [OF st2]]]
    show ?thesis by simp
  next
    case False
    from run v env st2 False obtain holder where holder: "NewAWSClaimHolder (ar_api ar) (''reap-'' @ stamp) pid = Inr holder"
      by (auto simp: runAWSReap_def split: sum.splits)
    let ?ar = "ar\<lparr>ar_holder := holder, ar_actor := awsActorReap\<rparr>"
    from run v env st2 False holder obtain st3 where claim: "claimAWSScopeForReap ?ar takeOver st2 = (None, st3)"
      by (cases "claimAWSScopeForReap ?ar takeOver st2"; cases "fst (claimAWSScopeForReap ?ar takeOver st2)")
        (auto simp: runAWSReap_def)
    from run v env st2 False holder claim have reap:
      "reapClaimedAWSScope ?ar env (st3\<lparr>az_claim := awsClaimHeld\<rparr>) = Some (rep, st')" "snd rep = []"
      by (auto simp: runAWSReap_def split: if_splits)
    obtain destroyed st4 where d: "destroy_recorded ?ar env (st3\<lparr>az_claim := awsClaimHeld\<rparr>) = (destroyed, st4)" by fastforce
    from reap(1) d obtain leaks err st5 where sw: "SweepAWSScope (ar_api ar) st4 = Some ((leaks, err), st5)"
      by (auto simp: reapClaimedAWSScope_def split: option.splits)
    obtain reaped st6 where rf: "reap_findings ?ar leaks st5 = (reaped, st6)" by fastforce
    from reap(1) d sw rf obtain rep0 where keep: "release_or_keep ?ar rep0 st6 = Some (rep, st')"
      by (auto simp: reapClaimedAWSScope_def)
    from release_or_keep_settles [where left = left and val = val, OF _ _ keep] assms(1,2) reap(2) have
      "val (az_world st') AWSClaimParameter = None" "\<exists>w. scope_empty (left w) \<and> val w AWSClaimParameter = Some holder"
      by (auto simp: changed_when_empty_def)
    with False holder show ?thesis by auto
  qed
qed

text \<open>A stamped scope that no one claims, reaped after a run that left its state behind; the response to the take is lost.\<close>

definition stamped_world :: "scope world aws_world" where
  "stamped_world =
     \<lparr>az_world = \<lparr>w_api = ([AWSStampParameter \<mapsto> ''123456789012''], True), w_log = [], w_cmds = [],
        w_markers = (\<lambda>_. File_Missing)\<rparr>,
      az_log = [], az_claim = awsClaimUnknown\<rparr>"

definition reap_holder :: string where "reap_holder = ''reap-20260101T000000Z@box:9''"

lemma reap_holder_new: "NewAWSClaimHolder scope_aws (''reap-'' @ ''20260101T000000Z'') 9 = Inr reap_holder"
proof -
  have "checkAWSClaimHolder ''reap-20260101T000000Z@box:9'' = None" by code_simp
  moreover have "itoa 9 = ''9''" by code_simp
  ultimately show ?thesis by (simp add: NewAWSClaimHolder_def scope_aws_def reap_holder_def)
qed

lemma reap_holder_ok: "checkAWSClaimHolder reap_holder = None"
  by code_simp

lemma scope_identity:
  "call_identity scope_aws st = (Inr (''123456789012'', ''arn:aws:iam::123456789012:user/if''),
     st\<lparr>az_log := az_log st @ [Get_Identity]\<rparr>)"
  by (simp add: call_identity_def scope_aws_def sent_call_def)

lemma scope_get:
  "getAWSParameter scope_aws n st = (Inr (fst (w_api (az_world st)) n), st\<lparr>az_log := az_log st @ [Get_Parameter n]\<rparr>)"
  by (cases "w_api (az_world st)")
    (auto simp: getAWSParameter_def call_get_def scope_aws_def on_api_def lossy_ssm_def sent_call_def split: option.splits)

lemma scope_take:
  assumes "w_api (az_world st) = (m, True)" "m AWSClaimParameter = None"
  shows "\<exists>st'. TakeAWSClaim scope_aws reap_holder st = (None, st') \<and> w_api (az_world st') = (m(AWSClaimParameter \<mapsto> reap_holder), False)"
proof -
  have "\<exists>e st1. call_put scope_aws AWSClaimParameter reap_holder st = (Some e, st1)
      \<and> w_api (az_world st1) = (m(AWSClaimParameter \<mapsto> reap_holder), False)"
    using assms by (simp add: call_put_def scope_aws_def on_api_def lossy_ssm_def sent_call_def)
  then obtain e st1 where "call_put scope_aws AWSClaimParameter reap_holder st = (Some e, st1)"
    "w_api (az_world st1) = (m(AWSClaimParameter \<mapsto> reap_holder), False)" by blast
  then show ?thesis
    by (simp add: TakeAWSClaim_def with_ssm_def reap_holder_ok scope_faults takeAWSClaim_def scope_get)
qed

lemma scope_let_go:
  assumes "w_api (az_world st) = (m, False)" "m AWSClaimParameter = Some reap_holder"
  shows "\<exists>st'. ReleaseAWSClaim scope_aws reap_holder st = (None, st') \<and> w_api (az_world st') = (m(AWSClaimParameter := None), True)"
  using assms
  by (simp add: ReleaseAWSClaim_def with_ssm_def reap_holder_ok scope_faults deleteAWSClaimHeldBy_def scope_get call_delete_def
      sent_call_def)
    (simp add: scope_aws_def on_api_def lossy_ssm_def)

lemma scope_destroyed_as:
  assumes "\<not> blank (env_get env ''AWS_ACCESS_KEY_ID'')"
  shows "\<exists>rep st1. destroy_recorded (scope_run\<lparr>ar_holder := h, ar_actor := a\<rparr>) env st = (rep, st1) \<and> snd rep = []
     \<and> w_api (az_world st1) = w_api (az_world st)"
  using assms
  by (simp add: destroy_recorded_def scope_run_def scope_rt_def liveStateMayHoldResources_def destroyAWSSandbox_def
      SandboxDestroy_Run_def run_command_def Let_def appendSandboxDestroyResult_def)

theorem reap_success_is_empty_witness:
  "case runAWSReap scope_run [] False ''20260101T000000Z'' 9 stamped_world of
     Some ((None, _), st') \<Rightarrow> scope_params (az_world st') AWSClaimParameter = None
   | _ \<Rightarrow> False"
proof -
  let ?ar = "scope_run\<lparr>ar_holder := reap_holder, ar_actor := awsActorReap\<rparr>"
  have api: "ar_api scope_run = scope_aws" "ar_sts scope_run = None" "ar_account scope_run = ''123456789012''"
    "ar_key_arn scope_run = ''arn:aws:iam::123456789012:user/if''" by (simp_all add: scope_run_def)
  obtain env where env: "awsCommandEnvForAccount scope_run (ar_account scope_run) = Inr env"
    "\<not> blank (env_get env ''AWS_ACCESS_KEY_ID'')" using scope_env by blast
  then have layer: "awsLayer3Env scope_run = Inr env"
    by (auto simp: awsCommandEnvForAccount_def split: if_splits)
  let ?m = "[AWSStampParameter \<mapsto> ''123456789012'']"
  obtain st1 where v: "awsVerifiedEnv scope_run stamped_world = (Inr env, st1)" "w_api (az_world st1) = (?m, True)"
    by (simp add: awsVerifiedEnv_def layer VerifyAWSIdentity_def api scope_identity) (simp add: stamped_world_def)
  obtain st2 where s: "AssertAWSScopeStamp scope_aws ''123456789012'' st1 = (None, st2)" "w_api (az_world st2) = (?m, True)"
    using v(2) by (simp add: AssertAWSScopeStamp_def scope_faults scope_get)
  have absent: "?m AWSClaimParameter = None" using scope_claimed(2) by simp
  have read: "ReadAWSClaimHolder scope_aws st2 = (Inr None, st2\<lparr>az_log := az_log st2 @ [Get_Parameter AWSClaimParameter]\<rparr>)"
    using s(2) absent by (simp add: ReadAWSClaimHolder_def scope_faults scope_get)
  obtain st3 where t: "TakeAWSClaim scope_aws reap_holder (st2\<lparr>az_log := az_log st2 @ [Get_Parameter AWSClaimParameter]\<rparr>) = (None, st3)"
    "w_api (az_world st3) = (?m(AWSClaimParameter \<mapsto> reap_holder), False)"
    using scope_take [of "st2\<lparr>az_log := az_log st2 @ [Get_Parameter AWSClaimParameter]\<rparr>" ?m] s(2) absent by auto
  obtain rep4 st4 where d: "destroy_recorded ?ar env (st3\<lparr>az_claim := awsClaimHeld\<rparr>) = (rep4, st4)" "snd rep4 = []"
    "w_api (az_world st4) = w_api (az_world st3)"
    using scope_destroyed_as [OF env(2), where h = reap_holder and a = awsActorReap and st = "st3\<lparr>az_claim := awsClaimHeld\<rparr>"] by auto
  obtain st5 where w5: "SweepAWSScope scope_aws st4 = Some (([], None), st5)" "az_world st5 = az_world st4"
    using scope_sweep by blast
  obtain st6 where w6: "SweepAWSScope scope_aws st5 = Some (([], None), st6)" "az_world st6 = az_world st5"
    using scope_sweep by blast
  obtain st7 where r: "ReleaseAWSClaim scope_aws reap_holder st6 = (None, st7)"
    using scope_let_go [of st6 "?m(AWSClaimParameter \<mapsto> reap_holder)"] w6(2) w5(2) d(3) t(2) by auto
  obtain rep st' where run: "runAWSReap scope_run [] False ''20260101T000000Z'' 9 stamped_world = Some ((None, rep), st')"
    using v(1) env(1) s(1) read t(1) d(1,2) w5(1) w6(1) r reap_holder_new
    by (simp add: runAWSReap_def claimAWSScopeForReap_def awsReapTakeFailure_def reapClaimedAWSScope_def reap_findings_def
        release_or_keep_def awsReleaseAfterCleanSweep_def both_def api)
  from reap_success_is_empty [of scope_run "\<lambda>_ _ _. []" scope_params, OF _ _ run] scope_lists scope_lawful run
  show ?thesis by (simp add: api)
qed

subsection \<open>What a claim proves before an apply\<close>

lemma take_truth:
  assumes "ssm_lawful api val" "TakeAWSClaim api holder st = (err, st')"
  shows "if err = None then val (az_world st') AWSClaimParameter = Some holder else True"
  using assms(2) unfolding TakeAWSClaim_def
proof (cases rule: with_ssm_cases)
  case asked
  from take_is_true [OF assms(1) asked] show ?thesis by (auto simp: awsClaimAfterTake_def)
qed simp

text \<open>
  Nothing is applied without the claim. The claim step hands out the account exactly when the claim
  may now be this process's: it then knows it held, or does not know and says so in a failure. Without a
  failure, the stamp held the configured account when it was read, and the claim is stored under
  this process's name.
\<close>

theorem claim_before_apply:
  assumes "ssm_lawful (ar_api ar) val" "ensureAWSScopeClaim ar st = Some ((account, rep), st')"
  shows "(if account = [] then snd rep \<noteq> []
     else account = ar_account ar \<and> (if snd rep = [] then az_claim st' = awsClaimHeld else az_claim st' = awsClaimUnknown))
    \<and> (if snd rep = []
       then fst (getAWSParameter (ar_api ar) AWSStampParameter st) = Inr (Some account)
         \<and> val (az_world st') AWSClaimParameter = Some (ar_holder ar)
       else True)"
proof -
  let ?st = "if az_claim st \<noteq> awsClaimHeld then st\<lparr>az_claim := awsClaimNotHeld\<rparr> else st"
  show ?thesis
  proof (cases "awsLayer3Env ar")
    case (Inl e)
    with assms(2) show ?thesis by (auto simp: ensureAWSScopeClaim_def awsScopeClaimFailed_def)
  next
    case (Inr env)
    obtain s st1 where stamp: "AssertAWSScopeStamp (ar_api ar) (ar_account ar) ?st = (s, st1)" by fastforce
    show ?thesis
    proof (cases s)
      case (Some e)
      with assms(2) Inr stamp show ?thesis by (auto simp: ensureAWSScopeClaim_def awsScopeClaimFailed_def Let_def)
    next
      case None
      obtain g st0 where get: "getAWSParameter (ar_api ar) AWSStampParameter ?st = (g, st0)" by fastforce
      from stamp None have ne: "ar_account ar \<noteq> []" by (auto simp: AssertAWSScopeStamp_def)
      from stamp get None have g: "g = Inr (Some (ar_account ar))"
        by (auto simp: AssertAWSScopeStamp_def split: if_splits option.splits sum.splits)
      from assms(2) Inr stamp None obtain d st2 where vpc: "AssertNoAWSDefaultVPC (ar_api ar) st1 = Some (d, st2)"
        by (auto simp: ensureAWSScopeClaim_def Let_def split: option.splits)
      have same: "fst (getAWSParameter (ar_api ar) AWSStampParameter ?st) = fst (getAWSParameter (ar_api ar) AWSStampParameter st)"
        by (cases "api_get (ar_api ar) AWSStampParameter (az_world st)")
          (simp add: getAWSParameter_def call_get_def sent_call_def split: sum.split option.split)
      obtain err st3 where take: "TakeAWSClaim (ar_api ar) (ar_holder ar) st2 = (err, st3)" by fastforce
      show ?thesis
      proof (cases d)
        case (Some e)
        with assms(2) Inr stamp None vpc show ?thesis by (auto simp: ensureAWSScopeClaim_def awsScopeClaimFailed_def Let_def)
      next
        case clear: None
        from assms(2) Inr stamp None vpc clear take have
          "((account, rep), st') = (case err of
             None \<Rightarrow> ((ar_account ar, [stage sandbox_deploy ''aws_scope_claim'' StageStatusPass
               (''claimed the configured account for '' @ ar_holder ar
                 @ '' after checking its stamp and that it has no default VPC'')], []), st3\<lparr>az_claim := awsClaimAfterTake err\<rparr>)
           | Some e \<Rightarrow> (awsScopeClaimFailed (if ErrAWSClaimOutcomeUnknown \<in> set (se_is e) then ar_account ar else []) ''claim'' (se_text e),
               st3\<lparr>az_claim := awsClaimAfterTake err\<rparr>))"
          by (auto simp: ensureAWSScopeClaim_def Let_def split: option.splits)
        with take_truth [OF assms(1) take] ne g get same show ?thesis
          by (auto simp: awsScopeClaimFailed_def awsClaimAfterTake_def split: option.splits if_splits)
      qed
    qed
  qed
qed

theorem claim_before_apply_witness:
  "case ensureAWSScopeClaim (scope_run\<lparr>ar_holder := reap_holder\<rparr>) stamped_world of
     Some ((account, rep), st') \<Rightarrow> snd rep = [] \<and> scope_params (az_world st') AWSClaimParameter = Some reap_holder
   | None \<Rightarrow> False"
proof -
  let ?ar = "scope_run\<lparr>ar_holder := reap_holder\<rparr>"
  let ?m = "[AWSStampParameter \<mapsto> ''123456789012'']"
  have api: "ar_api scope_run = scope_aws" "ar_account scope_run = ''123456789012''" by (simp_all add: scope_run_def)
  obtain env where env: "awsCommandEnvForAccount scope_run (ar_account scope_run) = Inr env" using scope_env by blast
  then have "awsLayer3Env scope_run = Inr env" by (auto simp: awsCommandEnvForAccount_def split: if_splits)
  moreover have "awsLayer3Env ?ar = awsLayer3Env scope_run" by (simp add: awsLayer3Env_def AWSSealedEnv_def cong: sum.case_cong list.case_cong)
  ultimately have layer: "awsLayer3Env ?ar = Inr env" by simp
  let ?st = "stamped_world\<lparr>az_claim := awsClaimNotHeld\<rparr>"
  have start: "w_api (az_world stamped_world) = (?m, True)" "az_claim stamped_world = awsClaimUnknown"
    by (simp_all add: stamped_world_def)
  obtain st1 where s: "AssertAWSScopeStamp scope_aws ''123456789012'' ?st = (None, st1)" "w_api (az_world st1) = (?m, True)"
    using start by (simp add: AssertAWSScopeStamp_def scope_faults scope_get)
  obtain st2 where v: "AssertNoAWSDefaultVPC scope_aws st1 = Some (None, st2)" "az_world st2 = az_world st1"
    by (simp add: AssertNoAWSDefaultVPC_def scope_faults vpc_pages.simps scope_page token_text_def)
  have absent: "?m AWSClaimParameter = None" using scope_claimed(2) by simp
  obtain st3 where t: "TakeAWSClaim scope_aws reap_holder st2 = (None, st3)"
    using scope_take [of st2 ?m] v(2) s(2) absent by auto
  obtain account rep st' where run: "ensureAWSScopeClaim ?ar stamped_world = Some ((account, rep), st')" "snd rep = []"
    using layer s(1) v(1) t start by (simp add: ensureAWSScopeClaim_def api)
  from claim_before_apply [of ?ar scope_params, OF _ run(1)] scope_lawful run show ?thesis by (simp add: api)
qed

end
