(* ===== verification/Claim_Protocol.thy ===== *)
theory Claim_Protocol
  imports Aws_Scope
begin

text \<open>
  Several processes and one claim: the requests of \<^verbatim>\<open>takeAWSClaim\<close>, \<^verbatim>\<open>deleteAWSClaimHeldBy\<close> and
  \<^verbatim>\<open>TakeOverAWSClaim\<close> (\<^verbatim>\<open>harness/aws_scope.go\<close>) as steps of a transition relation over the stored value and
  every process's phase, in any interleaving. A request takes effect before its response or not at all,
  and the response may be lost.

  SSM has no conditional delete, so a release and a take-over read the value and then delete whatever
  is stored. The code rests on its operator for the rest: a take-over only from a process that has
  ended, one take-over at a time. Both are rules the relation takes, so that what they are worth can be
  proved.
\<close>

subsection \<open>The steps\<close>

datatype phase =
    Outside
  | Putting                      \<comment> \<open>about to send the put\<close>
  | Asking                       \<comment> \<open>the put failed: about to read the value stay\<close>
  | Holding
  | Unsure
  | Denied
  | Checking                     \<comment> \<open>releasing: about to read the value\<close>
  | Letting_Go                   \<comment> \<open>releasing: read its own name, about to delete\<close>
  | Confirming string            \<comment> \<open>taking over: about to read the value\<close>
  | Ousting string               \<comment> \<open>taking over: read that name, about to delete\<close>
  | Ended

record claims =
  cs_value :: "string option"
  cs_phase :: "string \<Rightarrow> phase"

record claim_rules =
  ru_serial :: bool \<comment> \<open>one take-over at a time\<close>
  ru_ended :: bool \<comment> \<open>a take-over only from a process that has ended\<close>

fun taking_over :: "phase \<Rightarrow> bool" where
  "taking_over (Confirming _) \<longleftrightarrow> True" | "taking_over (Ousting _) \<longleftrightarrow> True" | "taking_over _ \<longleftrightarrow> False"

definition enter :: "string \<Rightarrow> phase \<Rightarrow> claims \<Rightarrow> claims" where
  "enter h ph s = s\<lparr>cs_phase := (cs_phase s)(h := ph)\<rparr>"

definition stores :: "string option \<Rightarrow> claims \<Rightarrow> claims" where
  "stores v s = s\<lparr>cs_value := v\<rparr>"

text \<open>What the value read says to the process \<open>h\<close> that reads it after a failed put.\<close>

definition answered :: "string \<Rightarrow> string option \<Rightarrow> phase" where
  "answered h v = (case v of None \<Rightarrow> Outside | Some k \<Rightarrow> if k = h then Holding else Denied)"

inductive claim_step :: "claim_rules \<Rightarrow> claims \<Rightarrow> claims \<Rightarrow> bool" for ru where
  take: "cs_phase s h = Outside \<Longrightarrow> claim_step ru s (enter h Putting s)"
| put_done: "cs_phase s h = Putting \<Longrightarrow> cs_value s = None \<Longrightarrow> ph \<in> {Holding, Asking} \<Longrightarrow>
    claim_step ru s (enter h ph (stores (Some h) s))"
| put_failed: "cs_phase s h = Putting \<Longrightarrow> claim_step ru s (enter h Asking s)"
| ask: "cs_phase s h \<in> {Asking, Unsure} \<Longrightarrow> claim_step ru s (enter h (answered h (cs_value s)) s)"
| ask_failed: "cs_phase s h = Asking \<Longrightarrow> claim_step ru s (enter h Unsure s)"
| release: "cs_phase s h = Holding \<Longrightarrow> claim_step ru s (enter h Checking s)"
| check: "cs_phase s h = Checking \<Longrightarrow>
    claim_step ru s (enter h (if cs_value s = Some h then Letting_Go else answered h (cs_value s)) s)"
| check_failed: "cs_phase s h = Checking \<Longrightarrow> claim_step ru s (enter h Unsure s)"
| delete_done: "cs_phase s h = Letting_Go \<Longrightarrow> ph \<in> {Outside, Unsure} \<Longrightarrow> claim_step ru s (enter h ph (stores None s))"
| delete_failed: "cs_phase s h = Letting_Go \<Longrightarrow> claim_step ru s (enter h Unsure s)"
| take_over: "cs_phase s h = Outside \<Longrightarrow> p \<noteq> h \<Longrightarrow> (if ru_ended ru then cs_phase s p = Ended else True) \<Longrightarrow>
    (if ru_serial ru then \<forall>k. \<not> taking_over (cs_phase s k) else True) \<Longrightarrow> claim_step ru s (enter h (Confirming p) s)"
| confirm: "cs_phase s h = Confirming p \<Longrightarrow>
    claim_step ru s (enter h (if cs_value s = Some p then Ousting p else if cs_value s = None then Outside else Denied) s)"
| confirm_failed: "cs_phase s h = Confirming p \<Longrightarrow> claim_step ru s (enter h Outside s)"
| oust: "cs_phase s h = Ousting p \<Longrightarrow> ph \<in> {Putting, Outside} \<Longrightarrow> claim_step ru s (enter h ph (stores None s))"
| oust_failed: "cs_phase s h = Ousting p \<Longrightarrow> claim_step ru s (enter h Outside s)"
| ends: "claim_step ru s (enter h Ended s)"

inductive_cases claim_stepE: "claim_step ru s s'"

definition claim_start :: claims where
  "claim_start = \<lparr>cs_value = None, cs_phase = (\<lambda>_. Outside)\<rparr>"

definition claim_reaches :: "claim_rules \<Rightarrow> claims \<Rightarrow> claims \<Rightarrow> bool" where
  "claim_reaches ru = (claim_step ru)\<^sup>*\<^sup>*"

subsection \<open>At most one holder\<close>

text \<open>What a phase relies on: the stored value, or another process having ended.\<close>

fun relies :: "string \<Rightarrow> phase \<Rightarrow> claims \<Rightarrow> bool" where
  "relies h Holding s \<longleftrightarrow> cs_value s = Some h"
| "relies h Checking s \<longleftrightarrow> cs_value s = Some h"
| "relies h Letting_Go s \<longleftrightarrow> cs_value s = Some h"
| "relies h (Confirming p) s \<longleftrightarrow> cs_phase s p = Ended"
| "relies h (Ousting p) s \<longleftrightarrow> cs_phase s p = Ended \<and> cs_value s = Some p"
| "relies h _ s \<longleftrightarrow> True"

lemmas step_simps = enter_def stores_def answered_def

definition claim_inv :: "claims \<Rightarrow> bool" where
  "claim_inv s \<longleftrightarrow>
     (\<forall>h. relies h (cs_phase s h) s)
     \<and> (\<forall>h k. taking_over (cs_phase s h) \<and> taking_over (cs_phase s k) \<longrightarrow> h = k)"

lemma relies_phase:
  assumes "relies k q s" "if cs_phase s h = Ended then ph = Ended else True"
  shows "relies k q (enter h ph s)"
  using assms by (cases q) (auto simp: enter_def)

lemma relies_value: "relies k q s \<Longrightarrow> q \<notin> {Holding, Checking, Letting_Go} \<Longrightarrow> (\<And>p. q \<noteq> Ousting p) \<Longrightarrow> relies k q (stores v s)"
  by (cases q) (auto simp: stores_def)

text \<open>A process moves: what it moves to holds, and it does not come back from its end.\<close>

lemma inv_enter:
  assumes inv: "claim_inv s" and ph: "relies h ph (enter h ph s)"
    and stay: "if cs_phase s h = Ended then ph = Ended else True"
    and one: "if taking_over ph then taking_over (cs_phase s h) \<or> (\<forall>k. \<not> taking_over (cs_phase s k)) else True"
  shows "claim_inv (enter h ph s)"
proof -
  have "relies k (cs_phase (enter h ph s) k) (enter h ph s)" for k
    using ph relies_phase [OF _ stay, of k "cs_phase s k"] inv by (cases "k = h") (auto simp: claim_inv_def enter_def)
  moreover have "j = k" if "taking_over (cs_phase (enter h ph s) j)" "taking_over (cs_phase (enter h ph s) k)" for j k
    using that inv one by (auto simp: claim_inv_def enter_def split: if_splits)
  ultimately show ?thesis by (simp add: claim_inv_def)
qed

text \<open>The value changes: no other process relies on it.\<close>

definition value_free :: "string \<Rightarrow> claims \<Rightarrow> bool" where
  "value_free h s \<longleftrightarrow> (\<forall>k. k \<noteq> h \<longrightarrow> cs_phase s k \<notin> {Holding, Checking, Letting_Go} \<and> (\<forall>p. cs_phase s k \<noteq> Ousting p))"

lemma inv_stores:
  assumes inv: "claim_inv s" and free: "value_free h s" and ph: "relies h ph (enter h ph (stores v s))"
    and stay: "cs_phase s h \<noteq> Ended" and one: "\<not> taking_over ph"
  shows "claim_inv (enter h ph (stores v s))"
proof -
  have "relies k (cs_phase (enter h ph (stores v s)) k) (enter h ph (stores v s))" for k
  proof (cases "k = h")
    case True
    with ph show ?thesis by (simp add: enter_def)
  next
    case False
    have "relies k (cs_phase s k) (stores v s)"
      using inv free False by (intro relies_value) (auto simp: claim_inv_def value_free_def)
    then have "relies k (cs_phase s k) (enter h ph (stores v s))"
      by (rule relies_phase) (use stay in \<open>simp add: stores_def\<close>)
    with False show ?thesis by (simp add: enter_def stores_def)
  qed
  moreover have "j = k" if "taking_over (cs_phase (enter h ph (stores v s)) j)" "taking_over (cs_phase (enter h ph (stores v s)) k)" for j k
    using that inv one by (auto simp: claim_inv_def enter_def stores_def split: if_splits)
  ultimately show ?thesis by (simp add: claim_inv_def)
qed

lemma inv_relies:
  assumes "claim_inv s"
  shows "cs_phase s k \<in> {Holding, Checking, Letting_Go} \<Longrightarrow> cs_value s = Some k"
    and "cs_phase s k = Ousting p \<Longrightarrow> cs_phase s p = Ended \<and> cs_value s = Some p"
  using assms unfolding claim_inv_def by (auto dest: spec [of _ k])

lemma inv_one: "claim_inv s \<Longrightarrow> taking_over (cs_phase s h) \<Longrightarrow> taking_over (cs_phase s k) \<Longrightarrow> h = k"
  by (simp add: claim_inv_def)

lemma value_freeI:
  assumes inv: "claim_inv s"
    and held: "\<And>k. k \<noteq> h \<Longrightarrow> cs_phase s k \<in> {Holding, Checking, Letting_Go} \<Longrightarrow> cs_value s = Some k \<Longrightarrow> False"
    and ousted: "\<And>k p. k \<noteq> h \<Longrightarrow> cs_phase s k = Ousting p \<Longrightarrow> cs_phase s p = Ended \<Longrightarrow> cs_value s = Some p \<Longrightarrow> False"
  shows "value_free h s"
  unfolding value_free_def
proof (intro allI impI conjI notI)
  fix k assume "k \<noteq> h" "cs_phase s k \<in> {Holding, Checking, Letting_Go}"
  with held inv_relies(1) [OF inv, of k] show False by blast
next
  fix k p assume "k \<noteq> h" "cs_phase s k = Ousting p"
  with ousted inv_relies(2) [OF inv, of k p] show False by blast
qed

lemma absent_free: "claim_inv s \<Longrightarrow> cs_value s = None \<Longrightarrow> value_free h s"
  by (rule value_freeI) simp_all

lemma held_free:
  assumes inv: "claim_inv s" and here: "cs_phase s h = Letting_Go"
  shows "value_free h s"
proof -
  have "cs_value s = Some h" using inv_relies(1) [OF inv, of h] here by simp
  with here show ?thesis by (intro value_freeI [OF inv]) simp_all
qed

lemma ousted_free:
  assumes inv: "claim_inv s" and here: "cs_phase s h = Ousting p"
  shows "value_free h s"
proof (rule value_freeI [OF inv])
  fix k assume "k \<noteq> h" "cs_phase s k \<in> {Holding, Checking, Letting_Go}" "cs_value s = Some k"
  with inv_relies(2) [OF inv here] show False by auto
next
  fix k p' assume "k \<noteq> h" "cs_phase s k = Ousting p'"
  with inv_one [OF inv, of h k] here show False by simp
qed

lemma answered_relies: "relies h (answered h (cs_value s)) (enter h ph s)" "\<not> taking_over (answered h v)"
  by (auto simp: answered_def enter_def split: option.splits)

lemma claim_inv_step:
  assumes inv: "claim_inv s" and rules: "ru_serial ru" "ru_ended ru" and step: "claim_step ru s s'"
  shows "claim_inv s'"
  using step
proof (cases rule: claim_step.cases)
  case (put_done h ph)
  have "claim_inv (enter h ph (stores (Some h) s))"
    by (rule inv_stores [OF inv absent_free [OF inv put_done(3)]]) (use put_done in \<open>auto simp: enter_def stores_def\<close>)
  with put_done show ?thesis by simp
next
  case (delete_done h ph)
  have "claim_inv (enter h ph (stores None s))"
    by (rule inv_stores [OF inv held_free [OF inv delete_done(2)]]) (use delete_done in \<open>auto simp: enter_def stores_def\<close>)
  with delete_done show ?thesis by simp
next
  case (oust h p ph)
  have "claim_inv (enter h ph (stores None s))"
    by (rule inv_stores [OF inv ousted_free [OF inv oust(2)]]) (use oust in \<open>auto simp: enter_def stores_def\<close>)
  with oust show ?thesis by simp
next
  case (check h)
  show ?thesis unfolding check(1)
    by (rule inv_enter [OF inv]) (use check(2) answered_relies in \<open>auto simp: enter_def\<close>)
next
  case (ask h)
  show ?thesis unfolding ask(1)
    by (rule inv_enter [OF inv]) (use ask(2) answered_relies in auto)
next
  case (confirm h p)
  have "relies h (Confirming p) s" using inv confirm(2) unfolding claim_inv_def by metis
  then have "p \<noteq> h" using confirm(2) by auto
  show ?thesis unfolding confirm(1)
    by (rule inv_enter [OF inv]) (use \<open>relies h (Confirming p) s\<close> \<open>p \<noteq> h\<close> confirm(2) in \<open>auto simp: enter_def\<close>)
next
  case (take_over h p)
  show ?thesis unfolding take_over(1)
    by (rule inv_enter [OF inv]) (use take_over rules in \<open>auto simp: enter_def\<close>)
next
  case (release h)
  show ?thesis unfolding release(1)
    by (rule inv_enter [OF inv]) (use inv_relies(1) [OF inv, of h] release in \<open>auto simp: enter_def\<close>)
next
  case (take h)
  show ?thesis unfolding take(1) by (rule inv_enter [OF inv]) (use take in auto)
next
  case (put_failed h)
  show ?thesis unfolding put_failed(1) by (rule inv_enter [OF inv]) (use put_failed in auto)
next
  case (ask_failed h)
  show ?thesis unfolding ask_failed(1) by (rule inv_enter [OF inv]) (use ask_failed in auto)
next
  case (check_failed h)
  show ?thesis unfolding check_failed(1) by (rule inv_enter [OF inv]) (use check_failed in auto)
next
  case (delete_failed h)
  show ?thesis unfolding delete_failed(1) by (rule inv_enter [OF inv]) (use delete_failed in auto)
next
  case (confirm_failed h p)
  show ?thesis unfolding confirm_failed(1) by (rule inv_enter [OF inv]) (use confirm_failed in auto)
next
  case (oust_failed h p)
  show ?thesis unfolding oust_failed(1) by (rule inv_enter [OF inv]) (use oust_failed in auto)
next
  case (ends h)
  show ?thesis unfolding ends(1) by (rule inv_enter [OF inv]) auto
qed

lemma claim_inv_start: "claim_inv claim_start"
  by (simp add: claim_inv_def claim_start_def)

lemma claim_inv_reaches:
  "claim_reaches ru s s' \<Longrightarrow> claim_inv s \<Longrightarrow> ru_serial ru \<Longrightarrow> ru_ended ru \<Longrightarrow> claim_inv s'"
  unfolding claim_reaches_def by (induction rule: rtranclp_induct) (auto intro: claim_inv_step)


text \<open>One step after another, each to the state it makes.\<close>

lemma step_next: "claim_step ru s s1 \<Longrightarrow> claim_reaches ru s1 s2 \<Longrightarrow> claim_reaches ru s s2"
  unfolding claim_reaches_def by (rule converse_rtranclp_into_rtranclp)

lemma no_step: "claim_reaches ru s s"
  by (simp add: claim_reaches_def)

lemma reaches_trans: "claim_reaches ru s s1 \<Longrightarrow> claim_reaches ru s1 s2 \<Longrightarrow> claim_reaches ru s s2"
  unfolding claim_reaches_def by (rule rtranclp_trans)

definition strict_rules :: claim_rules where
  "strict_rules = \<lparr>ru_serial = True, ru_ended = True\<rparr>"

definition holds_claim :: "string \<Rightarrow> claims" where
  "holds_claim h = enter h Holding (stores (Some h) (enter h Putting claim_start))"

lemma start_to_holding: "claim_reaches ru claim_start (holds_claim h)"
  unfolding holds_claim_def
  by (rule step_next [OF claim_step.take step_next [OF claim_step.put_done no_step]])
    (simp_all add: enter_def claim_start_def)

text \<open>A run claims, dies, and a reap takes over from it.\<close>

definition taken_over :: "string \<Rightarrow> string \<Rightarrow> claims \<Rightarrow> claims" where
  "taken_over q p s = enter q Holding (stores (Some q) (enter q Putting (stores None (enter q (Ousting p) (enter q (Confirming p) s)))))"

lemma takes_over:
  assumes "cs_phase s q = Outside" "p \<noteq> q" "cs_value s = Some p" "if ru_ended ru then cs_phase s p = Ended else True"
    "if ru_serial ru then \<forall>k. \<not> taking_over (cs_phase s k) else True"
  shows "claim_reaches ru s (taken_over q p s)"
proof -
  let ?s1 = "enter q (Confirming p) s"
  have 1: "claim_step ru s ?s1" by (rule claim_step.take_over) (use assms in auto)
  have 2: "claim_step ru ?s1 (enter q (Ousting p) ?s1)"
    using claim_step.confirm [of ?s1 q p ru] assms(3) by (simp add: enter_def)
  have 3: "claim_step ru (enter q (Ousting p) ?s1) (enter q Putting (stores None (enter q (Ousting p) ?s1)))"
    by (rule claim_step.oust) (simp_all add: enter_def)
  have 4: "claim_step ru (enter q Putting (stores None (enter q (Ousting p) ?s1))) (taken_over q p s)"
    unfolding taken_over_def by (rule claim_step.put_done) (simp_all add: enter_def stores_def)
  show ?thesis by (rule step_next [OF 1 step_next [OF 2 step_next [OF 3 step_next [OF 4 no_step]]]])
qed

lemma taken_over_phase: "cs_phase (taken_over q p s) = (cs_phase s)(q := Holding)" "cs_value (taken_over q p s) = Some q"
  by (simp_all add: taken_over_def enter_def stores_def)

lemma reap_after_death:
  "claim_reaches strict_rules claim_start (taken_over ''reap'' ''run'' (enter ''run'' Ended (holds_claim ''run'')))"
  by (rule reaches_trans [OF start_to_holding reaches_trans [OF step_next [OF claim_step.ends no_step] takes_over]])
    (auto simp: holds_claim_def enter_def stores_def claim_start_def strict_rules_def)


text \<open>A take-over in two halves: what it reads and confirms, and what it then deletes and puts.\<close>

lemma confirms:
  assumes "cs_phase s q = Outside" "p \<noteq> q" "cs_value s = Some p" "if ru_ended ru then cs_phase s p = Ended else True"
    "if ru_serial ru then \<forall>k. \<not> taking_over (cs_phase s k) else True"
  shows "claim_reaches ru s (enter q (Ousting p) s)"
proof -
  let ?s1 = "enter q (Confirming p) s"
  have 1: "claim_step ru s ?s1" by (rule claim_step.take_over) (use assms in auto)
  have 2: "claim_step ru ?s1 (enter q (Ousting p) s)"
    using claim_step.confirm [of ?s1 q p ru] assms(3) by (simp add: enter_def)
  show ?thesis by (rule step_next [OF 1 step_next [OF 2 no_step]])
qed

lemma ousts:
  assumes "cs_phase s q = Ousting p"
  shows "claim_reaches ru s (enter q Holding (stores (Some q) s))"
proof -
  let ?s1 = "enter q Putting (stores None s)"
  have 1: "claim_step ru s ?s1" by (rule claim_step.oust [OF assms]) simp
  have 2: "claim_step ru ?s1 (enter q Holding (stores (Some q) ?s1))"
    by (rule claim_step.put_done) (simp_all add: enter_def stores_def)
  have "enter q Holding (stores (Some q) ?s1) = enter q Holding (stores (Some q) s)" by (simp add: enter_def stores_def)
  with step_next [OF 1 step_next [OF 2 no_step]] show ?thesis by simp
qed

lemma two_reaps:
  assumes "cs_value s = Some p" "cs_phase s p = Ended" "cs_phase s q = Outside" "cs_phase s r = Outside" "distinct [p, q, r]"
    "\<not> ru_serial ru"
  shows "\<exists>s'. claim_reaches ru s s' \<and> cs_phase s' q = Holding \<and> cs_phase s' r = Holding"
proof -
  let ?s2 = "enter q (Ousting p) s" and ?s4 = "enter r (Ousting p) (enter q (Ousting p) s)"
  let ?s6 = "enter q Holding (stores (Some q) ?s4)"
  have 1: "claim_reaches ru s ?s2" by (rule confirms) (use assms in auto)
  have 2: "claim_reaches ru ?s2 ?s4" by (rule confirms) (use assms in \<open>auto simp: enter_def\<close>)
  have 3: "claim_reaches ru ?s4 ?s6" by (rule ousts) (use assms in \<open>auto simp: enter_def\<close>)
  have 4: "claim_reaches ru ?s6 (enter r Holding (stores (Some r) ?s6))"
    by (rule ousts) (use assms in \<open>auto simp: enter_def stores_def\<close>)
  have "cs_phase (enter r Holding (stores (Some r) ?s6)) q = Holding" "cs_phase (enter r Holding (stores (Some r) ?s6)) r = Holding"
    using assms by (auto simp: enter_def stores_def)
  with reaches_trans [OF 1 reaches_trans [OF 2 reaches_trans [OF 3 4]]] show ?thesis by blast
qed

text \<open>
  Both rules are needed. Without either of them two processes can hold the claim at once: a take-over
  from a run that is still going leaves two holders, and so do two take-overs from the same dead run,
  since a delete removes whatever is stored by then.
\<close>

theorem claim_rules_needed:
  "(\<exists>s. claim_reaches \<lparr>ru_serial = True, ru_ended = False\<rparr> claim_start s
      \<and> cs_phase s ''run'' = Holding \<and> cs_phase s ''reap'' = Holding)
   \<and> (\<exists>s. claim_reaches \<lparr>ru_serial = False, ru_ended = True\<rparr> claim_start s
      \<and> cs_phase s ''reap-1'' = Holding \<and> cs_phase s ''reap-2'' = Holding)"
proof (rule conjI)
  let ?s = "taken_over ''reap'' ''run'' (holds_claim ''run'')"
  have "claim_reaches \<lparr>ru_serial = True, ru_ended = False\<rparr> claim_start ?s"
    by (rule reaches_trans [OF start_to_holding takes_over]) (auto simp: holds_claim_def enter_def stores_def claim_start_def)
  moreover have "cs_phase ?s ''run'' = Holding" "cs_phase ?s ''reap'' = Holding"
    by (simp_all add: taken_over_phase holds_claim_def enter_def)
  ultimately show "\<exists>s. claim_reaches \<lparr>ru_serial = True, ru_ended = False\<rparr> claim_start s
     \<and> cs_phase s ''run'' = Holding \<and> cs_phase s ''reap'' = Holding" by blast
next
  let ?ru = "\<lparr>ru_serial = False, ru_ended = True\<rparr>" and ?s = "enter ''run'' Ended (holds_claim ''run'')"
  have "claim_reaches ?ru claim_start ?s"
    by (rule reaches_trans [OF start_to_holding step_next [OF claim_step.ends no_step]])
  moreover obtain s' where "claim_reaches ?ru ?s s'" "cs_phase s' ''reap-1'' = Holding" "cs_phase s' ''reap-2'' = Holding"
    using two_reaps [of ?s "''run''" "''reap-1''" "''reap-2''" ?ru]
    by (auto simp: holds_claim_def enter_def stores_def claim_start_def)
  ultimately show "\<exists>s. claim_reaches ?ru claim_start s \<and> cs_phase s ''reap-1'' = Holding \<and> cs_phase s ''reap-2'' = Holding"
    using reaches_trans by blast
qed

subsection \<open>The code takes these steps\<close>

fun claim_phase :: "aws_claim \<Rightarrow> phase" where
  "claim_phase awsClaimHeld = Holding"
| "claim_phase awsClaimNotHeld = Outside"
| "claim_phase (awsClaimHeldByOther _) = Denied"
| "claim_phase awsClaimUnknown = Unsure"

definition claims_at :: "('w \<Rightarrow> string \<Rightarrow> string option) \<Rightarrow> 'w aws_world \<Rightarrow> (string \<Rightarrow> phase) \<Rightarrow> claims" where
  "claims_at val st phases = \<lparr>cs_value = val (az_world st) AWSClaimParameter, cs_phase = phases\<rparr>"

lemma claims_at_simps [simp]:
  "cs_value (claims_at val st phases) = val (az_world st) AWSClaimParameter"
  "cs_phase (claims_at val st phases) = phases"
  "enter h ph (claims_at val st phases) = claims_at val st (phases(h := ph))"
  by (simp_all add: claims_at_def enter_def)

lemma claims_at_value:
  "val (az_world st') AWSClaimParameter = v \<Longrightarrow> stores v (claims_at val st phases) = claims_at val st' phases"
  by (simp add: claims_at_def stores_def)

lemma put_steps:
  assumes law: "ssm_lawful api val" and put: "call_put api AWSClaimParameter h st = (r, st')"
    and ph: "phases h = Putting"
  shows "claim_step ru (claims_at val st phases)
     (claims_at val st' (phases(h := (case r of None \<Rightarrow> Holding | Some _ \<Rightarrow> Asking))))"
proof -
  let ?s = "claims_at val st phases"
  have landed: "claim_step ru ?s (claims_at val st' (phases(h := ph')))"
    if "val (az_world st) AWSClaimParameter = None" "val (az_world st') = (val (az_world st))(AWSClaimParameter \<mapsto> h)"
      "ph' \<in> {Holding, Asking}" for ph'
    using claim_step.put_done [of ?s h ph' ru] that ph claims_at_value [of val st' "Some h" st phases] by simp
  have failed: "claim_step ru ?s (claims_at val st' (phases(h := Asking)))" if "val (az_world st') = val (az_world st)"
    using claim_step.put_failed [of ?s h ru] that ph by (simp add: claims_at_def enter_def)
  from lawful_put [OF law put] landed failed show ?thesis by (cases r) auto
qed

lemma take_refines:
  assumes law: "ssm_lawful api val" and run: "takeAWSClaim api h st = (err, st')" and ph: "phases h = Putting"
  shows "claim_reaches ru (claims_at val st phases) (claims_at val st' (phases(h := claim_phase (awsClaimAfterTake err))))"
proof -
  obtain pe st1 where put: "call_put api AWSClaimParameter h st = (pe, st1)" by fastforce
  note 1 = put_steps [where ru = ru and phases = phases and h = h, OF law put ph]
  show ?thesis
  proof (cases pe)
    case None
    with 1 run put show ?thesis by (auto simp: takeAWSClaim_def awsClaimAfterTake_def intro: step_next no_step)
  next
    case (Some e)
    let ?s = "claims_at val st1 (phases(h := Asking))"
    obtain g st2 where get: "getAWSParameter api AWSClaimParameter st1 = (g, st2)" by fastforce
    note G = lawful_get [OF law get]
    have same: "claims_at val st2 ps = claims_at val st1 ps" for ps using G by (simp add: claims_at_def)
    have st': "st' = st2" using run put Some get by (auto simp: takeAWSClaim_def split: sum.splits option.splits)
    have "claim_step ru ?s (claims_at val st1 (phases(h := claim_phase (awsClaimAfterTake err))))"
    proof (cases g)
      case (Inl x)
      with run put Some get have "claim_phase (awsClaimAfterTake err) = Unsure"
        by (auto simp: takeAWSClaim_def awsClaimAfterTake_def)
      with claim_step.ask_failed [of ?s h ru] show ?thesis by simp
    next
      case (Inr v)
      with run put Some get G have "claim_phase (awsClaimAfterTake err) = answered h (cs_value ?s)"
        by (auto simp: takeAWSClaim_def awsClaimAfterTake_def answered_def named_holder_def scope_errorf_def split: option.splits)
      with claim_step.ask [of ?s h ru] show ?thesis by simp
    qed
    moreover from 1 Some have "claim_step ru (claims_at val st phases) ?s" by simp
    ultimately show ?thesis unfolding st' same by (blast intro: step_next no_step)
  qed
qed

text \<open>A delete whose answer leaves the process at \<open>ok\<close> or \<open>lost\<close>.\<close>

definition gone_by :: "aws_error option \<Rightarrow> bool" where
  "gone_by r \<longleftrightarrow> (case r of None \<Rightarrow> True | Some e \<Rightarrow> ae_code e = ''ParameterNotFound'')"

lemma delete_value:
  assumes "ssm_lawful api val" "call_delete api AWSClaimParameter st = (r, st')"
  shows "val (az_world st') AWSClaimParameter = None \<or> (\<not> gone_by r \<and> val (az_world st') = val (az_world st))"
  using lawful_delete [OF assms] by (auto simp: gone_by_def split: option.splits)

lemma release_refines:
  assumes law: "ssm_lawful api val" and run: "deleteAWSClaimHeldBy api h st = (err, st')" and ph: "phases h = Checking"
  shows "claim_reaches ru (claims_at val st phases) (claims_at val st' (phases(h := claim_phase (awsClaimAfterRelease err))))"
proof -
  let ?s = "claims_at val st phases"
  obtain g st1 where get: "getAWSParameter api AWSClaimParameter st = (g, st1)" by fastforce
  note G = lawful_get [OF law get]
  have same: "claims_at val st1 ps = claims_at val st ps" for ps using G by (simp add: claims_at_def)
  show ?thesis
  proof (cases "g = Inr (Some h)")
    case False
    then have st': "st' = st1" using run get
      by (auto simp: deleteAWSClaimHeldBy_def split: sum.splits option.splits if_splits)
    have "claim_step ru ?s (claims_at val st (phases(h := claim_phase (awsClaimAfterRelease err))))"
    proof (cases g)
      case (Inl x)
      with run get have "claim_phase (awsClaimAfterRelease err) = Unsure"
        by (auto simp: deleteAWSClaimHeldBy_def awsClaimAfterRelease_def named_holder_def scope_errorf_def)
      with claim_step.check_failed [of ?s h ru] ph show ?thesis by simp
    next
      case (Inr v)
      with G False have "val (az_world st) AWSClaimParameter = v" "v \<noteq> Some h" by auto
      moreover from Inr False run get have "claim_phase (awsClaimAfterRelease err) = answered h v"
        by (auto simp: deleteAWSClaimHeldBy_def awsClaimAfterRelease_def answered_def named_holder_def split: option.splits if_splits)
      ultimately show ?thesis using claim_step.check [of ?s h ru] ph by simp
    qed
    then show ?thesis unfolding st' same by (rule step_next [OF _ no_step])
  next
    case True
    let ?s1 = "claims_at val st1 (phases(h := Letting_Go))"
    from G True have "val (az_world st) AWSClaimParameter = Some h" by simp
    with claim_step.check [of ?s h ru] ph have 1: "claim_step ru ?s ?s1" by (simp add: same)
    obtain r st2 where del: "call_delete api AWSClaimParameter st1 = (r, st2)" by fastforce
    from run get True del have st': "st' = st2" and after: "claim_phase (awsClaimAfterRelease err) = (if gone_by r then Outside else Unsure)"
      by (auto simp: deleteAWSClaimHeldBy_def awsClaimAfterRelease_def gone_by_def named_holder_def scope_errorf_def split: option.splits if_splits)
    have "claim_step ru ?s1 (claims_at val st2 (phases(h := if gone_by r then Outside else Unsure)))"
    proof (cases "val (az_world st2) AWSClaimParameter = None")
      case absent: True
      show ?thesis
        using claim_step.delete_done [of ?s1 h "if gone_by r then Outside else Unsure" ru] claims_at_value [where val = val and st = st1 and st' = st2 and v = None, OF absent]
        by simp
    next
      case False
      with delete_value [OF law del] have "\<not> gone_by r" "val (az_world st2) = val (az_world st1)" by auto
      then show ?thesis using claim_step.delete_failed [of ?s1 h ru] by (simp add: claims_at_def enter_def)
    qed
    with step_next [OF 1 step_next [OF _ no_step]] show ?thesis unfolding st' after by blast
  qed
qed

lemma oust_refines:
  assumes law: "ssm_lawful api val" and run: "deleteAWSClaimHeldBy api p st = (err, st')" and ph: "phases h = Confirming p"
  shows "claim_reaches ru (claims_at val st phases) (claims_at val st' (phases(h := (case err of
     None \<Rightarrow> Putting | Some e \<Rightarrow> if named_holder e = None then Outside else Denied))))"
proof -
  let ?s = "claims_at val st phases"
  obtain g st1 where get: "getAWSParameter api AWSClaimParameter st = (g, st1)" by fastforce
  note G = lawful_get [OF law get]
  have same: "claims_at val st1 ps = claims_at val st ps" for ps using G by (simp add: claims_at_def)
  let ?ph = "case err of None \<Rightarrow> Putting | Some e \<Rightarrow> if named_holder e = None then Outside else Denied"
  show ?thesis
  proof (cases "g = Inr (Some p)")
    case False
    then have st': "st' = st1" using run get
      by (auto simp: deleteAWSClaimHeldBy_def split: sum.splits option.splits if_splits)
    have "claim_step ru ?s (claims_at val st (phases(h := ?ph)))"
    proof (cases g)
      case (Inl x)
      with run get have "?ph = Outside"
        by (auto simp: deleteAWSClaimHeldBy_def named_holder_def scope_errorf_def)
      with claim_step.confirm_failed [of ?s h p ru] ph show ?thesis by simp
    next
      case (Inr v)
      with G False have "val (az_world st) AWSClaimParameter = v" "v \<noteq> Some p" by auto
      moreover from Inr False run get have "?ph = (if v = None then Outside else Denied)"
        by (auto simp: deleteAWSClaimHeldBy_def named_holder_def split: option.splits if_splits)
      ultimately show ?thesis using claim_step.confirm [of ?s h p ru] ph by simp
    qed
    then show ?thesis unfolding st' same by (rule step_next [OF _ no_step])
  next
    case True
    let ?s1 = "claims_at val st1 (phases(h := Ousting p))"
    from G True have "val (az_world st) AWSClaimParameter = Some p" by simp
    with claim_step.confirm [of ?s h p ru] ph have 1: "claim_step ru ?s ?s1" by (simp add: same)
    obtain r st2 where del: "call_delete api AWSClaimParameter st1 = (r, st2)" by fastforce
    from run get True del have st': "st' = st2" and after: "?ph = (if gone_by r then Putting else Outside)"
      by (auto simp: deleteAWSClaimHeldBy_def gone_by_def named_holder_def scope_errorf_def split: option.splits if_splits)
    have "claim_step ru ?s1 (claims_at val st2 (phases(h := if gone_by r then Putting else Outside)))"
    proof (cases "val (az_world st2) AWSClaimParameter = None")
      case absent: True
      show ?thesis
        using claim_step.oust [of ?s1 h p "if gone_by r then Putting else Outside" ru] claims_at_value [where val = val and st = st1 and st' = st2 and v = None, OF absent] by simp
    next
      case False
      with delete_value [OF law del] have "\<not> gone_by r" "val (az_world st2) = val (az_world st1)" by auto
      then show ?thesis using claim_step.oust_failed [of ?s1 h p ru] by (simp add: claims_at_def enter_def)
    qed
    with step_next [OF 1 step_next [OF _ no_step]] show ?thesis unfolding st' after by blast
  qed
qed

lemma take_over_refines:
  assumes law: "ssm_lawful api val" and run: "TakeOverAWSClaim api p h st = (err, st')"
    and ph: "phases h = Outside" "p \<noteq> h" "if ru_ended ru then phases p = Ended else True"
      "if ru_serial ru then \<forall>k. \<not> taking_over (phases k) else True"
  shows "\<exists>ph. claim_reaches ru (claims_at val st phases) (claims_at val st' (phases(h := ph)))
     \<and> (if err = None then ph = Holding else True)"
proof -
  let ?s = "claims_at val st phases"
  show ?thesis
  proof (cases "filter (\<lambda>k. checkAWSClaimHolder k \<noteq> None) [p, h] = [] \<and> refuseLiveLocalHolder api p (az_world st) = None
      \<and> ssm_fault api = None")
    case False
    have "err \<noteq> None \<and> st' = st"
    proof (cases "filter (\<lambda>k. checkAWSClaimHolder k \<noteq> None) [p, h]")
      case Nil
      with False consider e where "refuseLiveLocalHolder api p (az_world st) = Some e"
        | e where "refuseLiveLocalHolder api p (az_world st) = None" "ssm_fault api = Some e" by (meson not_Some_eq)
      then show ?thesis
      proof cases
        case (1 e)
        have "TakeOverAWSClaim api p h st = (Some e, st)"
          by (simp only: TakeOverAWSClaim_def Nil 1 list.case option.case)
        with run show ?thesis by auto
      next
        case (2 e)
        have "TakeOverAWSClaim api p h st = (Some (scope_errorf e), st)"
          by (simp only: TakeOverAWSClaim_def Nil 2 list.case option.case with_ssm_def filter.simps(1))
        with run show ?thesis by auto
      qed
    next
      case (Cons k ks)
      then have "k \<in> set (filter (\<lambda>k. checkAWSClaimHolder k \<noteq> None) [p, h])" by (simp del: filter.simps)
      then have "checkAWSClaimHolder k \<noteq> None" by (simp split: if_splits) auto
      moreover from run Cons have "(err, st') = (checkAWSClaimHolder k, st)"
        by (simp add: TakeOverAWSClaim_def del: filter.simps)
      ultimately show ?thesis by simp
    qed
    then show ?thesis using ph(1) no_step [of ru ?s] by (intro exI [of _ Outside]) (auto simp: fun_upd_idem)
  next
    case True
    have 1: "claim_step ru ?s (claims_at val st (phases(h := Confirming p)))"
      using claim_step.take_over [of ?s h p ru] ph by simp
    obtain e1 st1 where del: "deleteAWSClaimHeldBy api p st = (e1, st1)" by fastforce
    note 2 = step_next [OF 1 oust_refines [where ru = ru and phases = "phases(h := Confirming p)" and h = h, OF law del, simplified]]
    show ?thesis
    proof (cases e1)
      case (Some e)
      with run True del have "err = Some e" "st' = st1" by (simp_all add: TakeOverAWSClaim_def with_ssm_def del: filter.simps)
      with 2 Some show ?thesis by auto
    next
      case None
      obtain e2 st2 where take: "takeAWSClaim api h st1 = (e2, st2)" by fastforce
      from run True del None take have fin: "st' = st2" "err = None \<longleftrightarrow> e2 = None"
        by (auto simp: TakeOverAWSClaim_def with_ssm_def simp del: filter.simps split: option.splits)
      from 2 None have a: "claim_reaches ru ?s (claims_at val st1 (phases(h := Putting)))" by simp
      have b: "claim_reaches ru (claims_at val st1 (phases(h := Putting)))
          (claims_at val st2 (phases(h := claim_phase (awsClaimAfterTake e2))))"
        using take_refines [where ru = ru and phases = "phases(h := Putting)" and h = h, OF law take] by simp
      from reaches_trans [OF a b] fin show ?thesis by (auto simp: awsClaimAfterTake_def)
    qed
  qed
qed



end
