(* ===== verification/Deploy.thy ===== *)
theory Deploy
  imports Teardown Orphans
begin

text \<open>
  Deploying a configuration: on a mock (\<^verbatim>\<open>harness/mock_deploy.go\<close>) with the check that it converges,
  destroying it there with the check that nothing is left (\<^verbatim>\<open>harness/destroy.go\<close>), and on a real cloud
  with one retry of the apply (\<^verbatim>\<open>harness/sandbox_deploy.go\<close>); and what \<^verbatim>\<open>cli/test_command.go\<close> reports of
  each.

  The mock's own API is a parameter on the world \<open>'w\<close> that tofu acts on; a state snapshot is the
  document it decodes to. A context is a predicate on that world. Progress lines are not modelled, and
  the variables a command must not inherit (\<^verbatim>\<open>StripEnv\<close>) are the runner's business.
\<close>

subsection \<open>The mock\<close>

record 'w mock_client =
  mc_reset :: "'w \<Rightarrow> go_error option \<times> 'w"
  mc_restore :: "'w \<Rightarrow> go_error option \<times> 'w"
  mc_state :: "'w \<Rightarrow> (go_error + document) \<times> 'w"
  mc_seed :: "('w \<Rightarrow> go_error option \<times> 'w) option"

datatype mock_deploy_mode = MockDeployModeClean | MockDeployModeIncremental

definition on_api :: "('w \<Rightarrow> 'a \<times> 'w) \<Rightarrow> 'w world \<Rightarrow> 'a \<times> 'w world" where
  "on_api f w = (case f (w_api w) of (r, a) \<Rightarrow> (r, w\<lparr>w_api := a\<rparr>))"

definition no_stage :: stage_result where
  "no_stage = \<lparr>sr_stage = [], sr_cmd = [], sr_stdout = [], sr_stderr = []\<rparr>"

definition tofu :: "'w runtime \<Rightarrow> string list \<Rightarrow> string \<Rightarrow> env \<Rightarrow> 'w world \<Rightarrow> outcome \<times> 'w world" where
  "tofu rt args workDir e w = run_command rt \<lparr>cm_args = args, cm_dir = Work_Dir workDir, cm_env = e\<rparr> w"

subsection \<open>Deploying to the mock\<close>

record mock_deploy_result =
  md_init :: stage_result
  md_apply :: stage_result
  md_converge :: stage_result
  md_state :: document
  md_drifted :: bool

record mock_failure =
  mf_stage :: string
  mf_init :: stage_result
  mf_apply :: stage_result
  mf_converge :: stage_result
  mf_err :: go_error

text \<open>A deploy's error: the structured one of the harness, or any other.\<close>

datatype mock_deploy_error = Mock_Deploy_Error mock_failure | Mock_Other_Error go_error

definition mock_failed :: "string \<Rightarrow> stage_result \<Rightarrow> stage_result \<Rightarrow> stage_result \<Rightarrow> go_error \<Rightarrow> mock_deploy_error" where
  "mock_failed name i a c e =
     Mock_Deploy_Error \<lparr>mf_stage = name, mf_init = i, mf_apply = a, mf_converge = c, mf_err = e\<rparr>"

definition driftDetectedExitCode :: int where "driftDetectedExitCode = 2"

definition converge_args :: "string list" where
  "converge_args = [''plan'', ''-detailed-exitcode'', ''-input=false'', ''-no-color'']"

text \<open>Reset or restore, then the seed; the stage that failed, if one did.\<close>

definition prepare_mock :: "'w mock_client \<Rightarrow> mock_deploy_mode \<Rightarrow> 'w world \<Rightarrow> (string \<times> go_error) option \<times> 'w world" where
  "prepare_mock mc mode w =
     (case on_api (if mode = MockDeployModeIncremental then mc_restore mc else mc_reset mc) w of
        (Some e, w1) \<Rightarrow> (Some (if mode = MockDeployModeIncremental then ''restore'' else ''reset'', e), w1)
      | (None, w1) \<Rightarrow>
          (case mc_seed mc of
             None \<Rightarrow> (None, w1)
           | Some seed \<Rightarrow> (case on_api seed w1 of
                 (Some e, w2) \<Rightarrow> (Some (''seed'', e), w2) | (None, w2) \<Rightarrow> (None, w2))))"

text \<open>A second plan: no changes, changes (exit code 2), or no plan at all.\<close>

definition converge_verdict :: "outcome \<Rightarrow> go_error + bool" where
  "converge_verdict oc =
     (case oc_err oc of
        None \<Rightarrow> Inr False
      | Some e \<Rightarrow> if oc_exit oc = driftDetectedExitCode then Inr True else Inl e)"

definition MockDeploy_Run :: "'w runtime \<Rightarrow> 'w mock_client \<Rightarrow> string \<Rightarrow> env \<Rightarrow> mock_deploy_mode \<Rightarrow> 'w world
    \<Rightarrow> (mock_deploy_error + mock_deploy_result) \<times> 'w world" where
  "MockDeploy_Run rt mc workDir e mode w0 =
     (case prepare_mock mc mode w0 of
        (Some (name, er), w1) \<Rightarrow> (Inl (mock_failed name no_stage no_stage no_stage er), w1)
      | (None, w1) \<Rightarrow>
     (case tofu rt [''init''] workDir e w1 of (oc1, w2) \<Rightarrow>
        let i = stage_of ''init'' [''init''] oc1 in
        case oc_err oc1 of
          Some er \<Rightarrow> (Inl (mock_failed ''init'' i no_stage no_stage er), w2)
        | None \<Rightarrow>
     (case tofu rt [''apply'', ''-auto-approve''] workDir e w2 of (oc2, w3) \<Rightarrow>
        let a = stage_of ''apply'' [''apply'', ''-auto-approve''] oc2 in
        case oc_err oc2 of
          Some er \<Rightarrow> (Inl (mock_failed ''apply'' i a no_stage er), w3)
        | None \<Rightarrow>
     (case tofu rt converge_args workDir e w3 of (oc3, w4) \<Rightarrow>
        let c = stage_of ''converge'' converge_args oc3 in
        case converge_verdict oc3 of
          Inl er \<Rightarrow> (Inl (mock_failed ''converge'' i a c er), w4)
        | Inr drifted \<Rightarrow>
     (case on_api (mc_state mc) w4 of
        (Inl er, w5) \<Rightarrow> (Inl (mock_failed ''state'' i a no_stage er), w5)
      | (Inr doc, w5) \<Rightarrow> (Inr \<lparr>md_init = i, md_apply = a, md_converge = c, md_state = doc, md_drifted = drifted\<rparr>, w5))))))"

subsection \<open>Destroying on the mock\<close>

definition countOrphans :: "document \<Rightarrow> string + nat" where
  "countOrphans doc = map_sum (\<lambda>e. e) (\<lambda>ocs. sum_list (map (\<lambda>oc. length (oc_indexes oc)) ocs)) (Orphans doc)"

definition MockDestroy_Run :: "'w runtime \<Rightarrow> 'w mock_client \<Rightarrow> string \<Rightarrow> env \<Rightarrow> 'w world
    \<Rightarrow> (destroy_error + stage_result \<times> document) \<times> 'w world" where
  "MockDestroy_Run rt mc workDir e w =
     (case tofu rt [''destroy'', ''-auto-approve''] workDir e w of (oc, w1) \<Rightarrow>
        case oc_err oc of
          Some er \<Rightarrow> (Inl (Destroy_Error ''destroy'' (oc_stderr oc) er), w1)
        | None \<Rightarrow>
     (case on_api (mc_state mc) w1 of
        (Inl er, w2) \<Rightarrow> (Inl (Destroy_Error ''state'' (oc_stderr oc) er), w2)
      | (Inr doc, w2) \<Rightarrow>
          ((case countOrphans doc of
              Inl er \<Rightarrow> Inl (Destroy_Error ''orphan_check'' (oc_stderr oc) (errorf er))
            | Inr n \<Rightarrow>
                if 0 < n
                then Inl (Destroy_Error ''orphan_check'' (oc_stderr oc)
                       (errorf (''detected '' @ nat_digits n @ '' orphaned resources'')))
                else Inr (stage_of ''destroy'' [''destroy'', ''-auto-approve''] oc, doc)), w2)))"

subsection \<open>Deploying to the real cloud\<close>

record sandbox_deploy_result =
  sd_init :: stage_result
  sd_plan :: stage_result
  sd_apply :: stage_result
  sd_attempts :: nat

record sandbox_failure =
  sf_stage :: string
  sf_attempts :: nat
  sf_init :: stage_result
  sf_plan :: stage_result
  sf_apply :: stage_result
  sf_err :: go_error

datatype sandbox_deploy_error = Sandbox_Deploy_Error sandbox_failure | Sandbox_Other_Error go_error

definition sandboxApplyAttempts :: nat where "sandboxApplyAttempts = 2"

definition plan_args :: "string list" where "plan_args = [''plan'', ''-state='' @ LiveStateFilename]"
definition apply_args :: "string list" where "apply_args = [''apply'', ''-auto-approve'', ''-state='' @ LiveStateFilename]"

text \<open>The apply numbered \<open>n\<close>, with \<open>left\<close> more allowed; never repeated once the context has ended.\<close>

fun apply_attempts :: "'w runtime \<Rightarrow> ('w \<Rightarrow> bool) \<Rightarrow> string \<Rightarrow> env \<Rightarrow> nat \<Rightarrow> nat \<Rightarrow> 'w world
    \<Rightarrow> (outcome \<times> nat) \<times> 'w world" where
  "apply_attempts rt ended workDir e n left w =
     (case tofu rt apply_args workDir e w of (oc, w1) \<Rightarrow>
        if oc_err oc = None \<or> ended (w_api w1) then ((oc, n), w1)
        else (case left of 0 \<Rightarrow> ((oc, n), w1) | Suc k \<Rightarrow> apply_attempts rt ended workDir e (Suc n) k w1))"

definition SandboxDeploy_Run :: "'w runtime \<Rightarrow> ('w \<Rightarrow> bool) \<Rightarrow> string \<Rightarrow> env \<Rightarrow> 'w world
    \<Rightarrow> (sandbox_deploy_error + sandbox_deploy_result) \<times> 'w world" where
  "SandboxDeploy_Run rt ended workDir e w =
     (case tofu rt [''init''] workDir e w of (oc1, w1) \<Rightarrow>
        let i = stage_of ''init'' [''init''] oc1 in
        case oc_err oc1 of
          Some er \<Rightarrow> (Inl (Sandbox_Deploy_Error \<lparr>sf_stage = ''init'', sf_attempts = 0, sf_init = i,
              sf_plan = no_stage, sf_apply = no_stage, sf_err = er\<rparr>), w1)
        | None \<Rightarrow>
     (case tofu rt plan_args workDir e w1 of (oc2, w2) \<Rightarrow>
        let p = stage_of ''plan'' plan_args oc2 in
        case oc_err oc2 of
          Some er \<Rightarrow> (Inl (Sandbox_Deploy_Error \<lparr>sf_stage = ''plan'', sf_attempts = 0, sf_init = i,
              sf_plan = p, sf_apply = no_stage, sf_err = er\<rparr>), w2)
        | None \<Rightarrow>
     (case apply_attempts rt ended workDir e 1 (sandboxApplyAttempts - 1) w2 of ((oc3, n), w3) \<Rightarrow>
        let a = stage_of ''apply'' apply_args oc3 in
        ((case oc_err oc3 of
            Some er \<Rightarrow> Inl (Sandbox_Deploy_Error \<lparr>sf_stage = ''apply'', sf_attempts = n, sf_init = i,
              sf_plan = p, sf_apply = a, sf_err = er\<rparr>)
          | None \<Rightarrow> Inr \<lparr>sd_init = i, sd_plan = p, sd_apply = a, sd_attempts = n\<rparr>), w3))))"

declare apply_attempts.simps [simp del]

subsection \<open>What a test reports of them\<close>

text \<open>The account ids a cut must not split are the argument \<open>known\<close>.\<close>

definition mock_deploy :: string where "mock_deploy = ''mock_deploy''"
definition destruction :: string where "destruction = ''destruction''"

definition ran :: "string \<Rightarrow> string \<Rightarrow> stage_result \<Rightarrow> string \<Rightarrow> stage_summary list" where
  "ran layer name s detail = (if sr_stage s \<noteq> [] then [stage layer name StageStatusPass detail] else [])"

definition mockDeployFailureDetail :: "string list \<Rightarrow> mock_failure \<Rightarrow> string" where
  "mockDeployFailureDetail known f =
     stderrFailureDetail known (Some (mf_err f))
       (if mf_stage f = ''init'' then sr_stderr (mf_init f)
        else if mf_stage f = ''apply'' then sr_stderr (mf_apply f)
        else if mf_stage f = ''converge'' then sr_stderr (mf_converge f) else [])"

text \<open>An apply that failed turns a last line that says apply into a failure instead of adding one.\<close>

definition mock_failed_stages :: "stage_summary list \<Rightarrow> string \<Rightarrow> stage_summary list" where
  "mock_failed_stages stages name =
     (if name = ''apply'' \<and> stages \<noteq> [] \<and> sm_stage (last stages) = ''apply''
      then butlast stages @ [(last stages)\<lparr>sm_status := StageStatusFail\<rparr>]
      else if name \<in> {''reset'', ''seed'', ''init'', ''apply'', ''converge'', ''state''}
      then stages @ [stage mock_deploy name StageStatusFail []]
      else stages)"

definition appendMockDeployResult :: "string list \<Rightarrow> report \<Rightarrow> mock_deploy_error + mock_deploy_result \<Rightarrow> report" where
  "appendMockDeployResult known rep r =
     (case r of
        Inr d \<Rightarrow>
          (fst rep @ ran mock_deploy ''init'' (md_init d) [] @ ran mock_deploy ''apply'' (md_apply d) []
             @ (if md_drifted d then [] else ran mock_deploy ''converge'' (md_converge d)
                  ''second plan is empty: config, state and the mock agree'')
             @ [stage mock_deploy ''state'' StageStatusPass []], snd rep)
      | Inl (Mock_Other_Error e) \<Rightarrow> (fst rep, snd rep @ [failing mock_deploy ''run'' [] [] (err_text e)])
      | Inl (Mock_Deploy_Error f) \<Rightarrow>
          (mock_failed_stages (fst rep) (mf_stage f),
           snd rep @ [failing mock_deploy (mf_stage f) (mf_stage f) ''mock deploy harness''
             (mockDeployFailureDetail known f)]))"

definition appendDestroyResult :: "string list \<Rightarrow> report \<Rightarrow> destroy_error + stage_result \<times> document \<Rightarrow> report" where
  "appendDestroyResult known rep r =
     (case r of
        Inr (s, _) \<Rightarrow>
          (fst rep @ ran destruction ''destroy'' s [] @ [stage destruction ''state'' StageStatusPass [],
             stage destruction ''orphan_check'' StageStatusPass []], snd rep)
      | Inl (Other_Error e) \<Rightarrow> (fst rep, snd rep @ [failing destruction ''run'' [] [] (err_text e)])
      | Inl (Destroy_Error name stderr e) \<Rightarrow>
          (fst rep @ (if name \<in> {''destroy'', ''state'', ''orphan_check''} then [stage destruction name StageStatusFail []] else []),
           snd rep @ [failing destruction name name ''destroy harness'' (stderrFailureDetail known (Some e) stderr)]))"

definition destroyInterrupted :: "bool \<Rightarrow> destroy_error + 'a \<Rightarrow> bool" where
  "destroyInterrupted ended r \<longleftrightarrow> ended
     \<and> (case r of Inl (Destroy_Error name _ e) \<Rightarrow> name = ''destroy'' \<and> is_err e ErrCanceled | _ \<Rightarrow> False)"

definition destroyMock :: "'w runtime \<Rightarrow> 'w mock_client \<Rightarrow> ('w \<Rightarrow> bool) \<Rightarrow> string \<Rightarrow> env \<Rightarrow> 'w world
    \<Rightarrow> report \<times> 'w world" where
  "destroyMock rt mc ended workDir e w =
     (case MockDestroy_Run rt mc workDir e w of (r, w1) \<Rightarrow>
        (if destroyInterrupted (ended (w_api w1)) r
         then ([stage destruction ''destroy'' StageStatusSkip
                  ''skipped: the run was interrupted before the mock destroy finished''], [])
         else appendDestroyResult (cfg_accounts rt) ([], []) r, w1))"

definition sandboxDeployFailureDetail :: "string list \<Rightarrow> sandbox_failure \<Rightarrow> string" where
  "sandboxDeployFailureDetail known f =
     (let detail = stderrFailureDetail known (Some (sf_err f))
            (if sf_stage f = ''init'' then sr_stderr (sf_init f)
             else if sf_stage f = ''plan'' then sr_stderr (sf_plan f)
             else if sf_stage f = ''apply'' then sr_stderr (sf_apply f) else [])
      in if sf_stage f = ''apply'' \<and> 1 < sf_attempts f
         then detail @ '' (failed '' @ nat_digits (sf_attempts f) @ '' attempts, so not a transient blip)''
         else detail)"

definition appendSandboxDeployResult :: "string list \<Rightarrow> report \<Rightarrow> sandbox_deploy_error + sandbox_deploy_result \<Rightarrow> report" where
  "appendSandboxDeployResult known rep r =
     (case r of
        Inr d \<Rightarrow>
          (fst rep @ ran sandbox_deploy ''init'' (sd_init d) [] @ ran sandbox_deploy ''plan'' (sd_plan d) []
             @ ran sandbox_deploy ''apply'' (sd_apply d)
                 (if 1 < sd_attempts d then ''succeeded on attempt '' @ nat_digits (sd_attempts d)
                    @ '' (real API returned a retryable error)'' else []), snd rep)
      | Inl (Sandbox_Other_Error e) \<Rightarrow> (fst rep, snd rep @ [failing sandbox_deploy ''run'' [] [] (err_text e)])
      | Inl (Sandbox_Deploy_Error f) \<Rightarrow>
          (fst rep
             @ (if sf_stage f \<noteq> ''init'' then ran sandbox_deploy ''init'' (sf_init f) [] else [])
             @ (if sf_stage f \<noteq> ''plan'' then ran sandbox_deploy ''plan'' (sf_plan f) [] else [])
             @ (if sf_stage f \<in> {''init'', ''plan'', ''apply''} then [stage sandbox_deploy (sf_stage f) StageStatusFail []] else []),
           snd rep @ [failing sandbox_deploy (sf_stage f) (sf_stage f) ''sandbox deploy harness''
             (sandboxDeployFailureDetail known f)]))"

definition maxPlanDetail :: nat where "maxPlanDetail = 4000"

definition truncatePlanOutput :: "string list \<Rightarrow> string \<Rightarrow> string" where
  "truncatePlanOutput known out =
     (if length out \<le> maxPlanDetail then out
      else let head = CutText known out maxPlanDetail
           in head @ newline @ ''... ('' @ nat_digits (length out - length head) @ '' more bytes)'')"

definition driftFailureDetail :: "string list \<Rightarrow> string \<Rightarrow> bool \<Rightarrow> string" where
  "driftFailureDetail known planOutput continuing =
     ''the apply succeeded but the next plan is NOT empty, so this stack does not converge. ''
       @ ''Two possible causes, and this run cannot tell them apart: ''
       @ ''(1) the mock does not return what the provider sent, so state disagrees with config; ''
       @ ''(2) the HCL genuinely cannot converge. ''
       @ ''Run the same HCL at Layer 3: drift there too means the HCL, drift only here means the mock''
       @ (if continuing then ''. Continuing by request (--continue-on-drift): the repair loop will be told about this, ''
            @ ''which rewrites HCL that may never have been wrong'' else [])
       @ (let trimmed = trim_space planOutput in
          if trimmed = [] then [] else newline @ newline @ ''plan:'' @ newline @ truncatePlanOutput known trimmed)"

subsection \<open>What a deploy may run, and what its success means\<close>

definition in_dir :: "string \<Rightarrow> env \<Rightarrow> string list \<Rightarrow> command" where
  "in_dir workDir e args = \<lparr>cm_args = args, cm_dir = Work_Dir workDir, cm_env = e\<rparr>"

lemma tofu_cmds: "tofu rt args d e w = (oc, w') \<Longrightarrow> w_cmds w' = w_cmds w @ [in_dir d e args] \<and> w_log w' = w_log w \<and> w_markers w' = w_markers w"
  by (auto simp: tofu_def run_command_def in_dir_def split: prod.splits)

lemma on_api_cmds: "on_api f w = (r, w') \<Longrightarrow> w_cmds w' = w_cmds w \<and> w_log w' = w_log w \<and> w_markers w' = w_markers w"
  by (auto simp: on_api_def split: prod.splits)

text \<open>
  The applies of a deploy: all fail but possibly the last, and none follows one after which the context
  has ended.
\<close>

lemma apply_attempts_cmds:
  "apply_attempts rt ended d e n left w = ((oc, m), w') \<Longrightarrow>
     n \<le> m \<and> m \<le> n + left \<and> w_cmds w' = w_cmds w @ replicate (Suc (m - n)) (in_dir d e apply_args)
       \<and> w_log w' = w_log w \<and> w_markers w' = w_markers w
       \<and> (if oc_err oc \<noteq> None \<and> m < n + left then ended (w_api w') else True)
       \<and> (\<exists>u. tofu rt apply_args d e u = (oc, w') \<and> (if m = n then u = w else \<not> ended (w_api u)))"
proof (induction left arbitrary: n w)
  case 0
  obtain oc1 w1 where t: "tofu rt apply_args d e w = (oc1, w1)" by fastforce
  with 0 have "oc1 = oc" "w1 = w'" "m = n" by (auto simp: apply_attempts.simps [of _ _ _ _ _ 0] split: if_splits)
  with t tofu_cmds [OF t] show ?case by auto
next
  case (Suc left)
  obtain oc1 w1 where t: "tofu rt apply_args d e w = (oc1, w1)" by fastforce
  show ?case
  proof (cases "oc_err oc1 = None \<or> ended (w_api w1)")
    case True
    with t Suc.prems have "oc1 = oc" "w1 = w'" "m = n" by (auto simp: apply_attempts.simps [of _ _ _ _ _ "Suc left"])
    with t tofu_cmds [OF t] True show ?thesis by auto
  next
    case False
    with t Suc.prems have "apply_attempts rt ended d e (Suc n) left w1 = ((oc, m), w')"
      by (auto simp: apply_attempts.simps [of _ _ _ _ _ "Suc left"])
    note later = Suc.IH [OF this]
    then obtain k where "m = Suc n + k" using le_Suc_ex by blast
    with later tofu_cmds [OF t] False show ?thesis by (auto split: if_splits)
  qed
qed


lemma countOrphans_zero: "countOrphans doc = Inr 0 \<longleftrightarrow> (\<exists>ocs. Orphans doc = Inr ocs \<and> list_all (\<lambda>oc. oc_indexes oc = []) ocs)"
  by (cases "Orphans doc") (auto simp: countOrphans_def list_all_iff)

text \<open>
  What the mock layer may say. A deploy to the mock reports drift exactly when the plan after the
  apply ran and found changes; a plan that could not run is an error, never drift and never
  convergence. A destroy passes only when the mock's own state then holds no orphan.
\<close>

theorem mock_verdicts_are_evidence:
  "(case MockDeploy_Run rt mc d e mode w of
      (Inr r, w') \<Rightarrow> (\<exists>u oc u'. tofu rt converge_args d e u = (oc, u') \<and> on_api (mc_state mc) u' = (Inr (md_state r), w')
          \<and> (if md_drifted r then oc_err oc \<noteq> None \<and> oc_exit oc = driftDetectedExitCode else oc_err oc = None))
        \<and> w_cmds w' = w_cmds w @ map (in_dir d e) [[''init''], [''apply'', ''-auto-approve''], converge_args]
    | (Inl _, w') \<Rightarrow> prefix (w_cmds w') (w_cmds w @ map (in_dir d e) [[''init''], [''apply'', ''-auto-approve''], converge_args]))
   \<and> (case MockDestroy_Run rt mc d e w of
        (Inr (_, doc), w') \<Rightarrow> (\<exists>u. on_api (mc_state mc) u = (Inr doc, w'))
          \<and> (\<exists>ocs. Orphans doc = Inr ocs \<and> list_all (\<lambda>oc. oc_indexes oc = []) ocs)
      | (Inl _, _) \<Rightarrow> True)"
proof
  obtain p w1 where p: "prepare_mock mc mode w = (p, w1)" by fastforce
  have pc: "w_cmds w1 = w_cmds w"
    using p by (auto simp: prepare_mock_def split: prod.splits option.splits if_splits dest!: on_api_cmds)
  obtain oc1 w2 where t1: "tofu rt [''init''] d e w1 = (oc1, w2)" by fastforce
  obtain oc2 w3 where t2: "tofu rt [''apply'', ''-auto-approve''] d e w2 = (oc2, w3)" by fastforce
  obtain oc3 w4 where t3: "tofu rt converge_args d e w3 = (oc3, w4)" by fastforce
  obtain s w5 where s: "on_api (mc_state mc) w4 = (s, w5)" by fastforce
  note cmds = pc tofu_cmds [OF t1] tofu_cmds [OF t2] tofu_cmds [OF t3] on_api_cmds [OF s]
  show "case MockDeploy_Run rt mc d e mode w of
      (Inr r, w') \<Rightarrow> (\<exists>u oc u'. tofu rt converge_args d e u = (oc, u') \<and> on_api (mc_state mc) u' = (Inr (md_state r), w')
          \<and> (if md_drifted r then oc_err oc \<noteq> None \<and> oc_exit oc = driftDetectedExitCode else oc_err oc = None))
        \<and> w_cmds w' = w_cmds w @ map (in_dir d e) [[''init''], [''apply'', ''-auto-approve''], converge_args]
    | (Inl _, w') \<Rightarrow> prefix (w_cmds w') (w_cmds w @ map (in_dir d e) [[''init''], [''apply'', ''-auto-approve''], converge_args])"
  proof (cases p)
    case (Some x)
    with p pc show ?thesis by (cases x) (simp add: MockDeploy_Run_def)
  next
    case None
    consider (init) "oc_err oc1 \<noteq> None" | (second) "oc_err oc1 = None" "oc_err oc2 \<noteq> None"
      | (both) "oc_err oc1 = None" "oc_err oc2 = None" by blast
    then show ?thesis
    proof cases
      case init
      with None p t1 cmds show ?thesis by (auto simp: MockDeploy_Run_def Let_def)
    next
      case second
      with None p t1 t2 cmds show ?thesis by (auto simp: MockDeploy_Run_def Let_def)
    next
      case both
      with None p t1 t2 t3 s cmds show ?thesis
        by (cases "converge_verdict oc3"; cases s)
          (auto simp: MockDeploy_Run_def Let_def converge_verdict_def split: option.splits if_splits)
    qed
  qed
next
  obtain oc w1 where t: "tofu rt [''destroy'', ''-auto-approve''] d e w = (oc, w1)" by fastforce
  obtain s w2 where s: "on_api (mc_state mc) w1 = (s, w2)" by fastforce
  show "case MockDestroy_Run rt mc d e w of
        (Inr (_, doc), w') \<Rightarrow> (\<exists>u. on_api (mc_state mc) u = (Inr doc, w'))
          \<and> (\<exists>ocs. Orphans doc = Inr ocs \<and> list_all (\<lambda>oc. oc_indexes oc = []) ocs)
      | (Inl _, _) \<Rightarrow> True"
  proof (cases "oc_err oc = None \<and> (\<exists>doc. s = Inr doc \<and> countOrphans doc = Inr 0)")
    case True
    then obtain doc where "s = Inr doc" "countOrphans doc = Inr 0" by blast
    with True t s countOrphans_zero [of doc] show ?thesis by (auto simp: MockDestroy_Run_def)
  next
    case False
    with t s have "\<exists>er. MockDestroy_Run rt mc d e w = (Inl er, w1) \<or> MockDestroy_Run rt mc d e w = (Inl er, w2)"
      by (auto simp: MockDestroy_Run_def split: sum.splits option.splits)
    then show ?thesis by auto
  qed
qed

end
