(* ===== verification/Aws_Post_Apply.thy ===== *)
theory Aws_Post_Apply
  imports Aws_Lifecycle Deploy
begin

text \<open>
  What is asked of an AWS stack after its apply and before any criterion, \<^verbatim>\<open>cli/aws_post_apply.go\<close>: every
  resource of the state is placed in the configured account (\<^verbatim>\<open>harness/aws_placement.go\<close>), and the
  instance EC2 launched runs the script infrafactory rendered (\<^verbatim>\<open>harness/aws_ec2_reads.go\<close>,
  \<^verbatim>\<open>harness/aws_client.go\<close>, \<^verbatim>\<open>cli/aws_user_data.go\<close>). EC2's answer is a parameter.
\<close>

subsection \<open>Where a resource is placed\<close>

definition AWSChildScopedTypes :: "string \<Rightarrow> string list option" where
  "AWSChildScopedTypes = map_of
     [(''aws_route'', [''route_table_id'']), (''aws_route_table_association'', [''route_table_id'', ''subnet_id''])]"

definition managed_ids :: "tf_state \<Rightarrow> string list" where
  "managed_ids st = filter (\<lambda>i. i \<noteq> [])
     (concat (map (\<lambda>r. map (\<lambda>a. attr a ''id'') (tf_instances r)) (filter managedCloudResource st)))"

definition unplacedAWSChild :: "string \<Rightarrow> members \<Rightarrow> string list \<Rightarrow> string list \<Rightarrow> string list" where
  "unplacedAWSChild name attrs parents ids =
     map (\<lambda>k. name @ '' whose '' @ k @ '' '' @ quote (attr attrs k) @ '' is not in the state'')
       (filter (\<lambda>k. attr attrs k \<notin> set ids) parents)"

text \<open>The account of an ARN, its fifth field; the text after it may hold more colons.\<close>

definition arn_account :: "string \<Rightarrow> string option" where
  "arn_account arn = (let fields = split_on CHR '':'' arn in if length fields < 6 then None else Some (fields ! 4))"

definition account_refusal :: "string \<Rightarrow> string list \<Rightarrow> string" where
  "account_refusal accountID accounts =
     (if accounts = [] then ''carries no account id''
      else (case filter (\<lambda>a. a \<noteq> accountID) accounts of [] \<Rightarrow> [] | a # _ \<Rightarrow> ''in account '' @ quote a))"

definition awsAccountRefusal :: "members \<Rightarrow> string \<Rightarrow> string" where
  "awsAccountRefusal attrs accountID =
     (let arn = attr attrs ''arn'';
          owner = (if attr attrs ''owner_id'' = [] then [] else [attr attrs ''owner_id'']) in
      if arn = [] then account_refusal accountID owner
      else (case arn_account arn of
          None \<Rightarrow> ''whose arn '' @ quote arn @ '' is not an ARN''
        | Some account \<Rightarrow> if account = [] then ''whose arn has no account''
            else account_refusal accountID (account # owner)))"

definition unplaced_aws :: "string list \<Rightarrow> string \<Rightarrow> tf_resource \<Rightarrow> members \<Rightarrow> string list" where
  "unplaced_aws ids accountID r attrs =
     (let name = tf_type r @ '' ('' @ attr attrs ''id'' @ '')'' in
      case AWSChildScopedTypes (tf_type r) of
        Some parents \<Rightarrow> unplacedAWSChild name attrs parents ids
      | None \<Rightarrow> (let why = awsAccountRefusal attrs accountID in if why = [] then [] else [name @ '' '' @ why]))"

definition UnplacedAWSResources :: "string \<Rightarrow> json_file \<Rightarrow> string \<Rightarrow> string + string list" where
  "UnplacedAWSResources workDir f accountID =
     (if blank accountID then Inl ''no AWS account id to place the state in''
      else (case loadLiveTerraformState (state_path workDir) f of
          Inl e \<Rightarrow> Inl (err_text e)
        | Inr st \<Rightarrow> Inr (concat (map (\<lambda>r. concat (map (unplaced_aws (managed_ids st) accountID r) (tf_instances r)))
            (filter managedCloudResource st)))))"

subsection \<open>The script of an instance\<close>

text \<open>At most \<open>n\<close> times.\<close>

primrec up_to :: "nat \<Rightarrow> regex \<Rightarrow> regex" where
  "up_to 0 r = Eps"
| "up_to (Suc n) r = opt_re (Seq r (up_to n r))"

definition lower_alnum :: "char \<Rightarrow> bool" where
  "lower_alnum c \<longleftrightarrow> char_between CHR ''a'' CHR ''z'' c \<or> is_digit c"

definition awsUserDataImageRe :: regex where
  "awsUserDataImageRe = seqs [At_Start, Chr lower_alnum, many (Chr (\<lambda>c. lower_alnum c \<or> c \<in> set ''._/-'')), At_End]"

definition awsUserDataTagRe :: regex where
  "awsUserDataTagRe = seqs [At_Start, Chr word_char, up_to 127 (Chr (\<lambda>c. word_char c \<or> c \<in> set ''.-'')), At_End]"

definition service_ref :: "service_spec \<Rightarrow> string" where
  "service_ref sp = ss_image sp @ '':'' @ ss_tag sp"

definition script_lines :: "string list" where
  "script_lines = [''#!/bin/bash'', ''# Rendered by infrafactory from the scenario'' @ [apostrophe] @ ''s service: block.'',
     ''set -euo pipefail'', ''dnf install -y docker'', ''systemctl enable --now docker'']"

definition run_line :: "int \<Rightarrow> string \<Rightarrow> string" where
  "run_line port ref = ''docker run -d --restart=always -p '' @ itoa port @ '':'' @ itoa port @ '' ''
     @ [apostrophe] @ ref @ [apostrophe]"

definition renderAWSUserData :: "service_spec \<Rightarrow> string + string" where
  "renderAWSUserData sp =
     (if \<not> matches awsUserDataImageRe (ss_image sp)
      then Inl (''service.image '' @ quote (ss_image sp)
             @ '' is refused: the user-data script accepts only ^[a-z0-9][a-z0-9._/-]*$'')
      else if \<not> matches awsUserDataTagRe (ss_tag sp)
      then Inl (''service.tag '' @ quote (ss_tag sp)
             @ '' is refused: the user-data script accepts only ^[A-Za-z0-9_][A-Za-z0-9_.-]{0,127}$'')
      else if ss_port sp < 1 \<or> 65535 < ss_port sp
      then Inl (''service.port '' @ itoa (ss_port sp) @ '' is outside 1-65535'')
      else Inr (concat (map (\<lambda>l. l @ newline) (script_lines @ [run_line (ss_port sp) (service_ref sp)]))))"

definition AWSUserDataFile :: string where "AWSUserDataFile = ''infrafactory-user-data.sh''"

text \<open>
  The files of a generation with the script added, or why one is refused; \<open>fls\<close> is sorted by name, and
  \<open>clean\<close> is \<^verbatim>\<open>filepath.Clean\<close>.
\<close>

definition placeAWSUserData :: "(string \<Rightarrow> string) \<Rightarrow> (string \<times> string) list \<Rightarrow> string \<Rightarrow> string option
    \<Rightarrow> string + (string \<times> string) list" where
  "placeAWSUserData clean fls cloud script =
     (case filter (\<lambda>(n, _). equal_fold (clean n) AWSUserDataFile) fls of
        (n, _) # _ \<Rightarrow> Inl (''generated file '' @ quote n @ '' is refused: infrafactory renders '' @ AWSUserDataFile
          @ '' itself from the scenario'' @ [apostrophe] @ ''s service: block'')
      | [] \<Rightarrow>
          (case script of
             Some s \<Rightarrow> Inr (fls @ [(AWSUserDataFile, s)])
           | None \<Rightarrow>
               if cloud \<noteq> ''aws'' then Inr fls
               else (case filter (\<lambda>(_, t). contains t AWSUserDataFile) fls of
                   (n, _) # _ \<Rightarrow> Inl (n @ '' references '' @ AWSUserDataFile
                     @ '', but the scenario declares no service: block, so there is no script to boot: remove the reference'')
                 | [] \<Rightarrow> Inr fls)))"

subsection \<open>The user data EC2 holds\<close>

text \<open>\<^verbatim>\<open>base64.StdEncoding.DecodeString\<close>: line breaks are skipped, padding ends the text.\<close>

definition base64_value :: "char \<Rightarrow> nat option" where
  "base64_value c =
     (if char_between CHR ''A'' CHR ''Z'' c then Some (of_char c - 65)
      else if char_between CHR ''a'' CHR ''z'' c then Some (of_char c - 71)
      else if is_digit c then Some (of_char c + 4)
      else if c = CHR ''+'' then Some 62 else if c = CHR ''/'' then Some 63 else None)"

definition byte1 :: "nat \<Rightarrow> nat \<Rightarrow> char" where "byte1 a b = char_of (4 * a + b div 16)"
definition byte2 :: "nat \<Rightarrow> nat \<Rightarrow> char" where "byte2 b c = char_of (16 * (b mod 16) + c div 4)"
definition byte3 :: "nat \<Rightarrow> nat \<Rightarrow> char" where "byte3 c d = char_of (64 * (c mod 4) + d)"

fun base64_quads :: "string \<Rightarrow> string option" where
  "base64_quads [] = Some []"
| "base64_quads (w # x # y # z # s) =
     (case (base64_value w, base64_value x) of
        (Some a, Some b) \<Rightarrow>
          if y = CHR ''='' then (if z = CHR ''='' \<and> s = [] then Some [byte1 a b] else None)
          else (case base64_value y of
              None \<Rightarrow> None
            | Some c \<Rightarrow>
                if z = CHR ''='' then (if s = [] then Some [byte1 a b, byte2 b c] else None)
                else (case (base64_value z, base64_quads s) of
                    (Some d, Some rest) \<Rightarrow> Some (byte1 a b # byte2 b c # byte3 c d # rest)
                  | _ \<Rightarrow> None))
      | _ \<Rightarrow> None)"
| "base64_quads s = None"

definition base64_decode :: "string \<Rightarrow> string option" where
  "base64_decode s = base64_quads (filter (\<lambda>c. c \<noteq> CHR 0x0A \<and> c \<noteq> CHR 0x0D) s)"

record 'w user_data_env =
  ue_client :: bool \<comment> \<open>an HTTP client for EC2 is configured\<close>
  ue_describe :: "string \<Rightarrow> 'w \<Rightarrow> (string + string option) \<times> 'w" \<comment> \<open>DescribeInstanceAttribute: the value, base64\<close>
  ue_base64_error :: "string \<Rightarrow> string" \<comment> \<open>how Go words a decoding error\<close>

definition awsInstanceIDRe :: regex where
  "awsInstanceIDRe = seqs [At_Start, text_re ''i-'', some_re (Chr (\<lambda>c. is_digit c \<or> char_between CHR ''a'' CHR ''f'' c)), At_End]"

text \<open>Why the sealed environment makes no client.\<close>

definition sealedAWSConfig :: "env \<Rightarrow> string \<Rightarrow> string option" where
  "sealedAWSConfig e client =
     (if \<not> ValidAWSRegion (env_get e ''AWS_REGION'')
      then Some (client @ '': region '' @ quote (env_get e ''AWS_REGION'') @ '' is not an AWS region name'')
      else if env_get e ''AWS_ACCESS_KEY_ID'' = [] \<or> env_get e ''AWS_SECRET_ACCESS_KEY'' = []
      then Some (client @ '': the sealed env has no AWS_ACCESS_KEY_ID or AWS_SECRET_ACCESS_KEY'')
      else None)"

definition newAWSEC2Client :: "'w user_data_env \<Rightarrow> env \<Rightarrow> string option" where
  "newAWSEC2Client ue e =
     (if \<not> ue_client ue then Some ''aws ec2 client: needs an HTTP client, and none was given''
      else sealedAWSConfig e ''aws ec2 client'')"

definition AWSInstanceUserData :: "'w user_data_env \<Rightarrow> env \<Rightarrow> string \<Rightarrow> 'w aws_world
    \<Rightarrow> (string + string) \<times> 'w aws_world" where
  "AWSInstanceUserData ue e i st =
     (if \<not> matches awsInstanceIDRe i then (Inl (''aws ec2: '' @ quote i @ '' is not an instance id''), st)
      else (case newAWSEC2Client ue e of
          Some er \<Rightarrow> (Inl er, st)
        | None \<Rightarrow>
            (case ue_describe ue i (az_world st) of (r, w) \<Rightarrow>
               ((case r of
                   Inl er \<Rightarrow> Inl (''aws ec2: DescribeInstanceAttribute userData for '' @ i @ '' failed: '' @ er)
                 | Inr None \<Rightarrow> Inl (''aws ec2: instance '' @ i @ '' reports no user data'')
                 | Inr (Some v) \<Rightarrow>
                     if v = [] then Inl (''aws ec2: instance '' @ i @ '' reports empty user data'')
                     else (case base64_decode v of
                         None \<Rightarrow> Inl (''aws ec2: instance '' @ i @ [apostrophe] @ ''s user data is not base64: '' @ ue_base64_error ue v)
                       | Some d \<Rightarrow> Inr d)),
                sent_call (Describe_One ''DescribeInstanceAttribute'' i) w st))))"

definition AWSStateInstanceID :: "string \<Rightarrow> json_file \<Rightarrow> string + string" where
  "AWSStateInstanceID workDir f =
     (case loadLiveTerraformState (state_path workDir) f of
        Inl e \<Rightarrow> Inl (err_text e)
      | Inr st \<Rightarrow>
          (case concat (map (\<lambda>r. map (\<lambda>a. attr a ''id'') (tf_instances r))
                 (filter (\<lambda>r. tf_type r = ''aws_instance'' \<and> managedCloudResource r) st)) of
             [i] \<Rightarrow> if i = [] then Inl (''the live state'' @ [apostrophe] @ ''s aws_instance has no id'') else Inr i
           | ids \<Rightarrow> Inl (''the live state holds '' @ nat_digits (length ids) @ '' managed aws_instance, want exactly one'')))"

subsection \<open>The checks\<close>

definition live_file :: "'v aws_run \<Rightarrow> 'v world aws_world \<Rightarrow> json_file" where
  "live_file ar st = live_state (ar_rt ar) (w_api (az_world st)) (ar_dir ar)"

definition awsAccountCheck :: "'v aws_run \<Rightarrow> 'v world aws_world \<Rightarrow> string option" where
  "awsAccountCheck ar st =
     (case UnplacedAWSResources (ar_dir ar) (live_file ar st) (ar_account ar) of
        Inl e \<Rightarrow> Some e
      | Inr [] \<Rightarrow> None
      | Inr us \<Rightarrow> Some (''resources not placed in the configured account: ['' @ join '' '' us @ '']''))"

definition awsUserDataCheck :: "'v aws_run \<Rightarrow> 'v world user_data_env \<Rightarrow> service_spec option \<Rightarrow> env \<Rightarrow> 'v world aws_world
    \<Rightarrow> (string + string) \<times> 'v world aws_world" where
  "awsUserDataCheck ar ue sp e st =
     (if \<not> ue_client ue then (Inl (''no EC2 client to read the instance'' @ [apostrophe] @ ''s user data with''), st)
      else (case sp of
          None \<Rightarrow> (Inl ''the scenario has no service: block to render the expected user data from'', st)
        | Some s \<Rightarrow>
     (case renderAWSUserData s of
        Inl er \<Rightarrow> (Inl er, st)
      | Inr want \<Rightarrow>
     (case AWSStateInstanceID (ar_dir ar) (live_file ar st) of
        Inl er \<Rightarrow> (Inl er, st)
      | Inr i \<Rightarrow>
     (case AWSInstanceUserData ue e i st of
        (Inl er, st1) \<Rightarrow> (Inl er, st1)
      | (Inr got, st1) \<Rightarrow>
          (if got \<noteq> want then Inl (''instance '' @ i @ '' does not run the rendered user data'')
           else Inr (''instance '' @ i @ '' runs the rendered user data''), st1))))))"

definition post_apply_failed :: "string \<Rightarrow> string \<Rightarrow> report" where
  "post_apply_failed name e =
     ([stage sandbox_deploy name StageStatusFail []], [failing sandbox_deploy name name ''aws post-apply check'' e])"

definition appendAWSPostApplyChecks :: "'v aws_run \<Rightarrow> 'v world user_data_env \<Rightarrow> service_spec option \<Rightarrow> env \<Rightarrow> report
    \<Rightarrow> 'v world aws_world \<Rightarrow> (report \<times> bool) \<times> 'v world aws_world" where
  "appendAWSPostApplyChecks ar ue sp e rep st =
     (case awsAccountCheck ar st of
        Some er \<Rightarrow> ((both rep (post_apply_failed ''account_check'' er), False), st)
      | None \<Rightarrow>
          let rep1 = both rep ([stage sandbox_deploy ''account_check'' StageStatusPass []], []) in
          (case awsUserDataCheck ar ue sp e st of
             (Inl er, st1) \<Rightarrow> ((both rep1 (post_apply_failed ''user_data_check'' er), False), st1)
           | (Inr detail, st1) \<Rightarrow>
               ((both rep1 ([stage sandbox_deploy ''user_data_check'' StageStatusPass detail], []), True), st1)))"

subsection \<open>The script cannot be escaped\<close>

text \<open>A match of a pattern whose classes lie in \<open>Q\<close> eats bytes of \<open>Q\<close> only.\<close>

primrec only :: "(char \<Rightarrow> bool) \<Rightarrow> regex \<Rightarrow> bool" where
  "only Q Eps = True"
| "only Q (Chr p) = (\<forall>c. p c \<longrightarrow> Q c)"
| "only Q (Seq r s) = (only Q r \<and> only Q s)"
| "only Q (Alt r s) = (only Q r \<and> only Q s)"
| "only Q (Star g r) = only Q r"
| "only Q (Grp i r) = only Q r"
| "only Q Word_Boundary = True"
| "only Q At_Start = True"
| "only Q At_End = True"
| "only Q At_Line_Start = True"
| "only Q At_Line_End = True"

definition ate :: "(char \<Rightarrow> bool) \<Rightarrow> mstate \<Rightarrow> mstate \<Rightarrow> bool" where
  "ate Q m m' \<longleftrightarrow> (\<exists>e. m_rest m = e @ m_rest m' \<and> list_all Q e)"

lemma ate_refl [simp]: "ate Q m m"
  by (simp add: ate_def)

lemma ate_trans: "ate Q m m1 \<Longrightarrow> ate Q m1 m2 \<Longrightarrow> ate Q m m2"
  unfolding ate_def by (elim exE conjE, rule exI [of _ "_ @ _"]) auto

lemma star_ways_ate:
  assumes "\<And>m m'. m' \<in> set (f m) \<Longrightarrow> ate Q m m'"
  shows "m' \<in> set (star_ways n g f m) \<Longrightarrow> ate Q m m'"
proof (induction n arbitrary: m)
  case (Suc n)
  then consider "m' = m" | m1 where "m1 \<in> set (f m)" "m' \<in> set (star_ways n g f m1)"
    by (auto simp: Let_def split: if_splits)
  then show ?case by cases (auto intro: ate_trans Suc.IH assms)
qed simp

lemma ways_ate: "only Q r \<Longrightarrow> m' \<in> set (ways r m) \<Longrightarrow> ate Q m m'"
proof (induction r arbitrary: m m')
  case (Chr p)
  then show ?case by (cases "m_rest m") (auto simp: ate_def split: if_splits)
next
  case (Seq r1 r2)
  then show ?case by (fastforce intro: ate_trans)
next
  case (Star g r)
  then show ?case using star_ways_ate [of "ways r" Q] by (metis only.simps(5) ways.simps(5))
next
  case (Grp i r)
  then show ?case by (auto simp: ate_def)
qed (auto split: if_splits)

lemma anchored_start: "find_from (Seq At_Start r) (Some c) s = None"
  by (induction s arbitrary: c) (subst find_from.simps, simp add: match_here_def head_opt_def)+

lemma anchored_match:
  assumes "matches (Seq At_Start r) s" obtains m where "m \<in> set (ways r \<lparr>m_before = None, m_rest = s, m_caps = []\<rparr>)"
proof -
  from assms have "match_here (Seq At_Start r) None s \<noteq> None"
    unfolding matches_def find_first_def by (subst (asm) find_from.simps) (auto simp: anchored_start split: option.splits list.splits)
  then show thesis using that by (auto simp: match_here_def head_opt_def split: list.splits)
qed

lemma anchored_only:
  assumes "matches (seqs [At_Start, r1, r2, At_End]) s" "only Q r1" "only Q r2"
  shows "list_all Q s"
proof -
  obtain m where m: "m \<in> set (ways (Seq r1 (Seq r2 (Seq At_End Eps))) \<lparr>m_before = None, m_rest = s, m_caps = []\<rparr>)"
    using anchored_match [of "Seq r1 (Seq r2 (Seq At_End Eps))" s] assms(1) by auto
  then have "m_rest m = []" by (auto split: if_splits)
  moreover have "ate Q \<lparr>m_before = None, m_rest = s, m_caps = []\<rparr> m"
    by (rule ways_ate [OF _ m]) (simp add: assms)
  ultimately show ?thesis by (auto simp: ate_def)
qed

lemma only_up_to: "only Q r \<Longrightarrow> only Q (up_to n r)"
  by (induction n) (simp_all add: opt_re_def)

text \<open>What a shell reads literally even outside quotes.\<close>

definition plain_byte :: "char \<Rightarrow> bool" where
  "plain_byte c \<longleftrightarrow> word_char c \<or> c \<in> set ''.:/-''"

lemma image_plain: "matches awsUserDataImageRe s \<Longrightarrow> list_all plain_byte s"
  unfolding awsUserDataImageRe_def
  by (erule anchored_only) (auto simp: many_def lower_alnum_def plain_byte_def word_char_def is_digit_def)

lemma tag_plain: "matches awsUserDataTagRe s \<Longrightarrow> list_all plain_byte s"
  unfolding awsUserDataTagRe_def
  by (erule anchored_only) (auto intro!: only_up_to simp: plain_byte_def)

text \<open>
  Whatever a scenario declares as its service, the script that runs as root on the instance's first
  boot is five fixed lines and one \<^verbatim>\<open>docker run\<close> of the declared image and port: the reference between the
  quotes is made of bytes a shell takes literally, so it can neither end the quotes nor start another
  command, and the port is a port.
\<close>

theorem user_data_runs_the_image:
  "case renderAWSUserData sp of
     Inl _ \<Rightarrow> True
   | Inr script \<Rightarrow> list_all plain_byte (service_ref sp) \<and> 1 \<le> ss_port sp \<and> ss_port sp \<le> 65535
       \<and> script = concat (map (\<lambda>l. l @ newline) script_lines) @ ''docker run -d --restart=always -p ''
           @ itoa (ss_port sp) @ '':'' @ itoa (ss_port sp) @ '' '' @ [apostrophe] @ service_ref sp @ [apostrophe] @ newline"
proof (cases "renderAWSUserData sp")
  case (Inr script)
  then have "list_all plain_byte (ss_image sp)" "list_all plain_byte (ss_tag sp)"
    by (auto simp: renderAWSUserData_def intro: image_plain tag_plain split: if_splits)
  moreover have "plain_byte CHR '':''" by (simp add: plain_byte_def)
  ultimately show ?thesis using Inr
    by (auto simp: renderAWSUserData_def service_ref_def run_line_def split: if_splits)
qed simp

subsection \<open>What a pass means\<close>

text \<open>
  A child is placed through its parents, each the id of a resource the state manages; any other resource
  by its ARN and its owner, of which it carries one at least and none that names another account.
\<close>

definition placed_aws :: "tf_state \<Rightarrow> string \<Rightarrow> tf_resource \<Rightarrow> members \<Rightarrow> bool" where
  "placed_aws st account r a \<longleftrightarrow>
     (case AWSChildScopedTypes (tf_type r) of
        Some parents \<Rightarrow> list_all (\<lambda>k. list_ex (\<lambda>p. managedCloudResource p
          \<and> list_ex (\<lambda>b. attr b ''id'' = attr a k \<and> attr a k \<noteq> []) (tf_instances p)) st) parents
      | None \<Rightarrow> (attr a ''arn'' \<noteq> [] \<or> attr a ''owner_id'' \<noteq> [])
          \<and> (attr a ''arn'' \<noteq> [] \<longrightarrow> arn_account (attr a ''arn'') = Some account)
          \<and> (attr a ''owner_id'' \<noteq> [] \<longrightarrow> attr a ''owner_id'' = account))"

lemma account_refusal_Nil: "account_refusal account as = [] \<longleftrightarrow> as \<noteq> [] \<and> set as \<subseteq> {account}"
  by (auto simp: account_refusal_def filter_empty_conv split: list.splits dest: filter_eq_ConsD)

lemma awsAccountRefusal_Nil:
  "account \<noteq> [] \<Longrightarrow> awsAccountRefusal a account = [] \<longleftrightarrow>
     (attr a ''arn'' \<noteq> [] \<or> attr a ''owner_id'' \<noteq> [])
     \<and> (attr a ''arn'' \<noteq> [] \<longrightarrow> arn_account (attr a ''arn'') = Some account)
     \<and> (attr a ''owner_id'' \<noteq> [] \<longrightarrow> attr a ''owner_id'' = account)"
  by (auto simp: awsAccountRefusal_def Let_def account_refusal_Nil split: option.splits)

lemma managed_id_in:
  "i \<in> set (managed_ids st) \<longleftrightarrow> list_ex (\<lambda>p. managedCloudResource p
     \<and> list_ex (\<lambda>b. attr b ''id'' = i \<and> i \<noteq> []) (tf_instances p)) st"
  by (auto simp: managed_ids_def list_ex_iff)

lemma unplaced_aws_Nil:
  assumes "account \<noteq> []"
  shows "unplaced_aws (managed_ids st) account r a = [] \<longleftrightarrow> placed_aws st account r a"
proof (cases "AWSChildScopedTypes (tf_type r)")
  case None
  with awsAccountRefusal_Nil [OF assms, of a] show ?thesis by (simp add: unplaced_aws_def placed_aws_def Let_def)
next
  case (Some parents)
  then show ?thesis
    by (simp add: unplaced_aws_def placed_aws_def unplacedAWSChild_def Let_def filter_empty_conv managed_id_in list_all_iff)
qed

definition all_placed :: "tf_state \<Rightarrow> string \<Rightarrow> bool" where
  "all_placed st account \<longleftrightarrow> list_all (\<lambda>r. list_all (placed_aws st account r) (tf_instances r)) (filter managedCloudResource st)"

lemma account_check_passes:
  "awsAccountCheck ar st = None \<Longrightarrow>
     \<exists>tf. loadLiveTerraformState (state_path (ar_dir ar)) (live_file ar st) = Inr tf \<and> all_placed tf (ar_account ar)"
  by (cases "ar_account ar = []")
    (auto simp: awsAccountCheck_def UnplacedAWSResources_def all_placed_def list_all_iff unplaced_aws_Nil
      split: sum.splits list.splits if_splits)

text \<open>The one instance of the state runs the script of the service, as EC2 answered for it.\<close>

definition runs_rendered :: "'v aws_run \<Rightarrow> 'v world user_data_env \<Rightarrow> service_spec option \<Rightarrow> 'v world aws_world \<Rightarrow> 'v world aws_world \<Rightarrow> bool" where
  "runs_rendered ar ue sp st st' \<longleftrightarrow>
     (\<exists>s script i v. sp = Some s \<and> renderAWSUserData s = Inr script
        \<and> AWSStateInstanceID (ar_dir ar) (live_file ar st) = Inr i
        \<and> ue_describe ue i (az_world st) = (Inr (Some v), az_world st') \<and> v \<noteq> [] \<and> base64_decode v = Some script)"

lemma user_data_check_passes:
  "awsUserDataCheck ar ue sp e st = (Inr detail, st') \<Longrightarrow> runs_rendered ar ue sp st st'"
  by (auto simp: awsUserDataCheck_def AWSInstanceUserData_def runs_rendered_def sent_call_def
      split: if_splits option.splits sum.splits prod.splits)

lemma user_data_check_asks:
  "awsUserDataCheck ar ue sp e st = (r, st') \<Longrightarrow>
     st' = st \<or> (\<exists>i. az_log st' = az_log st @ [Describe_One ''DescribeInstanceAttribute'' i] \<and> az_claim st' = az_claim st)"
  by (auto simp: awsUserDataCheck_def AWSInstanceUserData_def sent_call_def
      split: if_splits option.splits sum.splits prod.splits)

text \<open>
  C10. The checks after an AWS apply pass only on evidence: every resource the live state manages is placed
  in the configured account, and the only instance in it runs, as EC2 answered, exactly the script
  rendered from the scenario's service. Otherwise one failure and one failing line are added. The
  checks send at most one request, which changes nothing.
\<close>

theorem post_apply_pass_is_evidence:
  "case appendAWSPostApplyChecks ar ue sp e rep st of ((rep', ok), st') \<Rightarrow>
     (if ok
      then snd rep' = snd rep \<and> runs_rendered ar ue sp st st'
        \<and> (\<exists>tf. loadLiveTerraformState (state_path (ar_dir ar)) (live_file ar st) = Inr tf \<and> all_placed tf (ar_account ar))
      else \<exists>f. snd rep' = snd rep @ [f]
        \<and> last (fst rep') = stage sandbox_deploy (fs_stage f) StageStatusFail [])
     \<and> az_claim st' = az_claim st
     \<and> (\<exists>calls. az_log st' = az_log st @ calls \<and> length calls \<le> 1 \<and> \<not> list_ex changes_claim calls)"
proof (cases "awsAccountCheck ar st")
  case (Some er)
  then show ?thesis by (simp add: appendAWSPostApplyChecks_def both_def post_apply_failed_def failing_def)
next
  case None
  obtain r st1 where check: "awsUserDataCheck ar ue sp e st = (r, st1)" by fastforce
  note user_data_check_asks [OF check]
  moreover have "runs_rendered ar ue sp st st1" if "r = Inr d" for d
    using check user_data_check_passes unfolding that by blast
  ultimately show ?thesis using None account_check_passes [OF None] check
    by (cases r) (auto simp: appendAWSPostApplyChecks_def Let_def both_def post_apply_failed_def failing_def)
qed

end
