(* ===== verification/Probe.thy ===== *)
theory Probe
  imports Run_Project Corpus
begin

text \<open>
  The real probes, \<^verbatim>\<open>harness/real_probe.go\<close>: what a check of a running stack asks, how often, and what
  it makes of the answers. The network is a parameter on a world \<open>'w\<close>: a dial, a lookup, a request and
  the wait between attempts, each of which may find the context ended. Nothing is assumed of it.

  The members of a decoded object stand in the order Go's map iteration takes; it shows only where two
  paths into an object are spelt the same.
\<close>

subsection \<open>The network\<close>

record 'w probe_net =
  pn_dial :: "string \<Rightarrow> 'w \<Rightarrow> string option \<times> 'w"
  pn_lookup :: "string \<Rightarrow> 'w \<Rightarrow> (string + string list) \<times> 'w"
  pn_get :: "string \<Rightarrow> 'w \<Rightarrow> (string + int) \<times> 'w"
  pn_wait :: "'w \<Rightarrow> string option \<times> 'w" \<comment> \<open>between attempts; why the context ended meanwhile\<close>
  pn_bad_url :: "string \<Rightarrow> string option" \<comment> \<open>why a URL does not parse\<close>
  pn_elapsed :: "'w \<Rightarrow> 'w \<Rightarrow> string" \<comment> \<open>the seconds between two moments, as \<^verbatim>\<open>%.1f\<close> prints them\<close>
  pn_retries :: int
  pn_waits :: bool \<comment> \<open>the configured delay is positive\<close>

subsection \<open>The address of a target\<close>

definition probeTargetResourceTypes :: "string \<Rightarrow> string list" where
  "probeTargetResourceTypes target =
     (if target = ''load_balancer'' then [''scaleway_lb_ip'', ''scaleway_lb'',
        ''google_compute_global_address'', ''google_compute_forwarding_rule'', ''aws_lb'', ''aws_lb_target_group'']
      else if target = ''database'' then [''scaleway_rdb_instance'', ''google_sql_database_instance'', ''aws_db_instance'']
      else if target = ''redis'' then [''scaleway_redis_cluster'', ''google_redis_instance'', ''aws_elasticache_cluster'']
      else if target = ''compute'' then [''scaleway_instance_server'', ''google_compute_instance'', ''aws_instance'']
      else if target = ''kubernetes'' then [''scaleway_k8s_cluster'', ''google_container_cluster'', ''aws_eks_cluster'']
      else [])"

text \<open>The members a Go map keeps: of those with one key, the last.\<close>

fun latest :: "(string \<times> 'a) list \<Rightarrow> (string \<times> 'a) list" where
  "latest [] = []"
| "latest ((k, v) # m) = (if k \<in> fst ` set m then latest m else (k, v) # latest m)"

lemma latest_subset: "set (latest m) \<subseteq> set m"
  by (induction m rule: latest.induct) auto

lemma map_of_latest: "map_of (latest m) = map_of (rev m)"
proof (induction m rule: latest.induct)
  case (2 k v m)
  have "k \<notin> fst ` set m \<Longrightarrow> map_of (rev m) k = None" by (simp add: map_of_eq_None_iff)
  with 2 show ?case by (auto simp: map_add_def fun_eq_iff map_of_eq_None_iff image_iff split: option.splits; force)
qed simp

lemma distinct_latest: "distinct (map fst (latest m))"
proof (induction m rule: latest.induct)
  case (2 k v m)
  moreover have "fst ` set (latest m) \<subseteq> fst ` set m" using latest_subset by (rule image_mono)
  ultimately show ?case by auto
qed simp

lemma member_size: "(k, v) \<in> set m \<Longrightarrow> size v < Suc (size_list (size_prod (\<lambda>_. 0) size) m)"
  by (induction m) auto

text \<open>A path into a value, and the string there.\<close>

function flattenStringValues :: "json \<Rightarrow> string \<Rightarrow> (string \<times> string) list" where
  "flattenStringValues (JObj m) path =
     concat (map (\<lambda>(k, v). flattenStringValues v (if path = [] then k else path @ ''.'' @ k)) (latest m))"
| "flattenStringValues (JArr vs) path =
     concat (map (\<lambda>(i, v). flattenStringValues v
         (if path = [] then nat_digits i else path @ ''.'' @ nat_digits i)) (enumerate 0 vs))"
| "flattenStringValues (JStr s) path = [(path, s)]"
| "flattenStringValues JNull path = []"
| "flattenStringValues (JBool b) path = []"
| "flattenStringValues (JNum n b) path = []"
  by pat_completeness auto

lemma latest_size: "(k, v) \<in> set (latest m) \<Longrightarrow> size v < Suc (size_list (size_prod (\<lambda>_. 0) size) m)"
  by (rule member_size) (rule subsetD [OF latest_subset])

lemma enumerate_size: "(i, v) \<in> set (enumerate n vs) \<Longrightarrow> size v < Suc (size_list size vs)"
  by (induction vs arbitrary: n) fastforce+

termination flattenStringValues
  by (relation "measure (\<lambda>(v, _). size v)") (auto intro: latest_size enumerate_size)

text \<open>
  \<^verbatim>\<open>net.ParseIP\<close> on texts without a dot (a text with one is a host name or holds a slash or a space,
  which no address does): eight groups of hexadecimal digits, or fewer around one double colon.
\<close>

definition hex_group :: "string \<Rightarrow> bool" where
  "hex_group s \<longleftrightarrow> s \<noteq> [] \<and> length s \<le> 4
     \<and> list_all (\<lambda>c. is_digit c \<or> char_between CHR ''a'' CHR ''f'' (lower_char c)) s"

definition groups_of :: "string \<Rightarrow> string list" where
  "groups_of s = (if s = [] then [] else split_on CHR '':'' s)"

definition undotted_ip :: "string \<Rightarrow> bool" where
  "undotted_ip s \<longleftrightarrow>
     (case str_index s ''::'' of
        None \<Rightarrow> length (groups_of s) = 8 \<and> list_all hex_group (groups_of s)
      | Some k \<Rightarrow> (let gs = groups_of (take k s) @ groups_of (drop (k + 2) s) in
          length gs \<le> 7 \<and> list_all hex_group gs))"

definition isHostname :: "string \<Rightarrow> bool" where
  "isHostname v \<longleftrightarrow> \<not> (contains v ''://'' \<or> contains v ''/'' \<or> contains v '' '') \<and> contains v ''.''"

definition scoreProbeKey :: "string \<Rightarrow> string list \<Rightarrow> nat" where
  "scoreProbeKey key patterns =
     (case filter (\<lambda>(i, p). contains (to_lower key) (to_lower p)) (enumerate 0 patterns) of
        [] \<Rightarrow> length patterns + 1 | (i, _) # _ \<Rightarrow> i)"

definition host_patterns :: "string \<Rightarrow> string list" where
  "host_patterns ty =
     (if ty = ''scaleway_rdb_instance'' then [''endpoint_ip'', ''private_network.0'', ''load_balancer_ip'', ''host'', ''address'', ''ip'']
      else if ty = ''scaleway_lb_ip'' then [''ip_address'', ''address'', ''ip'']
      else if ty = ''scaleway_instance_server'' then [''public_ip.0.address'', ''public_ip'', ''private_ip'', ''address'', ''ip'']
      else if ty = ''google_compute_global_address'' then [''address'', ''ip_address'', ''ip'']
      else if ty = ''google_compute_forwarding_rule'' then [''ip_address'', ''address'', ''ip'']
      else if ty = ''google_sql_database_instance'' then [''public_ip_address'', ''private_ip_address'',
        ''first_ip_address'', ''ip_address'', ''host'', ''address'', ''ip'']
      else if ty = ''google_redis_instance'' then [''host'', ''read_endpoint'', ''address'', ''ip'']
      else if ty = ''google_compute_instance'' then [''network_interface.0.access_config.0.nat_ip'',
        ''network_interface.0.network_ip'', ''public_ip'', ''private_ip'', ''address'', ''ip'']
      else if ty = ''google_container_cluster'' then [''endpoint'', ''private_cluster_config.0.private_endpoint'', ''address'', ''ip'']
      else [''ip_address'', ''public_ip'', ''private_ip'', ''endpoint'', ''host'', ''hostname'', ''address'', ''ip''])"

definition host_candidates :: "members \<Rightarrow> (string \<times> string) list" where
  "host_candidates attrs =
     filter (\<lambda>(_, v). undotted_ip v \<or> isHostname v) (latest (flattenStringValues (JObj attrs) []))"

definition pickHost :: "members \<Rightarrow> string \<Rightarrow> string" where
  "pickHost attrs ty =
     (case sort_key (\<lambda>(k, _). scoreProbeKey k (host_patterns ty)) (sort_key fst (host_candidates attrs)) of
        [] \<Rightarrow> [] | (_, v) # _ \<Rightarrow> v)"

text \<open>The first that is not empty.\<close>

definition first_text :: "string list \<Rightarrow> string" where
  "first_text ss = (case filter (\<lambda>s. s \<noteq> []) ss of [] \<Rightarrow> [] | s # _ \<Rightarrow> s)"

definition findHostForResourceType :: "tf_state \<Rightarrow> string \<Rightarrow> string" where
  "findHostForResourceType st ty =
     first_text (concat (map (\<lambda>r. map (\<lambda>a. pickHost a ty) (tf_instances r)) (filter (\<lambda>r. tf_type r = ty) st)))"

definition resolveProbeHostResource :: "tf_state \<Rightarrow> string \<Rightarrow> string + string \<times> string" where
  "resolveProbeHostResource st target =
     (let types = probeTargetResourceTypes target in
      if types = [] then Inl (''no live endpoint mapping for target '' @ quote target)
      else (case filter (\<lambda>ty. findHostForResourceType st ty \<noteq> []) types of
          [] \<Rightarrow> Inl (''could not resolve live endpoint for target '' @ quote target)
        | ty # _ \<Rightarrow> Inr (findHostForResourceType st ty, ty)))"

definition resolveProbeHost :: "tf_state \<Rightarrow> string \<Rightarrow> string + string" where
  "resolveProbeHost st target = map_sum (\<lambda>e. e) fst (resolveProbeHostResource st target)"

definition LiveEndpointResource :: "string \<Rightarrow> json_file \<Rightarrow> string \<Rightarrow> string + string \<times> string" where
  "LiveEndpointResource workDir f target =
     (case loadLiveTerraformState (state_path workDir) f of
        Inl e \<Rightarrow> Inl (err_text e) | Inr st \<Rightarrow> resolveProbeHostResource st target)"

definition LiveEndpoint :: "string \<Rightarrow> json_file \<Rightarrow> string \<Rightarrow> string + string" where
  "LiveEndpoint workDir f target = map_sum (\<lambda>e. e) fst (LiveEndpointResource workDir f target)"

subsection \<open>A check and its record\<close>

record probe_check =
  pc_type :: string
  pc_expect :: string
  pc_from :: string
  pc_to :: string
  pc_target :: string
  pc_port :: int
  pc_domain :: string

record probe_record =
  pr_kind :: string
  pr_address :: string
  pr_expect :: string
  pr_status :: string
  pr_passed :: bool
  pr_attempts :: nat
  pr_seconds :: string

definition record_text :: "probe_record \<Rightarrow> string" where
  "record_text r =
     (let head = pr_kind r @ '' '' @ pr_address r @ '' expect '' @ pr_expect r @ '': '' @ pr_status r in
      if pr_passed r then head @ '', succeeded after '' @ nat_digits (pr_attempts r) @ '' attempt(s) in '' @ pr_seconds r @ ''s''
      else if pr_attempts r = 0 then head @ '', not attempted''
      else head @ '', no success after '' @ nat_digits (pr_attempts r) @ '' attempt(s)'')"

definition ProbeRecordsDetail :: "probe_record list \<Rightarrow> string" where
  "ProbeRecordsDetail rs = (if rs = [] then ''no per-check records'' else join ''; '' (map record_text rs))"

subsection \<open>Attempts\<close>

text \<open>
  An attempt is asked with the status so far and gives the status it leaves and, when it failed, why.
  \<open>attempts_from\<close> has made \<open>n - 1\<close> of them and has \<open>left\<close> to make.
\<close>

type_synonym 'w attempt = "string \<Rightarrow> 'w \<Rightarrow> (string \<times> string option) \<times> 'w"

fun attempts_from :: "'w probe_net \<Rightarrow> 'w attempt \<Rightarrow> nat \<Rightarrow> nat \<Rightarrow> string \<Rightarrow> 'w
    \<Rightarrow> (nat \<times> string \<times> string option) \<times> 'w" where
  "attempts_from net ask n 0 status w = ((n, status, None), w)"
| "attempts_from net ask n (Suc left) status w =
     (case ask status w of
        ((st, None), w1) \<Rightarrow> ((n, st, None), w1)
      | ((st, Some e), w1) \<Rightarrow>
          if left = 0 then ((n, st, Some e), w1)
          else if pn_waits net
          then (case pn_wait net w1 of
                  (Some ended, w2) \<Rightarrow> ((n, st, Some ended), w2)
                | (None, w2) \<Rightarrow> attempts_from net ask (Suc n) left st w2)
          else attempts_from net ask (Suc n) left st w1)"

definition retry :: "'w probe_net \<Rightarrow> 'w attempt \<Rightarrow> 'w \<Rightarrow> (nat \<times> string \<times> string option) \<times> 'w" where
  "retry net ask w = attempts_from net ask 1 (nat (max 1 (pn_retries net))) [] w"

definition dial_once :: "'w probe_net \<Rightarrow> string \<Rightarrow> bool \<Rightarrow> 'w attempt" where
  "dial_once net address expectedSuccess status w =
     (case pn_dial net address w of (err, w1) \<Rightarrow>
        ((case err of None \<Rightarrow> ''connected'' | Some e \<Rightarrow> ''not connected: '' @ e,
          case err of
            None \<Rightarrow> if expectedSuccess then None else Some (''tcp connect '' @ address @ '' unexpectedly succeeded'')
          | Some e \<Rightarrow> if expectedSuccess then Some (''tcp connect '' @ address @ '': '' @ e) else None), w1))"

definition valid_port :: "int \<Rightarrow> bool" where
  "valid_port port \<longleftrightarrow> 1 \<le> port \<and> port \<le> 65535"

text \<open>\<^verbatim>\<open>net.JoinHostPort\<close>.\<close>

definition join_host_port :: "string \<Rightarrow> int \<Rightarrow> string" where
  "join_host_port host port = (if contains host '':'' then ''['' @ host @ '']'' else host) @ '':'' @ itoa port"

definition blank_record :: "string \<Rightarrow> string \<Rightarrow> string \<Rightarrow> probe_record" where
  "blank_record kind address expect = \<lparr>pr_kind = kind, pr_address = address, pr_expect = expect, pr_status = [],
     pr_passed = False, pr_attempts = 0, pr_seconds = []\<rparr>"

definition recorded :: "string \<Rightarrow> string \<Rightarrow> probe_record \<Rightarrow> (nat \<times> string \<times> string option) \<times> 'w
    \<Rightarrow> (probe_record \<times> string option) \<times> 'w" where
  "recorded what address r asked =
     (case asked of ((n, status, err), w) \<Rightarrow>
        ((r\<lparr>pr_attempts := n, pr_status := status\<rparr>, map_option (\<lambda>e. what @ '' probe '' @ address @ '': '' @ e) err), w))"

text \<open>A check that expects a refusal is asked once.\<close>

definition runConnectivityProbe :: "'w probe_net \<Rightarrow> string \<Rightarrow> int \<Rightarrow> string \<Rightarrow> 'w \<Rightarrow> (probe_record \<times> string option) \<times> 'w" where
  "runConnectivityProbe net host port expect w =
     (if \<not> valid_port port
      then ((blank_record ''connectivity'' [] expect, Some ''connectivity probe requires port between 1 and 65535''), w)
      else let address = join_host_port host port; expectedSuccess = (expect = ''success'');
               ask = dial_once net address expectedSuccess in
        recorded ''connectivity'' address (blank_record ''connectivity'' address expect)
          (if expectedSuccess then retry net ask w
           else (case ask [] w of ((st, e), w1) \<Rightarrow> ((1, st, e), w1))))"

definition get_once :: "'w probe_net \<Rightarrow> string \<Rightarrow> string \<Rightarrow> 'w attempt" where
  "get_once net url expect status w =
     (case pn_bad_url net url of
        Some e \<Rightarrow> ((status, Some e), w)
      | None \<Rightarrow>
          (case pn_get net url w of
             (Inl e, w1) \<Rightarrow> ((''no response: '' @ e, if expect = ''reachable'' then Some e else None), w1)
           | (Inr code, w1) \<Rightarrow>
               ((itoa code,
                 if expect = ''reachable'' then if 400 \<le> code then Some (''unexpected status '' @ itoa code) else None
                 else if code < 400 then Some (''unexpectedly reachable with status '' @ itoa code) else None), w1)))"

definition runHTTPProbe :: "'w probe_net \<Rightarrow> string \<Rightarrow> int \<Rightarrow> string \<Rightarrow> 'w \<Rightarrow> (probe_record \<times> string option) \<times> 'w" where
  "runHTTPProbe net host port expect w =
     (if \<not> valid_port port
      then ((blank_record ''http_probe'' [] expect, Some ''http_probe requires port between 1 and 65535''), w)
      else let url = ''http://'' @ join_host_port host port in
        recorded ''http'' url (blank_record ''http_probe'' url expect) (retry net (get_once net url expect) w))"

definition lookup_once :: "'w probe_net \<Rightarrow> string \<Rightarrow> string \<Rightarrow> 'w attempt" where
  "lookup_once net domain expect status w =
     (case pn_lookup net domain w of
        (Inl e, w1) \<Rightarrow> ((''not resolved: '' @ e, if expect = ''resolves'' then Some e else None), w1)
      | (Inr hosts, w1) \<Rightarrow>
          ((''resolved to '' @ nat_digits (length hosts) @ '' address(es)'',
            if expect = ''resolves'' then if hosts = [] then Some ''no A/AAAA records returned'' else None
            else if hosts = [] then None else Some (''unexpectedly resolved to '' @ join '', '' hosts)), w1))"

definition runDNSProbe :: "'w probe_net \<Rightarrow> string \<Rightarrow> string \<Rightarrow> 'w \<Rightarrow> (probe_record \<times> string option) \<times> 'w" where
  "runDNSProbe net domain expect w =
     recorded ''dns'' domain (blank_record ''dns_resolution'' domain expect) (retry net (lookup_once net domain expect) w)"

subsection \<open>A round of checks\<close>

text \<open>\<^verbatim>\<open>strings.ReplaceAll\<close> of a pattern that is not empty.\<close>

function replace_text :: "string \<Rightarrow> string \<Rightarrow> string \<Rightarrow> string" where
  "replace_text old new [] = []"
| "replace_text old new (c # s) =
     (if old \<noteq> [] \<and> has_prefix (c # s) old then new @ replace_text old new (drop (length old) (c # s))
      else c # replace_text old new s)"
  by pat_completeness auto
termination
  by (relation "measure (\<lambda>(_, _, s). length s)") auto

definition at_host :: "tf_state \<Rightarrow> string \<Rightarrow> probe_check \<Rightarrow> (string \<Rightarrow> 'w \<Rightarrow> (probe_record \<times> string option) \<times> 'w) \<Rightarrow> 'w
    \<Rightarrow> (probe_record \<times> string option) \<times> 'w" where
  "at_host st target c run w =
     (case resolveProbeHost st target of
        Inl e \<Rightarrow> ((blank_record (pc_type c) target (pc_expect c), Some e), w)
      | Inr host \<Rightarrow> run host w)"

definition run_check :: "'w probe_net \<Rightarrow> tf_state \<Rightarrow> string \<Rightarrow> probe_check \<Rightarrow> 'w
    \<Rightarrow> (probe_record \<times> string option) \<times> 'w" where
  "run_check net st scenarioName c w =
     (if pc_type c = ''connectivity''
      then at_host st (pc_to c) c (\<lambda>host. runConnectivityProbe net host (pc_port c) (pc_expect c)) w
      else if pc_type c = ''http_probe''
      then at_host st (pc_target c) c (\<lambda>host. runHTTPProbe net host (pc_port c) (pc_expect c)) w
      else if pc_type c = ''dns_resolution''
      then runDNSProbe net (replace_text ''{{scenario_name}}'' scenarioName (pc_domain c)) (pc_expect c) w
      else ((blank_record (pc_type c) [] (pc_expect c), None), w))"

definition probe_failure :: "string \<Rightarrow> string \<Rightarrow> failure" where
  "probe_failure check detail = no_failure\<lparr>f_layer := ''sandbox_deploy'', f_stage := ''real_probe'',
     f_status := ''fail'', f_check := check, f_command := ''real probe harness'', f_detail := detail\<rparr>"

text \<open>The record of a check and, when it failed, its failure.\<close>

definition judged :: "'w probe_net \<Rightarrow> probe_check \<Rightarrow> 'w \<Rightarrow> (probe_record \<times> string option) \<times> 'w
    \<Rightarrow> (probe_record \<times> failure list) \<times> 'w" where
  "judged net c w0 asked =
     (case asked of
        ((r, None), w) \<Rightarrow> ((r\<lparr>pr_passed := True, pr_seconds := pn_elapsed net w0 w\<rparr>, []), w)
      | ((r, Some e), w) \<Rightarrow> ((if pr_status r = [] then r\<lparr>pr_status := e\<rparr> else r, [probe_failure (pc_type c) e]), w))"

fun run_checks :: "'w probe_net \<Rightarrow> tf_state \<Rightarrow> string \<Rightarrow> probe_check list \<Rightarrow> 'w
    \<Rightarrow> (probe_record list \<times> failure list) \<times> 'w" where
  "run_checks net st scenarioName [] w = (([], []), w)"
| "run_checks net st scenarioName (c # cs) w =
     (case judged net c w (run_check net st scenarioName c w) of
        ((r, fs), w1) \<Rightarrow>
          (case run_checks net st scenarioName cs w1 of ((rs, gs), w2) \<Rightarrow> ((r # rs, fs @ gs), w2)))"

definition RealProbe_Run :: "'w probe_net \<Rightarrow> json_file \<Rightarrow> string \<Rightarrow> string \<Rightarrow> probe_check list \<Rightarrow> 'w
    \<Rightarrow> (go_error + probe_record list \<times> failure list) \<times> 'w" where
  "RealProbe_Run net f workDir scenarioName checks w =
     (case loadLiveTerraformState (state_path workDir) f of
        Inl e \<Rightarrow> (Inl e, w)
      | Inr st \<Rightarrow> (case run_checks net st scenarioName checks w of (r, w1) \<Rightarrow> (Inr r, w1)))"

subsection \<open>A pass rests on an answer\<close>

lemma attempts_from_result:
  "attempts_from net ask n left status w = ((n', st, e), w') \<Longrightarrow> 0 < left \<Longrightarrow>
     n \<le> n' \<and> n' < n + left \<and> (if e = None then \<exists>s u. ask s u = ((st, None), w') else True)"
proof (induction left arbitrary: n status w)
  case (Suc left)
  obtain st1 e1 w1 where asked: "ask status w = ((st1, e1), w1)" by (metis surj_pair)
  show ?case
  proof (cases "e1 = None \<or> left = 0")
    case True
    with Suc.prems asked show ?thesis by (cases e1) auto
  next
    case False
    obtain c w2 where waited: "pn_wait net w1 = (c, w2)" by fastforce
    with False asked Suc.prems consider
        (ended) "n' = n" "e \<noteq> None" | (next_one) w3 where "attempts_from net ask (Suc n) left st1 w3 = ((n', st, e), w')"
      by (cases c) (auto split: if_splits)
    then show ?thesis
    proof cases
      case next_one
      from Suc.IH [OF next_one] False show ?thesis by auto
    qed auto
  qed
qed simp

lemma retry_result:
  assumes "retry net ask w = ((n, st, e), w')"
  shows "1 \<le> n \<and> int n \<le> max 1 (pn_retries net) \<and> (if e = None then \<exists>s u. ask s u = ((st, None), w') else True)"
proof -
  have "0 < nat (max 1 (pn_retries net))" by simp
  with attempts_from_result [OF assms [unfolded retry_def]]
  have "1 \<le> n \<and> n < 1 + nat (max 1 (pn_retries net)) \<and> (if e = None then \<exists>s u. ask s u = ((st, None), w') else True)"
    by blast
  then show ?thesis by (auto simp: nat_less_iff)
qed

lemma recorded_result:
  "recorded what a r0 ((n, st, e), w1) = ((r, err), w') \<Longrightarrow>
     r = r0\<lparr>pr_attempts := n, pr_status := st\<rparr> \<and> (err = None \<longleftrightarrow> e = None)"
  by (cases e) (auto simp: recorded_def)

text \<open>What an answer has to be for a check to pass, by its kind.\<close>

definition dial_fits :: "'w probe_net \<Rightarrow> string \<Rightarrow> string \<Rightarrow> 'w \<Rightarrow> bool" where
  "dial_fits net expect address u \<longleftrightarrow> (fst (pn_dial net address u) = None \<longleftrightarrow> expect = ''success'')"

definition get_fits :: "'w probe_net \<Rightarrow> string \<Rightarrow> string \<Rightarrow> 'w \<Rightarrow> bool" where
  "get_fits net expect url u \<longleftrightarrow>
     ((case fst (pn_get net url u) of Inl _ \<Rightarrow> False | Inr code \<Rightarrow> code < 400) \<longleftrightarrow> expect = ''reachable'')"

definition lookup_fits :: "'w probe_net \<Rightarrow> string \<Rightarrow> string \<Rightarrow> 'w \<Rightarrow> bool" where
  "lookup_fits net expect domain u \<longleftrightarrow>
     ((case fst (pn_lookup net domain u) of Inl _ \<Rightarrow> False | Inr hosts \<Rightarrow> hosts \<noteq> []) \<longleftrightarrow> expect = ''resolves'')"

definition evidence :: "'w probe_net \<Rightarrow> string \<Rightarrow> probe_check \<Rightarrow> probe_record \<Rightarrow> bool" where
  "evidence net scenarioName c r \<longleftrightarrow>
     (if pc_type c = ''connectivity'' then \<exists>u. dial_fits net (pc_expect c) (pr_address r) u
      else if pc_type c = ''http_probe'' then \<exists>u. get_fits net (pc_expect c) (pr_address r) u
      else if pc_type c = ''dns_resolution''
      then pr_address r = replace_text ''{{scenario_name}}'' scenarioName (pc_domain c)
        \<and> (\<exists>u. lookup_fits net (pc_expect c) (pr_address r) u)
      else True)"

lemma dial_once_fits: "dial_once net a (e = ''success'') s u = ((st, None), w') \<Longrightarrow> dial_fits net e a u"
  by (auto simp: dial_once_def dial_fits_def split: prod.splits option.splits if_splits)

lemma get_once_fits: "get_once net url e s u = ((st, None), w') \<Longrightarrow> get_fits net e url u"
  by (auto simp: get_once_def get_fits_def split: prod.splits sum.splits option.splits if_splits)

lemma lookup_once_fits: "lookup_once net d e s u = ((st, None), w') \<Longrightarrow> lookup_fits net e d u"
  by (auto simp: lookup_once_def lookup_fits_def split: prod.splits sum.splits if_splits)

definition most_attempts :: "'w probe_net \<Rightarrow> probe_check \<Rightarrow> int" where
  "most_attempts net c = (if pc_type c = ''connectivity'' \<and> pc_expect c \<noteq> ''success'' then 1 else max 1 (pn_retries net))"

lemma connectivity_record:
  assumes "runConnectivityProbe net host port expect w = ((r, err), w')"
  shows "\<not> pr_passed r
    \<and> int (pr_attempts r) \<le> (if expect = ''success'' then max 1 (pn_retries net) else 1)
    \<and> (if err = None then \<exists>u. dial_fits net expect (pr_address r) u else True)"
proof (cases "valid_port port")
  case True
  let ?a = "join_host_port host port"
  let ?ask = "dial_once net ?a (expect = ''success'')"
  let ?asked = "if expect = ''success'' then retry net ?ask w else (case ?ask [] w of ((st, e), w1) \<Rightarrow> ((1, st, e), w1))"
  obtain n st e w1 where asked: "?asked = ((n, st, e), w1)" by (metis prod_cases3 surj_pair)
  with True assms have "recorded ''connectivity'' ?a (blank_record ''connectivity'' ?a expect) ((n, st, e), w1) = ((r, err), w')"
    by (simp only: runConnectivityProbe_def Let_def not_not if_True if_False simp_thms)
  note r = recorded_result [OF this]
  have "int n \<le> (if expect = ''success'' then max 1 (pn_retries net) else 1)
      \<and> (if e = None then \<exists>s u. ?ask s u = ((st, None), w1) else True)"
  proof (cases "expect = ''success''")
    case True
    with asked have "retry net ?ask w = ((n, st, e), w1)" by (simp only: if_True simp_thms)
    from retry_result [OF this] show ?thesis by (simp only: eqTrueI [OF True] if_True simp_thms) (elim conjE, assumption)
  next
    case False
    with asked have "n = 1" "?ask [] w = ((st, e), w1)" by (simp_all only: if_False split: prod.splits) simp_all
    with False show ?thesis by auto
  qed
  moreover from this have "if e = None then \<exists>u. dial_fits net expect ?a u else True"
    using dial_once_fits [of net ?a expect] by (cases e) (simp_all, blast)
  ultimately show ?thesis using r by (simp add: blank_record_def)
qed (use assms in \<open>auto simp: runConnectivityProbe_def blank_record_def\<close>)

lemma retried_record:
  assumes "recorded what a (blank_record kind a expect) (retry net ask w) = ((r, err), w')"
    and "\<And>s u st v. ask s u = ((st, None), v) \<Longrightarrow> fits u"
  shows "pr_address r = a \<and> \<not> pr_passed r \<and> int (pr_attempts r) \<le> max 1 (pn_retries net)
    \<and> (if err = None then \<exists>u. fits u else True)"
proof -
  obtain n st e w1 where asked: "retry net ask w = ((n, st, e), w1)" by (metis prod_cases3 surj_pair)
  have "if e = None then \<exists>u. fits u else True"
    using retry_result [OF asked] assms(2) by (cases e) (simp_all, blast)
  with recorded_result [OF assms(1) [unfolded asked]] retry_result [OF asked] show ?thesis
    by (simp add: blank_record_def)
qed

lemma http_record:
  assumes "runHTTPProbe net host port expect w = ((r, err), w')"
  shows "\<not> pr_passed r \<and> int (pr_attempts r) \<le> max 1 (pn_retries net)
    \<and> (if err = None then \<exists>u. get_fits net expect (pr_address r) u else True)"
proof (cases "valid_port port")
  case True
  let ?url = "''http://'' @ join_host_port host port"
  from True assms have "recorded ''http'' ?url (blank_record ''http_probe'' ?url expect)
      (retry net (get_once net ?url expect) w) = ((r, err), w')"
    by (simp only: runHTTPProbe_def Let_def not_not if_False simp_thms)
  from retried_record [OF this, of "get_fits net expect ?url"] get_once_fits [of net ?url expect] show ?thesis by metis
qed (use assms in \<open>auto simp: runHTTPProbe_def blank_record_def\<close>)

lemma dns_record:
  assumes "runDNSProbe net domain expect w = ((r, err), w')"
  shows "pr_address r = domain \<and> \<not> pr_passed r \<and> int (pr_attempts r) \<le> max 1 (pn_retries net)
    \<and> (if err = None then \<exists>u. lookup_fits net expect domain u else True)"
  using assms unfolding runDNSProbe_def by (rule retried_record) (rule lookup_once_fits)

lemma run_check_record:
  assumes "run_check net st name c w = ((r, err), w')"
  shows "\<not> pr_passed r \<and> int (pr_attempts r) \<le> most_attempts net c \<and> (if err = None then evidence net name c r else True)"
proof -
  consider (conn) "pc_type c = ''connectivity''" | (http) "pc_type c = ''http_probe''"
    | (dns) "pc_type c = ''dns_resolution''"
    | (other) "pc_type c \<notin> {''connectivity'', ''http_probe'', ''dns_resolution''}" by blast
  then show ?thesis
  proof cases
    case conn
    with assms show ?thesis
      by (cases "resolveProbeHost st (pc_to c)")
        (auto simp: run_check_def at_host_def blank_record_def most_attempts_def evidence_def
          dest!: connectivity_record)
  next
    case http
    with assms show ?thesis
      by (cases "resolveProbeHost st (pc_target c)")
        (auto simp: run_check_def at_host_def blank_record_def most_attempts_def evidence_def
          dest!: http_record)
  next
    case dns
    with assms show ?thesis
      by (auto simp: run_check_def most_attempts_def evidence_def dest!: dns_record)
  next
    case other
    with assms show ?thesis by (auto simp: run_check_def blank_record_def most_attempts_def evidence_def)
  qed
qed

definition record_true :: "'w probe_net \<Rightarrow> string \<Rightarrow> probe_check \<Rightarrow> probe_record \<Rightarrow> bool" where
  "record_true net name c r \<longleftrightarrow>
     int (pr_attempts r) \<le> most_attempts net c \<and> (if pr_passed r then evidence net name c r else True)"

lemma judged_true:
  assumes "judged net c w (run_check net st name c w) = ((r, fs), w1)"
  shows "record_true net name c r \<and> map f_check fs = (if pr_passed r then [] else [pc_type c])"
proof -
  obtain r0 err w2 where asked: "run_check net st name c w = ((r0, err), w2)" by (metis surj_pair)
  from run_check_record [OF asked] assms asked show ?thesis
    by (cases err) (auto simp: judged_def record_true_def evidence_def probe_failure_def split: if_splits)
qed

lemma run_checks_true:
  "run_checks net st name checks w = ((rs, fs), w') \<Longrightarrow>
     list_all2 (record_true net name) checks rs
     \<and> map f_check fs = map (pc_type \<circ> fst) (filter (\<lambda>(c, r). \<not> pr_passed r) (zip checks rs))"
proof (induction checks arbitrary: w rs fs w')
  case (Cons c cs)
  obtain r fs1 w1 where j: "judged net c w (run_check net st name c w) = ((r, fs1), w1)" by (metis surj_pair)
  obtain rs2 fs2 w2 where rest: "run_checks net st name cs w1 = ((rs2, fs2), w2)" by (metis surj_pair)
  from judged_true [OF j] Cons.IH [OF rest] Cons.prems j rest show ?case by auto
qed simp

text \<open>
  What a round of probes says is what the network said. There is one record per check, in order; a
  failure stands for each record that did not pass, under the check's kind, and for no other; a
  record passes only on an answer that fits what the check expects, at the address it names (a
  connection exactly where success is expected, a status below 400 exactly where the service is to
  be reachable, addresses exactly where the name is to resolve); and no check is asked more often
  than the retries allow, one that expects a refused connection at most once.
\<close>

theorem probes_rest_on_answers:
  "case run_checks net st name checks w of ((rs, fs), w') \<Rightarrow>
     list_all2 (record_true net name) checks rs
     \<and> map f_check fs = map (pc_type \<circ> fst) (filter (\<lambda>(c, r). \<not> pr_passed r) (zip checks rs))"
proof -
  obtain rs fs w' where run: "run_checks net st name checks w = ((rs, fs), w')" by (metis surj_pair)
  from run_checks_true [OF run] run show ?thesis by simp
qed

end
