(* ===== verification/Criteria.thy ===== *)
theory Criteria
  imports Probe Topology Deploy Run_Iteration
begin

text \<open>
  The acceptance criteria of a scenario and how a test judges them: parsing into executable checks
  (\<^verbatim>\<open>scenario/criteria.go\<close>), the support matrix (\<^verbatim>\<open>cli/criteria_support.go\<close>), policies over the deployed
  state (\<^verbatim>\<open>harness/state_policy.go\<close>, \<^verbatim>\<open>policy_packages.go\<close>), topology and real probes
  (\<^verbatim>\<open>cli/test_command.go\<close>) and the criteria the generator was never shown (\<^verbatim>\<open>cli/holdout.go\<close>).

  The Rego engine is a parameter: what its parser finds in a policy file and what a query of a package
  answers. So are the files of the policies and of the holdouts.
\<close>

subsection \<open>Executable checks\<close>

record acceptance_criterion =
  ac_type :: string
  ac_expect :: string
  ac_description :: string
  ac_from :: string
  ac_to :: string
  ac_port :: "int option"
  ac_target :: string
  ac_check :: string
  ac_domain :: string
  ac_params :: members

text \<open>The one of the four specifications a check carries.\<close>

datatype check_spec =
    Connectivity_Spec string string int
  | HTTP_Probe_Spec string int
  | Policy_Spec string string members
  | DNS_Spec string

record executable_check =
  ec_type :: string
  ec_expect :: string
  ec_description :: string
  ec_spec :: check_spec

definition spec_error :: "nat \<Rightarrow> string \<Rightarrow> string \<Rightarrow> string \<Rightarrow> string" where
  "spec_error i ty field e = ''invalid acceptance criterion spec: index='' @ nat_digits i @ '' type='' @ quote ty
     @ '' field='' @ quote field @ '': '' @ e"

definition parse_criterion :: "nat \<Rightarrow> acceptance_criterion \<Rightarrow> string + executable_check" where
  "parse_criterion i c =
     (let required = (\<lambda>field. Inl (spec_error i (ac_type c) field ''is required''));
          ok = (\<lambda>s. Inr \<lparr>ec_type = ac_type c, ec_expect = ac_expect c, ec_description = ac_description c, ec_spec = s\<rparr>) in
      if ac_expect c = [] then required ''expect''
      else if ac_type c = ''connectivity'' then
        if ac_from c = [] then required ''from'' else if ac_to c = [] then required ''to''
        else ok (Connectivity_Spec (ac_from c) (ac_to c) (case ac_port c of None \<Rightarrow> 0 | Some p \<Rightarrow> p))
      else if ac_type c = ''http_probe'' then
        if ac_target c = [] then required ''target''
        else (case ac_port c of None \<Rightarrow> required ''port'' | Some p \<Rightarrow> ok (HTTP_Probe_Spec (ac_target c) p))
      else if ac_type c = ''policy'' then
        if ac_check c = [] then required ''check'' else ok (Policy_Spec (ac_check c) (ac_target c) (ac_params c))
      else if ac_type c = ''dns_resolution'' then
        if ac_domain c = [] then required ''domain'' else ok (DNS_Spec (ac_domain c))
      else Inl (spec_error i (ac_type c) ''type'' (''unsupported criterion type '' @ quote (ac_type c))))"

fun parse_criteria :: "nat \<Rightarrow> acceptance_criterion list \<Rightarrow> string + executable_check list" where
  "parse_criteria i [] = Inr []"
| "parse_criteria i (c # cs) =
     (case parse_criterion i c of
        Inl e \<Rightarrow> Inl e
      | Inr s \<Rightarrow> (case parse_criteria (Suc i) cs of Inl e \<Rightarrow> Inl e | Inr ss \<Rightarrow> Inr (s # ss)))"

definition ParseAcceptanceCriteria :: "acceptance_criterion list \<Rightarrow> string + executable_check list" where
  "ParseAcceptanceCriteria cs = parse_criteria 0 cs"

subsection \<open>The support matrix\<close>

definition dnsResolutionAutoPassMessage :: string where
  "dnsResolutionAutoPassMessage = ''currently automatically passes because Layer 3 real probes are disabled''"

text \<open>The reason, supported, passed automatically.\<close>

definition criteriaSupportReason :: "string \<Rightarrow> bool \<Rightarrow> string \<times> bool \<times> bool" where
  "criteriaSupportReason ty sandboxEnabled =
     (if ty \<in> {''policy'', ''connectivity'', ''http_probe''} then ([], True, False)
      else if ty = ''dns_resolution''
      then if sandboxEnabled then ([], True, False) else (dnsResolutionAutoPassMessage, False, True)
      else (''is not supported by the current criteria support matrix'', False, False))"

definition supported :: "bool \<Rightarrow> executable_check \<Rightarrow> bool" where
  "supported sandboxEnabled s \<longleftrightarrow> fst (snd (criteriaSupportReason (ec_type s) sandboxEnabled))"

definition criteria_skip :: "string \<Rightarrow> stage_summary" where
  "criteria_skip detail = stage ''criteria'' ''support_matrix'' StageStatusSkip detail"

definition unsupportedCriteriaResult :: "acceptance_criterion list \<Rightarrow> bool \<Rightarrow> string + report" where
  "unsupportedCriteriaResult cs sandboxEnabled =
     (case ParseAcceptanceCriteria cs of
        Inl e \<Rightarrow> Inl (''parse acceptance criteria: '' @ e)
      | Inr specs \<Rightarrow>
          let reason = (\<lambda>s. criteriaSupportReason (ec_type s) sandboxEnabled);
              autos = filter (\<lambda>s. \<not> supported sandboxEnabled s \<and> snd (snd (reason s))) specs;
              bad = filter (\<lambda>(i, s). \<not> supported sandboxEnabled s \<and> \<not> snd (snd (reason s))) (enumerate 1 specs)
          in Inr ((if autos = [] then [] else [criteria_skip (nat_digits (length autos)
                     @ '' criteria auto-passed because Layer 3 is disabled'')])
                  @ (if bad = [] then [] else [criteria_skip (nat_digits (length bad) @ '' unsupported criteria'')]),
               map (\<lambda>(i, s). failing ''criteria'' ''support_matrix'' (ec_type s) ''criteria support matrix''
                 (''criterion '' @ nat_digits i @ '' ('' @ ec_type s @ ''): '' @ fst (reason s))) bad))"

subsection \<open>Policies over the deployed state\<close>

record policy_env =
  pe_constraint :: "string \<Rightarrow> string option" \<comment> \<open>\<^verbatim>\<open>constraint_policies\<close> of the configuration\<close>
  pe_base_dir :: string
  pe_exists :: "string \<Rightarrow> bool"
  pe_read :: "string \<Rightarrow> string + string"
  pe_ast_defines :: "string \<Rightarrow> string \<Rightarrow> string \<Rightarrow> string + bool" \<comment> \<open>file, text, rule\<close>
  pe_rego :: "string \<Rightarrow> string \<Rightarrow> json \<Rightarrow> string + json option" \<comment> \<open>package, file, input\<close>
  pe_print :: "json \<Rightarrow> string"

text \<open>\<^verbatim>\<open>filepath.Clean\<close> and \<^verbatim>\<open>filepath.Join\<close>.\<close>

fun clean_parts :: "bool \<Rightarrow> string list \<Rightarrow> string list \<Rightarrow> string list" where
  "clean_parts rooted acc [] = rev acc"
| "clean_parts rooted acc (p # ps) =
     clean_parts rooted
       (if p = [] \<or> p = ''.'' then acc
        else if p = ''..'' then
          (case acc of [] \<Rightarrow> if rooted then [] else [''..''] | a # as \<Rightarrow> if a = ''..'' then ''..'' # acc else as)
        else p # acc) ps"

definition path_clean :: "string \<Rightarrow> string" where
  "path_clean p =
     (let s = join ''/'' (clean_parts (is_abs p) [] (split_on CHR ''/'' p)) in
      if is_abs p then ''/'' @ s else if s = [] then ''.'' else s)"

definition path_join :: "string \<Rightarrow> string \<Rightarrow> string" where
  "path_join a b = (if a = [] \<and> b = [] then [] else path_clean (if a = [] then b else if b = [] then a else a @ ''/'' @ b))"

definition resolveConstraintPolicyPath :: "policy_env \<Rightarrow> string \<Rightarrow> string" where
  "resolveConstraintPolicyPath pe file =
     (if file = [] \<or> is_abs file then file
      else if pe_exists pe file then file
      else if pe_base_dir pe = [] then file
      else path_join (pe_base_dir pe) file)"

definition cloudConstraintPolicies :: "string \<Rightarrow> string \<Rightarrow> string option" where
  "cloudConstraintPolicies cloud =
     (if cloud = ''gcp'' then map_of [(''encryption_at_rest'', ''gcp/encryption.rego''),
        (''no_public_endpoints'', ''gcp/no_public_sql.rego''), (''no_public_database'', ''gcp/no_public_sql.rego''),
        (''region_restriction'', ''gcp/region_restriction.rego''), (''region'', ''gcp/region_restriction.rego''),
        (''zone'', ''gcp/region_restriction.rego'')]
      else if cloud = ''aws'' then map_of [(''encryption_at_rest'', ''aws/encryption.rego''),
        (''no_public_endpoints'', ''aws/no_public_db.rego''), (''no_public_database'', ''aws/no_public_db.rego''),
        (''vpc_required'', ''aws/vpc_required.rego''), (''region_restriction'', ''aws/region_restriction.rego''),
        (''region'', ''aws/region_restriction.rego''), (''default_deny_ingress'', ''aws/default_deny_ingress.rego'')]
      else if cloud = ''genesys'' then map_of [(''region_restriction'', ''genesys/region_restriction.rego''),
        (''region'', ''genesys/region_restriction.rego''),
        (''queue_must_have_wrapup'', ''genesys/queue_must_have_wrapup.rego''),
        (''oauth_client_least_privilege'', ''genesys/oauth_client_least_privilege.rego'')]
      else (\<lambda>_. None))"

definition packagePattern :: regex where
  "packagePattern = seqs [At_Line_Start, many space_re, text_re ''package'', some_re space_re,
     Grp 1 (some_re (Chr (\<lambda>c. alnum c \<or> c \<in> set ''_.''))), many space_re, At_Line_End]"

definition is_rego :: "string \<Rightarrow> bool" where "is_rego file \<longleftrightarrow> has_suffix file ''.rego''"
definition isRegoTestFile :: "string \<Rightarrow> bool" where "isRegoTestFile file \<longleftrightarrow> has_suffix file ''_test.rego''"

text \<open>The packages of one policy path, a file.\<close>

definition discoverPolicyPackages :: "policy_env \<Rightarrow> string \<Rightarrow> string + string list" where
  "discoverPolicyPackages pe file =
     (if \<not> pe_exists pe file then Inl (''stat policy path '' @ quote file)
      else if is_rego file \<and> \<not> isRegoTestFile file then
        (case pe_read pe file of
           Inl e \<Rightarrow> Inl (''read policy file '' @ quote file @ '': '' @ e)
         | Inr text \<Rightarrow> Inr (case find_first packagePattern text of None \<Rightarrow> [] | Some (_, m) \<Rightarrow> [group_of m 1]))
      else Inr [])"

definition PolicyFileDefinesRule :: "policy_env \<Rightarrow> string \<Rightarrow> string \<Rightarrow> string + bool" where
  "PolicyFileDefinesRule pe file rule =
     (if \<not> is_rego file then Inl (''not a rego file: '' @ quote file)
      else (case pe_read pe file of
          Inl e \<Rightarrow> Inl (''read policy file '' @ quote file @ '': '' @ e)
        | Inr text \<Rightarrow>
            (case pe_ast_defines pe file text rule of
               Inl e \<Rightarrow> Inl (''parse policy file '' @ quote file @ '': '' @ e) | Inr b \<Rightarrow> Inr b)))"

definition denyMessages :: "policy_env \<Rightarrow> json \<Rightarrow> string list" where
  "denyMessages pe deny =
     (case deny of
        JArr vs \<Rightarrow> sort (map (\<lambda>v. case v of JStr s \<Rightarrow> s | _ \<Rightarrow> pe_print pe v) vs)
      | JObj m \<Rightarrow> sort (map fst (latest m))
      | _ \<Rightarrow> [])"

text \<open>The state of a mapping stays flat beside the extra input; any other state is the member \<^verbatim>\<open>state\<close>.\<close>

definition policy_input :: "json \<Rightarrow> members \<Rightarrow> string + json" where
  "policy_input decoded extra =
     (if extra = [] then Inr decoded
      else (case decoded of
          JObj m \<Rightarrow> if jget m ''state'' \<noteq> None then Inl ''state policy input cannot flatten top-level \"state\" key''
                    else Inr (JObj (m @ [(''state'', JObj m)] @ extra))
        | _ \<Rightarrow> Inr (JObj ((''state'', decoded) # extra))))"

definition state_policy_failure :: "string \<Rightarrow> string \<Rightarrow> failure" where
  "state_policy_failure pkg detail = no_failure\<lparr>f_layer := ''mock_deploy'', f_stage := ''state_policy'',
     f_status := ''fail'', f_check := ''policy'', f_policy := pkg, f_command := ''opa eval'', f_detail := detail\<rparr>"

fun query_packages :: "policy_env \<Rightarrow> string \<Rightarrow> json \<Rightarrow> string list \<Rightarrow> string + failure list" where
  "query_packages pe file input [] = Inr []"
| "query_packages pe file input (p # ps) =
     (case pe_rego pe p file input of
        Inl e \<Rightarrow> Inl (''evaluate state policy package '' @ quote p @ '': '' @ e)
      | Inr answer \<Rightarrow>
          (case query_packages pe file input ps of
             Inl e \<Rightarrow> Inl e
           | Inr fs \<Rightarrow> Inr ((case answer of None \<Rightarrow> [] | Some v \<Rightarrow> map (state_policy_failure p) (denyMessages pe v)) @ fs)))"

text \<open>One file; the failures come in the order of their package and detail.\<close>

definition EvaluateStatePoliciesWithInput :: "policy_env \<Rightarrow> document \<Rightarrow> members \<Rightarrow> string \<Rightarrow> string + failure list" where
  "EvaluateStatePoliciesWithInput pe doc extra file =
     (case doc of
        None \<Rightarrow> Inl ''decode state json''
      | Some decoded \<Rightarrow>
          (case policy_input decoded extra of
             Inl e \<Rightarrow> Inl e
           | Inr input \<Rightarrow>
               (case discoverPolicyPackages pe file of
                  Inl e \<Rightarrow> Inl e
                | Inr pkgs \<Rightarrow> map_sum (\<lambda>e. e) (\<lambda>fs. sort_key f_policy (sort_key f_detail fs)) (query_packages pe file input pkgs))))"

definition toFailureSummary :: "failure \<Rightarrow> run_summary" where
  "toFailureSummary f = (own_failure (f_layer f) (f_stage f) (f_check f) (f_command f) (f_detail f))
     \<lparr>fs_policy := f_policy f, fs_resource := f_resource f\<rparr>"

definition policy_failed :: "string \<Rightarrow> string \<Rightarrow> run_summary" where
  "policy_failed check detail =
     (own_failure ''mock_deploy'' ''state_policy'' ''policy'' ''state policy evaluator'' detail)\<lparr>fs_policy := check\<rparr>"

definition policy_path :: "policy_env \<Rightarrow> string \<Rightarrow> string \<Rightarrow> string" where
  "policy_path pe cloud check =
     (case cloudConstraintPolicies cloud check of
        Some p \<Rightarrow> p
      | None \<Rightarrow> (case pe_constraint pe check of Some p \<Rightarrow> p | None \<Rightarrow> []))"

definition extra_input :: "string \<Rightarrow> members \<Rightarrow> members" where
  "extra_input target params =
     (if target \<noteq> [] then [(''target'', JStr target)] else []) @ (if params \<noteq> [] then [(''params'', JObj params)] else [])"

text \<open>What becomes of one criterion: its failures, whether it was skipped, whether it was evaluated.\<close>

record policy_outcome =
  po_failures :: "run_summary list"
  po_skipped :: bool
  po_evaluated :: bool

definition not_evaluated :: "run_summary list \<Rightarrow> policy_outcome" where
  "not_evaluated fs = \<lparr>po_failures = fs, po_skipped = False, po_evaluated = False\<rparr>"

definition expected_denials :: "string \<Rightarrow> string \<Rightarrow> failure list \<Rightarrow> run_summary list" where
  "expected_denials expect check denials =
     (if expect = ''pass'' then map (\<lambda>f. (toFailureSummary f)\<lparr>fs_policy := check\<rparr>) denials
      else if expect = ''fail'' then
        (if denials = [] then [policy_failed check ''expected policy failure but evaluator returned pass''] else [])
      else [policy_failed check (''unsupported policy expectation '' @ quote expect)])"

definition judge_policy :: "policy_env \<Rightarrow> string \<Rightarrow> document \<Rightarrow> string \<Rightarrow> string \<Rightarrow> string \<Rightarrow> members \<Rightarrow> policy_outcome" where
  "judge_policy pe cloud doc expect check target params =
     (let mapped = policy_path pe cloud check; file = resolveConstraintPolicyPath pe mapped in
      if mapped = []
      then not_evaluated [policy_failed check ''no constraint_policies mapping found for criteria check'']
      else (case PolicyFileDefinesRule pe file ''deny_state'' of
          Inl e \<Rightarrow> not_evaluated [policy_failed check (''could not read '' @ file
            @ '', so it is unknown whether this policy checks deployed state: '' @ e)]
        | Inr False \<Rightarrow>
            if expect = ''fail''
            then not_evaluated [policy_failed check (''expected '' @ check
              @ '' to deny the deployed state, but it is plan-only: it has no deny_state rule and can never deny. ''
              @ ''Write one, or move this criterion to a policy that checks state'')]
            else \<lparr>po_failures = [], po_skipped = True, po_evaluated = False\<rparr>
        | Inr True \<Rightarrow>
            \<lparr>po_failures = (case EvaluateStatePoliciesWithInput pe doc (extra_input target params) file of
                 Inl e \<Rightarrow> [policy_failed check e] | Inr denials \<Rightarrow> expected_denials expect check denials),
             po_skipped = False, po_evaluated = True\<rparr>))"

definition judge_spec :: "policy_env \<Rightarrow> string \<Rightarrow> document \<Rightarrow> executable_check \<Rightarrow> policy_outcome" where
  "judge_spec pe cloud doc s =
     (case ec_spec s of
        Policy_Spec check target params \<Rightarrow> judge_policy pe cloud doc (ec_expect s) check target params
      | _ \<Rightarrow> not_evaluated [])"

definition policy_of :: "executable_check \<Rightarrow> string" where
  "policy_of s = (case ec_spec s of Policy_Spec check _ _ \<Rightarrow> check | _ \<Rightarrow> [])"

definition pluralPolicy :: "nat \<Rightarrow> string" where
  "pluralPolicy n = (if n = 1 then ''it'' else ''them'')"

definition evaluateStatePolicyCriteria :: "policy_env \<Rightarrow> string \<Rightarrow> document \<Rightarrow> executable_check list
    \<Rightarrow> stage_summary list \<times> run_summary list" where
  "evaluateStatePolicyCriteria pe cloud doc specs =
     (let judge = judge_spec pe cloud doc;
          failures = concat (map (po_failures \<circ> judge) specs);
          skips = map policy_of (filter (po_skipped \<circ> judge) specs);
          evaluated = length (filter (po_evaluated \<circ> judge) specs);
          detail = join '', '' (sort skips) @ '': plan-only, no deny_state rule -- deployed state was NOT checked against ''
            @ pluralPolicy (length skips)
      in (if failures \<noteq> [] then []
          else if skips \<noteq> [] then [stage ''mock_deploy'' ''state_policy'' StageStatusSkip
            (if 0 < evaluated then nat_digits evaluated @ '' of '' @ nat_digits (length specs) @ '' evaluated; '' @ detail else detail)]
          else if 0 < evaluated then [stage ''mock_deploy'' ''state_policy'' StageStatusPass
            (nat_digits evaluated @ '' policy/policies evaluated against deployed state'')]
          else [], failures))"

subsection \<open>The criteria of a scenario\<close>

definition topology_of :: "executable_check \<Rightarrow> topology_check list" where
  "topology_of s =
     (case ec_spec s of
        Connectivity_Spec from to port \<Rightarrow> if ec_type s \<noteq> ''connectivity'' then [] else
          [\<lparr>tc_type = ec_type s, tc_from = from, tc_to = to, tc_target = [], tc_port = port, tc_expect = ec_expect s\<rparr>]
      | HTTP_Probe_Spec target port \<Rightarrow> if ec_type s \<noteq> ''http_probe'' then [] else
          [\<lparr>tc_type = ec_type s, tc_from = [], tc_to = [], tc_target = target, tc_port = port, tc_expect = ec_expect s\<rparr>]
      | _ \<Rightarrow> [])"

definition probe_of :: "executable_check \<Rightarrow> probe_check list" where
  "probe_of s =
     (let base = \<lparr>pc_type = ec_type s, pc_expect = ec_expect s, pc_from = [], pc_to = [], pc_target = [], pc_port = 0, pc_domain = []\<rparr> in
      case ec_spec s of
        Connectivity_Spec from to port \<Rightarrow> if ec_type s \<noteq> ''connectivity'' then [] else [base\<lparr>pc_from := from, pc_to := to, pc_port := port\<rparr>]
      | HTTP_Probe_Spec target port \<Rightarrow> if ec_type s \<noteq> ''http_probe'' then [] else [base\<lparr>pc_target := target, pc_port := port\<rparr>]
      | DNS_Spec domain \<Rightarrow> if ec_type s \<noteq> ''dns_resolution'' then [] else [base\<lparr>pc_domain := domain\<rparr>]
      | _ \<Rightarrow> [])"

record 'w criteria_env =
  ce_policy :: policy_env
  ce_net :: "'w probe_net"
  ce_state :: "'w \<Rightarrow> string \<Rightarrow> json_file" \<comment> \<open>the live state of a work directory\<close>
  ce_sandbox :: bool \<comment> \<open>Layer 3 is enabled\<close>
  ce_output_dir :: string
  ce_discover :: "string \<Rightarrow> string + (string \<times> string) list" \<comment> \<open>the holdouts of a scenario: name and path\<close>
  ce_load :: "string \<Rightarrow> string + acceptance_criterion list"
  ce_holdout_dir :: string

definition real_probe :: "'w criteria_env \<Rightarrow> string \<Rightarrow> string \<Rightarrow> probe_check list \<Rightarrow> 'w world
    \<Rightarrow> (go_error + probe_record list \<times> failure list) \<times> 'w world" where
  "real_probe ce dir name checks w =
     on_api (\<lambda>a. RealProbe_Run (ce_net ce) (ce_state ce a dir) dir name checks a) w"

definition probe_stage :: "stage_status \<Rightarrow> string \<Rightarrow> stage_summary" where
  "probe_stage status detail = stage sandbox_deploy ''real_probe'' status detail"

definition probe_criteria :: "'w criteria_env \<Rightarrow> string \<Rightarrow> probe_check list \<Rightarrow> 'w world
    \<Rightarrow> (stage_summary list \<times> run_summary list) \<times> 'w world" where
  "probe_criteria ce name probes w =
     (case real_probe ce (ce_output_dir ce) name probes w of
        (Inl e, w1) \<Rightarrow> (([probe_stage StageStatusFail []],
           [own_failure sandbox_deploy ''real_probe'' ''real_probe'' ''real probe harness'' (err_text e)]), w1)
      | (Inr (records, fs), w1) \<Rightarrow>
          if fs \<noteq> [] then (([probe_stage StageStatusFail (nat_digits (length fs) @ '' probe failures: '' @ ProbeRecordsDetail records)],
             map toFailureSummary fs), w1)
          else (([probe_stage StageStatusPass (ProbeRecordsDetail records)], []), w1))"

definition topology_criteria :: "document \<Rightarrow> topology_check list \<Rightarrow> stage_summary list \<times> run_summary list" where
  "topology_criteria doc checks =
     (case EvaluateTopology doc checks of
        Inl e \<Rightarrow> ([stage ''mock_deploy'' ''topology'' StageStatusFail []],
          [own_failure ''mock_deploy'' ''topology'' ''topology'' ''topology evaluator'' e])
      | Inr fs \<Rightarrow>
          if fs \<noteq> [] then ([stage ''mock_deploy'' ''topology'' StageStatusFail (nat_digits (length fs) @ '' topology failures'')],
            map toFailureSummary fs)
          else ([stage ''mock_deploy'' ''topology'' StageStatusPass []], []))"

definition evaluateSupportedCriteria :: "'w criteria_env \<Rightarrow> string \<Rightarrow> string \<Rightarrow> acceptance_criterion list \<Rightarrow> document
    \<Rightarrow> bool \<Rightarrow> 'w world \<Rightarrow> (stage_summary list \<times> run_summary list) \<times> 'w world" where
  "evaluateSupportedCriteria ce name cloud cs doc sandboxApplied w =
     (case ParseAcceptanceCriteria cs of
        Inl e \<Rightarrow> (([stage ''criteria'' ''parse'' StageStatusFail []],
           [own_failure ''criteria'' ''parse'' ''criteria_parse'' ''criteria mapper'' e]), w)
      | Inr specs0 \<Rightarrow>
          let specs = filter (supported (ce_sandbox ce)) specs0;
              policies = filter (\<lambda>s. ec_type s = ''policy'') specs;
              topology = concat (map topology_of specs);
              probes = concat (map probe_of specs);
              (pst, pfs) = (if policies = [] then ([], []) else evaluateStatePolicyCriteria (ce_policy ce) cloud doc policies);
              pst' = pst @ (if pfs = [] then [] else [stage ''mock_deploy'' ''state_policy'' StageStatusFail
                (nat_digits (length pfs) @ '' policy failures'')])
          in if ce_sandbox ce \<and> probes \<noteq> [] \<and> \<not> sandboxApplied
             then ((pst' @ [probe_stage StageStatusSkip
                 ''not run: the Layer 3 apply did not succeed, so there is no real stack to probe''], pfs), w)
             else if ce_sandbox ce \<and> probes \<noteq> []
             then (case probe_criteria ce name probes w of ((st, fs), w1) \<Rightarrow> ((pst' @ st, pfs @ fs), w1))
             else if topology \<noteq> []
             then (case topology_criteria doc topology of (st, fs) \<Rightarrow> ((pst' @ st, pfs @ fs), w))
             else ((pst', pfs), w))"

subsection \<open>Holdouts\<close>

definition holdout_failed :: "string \<Rightarrow> string \<Rightarrow> string \<Rightarrow> run_summary" where
  "holdout_failed name command detail = own_failure ''holdout'' name holdoutCheckName command detail"

definition holdout_stage :: "string \<Rightarrow> stage_status \<Rightarrow> string \<Rightarrow> stage_summary" where
  "holdout_stage name status detail = stage ''holdout'' name status detail"

definition probe_types :: "string list" where
  "probe_types = [''connectivity'', ''http_probe'', ''dns_resolution'']"

text \<open>The checks, and the kinds that cannot be probed.\<close>

definition holdoutProbeChecks :: "acceptance_criterion list \<Rightarrow> string + probe_check list \<times> string list" where
  "holdoutProbeChecks cs =
     map_sum (\<lambda>e. e) (\<lambda>specs. (concat (map probe_of specs), map ec_type (filter (\<lambda>s. ec_type s \<notin> set probe_types) specs)))
       (ParseAcceptanceCriteria cs)"

text \<open>The checks of one holdout against the stack; the last component says how many were asked.\<close>

definition probe_holdout :: "'w criteria_env \<Rightarrow> string \<Rightarrow> string \<Rightarrow> string \<Rightarrow> probe_check list \<Rightarrow> 'w world
    \<Rightarrow> (stage_summary list \<times> run_summary list) \<times> 'w world" where
  "probe_holdout ce scenarioName workDir name checks w =
     (case real_probe ce workDir scenarioName checks w of
        (Inl e, w1) \<Rightarrow> (([holdout_stage name StageStatusFail []],
           [holdout_failed name ''real probe harness'' (err_text e)]), w1)
      | (Inr (records, fs), w1) \<Rightarrow>
          if fs \<noteq> [] then
            (([holdout_stage name StageStatusFail (nat_digits (length fs) @ '' of '' @ nat_digits (length checks)
                 @ '' check(s) failed: '' @ ProbeRecordsDetail records)],
              map (\<lambda>f. (holdout_failed name ''real probe harness'' (f_detail f
                  @ '' -- this check was NOT shown to the generator. Every criterion it was shown passed, so the configuration is fitted to the visible checks rather than correct''))
                \<lparr>fs_resource := f_resource f\<rparr>) fs), w1)
          else (([holdout_stage name StageStatusPass (nat_digits (length checks) @ '' unseen check(s) passed: ''
                 @ ProbeRecordsDetail records)], []), w1))"

definition run_holdout :: "'w criteria_env \<Rightarrow> string \<Rightarrow> string \<Rightarrow> string \<times> string \<Rightarrow> 'w world
    \<Rightarrow> (stage_summary list \<times> run_summary list \<times> nat) \<times> 'w world" where
  "run_holdout ce scenarioName workDir h w =
     (let (name, file) = h;
          broken = (\<lambda>command e. (([holdout_stage name StageStatusFail []], [holdout_failed name command e], 0), w)) in
      case ce_load ce file of
        Inl e \<Rightarrow> broken ''scenario loader'' e
      | Inr cs \<Rightarrow>
          (case holdoutProbeChecks cs of
             Inl e \<Rightarrow> broken ''holdout criteria'' e
           | Inr (checks, unsupported) \<Rightarrow>
               let st = map (\<lambda>_. holdout_stage name StageStatusFail []) unsupported;
                   fs = map (\<lambda>u. holdout_failed name ''holdout criteria'' (''criterion '' @ quote u
                     @ '' cannot be probed against a running stack. A holdout may use connectivity, http_probe or dns_resolution'')) unsupported
               in if checks = [] then ((st, fs, 0), w)
                  else (case probe_holdout ce scenarioName workDir name checks w of
                      ((st', fs'), w1) \<Rightarrow> ((st @ st', fs @ fs', length checks), w1))))"

fun run_holdouts :: "'w criteria_env \<Rightarrow> string \<Rightarrow> string \<Rightarrow> (string \<times> string) list \<Rightarrow> 'w world
    \<Rightarrow> (stage_summary list \<times> run_summary list \<times> nat) \<times> 'w world" where
  "run_holdouts ce scenarioName workDir [] w = (([], [], 0), w)"
| "run_holdouts ce scenarioName workDir (h # hs) w =
     (case run_holdout ce scenarioName workDir h w of
        ((st, fs, n), w1) \<Rightarrow>
          (case run_holdouts ce scenarioName workDir hs w1 of
             ((st', fs', n'), w2) \<Rightarrow> ((st @ st', fs @ fs', n + n'), w2)))"

definition runHoldouts :: "'w criteria_env \<Rightarrow> string \<Rightarrow> string \<Rightarrow> 'w world
    \<Rightarrow> (stage_summary list \<times> run_summary list \<times> bool) \<times> 'w world" where
  "runHoldouts ce scenarioName workDir w =
     (case ce_discover ce scenarioName of
        Inl e \<Rightarrow> (([holdout_stage ''discovery'' StageStatusFail []],
           [holdout_failed ''discovery'' ''holdout discovery'' (''could not read '' @ ce_holdout_dir ce
             @ '', so it is unknown whether this scenario has holdouts: '' @ e)], False), w)
      | Inr hs \<Rightarrow>
          (case run_holdouts ce scenarioName workDir hs w of
             ((st, fs, probed), w1) \<Rightarrow>
               ((holdout_stage ''discovery'' StageStatusPass (nat_digits (length hs) @ '' holdout(s) for '' @ scenarioName) # st,
                 fs, 0 < probed), w1)))"

definition holdoutAfterCriteria :: "'w criteria_env \<Rightarrow> bool \<Rightarrow> string \<Rightarrow> run_summary list \<Rightarrow> 'w world
    \<Rightarrow> (stage_summary list \<times> run_summary list) \<times> 'w world" where
  "holdoutAfterCriteria ce wanted name prior w =
     (if \<not> wanted then (([], []), w)
      else if \<not> ce_sandbox ce
      then (([holdout_stage ''skipped'' StageStatusSkip
          ''no real stack to probe: holdouts need validation.layers.sandbox_deploy.enabled''], []), w)
      else if prior \<noteq> []
      then (([holdout_stage ''skipped'' StageStatusSkip
          ''earlier checks failed, so the stack is not known to be serving and a blocked-port check would pass for the wrong reason''], []), w)
      else (case runHoldouts ce name (ce_output_dir ce) w of ((st, fs, _), w1) \<Rightarrow> ((st, fs), w1)))"

lemma pair_cases: "(\<And>a b c. x = ((a, b), c) \<Longrightarrow> P) \<Longrightarrow> P"
  by (cases x; cases "fst x") auto

subsection \<open>Checks are well formed\<close>

text \<open>The specification a check carries is the one its type calls for, and is complete.\<close>

definition well_typed :: "executable_check \<Rightarrow> bool" where
  "well_typed s \<longleftrightarrow> ec_expect s \<noteq> []
     \<and> (case ec_spec s of
          Connectivity_Spec from to port \<Rightarrow> ec_type s = ''connectivity'' \<and> from \<noteq> [] \<and> to \<noteq> []
        | HTTP_Probe_Spec target port \<Rightarrow> ec_type s = ''http_probe'' \<and> target \<noteq> []
        | Policy_Spec check target params \<Rightarrow> ec_type s = ''policy'' \<and> check \<noteq> []
        | DNS_Spec domain \<Rightarrow> ec_type s = ''dns_resolution'' \<and> domain \<noteq> [])"

lemma parse_criterion_typed:
  "parse_criterion i c = Inr s \<Longrightarrow> well_typed s \<and> ec_type s = ac_type c \<and> ec_expect s = ac_expect c"
  by (auto simp: parse_criterion_def well_typed_def Let_def split: if_splits option.splits)

lemma parse_criterion_error: "parse_criterion i c = Inl e \<Longrightarrow> \<exists>field why. e = spec_error i (ac_type c) field why"
  by (auto simp: parse_criterion_def Let_def split: if_splits option.splits)

lemma parse_criteria_typed:
  "case parse_criteria n cs of
     Inr ss \<Rightarrow> list_all2 (\<lambda>c s. well_typed s \<and> ec_type s = ac_type c \<and> ec_expect s = ac_expect c) cs ss
   | Inl e \<Rightarrow> \<exists>as c bs ss field why. cs = as @ c # bs \<and> parse_criteria n as = Inr ss
       \<and> parse_criterion (n + length as) c = Inl e \<and> e = spec_error (n + length as) (ac_type c) field why"
proof (induction cs arbitrary: n)
  case (Cons c cs)
  show ?case
  proof (cases "parse_criterion n c")
    case (Inl e)
    then obtain field why where "e = spec_error n (ac_type c) field why" using parse_criterion_error by blast
    with Inl show ?thesis
      by (simp only: parse_criteria.simps sum.case) (rule exI [of _ "[]"], rule exI [of _ c], rule exI [of _ cs],
        rule exI [of _ "[]"], rule exI [of _ field], rule exI [of _ why], simp)
  next
    case (Inr s)
    show ?thesis
    proof (cases "parse_criteria (Suc n) cs")
      case rest: (Inl e)
      with Cons.IH [of "Suc n"] obtain as d bs ss field why where
        split: "cs = as @ d # bs" "parse_criteria (Suc n) as = Inr ss"
          "parse_criterion (Suc n + length as) d = Inl e" "e = spec_error (Suc n + length as) (ac_type d) field why"
        by auto
      have "parse_criteria n (c # cs) = Inl e" using Inr rest by simp
      moreover have "parse_criteria n (c # as) = Inr (s # ss)" "c # cs = (c # as) @ d # bs"
        "parse_criterion (n + length (c # as)) d = Inl e" "e = spec_error (n + length (c # as)) (ac_type d) field why"
        using split Inr by auto
      ultimately show ?thesis by (simp only: sum.case) blast
    next
      case rest: (Inr ss)
      with Cons.IH [of "Suc n"] Inr parse_criterion_typed [OF Inr] show ?thesis by simp
    qed
  qed
qed simp


subsection \<open>Green rests on evidence\<close>

text \<open>The policy has a rule for deployed state, the rule was evaluated, and it answered as expected.\<close>

definition policy_holds :: "policy_env \<Rightarrow> string \<Rightarrow> document \<Rightarrow> string \<Rightarrow> string \<Rightarrow> string \<Rightarrow> members \<Rightarrow> bool" where
  "policy_holds pe cloud doc expect check target params \<longleftrightarrow>
     policy_path pe cloud check \<noteq> []
     \<and> (let file = resolveConstraintPolicyPath pe (policy_path pe cloud check) in
        PolicyFileDefinesRule pe file ''deny_state'' = Inr True
        \<and> (\<exists>denials. EvaluateStatePoliciesWithInput pe doc (extra_input target params) file = Inr denials
             \<and> (expect = ''pass'' \<and> denials = [] \<or> expect = ''fail'' \<and> denials \<noteq> [])))"

lemma expected_denials_Nil:
  "expected_denials expect check denials = [] \<longleftrightarrow> expect = ''pass'' \<and> denials = [] \<or> expect = ''fail'' \<and> denials \<noteq> []"
  by (simp add: expected_denials_def)

lemma judge_policy_holds:
  "po_failures (judge_policy pe cloud doc expect check target params) = []
     \<and> po_evaluated (judge_policy pe cloud doc expect check target params)
   \<longleftrightarrow> policy_holds pe cloud doc expect check target params"
  by (auto simp: judge_policy_def policy_holds_def not_evaluated_def Let_def expected_denials_Nil
      split: sum.splits bool.splits)

lemma judge_policy_cases:
  "po_failures (judge_policy pe cloud doc expect check target params) = [] \<Longrightarrow>
     po_skipped (judge_policy pe cloud doc expect check target params)
     \<noteq> po_evaluated (judge_policy pe cloud doc expect check target params)"
  by (auto simp: judge_policy_def not_evaluated_def Let_def split: sum.splits bool.splits if_splits)

definition spec_holds :: "policy_env \<Rightarrow> string \<Rightarrow> document \<Rightarrow> executable_check \<Rightarrow> bool" where
  "spec_holds pe cloud doc s =
     (case ec_spec s of Policy_Spec check target params \<Rightarrow> policy_holds pe cloud doc (ec_expect s) check target params
      | _ \<Rightarrow> True)"

definition names_policy :: "executable_check \<Rightarrow> bool" where
  "names_policy s = (case ec_spec s of Policy_Spec _ _ _ \<Rightarrow> True | _ \<Rightarrow> False)"

lemma judge_spec_holds:
  "po_failures (judge_spec pe cloud doc s) = [] \<and> \<not> po_skipped (judge_spec pe cloud doc s) \<longleftrightarrow> spec_holds pe cloud doc s"
proof (cases "ec_spec s")
  case (Policy_Spec check target params)
  have "policy_holds pe cloud doc (ec_expect s) check target params \<Longrightarrow>
      \<not> po_skipped (judge_policy pe cloud doc (ec_expect s) check target params)"
    by (auto simp: judge_policy_def policy_holds_def Let_def)
  with Policy_Spec judge_policy_holds [of pe cloud doc "ec_expect s" check target params]
    judge_policy_cases [of pe cloud doc "ec_expect s" check target params]
  show ?thesis by (auto simp: judge_spec_def spec_holds_def)
qed (simp_all add: judge_spec_def spec_holds_def not_evaluated_def)

lemma judge_spec_evaluated:
  "spec_holds pe cloud doc s \<Longrightarrow> po_evaluated (judge_spec pe cloud doc s) = names_policy s"
  using iffD2 [OF judge_policy_holds]
  by (cases "ec_spec s") (simp_all add: judge_spec_def spec_holds_def names_policy_def not_evaluated_def)

text \<open>
  Green means checked. The state-policy stage passes exactly when some policy is named and every
  policy named was found, has a rule for deployed state, was evaluated on the mock's state, and
  answered as the criterion expects; a policy without such a rule, an unreadable one or a failed
  evaluation never passes, alone or among others.
\<close>

theorem state_policy_pass_is_evidence:
  "list_ex (\<lambda>s. sm_status s = StageStatusPass) (fst (evaluateStatePolicyCriteria pe cloud doc specs))
   \<longleftrightarrow> list_ex names_policy specs \<and> list_all (spec_holds pe cloud doc) specs"
proof -
  let ?j = "judge_spec pe cloud doc"
  have "list_ex (\<lambda>s. sm_status s = StageStatusPass) (fst (evaluateStatePolicyCriteria pe cloud doc specs))
    \<longleftrightarrow> concat (map (po_failures \<circ> ?j) specs) = [] \<and> filter (po_skipped \<circ> ?j) specs = []
      \<and> filter (po_evaluated \<circ> ?j) specs \<noteq> []"
    by (auto simp: evaluateStatePolicyCriteria_def Let_def stage_def)
  also have "\<dots> \<longleftrightarrow> list_all (spec_holds pe cloud doc) specs \<and> list_ex (po_evaluated \<circ> ?j) specs"
    using judge_spec_holds [of pe cloud doc] by (auto simp: list_all_iff list_ex_iff filter_empty_conv)
  also have "\<dots> \<longleftrightarrow> list_ex names_policy specs \<and> list_all (spec_holds pe cloud doc) specs"
    using judge_spec_evaluated [of pe cloud doc] by (auto simp: list_all_iff list_ex_iff)
  finally show ?thesis .
qed

lemma state_policy_clean:
  assumes "evaluateStatePolicyCriteria pe cloud doc specs = (st, [])"
  shows "list_all (spec_holds pe cloud doc) specs \<or> list_ex (\<lambda>s. sm_stage s = ''state_policy'' \<and> sm_status s = StageStatusSkip) st"
proof (cases "filter (po_skipped \<circ> judge_spec pe cloud doc) specs = []")
  case True
  from assms have "concat (map (po_failures \<circ> judge_spec pe cloud doc) specs) = []"
    by (auto simp: evaluateStatePolicyCriteria_def Let_def)
  with True judge_spec_holds [of pe cloud doc] show ?thesis by (auto simp: list_all_iff filter_empty_conv)
next
  case False
  with assms show ?thesis by (auto simp: evaluateStatePolicyCriteria_def Let_def stage_def split: if_splits)
qed

text \<open>Every check passed, on an answer of the network.\<close>

definition all_pass :: "'w criteria_env \<Rightarrow> string \<Rightarrow> probe_check list \<Rightarrow> bool" where
  "all_pass ce name checks \<longleftrightarrow>
     (\<exists>records. list_all2 (\<lambda>c r. pr_passed r \<and> record_true (ce_net ce) name c r) checks records)"

lemma real_probe_pass:
  assumes "real_probe ce dir name checks w = (Inr (records, []), w')"
  shows "all_pass ce name checks"
proof -
  from assms obtain st u where "run_checks (ce_net ce) st name checks (w_api w) = ((records, []), u)"
    by (auto simp: real_probe_def on_api_def RealProbe_Run_def split: prod.splits sum.splits)
  from run_checks_true [OF this] have ok: "list_all2 (record_true (ce_net ce) name) checks records"
    "filter (\<lambda>(c, r). \<not> pr_passed r) (zip checks records) = []" by auto
  then have "list_all2 (\<lambda>c r. pr_passed r \<and> record_true (ce_net ce) name c r) checks records"
    by (auto simp: list_all2_iff filter_empty_conv)
  then show ?thesis by (auto simp: all_pass_def)
qed

lemma probe_criteria_pass: "probe_criteria ce name checks w = ((st, []), w') \<Longrightarrow> all_pass ce name checks"
  by (auto simp: probe_criteria_def split: prod.splits sum.splits if_splits dest: real_probe_pass)

definition skipped_stage :: "string \<Rightarrow> stage_summary list \<Rightarrow> bool" where
  "skipped_stage name st \<longleftrightarrow> list_ex (\<lambda>s. sm_stage s = name \<and> sm_status s = StageStatusSkip) st"

definition criteria_hold :: "'w criteria_env \<Rightarrow> string \<Rightarrow> string \<Rightarrow> executable_check list \<Rightarrow> document \<Rightarrow> bool
    \<Rightarrow> stage_summary list \<Rightarrow> bool" where
  "criteria_hold ce name cloud specs doc applied st \<longleftrightarrow>
     (let probes = concat (map probe_of specs); topology = concat (map topology_of specs) in
      (list_all (spec_holds (ce_policy ce) cloud doc) (filter (\<lambda>s. ec_type s = ''policy'') specs)
         \<or> skipped_stage ''state_policy'' st)
      \<and> (if ce_sandbox ce \<and> probes \<noteq> [] then if applied then all_pass ce name probes else skipped_stage ''real_probe'' st
         else if topology \<noteq> [] then EvaluateTopology doc topology = Inr [] else True))"

text \<open>The verdict has two parts: of the policies, and of the probes or the topology.\<close>

definition policy_part :: "'w criteria_env \<Rightarrow> string \<Rightarrow> document \<Rightarrow> executable_check list \<Rightarrow> stage_summary list \<times> run_summary list" where
  "policy_part ce cloud doc specs =
     (let policies = filter (\<lambda>s. ec_type s = ''policy'') specs;
          (pst, pfs) = (if policies = [] then ([], []) else evaluateStatePolicyCriteria (ce_policy ce) cloud doc policies)
      in (pst @ (if pfs = [] then [] else [stage ''mock_deploy'' ''state_policy'' StageStatusFail
            (nat_digits (length pfs) @ '' policy failures'')]), pfs))"

definition stack_part :: "'w criteria_env \<Rightarrow> string \<Rightarrow> document \<Rightarrow> bool \<Rightarrow> executable_check list \<Rightarrow> 'w world
    \<Rightarrow> (stage_summary list \<times> run_summary list) \<times> 'w world" where
  "stack_part ce name doc applied specs w =
     (let probes = concat (map probe_of specs); topology = concat (map topology_of specs) in
      if ce_sandbox ce \<and> probes \<noteq> [] \<and> \<not> applied
      then (([probe_stage StageStatusSkip ''not run: the Layer 3 apply did not succeed, so there is no real stack to probe''], []), w)
      else if ce_sandbox ce \<and> probes \<noteq> [] then probe_criteria ce name probes w
      else if topology \<noteq> [] then (topology_criteria doc topology, w) else (([], []), w))"

lemma evaluate_parts:
  assumes "ParseAcceptanceCriteria cs = Inr specs0" and "specs = filter (supported (ce_sandbox ce)) specs0"
  shows "evaluateSupportedCriteria ce name cloud cs doc applied w
     = (case policy_part ce cloud doc specs of (ps, pf) \<Rightarrow>
          (case stack_part ce name doc applied specs w of ((ss, sf), w1) \<Rightarrow> ((ps @ ss, pf @ sf), w1)))"
proof -
  let ?policies = "filter (\<lambda>s. ec_type s = ''policy'') specs"
  let ?probes = "concat (map probe_of specs)" and ?topology = "concat (map topology_of specs)"
  obtain pst pfs where pol: "(if ?policies = [] then ([], []) else evaluateStatePolicyCriteria (ce_policy ce) cloud doc ?policies) = (pst, pfs)"
    by fastforce
  obtain s1 f1 w1 where probe: "probe_criteria ce name ?probes w = ((s1, f1), w1)" by (rule pair_cases)
  obtain s2 f2 where top: "topology_criteria doc ?topology = (s2, f2)" by fastforce
  show ?thesis
    unfolding evaluateSupportedCriteria_def policy_part_def stack_part_def assms(1) sum.case Let_def assms(2) [symmetric]
      pol prod.case probe top
    by (cases "ce_sandbox ce"; cases "?probes = []"; cases applied; cases "?topology = []"; simp only: simp_thms if_True if_False prod.case append_Nil2)
qed

lemma policy_part_holds:
  "policy_part ce cloud doc specs = (ps, []) \<Longrightarrow>
     list_all (spec_holds (ce_policy ce) cloud doc) (filter (\<lambda>s. ec_type s = ''policy'') specs) \<or> skipped_stage ''state_policy'' ps"
  using state_policy_clean [of "ce_policy ce" cloud doc "filter (\<lambda>s. ec_type s = ''policy'') specs"]
  by (auto simp: policy_part_def Let_def skipped_stage_def split: if_splits prod.splits)

lemma stack_part_holds:
  "stack_part ce name doc applied specs w = ((ss, []), w') \<Longrightarrow>
     (if ce_sandbox ce \<and> concat (map probe_of specs) \<noteq> []
      then if applied then all_pass ce name (concat (map probe_of specs)) else skipped_stage ''real_probe'' ss
      else if concat (map topology_of specs) \<noteq> [] then EvaluateTopology doc (concat (map topology_of specs)) = Inr [] else True)"
  by (auto simp: stack_part_def Let_def skipped_stage_def probe_stage_def stage_def topology_criteria_def
      split: if_splits sum.splits dest: probe_criteria_pass)

lemma skipped_append: "skipped_stage n as \<Longrightarrow> skipped_stage n (as @ bs)" "skipped_stage n bs \<Longrightarrow> skipped_stage n (as @ bs)"
  by (simp_all add: skipped_stage_def)

lemma criteria_pass:
  assumes "evaluateSupportedCriteria ce name cloud cs doc applied w = ((st, []), w')"
  shows "\<exists>specs. ParseAcceptanceCriteria cs = Inr specs
          \<and> criteria_hold ce name cloud (filter (supported (ce_sandbox ce)) specs) doc applied st"
proof (cases "ParseAcceptanceCriteria cs")
  case (Inr specs0)
  let ?specs = "filter (supported (ce_sandbox ce)) specs0"
  obtain ps pf where pol: "policy_part ce cloud doc ?specs = (ps, pf)" by fastforce
  obtain ss sf w1 where stack: "stack_part ce name doc applied ?specs w = ((ss, sf), w1)" by (rule pair_cases)
  have eqs: "pf = []" "sf = []" "st = ps @ ss"
    using assms pol stack by (simp_all add: evaluate_parts [OF Inr refl])
  have "skipped_stage ''state_policy'' ps \<Longrightarrow> skipped_stage ''state_policy'' st"
    "skipped_stage ''real_probe'' ss \<Longrightarrow> skipped_stage ''real_probe'' st"
    unfolding eqs by (simp_all add: skipped_append)
  with policy_part_holds [OF pol [unfolded eqs]] stack_part_holds [OF stack [unfolded eqs]]
  have "criteria_hold ce name cloud ?specs doc applied st"
    unfolding criteria_hold_def Let_def by (meson)
  with Inr show ?thesis by blast
qed (use assms in \<open>simp add: evaluateSupportedCriteria_def\<close>)


subsection \<open>Holdouts are probed or reported\<close>

definition holdout_holds :: "'w criteria_env \<Rightarrow> string \<Rightarrow> string \<times> string \<Rightarrow> bool" where
  "holdout_holds ce name h \<longleftrightarrow>
     (\<exists>cs checks. ce_load ce (snd h) = Inr cs \<and> holdoutProbeChecks cs = Inr (checks, [])
        \<and> (if checks = [] then True else all_pass ce name checks))"

definition tagged :: "run_summary list \<Rightarrow> bool" where
  "tagged fs \<longleftrightarrow> list_all (\<lambda>f. fs_check f = holdoutCheckName) fs"

lemma holdout_failed_check [simp]: "fs_check (holdout_failed n c d) = holdoutCheckName"
  by (simp add: holdout_failed_def own_failure_def)

lemma probe_holdout_result:
  "probe_holdout ce name dir n checks w = ((st, fs), w') \<Longrightarrow> tagged fs \<and> (if fs = [] then all_pass ce name checks else True)"
  by (auto simp: probe_holdout_def tagged_def list_all_iff split: prod.splits sum.splits if_splits dest: real_probe_pass)

lemma run_holdout_result:
  assumes "run_holdout ce name dir h w = ((st, fs, n), w')"
  shows "tagged fs \<and> (if fs = [] then holdout_holds ce name h else True)"
proof (cases "ce_load ce (snd h)")
  case (Inl e)
  with assms show ?thesis by (auto simp: run_holdout_def tagged_def split: prod.splits)
next
  case (Inr cs)
  show ?thesis
  proof (cases "holdoutProbeChecks cs")
    case (Inl e)
    with assms \<open>ce_load ce (snd h) = Inr cs\<close> show ?thesis by (auto simp: run_holdout_def tagged_def split: prod.splits)
  next
    case checks: (Inr r)
    obtain checks un where r: "r = (checks, un)" by fastforce
    show ?thesis
    proof (cases "checks = []")
      case True
      with assms Inr checks r show ?thesis
        by (auto simp: run_holdout_def tagged_def holdout_holds_def list_all_iff Let_def split: prod.splits)
    next
      case False
      obtain st' fs' w1 where p: "probe_holdout ce name dir (fst h) checks w = ((st', fs'), w1)" by (metis surj_pair)
      with assms Inr checks r False have "fs = map (\<lambda>u. holdout_failed (fst h) ''holdout criteria'' (''criterion '' @ quote u
            @ '' cannot be probed against a running stack. A holdout may use connectivity, http_probe or dns_resolution'')) un @ fs'"
        by (auto simp: run_holdout_def Let_def split: prod.splits)
      with probe_holdout_result [OF p] Inr checks r show ?thesis
        by (auto simp: tagged_def holdout_holds_def list_all_iff)
    qed
  qed
qed

lemma run_holdouts_result:
  "run_holdouts ce name dir hs w = ((st, fs, n), w') \<Longrightarrow>
     tagged fs \<and> (if fs = [] then list_all (holdout_holds ce name) hs else True)"
proof (induction hs arbitrary: w st fs n w')
  case (Cons h hs)
  obtain st1 fs1 n1 w1 where first: "run_holdout ce name dir h w = ((st1, fs1, n1), w1)" by (metis surj_pair)
  obtain st2 fs2 n2 w2 where later: "run_holdouts ce name dir hs w1 = ((st2, fs2, n2), w2)" by (metis surj_pair)
  from Cons.prems first later have "fs = fs1 @ fs2" by simp
  with run_holdout_result [OF first] Cons.IH [OF later] show ?case by (auto simp: tagged_def)
qed (simp add: tagged_def)

lemma holdouts_hold:
  assumes "holdoutAfterCriteria ce True name [] w = ((st, []), w')" "ce_sandbox ce"
  shows "\<exists>hs. ce_discover ce name = Inr hs \<and> list_all (holdout_holds ce name) hs"
proof (cases "ce_discover ce name")
  case (Inl e)
  with assms show ?thesis by (simp add: holdoutAfterCriteria_def runHoldouts_def)
next
  case (Inr hs)
  obtain ss fs n w1 where run: "run_holdouts ce name (ce_output_dir ce) hs w = ((ss, fs, n), w1)" by (metis surj_pair)
  with assms Inr run_holdouts_result [OF run] show ?thesis by (auto simp: holdoutAfterCriteria_def runHoldouts_def)
qed

text \<open>
  A holdout is probed or reported, never dropped. When a run asked for its holdouts, nothing failed
  before and nothing fails here, the holdout directory was read and each of the scenario's holdouts was
  loaded, holds only criteria that can be probed, and passed each of them on an answer of the network;
  a request that could not be honoured leaves a skip line; and every failure carries the mark by which
  the run loop keeps it from the generator.
\<close>

theorem holdout_pass_is_evidence:
  "case holdoutAfterCriteria ce wanted name prior w of ((st, fs), w') \<Rightarrow>
     list_all (\<lambda>f. fs_check f = holdoutCheckName) fs
     \<and> (if \<not> wanted then st = []
        else if ce_sandbox ce \<and> prior = []
        then (if fs = [] then \<exists>hs. ce_discover ce name = Inr hs \<and> list_all (holdout_holds ce name) hs else True)
        else skipped_stage ''skipped'' st)"
proof (cases "wanted \<and> ce_sandbox ce \<and> prior = []")
  case True
  show ?thesis
  proof (cases "ce_discover ce name")
    case (Inl e)
    with True show ?thesis by (simp add: holdoutAfterCriteria_def runHoldouts_def)
  next
    case (Inr hs)
    obtain st fs n w1 where run: "run_holdouts ce name (ce_output_dir ce) hs w = ((st, fs, n), w1)" by (metis surj_pair)
    with True Inr run_holdouts_result [OF run] show ?thesis
      by (auto simp: holdoutAfterCriteria_def runHoldouts_def tagged_def)
  qed
next
  case False
  then show ?thesis by (auto simp: holdoutAfterCriteria_def skipped_stage_def holdout_stage_def stage_def)
qed

text \<open>
  What a policy's package line may hold. Its text is searched for a line that holds the package and
  nothing else, so a line that ends in a comment names no package: the evaluation queries nothing
  and finds no denial, whatever the rule would have said.
\<close>

lemma commented_package_is_not_found:
  "find_first packagePattern ''package a # x'' = None"
  by code_simp

lemma no_package_no_denial:
  assumes "discoverPolicyPackages pe file = Inr []" "policy_input decoded extra = Inr input"
  shows "EvaluateStatePoliciesWithInput pe (Some decoded) extra file = Inr []"
  using assms by (simp add: EvaluateStatePoliciesWithInput_def)

end
