(* ===== verification/Test_Command.thy ===== *)
theory Test_Command
  imports Aws_Post_Apply Criteria Run_Command
begin

text \<open>
  One test of a scenario, \<^verbatim>\<open>executeTestWithScenario\<close> of \<^verbatim>\<open>cli/test_command.go\<close>, composed of the models of
  its parts: the support matrix, the gate on the configuration, the mock deploy with its second plan, the
  sandbox phase in the run's own project or under the AWS claim, the criteria and holdouts, the two
  destroys, and the one place where a project is released or kept.

  The world the AWS clients act on is the world tofu acts on, so the state is \<open>'v world aws_world\<close>. The
  structural gate over the HCL is a parameter. A sweep that never ends does not return: \<open>None\<close>.
\<close>

subsection \<open>What a test is given\<close>

record test_options =
  to_mode :: mock_deploy_mode
  to_skip_destroy :: bool
  to_keep :: bool
  to_hold :: bool
  to_continue_on_drift :: bool
  to_holdout :: bool

record test_scenario =
  ts_name :: string
  ts_cloud :: string
  ts_criteria :: "acceptance_criterion list"
  ts_service :: "service_spec option"

record 'v test_env =
  te_run :: "'v aws_run"
  te_mock :: "'v mock_client"
  te_mock_enabled :: bool
  te_deps :: bool \<comment> \<open>the mock deploy and destroy harnesses are there\<close>
  te_criteria :: "'v criteria_env"
  te_env :: env \<comment> \<open>the environment of Layer 2\<close>
  te_gate :: "layer3_cloud \<Rightarrow> string \<Rightarrow> string option \<Rightarrow> 'v \<Rightarrow> string option"
    \<comment> \<open>why the configuration in a directory is refused, given the rendered user data\<close>
  te_user_data :: "'v world user_data_env"
  te_stamp :: string
  te_fresh :: "'v \<Rightarrow> 'v" \<comment> \<open>calls are made on a fresh context from here; the run's own context stays as it is\<close>

abbreviation te_rt :: "'v test_env \<Rightarrow> 'v runtime" where
  "te_rt te \<equiv> ar_rt (te_run te)"

abbreviation te_dir :: "'v test_env \<Rightarrow> string" where
  "te_dir te \<equiv> ar_dir (te_run te)"

abbreviation te_sandbox :: "'v test_env \<Rightarrow> bool" where
  "te_sandbox te \<equiv> ce_sandbox (te_criteria te)"

definition ended_at :: "'v test_env \<Rightarrow> 'v world aws_world \<Rightarrow> bool" where
  "ended_at te st = ar_ended (te_run te) (w_api (az_world st))"

definition on_world :: "('v world \<Rightarrow> 'a \<times> 'v world) \<Rightarrow> 'v world aws_world \<Rightarrow> 'a \<times> 'v world aws_world" where
  "on_world f st = (case f (az_world st) of (r, w) \<Rightarrow> (r, st\<lparr>az_world := w\<rparr>))"

type_synonym run_report = "stage_summary list \<times> run_summary list"

definition lift_report :: "report \<Rightarrow> run_report" where
  "lift_report rep = (fst rep, run_failures (snd rep))"

definition joined :: "run_report \<Rightarrow> run_report \<Rightarrow> run_report" (* the second after the first *) where
  "joined a b = (fst a @ fst b, snd a @ snd b)"

definition may_hold :: "'v test_env \<Rightarrow> 'v world aws_world \<Rightarrow> bool" where
  "may_hold te st = liveStateMayHoldResources (live_file (te_run te) st)"

definition test_error :: "string \<Rightarrow> string" where
  "test_error e = ''test: [command_failed] '' @ e"

type_synonym 'v test_end = "(step_result \<times> string \<times> string option) \<times> 'v world aws_world"

definition finish :: "run_report \<Rightarrow> string \<Rightarrow> 'v world aws_world \<Rightarrow> 'v test_end" where
  "finish rep plan st =
     ((\<lparr>tr_stages = fst rep, tr_failures = snd rep\<rparr>, plan,
       if snd rep = [] then None else Some (test_error ''test checks failed'')), st)"

subsection \<open>The gate before any tofu\<close>

text \<open>Why the configuration may not be run, and the cloud it is for.\<close>

definition test_cloud :: "test_scenario \<Rightarrow> layer3_cloud" where
  "test_cloud sc = (case parseLayer3Cloud (ts_cloud sc) of Inl _ \<Rightarrow> Other_Cloud [] | Inr c \<Rightarrow> c)"

definition layer3TestGateInputs :: "layer3_cloud \<Rightarrow> test_scenario \<Rightarrow> string + string option" where
  "layer3TestGateInputs cloud sc =
     (if cloud \<noteq> layer3AWS then Inr None
      else (case ts_service sc of None \<Rightarrow> Inr None | Some s \<Rightarrow> map_sum (\<lambda>e. e) Some (renderAWSUserData s)))"

definition test_gate :: "'v test_env \<Rightarrow> test_scenario \<Rightarrow> 'v world aws_world \<Rightarrow> string option" where
  "test_gate te sc st =
     (case parseLayer3Cloud (ts_cloud sc) of
        Inl e \<Rightarrow> Some (err_text e)
      | Inr cloud \<Rightarrow>
          (case layer3TestGateInputs cloud sc of
             Inl e \<Rightarrow> Some e
           | Inr script \<Rightarrow> te_gate te cloud (te_dir te) script (w_api (az_world st))))"

definition refused_report :: "'v test_env \<Rightarrow> string \<Rightarrow> 'v world aws_world \<Rightarrow> run_report" where
  "refused_report te why st =
     joined ([stage sandbox_deploy ''allowlist'' StageStatusFail []],
             [own_failure sandbox_deploy ''allowlist'' ''allow_resource_types'' ''layer 3 hcl validation'' why])
       (if may_hold te st
        then ([stage sandbox_deploy ''cleanup_blocked'' StageStatusFail []],
              [own_failure sandbox_deploy ''cleanup_blocked'' ''no_orphans'' ''layer 3 hcl validation''
                (''the configuration was refused, so no tofu was run -- including destroy. ''
                 @ ''Live state still records resources: inspect them and clean up with a configuration that passes validation.'')])
        else ([], []))"

subsection \<open>The mock\<close>

definition mock_phase :: "'v test_env \<Rightarrow> test_options \<Rightarrow> stage_summary list \<Rightarrow> 'v world aws_world
    \<Rightarrow> ((mock_deploy_error + mock_deploy_result) \<times> run_report) \<times> 'v world aws_world" where
  "mock_phase te opts stages st =
     (case on_world (MockDeploy_Run (te_rt te) (te_mock te) (te_dir te) (te_env te) (to_mode opts)) st of (r, st1) \<Rightarrow>
        ((r, lift_report (appendMockDeployResult (cfg_accounts (te_rt te)) (stages, []) r)), st1))"

definition drift_report :: "'v test_env \<Rightarrow> test_options \<Rightarrow> mock_deploy_result \<Rightarrow> run_report" where
  "drift_report te opts d =
     ([stage mock_deploy ''converge'' StageStatusFail []],
      [own_failure mock_deploy ''converge'' convergeCheckName ''tofu plan -detailed-exitcode''
        (driftFailureDetail (cfg_accounts (te_rt te)) (sr_stdout (md_converge d)) (to_continue_on_drift opts))])"

definition mock_destroy :: "'v test_env \<Rightarrow> 'v world aws_world \<Rightarrow> run_report \<times> 'v world aws_world" where
  "mock_destroy te st =
     map_prod lift_report id
       (on_world (destroyMock (te_rt te) (te_mock te) (ar_ended (te_run te)) (te_dir te) (te_env te)) st)"

text \<open>The mock is destroyed, and in the same branch the sandbox.\<close>

definition destroys :: "'v test_env \<Rightarrow> test_options \<Rightarrow> bool" where
  "destroys te opts \<longleftrightarrow> ar_destruction (te_run te) \<and> \<not> to_skip_destroy opts"

subsection \<open>The sandbox\<close>

definition assertSandboxCredentials :: "'v test_env \<Rightarrow> layer3_cloud \<Rightarrow> 'v world aws_world
    \<Rightarrow> string option \<times> 'v world aws_world" where
  "assertSandboxCredentials te cloud st =
     (case cloud of
        layer3Scaleway \<Rightarrow> (case sandboxEnvWithProjectDefault (te_rt te) [] of
            Inl e \<Rightarrow> (Some (err_text e), st) | Inr _ \<Rightarrow> (None, st))
      | layer3AWS \<Rightarrow> (case awsVerifiedEnv (te_run te) st of
            (Inl e, st1) \<Rightarrow> (Some e, st1) | (Inr _, st1) \<Rightarrow> (None, st1))
      | Other_Cloud _ \<Rightarrow> (Some (err_text (layer3SeamRefused cloud ''credentials'')), st))"

definition sandboxPreflightPassDetail :: "'v test_env \<Rightarrow> layer3_cloud \<Rightarrow> string" where
  "sandboxPreflightPassDetail te cloud =
     (if cloud = layer3AWS
      then ''credentials verified by sts:GetCallerIdentity as account '' @ ar_account (te_run te)
        @ '' ('' @ ar_key_arn (te_run te) @ ''); the SCP that bounds the scope is not asserted''
      else ''credentials present; endpoint asserted as '' @ realScalewayAPIURL)"

text \<open>The project or the account, with the claim on it.\<close>

definition ensure_project :: "'v test_env \<Rightarrow> test_scenario \<Rightarrow> layer3_cloud \<Rightarrow> 'v world aws_world
    \<Rightarrow> ((string \<times> report) \<times> 'v world aws_world) option" where
  "ensure_project te sc cloud st =
     (if cloud = layer3AWS then ensureAWSScopeClaim (te_run te) st
      else Some (on_world (ensureRunProject (te_rt te) (\<lambda>w. (([], [], []), w)) cloud (ts_name sc) (te_dir te) (te_stamp te)) st))"

definition command_env :: "'v test_env \<Rightarrow> layer3_cloud \<Rightarrow> string \<Rightarrow> string + env" where
  "command_env te cloud project =
     map_sum err_text id (sandboxCommandEnvForProject (te_rt te)
       (\<lambda>scope. map_sum errorf id (awsCommandEnvForAccount (te_run te) scope)) cloud project)"

definition project_env :: "'v test_env \<Rightarrow> layer3_cloud \<Rightarrow> string \<times> report \<Rightarrow> string + env" where
  "project_env te cloud created =
     (if snd (snd created) \<noteq> []
      then Inl (if cloud = layer3AWS then ''this run could not confirm it holds the aws scope'' @ [apostrophe] @ ''s claim''
                else ''run project unavailable'')
      else if fst created \<noteq> [] then command_env te cloud (fst created)
      else Inr [])"

text \<open>The project, the lines of its creation, and the environment it gives.\<close>

definition sandbox_preflight :: "'v test_env \<Rightarrow> test_scenario \<Rightarrow> layer3_cloud \<Rightarrow> 'v world aws_world
    \<Rightarrow> ((string \<times> run_report \<times> (string + env)) \<times> 'v world aws_world) option" where
  "sandbox_preflight te sc cloud st =
     (case assertSandboxCredentials te cloud st of
        (Some e, st1) \<Rightarrow> Some (([], ([], []), Inl e), st1)
      | (None, st1) \<Rightarrow>
          (case ensure_project te sc cloud st1 of
             None \<Rightarrow> None
           | Some (created, st2) \<Rightarrow> Some ((fst created, lift_report (snd created), project_env te cloud created), st2)))"

definition plan_text :: "sandbox_deploy_error + sandbox_deploy_result \<Rightarrow> string" where
  "plan_text r =
     (case r of
        Inr d \<Rightarrow> sr_stdout (sd_plan d)
      | Inl (Sandbox_Deploy_Error f) \<Rightarrow> sr_stdout (sf_plan f)
      | Inl (Sandbox_Other_Error _) \<Rightarrow> [])"

text \<open>Applied and, on AWS, checked; the plan's text.\<close>

definition apply_phase :: "'v test_env \<Rightarrow> test_scenario \<Rightarrow> layer3_cloud \<Rightarrow> env \<Rightarrow> 'v world aws_world
    \<Rightarrow> (bool \<times> string \<times> run_report) \<times> 'v world aws_world" where
  "apply_phase te sc cloud e st =
     (case on_world (SandboxDeploy_Run (te_rt te) (ar_ended (te_run te)) (te_dir te) e) st of (r, st1) \<Rightarrow>
        let rep = appendSandboxDeployResult (cfg_accounts (te_rt te)) ([], []) r; ok = (case r of Inr _ \<Rightarrow> True | Inl _ \<Rightarrow> False) in
        if ok \<and> cloud = layer3AWS
        then (case appendAWSPostApplyChecks (te_run te) (te_user_data te) (ts_service sc) e rep st1 of
            ((rep1, checked), st2) \<Rightarrow> ((checked, plan_text r, lift_report rep1), st2))
        else ((ok, plan_text r, lift_report rep), st1))"

record sandbox_result =
  sb_project :: string
  sb_applied :: bool
  sb_plan :: string

definition no_sandbox :: sandbox_result where
  "no_sandbox = \<lparr>sb_project = [], sb_applied = False, sb_plan = []\<rparr>"

definition sandbox_phase :: "'v test_env \<Rightarrow> test_scenario \<Rightarrow> layer3_cloud \<Rightarrow> 'v world aws_world
    \<Rightarrow> ((sandbox_result \<times> run_report) \<times> 'v world aws_world) option" where
  "sandbox_phase te sc cloud st =
     (case sandbox_preflight te sc cloud st of
        None \<Rightarrow> None
      | Some ((project, rep, Inl e), st1) \<Rightarrow>
          Some ((\<lparr>sb_project = project, sb_applied = False, sb_plan = []\<rparr>,
            joined rep ([stage sandbox_deploy ''preflight'' StageStatusFail []],
              [own_failure sandbox_deploy ''preflight'' ''credentials'' ''sandbox deploy preflight'' e])), st1)
      | Some ((project, rep, Inr e), st1) \<Rightarrow>
          (case apply_phase te sc cloud e st1 of
             ((ok, plan, rep2), st2) \<Rightarrow>
               Some ((\<lparr>sb_project = project, sb_applied = ok, sb_plan = plan\<rparr>,
                 joined rep (joined ([stage sandbox_deploy ''preflight'' StageStatusPass (sandboxPreflightPassDetail te cloud)], [])
                   rep2)), st2)))"

subsection \<open>Criteria and teardown\<close>

definition criteria_phase :: "'v test_env \<Rightarrow> test_scenario \<Rightarrow> test_options \<Rightarrow> document \<Rightarrow> bool \<Rightarrow> run_report
    \<Rightarrow> 'v world aws_world \<Rightarrow> run_report \<times> 'v world aws_world" where
  "criteria_phase te sc opts doc applied rep st =
     (let ce = te_criteria te in
      case on_world (evaluateSupportedCriteria ce (ts_name sc) (ts_cloud sc) (ts_criteria sc) doc applied) st of
        (found, st1) \<Rightarrow>
          let rep1 = joined rep found in
          (case on_world (holdoutAfterCriteria ce (to_holdout opts) (ts_name sc) (snd rep1)) st1 of
             (unseen, st2) \<Rightarrow> (joined rep1 unseen, st2)))"

definition sandbox_destroy :: "'v test_env \<Rightarrow> layer3_cloud \<Rightarrow> string \<Rightarrow> 'v world aws_world
    \<Rightarrow> run_report \<times> 'v world aws_world" where
  "sandbox_destroy te cloud project st =
     (let rt = te_rt te; dir = te_dir te in
      case command_env te cloud project of
        Inl e \<Rightarrow> (([stage sandbox_deploy ''destroy_preflight'' StageStatusFail []],
          [own_failure sandbox_deploy ''destroy_preflight'' ''credentials'' ''sandbox destroy preflight'' e]), st)
      | Inr e \<Rightarrow> map_prod lift_report id
          (on_world (\<lambda>w. project_teardown rt cloud dir e project (CaptureSweepTarget (svc rt) w dir) w) st))"

text \<open>The mock's destroy, then the sandbox's; what a flag keeps is decided between them.\<close>

record teardown_choice =
  tc_keeping :: bool
  tc_holding :: bool

definition teardown_phase :: "'v test_env \<Rightarrow> test_options \<Rightarrow> layer3_cloud \<Rightarrow> string \<Rightarrow> run_report \<Rightarrow> 'v world aws_world
    \<Rightarrow> (teardown_choice \<times> run_report) \<times> 'v world aws_world" where
  "teardown_phase te opts cloud project rep0 st0 =
     (case mock_destroy te st0 of (destroyed, st) \<Rightarrow>
        let rep = joined rep0 destroyed;
            keeping = (to_keep opts \<and> snd rep = [] \<and> \<not> ended_at te st);
            choice = \<lparr>tc_keeping = keeping, tc_holding = (to_hold opts \<and> snd rep = [])\<rparr>;
            rep1 = (if te_sandbox te \<and> keeping
              then joined rep ([stage sandbox_deploy ''destroy'' StageStatusSkip
                ''kept by --keep; the run registers it as a live deployment with a TTL''], [])
              else rep)
        in if te_sandbox te \<and> \<not> keeping \<and> cloud \<noteq> layer3AWS \<and> may_hold te st
           then (case sandbox_destroy te cloud project st of (torn, st1) \<Rightarrow> ((choice, joined rep1 torn), st1))
           else ((choice, rep1), st))"

definition no_teardown :: "test_options \<Rightarrow> teardown_choice" where
  "no_teardown opts = \<lparr>tc_keeping = to_keep opts, tc_holding = False\<rparr>"

definition not_destroyed :: "test_options \<Rightarrow> run_report" where
  "not_destroyed opts = ([stage destruction ''disabled'' StageStatusSkip
     (if to_skip_destroy opts then ''skipped by --no-destroy'' else [])], [])"

text \<open>\<^verbatim>\<open>finishTeardown\<close> around the AWS teardown: cut short by a signal, it runs again on a fresh context.\<close>

definition freshen_aws :: "('v \<Rightarrow> 'v) \<Rightarrow> 'v world aws_world \<Rightarrow> 'v world aws_world" where
  "freshen_aws fresh st = st\<lparr>az_world := freshen fresh (az_world st)\<rparr>"

definition finish_aws :: "'v test_env \<Rightarrow> ('v world aws_world \<Rightarrow> (report \<times> 'v world aws_world) option)
    \<Rightarrow> 'v world aws_world \<Rightarrow> (report \<times> 'v world aws_world) option" where
  "finish_aws te teardown st =
     (if ended_at te st then teardown (freshen_aws (te_fresh te) st)
      else (case teardown st of
          None \<Rightarrow> None
        | Some (rep, st1) \<Rightarrow>
            if snd rep = [] \<or> \<not> ended_at te st1 then Some (rep, st1)
            else teardown (freshen_aws (te_fresh te) st1)))"

definition delete_skipped :: "string \<Rightarrow> run_report" where
  "delete_skipped detail = ([stage sandbox_deploy ''run_project_delete'' StageStatusSkip detail], [])"

text \<open>Outside every branch: the claim settled, or the project released, kept on purpose, or kept and said so.\<close>

definition cleanup_phase :: "'v test_env \<Rightarrow> test_options \<Rightarrow> layer3_cloud \<Rightarrow> string \<Rightarrow> teardown_choice \<Rightarrow> run_report
    \<Rightarrow> 'v world aws_world \<Rightarrow> (run_report \<times> 'v world aws_world) option" where
  "cleanup_phase te opts cloud project choice rep st =
     (if cloud = layer3AWS \<and> project \<noteq> []
      then (case finish_aws te (awsScopeTeardown (te_run te) (to_skip_destroy opts) (tc_holding choice)) st of
          None \<Rightarrow> None
        | Some (torn, st1) \<Rightarrow> Some (joined rep (lift_report torn), st1))
      else if project = [] \<or> runProjectReleased (fst rep) then Some (rep, st)
      else if \<not> may_hold te st
      then (case command_env te cloud project of
          Inl e \<Rightarrow> Some (joined rep (lift_report (delete_failed ''credentials''
            (''project '' @ project @ '' holds nothing but could not be deleted: '' @ e))), st)
        | Inr e \<Rightarrow> (case on_world (releaseRunProject (te_rt te) cloud (te_dir te) project e) st of
            (released, st1) \<Rightarrow> Some (joined rep (lift_report released), st1)))
      else if tc_keeping choice
      then Some (joined rep (delete_skipped (''kept '' @ project
        @ '' on purpose (--keep); it is registered as a live deployment and `live teardown` removes it'')), st)
      else Some (joined rep (delete_skipped (''kept '' @ project
        @ '': this run may still have resources, and the project is the handle to them. Destroy them, then delete it by hand'')), st))"

definition interrupted_report :: "'v test_env \<Rightarrow> 'v world aws_world \<Rightarrow> run_report" where
  "interrupted_report te st =
     (if ended_at te st then ([], [own_failure ''run'' ''interrupted'' ''interrupted'' []
        ''the run was interrupted, so it did not pass, whatever its teardown then finished'']) else ([], []))"

subsection \<open>The test\<close>

text \<open>What follows the sandbox phase, the mock's deploy having succeeded or not.\<close>

definition after_sandbox :: "'v test_env \<Rightarrow> test_scenario \<Rightarrow> test_options \<Rightarrow> layer3_cloud
    \<Rightarrow> mock_deploy_error + mock_deploy_result \<Rightarrow> sandbox_result \<Rightarrow> run_report \<Rightarrow> 'v world aws_world
    \<Rightarrow> (teardown_choice \<times> run_report) \<times> 'v world aws_world" where
  "after_sandbox te sc opts cloud deployed sb rep st =
     (case deployed of
        Inl _ \<Rightarrow> ((no_teardown opts, rep), st)
      | Inr d \<Rightarrow>
          (case criteria_phase te sc opts (md_state d) (sb_applied sb) rep st of (rep1, st1) \<Rightarrow>
             if destroys te opts then teardown_phase te opts cloud (sb_project sb) rep1 st1
             else ((no_teardown opts, joined rep1 (not_destroyed opts)), st1)))"

definition test_rest :: "'v test_env \<Rightarrow> test_scenario \<Rightarrow> test_options \<Rightarrow> layer3_cloud
    \<Rightarrow> mock_deploy_error + mock_deploy_result \<Rightarrow> run_report \<Rightarrow> 'v world aws_world \<Rightarrow> 'v test_end option" where
  "test_rest te sc opts cloud deployed rep st =
     (case (case deployed of
              Inr _ \<Rightarrow> if te_sandbox te then sandbox_phase te sc cloud st else Some ((no_sandbox, ([], [])), st)
            | Inl _ \<Rightarrow> Some ((no_sandbox, ([], [])), st)) of
        None \<Rightarrow> None
      | Some ((sb, sandboxed), st1) \<Rightarrow>
          (case after_sandbox te sc opts cloud deployed sb (joined rep sandboxed) st1 of
             ((choice, rep2), st2) \<Rightarrow>
               (case cleanup_phase te opts cloud (sb_project sb) choice rep2 st2 of
                  None \<Rightarrow> None
                | Some (rep3, st3) \<Rightarrow> Some (finish (joined rep3 (interrupted_report te st3)) (sb_plan sb) st3))))"

text \<open>With the drift of the second plan: the run stops there, unless it was asked to go on.\<close>

definition test_deployed :: "'v test_env \<Rightarrow> test_scenario \<Rightarrow> test_options \<Rightarrow> stage_summary list \<Rightarrow> 'v world aws_world
    \<Rightarrow> 'v test_end option" where
  "test_deployed te sc opts stages st =
     (case mock_phase te opts stages st of ((r, rep), st1) \<Rightarrow>
        let drifted = (case r of Inr d \<Rightarrow> md_drifted d | Inl _ \<Rightarrow> False);
            rep1 = (case r of Inr d \<Rightarrow> if md_drifted d then joined rep (drift_report te opts d) else rep | Inl _ \<Rightarrow> rep)
        in if drifted \<and> \<not> to_continue_on_drift opts
           then (if destroys te opts
                 then (case mock_destroy te st1 of (destroyed, st2) \<Rightarrow> Some (finish (joined rep1 destroyed) [] st2))
                 else Some (finish rep1 [] st1))
           else test_rest te sc opts (test_cloud sc) r rep1 st1)"

definition mock_disabled :: "'v test_env \<Rightarrow> stage_summary list" where
  "mock_disabled te = [stage mock_deploy ''disabled'' StageStatusSkip [],
     if ar_destruction (te_run te) then stage destruction ''blocked'' StageStatusSkip ''requires mock_deploy.enabled''
     else stage destruction ''disabled'' StageStatusSkip []]"

definition executeTestWithScenario :: "'v test_env \<Rightarrow> test_scenario \<Rightarrow> test_options \<Rightarrow> 'v world aws_world
    \<Rightarrow> 'v test_end option" where
  "executeTestWithScenario te sc opts st =
     (case unsupportedCriteriaResult (ts_criteria sc) (te_sandbox te) of
        Inl e \<Rightarrow> Some ((no_result, [], Some e), st)
      | Inr (unsupported, fs) \<Rightarrow>
          if fs \<noteq> []
          then Some ((\<lparr>tr_stages = unsupported, tr_failures = run_failures fs\<rparr>, [],
                 Some (test_error ''unsupported acceptance criteria present'')), st)
          else if \<not> te_deps te
          then Some ((no_result, [], Some ''mock deploy/destroy dependencies unavailable: dependency unavailable''), st)
          else if \<not> te_mock_enabled te
          then Some ((\<lparr>tr_stages = unsupported @ mock_disabled te, tr_failures = []\<rparr>, [], None), st)
          else if te_sandbox te
          then (case test_gate te sc st of
              Some why \<Rightarrow> Some (finish (joined (unsupported, []) (refused_report te why st)) [] st)
            | None \<Rightarrow> test_deployed te sc opts (unsupported @ [stage sandbox_deploy ''allowlist'' StageStatusPass []]) st)
          else test_deployed te sc opts unsupported st)"

subsection \<open>A refused configuration\<close>

lemma joined_simps [simp]: "fst (joined a b) = fst a @ fst b" "snd (joined a b) = snd a @ snd b"
  by (simp_all add: joined_def)

lemma lift_report_simps [simp]: "fst (lift_report rep) = fst rep" "snd (lift_report rep) = run_failures (snd rep)"
  by (simp_all add: lift_report_def)

lemma run_failures_Nil [simp]: "run_failures fs = [] \<longleftrightarrow> fs = []"
  by (simp add: run_failures_def)

lemma run_failures_append [simp]: "run_failures (as @ bs) = run_failures as @ run_failures bs"
  by (simp add: run_failures_def)

lemma stage_simps [simp]: "sm_layer (stage l n s d) = l" "sm_stage (stage l n s d) = n" "sm_status (stage l n s d) = s"
  "sm_detail (stage l n s d) = d"
  by (simp_all add: stage_def)

definition named_line :: "string \<Rightarrow> stage_summary \<Rightarrow> bool" where
  "named_line name s \<longleftrightarrow> sm_layer s = sandbox_deploy \<and> sm_stage s = name"

lemma unsupported_lines:
  "unsupportedCriteriaResult cs sandbox = Inr (stages, fs) \<Longrightarrow> list_all (\<lambda>s. sm_layer s = ''criteria'') stages"
  by (auto simp: unsupportedCriteriaResult_def Let_def criteria_skip_def split: sum.splits if_splits)

lemma other_layer: "list_all (\<lambda>s. sm_layer s = l) stages \<Longrightarrow> l \<noteq> sandbox_deploy \<Longrightarrow> \<not> list_ex (named_line name) stages"
  by (auto simp: list_all_iff list_ex_iff named_line_def)

text \<open>
  C9. A configuration the gate refuses is never run. With Layer 3 enabled, a test whose configuration is
  refused fails and leaves the world as it found it: no tofu command ran, not even to clean up, no
  request was sent, nothing was deployed to the mock. It says so, and says besides that resources may be
  left behind exactly when the live state may hold some.
\<close>

theorem refused_configuration_runs_nothing:
  "if te_sandbox te \<and> te_mock_enabled te \<and> test_gate te sc st \<noteq> None
   then (case executeTestWithScenario te sc opts st of
       None \<Rightarrow> False
     | Some ((tr, plan, err), st') \<Rightarrow> st' = st \<and> err \<noteq> None \<and> plan = []
         \<and> (list_ex (named_line ''cleanup_blocked'') (tr_stages tr)
              \<longleftrightarrow> list_ex (named_line ''allowlist'') (tr_stages tr) \<and> may_hold te st))
   else True"
proof (cases "te_sandbox te \<and> te_mock_enabled te \<and> test_gate te sc st \<noteq> None")
  case True
  then obtain why where gate: "test_gate te sc st = Some why" by blast
  show ?thesis
  proof (cases "unsupportedCriteriaResult (ts_criteria sc) (te_sandbox te)")
    case (Inl e)
    with True show ?thesis by (simp add: executeTestWithScenario_def no_result_def)
  next
    case (Inr r)
    obtain stages fs where r: "r = (stages, fs)" by fastforce
    note quiet = other_layer [OF unsupported_lines [OF Inr [unfolded r]]]
    have "\<not> list_ex (named_line name) stages" for name
      using quiet by (simp add: sandbox_deploy_def)
    with True gate Inr r show ?thesis
      by (auto simp: executeTestWithScenario_def finish_def refused_report_def no_result_def named_line_def)
  qed
qed auto

subsection \<open>Every project is accounted for\<close>

text \<open>The line that says a project was created.\<close>

definition created :: "stage_summary \<Rightarrow> bool" where
  "created s \<longleftrightarrow> named_line ''run_project'' s \<and> sm_status s = StageStatusPass"

definition quiet :: "stage_summary list \<Rightarrow> bool" where
  "quiet ss \<longleftrightarrow> \<not> list_ex created ss"

definition delete_line :: "stage_summary list \<Rightarrow> bool" where
  "delete_line ss \<longleftrightarrow> list_ex (\<lambda>s. sm_stage s = ''run_project_delete'') ss"

lemma quiet_append [simp]: "quiet (as @ bs) \<longleftrightarrow> quiet as \<and> quiet bs"
  by (simp add: quiet_def)

lemma quiet_Nil [simp]: "quiet []"
  by (simp add: quiet_def)

lemma quiet_Cons [simp]: "quiet (s # ss) \<longleftrightarrow> \<not> created s \<and> quiet ss"
  by (simp add: quiet_def)

lemma delete_line_append [simp]: "delete_line (as @ bs) \<longleftrightarrow> delete_line as \<or> delete_line bs"
  by (simp add: delete_line_def)

lemma created_stage [simp]: "created (stage l n s d) \<longleftrightarrow> l = sandbox_deploy \<and> n = ''run_project'' \<and> s = StageStatusPass"
  by (simp add: created_def named_line_def)

lemma layer_texts [simp]: "mock_deploy \<noteq> sandbox_deploy" "destruction \<noteq> sandbox_deploy" "sandbox_deploy \<noteq> mock_deploy"
  "sandbox_deploy \<noteq> destruction" "sandbox_deploy \<noteq> ''holdout''" "sandbox_deploy \<noteq> ''criteria''" "sandbox_deploy \<noteq> ''mock_deploy''"
  "''holdout'' \<noteq> sandbox_deploy" "''criteria'' \<noteq> sandbox_deploy" "''mock_deploy'' \<noteq> sandbox_deploy"
  by (simp_all add: mock_deploy_def destruction_def sandbox_deploy_def)

lemma quiet_layer: "list_all (\<lambda>s. sm_layer s \<noteq> sandbox_deploy) ss \<Longrightarrow> quiet ss"
  by (auto simp: quiet_def list_all_iff list_ex_iff created_def named_line_def)

lemma quiet_ran [simp]: "quiet (ran l n s d) \<longleftrightarrow> \<not> (sr_stage s \<noteq> [] \<and> l = sandbox_deploy \<and> n = ''run_project'')"
  by (simp add: ran_def)

lemma quiet_mock_failed: "quiet ss \<Longrightarrow> quiet (mock_failed_stages ss name)"
  by (cases ss rule: rev_cases) (auto simp: mock_failed_stages_def created_def named_line_def)

lemma quiet_mock_phase: "quiet ss \<Longrightarrow> mock_phase te opts ss st = ((r, rep), st') \<Longrightarrow> quiet (fst rep)"
  by (auto simp: mock_phase_def appendMockDeployResult_def quiet_mock_failed
      split: prod.splits sum.splits mock_deploy_error.splits)

lemma quiet_mock_destroy: "mock_destroy te st = (rep, st') \<Longrightarrow> quiet (fst rep)"
  by (auto simp: mock_destroy_def on_world_def destroyMock_def appendDestroyResult_def
      split: prod.splits sum.splits destroy_error.splits if_splits)

lemma quiet_sandbox_deploy: "quiet (fst (appendSandboxDeployResult accounts ([], []) r))"
  by (auto simp: appendSandboxDeployResult_def split: sum.splits sandbox_deploy_error.splits)

lemma quiet_post_apply:
  "quiet (fst rep) \<Longrightarrow> appendAWSPostApplyChecks ar ue sp e rep st = ((rep', ok), st') \<Longrightarrow> quiet (fst rep')"
  by (auto simp: appendAWSPostApplyChecks_def Let_def both_def post_apply_failed_def
      split: option.splits prod.splits sum.splits)

lemma quiet_apply: "apply_phase te sc cloud e st = ((ok, plan, rep), st') \<Longrightarrow> quiet (fst rep)"
  by (auto simp: apply_phase_def Let_def quiet_sandbox_deploy split: prod.splits if_splits
      dest!: quiet_post_apply [OF quiet_sandbox_deploy])

lemma evaluate_policies_layer: "list_all (\<lambda>s. sm_layer s \<noteq> sandbox_deploy) (fst (evaluateStatePolicyCriteria pe cloud doc specs))"
  by (simp add: evaluateStatePolicyCriteria_def Let_def)

lemma quiet_policies: "quiet (fst (evaluateStatePolicyCriteria pe cloud doc specs))"
  by (rule quiet_layer [OF evaluate_policies_layer])

lemma quiet_probe_criteria: "probe_criteria ce name probes w = ((ss, fs), w') \<Longrightarrow> quiet ss"
  by (auto simp: probe_criteria_def probe_stage_def split: prod.splits sum.splits if_splits)

lemma quiet_topology: "quiet (fst (topology_criteria doc checks))"
  by (auto simp: topology_criteria_def split: sum.splits)

lemma quiet_evaluate: "evaluateSupportedCriteria ce name cloud cs doc applied w = ((ss, fs), w') \<Longrightarrow> quiet ss"
proof (cases "ParseAcceptanceCriteria cs")
  case (Inr specs0)
  assume run: "evaluateSupportedCriteria ce name cloud cs doc applied w = ((ss, fs), w')"
  let ?specs = "filter (supported (ce_sandbox ce)) specs0"
  obtain ps pf where pol: "policy_part ce cloud doc ?specs = (ps, pf)" by fastforce
  obtain s1 f1 w1 where stack: "stack_part ce name doc applied ?specs w = ((s1, f1), w1)" by (rule pair_cases)
  have "ss = ps @ s1" using run pol stack by (simp add: evaluate_parts [OF Inr refl])
  moreover have "quiet ps" using pol quiet_policies [of "ce_policy ce" cloud doc "filter (\<lambda>s. ec_type s = ''policy'') ?specs"]
    by (auto simp: policy_part_def Let_def split: if_splits prod.splits)
  moreover have "quiet s1" using stack quiet_topology [of doc "concat (map topology_of ?specs)"]
    by (auto simp: stack_part_def Let_def probe_stage_def split: if_splits dest: quiet_probe_criteria)
  ultimately show "quiet ss" by simp
qed (auto simp: evaluateSupportedCriteria_def)

lemma holdout_lines:
  "run_holdout ce name dir h w = ((ss, fs, n), w') \<Longrightarrow> list_all (\<lambda>s. sm_layer s = ''holdout'') ss"
  by (auto simp: run_holdout_def probe_holdout_def holdout_stage_def list_all_iff Let_def
      split: prod.splits sum.splits if_splits)

lemma holdouts_lines:
  "run_holdouts ce name dir hs w = ((ss, fs, n), w') \<Longrightarrow> list_all (\<lambda>s. sm_layer s = ''holdout'') ss"
  by (induction ce name dir hs w arbitrary: ss fs n w' rule: run_holdouts.induct)
    (auto split: prod.splits dest: holdout_lines)

lemma quiet_holdouts: "holdoutAfterCriteria ce wanted name prior w = ((ss, fs), w') \<Longrightarrow> quiet ss"
proof -
  assume "holdoutAfterCriteria ce wanted name prior w = ((ss, fs), w')"
  then have "list_all (\<lambda>s. sm_layer s = ''holdout'') ss"
    by (auto simp: holdoutAfterCriteria_def runHoldouts_def holdout_stage_def split: prod.splits sum.splits if_splits
        dest: holdouts_lines)
  then show "quiet ss" by (auto intro!: quiet_layer simp: list_all_iff)
qed

lemma criteria_phase_extends:
  assumes "criteria_phase te sc opts doc applied rep st = (rep', st')"
  shows "\<exists>more_rep. rep' = joined rep more_rep \<and> quiet (fst more_rep)"
proof -
  obtain s1 f1 w1 where c: "evaluateSupportedCriteria (te_criteria te) (ts_name sc) (ts_cloud sc) (ts_criteria sc) doc applied
      (az_world st) = ((s1, f1), w1)" by (rule pair_cases)
  obtain s2 f2 w2 where h: "holdoutAfterCriteria (te_criteria te) (to_holdout opts) (ts_name sc) (snd (joined rep (s1, f1))) w1
      = ((s2, f2), w2)" by (rule pair_cases)
  have "rep' = joined (joined rep (s1, f1)) (s2, f2)"
    using assms c h by (simp add: criteria_phase_def on_world_def Let_def)
  then show ?thesis using quiet_evaluate [OF c] quiet_holdouts [OF h]
    by (intro exI [of _ "joined (s1, f1) (s2, f2)"]) (simp add: joined_def)
qed

lemma quiet_destroyed: "quiet (fst (appendSandboxDestroyResult accounts ([], []) r e))"
  by (auto simp: appendSandboxDestroyResult_def withoutConfigStage_def WithoutConfigStage_def split: option.splits destroy_error.splits if_splits)

lemma quiet_release: "releaseRunProject rt cloud d p e w = (rep, w') \<Longrightarrow> quiet (fst rep)"
  by (auto simp: releaseRunProject_def delete_failed_def runProjectDeleteFailure_def runProjectDeleteNotYet_def
      delete_passed_def autoCreatedPurgeStage_def Let_def split: if_splits sum.splits option.splits prod.splits)

lemma quiet_sweep: "appendOrphanSweepResult rt cloud target e rep w = (rep', w') \<Longrightarrow> quiet (fst rep) \<Longrightarrow> quiet (fst rep')"
  by (auto simp: appendOrphanSweepResult_def sweep_failed_def Let_def split: if_splits sum.splits prod.splits)

lemma quiet_project_teardown: "project_teardown rt cloud d e p target w = (rep, w') \<Longrightarrow> quiet (fst rep)"
proof -
  assume run: "project_teardown rt cloud d e p target w = (rep, w')"
  obtain res pur err w1 where ds: "destroySandbox rt cloud d e (sweepTargetProjectID target) w = ((res, pur, err), w1)"
    by (metis prod.exhaust)
  obtain q w2 where rl: "releaseRunProject rt cloud d p e w1 = (q, w2)" by fastforce
  let ?rep0 = "appendSandboxDestroyResult (cfg_accounts rt) ([], []) res err"
  let ?rep1 = "if pur = [] then ?rep0 else (fst ?rep0 @ [autoCreatedPurgeStage pur], snd ?rep0)"
  have 1: "quiet (fst ?rep1)" using quiet_destroyed [of "cfg_accounts rt" res err] by (simp add: autoCreatedPurgeStage_def)
  have "rep = ?rep1 \<or> (\<exists>u. appendOrphanSweepResult rt cloud target e (fst ?rep1 @ fst q, snd ?rep1 @ snd q) w2 = (rep, u))"
    using run unfolding project_teardown_def Let_def ds prod.case rl by (auto split: if_splits)
  then show "quiet (fst rep)" using 1 quiet_release [OF rl] quiet_sweep by fastforce
qed

lemma quiet_sandbox_destroy: "sandbox_destroy te cloud p st = (rep, st') \<Longrightarrow> quiet (fst rep)"
  by (auto simp: sandbox_destroy_def on_world_def Let_def split: sum.splits prod.splits dest: quiet_project_teardown)

lemma teardown_phase_extends:
  assumes "teardown_phase te opts cloud p rep st = ((choice, rep'), st')"
  shows "\<exists>d. rep' = joined rep d \<and> quiet (fst d)"
proof -
  obtain d1 st1 where m: "mock_destroy te st = (d1, st1)" by fastforce
  obtain d2 st2 where s: "sandbox_destroy te cloud p st1 = (d2, st2)" by fastforce
  let ?skip = "([stage sandbox_deploy ''destroy'' StageStatusSkip
    ''kept by --keep; the run registers it as a live deployment with a TTL''], []) :: run_report"
  have assoc: "joined (joined a b) c = joined a (joined b c)" for a b c by (simp add: joined_def)
  have "rep' = joined rep d1 \<or> rep' = joined rep (joined d1 ?skip) \<or> rep' = joined rep (joined d1 d2)
      \<or> rep' = joined rep (joined (joined d1 ?skip) d2)"
    using assms m s by (auto simp: teardown_phase_def Let_def assoc split: if_splits)
  moreover have "quiet (fst d1)" "quiet (fst (joined d1 ?skip))" "quiet (fst (joined d1 d2))"
    "quiet (fst (joined (joined d1 ?skip) d2))"
    using quiet_mock_destroy [OF m] quiet_sandbox_destroy [OF s] by simp_all
  ultimately show ?thesis by blast
qed

lemma after_sandbox_extends:
  assumes "after_sandbox te sc opts cloud deployed sb rep st = ((choice, rep'), st')"
  shows "\<exists>d. rep' = joined rep d \<and> quiet (fst d)"
proof (cases deployed)
  case (Inl e)
  with assms show ?thesis by (intro exI [of _ "([], [])"]) (auto simp: after_sandbox_def joined_def)
next
  case (Inr d)
  obtain rep1 st1 where c: "criteria_phase te sc opts (md_state d) (sb_applied sb) rep st = (rep1, st1)" by fastforce
  from criteria_phase_extends [OF c] obtain c1 where c1: "rep1 = joined rep c1" "quiet (fst c1)" by blast
  obtain c2 where "rep' = joined rep1 c2" "quiet (fst c2)"
  proof (cases "destroys te opts")
    case True
    with assms Inr c have "teardown_phase te opts cloud (sb_project sb) rep1 st1 = ((choice, rep'), st')"
      by (simp add: after_sandbox_def)
    from teardown_phase_extends [OF this] that show thesis by blast
  next
    case False
    with assms Inr c have "rep' = joined rep1 (not_destroyed opts)" by (simp add: after_sandbox_def)
    then show thesis by (rule that) (simp add: not_destroyed_def)
  qed
  with c1 show ?thesis by (intro exI [of _ "joined c1 c2"]) (simp add: joined_def)
qed

lemma quiet_aws_release: "awsReleaseAfterCleanSweep ar st = Some (rep, st') \<Longrightarrow> quiet (fst rep)"
  by (auto simp: awsReleaseAfterCleanSweep_def Let_def split: option.splits prod.splits)

lemma quiet_both [simp]: "quiet (fst (both a b)) \<longleftrightarrow> quiet (fst a) \<and> quiet (fst b)"
  by (simp add: both_def)

lemma quiet_kept: "quiet (fst rep) \<Longrightarrow> quiet (fst (awsScopeClaimKept ar c rep why))"
  by (simp add: awsScopeClaimKept_def StageAWSScopeClaimKept_def)

lemma quiet_recorded: "destroy_recorded ar e st = (rep, st') \<Longrightarrow> quiet (fst rep)"
  using quiet_destroyed by (auto simp: destroy_recorded_def Let_def split: if_splits prod.splits)

lemma quiet_aws_destroy: "awsDestroyAndRelease ar e st = Some (rep, st') \<Longrightarrow> quiet (fst rep)"
proof -
  assume run: "awsDestroyAndRelease ar e st = Some (rep, st')"
  obtain d st1 where d: "destroy_recorded ar e st = (d, st1)" by fastforce
  from run d obtain r where r: "awsReleaseAfterCleanSweep ar st1 = Some (r, st')"
    and rep: "rep = (if snd r \<noteq> []
      then awsScopeClaimKept ar (az_claim st') (both d r) ''the scope was not proven empty and released'' else both d r)"
    by (auto simp: awsDestroyAndRelease_def release_or_keep_def split: option.splits)
  have "quiet (fst (both d r))" using quiet_recorded [OF d] quiet_aws_release [OF r] by simp
  then show "quiet (fst rep)" unfolding rep by (simp add: quiet_kept)
qed

lemma quiet_hold: "awsKeepHold ar st = ((rep, held), st') \<Longrightarrow> quiet (fst rep)"
  by (auto simp: awsKeepHold_def awsHoldFellThrough_def awsKeptOnPurpose_def StageAWSHold_def StageAWSScopeClaimKept_def Let_def
      split: if_splits prod.splits option.splits)

lemma quiet_skipped: "quiet (awsTeardownSkipped ar c why)"
  by (simp add: awsTeardownSkipped_def awsKeptOnPurpose_def StageAWSScopeClaimKept_def Let_def
      split: option.splits aws_claim.splits)

lemma quiet_scope_teardown: "awsScopeTeardown ar skip hold st = Some (rep, st') \<Longrightarrow> quiet (fst rep)"
proof -
  assume run: "awsScopeTeardown ar skip hold st = Some (rep, st')"
  obtain h held st1 where h: "(if hold then awsKeepHold ar st else ((([], []), False), st)) = ((h, held), st1)"
    by (rule pair_cases)
  have qh: "quiet (fst h)" using h by (auto split: if_splits dest: quiet_hold)
  show "quiet (fst rep)"
  proof (cases "skip \<or> \<not> ar_destruction ar")
    case True
    then show ?thesis using run by (auto simp: awsScopeTeardown_def quiet_skipped)
  next
    case False
    consider "rep = h" | e where "rep = awsScopeClaimKept ar (az_claim st1) h e"
      | e r u where "awsDestroyAndRelease ar e st1 = Some (r, u)" "rep = both h r"
    proof (cases held)
      case False
      note unheld = this
      show thesis
      proof (cases "awsCommandEnvForAccount ar (ar_account ar)")
        case (Inl e)
        with run \<open>\<not> (skip \<or> \<not> ar_destruction ar)\<close> unheld h
        have "rep = awsScopeClaimKept ar (az_claim st1) h e" by (auto simp: awsScopeTeardown_def)
        then show thesis by (rule that(2))
      next
        case (Inr e)
        with run \<open>\<not> (skip \<or> \<not> ar_destruction ar)\<close> unheld h
        obtain r where "awsDestroyAndRelease ar e st1 = Some (r, st')" "rep = both h r"
          by (cases "awsDestroyAndRelease ar e st1") (auto simp: awsScopeTeardown_def)
        then show thesis by (rule that(3))
      qed
    qed (use run False h that(1) in \<open>simp add: awsScopeTeardown_def\<close>)
    then show ?thesis
    proof cases
      case 3
      with qh quiet_aws_destroy [OF 3(1)] show ?thesis by simp
    qed (simp_all add: qh quiet_kept)
  qed
qed

text \<open>The one line, where a project was created.\<close>

definition project_made :: "'v test_env \<Rightarrow> layer3_cloud \<Rightarrow> string \<Rightarrow> bool" where
  "project_made te cloud p \<longleftrightarrow> cloud = layer3Scaleway \<and> \<not> blank p \<and> has_run_project (te_rt te)"

lemma claim_not_created: "ensureAWSScopeClaim ar st = Some ((p, rep), st') \<Longrightarrow> quiet (fst rep)"
  by (auto simp: ensureAWSScopeClaim_def awsScopeClaimFailed_def Let_def
      split: sum.splits option.splits prod.splits if_splits)

lemma created_is_made:
  "ensureRunProject rt arm cloud name d stamp w = ((p, rep), w') \<Longrightarrow> cloud \<noteq> layer3AWS \<Longrightarrow>
     quiet (fst rep) \<or> cloud = layer3Scaleway \<and> \<not> blank p \<and> has_run_project rt"
  by (auto simp: ensureRunProject_def run_project_failed_def Create_def Let_def
      split: layer3_cloud.splits sum.splits option.splits prod.splits if_splits)

lemma ensure_project_made:
  assumes "ensure_project te sc cloud st = Some ((p, rep), st')"
  shows "quiet (fst rep) \<or> project_made te cloud p"
proof (cases "cloud = layer3AWS")
  case True
  with assms claim_not_created [of "te_run te" st p rep st'] show ?thesis by (simp add: ensure_project_def)
next
  case False
  with assms created_is_made [of "te_rt te" _ cloud "ts_name sc" "te_dir te" "te_stamp te" "az_world st" p rep]
  show ?thesis by (auto simp: ensure_project_def on_world_def project_made_def split: prod.splits)
qed

lemma sandbox_phase_made:
  assumes "sandbox_phase te sc cloud st = Some ((sb, rep), st')"
  shows "quiet (fst rep) \<or> project_made te cloud (sb_project sb)"
proof -
  obtain p prep e st1 where pre: "sandbox_preflight te sc cloud st = Some ((p, prep, e), st1)"
    using assms by (auto simp: sandbox_phase_def split: option.splits)
  have made: "quiet (fst prep) \<or> project_made te cloud p"
    using pre by (auto simp: sandbox_preflight_def split: prod.splits option.splits dest!: ensure_project_made)
  show ?thesis
  proof (cases e)
    case (Inl er)
    with assms pre made show ?thesis by (auto simp: sandbox_phase_def)
  next
    case (Inr env)
    obtain ok plan rep2 st2 where ap: "apply_phase te sc cloud env st1 = ((ok, plan, rep2), st2)" by (metis prod.exhaust)
    with assms pre Inr made quiet_apply [OF ap] show ?thesis by (auto simp: sandbox_phase_def)
  qed
qed

lemma release_line:
  "releaseRunProject rt layer3Scaleway d p e w = (rep, w') \<Longrightarrow> \<not> blank p \<Longrightarrow> has_run_project rt \<Longrightarrow> delete_line (fst rep)"
  by (auto simp: releaseRunProject_def delete_failed_def runProjectDeleteFailure_def runProjectDeleteNotYet_def
      delete_passed_def delete_line_def Let_def split: if_splits sum.splits option.splits prod.splits)

lemma released_line: "runProjectReleased ss \<Longrightarrow> delete_line ss"
  by (auto simp: runProjectReleased_def delete_line_def list_ex_iff)

lemma cleanup_extends:
  assumes "cleanup_phase te opts cloud p choice rep st = Some (rep', st')"
  shows "\<exists>d. rep' = joined rep d \<and> quiet (fst d)"
proof -
  have same: "rep = joined rep ([], [])" by (simp add: joined_def)
  consider (none) "rep' = rep" | (aws) torn u u' where "rep' = joined rep (lift_report torn)"
      "awsScopeTeardown (te_run te) (to_skip_destroy opts) (tc_holding choice) u = Some (torn, u')"
    | (creds) e where "rep' = joined rep (lift_report (delete_failed ''credentials'' e))"
    | (release) r e w w' where "rep' = joined rep (lift_report r)" "releaseRunProject (te_rt te) cloud (te_dir te) p e w = (r, w')"
    | (skip) why where "rep' = joined rep (delete_skipped why)"
    using assms unfolding cleanup_phase_def finish_aws_def on_world_def
    by (auto split: if_splits option.splits sum.splits prod.splits)
  then show ?thesis
  proof cases
    case none
    with same show ?thesis by (metis fst_conv quiet_Nil)
  next
    case aws
    with quiet_scope_teardown [OF aws(2)] show ?thesis by (intro exI [of _ "lift_report torn"]) simp
  next
    case (creds e)
    then show ?thesis by (intro exI [of _ "lift_report (delete_failed ''credentials'' e)"]) (simp add: delete_failed_def)
  next
    case release
    with quiet_release [OF release(2)] show ?thesis by (intro exI [of _ "lift_report r"]) simp
  next
    case (skip why)
    then show ?thesis by (intro exI [of _ "delete_skipped why"]) (simp add: delete_skipped_def)
  qed
qed

lemma cleanup_accounts:
  assumes "cleanup_phase te opts cloud p choice rep st = Some (rep', st')" "project_made te cloud p"
  shows "delete_line (fst rep')"
proof -
  from assms(2) have "p \<noteq> []" "cloud = layer3Scaleway" by (auto simp: project_made_def)
  then consider "runProjectReleased (fst rep)" "rep' = rep"
    | e where "rep' = joined rep (lift_report (delete_failed ''credentials'' e))"
    | r e w w' where "rep' = joined rep (lift_report r)" "releaseRunProject (te_rt te) layer3Scaleway (te_dir te) p e w = (r, w')"
    | why where "rep' = joined rep (delete_skipped why)"
    using assms(1) unfolding cleanup_phase_def on_world_def
    by (auto split: if_splits sum.splits prod.splits)
  then show ?thesis
  proof cases
    case 3
    with release_line [OF 3(2)] assms(2) show ?thesis by (simp add: project_made_def)
  qed (auto simp: delete_failed_def delete_skipped_def delete_line_def dest: released_line [unfolded delete_line_def])
qed

lemma test_rest_accounts:
  assumes "test_rest te sc opts cloud deployed rep st = Some ((tr, plan, err), st')" "quiet (fst rep)"
  shows "quiet (tr_stages tr) \<or> delete_line (tr_stages tr)"
proof -
  let ?start = "case deployed of Inr _ \<Rightarrow> if te_sandbox te then sandbox_phase te sc cloud st else Some ((no_sandbox, ([], [])), st)
    | Inl _ \<Rightarrow> Some ((no_sandbox, ([], [])), st)"
  obtain sb sandboxed st1 where start: "?start = Some ((sb, sandboxed), st1)"
    using assms(1) by (cases ?start) (auto simp: test_rest_def)
  obtain choice rep2 st2 where aft: "after_sandbox te sc opts cloud deployed sb (joined rep sandboxed) st1 = ((choice, rep2), st2)"
    by (rule pair_cases)
  obtain rep3 st3 where cl: "cleanup_phase te opts cloud (sb_project sb) choice rep2 st2 = Some (rep3, st3)"
    using assms(1) start aft by (cases "cleanup_phase te opts cloud (sb_project sb) choice rep2 st2") (auto simp: test_rest_def)
  have stages: "tr_stages tr = fst rep3"
    using assms(1) start aft cl by (auto simp: test_rest_def finish_def interrupted_report_def split: if_splits)
  have made: "quiet (fst sandboxed) \<or> project_made te cloud (sb_project sb)"
    using start by (cases deployed) (auto split: if_splits dest!: sandbox_phase_made)
  obtain d2 where d2: "rep2 = joined (joined rep sandboxed) d2" "quiet (fst d2)"
    using after_sandbox_extends [OF aft] by blast
  obtain d3 where d3: "rep3 = joined rep2 d3" "quiet (fst d3)" using cleanup_extends [OF cl] by blast
  show ?thesis
  proof (cases "project_made te cloud (sb_project sb)")
    case True
    with cleanup_accounts [OF cl] stages show ?thesis by simp
  next
    case False
    with made d2 d3 assms(2) stages show ?thesis by simp
  qed
qed

lemma unsupported_quiet: "unsupportedCriteriaResult cs sandbox = Inr (stages, fs) \<Longrightarrow> quiet stages"
  using unsupported_lines by (auto intro!: quiet_layer simp: list_all_iff)

lemma test_deployed_accounts:
  assumes "test_deployed te sc opts stages st = Some ((tr, plan, err), st')" "quiet stages"
  shows "quiet (tr_stages tr) \<or> delete_line (tr_stages tr)"
proof -
  obtain r rep st1 where m: "mock_phase te opts stages st = ((r, rep), st1)" by (rule pair_cases)
  define rep1 where "rep1 = (case r of Inr d \<Rightarrow> if md_drifted d then joined rep (drift_report te opts d) else rep | Inl _ \<Rightarrow> rep)"
  define stops where "stops \<longleftrightarrow> (case r of Inr d \<Rightarrow> md_drifted d | Inl _ \<Rightarrow> False) \<and> \<not> to_continue_on_drift opts"
  have q: "quiet (fst rep1)" using quiet_mock_phase [OF assms(2) m]
    by (auto simp: rep1_def drift_report_def split: sum.splits)
  obtain d st2 where destroy: "mock_destroy te st1 = (d, st2)" by fastforce
  have run: "test_deployed te sc opts stages st = (if stops
      then if destroys te opts then Some (finish (joined rep1 d) [] st2) else Some (finish rep1 [] st1)
      else test_rest te sc opts (test_cloud sc) r rep1 st1)"
    using m destroy by (simp add: test_deployed_def Let_def rep1_def stops_def)
  show ?thesis
  proof (cases stops)
    case True
    with run assms(1) q quiet_mock_destroy [OF destroy] show ?thesis by (auto simp: finish_def split: if_splits)
  next
    case False
    with run assms(1) test_rest_accounts q show ?thesis by metis
  qed
qed


subsection \<open>Success is evidence\<close>

lemma criteria_hold_lines:
  "criteria_hold ce name cloud specs doc applied ss \<Longrightarrow> set ss \<subseteq> set ss' \<Longrightarrow> criteria_hold ce name cloud specs doc applied ss'"
proof -
  assume hold: "criteria_hold ce name cloud specs doc applied ss" and sub: "set ss \<subseteq> set ss'"
  have "skipped_stage n ss \<Longrightarrow> skipped_stage n ss'" for n using sub by (auto simp: skipped_stage_def list_ex_iff)
  with hold show ?thesis unfolding criteria_hold_def Let_def by meson
qed

definition criteria_met :: "'v test_env \<Rightarrow> test_scenario \<Rightarrow> document \<Rightarrow> bool \<Rightarrow> stage_summary list \<Rightarrow> bool" where
  "criteria_met te sc doc applied ss \<longleftrightarrow>
     (\<exists>specs. ParseAcceptanceCriteria (ts_criteria sc) = Inr specs
        \<and> criteria_hold (te_criteria te) (ts_name sc) (ts_cloud sc) (filter (supported (te_sandbox te)) specs) doc applied ss)"

lemma criteria_met_more: "criteria_met te sc doc applied ss \<Longrightarrow> criteria_met te sc doc applied (ss @ ss')"
  unfolding criteria_met_def by (elim exE conjE) (intro exI conjI, assumption, erule criteria_hold_lines, auto)

definition holdouts_met :: "'v test_env \<Rightarrow> test_scenario \<Rightarrow> test_options \<Rightarrow> bool" where
  "holdouts_met te sc opts \<longleftrightarrow>
     (if to_holdout opts \<and> te_sandbox te
      then \<exists>hs. ce_discover (te_criteria te) (ts_name sc) = Inr hs \<and> list_all (holdout_holds (te_criteria te) (ts_name sc)) hs
      else True)"

lemma criteria_phase_met:
  assumes "criteria_phase te sc opts doc applied rep st = (rep', st')" "snd rep' = []"
  shows "criteria_met te sc doc applied (fst rep') \<and> holdouts_met te sc opts"
proof -
  obtain s1 f1 w1 where c: "evaluateSupportedCriteria (te_criteria te) (ts_name sc) (ts_cloud sc) (ts_criteria sc) doc applied
      (az_world st) = ((s1, f1), w1)" by (rule pair_cases)
  obtain s2 f2 w2 where h: "holdoutAfterCriteria (te_criteria te) (to_holdout opts) (ts_name sc) (snd rep @ f1) w1
      = ((s2, f2), w2)" by (rule pair_cases)
  have "rep' = joined (joined rep (s1, f1)) (s2, f2)"
    using assms c h by (simp add: criteria_phase_def on_world_def Let_def)
  with assms(2) have eqs: "f1 = []" "f2 = []" "snd rep = []" "fst rep' = fst rep @ s1 @ s2" by simp_all
  from criteria_pass [OF c [unfolded eqs]] have "criteria_met te sc doc applied (fst rep')"
    unfolding criteria_met_def eqs(4) by (elim exE conjE) (intro exI conjI, assumption, erule criteria_hold_lines, auto)
  moreover have "holdouts_met te sc opts"
    using h eqs holdouts_hold [of "te_criteria te" "ts_name sc" w1 s2 w2] by (auto simp: holdouts_met_def)
  ultimately show ?thesis by simp
qed

lemma mock_phase_ok:
  "mock_phase te opts ss st = ((r, rep), st') \<Longrightarrow>
     fst (MockDeploy_Run (te_rt te) (te_mock te) (te_dir te) (te_env te) (to_mode opts) (az_world st)) = r
     \<and> (snd rep = [] \<longrightarrow> (\<exists>d. r = Inr d))"
  by (cases r) (auto simp: mock_phase_def on_world_def appendMockDeployResult_def
      split: prod.splits mock_deploy_error.splits)

lemma sandbox_deploy_ok: "snd (appendSandboxDeployResult accounts ([], []) r) = [] \<longleftrightarrow> (\<exists>d. r = Inr d)"
  by (auto simp: appendSandboxDeployResult_def split: sum.splits sandbox_deploy_error.splits)

lemma post_apply_ok:
  "appendAWSPostApplyChecks ar ue sp e rep st = ((rep', ok), st') \<Longrightarrow> snd rep' = [] \<Longrightarrow> ok \<and> snd rep = []"
  by (auto simp: appendAWSPostApplyChecks_def Let_def both_def post_apply_failed_def
      split: option.splits prod.splits sum.splits)

definition deployed_to :: "'v test_env \<Rightarrow> env \<Rightarrow> bool" where
  "deployed_to te e \<longleftrightarrow> (\<exists>u d. fst (SandboxDeploy_Run (te_rt te) (ar_ended (te_run te)) (te_dir te) e u) = Inr d)"

lemma apply_phase_ok:
  assumes "apply_phase te sc cloud e st = ((ok, plan, rep), st')" "snd rep = []"
  shows "ok \<and> deployed_to te e"
proof -
  obtain r w where run: "SandboxDeploy_Run (te_rt te) (ar_ended (te_run te)) (te_dir te) e (az_world st) = (r, w)" by fastforce
  let ?rep = "appendSandboxDeployResult (cfg_accounts (te_rt te)) ([], []) r"
  obtain rep1 checked st2 where post: "appendAWSPostApplyChecks (te_run te) (te_user_data te) (ts_service sc) e ?rep
      (st\<lparr>az_world := w\<rparr>) = ((rep1, checked), st2)" by (rule pair_cases)
  show ?thesis
  proof (cases r)
    case (Inl er)
    then have "snd ?rep \<noteq> []" using sandbox_deploy_ok [of "cfg_accounts (te_rt te)" r] by simp
    with assms run Inl show ?thesis by (auto simp: apply_phase_def on_world_def Let_def)
  next
    case (Inr d)
    then have "deployed_to te e" using run unfolding deployed_to_def by (metis fst_conv)
    with assms run Inr post post_apply_ok [OF post] show ?thesis
      by (auto simp: apply_phase_def on_world_def Let_def split: if_splits)
  qed
qed

lemma ensure_project_ok:
  assumes "ensure_project te sc cloud st = Some ((p, rep), st')" "snd rep = []"
  shows "p \<noteq> []"
proof (cases "cloud = layer3AWS")
  case True
  have "\<not> blank (ar_account (te_run te))" if "awsLayer3Env (te_run te) = Inr e" for e
    using that by (auto simp: awsLayer3Env_def split: list.splits if_splits)
  with assms True show ?thesis
    by (auto simp: ensure_project_def ensureAWSScopeClaim_def awsScopeClaimFailed_def Let_def
        split: sum.splits option.splits prod.splits if_splits)
next
  case False
  with assms show ?thesis
    by (auto simp: ensure_project_def on_world_def ensureRunProject_def run_project_failed_def Create_def Let_def
        split: layer3_cloud.splits sum.splits option.splits prod.splits if_splits)
qed

text \<open>The run's own project, or the account its claim is on, and the deploy with its environment.\<close>

definition sandbox_met :: "'v test_env \<Rightarrow> layer3_cloud \<Rightarrow> bool" where
  "sandbox_met te cloud \<longleftrightarrow> (\<exists>p e. p \<noteq> [] \<and> command_env te cloud p = Inr e \<and> deployed_to te e)"

lemma sandbox_phase_ok:
  assumes "sandbox_phase te sc cloud st = Some ((sb, rep), st')" "snd rep = []"
  shows "sb_applied sb \<and> sandbox_met te cloud"
proof -
  obtain p prep e st1 where pre: "sandbox_preflight te sc cloud st = Some ((p, prep, e), st1)"
    using assms by (auto simp: sandbox_phase_def split: option.splits)
  with assms obtain env where e: "e = Inr env" by (cases e) (auto simp: sandbox_phase_def)
  obtain ok plan rep2 st2 where ap: "apply_phase te sc cloud env st1 = ((ok, plan, rep2), st2)" by (metis prod.exhaust)
  with assms pre e have clean: "snd prep = []" "snd rep2 = []" "sb_applied sb = ok" by (auto simp: sandbox_phase_def)
  obtain made u where made: "ensure_project te sc cloud u = Some ((p, made), st1)" "prep = lift_report made"
    "Inr env = project_env te cloud (p, made)"
    using pre e by (auto simp: sandbox_preflight_def split: prod.splits option.splits)
  with clean ensure_project_ok [OF made(1)] have "p \<noteq> []" by simp
  with made clean have "command_env te cloud p = Inr env" by (simp add: project_env_def)
  with \<open>p \<noteq> []\<close> apply_phase_ok [OF ap clean(2)] clean(3) show ?thesis by (auto simp: sandbox_met_def)
qed

text \<open>What a test that succeeded with the mock enabled has seen.\<close>

definition test_met :: "'v test_env \<Rightarrow> test_scenario \<Rightarrow> test_options \<Rightarrow> 'v world aws_world \<Rightarrow> stage_summary list \<Rightarrow> bool" where
  "test_met te sc opts st ss \<longleftrightarrow>
     (\<exists>d. fst (MockDeploy_Run (te_rt te) (te_mock te) (te_dir te) (te_env te) (to_mode opts) (az_world st)) = Inr d
        \<and> \<not> md_drifted d \<and> criteria_met te sc (md_state d) (te_sandbox te) ss)
     \<and> holdouts_met te sc opts
     \<and> (if te_sandbox te then test_gate te sc st = None \<and> sandbox_met te (test_cloud sc) else True)"

lemma after_sandbox_met:
  assumes "after_sandbox te sc opts cloud (Inr d) sb rep st = ((choice, rep'), st')" "snd rep' = []"
  shows "criteria_met te sc (md_state d) (sb_applied sb) (fst rep') \<and> holdouts_met te sc opts \<and> snd rep = []"
proof -
  obtain rep1 st1 where c: "criteria_phase te sc opts (md_state d) (sb_applied sb) rep st = (rep1, st1)" by fastforce
  from criteria_phase_extends [OF c] obtain c1 where c1: "rep1 = joined rep c1" by blast
  obtain c2 where c2: "rep' = joined rep1 c2"
  proof (cases "destroys te opts")
    case True
    with assms c have "teardown_phase te opts cloud (sb_project sb) rep1 st1 = ((choice, rep'), st')"
      by (simp add: after_sandbox_def)
    from teardown_phase_extends [OF this] that show thesis by blast
  next
    case False
    with assms c have "rep' = joined rep1 (not_destroyed opts)" by (simp add: after_sandbox_def)
    then show thesis by (rule that)
  qed
  with assms(2) criteria_phase_met [OF c] c1 show ?thesis using criteria_met_more [of te sc "md_state d" "sb_applied sb" "fst rep1"]
    by simp
qed

lemma test_rest_met:
  assumes "test_rest te sc opts cloud r rep st = Some ((tr, plan, None), st')"
  shows "tr_failures tr = [] \<and> \<not> ended_at te st' \<and> snd rep = []
    \<and> (case r of Inl _ \<Rightarrow> True | Inr d \<Rightarrow> criteria_met te sc (md_state d) (te_sandbox te) (tr_stages tr)
         \<and> holdouts_met te sc opts \<and> (if te_sandbox te then sandbox_met te cloud else True))"
proof -
  let ?start = "case r of Inr _ \<Rightarrow> if te_sandbox te then sandbox_phase te sc cloud st else Some ((no_sandbox, ([], [])), st)
    | Inl _ \<Rightarrow> Some ((no_sandbox, ([], [])), st)"
  obtain sb sandboxed st1 where start: "?start = Some ((sb, sandboxed), st1)"
    using assms(1) by (cases ?start) (auto simp: test_rest_def)
  obtain choice rep2 st2 where aft: "after_sandbox te sc opts cloud r sb (joined rep sandboxed) st1 = ((choice, rep2), st2)"
    by (rule pair_cases)
  obtain rep3 st3 where cl: "cleanup_phase te opts cloud (sb_project sb) choice rep2 st2 = Some (rep3, st3)"
    using assms(1) start aft by (cases "cleanup_phase te opts cloud (sb_project sb) choice rep2 st2") (auto simp: test_rest_def)
  have fin: "finish (joined rep3 (interrupted_report te st3)) (sb_plan sb) st3 = ((tr, plan, None), st')"
    using assms(1) start aft cl by (simp add: test_rest_def)
  then have end_facts: "snd rep3 = []" "\<not> ended_at te st'" "tr_failures tr = []" "tr_stages tr = fst rep3"
    by (auto simp: finish_def interrupted_report_def split: if_splits)
  obtain d3 where d3: "rep3 = joined rep2 d3" using cleanup_extends [OF cl] by blast
  obtain d2 where d2: "rep2 = joined (joined rep sandboxed) d2" using after_sandbox_extends [OF aft] by blast
  have clean: "snd rep2 = []" "snd rep = []" "snd sandboxed = []" using end_facts(1) d2 d3 by simp_all
  show ?thesis
  proof (cases r)
    case (Inl e)
    with end_facts clean show ?thesis by simp
  next
    case (Inr d)
    have applied: "sb_applied sb = te_sandbox te \<and> (if te_sandbox te then sandbox_met te cloud else True)"
      using start Inr sandbox_phase_ok [of te sc cloud st sb sandboxed st1] clean(3)
      by (auto simp: no_sandbox_def split: if_splits)
    from after_sandbox_met [OF aft [unfolded Inr] clean(1)] applied
    have "criteria_met te sc (md_state d) (te_sandbox te) (fst rep2)" "holdouts_met te sc opts" by simp_all
    with end_facts clean applied Inr d3 show ?thesis by (auto intro: criteria_met_more)
  qed
qed

lemma test_deployed_met:
  assumes "test_deployed te sc opts ss st = Some ((tr, plan, None), st')"
    and "if te_sandbox te then test_gate te sc st = None else True"
  shows "tr_failures tr = [] \<and> \<not> ended_at te st' \<and> test_met te sc opts st (tr_stages tr)"
proof -
  obtain r rep st1 where m: "mock_phase te opts ss st = ((r, rep), st1)" by (rule pair_cases)
  define rep1 where "rep1 = (case r of Inr d \<Rightarrow> if md_drifted d then joined rep (drift_report te opts d) else rep | Inl _ \<Rightarrow> rep)"
  define stops where "stops \<longleftrightarrow> (case r of Inr d \<Rightarrow> md_drifted d | Inl _ \<Rightarrow> False) \<and> \<not> to_continue_on_drift opts"
  obtain d st2 where destroy: "mock_destroy te st1 = (d, st2)" by fastforce
  have run: "test_deployed te sc opts ss st = (if stops
      then if destroys te opts then Some (finish (joined rep1 d) [] st2) else Some (finish rep1 [] st1)
      else test_rest te sc opts (test_cloud sc) r rep1 st1)"
    using m destroy by (simp add: test_deployed_def Let_def rep1_def stops_def)
  have drift: "snd rep1 \<noteq> []" if "case r of Inr d \<Rightarrow> md_drifted d | Inl _ \<Rightarrow> False"
    using that by (auto simp: rep1_def drift_report_def split: sum.splits)
  have "\<not> stops" using run assms(1) drift by (auto simp: stops_def finish_def split: if_splits)
  with run assms(1) have rest: "test_rest te sc opts (test_cloud sc) r rep1 st1 = Some ((tr, plan, None), st')" by simp
  note met = test_rest_met [OF rest]
  with drift have steady: "\<not> (case r of Inr d \<Rightarrow> md_drifted d | Inl _ \<Rightarrow> False)" by blast
  with met have "snd rep = []" by (auto simp: rep1_def split: sum.splits if_splits)
  with mock_phase_ok [OF m] obtain md where "r = Inr md"
    "fst (MockDeploy_Run (te_rt te) (te_mock te) (te_dir te) (te_env te) (to_mode opts) (az_world st)) = Inr md" by blast
  with met steady assms(2) show ?thesis by (auto simp: test_met_def)
qed


end
