(* ===== verification/Url_Form.thy ===== *)
theory Url_Form
  imports Prescriptive Scaleway
begin

text \<open>
  Form bodies as package \<^verbatim>\<open>net/url\<close> writes and reads them: the inverse of \<^verbatim>\<open>QueryEscape\<close>, \<^verbatim>\<open>Values.Encode\<close>
  and \<^verbatim>\<open>ParseQuery\<close>. A \<^verbatim>\<open>url.Values\<close> is the list of its key-value pairs, a key's values in their order.
\<close>

type_synonym form = "(string \<times> string) list"

subsection \<open>Escaping\<close>

definition unhex :: "char \<Rightarrow> nat option" where
  "unhex c =
     (if char_between CHR ''0'' CHR ''9'' c then Some (of_char c - 48)
      else if char_between CHR ''a'' CHR ''f'' c then Some (of_char c - 87)
      else if char_between CHR ''A'' CHR ''F'' c then Some (of_char c - 55)
      else None)"

definition bad_escape :: "string \<Rightarrow> string" where
  "bad_escape s = ''invalid URL escape '' @ quote (take 3 s)"

fun QueryUnescape :: "string \<Rightarrow> string + string" where
  "QueryUnescape [] = Inr []"
| "QueryUnescape (c # s) =
     (if c = CHR ''%''
      then (case s of
              a # b # t \<Rightarrow>
                (case (unhex a, unhex b) of
                   (Some hi, Some lo) \<Rightarrow> map_sum id ((#) (char_of (16 * hi + lo))) (QueryUnescape t)
                 | _ \<Rightarrow> Inl (bad_escape (c # s)))
            | _ \<Rightarrow> Inl (bad_escape (c # s)))
      else map_sum id ((#) (if c = CHR ''+'' then CHR '' '' else c)) (QueryUnescape s))"

lemma of_char_hex_digit: "n < 16 \<Longrightarrow> (of_char (hex_digit n) :: nat) = (if n < 10 then 48 + n else 55 + n)"
  by (simp add: hex_digit_def)

lemma unhex_hex_digit [simp]: "n < 16 \<Longrightarrow> unhex (hex_digit n) = Some n"
  by (simp add: unhex_def char_between_def of_char_hex_digit)

lemma of_char_div_mod: "of_char c div 16 < (16 :: nat)" "of_char c mod 16 < (16 :: nat)"
  "char_of (16 * (of_char c div 16) + of_char c mod 16 :: nat) = c"
proof -
  have "of_char c < (256 :: nat)" by simp
  then show "of_char c div 16 < (16 :: nat)" by (simp add: div_less_iff_less_mult)
qed simp_all

lemma alnum_not_special: "alnum c \<Longrightarrow> c \<noteq> CHR ''%'' \<and> c \<noteq> CHR ''+'' \<and> c \<noteq> CHR ''&'' \<and> c \<noteq> CHR ''='' \<and> c \<noteq> CHR '';''"
  by (auto simp: alnum_def char_between_def)

lemma QueryUnescape_query_char:
  "QueryUnescape (query_char c @ s) = map_sum id ((#) c) (QueryUnescape s)"
  using alnum_not_special [of c]
  by (auto simp: query_char_def alnum_def of_char_div_mod)

lemma QueryUnescape_escape [simp]: "QueryUnescape (QueryEscape s) = Inr s"
  by (induction s) (simp_all add: QueryEscape_def QueryUnescape_query_char)

lemma hex_digit_plain:
  assumes "n < 16"
  shows "hex_digit n \<noteq> CHR ''&'' \<and> hex_digit n \<noteq> CHR ''='' \<and> hex_digit n \<noteq> CHR '';''"
proof -
  have "(of_char (hex_digit n) :: nat) \<notin> {38, 61, 59}" using assms by (auto simp: of_char_hex_digit)
  then show ?thesis by auto
qed

lemma query_char_plain:
  "c \<in> set (query_char d) \<Longrightarrow> c \<noteq> CHR ''&'' \<and> c \<noteq> CHR ''='' \<and> c \<noteq> CHR '';''"
  using alnum_not_special [of d] hex_digit_plain [OF of_char_div_mod(1)] hex_digit_plain [OF of_char_div_mod(2)]
  by (auto simp: query_char_def alnum_def split: if_splits)

lemma QueryEscape_plain: "c \<in> set (QueryEscape s) \<Longrightarrow> c \<noteq> CHR ''&'' \<and> c \<noteq> CHR ''='' \<and> c \<noteq> CHR '';''"
  by (auto simp: QueryEscape_def dest: query_char_plain)

subsection \<open>Forms\<close>

definition form_has :: "form \<Rightarrow> string \<Rightarrow> bool" where
  "form_has f k \<longleftrightarrow> k \<in> fst ` set f"

definition form_values :: "form \<Rightarrow> string \<Rightarrow> string list" where
  "form_values f k = map snd (filter (\<lambda>(a, _). a = k) f)"

definition form_get :: "form \<Rightarrow> string \<Rightarrow> string" where
  "form_get f k = (case form_values f k of [] \<Rightarrow> [] | v # _ \<Rightarrow> v)"

definition form_set :: "form \<Rightarrow> string \<Rightarrow> string \<Rightarrow> form" where
  "form_set f k v = filter (\<lambda>(a, _). a \<noteq> k) f @ [(k, v)]"

definition form_add :: "form \<Rightarrow> string \<Rightarrow> string \<Rightarrow> form" where
  "form_add f k v = f @ [(k, v)]"

definition form_keys :: "form \<Rightarrow> string list" where
  "form_keys f = remdups (map fst f)"

text \<open>The keys in order, a key's values in theirs.\<close>

definition encode_pair :: "string \<times> string \<Rightarrow> string" where
  "encode_pair kv = QueryEscape (fst kv) @ ''='' @ QueryEscape (snd kv)"

definition form_encode :: "form \<Rightarrow> string" where
  "form_encode f = join ''&'' (map encode_pair (sort_key fst f))"

definition cut_at :: "char \<Rightarrow> string \<Rightarrow> string \<times> string" where
  "cut_at d s = (takeWhile (\<lambda>c. c \<noteq> d) s, drop 1 (dropWhile (\<lambda>c. c \<noteq> d) s))"

lemma cut_at_append: "d \<in> set s \<Longrightarrow> cut_at d s = (a, b) \<Longrightarrow> s = a @ d # b"
  by (induction s arbitrary: a) (auto simp: cut_at_def split: if_splits)

text \<open>The loop goes on after a bad pair; the error returned is the first.\<close>

definition parse_pair :: "string \<Rightarrow> string + string \<times> string" where
  "parse_pair part =
     (if CHR '';'' \<in> set part then Inl ''invalid semicolon separator in query''
      else (case cut_at CHR ''='' part of (key, val) \<Rightarrow>
        (case QueryUnescape key of
           Inl e \<Rightarrow> Inl e
         | Inr k \<Rightarrow> map_sum id (Pair k) (QueryUnescape val))))"

fun parse_parts :: "string list \<Rightarrow> string + form" where
  "parse_parts [] = Inr []"
| "parse_parts (p # ps) =
     (if p = [] then parse_parts ps
      else (case parse_pair p of Inl e \<Rightarrow> Inl e | Inr kv \<Rightarrow> map_sum id ((#) kv) (parse_parts ps)))"

definition ParseQuery :: "string \<Rightarrow> string + form" where
  "ParseQuery s = parse_parts (split_on CHR ''&'' s)"

lemma encode_pair_plain: "CHR ''&'' \<notin> set (encode_pair kv)"
  by (auto simp: encode_pair_def dest: QueryEscape_plain)

lemma parse_encode_pair [simp]: "parse_pair (encode_pair kv) = Inr kv"
proof -
  have eq: "CHR ''='' \<notin> set (QueryEscape (fst kv))" by (auto dest: QueryEscape_plain)
  then have "cut_at CHR ''='' (encode_pair kv) = (QueryEscape (fst kv), QueryEscape (snd kv))"
    by (simp add: cut_at_def encode_pair_def takeWhile_append dropWhile_append)
  then show ?thesis by (auto simp: parse_pair_def encode_pair_def dest: QueryEscape_plain)
qed

lemma encode_pair_nonempty [simp]: "encode_pair kv \<noteq> []"
  by (simp add: encode_pair_def)

lemma split_join:
  "\<forall>w \<in> set ws. d \<notin> set w \<Longrightarrow> ws \<noteq> [] \<Longrightarrow> split_on d (join [d] ws) = ws"
  by (induction "[d]" ws rule: join.induct) (simp_all add: split_on_plain split_on_append)

lemma ParseQuery_encode [simp]: "ParseQuery (form_encode f) = Inr (sort_key fst f)"
proof (cases "f = []")
  case True
  then show ?thesis by (simp add: ParseQuery_def form_encode_def)
next
  case False
  then have "sort_key fst f \<noteq> []" by (metis length_0_conv length_sort)
  then have "split_on CHR ''&'' (form_encode f) = map encode_pair (sort_key fst f)"
    by (auto simp: form_encode_def encode_pair_plain intro!: split_join)
  moreover have "parse_parts (map encode_pair g) = Inr g" for g
    by (induction g) simp_all
  ultimately show ?thesis by (simp add: ParseQuery_def)
qed

end
