(* ===== verification/Aws_Wall.thy ===== *)
theory Aws_Wall
  imports Url_Form Aws_Reap Json
begin

text \<open>
  The wall every request of an account read leaves through (\<^verbatim>\<open>harness/aws_reader_wall.go\<close>) and the reader table
  it admits by (\<^verbatim>\<open>harness/aws_reader_table.go\<close>).

  What the code calls of \<^verbatim>\<open>mime\<close>, \<^verbatim>\<open>encoding/json\<close> and \<^verbatim>\<open>encoding/xml\<close> is the argument \<open>go_codec\<close>; no statement
  assumes anything of it. A header is the list of its keys with their values: where the code ranges over a map,
  the model goes through the list, which settles only which of several errors is named.
\<close>

subsection \<open>The reader table\<close>

record reader_service =
  rv_service :: string
  rv_protocol :: string
  rv_prefix :: string
  rv_actions :: "string list"
  rv_not_found :: "string list"
  rv_paging :: string
  rv_throttling :: "string list"

definition awsProtocolQuery :: string where "awsProtocolQuery = ''query''"
definition awsProtocolJSON :: string where "awsProtocolJSON = ''json''"
definition awsPagingNextToken :: string where "awsPagingNextToken = ''NextToken''"
definition awsPagingMarker :: string where "awsPagingMarker = ''Marker''"

definition AWSReaderTable :: "reader_service list" where
  "AWSReaderTable =
     [\<lparr>rv_service = ''ec2'', rv_protocol = awsProtocolQuery, rv_prefix = [],
       rv_actions = [''DescribeAddresses'', ''DescribeAvailabilityZones'', ''DescribeImages'',
         ''DescribeInstanceAttribute'', ''DescribeInstances'', ''DescribeInternetGateways'', ''DescribeKeyPairs'',
         ''DescribeNetworkInterfaces'', ''DescribeRouteTables'', ''DescribeSecurityGroupRules'',
         ''DescribeSecurityGroups'', ''DescribeSubnets'', ''DescribeVolumes'', ''DescribeVpcAttribute'',
         ''DescribeVpcs''],
       rv_not_found = [''InvalidAddress.NotFound'', ''InvalidAllocationID.NotFound'', ''InvalidAMIID.NotFound'',
         ''InvalidGroup.NotFound'', ''InvalidInstanceID.NotFound'', ''InvalidInternetGatewayID.NotFound'',
         ''InvalidKeyPair.NotFound'', ''InvalidNetworkInterfaceID.NotFound'', ''InvalidRouteTableID.NotFound'',
         ''InvalidSecurityGroupRuleId.NotFound'', ''InvalidSubnetID.NotFound'', ''InvalidVolume.NotFound'',
         ''InvalidVpcID.NotFound''],
       rv_paging = awsPagingNextToken, rv_throttling = [''RequestLimitExceeded'']\<rparr>,
      \<lparr>rv_service = ''iam'', rv_protocol = awsProtocolQuery, rv_prefix = [],
       rv_actions = [''GetRole'', ''GetRolePolicy'', ''ListAttachedRolePolicies'', ''ListInstanceProfilesForRole'',
         ''ListRolePolicies''],
       rv_not_found = [''NoSuchEntity''], rv_paging = awsPagingMarker, rv_throttling = [''Throttling'']\<rparr>,
      \<lparr>rv_service = ''ssm'', rv_protocol = awsProtocolJSON, rv_prefix = ''AmazonSSM'',
       rv_actions = [''GetParameter''], rv_not_found = [''ParameterNotFound'', ''ParameterVersionNotFound''],
       rv_paging = [], rv_throttling = [''ThrottlingException'']\<rparr>,
      \<lparr>rv_service = ''sts'', rv_protocol = awsProtocolQuery, rv_prefix = [],
       rv_actions = [''GetCallerIdentity''], rv_not_found = [], rv_paging = [],
       rv_throttling = [''Throttling'']\<rparr>]"

text \<open>Every action a reap sends that is not a Describe, each once.\<close>

definition awsReapWriteActions :: "string list" where
  "awsReapWriteActions =
     nub_by (\<lambda>a. a) (filter (\<lambda>a. \<not> has_prefix a ''Describe'')
       (concat (map (\<lambda>(_, actions, _). actions) (AWSReapSteps :: (string \<times> string list \<times> unit reap_step) list))))"

definition awsDryRunService :: string where "awsDryRunService = ''ec2''"

definition awsReaderService :: "string \<Rightarrow> reader_service option" where
  "awsReaderService service = find (\<lambda>v. rv_service v = service) AWSReaderTable"

record read_entry =
  re_service :: string
  re_protocol :: string
  re_action :: string
  re_params :: string \<comment> \<open>the raw JSON\<close>

definition awsReaderTableHas :: "read_entry \<Rightarrow> bool" where
  "awsReaderTableHas en =
     (case awsReaderService (re_service en) of
        None \<Rightarrow> False
      | Some v \<Rightarrow> rv_protocol v = re_protocol en \<and> re_action en \<in> set (rv_actions v))"

definition awsReadEntryName :: "nat \<Rightarrow> read_entry \<Rightarrow> string" where
  "awsReadEntryName i en =
     ''entry '' @ itoa (int i) @ '' (service '' @ quote (re_service en) @ '', protocol '' @ quote (re_protocol en)
       @ '', action '' @ quote (re_action en) @ '')''"

definition ValidateAWSReadSet :: "read_entry list \<Rightarrow> string option" where
  "ValidateAWSReadSet entries =
     (let errs = map (\<lambda>(i, en). awsReadEntryName i en @ '' is not in the reader table'')
                   (filter (\<lambda>(_, en). \<not> awsReaderTableHas en) (enumerate 0 entries))
      in if errs = [] then None else Some (''aws read set: '' @ join [CHR 0x0A] errs))"

subsection \<open>Requests\<close>

type_synonym http_header = "(string \<times> string list) list"

text \<open>The URI is what goes on the wire; a body is its bytes or the failure to read them.\<close>

record http_request =
  hq_url :: string
  hq_uri :: "string option"
  hq_header :: http_header
  hq_body :: "string + string"

datatype xml_token =
    Start_Element (tok_name: string) "(string \<times> string) list"
  | End_Element string
  | Char_Data string
  | Xml_Comment
  | Xml_Directive
  | Proc_Inst string string

text \<open>
  \<^verbatim>\<open>mime.ParseMediaType\<close>; the value a JSON text holds; \<^verbatim>\<open>json.Marshal\<close> of a map of strings, given by its pairs in
  key order; and the tokens of an XML text with the syntax error they end in, if any.
\<close>

record go_codec =
  media_type :: "string \<Rightarrow> string + string \<times> (string \<times> string) list"
  unjson :: "string \<Rightarrow> document"
  marshal_map :: "form \<Rightarrow> string"
  xml_tokens :: "string \<Rightarrow> xml_token list \<times> string option"

definition awsQueryMediaType :: string where "awsQueryMediaType = ''application/x-www-form-urlencoded''"
definition awsJSONMediaType :: string where "awsJSONMediaType = ''application/x-amz-json-1.1''"

definition awsHeaderValues :: "http_header \<Rightarrow> string \<Rightarrow> string list" where
  "awsHeaderValues h name = concat (map snd (filter (\<lambda>(k, _). equal_fold k name) h))"

subsection \<open>The wall\<close>

record read_wall =
  aw_service :: string
  aw_protocol :: string
  aw_prefix :: string
  aw_reads :: "string list"
  aw_dry_runs :: "string list"

definition NewAWSReadWall :: "string \<Rightarrow> 'd option \<Rightarrow> string + read_wall" where
  "NewAWSReadWall service inner =
     (case awsReaderService service of
        None \<Rightarrow> Inl (''aws read wall: '' @ quote service @ '' is not a reader-table service'')
      | Some v \<Rightarrow>
          if inner = None then Inl ''aws read wall: needs an HTTP client, and none was given''
          else Inr \<lparr>aw_service = rv_service v, aw_protocol = rv_protocol v, aw_prefix = rv_prefix v,
                 aw_reads = rv_actions v,
                 aw_dry_runs = (if service = awsDryRunService then awsReapWriteActions else [])\<rparr>)"

definition admit :: "read_wall \<Rightarrow> string \<Rightarrow> bool \<Rightarrow> string option" where
  "admit w action dryRun =
     (if action \<in> set (aw_reads w) then None
      else if action \<in> set (aw_dry_runs w)
      then (if dryRun then None else Some (action @ '' is sent only with the single field DryRun=true''))
      else Some (aw_service w @ '' '' @ quote action @ '' is not in the reader table''))"

definition checkContentType :: "go_codec \<Rightarrow> read_wall \<Rightarrow> http_header \<Rightarrow> string option" where
  "checkContentType c w h =
     (case awsHeaderValues h ''Content-Type'' of
        [t] \<Rightarrow>
          (case media_type c t of
             Inl e \<Rightarrow> Some (''the Content-Type '' @ quote t @ '' does not parse: '' @ e)
           | Inr (mediaType, params) \<Rightarrow>
               let want = (if aw_protocol w = awsProtocolJSON then awsJSONMediaType else awsQueryMediaType) in
               if mediaType \<noteq> want then Some (''the Content-Type is '' @ quote mediaType @ '', not '' @ want)
               else (case filter (\<lambda>(key, v). aw_protocol w \<noteq> awsProtocolQuery \<or> key \<noteq> ''charset''
                                      \<or> \<not> equal_fold v ''utf-8'') params of
                       [] \<Rightarrow> None
                     | (key, v) # _ \<Rightarrow> Some (''the Content-Type carries '' @ key @ ''='' @ quote v
                         @ ''; only a query body'' @ [apostrophe] @ ''s charset=utf-8 may pass'')))
      | ts \<Rightarrow> Some (''the request carries '' @ itoa (int (length ts)) @ '' Content-Type values, not one''))"

text \<open>A form key the wall does not take: repeated, or another spelling of Action or DryRun.\<close>

definition reserved_names :: "string list" where "reserved_names = [''Action'', ''DryRun'']"

definition form_key_refused :: "form \<Rightarrow> string \<Rightarrow> string option" where
  "form_key_refused f key =
     (if length (form_values f key) \<noteq> 1 then Some (''the form repeats '' @ quote key)
      else case find (\<lambda>name. key \<noteq> name \<and> equal_fold key name) reserved_names of
             Some name \<Rightarrow> Some (''the form carries '' @ quote key @ '', a case variant of '' @ name)
           | None \<Rightarrow> None)"

definition queryEntry :: "go_codec \<Rightarrow> read_wall \<Rightarrow> string \<Rightarrow> string + read_entry \<times> bool" where
  "queryEntry c w body =
     (case ParseQuery body of
        Inl e \<Rightarrow> Inl (''the form body does not parse: '' @ e)
      | Inr f \<Rightarrow>
          (case List.map_filter (form_key_refused f) (form_keys f) of
             e # _ \<Rightarrow> Inl e
           | [] \<Rightarrow>
               let params = filter (\<lambda>(k, _). k \<noteq> ''Action'' \<and> k \<noteq> ''Version'') f in
               if \<not> form_has f ''Action''
               then Inl ''the request names no action: the form has no Action and there is no X-Amz-Target''
               else if form_has params ''DryRun'' \<and> form_get params ''DryRun'' \<noteq> ''true''
               then Inl (''DryRun is '' @ quote (form_get params ''DryRun'') @ '', not exactly true'')
               else Inr (\<lparr>re_service = aw_service w, re_protocol = aw_protocol w, re_action = form_get f ''Action'',
                           re_params = marshal_map c (sort_key fst params)\<rparr>, form_has params ''DryRun'')))"

definition jsonEntry :: "go_codec \<Rightarrow> read_wall \<Rightarrow> string list \<Rightarrow> string \<Rightarrow> string + read_entry" where
  "jsonEntry c w targets body =
     (case targets of
        [target] \<Rightarrow>
          (case cut_at CHR ''.'' target of (pre, action) \<Rightarrow>
             if CHR ''.'' \<notin> set target \<or> pre \<noteq> aw_prefix w
             then Inl (''X-Amz-Target '' @ quote target @ '' is not '' @ aw_prefix w @ ''.<action>'')
             else (case unjson c body of
                     Some (JObj mems) \<Rightarrow>
                       (case filter (\<lambda>(k, _). equal_fold k ''Action'') mems of
                          (k, _) # _ \<Rightarrow> Inl (''the json body carries '' @ quote k @ '', a query-protocol field'')
                        | [] \<Rightarrow> Inr \<lparr>re_service = aw_service w, re_protocol = aw_protocol w, re_action = action,
                                     re_params = body\<rparr>)
                   | _ \<Rightarrow> Inl ''the body is not a JSON object''))
      | ts \<Rightarrow> Inl (''the request carries '' @ itoa (int (length ts)) @ '' X-Amz-Target values, not one''))"

definition entryOf :: "go_codec \<Rightarrow> read_wall \<Rightarrow> http_request \<Rightarrow> string + read_entry \<times> bool" where
  "entryOf c w q =
     (case hq_body q of
        Inl e \<Rightarrow> Inl (''reading the body: '' @ e)
      | Inr body \<Rightarrow>
          if (case hq_uri q of None \<Rightarrow> True | Some uri \<Rightarrow> CHR ''?'' \<in> set uri)
          then Inl ''the URL carries a query; parameters go in the body''
          else if awsHeaderValues (hq_header q) ''Content-Encoding'' \<noteq> []
          then Inl (''the body is encoded (['' @ join '' '' (map quote (awsHeaderValues (hq_header q) ''Content-Encoding''))
                 @ '']), so it is not the bytes read here'')
          else case checkContentType c w (hq_header q) of
             Some e \<Rightarrow> Inl e
           | None \<Rightarrow>
               let targets = awsHeaderValues (hq_header q) ''X-Amz-Target'' in
               if aw_protocol w = awsProtocolJSON then map_sum id (\<lambda>en. (en, False)) (jsonEntry c w targets body)
               else if targets \<noteq> [] then Inl ''X-Amz-Target on a query service''
               else queryEntry c w body)"

definition wall_check :: "go_codec \<Rightarrow> read_wall \<Rightarrow> http_request \<Rightarrow> string option" where
  "wall_check c w q =
     map_option (\<lambda>e. ''aws read wall: refused: '' @ aw_service w @ '' request: '' @ e)
       (case entryOf c w q of Inl e \<Rightarrow> Some e | Inr (en, dryRun) \<Rightarrow> admit w (re_action en) dryRun)"

text \<open>The answer is a status with its body's bytes or the failure to read them. Each wall counts what it sends.\<close>

type_synonym http_answer = "string + nat \<times> (string + string)"
type_synonym 'w http_doer = "http_request \<Rightarrow> 'w \<Rightarrow> http_answer \<times> 'w"

record 'w reader =
  rs_net :: 'w
  rs_calls :: "string \<Rightarrow> nat"
  rs_sent :: "(string \<times> http_request) list"

definition wall_do :: "go_codec \<Rightarrow> 'w http_doer \<Rightarrow> read_wall \<Rightarrow> http_request \<Rightarrow> 'w reader \<Rightarrow> http_answer \<times> 'w reader" where
  "wall_do c http w q st =
     (case wall_check c w q of
        Some e \<Rightarrow> (Inl e, st)
      | None \<Rightarrow>
          (case http q (rs_net st) of (r, net) \<Rightarrow>
             (r, st\<lparr>rs_net := net, rs_calls := (rs_calls st)(aw_service w := Suc (rs_calls st (aw_service w))),
                   rs_sent := rs_sent st @ [(aw_service w, q)]\<rparr>)))"

subsection \<open>What the wall lets through\<close>

text \<open>
  What the server can read in a request that is a read of the account: one action, named once and in one place,
  that is a row of the service's table; or, for EC2, a row of the DryRun table with the one field DryRun=true.
\<close>

definition fields_named :: "string \<Rightarrow> form \<Rightarrow> form" where
  "fields_named name f = filter (\<lambda>(k, _). equal_fold k name) f"

definition only_read :: "reader_service \<Rightarrow> http_request \<Rightarrow> bool" where
  "only_read v q =
     (case (hq_uri q, hq_body q) of
        (Some uri, Inr body) \<Rightarrow>
          CHR ''?'' \<notin> set uri
          \<and> (let targets = awsHeaderValues (hq_header q) ''X-Amz-Target'' in
             if rv_protocol v = awsProtocolJSON
             then list_ex (\<lambda>a. targets = [rv_prefix v @ ''.'' @ a]) (rv_actions v)
             else targets = [] \<and>
               (case ParseQuery body of
                  Inl _ \<Rightarrow> False
                | Inr f \<Rightarrow>
                    list_ex (\<lambda>a. fields_named ''Action'' f = [(''Action'', a)]) (rv_actions v)
                    \<or> rv_service v = awsDryRunService
                      \<and> list_ex (\<lambda>a. fields_named ''Action'' f = [(''Action'', a)]) awsReapWriteActions
                      \<and> fields_named ''DryRun'' f = [(''DryRun'', ''true'')]))
      | _ \<Rightarrow> False)"

lemma equal_fold_refl [simp]: "equal_fold s s"
  by (simp add: equal_fold_def)

lemma NewAWSReadWall_Inr:
  assumes "NewAWSReadWall service inner = Inr w"
  obtains v where "awsReaderService service = Some v" "aw_service w = service" "rv_service v = service"
    "aw_protocol w = rv_protocol v" "aw_prefix w = rv_prefix v" "aw_reads w = rv_actions v"
    "aw_dry_runs w = (if service = awsDryRunService then awsReapWriteActions else [])"
proof -
  from assms obtain v where v: "awsReaderService service = Some v"
    by (cases "awsReaderService service") (auto simp: NewAWSReadWall_def)
  then have "rv_service v = service" by (auto simp: awsReaderService_def find_Some_iff)
  with assms v show thesis by (intro that [OF v]) (auto simp: NewAWSReadWall_def split: if_splits)
qed

lemma form_has_values: "form_has f k \<longleftrightarrow> form_values f k \<noteq> []"
  by (force simp: form_has_def form_values_def filter_empty_conv)

lemma form_values_filter: "P k \<Longrightarrow> form_values (filter (\<lambda>(a, _). P a) f) k = form_values f k"
  by (induction f) (auto simp: form_values_def)

lemma keys_once:
  assumes none: "List.map_filter (form_key_refused f) (form_keys f) = []" and name: "name \<in> set reserved_names"
  shows "fields_named name f = (if form_has f name then [(name, form_get f name)] else [])"
proof -
  have ok: "length (form_values f k) = 1 \<and> (equal_fold k name \<longrightarrow> k = name)" if "k \<in> fst ` set f" for k
  proof -
    from none that have "form_key_refused f k = None"
      by (auto simp: form_keys_def map_filter_def filter_empty_conv)
    then have "length (form_values f k) = 1" "find (\<lambda>name. k \<noteq> name \<and> equal_fold k name) reserved_names = None"
      by (simp_all add: form_key_refused_def split: if_splits option.splits)
    with name show ?thesis unfolding find_None_iff by metis
  qed
  have "fields_named name f = filter (\<lambda>(k, _). k = name) f"
    unfolding fields_named_def using ok by (intro filter_cong refl) force
  moreover have "filter (\<lambda>(k, _). k = name) f = map (Pair name) (form_values f name)"
    unfolding form_values_def map_map by (rule map_idI [symmetric]) auto
  moreover note form_has_values [of f name]
  moreover have "length (form_values f name) = 1" if "form_has f name"
    using ok [of name] that by (simp add: form_has_def)
  ultimately show ?thesis
    by (cases "form_values f name") (auto simp: form_get_def)
qed

lemma entryOf_admits:
  assumes w: "NewAWSReadWall service inner = Inr w" and v: "awsReaderService service = Some v"
    and en: "entryOf c w q = Inr (en, dryRun)" and ok: "admit w (re_action en) dryRun = None"
  shows "only_read v q"
proof -
  from w v have ws: "aw_service w = service" "rv_service v = service" "aw_protocol w = rv_protocol v"
      "aw_prefix w = rv_prefix v" "aw_reads w = rv_actions v"
      "aw_dry_runs w = (if service = awsDryRunService then awsReapWriteActions else [])"
    by (auto elim!: NewAWSReadWall_Inr)
  from en obtain body uri where b: "hq_body q = Inr body" "hq_uri q = Some uri" "CHR ''?'' \<notin> set uri"
    by (auto simp: entryOf_def split: sum.splits option.splits if_splits)
  let ?ts = "awsHeaderValues (hq_header q) ''X-Amz-Target''"
  show ?thesis
  proof (cases "rv_protocol v = awsProtocolJSON")
    case True
    with en b ws have je: "jsonEntry c w ?ts body = Inr en" and dr: "dryRun = False"
      by (auto simp: entryOf_def Let_def map_sum_def split: if_splits option.splits sum.splits)
    from je obtain t where t: "?ts = [t]" by (auto simp: jsonEntry_def split: list.splits)
    from je t have "CHR ''.'' \<in> set t" and act: "cut_at CHR ''.'' t = (rv_prefix v, re_action en)"
      by (auto simp: jsonEntry_def ws cut_at_def split: if_splits option.splits json.splits list.splits)
    then have "t = rv_prefix v @ ''.'' @ re_action en"
      by (auto dest: cut_at_append)
    with ok dr ws True t b show ?thesis
      by (auto simp: only_read_def admit_def list_ex_iff split: if_splits)
  next
    case False
    with en b ws have ts: "?ts = []" and qe: "queryEntry c w body = Inr (en, dryRun)"
      by (auto simp: entryOf_def Let_def split: if_splits option.splits)
    from qe obtain f where f: "ParseQuery body = Inr f" by (auto simp: queryEntry_def split: sum.splits)
    with qe have once: "List.map_filter (form_key_refused f) (form_keys f) = []"
      by (auto simp: queryEntry_def split: list.splits)
    let ?ps = "filter (\<lambda>(k, _). k \<noteq> ''Action'' \<and> k \<noteq> ''Version'') f"
    from qe f once have a: "form_has f ''Action''" "re_action en = form_get f ''Action''"
      and d: "dryRun = form_has ?ps ''DryRun''" "dryRun \<Longrightarrow> form_get ?ps ''DryRun'' = ''true''"
      by (auto simp: queryEntry_def Let_def split: if_splits)
    have same: "form_has ?ps ''DryRun'' = form_has f ''DryRun''" "form_get ?ps ''DryRun'' = form_get f ''DryRun''"
      unfolding form_get_def form_has_values by (simp_all add: form_values_filter)
    from keys_once [OF once, of "''Action''"] keys_once [OF once, of "''DryRun''"] a d same
    have "fields_named ''Action'' f = [(''Action'', re_action en)]"
      "dryRun \<Longrightarrow> fields_named ''DryRun'' f = [(''DryRun'', ''true'')]" by (simp_all add: reserved_names_def)
    with ok ws ts f b False show ?thesis
      by (auto simp: only_read_def admit_def list_ex_iff split: if_splits)
  qed
qed

end
