(* ===== verification/Aws_Read.thy ===== *)
theory Aws_Read
  imports Aws_Wall Aws_Lifecycle
begin

text \<open>
  The account read (\<^verbatim>\<open>harness/aws_reader.go\<close> and its follow-ups): the read set is checked, the key is identified
  and probed, each entry is replayed to its last page, and then what it touched is read.

  The SDK clients of the identity check and the preflight are the argument \<open>aws_sdk\<close>: programs that can do
  nothing but ask their HTTP client, which is the wall. The signer, the sender, the clock and the sleep are
  arguments too. The endpoints a test may put in place of the real ones are not modelled.
\<close>

subsection \<open>Steps that may fail\<close>

type_synonym ('a, 'w) act = "'w reader \<Rightarrow> (string + 'a) \<times> 'w reader"

definition done_with :: "'a \<Rightarrow> ('a, 'w) act" where
  "done_with x st = (Inr x, st)"

definition refuse :: "string \<Rightarrow> ('a, 'w) act" where
  "refuse e st = (Inl e, st)"

definition lift_sum :: "string + 'a \<Rightarrow> ('a, 'w) act" where
  "lift_sum r st = (r, st)"

definition followed_by :: "('a, 'w) act \<Rightarrow> ('a \<Rightarrow> ('b, 'w) act) \<Rightarrow> ('b, 'w) act" where
  "followed_by m f st = (case m st of (Inl e, st1) \<Rightarrow> (Inl e, st1) | (Inr x, st1) \<Rightarrow> f x st1)"

definition named_error :: "string \<Rightarrow> ('a, 'w) act \<Rightarrow> ('a, 'w) act" where
  "named_error pre m st = map_prod (map_sum (\<lambda>e. pre @ e) id) id (m st)"

primrec gather_all :: "('b \<Rightarrow> ('a list, 'w) act) \<Rightarrow> 'b list \<Rightarrow> ('a list, 'w) act" where
  "gather_all f [] = done_with []"
| "gather_all f (x # xs) = followed_by (f x) (\<lambda>ys. followed_by (gather_all f xs) (\<lambda>zs. done_with (ys @ zs)))"

subsection \<open>Programs over an HTTP client\<close>

datatype 'a client =
    Answered 'a
  | Ask http_request "http_answer \<Rightarrow> 'a client"

primrec client_bind :: "'a client \<Rightarrow> ('a \<Rightarrow> 'b client) \<Rightarrow> 'b client" where
  "client_bind (Answered x) f = f x"
| "client_bind (Ask q k) f = Ask q (\<lambda>r. client_bind (k r) f)"

primrec run_client :: "(http_request \<Rightarrow> 's \<Rightarrow> http_answer \<times> 's) \<Rightarrow> 'a client \<Rightarrow> 's \<Rightarrow> 'a \<times> 's" where
  "run_client http (Answered x) s = (x, s)"
| "run_client http (Ask q k) s = (case http q s of (r, s1) \<Rightarrow> run_client http (k r) s1)"

subsection \<open>XML answers\<close>

text \<open>Decoding an element into a string: its own character data; what follows the element is left.\<close>

fun element_text :: "nat \<Rightarrow> string \<Rightarrow> xml_token list \<Rightarrow> (string \<times> xml_token list) option" where
  "element_text d acc [] = None"
| "element_text d acc (Start_Element n a # ts) = element_text (Suc d) acc ts"
| "element_text d acc (End_Element n # ts) =
     (case d of 0 \<Rightarrow> Some (acc, ts) | Suc d' \<Rightarrow> element_text d' acc ts)"
| "element_text d acc (Char_Data s # ts) = element_text d (if d = 0 then acc @ s else acc) ts"
| "element_text d acc (t # ts) = element_text d acc ts"

lemma element_text_shorter: "element_text d acc ts = Some (s, rest) \<Longrightarrow> length rest < length ts"
  by (induction d acc ts rule: element_text.induct) (auto split: nat.splits)

function xml_fields :: "string list \<Rightarrow> xml_token list \<Rightarrow> form option" where
  "xml_fields names [] = Some []"
| "xml_fields names (Start_Element n a # ts) =
     (if n \<notin> set names then xml_fields names ts
      else case element_text 0 [] ts of
             None \<Rightarrow> None
           | Some (s, rest) \<Rightarrow> map_option ((#) (n, s)) (xml_fields names rest))"
| "xml_fields names (End_Element n # ts) = xml_fields names ts"
| "xml_fields names (Char_Data s # ts) = xml_fields names ts"
| "xml_fields names (Xml_Comment # ts) = xml_fields names ts"
| "xml_fields names (Xml_Directive # ts) = xml_fields names ts"
| "xml_fields names (Proc_Inst t i # ts) = xml_fields names ts"
  by pat_completeness auto
termination by (relation "measure (\<lambda>(_, ts). length ts)") (auto dest: element_text_shorter)

definition awsXMLFields :: "go_codec \<Rightarrow> string \<Rightarrow> string list \<Rightarrow> string + form" where
  "awsXMLFields c body names =
     (case xml_tokens c body of
        (ts, Some e) \<Rightarrow> Inl e
      | (ts, None) \<Rightarrow> (case xml_fields names ts of None \<Rightarrow> Inl ''unexpected EOF'' | Some f \<Rightarrow> Inr f))"

text \<open>Decoding a document into a struct: its first element, and what the tags of the struct's fields name.\<close>

datatype xml_node = Node string "xml_node list" | Leaf string

fun xml_build :: "(string \<times> xml_node list) list \<Rightarrow> xml_node list \<Rightarrow> xml_token list \<Rightarrow> xml_node list" where
  "xml_build st acc [] = (case rev st of [] \<Rightarrow> rev acc | (_, sib) # _ \<Rightarrow> rev sib)"
| "xml_build st acc (Start_Element n a # ts) = xml_build ((n, acc) # st) [] ts"
| "xml_build st acc (End_Element n # ts) =
     (case st of [] \<Rightarrow> xml_build st acc ts
      | (m, sib) # st' \<Rightarrow> xml_build st' (Node m (rev acc) # sib) ts)"
| "xml_build st acc (Char_Data s # ts) = xml_build st (Leaf s # acc) ts"
| "xml_build st acc (t # ts) = xml_build st acc ts"

fun is_node :: "xml_node \<Rightarrow> bool" where
  "is_node (Node n cs) = True"
| "is_node (Leaf s) = False"

fun node_named :: "string \<Rightarrow> xml_node \<Rightarrow> bool" where
  "node_named p (Node n cs) = (n = p)"
| "node_named p (Leaf s) = False"

definition xml_root :: "go_codec \<Rightarrow> string \<Rightarrow> string + xml_node" where
  "xml_root c body =
     (case xml_tokens c body of (ts, bad) \<Rightarrow>
        (case filter is_node (xml_build [] [] ts) of
           n # _ \<Rightarrow> Inr n
         | [] \<Rightarrow> Inl (case bad of None \<Rightarrow> ''EOF'' | Some e \<Rightarrow> e)))"

fun at_path :: "string list \<Rightarrow> xml_node \<Rightarrow> xml_node list" where
  "at_path [] n = [n]"
| "at_path (p # ps) (Leaf s) = []"
| "at_path (p # ps) (Node n cs) = concat (map (at_path ps) (filter (node_named p) cs))"

fun leaf_text :: "xml_node \<Rightarrow> string" where
  "leaf_text (Leaf s) = s"
| "leaf_text (Node n cs) = []"

fun node_text :: "xml_node \<Rightarrow> string" where
  "node_text (Leaf s) = []"
| "node_text (Node n cs) = concat (map leaf_text cs)"

definition field_text :: "string list \<Rightarrow> xml_node \<Rightarrow> string" where
  "field_text steps n = (case rev (at_path steps n) of [] \<Rightarrow> [] | m # _ \<Rightarrow> node_text m)"

subsection \<open>Answers\<close>

record read_exchange =
  ex_entry :: read_entry
  ex_status :: nat
  ex_body :: string

definition awsAnswerOK :: "nat \<Rightarrow> bool" where
  "awsAnswerOK status \<longleftrightarrow> 200 \<le> status \<and> status < 300"

definition after_last :: "char \<Rightarrow> string \<Rightarrow> string" where
  "after_last d s = rev (takeWhile (\<lambda>c. c \<noteq> d) (rev s))"

definition awsAnswerErrorCode :: "go_codec \<Rightarrow> string \<Rightarrow> string \<Rightarrow> string" where
  "awsAnswerErrorCode c protocol body =
     (if protocol = awsProtocolQuery
      then (case awsXMLFields c body [''Code''] of
              Inr ((_, s) # _) \<Rightarrow> trim_space s
            | _ \<Rightarrow> [])
      else (case unjson c body of
              Some (JObj m) \<Rightarrow>
                (case (dec_string (jfield m ''__type''), dec_string (jfield m ''code'')) of
                   (Some t, Some code) \<Rightarrow> fst (cut_at CHR '':'' (after_last CHR ''#'' (if t \<noteq> [] then t else code)))
                 | _ \<Rightarrow> [])
            | _ \<Rightarrow> []))"

definition checkAWSReadAnswer :: "go_codec \<Rightarrow> reader_service \<Rightarrow> nat \<Rightarrow> string \<Rightarrow> string option" where
  "checkAWSReadAnswer c v status body =
     (let code = awsAnswerErrorCode c (rv_protocol v) body in
      if awsAnswerOK status then None
      else if 400 \<le> status \<and> status < 500 \<and> code \<in> set (rv_not_found v) then None
      else Some (''answered '' @ itoa (int status) @ '' '' @ quote code))"

definition awsNonEmpty :: "string list \<Rightarrow> string list" where
  "awsNonEmpty = filter (\<lambda>s. \<not> blank s)"

definition awsNextPageToken :: "go_codec \<Rightarrow> reader_service \<Rightarrow> nat \<Rightarrow> string \<Rightarrow> string + string" where
  "awsNextPageToken c v status body =
     (let unparsed = (\<lambda>e. ''answered '' @ itoa (int status) @ '' with a body that does not parse: '' @ e) in
      if \<not> awsAnswerOK status then Inr []
      else if rv_protocol v = awsProtocolJSON
      then (case unjson c body of
              Some JNull \<Rightarrow> Inr []
            | Some (JObj m) \<Rightarrow>
                if jget m ''NextToken'' \<in> {None, Some JNull, Some (JStr [])} then Inr []
                else Inl (''the answer is truncated: it carries a NextToken, and '' @ rv_service v @ '' pages no list'')
            | _ \<Rightarrow> Inl (unparsed ''not a JSON object''))
      else (case awsXMLFields c body [''nextToken'', ''IsTruncated'', ''Marker''] of
              Inl e \<Rightarrow> Inl (unparsed e)
            | Inr f \<Rightarrow>
                let tokens = awsNonEmpty (form_values f ''nextToken'');
                    flags = form_values f ''IsTruncated'';
                    truncated = list_ex (\<lambda>s. trim_space s = ''true'') flags;
                    markers = awsNonEmpty (form_values f ''Marker'')
                in case find (\<lambda>s. trim_space s \<notin> {''true'', ''false''}) flags of
                     Some s \<Rightarrow> Inl (''IsTruncated is '' @ quote s @ '', not true or false'')
                   | None \<Rightarrow>
                       if tokens \<noteq> [] \<and> rv_paging v \<noteq> awsPagingNextToken
                       then Inl (''the answer is truncated: it carries a nextToken, and '' @ rv_service v
                              @ '' does not page by one'')
                       else if truncated \<and> rv_paging v \<noteq> awsPagingMarker
                       then Inl (''the answer is truncated: IsTruncated is true, and '' @ rv_service v
                              @ '' does not page by a Marker'')
                       else if length tokens > 1
                       then Inl (''the answer carries '' @ itoa (int (length tokens)) @ '' nextTokens, not one'')
                       else if length tokens = 1 then Inr (hd tokens)
                       else if \<not> truncated then Inr []
                       else if length markers \<noteq> 1
                       then Inl (''IsTruncated is true with '' @ itoa (int (length markers)) @ '' Markers, not one'')
                       else Inr (hd markers)))"

subsection \<open>One request\<close>

record endpoint =
  ep_url :: string
  ep_region :: string \<comment> \<open>the region requests are signed for\<close>
  ep_version :: string

definition awsReadEndpoints :: "string \<Rightarrow> (string \<times> endpoint) list" where
  "awsReadEndpoints region =
     [(''ec2'', \<lparr>ep_url = ''https://ec2.'' @ region @ ''.amazonaws.com'', ep_region = region, ep_version = ''2016-11-15''\<rparr>),
      (''iam'', \<lparr>ep_url = ''https://iam.amazonaws.com'', ep_region = ''us-east-1'', ep_version = ''2010-05-08''\<rparr>),
      (''ssm'', \<lparr>ep_url = ''https://ssm.'' @ region @ ''.amazonaws.com'', ep_region = region, ep_version = []\<rparr>),
      (''sts'', \<lparr>ep_url = ''https://sts.'' @ region @ ''.amazonaws.com'', ep_region = region, ep_version = ''2011-06-15''\<rparr>)]"

record 'w reader_rt =
  rd_codec :: go_codec
  rd_http :: "'w http_doer"
  rd_sign :: "string \<Rightarrow> string \<Rightarrow> http_request \<Rightarrow> 'w \<Rightarrow> string + http_request" \<comment> \<open>service, region\<close>
  rd_sleep :: "nat \<Rightarrow> 'w \<Rightarrow> string option \<times> 'w" \<comment> \<open>seconds\<close>
  rd_now :: "'w \<Rightarrow> int" \<comment> \<open>milliseconds\<close>

record aws_replay =
  ry_walls :: "(string \<times> read_wall) list"
  ry_endpoints :: "(string \<times> endpoint) list"

fun params_form :: "members \<Rightarrow> form \<Rightarrow> string + form" where
  "params_form [] f = Inr f"
| "params_form ((k, JStr v) # m) f =
     (if form_has f k then Inl (''query params repeat '' @ quote k) else params_form m (form_set f k v))"
| "params_form ((k, _) # m) f = Inl (''query param '' @ quote k @ '' must be a string'')"

text \<open>The object is read key by key, so a repeated one is seen; what is wrong with a text that does not parse is
  not told apart.\<close>

definition awsQueryForm :: "go_codec \<Rightarrow> string \<Rightarrow> string + form" where
  "awsQueryForm c params =
     (case unjson c params of
        Some (JObj m) \<Rightarrow> params_form m []
      | _ \<Rightarrow> Inl ''query params must be a JSON object of strings'')"

definition entry_body :: "go_codec \<Rightarrow> reader_service \<Rightarrow> endpoint \<Rightarrow> read_entry \<Rightarrow> string + http_header \<times> string" where
  "entry_body c v ep en =
     (if rv_protocol v = awsProtocolQuery
      then map_sum id (\<lambda>f. ([(''Content-Type'', [awsQueryMediaType])],
             form_encode (form_add (form_add f ''Action'' (re_action en)) ''Version'' (ep_version ep))))
             (awsQueryForm c (re_params en))
      else if rv_protocol v = awsProtocolJSON
      then Inr ([(''Content-Type'', [awsJSONMediaType]), (''X-Amz-Target'', [rv_prefix v @ ''.'' @ re_action en])],
                re_params en)
      else Inl (''protocol '' @ quote (rv_protocol v) @ '' cannot be replayed''))"

definition entry_request :: "go_codec \<Rightarrow> aws_replay \<Rightarrow> read_entry \<Rightarrow> string + http_request \<times> string" where
  "entry_request c ry en =
     (case (awsReaderService (re_service en), map_of (ry_endpoints ry) (re_service en), map_of (ry_walls ry) (re_service en)) of
        (Some v, Some ep, Some w) \<Rightarrow>
          (case entry_body c v ep en of
             Inl e \<Rightarrow> Inl e
           | Inr (h, body) \<Rightarrow>
               let q = \<lparr>hq_url = ep_url ep @ ''/'', hq_uri = Some ''/'', hq_header = h, hq_body = Inr body\<rparr> in
               (case wall_check c w q of Some e \<Rightarrow> Inl e | None \<Rightarrow> Inr (q, ep_region ep)))
      | _ \<Rightarrow> Inl ''its service has no endpoint'')"

definition wall_send :: "'w reader_rt \<Rightarrow> aws_replay \<Rightarrow> string \<Rightarrow> http_request \<Rightarrow> (nat \<times> (string + string), 'w) act" where
  "wall_send rd ry service q st =
     (case map_of (ry_walls ry) service of
        None \<Rightarrow> (Inl ''no wall'', st)
      | Some w \<Rightarrow> wall_do (rd_codec rd) (rd_http rd) w q st)"

definition replay :: "'w reader_rt \<Rightarrow> aws_replay \<Rightarrow> read_entry \<Rightarrow> (read_exchange, 'w) act" where
  "replay rd ry en =
     followed_by (lift_sum (entry_request (rd_codec rd) ry en)) (\<lambda>(q, region).
     followed_by (\<lambda>st. lift_sum (map_sum (\<lambda>e. ''signing: '' @ e) id (rd_sign rd (re_service en) region q (rs_net st))) st) (\<lambda>signed.
     followed_by (wall_send rd ry (re_service en) signed) (\<lambda>(status, body).
     lift_sum (map_sum (\<lambda>e. ''reading the answer: '' @ e)
       (\<lambda>b. \<lparr>ex_entry = en, ex_status = status, ex_body = b\<rparr>) body))))"

subsection \<open>Throttling and paging\<close>

definition awsReadAttempts :: nat where "awsReadAttempts = 5"
definition awsReadBackoff :: nat where "awsReadBackoff = 1"
definition awsReadMaxPages :: nat where "awsReadMaxPages = 100"

definition sleep_for :: "'w reader_rt \<Rightarrow> nat \<Rightarrow> (unit, 'w) act" where
  "sleep_for rd n st =
     (case rd_sleep rd n (rs_net st) of
        (e, net) \<Rightarrow> ((case e of None \<Rightarrow> Inr () | Some t \<Rightarrow> Inl t), st\<lparr>rs_net := net\<rparr>))"

text \<open>The attempts left after this one count down; the attempt is the rest.\<close>

fun answer_loop :: "'w reader_rt \<Rightarrow> aws_replay \<Rightarrow> reader_service \<Rightarrow> read_entry \<Rightarrow> nat \<Rightarrow> nat \<Rightarrow> (read_exchange, 'w) act" where
  "answer_loop rd ry v en backoff left =
     followed_by (replay rd ry en) (\<lambda>x.
       let code = awsAnswerErrorCode (rd_codec rd) (rv_protocol v) (ex_body x) in
       if awsAnswerOK (ex_status x) \<or> code \<notin> set (rv_throttling v)
       then (case checkAWSReadAnswer (rd_codec rd) v (ex_status x) (ex_body x) of
               None \<Rightarrow> done_with x | Some e \<Rightarrow> refuse e)
       else (case left of
               0 \<Rightarrow> refuse (''throttled: answered '' @ itoa (int (ex_status x)) @ '' '' @ quote code @ '' to each of ''
                      @ itoa (int awsReadAttempts) @ '' attempts'')
             | Suc n \<Rightarrow> followed_by (sleep_for rd backoff) (\<lambda>_. answer_loop rd ry v en (2 * backoff) n)))"

declare answer_loop.simps [simp del]

definition answer :: "'w reader_rt \<Rightarrow> aws_replay \<Rightarrow> reader_service \<Rightarrow> read_entry \<Rightarrow> (read_exchange, 'w) act" where
  "answer rd ry v en = answer_loop rd ry v en awsReadBackoff (awsReadAttempts - 1)"

definition awsPageEntry :: "go_codec \<Rightarrow> read_entry \<Rightarrow> string \<Rightarrow> string \<Rightarrow> string + read_entry" where
  "awsPageEntry c en field token =
     map_sum id (\<lambda>f. en\<lparr>re_params := marshal_map c (sort_key fst (form_set f field token))\<rparr>) (awsQueryForm c (re_params en))"

text \<open>One page: the exchange and the token of the next, empty after the last.\<close>

definition read_page :: "'w reader_rt \<Rightarrow> aws_replay \<Rightarrow> reader_service \<Rightarrow> read_entry \<Rightarrow> nat \<Rightarrow> string option
    \<Rightarrow> (read_exchange \<times> string, 'w) act" where
  "read_page rd ry v en k token =
     followed_by (lift_sum (case token of
         None \<Rightarrow> Inr en | Some t \<Rightarrow> awsPageEntry (rd_codec rd) en (rv_paging v) t)) (\<lambda>page.
     named_error (''page '' @ itoa (int k) @ '': '')
       (followed_by (answer rd ry v page) (\<lambda>x.
          if token \<noteq> None \<and> \<not> awsAnswerOK (ex_status x)
          then refuse (''answered '' @ itoa (int (ex_status x)) @ '' ''
                 @ quote (awsAnswerErrorCode (rd_codec rd) (rv_protocol v) (ex_body x)) @ '', so the list is incomplete'')
          else lift_sum (map_sum id (Pair x) (awsNextPageToken (rd_codec rd) v (ex_status x) (ex_body x))))))"

text \<open>\<^verbatim>\<open>awsPages\<close> over \<open>read_page\<close>; the pages that may still be read count down.\<close>

fun page_loop :: "'w reader_rt \<Rightarrow> aws_replay \<Rightarrow> reader_service \<Rightarrow> read_entry \<Rightarrow> string list \<Rightarrow> string option
    \<Rightarrow> read_exchange list \<Rightarrow> nat \<Rightarrow> (read_exchange list, 'w) act" where
  "page_loop rd ry v en seen token acc 0 =
     refuse (''the list runs past '' @ itoa (int awsReadMaxPages) @ '' pages'')"
| "page_loop rd ry v en seen token acc (Suc n) =
     followed_by (read_page rd ry v en (length acc + 1) token) (\<lambda>(x, nxt).
       if nxt = [] then done_with (acc @ [x])
       else if nxt \<in> set seen
       then refuse (''NextToken '' @ quote nxt @ '' came back a second time, so the listing cycles and is incomplete'')
       else page_loop rd ry v en (nxt # seen) (Some nxt) (acc @ [x]) n)"

definition no_service :: reader_service where
  "no_service = \<lparr>rv_service = [], rv_protocol = [], rv_prefix = [], rv_actions = [], rv_not_found = [],
     rv_paging = [], rv_throttling = []\<rparr>"

definition service_row :: "string \<Rightarrow> reader_service" where
  "service_row service = (case awsReaderService service of Some v \<Rightarrow> v | None \<Rightarrow> no_service)"

definition read_pages :: "'w reader_rt \<Rightarrow> aws_replay \<Rightarrow> read_entry \<Rightarrow> (read_exchange list, 'w) act" where
  "read_pages rd ry en = page_loop rd ry (service_row (re_service en)) en [] None [] awsReadMaxPages"

subsection \<open>Follow-ups\<close>

definition awsAppendNew :: "string list \<Rightarrow> string list \<Rightarrow> string list" where
  "awsAppendNew = foldl (\<lambda>out v. let t = trim_space v in if t \<noteq> [] \<and> t \<notin> set out then out @ [t] else out)"

definition awsFilterParams :: "string \<Rightarrow> string list \<Rightarrow> form" where
  "awsFilterParams name vals =
     (''Filter.1.Name'', name) # map (\<lambda>(i, v). (''Filter.1.Value.'' @ itoa (int i + 1), v)) (enumerate 0 vals)"

definition followUp :: "'w reader_rt \<Rightarrow> aws_replay \<Rightarrow> string \<Rightarrow> string \<Rightarrow> form \<Rightarrow> (read_exchange list, 'w) act" where
  "followUp rd ry service action params =
     (let raw = marshal_map (rd_codec rd) (sort_key fst params) in
      named_error (''follow-up '' @ action @ '' '' @ raw @ '': '')
        (read_pages rd ry \<lparr>re_service = service, re_protocol = awsProtocolQuery, re_action = action, re_params = raw\<rparr>))"

text \<open>The values of every page's answer, each once.\<close>

definition awsPageValues :: "'w reader_rt \<Rightarrow> read_exchange list \<Rightarrow> (xml_node \<Rightarrow> string list) \<Rightarrow> string + string list" where
  "awsPageValues rd pages pick =
     foldl (\<lambda>r page. case r of Inl e \<Rightarrow> Inl e | Inr out \<Rightarrow>
         (case xml_root (rd_codec rd) (ex_body page) of
            Inl e \<Rightarrow> Inl (''follow-up '' @ re_action (ex_entry page) @ '' '' @ re_params (ex_entry page)
                        @ '': the answer does not parse: '' @ e)
          | Inr n \<Rightarrow> Inr (awsAppendNew out (pick n)))) (Inr []) pages"

definition group_ids :: "xml_node \<Rightarrow> string list" where
  "group_ids n = map (field_text [''groupId'']) (at_path [''securityGroupInfo'', ''item''] n)"

definition interface_ids :: "xml_node \<Rightarrow> string list" where
  "interface_ids n = map (field_text [''networkInterfaceId'']) (at_path [''networkInterfaceSet'', ''item''] n)"

definition answer_instances :: "xml_node \<Rightarrow> xml_node list" where
  "answer_instances n = concat (map (at_path [''instancesSet'', ''item'']) (at_path [''reservationSet'', ''item''] n))"

definition instance_ids :: "xml_node \<Rightarrow> string list" where
  "instance_ids n = map (field_text [''instanceId'']) (answer_instances n)"

definition key_names :: "xml_node \<Rightarrow> string list" where
  "key_names n = map (field_text [''keyName'']) (answer_instances n)"

definition awsReadVPCAttributes :: "string list" where
  "awsReadVPCAttributes = [''enableDnsSupport'', ''enableDnsHostnames'']"

definition awsReadInstanceAttributes :: "string list" where
  "awsReadInstanceAttributes =
     [''instanceInitiatedShutdownBehavior'', ''disableApiStop'', ''disableApiTermination'', ''userData'']"

text \<open>An empty filter would read the whole region, so nothing is read.\<close>

definition read_by :: "'w reader_rt \<Rightarrow> aws_replay \<Rightarrow> string \<Rightarrow> string \<Rightarrow> string list \<Rightarrow> (read_exchange list, 'w) act" where
  "read_by rd ry action name vals =
     (if vals = [] then done_with [] else followUp rd ry ''ec2'' action (awsFilterParams name vals))"

definition readEC2VPC :: "'w reader_rt \<Rightarrow> aws_replay \<Rightarrow> string \<Rightarrow> (read_exchange list, 'w) act" where
  "readEC2VPC rd ry vpc =
     (let inVPC = awsFilterParams ''vpc-id'' [vpc]; ec2 = followUp rd ry ''ec2'' in
      followed_by (ec2 ''DescribeSubnets'' inVPC) (\<lambda>subnets.
      followed_by (ec2 ''DescribeSecurityGroups'' inVPC) (\<lambda>groups.
      followed_by (lift_sum (awsPageValues rd groups group_ids)) (\<lambda>groupIDs.
      followed_by (read_by rd ry ''DescribeSecurityGroupRules'' ''group-id'' groupIDs) (\<lambda>rules.
      followed_by (ec2 ''DescribeRouteTables'' inVPC) (\<lambda>tables.
      followed_by (ec2 ''DescribeInternetGateways'' (awsFilterParams ''attachment.vpc-id'' [vpc])) (\<lambda>gateways.
      followed_by (ec2 ''DescribeNetworkInterfaces'' inVPC) (\<lambda>interfaces.
      followed_by (lift_sum (awsPageValues rd interfaces interface_ids)) (\<lambda>interfaceIDs.
      followed_by (read_by rd ry ''DescribeAddresses'' ''network-interface-id'' interfaceIDs) (\<lambda>addresses.
      followed_by (ec2 ''DescribeInstances'' inVPC) (\<lambda>insts.
      followed_by (lift_sum (awsPageValues rd insts instance_ids)) (\<lambda>instanceIDs.
      followed_by (lift_sum (awsPageValues rd insts key_names)) (\<lambda>keyNames.
      followed_by (read_by rd ry ''DescribeKeyPairs'' ''key-name'' keyNames) (\<lambda>keys.
      followed_by (read_by rd ry ''DescribeVolumes'' ''attachment.instance-id'' instanceIDs) (\<lambda>volumes.
      followed_by (gather_all (\<lambda>a. ec2 ''DescribeVpcAttribute'' [(''VpcId'', vpc), (''Attribute'', a)]) awsReadVPCAttributes)
        (\<lambda>vattrs.
      followed_by (gather_all (\<lambda>i. gather_all (\<lambda>a. ec2 ''DescribeInstanceAttribute''
          [(''InstanceId'', i), (''Attribute'', a)]) awsReadInstanceAttributes) instanceIDs) (\<lambda>iattrs.
      done_with (subnets @ groups @ rules @ tables @ gateways @ interfaces @ addresses @ insts @ keys @ volumes
        @ vattrs @ iattrs))))))))))))))))))"

definition awsOwnVPCIDPath :: "string list \<Rightarrow> bool" where
  "awsOwnVPCIDPath steps =
     (if length steps = 4 then drop 2 steps = [''item'', ''vpcId'']
      else if length steps = 6
      then tl steps = [''reservationSet'', ''item'', ''instancesSet'', ''item'', ''vpcId'']
      else False)"

text \<open>Tokens that end before their elements do are an error of the decoder.\<close>

function listed_vpc_ids :: "string list \<Rightarrow> string list \<Rightarrow> xml_token list \<Rightarrow> string list option" where
  "listed_vpc_ids steps out [] = Some out"
| "listed_vpc_ids steps out (Start_Element n a # ts) =
     (if \<not> awsOwnVPCIDPath (steps @ [n]) then listed_vpc_ids (steps @ [n]) out ts
      else case element_text 0 [] ts of
             None \<Rightarrow> None
           | Some (s, rest) \<Rightarrow> listed_vpc_ids steps (awsAppendNew out [s]) rest)"
| "listed_vpc_ids steps out (End_Element n # ts) = listed_vpc_ids (butlast steps) out ts"
| "listed_vpc_ids steps out (Char_Data s # ts) = listed_vpc_ids steps out ts"
| "listed_vpc_ids steps out (Xml_Comment # ts) = listed_vpc_ids steps out ts"
| "listed_vpc_ids steps out (Xml_Directive # ts) = listed_vpc_ids steps out ts"
| "listed_vpc_ids steps out (Proc_Inst t i # ts) = listed_vpc_ids steps out ts"
  by pat_completeness auto
termination by (relation "measure (\<lambda>(_, _, ts). length ts)") (auto dest: element_text_shorter)

definition awsListedVPCIDs :: "go_codec \<Rightarrow> string \<Rightarrow> string + string list" where
  "awsListedVPCIDs c body =
     (case xml_tokens c body of
        (ts, Some e) \<Rightarrow> Inl e
      | (ts, None) \<Rightarrow> (case listed_vpc_ids [] [] ts of None \<Rightarrow> Inl ''unexpected EOF'' | Some ids \<Rightarrow> Inr ids))"

definition awsReadAllZones :: "go_codec \<Rightarrow> read_exchange \<Rightarrow> bool" where
  "awsReadAllZones c x \<longleftrightarrow>
     re_service (ex_entry x) = ''ec2'' \<and> re_action (ex_entry x) = ''DescribeAvailabilityZones''
     \<and> awsAnswerOK (ex_status x) \<and> awsQueryForm c (re_params (ex_entry x)) = Inr []"

definition touched_vpcs :: "go_codec \<Rightarrow> read_exchange list \<Rightarrow> string + string list" where
  "touched_vpcs c replayed =
     foldl (\<lambda>r x. case r of Inl e \<Rightarrow> Inl e | Inr vpcs \<Rightarrow>
         if re_service (ex_entry x) \<noteq> ''ec2'' \<or> \<not> awsAnswerOK (ex_status x) then Inr vpcs
         else (case awsListedVPCIDs c (ex_body x) of
                 Inl e \<Rightarrow> Inl (''finding the VPCs '' @ re_action (ex_entry x) @ '' '' @ re_params (ex_entry x)
                            @ '' touched: '' @ e)
               | Inr ids \<Rightarrow> Inr (awsAppendNew vpcs ids))) (Inr []) replayed"

definition readEC2 :: "'w reader_rt \<Rightarrow> aws_replay \<Rightarrow> read_exchange list \<Rightarrow> (read_exchange list, 'w) act" where
  "readEC2 rd ry replayed =
     followed_by (lift_sum (touched_vpcs (rd_codec rd) replayed)) (\<lambda>vpcs.
       if vpcs = [] then done_with []
       else followed_by (gather_all (readEC2VPC rd ry) vpcs) (\<lambda>out.
         if list_ex (awsReadAllZones (rd_codec rd)) replayed then done_with out
         else followed_by (followUp rd ry ''ec2'' ''DescribeAvailabilityZones'' []) (\<lambda>zones. done_with (out @ zones))))"

definition policy_names :: "xml_node \<Rightarrow> string list" where
  "policy_names n = map node_text (at_path [''ListRolePoliciesResult'', ''PolicyNames'', ''member''] n)"

definition readIAMRole :: "'w reader_rt \<Rightarrow> aws_replay \<Rightarrow> string \<Rightarrow> (read_exchange list, 'w) act" where
  "readIAMRole rd ry role =
     (let ofRole = [(''RoleName'', role)]; iam = followUp rd ry ''iam'' in
      followed_by (iam ''ListRolePolicies'' ofRole) (\<lambda>inline.
      followed_by (lift_sum (awsPageValues rd inline policy_names)) (\<lambda>names.
      followed_by (gather_all (\<lambda>n. iam ''GetRolePolicy'' [(''RoleName'', role), (''PolicyName'', n)]) names) (\<lambda>policies.
      followed_by (gather_all (\<lambda>a. iam a ofRole) [''ListAttachedRolePolicies'', ''ListInstanceProfilesForRole'']) (\<lambda>rest.
      done_with (inline @ policies @ rest))))))"

definition read_roles :: "go_codec \<Rightarrow> read_exchange list \<Rightarrow> string + string list" where
  "read_roles c replayed =
     foldl (\<lambda>r x. case r of Inl e \<Rightarrow> Inl e | Inr roles \<Rightarrow>
         if re_service (ex_entry x) \<noteq> ''iam'' \<or> re_action (ex_entry x) \<noteq> ''GetRole'' \<or> \<not> awsAnswerOK (ex_status x)
         then Inr roles
         else (let whose = ''finding the role GetRole '' @ re_params (ex_entry x) @ '' read: the answer '' in
               case xml_root c (ex_body x) of
                 Inl e \<Rightarrow> Inl (whose @ ''does not parse: '' @ e)
               | Inr n \<Rightarrow>
                   let role = field_text [''GetRoleResult'', ''Role'', ''RoleName''] n in
                   if blank role then Inl (whose @ ''names no role'') else Inr (awsAppendNew roles [role])))
       (Inr []) replayed"

definition readIAM :: "'w reader_rt \<Rightarrow> aws_replay \<Rightarrow> read_exchange list \<Rightarrow> (read_exchange list, 'w) act" where
  "readIAM rd ry replayed =
     followed_by (lift_sum (read_roles (rd_codec rd) replayed)) (\<lambda>roles.
       gather_all (\<lambda>role. named_error (''role '' @ quote role @ '': '') (readIAMRole rd ry role)) roles)"

definition awsPublicParameter :: "string \<Rightarrow> bool" where
  "awsPublicParameter name = has_prefix name ''/aws/service/''"

definition awsAMIIDRe :: regex where
  "awsAMIIDRe = seqs [At_Start, text_re ''ami-'',
     some_re (Chr (\<lambda>c. char_between CHR ''0'' CHR ''9'' c \<or> char_between CHR ''a'' CHR ''z'' c)), At_End]"

text \<open>Decoding \<^verbatim>\<open>ssmParameterAnswer\<close>: the parameter's name and value.\<close>

definition decode_parameter :: "document \<Rightarrow> (string \<times> string) option" where
  "decode_parameter d =
     dec_struct (\<lambda>m. dec_struct (\<lambda>p.
         (case (dec_string (jfield p ''Name''), dec_string (jfield p ''Value'')) of
            (Some n, Some v) \<Rightarrow> Some (n, v)
          | _ \<Rightarrow> None)) (jfield m ''Parameter'')) d"

text \<open>The images the replayed parameters name, with the first parameter naming each.\<close>

definition parameter_images :: "go_codec \<Rightarrow> read_exchange list \<Rightarrow> string + (string \<times> string) list" where
  "parameter_images c replayed =
     foldl (\<lambda>r x. case r of Inl e \<Rightarrow> Inl e | Inr images \<Rightarrow>
         if re_service (ex_entry x) \<noteq> ''ssm'' \<or> re_action (ex_entry x) \<noteq> ''GetParameter'' \<or> \<not> awsAnswerOK (ex_status x)
         then Inr images
         else (let whose = ''finding the image GetParameter '' @ re_params (ex_entry x) @ '' read: the answer '';
                   d = unjson c (ex_body x) in
               case (if d = None then None else decode_parameter d) of
                 None \<Rightarrow> Inl (whose @ ''does not parse'')
               | Some (name, v) \<Rightarrow>
                   if blank name then Inl (whose @ ''names no parameter'')
                   else if awsPublicParameter name \<and> matches awsAMIIDRe v \<and> v \<notin> fst ` set images
                   then Inr (images @ [(v, name)]) else Inr images))
       (Inr []) replayed"

definition image_ids :: "xml_node \<Rightarrow> string list" where
  "image_ids n = map node_text (at_path [''imagesSet'', ''item'', ''imageId''] n)"

fun awsCheckImageRead :: "go_codec \<Rightarrow> read_exchange list \<Rightarrow> string \<Rightarrow> string option" where
  "awsCheckImageRead c [] img = Some ''DescribeImages answered without the image''"
| "awsCheckImageRead c (x # xs) img =
     (if \<not> awsAnswerOK (ex_status x) then awsCheckImageRead c xs img
      else case xml_root c (ex_body x) of
             Inl e \<Rightarrow> Some (''DescribeImages '' @ re_params (ex_entry x) @ '': the answer does not parse: '' @ e)
           | Inr n \<Rightarrow> if img \<in> set (image_ids n) then None else awsCheckImageRead c xs img)"

definition readSSM :: "'w reader_rt \<Rightarrow> aws_replay \<Rightarrow> read_exchange list \<Rightarrow> (read_exchange list, 'w) act" where
  "readSSM rd ry replayed =
     followed_by (lift_sum (parameter_images (rd_codec rd) replayed)) (\<lambda>images.
       gather_all (\<lambda>(img, parameter).
         named_error (''image '' @ quote img @ '' of parameter '' @ quote parameter @ '': '')
           (followed_by (followUp rd ry ''ec2'' ''DescribeImages'' [(''ImageId.1'', img)]) (\<lambda>pages.
              case awsCheckImageRead (rd_codec rd) pages img of None \<Rightarrow> done_with pages | Some e \<Rightarrow> refuse e)))
         images)"

subsection \<open>Everything sent is a read\<close>

definition lawful_request :: "string \<times> http_request \<Rightarrow> bool" where
  "lawful_request sq = (case awsReaderService (fst sq) of None \<Rightarrow> False | Some v \<Rightarrow> only_read v (snd sq))"

definition sent_by :: "string \<Rightarrow> (string \<times> http_request) list \<Rightarrow> nat" where
  "sent_by service qs = length (filter (\<lambda>(a, _). a = service) qs)"

text \<open>What was sent in between is reads, and every wall counted its own.\<close>

definition reads_only :: "'w reader \<Rightarrow> 'w reader \<Rightarrow> bool" where
  "reads_only st st' \<longleftrightarrow>
     (\<exists>qs. rs_sent st' = rs_sent st @ qs \<and> list_all lawful_request qs
        \<and> (\<forall>s. rs_calls st' s = rs_calls st s + sent_by s qs))"

lemma reads_only_refl [simp, intro]: "reads_only st st"
  by (auto simp: reads_only_def sent_by_def)

lemma reads_only_trans: "reads_only a b \<Longrightarrow> reads_only b d \<Longrightarrow> reads_only a d"
  unfolding reads_only_def
  by (elim exE conjE, rule exI [of _ "qs @ qsa" for qs qsa]) (auto simp: sent_by_def)

lemma reads_only_net [simp]: "reads_only st (st\<lparr>rs_net := w\<rparr>)"
  by (auto simp: reads_only_def sent_by_def)

definition walls_good :: "aws_replay \<Rightarrow> bool" where
  "walls_good ry \<longleftrightarrow> list_all (\<lambda>(s, w). NewAWSReadWall s (Some ()) = Inr w) (ry_walls ry)"

lemma walls_good_lookup: "walls_good ry \<Longrightarrow> map_of (ry_walls ry) s = Some w \<Longrightarrow> NewAWSReadWall s (Some ()) = Inr w"
  by (auto simp: walls_good_def list_all_iff dest: map_of_SomeD)

lemma wall_do_reads:
  assumes w: "NewAWSReadWall s inner = Inr w"
  shows "reads_only st (snd (wall_do c http w q st))"
proof (cases "wall_check c w q")
  case None
  obtain v where v: "awsReaderService s = Some v" "aw_service w = s" using w by (rule NewAWSReadWall_Inr)
  from None obtain en dry where en: "entryOf c w q = Inr (en, dry)" "admit w (re_action en) dry = None"
    by (auto simp: wall_check_def split: sum.splits)
  then have "lawful_request (s, q)"
    using entryOf_admits [OF w v(1)] by (simp add: lawful_request_def v)
  with None v show ?thesis
    by (cases "http q (rs_net st)")
      (auto simp: wall_do_def reads_only_def sent_by_def intro!: exI [of _ "[(s, q)]"])
qed (simp add: wall_do_def)

lemma run_client_steps:
  assumes "\<And>q s. R s (snd (http q s))" "\<And>s. R s s" "\<And>a b d. R a b \<Longrightarrow> R b d \<Longrightarrow> R a d"
  shows "R s (snd (run_client http p s))"
proof (induction p arbitrary: s)
  case (Ask q k)
  obtain r s1 where r: "http q s = (r, s1)" by force
  with assms(1) [of s q] have "R s s1" by simp
  moreover have "R s1 (snd (run_client http (k r) s1))" by (rule Ask) simp
  ultimately show ?case using assms(3) by (simp add: r)
qed (simp add: assms)

named_theorems reader_intro "steps that send nothing but reads"

definition reader_act :: "('a, 'w) act \<Rightarrow> bool" where
  "reader_act m \<longleftrightarrow> (\<forall>st. reads_only st (snd (m st)))"

lemma reader_pure [reader_intro]: "reader_act (done_with x)" "reader_act (refuse e)" "reader_act (lift_sum r)"
  by (simp_all add: reader_act_def done_with_def refuse_def lift_sum_def)

lemma reader_named [reader_intro]: "reader_act m \<Longrightarrow> reader_act (named_error e m)"
  by (simp add: reader_act_def named_error_def)

lemma reader_followed [reader_intro]:
  assumes "reader_act m" "\<And>x. reader_act (f x)"
  shows "reader_act (followed_by m f)"
  unfolding reader_act_def
proof
  fix st
  show "reads_only st (snd (followed_by m f st))"
  proof (cases "m st")
    case (Pair r st1)
    with assms(1) have "reads_only st st1" by (metis reader_act_def snd_conv)
    moreover have "reads_only st1 (snd (f x st1))" for x using assms(2) by (simp add: reader_act_def)
    ultimately show ?thesis
      by (cases r) (auto simp: followed_by_def Pair intro: reads_only_trans)
  qed
qed

lemma reader_gather [reader_intro]: "(\<And>x. reader_act (f x)) \<Longrightarrow> reader_act (gather_all f xs)"
  by (induction xs) (simp_all add: reader_intro)

lemma reader_state: "(\<And>x. reader_act (f x)) \<Longrightarrow> reader_act (\<lambda>st. f (g st) st)"
  by (simp add: reader_act_def)

lemma reader_send [reader_intro]: "walls_good ry \<Longrightarrow> reader_act (wall_send rd ry s q)"
  using wall_do_reads [OF walls_good_lookup]
  by (auto simp: reader_act_def wall_send_def split: option.splits)

lemma reader_replay [reader_intro]: "walls_good ry \<Longrightarrow> reader_act (replay rd ry en)"
  unfolding replay_def by (auto intro!: reader_intro reader_state [where f = "lift_sum"])

lemma reader_sleep [reader_intro]: "reader_act (sleep_for rd n)"
  by (auto simp: reader_act_def sleep_for_def split: prod.splits)

lemma reader_answer_loop: "walls_good ry \<Longrightarrow> reader_act (answer_loop rd ry v en backoff left)"
proof (induction left arbitrary: backoff)
  case 0
  then show ?case by (subst answer_loop.simps) (auto simp: Let_def intro!: reader_intro split: option.split)
next
  case (Suc n)
  then show ?case by (subst answer_loop.simps) (auto simp: Let_def intro!: reader_intro split: option.split)
qed

lemma reader_page [reader_intro]: "walls_good ry \<Longrightarrow> reader_act (read_page rd ry v en k token)"
  unfolding read_page_def answer_def by (auto intro!: reader_intro reader_answer_loop)

lemma reader_page_loop: "walls_good ry \<Longrightarrow> reader_act (page_loop rd ry v en seen token acc n)"
  by (induction n arbitrary: seen token acc) (auto intro!: reader_intro split: prod.split)

lemma reader_pages [reader_intro]: "walls_good ry \<Longrightarrow> reader_act (read_pages rd ry en)"
  unfolding read_pages_def by (rule reader_page_loop)

lemma reader_followUp [reader_intro]: "walls_good ry \<Longrightarrow> reader_act (followUp rd ry s a ps)"
  unfolding followUp_def Let_def by (intro reader_intro)

lemma reader_read_by [reader_intro]: "walls_good ry \<Longrightarrow> reader_act (read_by rd ry a n vs)"
  unfolding read_by_def by (auto intro!: reader_intro)

lemma reader_follow_ups [reader_intro]:
  assumes "walls_good ry"
  shows "reader_act (readEC2 rd ry xs)" "reader_act (readIAM rd ry xs)" "reader_act (readSSM rd ry xs)"
proof -
  have vpc: "reader_act (readEC2VPC rd ry vpc)" for vpc
    unfolding readEC2VPC_def Let_def using assms by (intro reader_intro)
  show "reader_act (readEC2 rd ry xs)"
    unfolding readEC2_def using assms vpc by (auto intro!: reader_intro)
  show "reader_act (readIAM rd ry xs)"
    unfolding readIAM_def readIAMRole_def Let_def using assms by (intro reader_intro)
  show "reader_act (readSSM rd ry xs)"
    unfolding readSSM_def using assms by (auto intro!: reader_intro split: prod.split option.split)
qed

subsection \<open>Lists read to their end\<close>

lemma followed_by_Inr:
  assumes "followed_by m f st = (Inr y, st')"
  obtains x st1 where "m st = (Inr x, st1)" "f x st1 = (Inr y, st')"
  using assms by (auto simp: followed_by_def split: prod.splits sum.splits)

lemma named_error_Inr [simp]: "named_error e m st = (Inr x, st') \<longleftrightarrow> m st = (Inr x, st')"
  by (cases "m st"; cases "fst (m st)") (auto simp: named_error_def)

lemma pure_Inr [simp]: "done_with x st = (Inr y, st') \<longleftrightarrow> y = x \<and> st' = st" "refuse e st \<noteq> (Inr y, st')"
    "lift_sum r st = (Inr y, st') \<longleftrightarrow> r = Inr y \<and> st' = st"
  by (auto simp: done_with_def refuse_def lift_sum_def)

lemma map_sum_Inr [simp]: "map_sum f g r = Inr y \<longleftrightarrow> (\<exists>x. r = Inr x \<and> y = g x)"
  by (cases r) auto

text \<open>
  The pages of a list: the first asks for the entry, every later one for the token of the page before it, and is
  answered with success; the last names no further page. An answer is a success, or says of the first page that
  what it asks for does not exist.
\<close>

definition asks :: "go_codec \<Rightarrow> reader_service \<Rightarrow> read_entry \<Rightarrow> string option \<Rightarrow> read_entry \<Rightarrow> bool" where
  "asks c v en token page =
     (case token of None \<Rightarrow> page = en | Some t \<Rightarrow> awsPageEntry c en (rv_paging v) t = Inr page)"

definition page_ok :: "go_codec \<Rightarrow> reader_service \<Rightarrow> string option \<Rightarrow> read_exchange \<Rightarrow> bool" where
  "page_ok c v token x =
     (if awsAnswerOK (ex_status x) then True
      else token = None \<and> 400 \<le> ex_status x \<and> ex_status x < 500
        \<and> awsAnswerErrorCode c (rv_protocol v) (ex_body x) \<in> set (rv_not_found v))"

definition next_token :: "go_codec \<Rightarrow> reader_service \<Rightarrow> read_exchange \<Rightarrow> string + string" where
  "next_token c v x = awsNextPageToken c v (ex_status x) (ex_body x)"

fun whole_list :: "go_codec \<Rightarrow> reader_service \<Rightarrow> read_entry \<Rightarrow> string option \<Rightarrow> read_exchange list \<Rightarrow> bool" where
  "whole_list c v en token [] = False"
| "whole_list c v en token (x # xs) =
     (asks c v en token (ex_entry x) \<and> page_ok c v token x
      \<and> (if xs = [] then next_token c v x = Inr []
         else case next_token c v x of
                Inl _ \<Rightarrow> False
              | Inr t \<Rightarrow> t \<noteq> [] \<and> whole_list c v en (Some t) xs))"

lemma replay_entry: "replay rd ry en st = (Inr x, st') \<Longrightarrow> ex_entry x = en"
  unfolding replay_def by (auto elim!: followed_by_Inr split: prod.splits)

lemma answer_loop_Inr:
  "answer_loop rd ry v en backoff left st = (Inr x, st') \<Longrightarrow>
     ex_entry x = en \<and> checkAWSReadAnswer (rd_codec rd) v (ex_status x) (ex_body x) = None"
proof (induction left arbitrary: backoff st)
  case 0
  then show ?case
    by (subst (asm) answer_loop.simps)
      (auto simp: Let_def elim!: followed_by_Inr dest: replay_entry split: if_splits option.splits)
next
  case (Suc n)
  then show ?case
    by (subst (asm) answer_loop.simps)
      (auto simp: Let_def elim!: followed_by_Inr dest: replay_entry split: if_splits option.splits)
qed

lemma read_page_Inr:
  assumes "read_page rd ry v en k token st = (Inr (x, nxt), st')"
  shows "asks (rd_codec rd) v en token (ex_entry x) \<and> page_ok (rd_codec rd) v token x
     \<and> next_token (rd_codec rd) v x = Inr nxt"
proof -
  from assms obtain page st1 st2 where p: "(case token of None \<Rightarrow> Inr en | Some t \<Rightarrow> awsPageEntry (rd_codec rd) en (rv_paging v) t) = Inr page"
    and a: "answer rd ry v page st1 = (Inr x, st2)"
    and n: "token = None \<or> awsAnswerOK (ex_status x)" "next_token (rd_codec rd) v x = Inr nxt"
    by (auto simp: read_page_def next_token_def elim!: followed_by_Inr split: if_splits)
  from a have "ex_entry x = page \<and> checkAWSReadAnswer (rd_codec rd) v (ex_status x) (ex_body x) = None"
    unfolding answer_def by (rule answer_loop_Inr)
  with p n show ?thesis
    by (auto simp: asks_def page_ok_def checkAWSReadAnswer_def Let_def split: option.splits if_splits)
qed

lemma page_loop_Inr:
  "page_loop rd ry v en seen token acc n st = (Inr ys, st') \<Longrightarrow> [] \<notin> set seen \<Longrightarrow>
     \<exists>xs. ys = acc @ xs \<and> whole_list (rd_codec rd) v en token xs \<and> length xs \<le> n
       \<and> distinct (map (next_token (rd_codec rd) v) xs) \<and> Inr ` set seen \<inter> next_token (rd_codec rd) v ` set xs = {}"
proof (induction n arbitrary: seen token acc st)
  case (Suc n)
  from Suc.prems(1) obtain x nxt st1 where
    page: "read_page rd ry v en (length acc + 1) token st = (Inr (x, nxt), st1)"
    and rest: "(if nxt = [] then done_with (acc @ [x])
       else if nxt \<in> set seen
       then refuse (''NextToken '' @ quote nxt @ '' came back a second time, so the listing cycles and is incomplete'')
       else page_loop rd ry v en (nxt # seen) (Some nxt) (acc @ [x]) n) st1 = (Inr ys, st')"
    by (auto elim!: followed_by_Inr)
  from read_page_Inr [OF page]
  have x: "asks (rd_codec rd) v en token (ex_entry x)" "page_ok (rd_codec rd) v token x"
    "next_token (rd_codec rd) v x = Inr nxt" by auto
  show ?case
  proof (cases "nxt = []")
    case True
    with rest have "ys = acc @ [x]" by simp
    with True x Suc.prems(2) show ?thesis by (intro exI [of _ "[x]"]) auto
  next
    case False
    with rest have fresh: "nxt \<notin> set seen"
      and loop: "page_loop rd ry v en (nxt # seen) (Some nxt) (acc @ [x]) n st1 = (Inr ys, st')" by (auto split: if_splits)
    have "\<exists>xs. ys = (acc @ [x]) @ xs \<and> whole_list (rd_codec rd) v en (Some nxt) xs \<and> length xs \<le> n
       \<and> distinct (map (next_token (rd_codec rd) v) xs)
       \<and> Inr ` set (nxt # seen) \<inter> next_token (rd_codec rd) v ` set xs = {}"
      using False Suc.prems(2) by (intro Suc.IH [OF loop]) simp
    then obtain xs where xs: "ys = acc @ x # xs" "whole_list (rd_codec rd) v en (Some nxt) xs"
      "length xs \<le> n" "distinct (map (next_token (rd_codec rd) v) xs)"
      "Inr ` set (nxt # seen) \<inter> next_token (rd_codec rd) v ` set xs = {}" by auto
    then have "xs \<noteq> []" by auto
    with False x xs fresh show ?thesis
      by (intro exI [of _ "x # xs"]) auto
  qed
qed simp

lemma read_pages_whole:
  assumes "read_pages rd ry en st = (Inr xs, st')"
  shows "whole_list (rd_codec rd) (service_row (re_service en)) en None xs \<and> length xs \<le> awsReadMaxPages
     \<and> distinct (map (next_token (rd_codec rd) (service_row (re_service en))) xs)"
  using page_loop_Inr [OF assms [unfolded read_pages_def]] by simp

definition whole_part :: "go_codec \<Rightarrow> read_entry \<Rightarrow> read_exchange list \<Rightarrow> bool" where
  "whole_part c en xs \<longleftrightarrow> length xs \<le> awsReadMaxPages \<and> whole_list c (service_row (re_service en)) en None xs"

text \<open>A list of exchanges that is whole lists one after the other.\<close>

definition whole_reads :: "go_codec \<Rightarrow> read_exchange list \<Rightarrow> bool" where
  "whole_reads c xs \<longleftrightarrow> (\<exists>parts. xs = concat (map snd parts) \<and> list_all (\<lambda>(en, ys). whole_part c en ys) parts)"

lemma whole_reads_Nil [simp]: "whole_reads c []"
  unfolding whole_reads_def by (intro exI [of _ "[]"]) simp

lemma whole_reads_append [intro]:
  assumes "whole_reads c xs" "whole_reads c ys"
  shows "whole_reads c (xs @ ys)"
proof -
  from assms obtain p q where "xs = concat (map snd p)" "list_all (\<lambda>(en, ys). whole_part c en ys) p"
    "ys = concat (map snd q)" "list_all (\<lambda>(en, ys). whole_part c en ys) q"
    by (auto simp: whole_reads_def)
  then show ?thesis unfolding whole_reads_def by (intro exI [of _ "p @ q"]) simp
qed

lemma whole_part_reads: "whole_part c en xs \<Longrightarrow> whole_reads c xs"
  unfolding whole_reads_def by (intro exI [of _ "[(en, xs)]"]) simp

lemma read_pages_part: "read_pages rd ry en st = (Inr xs, st') \<Longrightarrow> whole_part (rd_codec rd) en xs"
  by (auto simp: whole_part_def dest: read_pages_whole)

text \<open>What a step returns when it does not fail; the steps of the follow-ups, one rule for each.\<close>

definition gives :: "('a \<Rightarrow> bool) \<Rightarrow> ('a, 'w) act \<Rightarrow> bool" where
  "gives P m \<longleftrightarrow> (\<forall>st x st'. m st = (Inr x, st') \<longrightarrow> P x)"

lemma gives_run: "gives P m \<Longrightarrow> m st = (Inr x, st') \<Longrightarrow> P x"
  by (auto simp: gives_def)

lemma gives_pure: "P x \<Longrightarrow> gives P (done_with x)" "gives P (refuse e)"
  by (simp_all add: gives_def)

lemma gives_any: "gives (\<lambda>_. True) m"
  by (simp add: gives_def)

lemma gives_followed: "gives P m \<Longrightarrow> (\<And>x. P x \<Longrightarrow> gives Q (f x)) \<Longrightarrow> gives Q (followed_by m f)"
  unfolding gives_def by (blast elim: followed_by_Inr)

lemma gives_named: "gives P m \<Longrightarrow> gives P (named_error e m)"
  by (simp add: gives_def)

lemma gives_pages: "gives (whole_reads (rd_codec rd)) (read_pages rd ry en)"
  unfolding gives_def by (blast intro: whole_part_reads read_pages_part)

lemma gives_followUp: "gives (whole_reads (rd_codec rd)) (followUp rd ry s a ps)"
  unfolding followUp_def Let_def by (intro gives_named gives_pages)

lemma gives_by: "gives (whole_reads (rd_codec rd)) (read_by rd ry a n vs)"
  unfolding read_by_def by (simp add: gives_followUp gives_pure)

lemma gives_gather: "(\<And>x. gives (whole_reads c) (f x)) \<Longrightarrow> gives (whole_reads c) (gather_all f xs)"
  by (induction xs) (auto intro!: gives_pure gives_followed [where P = "whole_reads c"])

lemmas whole_steps = gives_followed [OF gives_any [where m = "lift_sum r" for r]]
  gives_followed [OF gives_followUp] gives_followed [OF gives_by] gives_followed [OF gives_gather]
  gives_followUp gives_gather gives_named

lemma follow_ups_whole:
  "gives (whole_reads (rd_codec rd)) (readEC2 rd ry xs)"
  "gives (whole_reads (rd_codec rd)) (readIAM rd ry xs)"
  "gives (whole_reads (rd_codec rd)) (readSSM rd ry xs)"
proof -
  have "gives (whole_reads (rd_codec rd)) (readEC2VPC rd ry vpc)" for vpc
    unfolding readEC2VPC_def Let_def
    by (intro whole_steps gives_pure whole_reads_append) (assumption | rule gives_followUp | intro whole_steps)+
  then show "gives (whole_reads (rd_codec rd)) (readEC2 rd ry xs)"
    unfolding readEC2_def
    by (intro whole_steps) (auto intro!: whole_steps gives_pure)
  have "gives (whole_reads (rd_codec rd)) (readIAMRole rd ry role)" for role
    unfolding readIAMRole_def Let_def
    by (intro whole_steps gives_pure whole_reads_append) (assumption | rule gives_followUp | intro whole_steps)+
  then show "gives (whole_reads (rd_codec rd)) (readIAM rd ry xs)"
    unfolding readIAM_def by (intro whole_steps)
  have "gives (whole_reads (rd_codec rd)) (followed_by (followUp rd ry ''ec2'' ''DescribeImages'' [(''ImageId.1'', img)]) (\<lambda>pages.
      case awsCheckImageRead (rd_codec rd) pages img of None \<Rightarrow> done_with pages | Some e \<Rightarrow> refuse e))" for img
    by (rule gives_followed [OF gives_followUp]) (auto intro: gives_pure split: option.split)
  then show "gives (whole_reads (rd_codec rd)) (readSSM rd ry xs)"
    unfolding readSSM_def by (intro whole_steps) (auto intro: gives_named)
qed

end
