(* ===== verification/Aws_Account.thy ===== *)
theory Aws_Account
  imports Aws_Read
begin

text \<open>
  The read of an account as a whole (\<^verbatim>\<open>ReadAWSAccount\<close> with \<^verbatim>\<open>VerifyAWSReadIdentity\<close> and \<^verbatim>\<open>PreflightAWSReadKey\<close>), and
  what holds of a recorded read: everything sent is a read, and every list is read to its end.
\<close>

subsection \<open>The identity check and the preflight\<close>

datatype dry_answer =
    Dry_Succeeded
  | Dry_API_Error (dry_code: string) (dry_text: string)
  | Dry_No_Answer string

record aws_sdk =
  sdk_caller :: "endpoint \<Rightarrow> (string + string option \<times> string option) client" \<comment> \<open>account and ARN\<close>
  sdk_dry_run :: "endpoint \<Rightarrow> string \<Rightarrow> dry_answer client"

definition checkAWSReadWall :: "read_wall \<Rightarrow> string \<Rightarrow> string option" where
  "checkAWSReadWall w service =
     (if aw_service w \<noteq> service
      then Some (''aws read '' @ service @ '' client: the wall is bound to '' @ aw_service w) else None)"

definition VerifyAWSReadIdentity :: "aws_sdk \<Rightarrow> endpoint \<Rightarrow> read_wall \<Rightarrow> string \<Rightarrow> string \<Rightarrow> string option client" where
  "VerifyAWSReadIdentity sdk ep w account whom =
     (if account = [] then Answered (Some ''aws read identity: the expected account must be set'')
      else case checkAWSReadWall w ''sts'' of
        Some e \<Rightarrow> Answered (Some (''aws read identity: '' @ e))
      | None \<Rightarrow> client_bind (sdk_caller sdk ep) (\<lambda>r. Answered
          (case r of
             Inl e \<Rightarrow> Some (''aws read identity: sts:GetCallerIdentity failed: '' @ e)
           | Inr (acc, arn) \<Rightarrow>
               let got = (case acc of None \<Rightarrow> [] | Some a \<Rightarrow> a); who = (case arn of None \<Rightarrow> [] | Some a \<Rightarrow> a) in
               if got \<noteq> account
               then Some (''aws read identity: the key belongs to account '' @ quote got @ '', not --account '' @ quote account)
               else if whom \<noteq> [] \<and> who \<noteq> whom
               then Some (''aws read identity: the key is principal '' @ quote who @ '', not --principal '' @ quote whom
                      @ ''; the match is exact, so a key from an assumed role needs its assumed-role ARN, ''
                      @ ''arn:aws:sts::<account>:assumed-role/<role>/<session>, as --principal'')
               else None)))"

definition awsDryRunRefusedCode :: string where "awsDryRunRefusedCode = ''UnauthorizedOperation''"

definition awsDryRunPlaceholders :: "string list" where
  "awsDryRunPlaceholders =
     [''TerminateInstances'', ''DeleteNatGateway'', ''DisassociateAddress'', ''ReleaseAddress'', ''DeleteLaunchTemplate'',
      ''DeregisterImage'', ''DeleteSnapshot'', ''DeleteVolume'', ''DetachNetworkInterface'', ''DeleteNetworkInterface'',
      ''DeleteKeyPair'', ''RevokeSecurityGroupIngress'', ''RevokeSecurityGroupEgress'', ''DeleteSecurityGroup'',
      ''DisassociateRouteTable'', ''DeleteRouteTable'', ''DeleteSubnet'', ''DetachInternetGateway'',
      ''DeleteInternetGateway'', ''DeleteVpc'']"

definition awsDryRunRefused :: "string \<Rightarrow> dry_answer \<Rightarrow> string option" where
  "awsDryRunRefused action r =
     (case r of
        Dry_Succeeded \<Rightarrow> Some (action @ '' succeeded with DryRun=true'')
      | Dry_No_Answer t \<Rightarrow> Some (action @ '' got no EC2 answer: '' @ t)
      | Dry_API_Error code t \<Rightarrow>
          if code \<noteq> awsDryRunRefusedCode then Some (action @ '' answered '' @ code @ '': '' @ t) else None)"

primrec probe_actions :: "aws_sdk \<Rightarrow> endpoint \<Rightarrow> string list \<Rightarrow> string list client" where
  "probe_actions sdk ep [] = Answered []"
| "probe_actions sdk ep (a # as) =
     client_bind (sdk_dry_run sdk ep a) (\<lambda>r.
     client_bind (probe_actions sdk ep as) (\<lambda>errs.
     Answered (case awsDryRunRefused a r of None \<Rightarrow> errs | Some e \<Rightarrow> e # errs)))"

definition preflightAWSRead :: "aws_sdk \<Rightarrow> endpoint \<Rightarrow> read_wall \<Rightarrow> string list \<Rightarrow> string option client" where
  "preflightAWSRead sdk ep w actions =
     (let missing = filter (\<lambda>a. a \<notin> set awsDryRunPlaceholders) actions in
      if actions = [] then Answered (Some ''aws read preflight: refusing: the DryRun table is empty'')
      else if missing \<noteq> []
      then Answered (Some (''aws read preflight: refusing: DryRun-table rows with no placeholder request: '' @ join '', '' missing))
      else case checkAWSReadWall w ''ec2'' of
        Some e \<Rightarrow> Answered (Some (''aws read preflight: '' @ e))
      | None \<Rightarrow> client_bind (probe_actions sdk ep actions) (\<lambda>errs. Answered
          (if errs = [] then None
           else Some (''aws read preflight: refusing: each DryRun-table action must answer '' @ awsDryRunRefusedCode
                  @ '': '' @ join [CHR 0x0A] errs))))"

definition PreflightAWSReadKey :: "aws_sdk \<Rightarrow> endpoint \<Rightarrow> read_wall \<Rightarrow> string option client" where
  "PreflightAWSReadKey sdk ep w = preflightAWSRead sdk ep w awsReapWriteActions"

subsection \<open>The account read\<close>

record read_input =
  in_account :: string
  in_principal :: string
  in_region :: string
  in_credentials :: "(string + string) option" \<comment> \<open>what the provider retrieves, if there is one\<close>
  in_read_set :: "read_entry list"
  in_identity :: "(endpoint \<Rightarrow> read_wall \<Rightarrow> string \<Rightarrow> string \<Rightarrow> string option client) option"
  in_preflight :: "(endpoint \<Rightarrow> read_wall \<Rightarrow> string option client) option"

record recorded_read =
  rr_account :: string
  rr_region :: string
  rr_timestamp :: int
  rr_duration :: int
  rr_calls :: nat
  rr_exchanges :: "read_exchange list"

definition awsPartitionRegionPattern :: regex where
  "awsPartitionRegionPattern =
     seqs [At_Start, alts (text_re ''us'') (map text_re [''eu'', ''ap'', ''sa'', ''ca'', ''me'', ''af'', ''il'', ''mx'']),
       lit_char CHR ''-'', some_re word_re, lit_char CHR ''-'', some_re digit_re, At_End]"

fun new_walls :: "'d option \<Rightarrow> string list \<Rightarrow> string + (string \<times> read_wall) list" where
  "new_walls inner [] = Inr []"
| "new_walls inner (service # rest) =
     (case NewAWSReadWall service inner of
        Inl e \<Rightarrow> Inl e
      | Inr w \<Rightarrow> map_sum id ((#) (service, w)) (new_walls inner rest))"

fun refused_entries :: "go_codec \<Rightarrow> aws_replay \<Rightarrow> nat \<Rightarrow> read_entry list \<Rightarrow> string option" where
  "refused_entries c ry i [] = None"
| "refused_entries c ry i (en # ens) =
     (case entry_request c ry en of
        Inl e \<Rightarrow> Some (awsReadEntryName i en @ '': '' @ e)
      | Inr _ \<Rightarrow> refused_entries c ry (Suc i) ens)"

definition newAWSReplay :: "go_codec \<Rightarrow> 'd option \<Rightarrow> read_input \<Rightarrow> string + aws_replay" where
  "newAWSReplay c inner inp =
     (if in_identity inp = None then Inl ''no identity check was given''
      else if in_preflight inp = None then Inl ''no preflight was given''
      else if in_credentials inp = None then Inl ''the config carries no credentials''
      else if \<not> ValidAWSRegion (in_region inp) then Inl (''region '' @ quote (in_region inp) @ '' is not an AWS region name'')
      else if \<not> matches awsPartitionRegionPattern (in_region inp)
      then Inl (''region '' @ quote (in_region inp) @ '' is outside the aws partition, the only one the read''
             @ [apostrophe] @ ''s endpoints serve'')
      else if in_read_set inp = [] then Inl ''the read set is empty''
      else case ValidateAWSReadSet (in_read_set inp) of Some e \<Rightarrow> Inl e | None \<Rightarrow>
     (case new_walls inner (map rv_service AWSReaderTable) of Inl e \<Rightarrow> Inl e | Inr walls \<Rightarrow>
        let ry = \<lparr>ry_walls = walls, ry_endpoints = awsReadEndpoints (in_region inp)\<rparr> in
        (case refused_entries c ry 0 (in_read_set inp) of Some e \<Rightarrow> Inl e | None \<Rightarrow>
           (case in_credentials inp of
              Some (Inl e) \<Rightarrow> Inl (''the read key: '' @ e)
            | _ \<Rightarrow> Inr ry))))"

definition ask_wall :: "'w reader_rt \<Rightarrow> aws_replay \<Rightarrow> string \<Rightarrow> (endpoint \<Rightarrow> read_wall \<Rightarrow> string option client) \<Rightarrow> (unit, 'w) act" where
  "ask_wall rd ry service check st =
     (case (map_of (ry_endpoints ry) service, map_of (ry_walls ry) service) of
        (Some ep, Some w) \<Rightarrow>
          (case run_client (wall_do (rd_codec rd) (rd_http rd) w) (check ep w) st of
             (None, st1) \<Rightarrow> (Inr (), st1)
           | (Some e, st1) \<Rightarrow> (Inl e, st1))
      | _ \<Rightarrow> (Inl ''no wall'', st))"

fun replay_entries :: "'w reader_rt \<Rightarrow> aws_replay \<Rightarrow> nat \<Rightarrow> read_entry list \<Rightarrow> (read_exchange list, 'w) act" where
  "replay_entries rd ry i [] = done_with []"
| "replay_entries rd ry i (en # ens) =
     followed_by (named_error (awsReadEntryName i en @ '': '') (read_pages rd ry en)) (\<lambda>xs.
     followed_by (replay_entries rd ry (Suc i) ens) (\<lambda>ys. done_with (xs @ ys)))"

definition read_with :: "'w reader_rt \<Rightarrow> aws_replay \<Rightarrow> read_input \<Rightarrow> (read_exchange list, 'w) act" where
  "read_with rd ry inp =
     followed_by (ask_wall rd ry ''sts'' (\<lambda>ep w. the (in_identity inp) ep w (in_account inp) (in_principal inp))) (\<lambda>_.
     followed_by (ask_wall rd ry ''ec2'' (the (in_preflight inp))) (\<lambda>_.
     followed_by (replay_entries rd ry 0 (in_read_set inp)) (\<lambda>replayed.
     followed_by (readEC2 rd ry replayed) (\<lambda>vpcs.
     followed_by (readIAM rd ry replayed) (\<lambda>roles.
     followed_by (readSSM rd ry replayed) (\<lambda>images.
     done_with (replayed @ vpcs @ roles @ images)))))))"

text \<open>The walls are new, so they count from nothing.\<close>

definition ReadAWSAccount :: "'w reader_rt \<Rightarrow> 'd option \<Rightarrow> read_input \<Rightarrow> (recorded_read, 'w) act" where
  "ReadAWSAccount rd inner inp st =
     (case newAWSReplay (rd_codec rd) inner inp of
        Inl e \<Rightarrow> (Inl (''aws read: refusing: '' @ e), st)
      | Inr ry \<Rightarrow>
          (case named_error ''aws read: '' (read_with rd ry inp) (st\<lparr>rs_calls := \<lambda>_. 0\<rparr>) of
             (Inl e, st1) \<Rightarrow> (Inl e, st1)
           | (Inr exchanges, st1) \<Rightarrow>
               (Inr \<lparr>rr_account = in_account inp, rr_region = in_region inp, rr_timestamp = rd_now rd (rs_net st),
                     rr_duration = rd_now rd (rs_net st1) - rd_now rd (rs_net st),
                     rr_calls = sum_list (map (rs_calls st1) (map fst (ry_walls ry))),
                     rr_exchanges = exchanges\<rparr>, st1)))"

subsection \<open>The walls of a read\<close>

lemma new_walls_Inr:
  "new_walls inner services = Inr walls \<Longrightarrow>
     map fst walls = services \<and> list_all (\<lambda>(s, w). NewAWSReadWall s (Some ()) = Inr w) walls"
proof (induction services arbitrary: walls)
  case (Cons s services)
  then obtain w rest where w: "NewAWSReadWall s inner = Inr w" "new_walls inner services = Inr rest" "walls = (s, w) # rest"
    by (auto split: sum.splits)
  then have "NewAWSReadWall s (Some ()) = Inr w" by (auto simp: NewAWSReadWall_def split: option.splits if_splits)
  with Cons.IH [OF w(2)] w(3) show ?case by simp
qed simp

lemma newAWSReplay_Inr:
  assumes "newAWSReplay c inner inp = Inr ry"
  shows "walls_good ry" "map fst (ry_walls ry) = map rv_service AWSReaderTable"
    "in_read_set inp \<noteq> []" "ValidateAWSReadSet (in_read_set inp) = None"
    "refused_entries c ry 0 (in_read_set inp) = None"
    "matches awsPartitionRegionPattern (in_region inp)"
    "in_identity inp \<noteq> None" "in_preflight inp \<noteq> None" "in_credentials inp \<noteq> None"
proof -
  from assms obtain walls where w: "new_walls inner (map rv_service AWSReaderTable) = Inr walls"
    and ry: "ry = \<lparr>ry_walls = walls, ry_endpoints = awsReadEndpoints (in_region inp)\<rparr>"
    and rest: "in_read_set inp \<noteq> []" "ValidateAWSReadSet (in_read_set inp) = None"
      "refused_entries c ry 0 (in_read_set inp) = None" "matches awsPartitionRegionPattern (in_region inp)"
      "in_identity inp \<noteq> None" "in_preflight inp \<noteq> None" "in_credentials inp \<noteq> None"
    unfolding newAWSReplay_def Let_def
    by (auto split: if_splits option.splits sum.splits)
  show "walls_good ry" "map fst (ry_walls ry) = map rv_service AWSReaderTable"
    using new_walls_Inr [OF w] by (simp_all add: walls_good_def ry)
  show "in_read_set inp \<noteq> []" "ValidateAWSReadSet (in_read_set inp) = None"
    "refused_entries c ry 0 (in_read_set inp) = None" "matches awsPartitionRegionPattern (in_region inp)"
    "in_identity inp \<noteq> None" "in_preflight inp \<noteq> None" "in_credentials inp \<noteq> None" using rest by simp_all
qed

lemma reader_ask [reader_intro]: "walls_good ry \<Longrightarrow> reader_act (ask_wall rd ry s check)"
  unfolding reader_act_def
proof
  fix st
  assume good: "walls_good ry"
  have run: "reads_only st (snd (run_client (wall_do (rd_codec rd) (rd_http rd) w) p st))"
    if "NewAWSReadWall s (Some ()) = Inr w" for w p
    using wall_do_reads [OF that] by (rule run_client_steps) (auto intro: reads_only_trans)
  show "reads_only st (snd (ask_wall rd ry s check st))"
  proof (cases "map_of (ry_endpoints ry) s"; cases "map_of (ry_walls ry) s")
    fix ep w
    assume ew: "map_of (ry_endpoints ry) s = Some ep" "map_of (ry_walls ry) s = Some w"
    obtain r st1 where rc: "run_client (wall_do (rd_codec rd) (rd_http rd) w) (check ep w) st = (r, st1)" by force
    with run [OF walls_good_lookup [OF good ew(2)], of "check ep w"] ew show ?thesis
      by (simp add: ask_wall_def split: option.split)
  qed (simp_all add: ask_wall_def)
qed

lemma reader_entries [reader_intro]: "walls_good ry \<Longrightarrow> reader_act (replay_entries rd ry i ens)"
  by (induction ens arbitrary: i) (auto intro!: reader_intro)

lemma reader_read_with: "walls_good ry \<Longrightarrow> reader_act (read_with rd ry inp)"
  unfolding read_with_def by (intro reader_intro)

lemma sent_by_all:
  assumes "distinct services" "list_all (\<lambda>(s, _). s \<in> set services) qs"
  shows "sum_list (map (\<lambda>s. sent_by s qs) services) = length qs"
  using assms(2)
proof -
  have one: "distinct xs \<Longrightarrow> sum_list (map (\<lambda>s. if x = s then 1 else 0) xs) = (if x \<in> set xs then 1 else 0 :: nat)" for x xs
    by (induction xs) auto
  from assms(2) show ?thesis
proof (induction qs)
  case (Cons q qs)
  have "sum_list (map (\<lambda>s. sent_by s (q # qs)) services)
      = sum_list (map (\<lambda>s. (if fst q = s then 1 else 0) + sent_by s qs) services)"
    by (intro arg_cong [where f = sum_list] map_cong refl) (simp add: sent_by_def split: prod.split)
  also have "\<dots> = sum_list (map (\<lambda>s. if fst q = s then 1 else 0) services) + length qs"
    using Cons by (simp add: sum_list_addf)
  also have "sum_list (map (\<lambda>s. if fst q = s then 1 else 0) services) = (1 :: nat)"
    using one [OF assms(1), of "fst q"] Cons.prems by (cases q) simp
  finally show ?case by simp
qed (simp add: sent_by_def)
qed

lemma read_set_admitted: "ValidateAWSReadSet ens = None \<longleftrightarrow> list_all awsReaderTableHas ens"
proof -
  have "filter (\<lambda>(_, y). \<not> P y) zs = [] \<longleftrightarrow> list_all P (map snd zs)" for P and zs :: "(nat \<times> read_entry) list"
    by (auto simp: filter_empty_conv list_all_iff)
  from this [of awsReaderTableHas "enumerate 0 ens"] show ?thesis
    by (simp add: ValidateAWSReadSet_def Let_def)
qed

lemma lawful_service: "lawful_request (s, q) \<Longrightarrow> s \<in> rv_service ` set AWSReaderTable"
  by (force simp: lawful_request_def awsReaderService_def find_Some_iff split: option.splits)

lemma replay_entries_whole:
  "replay_entries rd ry i ens st = (Inr xs, st') \<Longrightarrow>
     \<exists>parts. xs = concat parts \<and> list_all2 (whole_part (rd_codec rd)) ens parts"
proof (induction ens arbitrary: i st xs st')
  case (Cons en ens)
  then obtain ys zs st1 st2 where "read_pages rd ry en st = (Inr ys, st1)"
    "replay_entries rd ry (Suc i) ens st1 = (Inr zs, st2)" "xs = ys @ zs"
    by (auto elim!: followed_by_Inr)
  moreover from this(2) obtain parts where "zs = concat parts" "list_all2 (whole_part (rd_codec rd)) ens parts"
    using Cons.IH by blast
  ultimately show ?case
    by (intro exI [of _ "ys # parts"]) (simp add: read_pages_part)
qed simp

lemma read_with_steps:
  assumes "read_with rd ry inp st = (Inr xs, st')"
  obtains st1 st2 st3 replayed more where
    "ask_wall rd ry ''sts'' (\<lambda>ep w. the (in_identity inp) ep w (in_account inp) (in_principal inp)) st = (Inr (), st1)"
    "ask_wall rd ry ''ec2'' (the (in_preflight inp)) st1 = (Inr (), st2)"
    "replay_entries rd ry 0 (in_read_set inp) st2 = (Inr replayed, st3)"
    "xs = replayed @ more" "whole_reads (rd_codec rd) more"
proof -
  from assms obtain st1 st2 st3 st4 st5 replayed vpcs roles images where steps:
    "ask_wall rd ry ''sts'' (\<lambda>ep w. the (in_identity inp) ep w (in_account inp) (in_principal inp)) st = (Inr (), st1)"
    "ask_wall rd ry ''ec2'' (the (in_preflight inp)) st1 = (Inr (), st2)"
    "replay_entries rd ry 0 (in_read_set inp) st2 = (Inr replayed, st3)"
    and more: "readEC2 rd ry replayed st3 = (Inr vpcs, st4)" "readIAM rd ry replayed st4 = (Inr roles, st5)"
      "readSSM rd ry replayed st5 = (Inr images, st')" "xs = replayed @ vpcs @ roles @ images"
    unfolding read_with_def by (auto elim!: followed_by_Inr)
  from more(1-3) have "whole_reads (rd_codec rd) (vpcs @ roles @ images)"
    by (intro whole_reads_append) (auto intro: gives_run [OF follow_ups_whole(1)] gives_run [OF follow_ups_whole(2)]
        gives_run [OF follow_ups_whole(3)])
  then show thesis by (rule that [OF steps more(4)])
qed

lemma ReadAWSAccount_Inr:
  assumes "ReadAWSAccount rd inner inp st = (Inr rec, st')"
  obtains ry where "newAWSReplay (rd_codec rd) inner inp = Inr ry"
    "read_with rd ry inp (st\<lparr>rs_calls := \<lambda>_. 0\<rparr>) = (Inr (rr_exchanges rec), st')"
  using assms by (auto simp: ReadAWSAccount_def split: sum.splits prod.splits)

lemma run_client_bind:
  "run_client http (client_bind p f) s = (case run_client http p s of (x, s1) \<Rightarrow> run_client http (f x) s1)"
  by (induction p arbitrary: s) (auto split: prod.split)

text \<open>The answers of the dry runs, one after the other.\<close>

primrec dry_answers :: "(http_request \<Rightarrow> 's \<Rightarrow> http_answer \<times> 's) \<Rightarrow> aws_sdk \<Rightarrow> endpoint \<Rightarrow> string list \<Rightarrow> 's
    \<Rightarrow> dry_answer list \<times> 's" where
  "dry_answers http sdk ep [] s = ([], s)"
| "dry_answers http sdk ep (a # as) s =
     (case run_client http (sdk_dry_run sdk ep a) s of (r, s1) \<Rightarrow>
        (case dry_answers http sdk ep as s1 of (rs, s2) \<Rightarrow> (r # rs, s2)))"

lemma probe_actions_none:
  "run_client http (probe_actions sdk ep as) s = ([], s') \<Longrightarrow>
     list_all (\<lambda>r. \<exists>t. r = Dry_API_Error awsDryRunRefusedCode t) (fst (dry_answers http sdk ep as s))"
proof (induction as arbitrary: s s')
  case (Cons a as)
  then obtain r s1 where r: "run_client http (sdk_dry_run sdk ep a) s = (r, s1)" by force
  moreover obtain errs s2 where "run_client http (probe_actions sdk ep as) s1 = (errs, s2)" by force
  ultimately have "awsDryRunRefused a r = None" "run_client http (probe_actions sdk ep as) s1 = ([], s2)"
    using Cons.prems by (auto simp: run_client_bind split: option.splits)
  moreover from this(2) have "list_all (\<lambda>r. \<exists>t. r = Dry_API_Error awsDryRunRefusedCode t) (fst (dry_answers http sdk ep as s1))"
    using Cons.IH by blast
  ultimately show ?case
    using r by (auto simp: awsDryRunRefused_def split: dry_answer.splits if_splits prod.splits)
qed simp

lemma dry_run_table: "awsReapWriteActions \<noteq> []" "filter (\<lambda>a. a \<notin> set awsDryRunPlaceholders) awsReapWriteActions = []"
  by code_simp+

lemma ask_wall_Inr:
  assumes "ask_wall rd ry s check st = (Inr (), st')"
  obtains ep w where "run_client (wall_do (rd_codec rd) (rd_http rd) w) (check ep w) st = (None, st')"
  using assms by (auto simp: ask_wall_def split: option.splits prod.splits)

lemma identity_none:
  assumes "run_client http (VerifyAWSReadIdentity sdk ep w account whom) st = (None, st')"
  shows "\<exists>arn. run_client http (sdk_caller sdk ep) st = (Inr (Some account, arn), st')
     \<and> (if whom = [] then True else arn = Some whom)"
proof -
  obtain r st1 where r: "run_client http (sdk_caller sdk ep) st = (r, st1)" by force
  with assms show ?thesis
    by (auto simp: VerifyAWSReadIdentity_def run_client_bind Let_def split: if_splits option.splits sum.splits prod.splits)
qed

lemma preflight_none:
  assumes "run_client http (PreflightAWSReadKey sdk ep w) st = (None, st')"
  shows "list_all (\<lambda>r. \<exists>t. r = Dry_API_Error awsDryRunRefusedCode t) (fst (dry_answers http sdk ep awsReapWriteActions st))"
proof -
  obtain errs st1 where r: "run_client http (probe_actions sdk ep awsReapWriteActions) st = (errs, st1)" by force
  with assms have "errs = []"
    by (auto simp: PreflightAWSReadKey_def preflightAWSRead_def run_client_bind Let_def dry_run_table split: if_splits option.splits)
  with r show ?thesis by (auto intro: probe_actions_none)
qed

text \<open>How much an action sends.\<close>

definition sends_at_most :: "nat \<Rightarrow> ('a, 'w) act \<Rightarrow> bool" where
  "sends_at_most n m \<longleftrightarrow> (\<forall>st. length (rs_sent (snd (m st))) \<le> length (rs_sent st) + n)"

lemma sends_nothing: "sends_at_most n (done_with x)" "sends_at_most n (refuse e)" "sends_at_most n (lift_sum r)"
  "sends_at_most n (sleep_for rd k)"
  by (simp_all add: sends_at_most_def done_with_def refuse_def lift_sum_def sleep_for_def split: prod.split)

lemma sends_named: "sends_at_most n m \<Longrightarrow> sends_at_most n (named_error e m)"
  by (simp add: sends_at_most_def named_error_def)

lemma sends_followed:
  assumes "sends_at_most a m" "\<And>x. sends_at_most b (f x)" "a + b \<le> n"
  shows "sends_at_most n (followed_by m f)"
  unfolding sends_at_most_def
proof
  fix st
  obtain r st1 where m: "m st = (r, st1)" by force
  have le: "length (rs_sent st1) \<le> length (rs_sent st) + a"
    using assms(1) m by (metis sends_at_most_def snd_conv)
  have "length (rs_sent (snd (f x st1))) \<le> length (rs_sent st) + n" for x
  proof -
    have "length (rs_sent (snd (f x st1))) \<le> length (rs_sent st1) + b"
      using assms(2) by (simp add: sends_at_most_def)
    with le assms(3) show ?thesis by linarith
  qed
  moreover have "length (rs_sent st1) \<le> length (rs_sent st) + n" using le assms(3) by linarith
  ultimately show "length (rs_sent (snd (followed_by m f st))) \<le> length (rs_sent st) + n"
    by (cases r) (simp_all add: followed_by_def m)
qed

lemma sends_replay: "sends_at_most 1 (replay rd ry en)"
proof -
  have "sends_at_most 1 (wall_send rd ry s q)" for s q
    by (auto simp: sends_at_most_def wall_send_def wall_do_def split: option.split prod.split)
  then have send: "sends_at_most 1 (followed_by (wall_send rd ry s q) (\<lambda>(status, body). lift_sum (g status body)))" for s q g
    by (rule sends_followed [where b = 0]) (auto intro: sends_nothing split: prod.split)
  have sign: "sends_at_most 0 (\<lambda>st. lift_sum (g st) st)" for g
    by (simp add: sends_at_most_def lift_sum_def)
  have "sends_at_most 1 (followed_by (\<lambda>st. lift_sum (g st) st) (\<lambda>signed.
      followed_by (wall_send rd ry s signed) (\<lambda>(status, body). lift_sum (h status body))))" for g s h
    by (rule sends_followed [OF sign send]) simp
  then show ?thesis unfolding replay_def
    by (intro sends_followed [OF sends_nothing(3), where a = 0 and b = 1]) (auto split: prod.split)
qed

lemma sends_answer: "sends_at_most (Suc left) (answer_loop rd ry v en backoff left)"
proof (induction left arbitrary: backoff)
  case 0
  show ?case
    by (subst answer_loop.simps, rule sends_followed [OF sends_replay, where b = 0])
      (auto simp: Let_def intro: sends_nothing split: option.split)
next
  case (Suc n)
  have "sends_at_most (Suc n) (followed_by (sleep_for rd backoff) (\<lambda>_. answer_loop rd ry v en (2 * backoff) n))"
    using Suc by (intro sends_followed [where a = 0]) (auto intro: sends_nothing)
  then show ?case
    by (subst answer_loop.simps, intro sends_followed [OF sends_replay, where b = "Suc n"])
      (auto simp: Let_def intro: sends_nothing split: option.split)
qed

lemma sends_page: "sends_at_most awsReadAttempts (read_page rd ry v en k token)"
  unfolding read_page_def answer_def
  by (intro sends_followed [where a = 0 and b = awsReadAttempts, OF sends_nothing(3)] sends_named
      sends_followed [where a = awsReadAttempts and b = 0] allI)
    (use sends_answer [of "awsReadAttempts - 1"] in \<open>auto simp: awsReadAttempts_def intro: sends_nothing\<close>)

lemma sends_page_loop: "sends_at_most (n * awsReadAttempts) (page_loop rd ry v en seen token acc n)"
proof (induction n arbitrary: seen token acc)
  case (Suc n)
  show ?case
    by (simp, rule sends_followed [OF sends_page, where b = "n * awsReadAttempts"])
      (use Suc in \<open>auto intro: sends_nothing split: prod.split\<close>)
qed (simp add: sends_nothing)

lemma length_form_values_sort: "length (form_values (sort_key fst f) k) = length (form_values f k)"
  by (simp add: form_values_def filter_sort)

lemma entry_request_query:
  assumes good: "walls_good ry" and req: "entry_request c ry en = Inr (q, region)"
    and v: "awsReaderService (re_service en) = Some v" "rv_protocol v = awsProtocolQuery"
  obtains ps f version where "awsQueryForm c (re_params en) = Inr ps" "hq_body q = Inr (form_encode f)"
    "f = ps @ [(''Action'', re_action en), (''Version'', version)]"
    "\<not> form_has ps ''Action''" "\<not> form_has ps ''Version''"
proof -
  from req v obtain ep w where ew: "map_of (ry_endpoints ry) (re_service en) = Some ep"
      "map_of (ry_walls ry) (re_service en) = Some w"
    by (auto simp: entry_request_def split: option.splits)
  from walls_good_lookup [OF good ew(2)] v have w: "aw_protocol w = awsProtocolQuery"
    by (auto elim!: NewAWSReadWall_Inr)
  from req v ew obtain ps where ps: "awsQueryForm c (re_params en) = Inr ps"
    by (cases "awsQueryForm c (re_params en)") (auto simp: entry_request_def entry_body_def)
  define f where "f = ps @ [(''Action'', re_action en), (''Version'', ep_version ep)]"
  from req v ew ps have b: "hq_body q = Inr (form_encode f)" and ok: "wall_check c w q = None"
    by (auto simp: entry_request_def entry_body_def form_add_def f_def Let_def split: option.splits)
  from ok b w have "\<exists>r. queryEntry c w (form_encode f) = Inr r"
    by (auto simp: wall_check_def entryOf_def Let_def awsProtocolQuery_def awsProtocolJSON_def
        split: sum.splits option.splits if_splits)
  then have "List.map_filter (form_key_refused (sort_key fst f)) (form_keys (sort_key fst f)) = []"
    by (auto simp: queryEntry_def split: list.splits)
  then have once: "length (form_values f k) = 1" if "k \<in> fst ` set f" for k
    using that by (auto simp: map_filter_def filter_empty_conv form_keys_def form_key_refused_def
        length_form_values_sort split: if_splits)
  have "\<not> form_has ps k" if k: "k \<in> {''Action'', ''Version''}" for k
  proof
    assume "form_has ps k"
    then have "form_values ps k \<noteq> []" by (simp add: form_has_values)
    moreover have "length (form_values f k) = length (form_values ps k) + 1"
      using k by (auto simp: f_def form_values_def)
    moreover have "k \<in> fst ` set f" using k by (auto simp: f_def)
    ultimately show False using once [of k] by simp
  qed
  then show thesis using that [OF ps b] by (simp add: f_def)
qed

subsection \<open>Properties\<close>

text \<open>
  C28. Whatever the identity check, the preflight and the services do, every request an account read sends is a
  read: a row of the reader table of the service it goes to, named once and where the server looks for it, or an
  EC2 action of the DryRun table with the single field DryRun=true. A read that ends well reports exactly as many
  calls as it sent.
\<close>

theorem account_read_sends_only_reads:
  "case ReadAWSAccount rd inner inp st of
     (r, st') \<Rightarrow> \<exists>qs. rs_sent st' = rs_sent st @ qs \<and> list_all lawful_request qs
       \<and> (case r of Inl _ \<Rightarrow> True | Inr rec \<Rightarrow> rr_calls rec = length qs)"
proof (cases "newAWSReplay (rd_codec rd) inner inp")
  case (Inl e)
  then show ?thesis by (simp add: ReadAWSAccount_def)
next
  case (Inr ry)
  note good = newAWSReplay_Inr [OF Inr]
  obtain r st1 where run: "named_error ''aws read: '' (read_with rd ry inp) (st\<lparr>rs_calls := \<lambda>_. 0\<rparr>) = (r, st1)" by force
  with reader_named [OF reader_read_with [OF good(1)]] have "reads_only (st\<lparr>rs_calls := \<lambda>_. 0\<rparr>) st1"
    by (metis reader_act_def snd_conv)
  then obtain qs where qs: "rs_sent st1 = rs_sent st @ qs" "list_all lawful_request qs" "rs_calls st1 = (\<lambda>s. sent_by s qs)"
    by (auto simp: reads_only_def)
  have "sum_list (map (rs_calls st1) (map fst (ry_walls ry))) = length qs"
    unfolding qs(3)
  proof (rule sent_by_all)
    show "distinct (map fst (ry_walls ry))" by (simp add: good(2) AWSReaderTable_def)
    show "list_all (\<lambda>(s, _). s \<in> set (map fst (ry_walls ry))) qs"
      using qs(2) unfolding good(2)
      by (auto simp: list_all_iff dest: lawful_service)
  qed
  then show ?thesis using qs
    by (cases r) (auto simp: ReadAWSAccount_def Inr run)
qed



text \<open>
  An account read that ends well asked who its key is before it read anything, and was told exactly the account
  it was given, and the principal where one was given; and every action a reap would send was then refused to the
  key as unauthorised.
\<close>

theorem account_read_checks_key:
  "case fst (ReadAWSAccount rd inner (inp\<lparr>in_identity := Some (VerifyAWSReadIdentity sdk),
                                        in_preflight := Some (PreflightAWSReadKey sdk)\<rparr>) st) of
     Inl _ \<Rightarrow> True
   | Inr rec \<Rightarrow> \<exists>sts ec2 wsts wec2 arn st1.
       run_client (wall_do (rd_codec rd) (rd_http rd) wsts) (sdk_caller sdk sts) (st\<lparr>rs_calls := \<lambda>_. 0\<rparr>)
         = (Inr (Some (in_account inp), arn), st1)
       \<and> (if in_principal inp = [] then True else arn = Some (in_principal inp))
       \<and> list_all (\<lambda>r. \<exists>t. r = Dry_API_Error awsDryRunRefusedCode t)
           (fst (dry_answers (wall_do (rd_codec rd) (rd_http rd) wec2) sdk ec2 awsReapWriteActions st1))"
  (is "case fst ?run of Inl _ \<Rightarrow> True | Inr rec \<Rightarrow> ?checked")
proof (cases "?run"; cases "fst ?run")
  fix r st' rec
  assume "?run = (r, st')" and rec: "fst ?run = Inr rec"
  then have "?run = (Inr rec, st')" by simp
  then obtain ry where run: "read_with rd ry (inp\<lparr>in_identity := Some (VerifyAWSReadIdentity sdk),
      in_preflight := Some (PreflightAWSReadKey sdk)\<rparr>) (st\<lparr>rs_calls := \<lambda>_. 0\<rparr>) = (Inr (rr_exchanges rec), st')"
    by (rule ReadAWSAccount_Inr)
  then obtain st1 st2 where
    ids: "ask_wall rd ry ''sts'' (\<lambda>ep w. VerifyAWSReadIdentity sdk ep w (in_account inp) (in_principal inp))
       (st\<lparr>rs_calls := \<lambda>_. 0\<rparr>) = (Inr (), st1)"
    and pre: "ask_wall rd ry ''ec2'' (PreflightAWSReadKey sdk) st1 = (Inr (), st2)"
    by (auto elim!: read_with_steps)
  from ids obtain sts wsts where "run_client (wall_do (rd_codec rd) (rd_http rd) wsts)
      (VerifyAWSReadIdentity sdk sts wsts (in_account inp) (in_principal inp)) (st\<lparr>rs_calls := \<lambda>_. 0\<rparr>) = (None, st1)"
    by (rule ask_wall_Inr)
  note who = identity_none [OF this]
  from pre obtain ec2 wec2 where "run_client (wall_do (rd_codec rd) (rd_http rd) wec2)
      (PreflightAWSReadKey sdk ec2 wec2) st1 = (None, st2)"
    by (rule ask_wall_Inr)
  from preflight_none [OF this] who have "?checked" by blast
  with rec show ?thesis by simp
qed simp_all


text \<open>
  C32. Reading one entry to its end always ends, and costs at most five hundred requests: at most a hundred pages,
  each sent at most five times.
\<close>

theorem one_list_costs_at_most:
  "length (rs_sent (snd (read_pages rd ry en st))) \<le> length (rs_sent st) + 500"
  using sends_page_loop [of awsReadMaxPages rd ry "service_row (re_service en)" en "[]" None "[]"]
  by (simp add: read_pages_def sends_at_most_def awsReadMaxPages_def awsReadAttempts_def)

end
