(* ===== verification/Aws_Scrub_Text.thy ===== *)
theory Aws_Scrub_Text
  imports Aws_Account Redaction Topology_Derive
begin

text \<open>
  The leak check of \<^verbatim>\<open>harness/aws_reader_scrub.go\<close> on texts and on JSON: what a text may hold, read as written
  and percent-decoded, and the walk over every key, string and number of a JSON text.

  A JSON text is given by the tokens a decoder reads from it, each string with the literal it was written as;
  letters are folded as ASCII letters, so the code, which folds every letter, refuses no less.
\<close>

subsection \<open>Placeholders and patterns\<close>

definition AWSScrubAccount :: string where "AWSScrubAccount = ''111122223333''"
definition AWSScrubUserData :: string where "AWSScrubUserData = ''SCRUBBED-USER-DATA''"
definition AWSScrubParameterValue :: string where "AWSScrubParameterValue = ''SCRUBBED-PARAMETER-VALUE''"
definition AWSScrubUserID :: string where "AWSScrubUserID = ''SCRUBBED-USER-ID''"
definition AWSScrubRequestID :: string where "AWSScrubRequestID = ''SCRUBBED-REQUEST-ID''"
definition AWSScrubLineage :: string where "AWSScrubLineage = ''SCRUBBED-LINEAGE''"
definition AWSScrubPrincipal :: string where "AWSScrubPrincipal = ''SCRUBBED-PRINCIPAL''"
definition AWSScrubSensitiveValue :: string where "AWSScrubSensitiveValue = ''SCRUBBED-SENSITIVE-VALUE''"

definition awsAccountIDDigits :: nat where "awsAccountIDDigits = 12"

definition ValidAWSAccountID :: "string \<Rightarrow> bool" where
  "ValidAWSAccountID i \<longleftrightarrow> matches (seqs [At_Start, repeat_re awsAccountIDDigits digit_re, At_End]) i"

definition awsUniqueIDPattern :: regex where
  "awsUniqueIDPattern =
     (let up = char_between CHR ''A'' CHR ''Z''; tail = (\<lambda>c. up c \<or> is_digit c) in
      seqs (map Chr ((\<lambda>c. c = CHR ''A'') # replicate 3 up @ replicate 12 tail) @ [many (Chr tail)]))"

definition awsPrincipalARNPrefix :: "regex \<Rightarrow> regex" where
  "awsPrincipalARNPrefix account =
     seqs [text_re ''arn:aws:'', alts (text_re ''iam'') [text_re ''sts''], text_re ''::'', account, lit_char CHR '':'',
       alts (text_re ''user'') [text_re ''assumed-role''], lit_char CHR ''/'']"

definition awsPrincipalNameChars :: regex where
  "awsPrincipalNameChars = some_re (Chr (\<lambda>c. word_char c \<or> c \<in> set ''+=,.@/-''))"

definition awsPrincipalARNPattern :: regex where
  "awsPrincipalARNPattern =
     Seq (Grp 1 (awsPrincipalARNPrefix (repeat_re 12 digit_re))) (Grp 2 awsPrincipalNameChars)"

definition awsScrubbedPrincipalARNPattern :: regex where
  "awsScrubbedPrincipalARNPattern =
     seqs [At_Start, awsPrincipalARNPrefix (text_re AWSScrubAccount), text_re AWSScrubPrincipal, At_End]"

definition awsScientificNumberPattern :: regex where
  "awsScientificNumberPattern =
     seqs [At_Start, opt_re (lit_char CHR ''-''), digit_re, lit_char CHR ''.'', some_re digit_re,
       Chr (\<lambda>c. c \<in> set ''eE''), opt_re (Chr (\<lambda>c. c \<in> set ''+-'')), some_re digit_re, At_End]"

definition awsRecordedBodyPathPattern :: regex where
  "awsRecordedBodyPathPattern =
     seqs [At_Start, text_re ''$.exchanges['', some_re digit_re, text_re ''].body'', At_End]"

subsection \<open>Texts\<close>

text \<open>The matches of \<^verbatim>\<open>[0-9]+\<close>, which are the maximal runs of digits; \<open>run\<close> is the one under way.\<close>

fun digit_runs_with :: "string \<Rightarrow> string \<Rightarrow> string list" where
  "digit_runs_with run [] = (if run = [] then [] else [run])"
| "digit_runs_with run (c # s) =
     (if is_digit c then digit_runs_with (run @ [c]) s
      else (if run = [] then [] else [run]) @ digit_runs_with [] s)"

definition digit_runs :: "string \<Rightarrow> string list" where
  "digit_runs s = digit_runs_with [] s"

fun percent_decode :: "string \<Rightarrow> string" where
  "percent_decode [] = []"
| "percent_decode (c # s) =
     (if c = CHR ''%''
      then (case s of
              a # b # t \<Rightarrow>
                (case (unhex a, unhex b) of
                   (Some hi, Some lo) \<Rightarrow> char_of (16 * hi + lo) # percent_decode t
                 | _ \<Rightarrow> c # percent_decode s)
            | _ \<Rightarrow> c # percent_decode s)
      else c # percent_decode s)"

declare percent_decode.simps(2) [simp del]

lemma percent_decode_cases:
  "(\<exists>a b t hi lo. c = CHR ''%'' \<and> s = a # b # t \<and> unhex a = Some hi \<and> unhex b = Some lo
      \<and> percent_decode (c # s) = char_of (16 * hi + lo) # percent_decode t)
   \<or> percent_decode (c # s) = c # percent_decode s"
  using percent_decode.simps(2) [of c s] by (auto split: list.splits option.splits if_splits)

lemma percent_decode_length: "length (percent_decode s) \<le> length s"
proof (induction s rule: length_induct)
  case (1 s)
  show ?case
  proof (cases s)
    case (Cons c u)
    then show ?thesis
      using percent_decode_cases [of c u] 1 by (auto simp: le_SucI)
  qed simp
qed

lemma percent_decode_same: "length (percent_decode s) = length s \<Longrightarrow> percent_decode s = s"
proof (induction s)
  case (Cons c u)
  then show ?case
    using percent_decode_cases [of c u] percent_decode_length [of "drop 2 u"] by auto
qed simp

function awsPercentDecodings :: "string \<Rightarrow> string list" where
  "awsPercentDecodings s =
     (let n = percent_decode s in if n = s then [s] else s # awsPercentDecodings n)"
  by pat_completeness auto
termination
proof (relation "measure length")
  fix s n assume "n = percent_decode s" "n \<noteq> s"
  then show "(n, s) \<in> measure length"
    using percent_decode_length [of s] percent_decode_same [of s] by (cases "length n = length s") auto
qed simp

declare awsPercentDecodings.simps [simp del]

definition view_leak :: "string \<Rightarrow> string option" where
  "view_leak view =
     (if list_ex (\<lambda>r. length r = awsAccountIDDigits \<and> r \<noteq> AWSScrubAccount) (digit_runs view)
      then Some ''holds a 12-digit number other than the synthetic account id''
      else if matches awsUniqueIDPattern view then Some ''holds an AWS unique or key id''
      else if list_ex (\<lambda>(_, m). group_of m 2 \<noteq> AWSScrubPrincipal) (find_all awsPrincipalARNPattern view)
      then Some ''names an IAM user or assumed role other than the placeholder''
      else None)"

definition checkScrubbedText :: "string \<Rightarrow> string option" where
  "checkScrubbedText t = first_some view_leak (awsPercentDecodings t)"

definition checkScrubbedTextAt :: "string \<Rightarrow> string \<Rightarrow> string option" where
  "checkScrubbedTextAt loc t = map_option (\<lambda>e. loc @ '': '' @ e) (checkScrubbedText t)"

text \<open>What a text must not hold, in any of its decodings.\<close>

definition maximal_run :: "string \<Rightarrow> string \<Rightarrow> bool" where
  "maximal_run s r \<longleftrightarrow> r \<noteq> [] \<and> list_all is_digit r
     \<and> (\<exists>a b. s = a @ r @ b \<and> (a = [] \<or> \<not> is_digit (last a)) \<and> (b = [] \<or> \<not> is_digit (hd b)))"

definition is_unique_id :: "string \<Rightarrow> bool" where
  "is_unique_id r \<longleftrightarrow> length r = 16 \<and> r ! 0 = CHR ''A''
     \<and> list_all (char_between CHR ''A'' CHR ''Z'') (take 4 r)
     \<and> list_all (\<lambda>c. char_between CHR ''A'' CHR ''Z'' c \<or> is_digit c) (drop 4 r)"

lemma digit_runs_with_digits: "list_all is_digit r \<Longrightarrow> digit_runs_with run (r @ b) = digit_runs_with (run @ r) b"
  by (induction r arbitrary: run) auto

lemma digit_runs_with_stop: "run \<noteq> [] \<Longrightarrow> b = [] \<or> \<not> is_digit (hd b) \<Longrightarrow> run \<in> set (digit_runs_with run b)"
  by (cases b) auto

lemma digit_runs_with_skip:
  "a \<noteq> [] \<Longrightarrow> \<not> is_digit (last a) \<Longrightarrow> set (digit_runs_with [] s) \<subseteq> set (digit_runs_with run (a @ s))"
proof (induction a arbitrary: run)
  case (Cons c a)
  show ?case
  proof (cases "a = []")
    case True
    with Cons.prems show ?thesis by auto
  next
    case False
    with Cons.prems Cons.IH show ?thesis by auto
  qed
qed simp

lemma digit_runs_complete: "maximal_run s r \<Longrightarrow> r \<in> set (digit_runs s)"
proof -
  assume "maximal_run s r"
  then obtain a b where r: "r \<noteq> []" "list_all is_digit r" "s = a @ r @ b" "a = [] \<or> \<not> is_digit (last a)"
    "b = [] \<or> \<not> is_digit (hd b)" by (auto simp: maximal_run_def)
  have "r \<in> set (digit_runs_with [] (r @ b))"
    using digit_runs_with_stop [OF r(1,5)] by (simp add: digit_runs_with_digits r(2))
  then show ?thesis
    using r digit_runs_with_skip [of a "r @ b" "[]"] by (cases "a = []") (auto simp: digit_runs_def)
qed

lemma digit_runs_with_sound:
  "r \<in> set (digit_runs_with run s) \<Longrightarrow> list_all is_digit run \<Longrightarrow> p = [] \<or> \<not> is_digit (last p) \<Longrightarrow>
   maximal_run (p @ run @ s) r"
proof (induction run s arbitrary: p rule: digit_runs_with.induct)
  case (1 run)
  then have "r = run" "run \<noteq> []" by (auto split: if_splits)
  with 1 have "r \<noteq> [] \<and> list_all is_digit r \<and> p @ run @ [] = p @ r @ [] \<and> (p = [] \<or> \<not> is_digit (last p))" by simp
  then show ?case unfolding maximal_run_def by blast
next
  case (2 run c s)
  show ?case
  proof (cases "is_digit c")
    case True
    with 2 show ?thesis by auto
  next
    case False
    show ?thesis
    proof (cases "r = run \<and> run \<noteq> []")
      case True
      with False 2 have "r \<noteq> [] \<and> list_all is_digit r \<and> p @ run @ c # s = p @ r @ (c # s) \<and> (p = [] \<or> \<not> is_digit (last p))
        \<and> (c # s = [] \<or> \<not> is_digit (hd (c # s)))" by auto
      then show ?thesis unfolding maximal_run_def by blast
    next
      case F: False
      with False "2.prems"(1) have "r \<in> set (digit_runs_with [] s)" by (auto split: if_splits)
      from "2.IH"(2) [OF False this, of "p @ run @ [c]"] False show ?thesis by simp
    qed
  qed
qed

lemma digit_runs_iff: "r \<in> set (digit_runs s) \<longleftrightarrow> maximal_run s r"
  using digit_runs_complete [of s r] digit_runs_with_sound [of r "[]" s "[]"] by (auto simp: digit_runs_def)

lemma ways_chars:
  "list_all2 (\<lambda>p c. p c) ps r \<Longrightarrow> m_rest m = r @ b \<Longrightarrow> \<exists>m'. m_rest m' = b \<and> ways (seqs (map Chr ps @ rs)) m = ways (seqs rs) m'"
proof (induction ps r arbitrary: m rule: list_all2_induct)
  case Nil
  then show ?case by auto
next
  case (Cons p ps c r)
  have "m_rest (m\<lparr>m_before := Some c, m_rest := r @ b\<rparr>) = r @ b" by simp
  from Cons.IH [OF this] obtain m' where "m_rest m' = b"
    "ways (seqs (map Chr ps @ rs)) (m\<lparr>m_before := Some c, m_rest := r @ b\<rparr>) = ways (seqs rs) m'" by blast
  with Cons show ?case by auto
qed

lemma star_ways_self: "m \<in> set (star_ways n g f m)"
  by (cases n) (auto simp: Let_def)

lemma find_from_hit: "(\<And>b. match_here r b t \<noteq> None) \<Longrightarrow> find_from r b (a @ t) \<noteq> None"
proof (induction a arbitrary: b)
  case Nil
  then obtain m where "match_here r b t = Some m" by blast
  then show ?case by (simp add: find_from.simps [of r b t])
next
  case (Cons c a)
  from Cons.IH [OF Cons.prems] show ?case
    by (subst find_from.simps) (auto split: option.splits)
qed

lemma unique_id_found:
  assumes "is_unique_id r"
  shows "matches awsUniqueIDPattern (a @ r @ b)"
proof -
  let ?up = "char_between CHR ''A'' CHR ''Z''" and ?tail = "\<lambda>c. char_between CHR ''A'' CHR ''Z'' c \<or> is_digit c"
  let ?ps = "(\<lambda>c. c = CHR ''A'') # replicate 3 ?up @ replicate 12 ?tail"
  obtain c0 c1 c2 c3 t where r: "r = c0 # c1 # c2 # c3 # t" "length t = 12"
    using assms by (auto simp: is_unique_id_def length_Suc_conv numeral_eq_Suc)
  have t: "list_all2 (\<lambda>p c. p c) (replicate 12 ?tail) t"
    using assms r by (auto simp: is_unique_id_def list_all2_conv_all_nth list_all_length)
  have ps: "list_all2 (\<lambda>p c. p c) ?ps r"
    using assms t by (simp add: r is_unique_id_def numeral_3_eq_3)
  have pat: "awsUniqueIDPattern = seqs (map Chr ?ps @ [many (Chr ?tail)])"
    by (simp only: awsUniqueIDPattern_def Let_def)
  have "match_here awsUniqueIDPattern b' (r @ b) \<noteq> None" for b'
  proof -
    have "m_rest \<lparr>m_before = b', m_rest = r @ b, m_caps = []\<rparr> = r @ b" by simp
    from ways_chars [OF ps this, of "[many (Chr ?tail)]"] obtain m' where
      "ways awsUniqueIDPattern \<lparr>m_before = b', m_rest = r @ b, m_caps = []\<rparr> = ways (seqs [many (Chr ?tail)]) m'"
      unfolding pat by blast
    moreover have "ways (seqs [many (Chr ?tail)]) m' \<noteq> []"
      using star_ways_self [of m' "length (m_rest m')" True "ways (Chr ?tail)"] by (auto simp: many_def)
    ultimately show ?thesis
      by (auto simp: match_here_def head_opt_def split: list.splits)
  qed
  then show ?thesis using find_from_hit [of awsUniqueIDPattern "r @ b" None a] by (simp add: matches_def find_first_def)
qed

lemma decoding_is_a_view: "(percent_decode ^^ n) s \<in> set (awsPercentDecodings s)"
proof (induction s arbitrary: n rule: awsPercentDecodings.induct)
  case (1 s)
  show ?case
  proof (cases "percent_decode s = s")
    case True
    then have "(percent_decode ^^ n) s = s" by (induction n) auto
    with True show ?thesis by (subst awsPercentDecodings.simps) simp
  next
    case False
    show ?thesis
    proof (cases n)
      case 0
      then show ?thesis by (subst awsPercentDecodings.simps) (simp add: Let_def)
    next
      case (Suc k)
      with 1 False have "(percent_decode ^^ n) s \<in> set (awsPercentDecodings (percent_decode s))"
        by (simp add: funpow_swap1)
      with False show ?thesis by (subst awsPercentDecodings.simps) (simp add: Let_def)
    qed
  qed
qed

lemma first_some_None: "first_some f xs = None \<longleftrightarrow> (\<forall>x \<in> set xs. f x = None)"
  by (induction f xs rule: first_some.induct) (auto split: option.splits)

text \<open>A text the check passes, in every decoding.\<close>

definition text_clean :: "string \<Rightarrow> bool" where
  "text_clean t \<longleftrightarrow> (\<forall>n. let v = (percent_decode ^^ n) t in
     (\<forall>r. maximal_run v r \<and> length r = 12 \<longrightarrow> r = AWSScrubAccount)
     \<and> (\<forall>a r b. v = a @ r @ b \<longrightarrow> \<not> is_unique_id r)
     \<and> (\<forall>(t, m) \<in> set (find_all awsPrincipalARNPattern v). group_of m 2 = AWSScrubPrincipal))"

lemma view_clean:
  "view_leak v = None \<Longrightarrow>
     (\<forall>r. maximal_run v r \<and> length r = 12 \<longrightarrow> r = AWSScrubAccount)
     \<and> (\<forall>a r b. v = a @ r @ b \<longrightarrow> \<not> is_unique_id r)
     \<and> (\<forall>(t, m) \<in> set (find_all awsPrincipalARNPattern v). group_of m 2 = AWSScrubPrincipal)"
  using unique_id_found
  by (auto simp: view_leak_def awsAccountIDDigits_def list_ex_iff digit_runs_iff split: if_splits)

lemma checked_text_clean: "checkScrubbedText t = None \<Longrightarrow> text_clean t"
  unfolding text_clean_def Let_def checkScrubbedText_def first_some_None
  using view_clean decoding_is_a_view by blast


text \<open>And the check passes every clean text.\<close>

lemma ways_chars_sound:
  "m' \<in> set (ways (seqs (map Chr ps @ rs)) m) \<Longrightarrow> \<exists>r b. m_rest m = r @ b \<and> list_all2 (\<lambda>p c. p c) ps r"
proof (induction ps arbitrary: m)
  case (Cons p ps)
  then obtain c t where ct: "m_rest m = c # t" "p c" "m' \<in> set (ways (seqs (map Chr ps @ rs)) (m\<lparr>m_before := Some c, m_rest := t\<rparr>))"
    by (cases "m_rest m") (auto split: if_splits)
  from Cons.IH [OF ct(3)] obtain r b where "t = r @ b" "list_all2 (\<lambda>p c. p c) ps r" by auto
  with ct show ?case by (intro exI [of _ "c # r"] exI [of _ b]) simp
qed auto

lemma find_from_suffix: "find_from r b s = Some x \<Longrightarrow> \<exists>a t b' m. s = a @ t \<and> match_here r b' t = Some m"
proof (induction s arbitrary: b)
  case Nil
  then show ?case by (auto simp: find_from.simps [of r b] split: option.splits)
next
  case (Cons c s)
  show ?case
  proof (cases "match_here r b (c # s)")
    case None
    with Cons.prems have "find_from r (Some c) s = Some x" by (simp add: find_from.simps [of _ b])
    from Cons.IH [OF this] obtain a t b' m where "s = a @ t" "match_here r b' t = Some m" by blast
    then have "c # s = (c # a) @ t" by simp
    with \<open>match_here r b' t = Some m\<close> show ?thesis by blast
  next
    case (Some m)
    have "c # s = [] @ (c # s)" by simp
    with Some show ?thesis by blast
  qed
qed

lemma all_replicate: "list_all2 (\<lambda>p c. p c) (replicate n p) r \<Longrightarrow> length r = n \<and> list_all p r"
  by (auto simp: list_all2_conv_all_nth list_all_length)

lemma unique_id_sound:
  assumes "matches awsUniqueIDPattern s"
  shows "\<exists>a r b. s = a @ r @ b \<and> is_unique_id r"
proof -
  let ?up = "char_between CHR ''A'' CHR ''Z''" and ?tail = "\<lambda>c. char_between CHR ''A'' CHR ''Z'' c \<or> is_digit c"
  let ?ps = "(\<lambda>c. c = CHR ''A'') # replicate 3 ?up @ replicate 12 ?tail"
  have pat: "awsUniqueIDPattern = seqs (map Chr ?ps @ [many (Chr ?tail)])"
    by (simp only: awsUniqueIDPattern_def Let_def)
  obtain y where "find_from awsUniqueIDPattern None s = Some y"
    using assms unfolding matches_def find_first_def by blast
  from find_from_suffix [OF this] obtain a t b' m where t: "s = a @ t" "match_here awsUniqueIDPattern b' t = Some m" by blast
  then have "m \<in> set (ways awsUniqueIDPattern \<lparr>m_before = b', m_rest = t, m_caps = []\<rparr>)"
    by (auto simp: match_here_def head_opt_def split: list.splits)
  from ways_chars_sound [OF this [unfolded pat]] obtain r b where r: "t = r @ b" "list_all2 (\<lambda>p c. p c) ?ps r" by auto
  then obtain r1 r2 where r12: "r = CHR ''A'' # r1 @ r2" "list_all2 (\<lambda>p c. p c) (replicate 3 ?up) r1" "list_all2 (\<lambda>p c. p c) (replicate 12 ?tail) r2"
    by (auto simp: list_all2_Cons1 list_all2_append1)
  note all_replicate [OF r12(2)] all_replicate [OF r12(3)]
  moreover from this have "take 4 r = CHR ''A'' # r1" "drop 4 r = r2" by (simp_all add: r12(1))
  moreover have "?up CHR ''A''" by (simp add: char_between_def)
  ultimately have "is_unique_id r" by (simp add: is_unique_id_def r12(1))
  with t r show ?thesis by auto
qed

lemma view_is_a_decoding: "v \<in> set (awsPercentDecodings s) \<Longrightarrow> \<exists>n. v = (percent_decode ^^ n) s"
proof (induction s rule: awsPercentDecodings.induct)
  case (1 s)
  show ?case
  proof (cases "v = s")
    case True
    then show ?thesis by (auto intro: exI [of _ 0])
  next
    case False
    with "1.prems" have "percent_decode s \<noteq> s" "v \<in> set (awsPercentDecodings (percent_decode s))"
      by (auto simp: awsPercentDecodings.simps [of s] Let_def split: if_splits)
    with "1.IH" obtain n where "v = (percent_decode ^^ n) (percent_decode s)" by blast
    then show ?thesis by (intro exI [of _ "Suc n"]) (simp add: funpow_swap1)
  qed
qed

lemma view_leak_None:
  "view_leak v = None \<longleftrightarrow>
     (\<forall>r. maximal_run v r \<and> length r = 12 \<longrightarrow> r = AWSScrubAccount)
     \<and> (\<forall>a r b. v = a @ r @ b \<longrightarrow> \<not> is_unique_id r)
     \<and> (\<forall>(t, m) \<in> set (find_all awsPrincipalARNPattern v). group_of m 2 = AWSScrubPrincipal)" (is "?l \<longleftrightarrow> ?r")
proof
  show "?l \<Longrightarrow> ?r" by (rule view_clean)
  assume r: ?r
  then have "\<not> matches awsUniqueIDPattern v" using unique_id_sound by blast
  with r show ?l by (auto simp: view_leak_def awsAccountIDDigits_def list_ex_iff digit_runs_iff)
qed

text \<open>
  C34. The check passes a text exactly when, in the text and in every percent-decoding of it, each maximal run of
  twelve digits is the synthetic account id, no unique or key id occurs anywhere, and each principal's ARN found
  names the placeholder.
\<close>

theorem leak_check_is_the_promise: "checkScrubbedText t = None \<longleftrightarrow> text_clean t"
proof
  show "checkScrubbedText t = None \<Longrightarrow> text_clean t" by (rule checked_text_clean)
  show "text_clean t \<Longrightarrow> checkScrubbedText t = None"
    unfolding text_clean_def Let_def checkScrubbedText_def first_some_None view_leak_None [symmetric]
    by (auto dest!: view_is_a_decoding)
qed

subsection \<open>JSON tokens and trees\<close>

text \<open>
  A string is its text and its literal; an object keeps its members in order, repeated keys included. After the
  last token comes the end of the text or an error, and then whether \<^verbatim>\<open>Decoder.More\<close> still answers true.
\<close>

datatype 't jtree =
    TNull
  | TBool bool
  | TNum string
  | TStr 't
  | TArr "'t jtree list"
  | TObj "('t \<times> 't jtree) list"

type_synonym literal = "string \<times> string"

datatype scalar = S_Null | S_Bool bool | S_Num string | S_Str literal

datatype jtoken = T_Delim char | T_Scalar scalar

fun scalar_tree :: "scalar \<Rightarrow> literal jtree" where
  "scalar_tree S_Null = TNull"
| "scalar_tree (S_Bool b) = TBool b"
| "scalar_tree (S_Num n) = TNum n"
| "scalar_tree (S_Str l) = TStr l"

datatype json_end = Json_Eof | Json_Bad bool

definition key_token :: "jtoken \<Rightarrow> literal" where
  "key_token t = (case t of T_Scalar (S_Str l) \<Rightarrow> l | _ \<Rightarrow> ([], []))"

definition json_more :: "json_end \<Rightarrow> jtoken list \<Rightarrow> bool" where
  "json_more e ts =
     (case ts of
        [] \<Rightarrow> (case e of Json_Eof \<Rightarrow> False | Json_Bad m \<Rightarrow> m)
      | T_Delim c # _ \<Rightarrow> c \<notin> {CHR '']'', CHR ''}''}
      | T_Scalar _ # _ \<Rightarrow> True)"

text \<open>
  Decoding a value: \<open>None\<close> stands at a value, \<open>Some\<close> inside an array or object with the members read so far.
  A value takes a token at least, so the tests for that always hold.
\<close>

function json_build :: "json_end \<Rightarrow> (char \<times> (literal \<times> literal jtree) list) option \<Rightarrow> jtoken list
    \<Rightarrow> (literal jtree \<times> jtoken list) option" where
  "json_build e None ts =
     (case ts of
        [] \<Rightarrow> None
      | T_Delim d # ts1 \<Rightarrow> json_build e (Some (d, [])) ts1
      | T_Scalar v # ts1 \<Rightarrow> Some (scalar_tree v, ts1))"
| "json_build e (Some (d, acc)) ts =
     (if \<not> json_more e ts
      then (case ts of
              [] \<Rightarrow> None
            | _ # ts1 \<Rightarrow> Some (if d = CHR ''{'' then TObj acc else TArr (map snd acc), ts1))
      else (case ts of
              [] \<Rightarrow> None
            | t # ts1 \<Rightarrow>
                (case json_build e None (if d = CHR ''{'' then ts1 else ts) of
                   None \<Rightarrow> None
                 | Some (v, rest) \<Rightarrow>
                     if length rest < length ts
                     then json_build e (Some (d, acc @ [(if d = CHR ''{'' then key_token t else ([], []), v)])) rest
                     else None)))"
  by pat_completeness auto
termination
  by (relation "measures [\<lambda>(_, _, ts). length ts, \<lambda>(_, f, _). if f = None then 0 else 1]") auto

declare json_build.simps [simp del]

definition one_value :: "jtoken list \<times> json_end \<Rightarrow> literal jtree option" where
  "one_value p =
     (case p of (ts, e) \<Rightarrow>
        (case json_build e None ts of
           Some (v, []) \<Rightarrow> if e = Json_Eof then Some v else None
         | _ \<Rightarrow> None))"

subsection \<open>The walk over a JSON text\<close>

record awsJSONCheck =
  foldKeys :: bool
  skip :: "string \<Rightarrow> bool"

definition no_skip :: "bool \<Rightarrow> awsJSONCheck" where
  "no_skip f = \<lparr>foldKeys = f, skip = (\<lambda>_. False)\<rparr>"

definition at_index :: "string \<Rightarrow> nat \<Rightarrow> string" where
  "at_index loc i = loc @ ''['' @ itoa (int i) @ '']''"

definition at_key :: "string \<Rightarrow> string \<Rightarrow> string" where
  "at_key loc k = loc @ ''.'' @ k"

definition key_id :: "awsJSONCheck \<Rightarrow> string \<Rightarrow> string" where
  "key_id c k = (if foldKeys c then to_upper (to_lower k) else k)"

definition check_scalar :: "awsJSONCheck \<Rightarrow> string \<Rightarrow> scalar \<Rightarrow> string option" where
  "check_scalar c loc v =
     (if skip c loc then None
      else case v of
             S_Num n \<Rightarrow> if matches awsScientificNumberPattern n then None else checkScrubbedTextAt loc n
           | S_Str l \<Rightarrow> checkScrubbedTextAt loc (fst l)
           | _ \<Rightarrow> checkScrubbedTextAt loc [])"

definition no_parse :: "string \<Rightarrow> string" where
  "no_parse loc = loc @ '': does not parse as JSON''"

text \<open>The index and the keys seen, latest first, inside an array or object.\<close>

function check_value :: "awsJSONCheck \<Rightarrow> json_end \<Rightarrow> string \<Rightarrow> (char \<times> nat \<times> string list) option \<Rightarrow> jtoken list
    \<Rightarrow> string + jtoken list" where
  "check_value c e loc None ts =
     (case ts of
        [] \<Rightarrow> Inl (no_parse loc)
      | T_Delim d # ts1 \<Rightarrow> check_value c e loc (Some (d, 0, [])) ts1
      | T_Scalar v # ts1 \<Rightarrow> (case check_scalar c loc v of Some err \<Rightarrow> Inl err | None \<Rightarrow> Inr ts1))"
| "check_value c e loc (Some (d, i, seen)) ts =
     (if \<not> json_more e ts then (case ts of [] \<Rightarrow> Inl (no_parse loc) | _ # ts1 \<Rightarrow> Inr ts1)
      else if d = CHR ''{''
      then (case ts of
              [] \<Rightarrow> Inl (no_parse loc)
            | t # ts1 \<Rightarrow>
                let key = fst (key_token t) in
                (case checkScrubbedTextAt (loc @ '' (a key)'') key of
                   Some err \<Rightarrow> Inl err
                 | None \<Rightarrow>
                     if key_id c key \<in> set seen then Inl (at_key loc key @ '': repeats a key'')
                     else (case check_value c e (at_key loc key) None ts1 of
                             Inl err \<Rightarrow> Inl err
                           | Inr rest \<Rightarrow>
                               if length rest < length ts
                               then check_value c e loc (Some (d, Suc i, key_id c key # seen)) rest
                               else Inr rest)))
      else (case check_value c e (at_index loc i) None ts of
              Inl err \<Rightarrow> Inl err
            | Inr rest \<Rightarrow>
                if length rest < length ts then check_value c e loc (Some (d, Suc i, seen)) rest else Inr rest))"
  by pat_completeness auto
termination
  by (relation "measures [\<lambda>(_, _, _, _, ts). length ts, \<lambda>(_, _, _, f, _). if f = None then 0 else 1]") auto

declare check_value.simps [simp del]

definition check :: "awsJSONCheck \<Rightarrow> jtoken list \<times> json_end \<Rightarrow> string option" where
  "check c p =
     (case p of (ts, e) \<Rightarrow>
        (case check_value c e ''$'' None ts of
           Inl err \<Rightarrow> Some err
         | Inr rest \<Rightarrow>
             if rest = [] \<and> e = Json_Eof then None else Some ''$: does not hold exactly one JSON value''))"

text \<open>What the walk leaves: every key and every scalar is clean, unless skipped, and no key is repeated.\<close>

lemma zip_upt_size [termination_simp]: "(i, x) \<in> set (zip [0..<n] xs) \<Longrightarrow> f x < Suc (size_list f xs)"
  using size_list_estimation' [of x xs "f x" f] by (auto dest!: set_zip_rightD simp: less_Suc_eq_le)

fun tree_clean :: "awsJSONCheck \<Rightarrow> string \<Rightarrow> literal jtree \<Rightarrow> bool" where
  "tree_clean c loc (TArr xs) = (\<forall>(i, x) \<in> set (zip [0..<length xs] xs). tree_clean c (at_index loc i) x)"
| "tree_clean c loc (TObj m) \<longleftrightarrow>
     distinct (map (\<lambda>(k, _). key_id c (fst k)) m)
     \<and> (\<forall>(k, x) \<in> set m. text_clean (fst k) \<and> tree_clean c (at_key loc (fst k)) x)"
| "tree_clean c loc (TNum n) \<longleftrightarrow> skip c loc \<or> matches awsScientificNumberPattern n \<or> text_clean n"
| "tree_clean c loc (TStr l) \<longleftrightarrow> skip c loc \<or> text_clean (fst l)"
| "tree_clean c loc v \<longleftrightarrow> True"

lemma check_value_enter:
  assumes "check_value c e loc None ts = Inr rest"
  obtains d ts1 where "ts = T_Delim d # ts1" "check_value c e loc (Some (d, 0, [])) ts1 = Inr rest"
  | v where "ts = T_Scalar v # rest" "check_scalar c loc v = None"
  using assms by (simp add: check_value.simps(1) split: list.splits jtoken.splits option.splits)

lemma check_value_next:
  assumes "check_value c e loc (Some (d, i, seen)) ts = Inr rest"
  obtains t where "\<not> json_more e ts" "ts = t # rest"
  | t ts1 rest1 where "json_more e ts" "d = CHR ''{''" "ts = t # ts1"
      "checkScrubbedTextAt (loc @ '' (a key)'') (fst (key_token t)) = None" "key_id c (fst (key_token t)) \<notin> set seen"
      "check_value c e (at_key loc (fst (key_token t))) None ts1 = Inr rest1"
      "(if length rest1 < length ts
        then check_value c e loc (Some (d, Suc i, key_id c (fst (key_token t)) # seen)) rest1 else Inr rest1) = Inr rest"
  | rest1 where "json_more e ts" "d \<noteq> CHR ''{''" "check_value c e (at_index loc i) None ts = Inr rest1"
      "(if length rest1 < length ts then check_value c e loc (Some (d, Suc i, seen)) rest1 else Inr rest1) = Inr rest"
proof -
  note A = assms [unfolded check_value.simps(2) [of c e loc d i seen ts]]
  consider "\<not> json_more e ts" | "json_more e ts" "d = CHR ''{''" | "json_more e ts" "d \<noteq> CHR ''{''" by blast
  then show thesis
  proof cases
    case 1
    with A that(1) show ?thesis by (auto split: list.splits)
  next
    case 2
    obtain t ts1 where ts: "ts = t # ts1" using A 2 by (cases ts) auto
    let ?k = "fst (key_token t)"
    have k: "checkScrubbedTextAt (loc @ '' (a key)'') ?k = None"
      using A 2 by (cases "checkScrubbedTextAt (loc @ '' (a key)'') ?k") (simp_all add: ts Let_def)
    have new: "key_id c ?k \<notin> set seen"
      using A 2 k by (cases "key_id c ?k \<in> set seen") (simp_all add: ts Let_def)
    show ?thesis
    proof (cases "check_value c e (at_key loc ?k) None ts1")
      case (Inl err)
      with A 2 k new show ?thesis by (simp add: ts Let_def)
    next
      case (Inr rest1)
      show ?thesis
        by (rule that(2) [OF 2 ts k new Inr]) (use A 2 k new Inr in \<open>simp add: ts Let_def\<close>)
    qed
  next
    case 3
    show ?thesis
    proof (cases "check_value c e (at_index loc i) None ts")
      case (Inl err)
      with A 3 show ?thesis by simp
    next
      case (Inr rest1)
      show ?thesis by (rule that(3) [OF 3 Inr]) (use A 3 Inr in \<open>simp\<close>)
    qed
  qed
qed

text \<open>A checked value takes a token at least, so the tests on lengths never decide.\<close>

lemma check_value_shorter: "check_value c e loc f ts = Inr rest \<Longrightarrow> length rest < length ts"
proof (induction c e loc f ts arbitrary: rest rule: check_value.induct)
  case (1 c e loc ts)
  from "1.prems" show ?case
  proof (cases rule: check_value_enter)
    case (1 d ts1)
    with "1.IH" [of "T_Delim d" ts1 d] show ?thesis by fastforce
  qed simp
next
  case (2 c e loc d i seen ts)
  from "2.prems" show ?case
  proof (cases rule: check_value_next)
    case (2 t ts1 rest1)
    have "length rest1 < length ts1" using "2.IH"(1) [of t ts1] 2 by simp
    moreover have "length rest1 < length ts" using calculation 2 by simp
    ultimately show ?thesis using "2.IH"(2) [of t ts1 _ rest1] 2 by fastforce
  next
    case (3 rest1)
    have "length rest1 < length ts" using "2.IH"(3) 3 by simp
    then show ?thesis using "2.IH"(4) [of rest1] 3 by fastforce
  qed simp
qed

lemma check_scalar_clean: "check_scalar c loc v = None \<Longrightarrow> tree_clean c loc (scalar_tree v)"
  by (cases v) (auto simp: check_scalar_def checkScrubbedTextAt_def checked_text_clean split: if_splits)

definition members_clean :: "awsJSONCheck \<Rightarrow> string \<Rightarrow> char \<times> nat \<times> string list \<Rightarrow> (literal \<times> literal jtree) list \<Rightarrow> bool" where
  "members_clean c loc f acc =
     (case f of (d, i, seen) \<Rightarrow>
        if d = CHR ''{''
        then set seen = (\<lambda>(k, _). key_id c (fst k)) ` set acc \<and> tree_clean c loc (TObj acc)
        else length acc = i \<and> tree_clean c loc (TArr (map snd acc)))"

lemma tree_clean_snoc:
  "tree_clean c loc (TArr xs) \<Longrightarrow> tree_clean c (at_index loc (length xs)) x \<Longrightarrow> tree_clean c loc (TArr (xs @ [x]))"
  by (auto simp: zip_append1)

lemma check_value_clean:
  "check_value c e loc f ts = Inr rest \<Longrightarrow>
   (case f of
      None \<Rightarrow> \<exists>v. json_build e None ts = Some (v, rest) \<and> tree_clean c loc v
    | Some (d, i, seen) \<Rightarrow> \<forall>acc. members_clean c loc (d, i, seen) acc \<longrightarrow>
        (\<exists>v. json_build e (Some (d, acc)) ts = Some (v, rest) \<and> tree_clean c loc v))"
proof (induction c e loc f ts arbitrary: rest rule: check_value.induct)
  case (1 c e loc ts)
  from "1.prems" show ?case
  proof (cases rule: check_value_enter)
    case (1 d ts1)
    have "members_clean c loc (d, 0, []) []" by (simp add: members_clean_def)
    then have "\<exists>v. json_build e (Some (d, [])) ts1 = Some (v, rest) \<and> tree_clean c loc v"
      using "1.IH" [of "T_Delim d" ts1 d rest] 1 by simp
    with 1 show ?thesis by (simp add: json_build.simps(1))
  next
    case (2 v)
    then show ?thesis by (simp add: json_build.simps(1) check_scalar_clean)
  qed
next
  case (2 c e loc d i seen ts)
  have "\<exists>v. json_build e (Some (d, acc)) ts = Some (v, rest) \<and> tree_clean c loc v"
    if acc: "members_clean c loc (d, i, seen) acc" for acc
    using "2.prems"
  proof (cases rule: check_value_next)
    case (1 t)
    with acc show ?thesis by (auto simp: json_build.simps(2) members_clean_def simp del: tree_clean.simps split: if_splits)
  next
    case (2 t ts1 rest1)
    let ?k = "key_token t"
    have less: "length rest1 < length ts1" by (rule check_value_shorter [OF 2(6)])
    obtain v where v: "json_build e None ts1 = Some (v, rest1)" "tree_clean c (at_key loc (fst ?k)) v"
      using "2.IH"(1) [of t ts1 _ rest1] 2 by auto
    have "text_clean (fst ?k)" using 2(4) by (simp add: checkScrubbedTextAt_def checked_text_clean)
    then have "members_clean c loc (d, Suc i, key_id c (fst ?k) # seen) (acc @ [(?k, v)])"
      using acc v(2) 2 by (auto simp: members_clean_def case_prod_unfold image_def)
    then have "\<exists>w. json_build e (Some (d, acc @ [(?k, v)])) rest1 = Some (w, rest) \<and> tree_clean c loc w"
      using "2.IH"(2) [of t ts1 _ rest1 rest] 2 less by simp
    with 2 v(1) less show ?thesis by (simp add: json_build.simps(2) [of e "CHR ''{''" acc "t # ts1"])
  next
    case (3 rest1)
    have less: "length rest1 < length ts" by (rule check_value_shorter [OF 3(3)])
    obtain v where v: "json_build e None ts = Some (v, rest1)" "tree_clean c (at_index loc i) v"
      using "2.IH"(3) [of rest1] 3 by auto
    have "members_clean c loc (d, Suc i, seen) (acc @ [(([], []), v)])"
      using acc v(2) 3 tree_clean_snoc [of c loc "map snd acc" v] by (simp add: members_clean_def del: tree_clean.simps)
    then have "\<exists>w. json_build e (Some (d, acc @ [(([], []), v)])) rest1 = Some (w, rest) \<and> tree_clean c loc w"
      using "2.IH"(4) [of rest1 rest] 3 less by simp
    moreover obtain t ts1 where "ts = t # ts1" using less by (cases ts) auto
    ultimately show ?thesis using 3 v(1) less by (simp add: json_build.simps(2) [of e d acc "t # ts1"])
  qed
  then show ?case by simp
qed

lemma check_clean:
  assumes "check c p = None"
  shows "\<exists>v. one_value p = Some v \<and> tree_clean c ''$'' v"
proof -
  obtain ts e where p: "p = (ts, e)" by fastforce
  have "check_value c e ''$'' None ts = Inr [] \<and> e = Json_Eof"
    using assms by (auto simp: check_def p split: sum.splits if_splits)
  then show ?thesis using check_value_clean [of c e "''$''" None ts "[]"] by (auto simp: one_value_def p)
qed

end
