(* ===== verification/Aws_Scrub.thy ===== *)
theory Aws_Scrub
  imports Aws_Scrub_Text Criteria
begin

text \<open>
  The scrub of a recorded account read and of the kept state into fixtures fit to publish, its leak check, and
  the write (\<^verbatim>\<open>harness/aws_reader_scrub.go\<close>, the command \<^verbatim>\<open>cmd/aws-read-scrub\<close>).

  The JSON and XML decoders are arguments that give the tokens of a text; how tokens become the values the code
  holds is modelled. A map has its keys sorted, the order every walk takes them in.
\<close>

subsection \<open>The codec\<close>

type_synonym jvalue = "string jtree"
type_synonym jobject = "(string \<times> jvalue) list"

record scrub_exchange =
  xe_service :: string
  xe_protocol :: string
  xe_action :: string
  xe_params :: "literal jtree"
  xe_status :: int
  xe_body :: string

text \<open>The time is the literal it is written back as; \<open>None\<close> is a nil slice.\<close>

record read_file =
  rf_account :: string
  rf_region :: string
  rf_timestamp :: string
  rf_duration_ms :: int
  rf_calls :: int
  rf_exchanges :: "scrub_exchange list option"

text \<open>
  The tokens of a JSON text; those of an XML text with the offset each ends at, and whether a syntax error ends
  them; the literal of a string; the layout of a tree of literals; the literal a time is written back as; and what
  a text that repeats a field decodes to.
\<close>

record scrub_codec =
  sc_json :: "string \<Rightarrow> jtoken list \<times> json_end"
  sc_xml :: "string \<Rightarrow> (xml_token \<times> nat) list \<times> bool"
  sc_quote :: "string \<Rightarrow> string"
  sc_write :: "string \<Rightarrow> string jtree \<Rightarrow> string"
  sc_time :: "string \<Rightarrow> string option"
  sc_repeated :: "literal jtree \<Rightarrow> read_file option"

subsection \<open>Values of type any\<close>

definition dedupe :: "jobject \<Rightarrow> jobject" where
  "dedupe m = map (\<lambda>k. (k, the (map_of (rev m) k))) (sort (remdups (map fst m)))"

fun to_any :: "string jtree \<Rightarrow> jvalue" where
  "to_any (TArr xs) = TArr (map to_any xs)"
| "to_any (TObj m) = TObj (dedupe (map (\<lambda>(k, x). (k, to_any x)) m))"
| "to_any v = v"

definition decode_any :: "scrub_codec \<Rightarrow> string \<Rightarrow> jvalue option" where
  "decode_any c data = map_option (\<lambda>t. to_any (map_jtree fst t)) (one_value (sc_json c data))"

definition encode_any :: "scrub_codec \<Rightarrow> string \<Rightarrow> jvalue \<Rightarrow> string" where
  "encode_any c ind v = sc_write c ind (map_jtree (sc_quote c) v)"

text \<open>A missing key reads as nil, and so does every key of a nil map.\<close>

definition getv :: "jobject \<Rightarrow> string \<Rightarrow> jvalue" where
  "getv m k = (case map_of m k of Some v \<Rightarrow> v | None \<Rightarrow> TNull)"

fun as_object :: "jvalue \<Rightarrow> jobject" where
  "as_object (TObj m) = m"
| "as_object _ = []"

fun as_text :: "jvalue \<Rightarrow> string" where
  "as_text (TStr s) = s"
| "as_text _ = []"

fun set_key :: "jobject \<Rightarrow> string \<Rightarrow> jvalue \<Rightarrow> jobject" where
  "set_key [] k v = []"
| "set_key ((a, x) # m) k v = (if a = k then (a, v) # m else (a, x) # set_key m k v)"

subsection \<open>The recorded read as a struct\<close>

type_synonym fields_read = "(literal \<times> literal jtree) list"

definition struct_field :: "fields_read \<Rightarrow> string \<Rightarrow> literal jtree" where
  "struct_field m name = (case find (\<lambda>(k, _). equal_fold (fst k) name) m of Some (_, v) \<Rightarrow> v | None \<Rightarrow> TNull)"

fun into_string :: "literal jtree \<Rightarrow> string option" where
  "into_string TNull = Some []"
| "into_string (TStr l) = Some (fst l)"
| "into_string _ = None"

fun into_int :: "literal jtree \<Rightarrow> int option" where
  "into_int TNull = Some 0"
| "into_int (TNum n) = atoi n"
| "into_int _ = None"

definition zero_time :: string where
  "zero_time = quote ''0001-01-01T00:00:00Z''"

definition into_time :: "scrub_codec \<Rightarrow> literal jtree \<Rightarrow> string option" where
  "into_time c v = (case v of TNull \<Rightarrow> Some zero_time | TStr l \<Rightarrow> sc_time c (snd l) | _ \<Rightarrow> None)"

definition known_fields :: "string list \<Rightarrow> fields_read \<Rightarrow> bool" where
  "known_fields names m \<longleftrightarrow> list_all (\<lambda>(k, _). list_ex (equal_fold (fst k)) names) m"

definition fields_distinct :: "fields_read \<Rightarrow> bool" where
  "fields_distinct m \<longleftrightarrow> distinct (map (\<lambda>(k, _). to_upper (to_lower (fst k))) m)"

definition zero_exchange :: scrub_exchange where
  "zero_exchange = \<lparr>xe_service = [], xe_protocol = [], xe_action = [], xe_params = TNull, xe_status = 0, xe_body = []\<rparr>"

definition exchangeFields :: "string list" where
  "exchangeFields = [''service'', ''protocol'', ''action'', ''params'', ''status'', ''body'']"

definition into_exchange :: "literal jtree \<Rightarrow> scrub_exchange option" where
  "into_exchange v =
     (case v of
        TNull \<Rightarrow> Some zero_exchange
      | TObj m \<Rightarrow>
          if \<not> known_fields exchangeFields m then None
          else (case (into_string (struct_field m ''service''), into_string (struct_field m ''protocol''),
                      into_string (struct_field m ''action''), into_int (struct_field m ''status''),
                      into_string (struct_field m ''body'')) of
                  (Some s, Some p, Some a, Some n, Some b) \<Rightarrow>
                    Some \<lparr>xe_service = s, xe_protocol = p, xe_action = a, xe_params = struct_field m ''params'',
                      xe_status = n, xe_body = b\<rparr>
                | _ \<Rightarrow> None)
      | _ \<Rightarrow> None)"

fun into_exchanges :: "literal jtree list \<Rightarrow> scrub_exchange list option" where
  "into_exchanges [] = Some []"
| "into_exchanges (v # vs) =
     (case (into_exchange v, into_exchanges vs) of (Some x, Some xs) \<Rightarrow> Some (x # xs) | _ \<Rightarrow> None)"

fun into_slice :: "literal jtree \<Rightarrow> scrub_exchange list option option" where
  "into_slice TNull = Some None"
| "into_slice (TArr vs) = map_option Some (into_exchanges vs)"
| "into_slice _ = None"

definition readFields :: "string list" where
  "readFields = [''account'', ''region'', ''timestamp'', ''duration_ms'', ''calls'', ''exchanges'']"

fun repeats_field :: "literal jtree \<Rightarrow> bool" where
  "repeats_field (TObj m) = (\<not> fields_distinct m)"
| "repeats_field _ = False"

fun elements :: "literal jtree \<Rightarrow> literal jtree list" where
  "elements (TArr vs) = vs"
| "elements _ = []"

definition into_read :: "scrub_codec \<Rightarrow> literal jtree \<Rightarrow> read_file option" where
  "into_read c t =
     (case t of
        TNull \<Rightarrow> Some \<lparr>rf_account = [], rf_region = [], rf_timestamp = zero_time, rf_duration_ms = 0, rf_calls = 0,
                  rf_exchanges = None\<rparr>
      | TObj m \<Rightarrow>
          if repeats_field t \<or> list_ex repeats_field (elements (struct_field m ''exchanges'')) then sc_repeated c t
          else if \<not> known_fields readFields m then None
          else (case (into_string (struct_field m ''account''), into_string (struct_field m ''region''),
                      into_time c (struct_field m ''timestamp''), into_int (struct_field m ''duration_ms''),
                      into_int (struct_field m ''calls''), into_slice (struct_field m ''exchanges'')) of
                  (Some a, Some r, Some t, Some d, Some n, Some xs) \<Rightarrow>
                    Some \<lparr>rf_account = a, rf_region = r, rf_timestamp = t, rf_duration_ms = d, rf_calls = n,
                      rf_exchanges = xs\<rparr>
                | _ \<Rightarrow> None)
      | _ \<Rightarrow> None)"

definition decode_read :: "scrub_codec \<Rightarrow> string \<Rightarrow> read_file option" where
  "decode_read c data = (case one_value (sc_json c data) of None \<Rightarrow> None | Some t \<Rightarrow> into_read c t)"

definition exchange_tree :: "scrub_codec \<Rightarrow> scrub_exchange \<Rightarrow> string jtree" where
  "exchange_tree c x =
     (let q = sc_quote c in
      TObj [(q ''service'', TStr (q (xe_service x))), (q ''protocol'', TStr (q (xe_protocol x))),
            (q ''action'', TStr (q (xe_action x))), (q ''params'', map_jtree snd (xe_params x)),
            (q ''status'', TNum (itoa (xe_status x))), (q ''body'', TStr (q (xe_body x)))])"

definition encode_read :: "scrub_codec \<Rightarrow> string \<Rightarrow> read_file \<Rightarrow> string" where
  "encode_read c ind r =
     (let q = sc_quote c in
      sc_write c ind
        (TObj [(q ''account'', TStr (q (rf_account r))), (q ''region'', TStr (q (rf_region r))),
               (q ''timestamp'', TStr (rf_timestamp r)), (q ''duration_ms'', TNum (itoa (rf_duration_ms r))),
               (q ''calls'', TNum (itoa (rf_calls r))),
               (q ''exchanges'', case rf_exchanges r of None \<Rightarrow> TNull | Some xs \<Rightarrow> TArr (map (exchange_tree c) xs))]))"

subsection \<open>Scrubbing a body\<close>

definition AWSScrubbedReadFile :: string where "AWSScrubbedReadFile = ''recorded-read.json''"
definition AWSScrubbedStateFile :: string where "AWSScrubbedStateFile = ''pre-destroy-state.json''"
definition awsStateUserDataKeys :: "string list" where "awsStateUserDataKeys = [''user_data'', ''user_data_base64'']"
definition awsSSMValueKeys :: "string list" where "awsSSMValueKeys = [''value'', ''insecure_value'']"

fun public_parameter :: "jvalue \<Rightarrow> bool" where
  "public_parameter (TStr s) = awsPublicParameter s"
| "public_parameter _ = False"

definition awsXMLPathEnds :: "string list \<Rightarrow> string list \<Rightarrow> bool" where
  "awsXMLPathEnds names suff \<longleftrightarrow> length suff \<le> length names \<and> drop (length names - length suff) names = suff"

text \<open>
  The state of the replacement: what is out, the elements open with where their content starts, how much of the
  body is out, and where the last token ended. An end element with nothing open is a syntax error of the decoder.
\<close>

record xml_copy =
  xc_out :: string
  xc_names :: "string list"
  xc_starts :: "nat list"
  xc_copied :: nat
  xc_at :: nat

definition xml_step :: "string \<Rightarrow> (string list \<Rightarrow> string option) \<Rightarrow> xml_token \<times> nat \<Rightarrow> xml_copy \<Rightarrow> xml_copy" where
  "xml_step body placeholder p st =
     (case p of (tok, off) \<Rightarrow>
        (case tok of
           Start_Element n _ \<Rightarrow> st\<lparr>xc_names := xc_names st @ [n], xc_starts := xc_starts st @ [off], xc_at := off\<rparr>
         | End_Element _ \<Rightarrow>
             let start = last (xc_starts st);
                 st1 = (if xc_copied st \<le> start \<and> \<not> has_suffix (take start body) ''/>''
                        then (case placeholder (xc_names st) of
                                Some v \<Rightarrow> st\<lparr>xc_out := xc_out st @ sub_text body (xc_copied st) start @ v, xc_copied := xc_at st\<rparr>
                              | None \<Rightarrow> st)
                        else st)
             in st1\<lparr>xc_names := butlast (xc_names st), xc_starts := butlast (xc_starts st), xc_at := off\<rparr>
         | _ \<Rightarrow> st\<lparr>xc_at := off\<rparr>))"

fun is_end :: "xml_token \<Rightarrow> bool" where
  "is_end (End_Element _) = True"
| "is_end _ = False"

fun xml_replace_loop :: "string \<Rightarrow> (string list \<Rightarrow> string option) \<Rightarrow> bool \<Rightarrow> (xml_token \<times> nat) list \<Rightarrow> xml_copy \<Rightarrow> string option" where
  "xml_replace_loop body placeholder bad [] st = (if bad then None else Some (xc_out st @ drop (xc_copied st) body))"
| "xml_replace_loop body placeholder bad (p # ps) st =
     (if is_end (fst p) \<and> xc_names st = [] then None
      else xml_replace_loop body placeholder bad ps (xml_step body placeholder p st))"

definition awsXMLReplaceText :: "scrub_codec \<Rightarrow> string \<Rightarrow> (string list \<Rightarrow> string option) \<Rightarrow> string + string" where
  "awsXMLReplaceText c body placeholder =
     (case sc_xml c body of (ps, bad) \<Rightarrow>
        (case xml_replace_loop body placeholder bad ps
                \<lparr>xc_out = [], xc_names = [], xc_starts = [], xc_copied = 0, xc_at = 0\<rparr> of
           None \<Rightarrow> Inl ''the body does not parse as XML''
         | Some out \<Rightarrow> Inr out))"

definition scrubAWSParameterValue :: "scrub_codec \<Rightarrow> string \<Rightarrow> string + string" where
  "scrubAWSParameterValue c body =
     (let given = (\<lambda>ans.
            let parameter = as_object (getv ans ''Parameter'') in
            if ''Value'' \<notin> fst ` set parameter \<or> public_parameter (getv parameter ''Name'') then body
            else trim_suffix (encode_any c [] (TObj (set_key ans ''Parameter''
                   (TObj (set_key parameter ''Value'' (TStr AWSScrubParameterValue)))))) [CHR 0x0A])
      in case decode_any c body of
           Some (TObj ans) \<Rightarrow> Inr (given ans)
         | Some TNull \<Rightarrow> Inr (given [])
         | _ \<Rightarrow> Inl ''the body does not parse as JSON'')"

definition query_placeholder :: "string \<Rightarrow> string list \<Rightarrow> string option" where
  "query_placeholder action names =
     (if equal_fold (last names) ''RequestId'' then Some AWSScrubRequestID
      else if action = ''DescribeInstanceAttribute'' \<and> awsXMLPathEnds names [''userData'', ''value'']
      then Some AWSScrubUserData
      else if awsXMLPathEnds names [''GetCallerIdentityResult'', ''UserId''] then Some AWSScrubUserID
      else None)"

definition scrubAWSReadBody :: "scrub_codec \<Rightarrow> scrub_exchange \<Rightarrow> string + string" where
  "scrubAWSReadBody c x =
     (if xe_protocol x = awsProtocolQuery then awsXMLReplaceText c (xe_body x) (query_placeholder (xe_action x))
      else if xe_protocol x = awsProtocolJSON
      then (if xe_service x \<noteq> ''ssm'' \<or> xe_action x \<noteq> ''GetParameter'' then Inr (xe_body x)
            else scrubAWSParameterValue c (xe_body x))
      else Inl ''its protocol is neither query nor json'')"

definition exchange_entry :: "scrub_exchange \<Rightarrow> read_entry" where
  "exchange_entry x = \<lparr>re_service = xe_service x, re_protocol = xe_protocol x, re_action = xe_action x, re_params = []\<rparr>"

fun scrub_exchanges :: "scrub_codec \<Rightarrow> nat \<Rightarrow> scrub_exchange list \<Rightarrow> string + scrub_exchange list" where
  "scrub_exchanges c i [] = Inr []"
| "scrub_exchanges c i (x # xs) =
     (case scrubAWSReadBody c x of
        Inl e \<Rightarrow> Inl (awsReadEntryName i (exchange_entry x) @ '': '' @ e)
      | Inr b \<Rightarrow> map_sum id ((#) (x\<lparr>xe_body := b\<rparr>)) (scrub_exchanges c (Suc i) xs))"

definition scrubAWSRecordedRead :: "scrub_codec \<Rightarrow> string \<Rightarrow> string + string" where
  "scrubAWSRecordedRead c data =
     (case decode_read c data of
        None \<Rightarrow> Inl ''does not parse as an ADR-0041 recorded read''
      | Some r \<Rightarrow>
          (case rf_exchanges r of
             None \<Rightarrow> Inr (encode_read c ''  '' r)
           | Some xs \<Rightarrow>
               (case scrub_exchanges c 0 xs of
                  Inl e \<Rightarrow> Inl e
                | Inr ys \<Rightarrow> Inr (encode_read c ''  '' (r\<lparr>rf_exchanges := Some ys\<rparr>)))))"

subsection \<open>Scrubbing the state\<close>

definition awsSensitiveOutput :: "jobject \<Rightarrow> bool" where
  "awsSensitiveOutput output \<longleftrightarrow> getv output ''sensitive'' \<noteq> TNull \<and> getv output ''sensitive'' \<noteq> TBool False"

definition sensitive_name :: "jvalue \<Rightarrow> string option" where
  "sensitive_name steps =
     (let step = (case steps of TArr (s # _) \<Rightarrow> as_object s | _ \<Rightarrow> []) in
      case getv step ''value'' of
        TStr name \<Rightarrow> if getv step ''type'' = TStr ''get_attr'' then Some name else None
      | _ \<Rightarrow> None)"

definition awsSensitiveAttributes :: "jvalue \<Rightarrow> string + string list" where
  "awsSensitiveAttributes listed =
     (case listed of
        TNull \<Rightarrow> Inr []
      | TArr paths \<Rightarrow>
          let names = map sensitive_name paths in
          if None \<in> set names then Inl ''holds a path that does not start at an attribute'' else Inr (map the names)
      | _ \<Rightarrow> Inl ''is not a list of paths'')"

definition awsPublicStateValue :: "string \<Rightarrow> jobject \<Rightarrow> string \<Rightarrow> bool" where
  "awsPublicStateValue resourceType attributes name \<longleftrightarrow>
     resourceType = ''aws_ssm_parameter'' \<and> name \<in> set awsSSMValueKeys \<and> public_parameter (getv attributes ''name'')"

definition awsHiddenStateValue :: "jvalue \<Rightarrow> bool" where
  "awsHiddenStateValue v \<longleftrightarrow> v = TNull \<or> v = TStr AWSScrubSensitiveValue"

fun scrubAWSStateUserData :: "jvalue \<Rightarrow> jvalue" where
  "scrubAWSStateUserData (TObj m) =
     TObj (map (\<lambda>(k, v). (k, case v of
         TStr _ \<Rightarrow> if k \<in> set awsStateUserDataKeys then TStr AWSScrubUserData else v
       | _ \<Rightarrow> scrubAWSStateUserData v)) m)"
| "scrubAWSStateUserData (TArr xs) = TArr (map scrubAWSStateUserData xs)"
| "scrubAWSStateUserData v = v"

definition scrub_output :: "jvalue \<Rightarrow> jvalue" where
  "scrub_output item =
     (case item of
        TObj o1 \<Rightarrow>
          if awsSensitiveOutput o1 \<and> getv o1 ''value'' \<noteq> TNull
          then TObj (set_key o1 ''value'' (TStr AWSScrubSensitiveValue)) else item
      | _ \<Rightarrow> item)"

definition scrub_outputs :: "jobject \<Rightarrow> jobject" where
  "scrub_outputs state =
     (case getv state ''outputs'' of
        TObj outputs \<Rightarrow> set_key state ''outputs'' (TObj (map (\<lambda>(k, item). (k, scrub_output item)) outputs))
      | _ \<Rightarrow> state)"

text \<open>What the visit does to an instance's attributes.\<close>

definition scrub_attributes :: "string \<Rightarrow> string list \<Rightarrow> jobject \<Rightarrow> jobject" where
  "scrub_attributes resourceType sensitive attributes =
     (let hidden = foldl (\<lambda>attrs name.
            if getv attrs name \<noteq> TNull \<and> \<not> awsPublicStateValue resourceType attrs name
            then set_key attrs name (TStr AWSScrubSensitiveValue) else attrs) attributes sensitive
      in if resourceType = ''aws_caller_identity'' \<and> getv hidden ''user_id'' \<noteq> TNull
         then set_key hidden ''user_id'' (TStr AWSScrubUserID) else hidden)"

definition scrub_instance :: "string \<Rightarrow> string \<Rightarrow> jvalue \<Rightarrow> string + jvalue" where
  "scrub_instance loc resourceType item =
     (let inst = as_object item in
      case awsSensitiveAttributes (getv inst ''sensitive_attributes'') of
        Inl e \<Rightarrow> Inl (loc @ ''.sensitive_attributes: '' @ e)
      | Inr sensitive \<Rightarrow>
          Inr (case (item, getv inst ''attributes'') of
                 (TObj _, TObj attributes) \<Rightarrow>
                   TObj (set_key inst ''attributes'' (TObj (scrub_attributes resourceType sensitive attributes)))
               | _ \<Rightarrow> item))"

fun traverse_sum :: "('a \<Rightarrow> string + 'b) \<Rightarrow> 'a list \<Rightarrow> string + 'b list" where
  "traverse_sum f [] = Inr []"
| "traverse_sum f (x # xs) = (case f x of Inl e \<Rightarrow> Inl e | Inr y \<Rightarrow> map_sum id ((#) y) (traverse_sum f xs))"

definition indexed :: "'a list \<Rightarrow> (nat \<times> 'a) list" where
  "indexed xs = zip [0..<length xs] xs"

definition scrub_object :: "string \<Rightarrow> jobject \<Rightarrow> string + jobject" where
  "scrub_object loc m =
     (case getv m ''instances'' of
        TArr items \<Rightarrow>
          map_sum id (\<lambda>items'. set_key m ''instances'' (TArr items'))
            (traverse_sum (\<lambda>(i, item). scrub_instance (at_index (loc @ ''.instances'') i) (as_text (getv m ''type'')) item) (indexed items))
      | _ \<Rightarrow> Inr m)"

text \<open>Every object is visited before what it holds; \<open>n\<close> bounds the depth, and the size of the value is enough.\<close>

primrec scrub_instances :: "nat \<Rightarrow> string \<Rightarrow> jvalue \<Rightarrow> string + jvalue" where
  "scrub_instances 0 loc v = Inl ''too deep''"
| "scrub_instances (Suc n) loc v =
     (case v of
        TObj m \<Rightarrow>
          (case scrub_object loc m of
             Inl e \<Rightarrow> Inl e
           | Inr m1 \<Rightarrow> map_sum id TObj (traverse_sum (\<lambda>(k, x). map_sum id (Pair k) (scrub_instances n (at_key loc k) x)) m1))
      | TArr xs \<Rightarrow> map_sum id TArr (traverse_sum (\<lambda>(i, x). scrub_instances n (at_index loc i) x) (indexed xs))
      | _ \<Rightarrow> Inr v)"

definition scrub_state_value :: "jobject \<Rightarrow> string + jvalue" where
  "scrub_state_value state0 =
     (let state1 = (if ''lineage'' \<in> fst ` set state0 then set_key state0 ''lineage'' (TStr AWSScrubLineage) else state0);
          state2 = TObj (scrub_outputs (as_object (scrubAWSStateUserData (TObj state1))))
      in scrub_instances (Suc (size state2)) ''$'' state2)"

definition scrubAWSState :: "scrub_codec \<Rightarrow> string \<Rightarrow> string + string" where
  "scrubAWSState c data =
     (case decode_any c data of
        Some (TObj state0) \<Rightarrow> map_sum id (encode_any c ''  '') (scrub_state_value state0)
      | _ \<Rightarrow> Inl ''does not parse as a JSON object'')"

subsection \<open>The scrub\<close>

fun string_or_null :: "literal jtree \<Rightarrow> bool" where
  "string_or_null (TStr _) = True"
| "string_or_null TNull = True"
| "string_or_null _ = False"

definition header_account :: "scrub_codec \<Rightarrow> string \<Rightarrow> string option" where
  "header_account c data =
     (case one_value (sc_json c data) of
        Some TNull \<Rightarrow> Some []
      | Some (TObj m) \<Rightarrow>
          let given = map snd (filter (\<lambda>(k, _). equal_fold (fst k) ''account'') m) in
          if list_all string_or_null given
          then Some (case rev (filter (\<lambda>v. v \<noteq> TNull) given) of v # _ \<Rightarrow> the (into_string v) | [] \<Rightarrow> [])
          else None
      | _ \<Rightarrow> None)"

definition mapIdentity :: "string \<Rightarrow> string \<Rightarrow> string" where
  "mapIdentity account data =
     replace_all awsPrincipalARNPattern (\<lambda>m. group_of m 1 @ AWSScrubPrincipal) (replace_text data account AWSScrubAccount)"

definition scrubAWSRead :: "scrub_codec \<Rightarrow> string \<Rightarrow> string \<Rightarrow> string + string \<times> string" where
  "scrubAWSRead c read state =
     (case header_account c read of
        None \<Rightarrow> Inl ''the recorded read does not parse, or its account is not a 12-digit id''
      | Some account \<Rightarrow>
          if \<not> ValidAWSAccountID account
          then Inl ''the recorded read does not parse, or its account is not a 12-digit id''
          else (case scrubAWSRecordedRead c (mapIdentity account read) of
                  Inl e \<Rightarrow> Inl (''the recorded read: '' @ e)
                | Inr r \<Rightarrow>
                    (case scrubAWSState c (mapIdentity account state) of
                       Inl e \<Rightarrow> Inl (''the state: '' @ e)
                     | Inr s \<Rightarrow> Inr (r, s))))"

subsection \<open>The leak check\<close>

definition awsPublicImageOwners :: "string list" where "awsPublicImageOwners = [''137112412989'']"

definition awsImageOwnerPath :: "string list" where
  "awsImageOwnerPath = [''DescribeImagesResponse'', ''imagesSet'', ''item'', ''imageOwnerId'']"

definition awsImageOwnerExchange :: "scrub_exchange \<Rightarrow> bool" where
  "awsImageOwnerExchange x \<longleftrightarrow> xe_service x = ''ec2'' \<and> xe_action x = ''DescribeImages''"

definition awsMaskPublicImageOwners :: "scrub_exchange \<Rightarrow> string" where
  "awsMaskPublicImageOwners x =
     (if \<not> awsImageOwnerExchange x then xe_body x
      else let name = last awsImageOwnerPath; opening = ''<'' @ name @ ''>''; closing = ''</'' @ name @ ''>'' in
           foldl (\<lambda>body owner. replace_text body (opening @ owner @ closing) (opening @ closing)) (xe_body x) awsPublicImageOwners)"

text \<open>What the check of an XML body keeps between tokens.\<close>

record xml_check =
  xk_names :: "string list"
  xk_text :: string
  xk_user_data :: string
  xk_in_user_data :: int

definition user_data_tag :: "string \<Rightarrow> bool" where
  "user_data_tag name = equal_fold name ''userData''"

definition closing_error :: "bool \<Rightarrow> string \<Rightarrow> xml_check \<Rightarrow> string option" where
  "closing_error imageOwners n st =
     (if awsXMLPathEnds (xk_names st) [''GetCallerIdentityResult'', ''Arn'']
         \<and> \<not> matches awsScrubbedPrincipalARNPattern (trim_space (xk_text st))
      then Some ''holds a GetCallerIdentity Arn whose name is not the placeholder''
      else if user_data_tag n
      then let v = trim_space (xk_user_data st) in
           if xk_in_user_data st - 1 = 0 \<and> v \<noteq> [] \<and> v \<noteq> AWSScrubUserData
           then Some ''holds a userData that is not the placeholder'' else None
      else None)"

definition image_owner_text :: "bool \<Rightarrow> xml_check \<Rightarrow> bool" where
  "image_owner_text imageOwners st \<longleftrightarrow>
     imageOwners \<and> xk_names st = awsImageOwnerPath \<and> xk_text st \<in> set awsPublicImageOwners"

definition close_element :: "bool \<Rightarrow> string \<Rightarrow> xml_check \<Rightarrow> xml_check" where
  "close_element imageOwners n st =
     (let inside = (if user_data_tag n then xk_in_user_data st - 1 else xk_in_user_data st) in
      \<lparr>xk_names = butlast (xk_names st), xk_text = (if image_owner_text imageOwners st then [] else xk_text st),
       xk_user_data = (if inside = 0 then [] else xk_user_data st), xk_in_user_data = inside\<rparr>)"

text \<open>The element's text is checked where a token ends it.\<close>

definition text_ended :: "xml_check \<Rightarrow> string + xml_check" where
  "text_ended st = (case checkScrubbedText (xk_text st) of Some e \<Rightarrow> Inl e | None \<Rightarrow> Inr (st\<lparr>xk_text := []\<rparr>))"

definition xml_check_step :: "bool \<Rightarrow> xml_token \<Rightarrow> xml_check \<Rightarrow> string + xml_check" where
  "xml_check_step imageOwners tok st =
     (case tok of
        Char_Data s \<Rightarrow>
          Inr (st\<lparr>xk_text := xk_text st @ s,
                  xk_user_data := (if 0 < xk_in_user_data st then xk_user_data st @ s else xk_user_data st)\<rparr>)
      | Xml_Comment \<Rightarrow> Inl ''holds an XML comment or directive''
      | Xml_Directive \<Rightarrow> Inl ''holds an XML comment or directive''
      | Proc_Inst target data \<Rightarrow>
          if target \<noteq> ''xml'' then Inl ''holds a processing instruction other than the XML declaration''
          else (case checkScrubbedText data of Some e \<Rightarrow> Inl e | None \<Rightarrow> Inr st)
      | Start_Element n attrs \<Rightarrow>
          (case first_some (\<lambda>(_, v). checkScrubbedText v) attrs of
             Some e \<Rightarrow> Inl e
           | None \<Rightarrow> text_ended (st\<lparr>xk_names := xk_names st @ [n],
               xk_in_user_data := (if user_data_tag n then xk_in_user_data st + 1 else xk_in_user_data st)\<rparr>))
      | End_Element n \<Rightarrow>
          (case closing_error imageOwners n st of
             Some e \<Rightarrow> Inl e
           | None \<Rightarrow> text_ended (close_element imageOwners n st)))"

fun xml_check_loop :: "bool \<Rightarrow> bool \<Rightarrow> xml_token list \<Rightarrow> xml_check \<Rightarrow> string option" where
  "xml_check_loop imageOwners bad [] st =
     (if bad then Some ''does not parse as XML'' else checkScrubbedText (xk_text st))"
| "xml_check_loop imageOwners bad (tok # toks) st =
     (if is_end tok \<and> xk_names st = [] then Some ''does not parse as XML''
      else case xml_check_step imageOwners tok st of
             Inl e \<Rightarrow> Some e
           | Inr st1 \<Rightarrow> xml_check_loop imageOwners bad toks st1)"

definition checkScrubbedXML :: "scrub_codec \<Rightarrow> string \<Rightarrow> bool \<Rightarrow> string option" where
  "checkScrubbedXML c body imageOwners =
     (case sc_xml c body of (ps, bad) \<Rightarrow>
        xml_check_loop imageOwners bad (map fst ps)
          \<lparr>xk_names = [], xk_text = [], xk_user_data = [], xk_in_user_data = 0\<rparr>)"

text \<open>The objects of a value in the order \<^verbatim>\<open>walkJSONObjects\<close> visits them, each with its path.\<close>

fun objects_in :: "string \<Rightarrow> jvalue \<Rightarrow> (string \<times> jobject) list" where
  "objects_in loc (TObj m) = (loc, m) # concat (map (\<lambda>(k, x). objects_in (at_key loc k) x) m)"
| "objects_in loc (TArr xs) = concat (map (\<lambda>(i, x). objects_in (at_index loc i) x) (zip [0..<length xs] xs))"
| "objects_in loc v = []"

definition walkJSONObjects :: "string \<Rightarrow> jvalue \<Rightarrow> (string \<Rightarrow> jobject \<Rightarrow> string option) \<Rightarrow> string option" where
  "walkJSONObjects loc v visit = first_some (\<lambda>(p, m). visit p m) (objects_in loc v)"

definition visit_instance :: "(string \<Rightarrow> string \<Rightarrow> jobject \<Rightarrow> string list \<Rightarrow> string option) \<Rightarrow> string \<Rightarrow> string \<Rightarrow> jvalue \<Rightarrow> string option" where
  "visit_instance visit loc resourceType item =
     (let inst = as_object item in
      case awsSensitiveAttributes (getv inst ''sensitive_attributes'') of
        Inl e \<Rightarrow> Some (loc @ ''.sensitive_attributes: '' @ e)
      | Inr sensitive \<Rightarrow> visit loc resourceType (as_object (getv inst ''attributes'')) sensitive)"

definition walkAWSStateInstances :: "jvalue \<Rightarrow> (string \<Rightarrow> string \<Rightarrow> jobject \<Rightarrow> string list \<Rightarrow> string option) \<Rightarrow> string option" where
  "walkAWSStateInstances state visit =
     walkJSONObjects ''$'' state (\<lambda>loc m.
       case getv m ''instances'' of
         TArr items \<Rightarrow>
           first_some (\<lambda>(i, item). visit_instance visit (at_index (loc @ ''.instances'') i) (as_text (getv m ''type'')) item) (indexed items)
       | _ \<Rightarrow> None)"

definition checkScrubbedJSONBody :: "scrub_codec \<Rightarrow> string \<Rightarrow> string option" where
  "checkScrubbedJSONBody c body =
     (case check (no_skip True) (sc_json c body) of
        Some e \<Rightarrow> Some e
      | None \<Rightarrow>
          (case decode_any c body of
             None \<Rightarrow> Some ''does not parse as JSON''
           | Some v \<Rightarrow> walkJSONObjects ''$'' v (\<lambda>loc m.
               first_some (\<lambda>(k, x).
                 if equal_fold k ''Value'' \<and> x \<noteq> TStr AWSScrubParameterValue \<and> \<not> public_parameter (getv m ''Name'')
                 then Some (at_key loc k @ '': is neither the placeholder nor a public parameter'' @ [apostrophe] @ ''s value'')
                 else None) m)))"

definition checkScrubbedStateOutputs :: "jvalue \<Rightarrow> string option" where
  "checkScrubbedStateOutputs state =
     (let outputs = getv (as_object state) ''outputs'' in
      case outputs of
        TNull \<Rightarrow> None
      | TObj m \<Rightarrow>
          first_some (\<lambda>(name, item).
            let output = as_object item in
            if awsSensitiveOutput output \<and> \<not> awsHiddenStateValue (getv output ''value'')
            then Some (''$.outputs.'' @ name @ ''.value: is a sensitive output'' @ [apostrophe] @ ''s value, not the placeholder'')
            else None) m
      | _ \<Rightarrow> Some ''$.outputs: is not an object'')"

definition state_user_data_error :: "string \<Rightarrow> jobject \<Rightarrow> string option" where
  "state_user_data_error loc m =
     first_some (\<lambda>key.
       if getv m key \<notin> {TNull, TStr AWSScrubUserData, TStr AWSScrubSensitiveValue}
       then Some (at_key loc key @ '': is neither null nor the placeholder'') else None) awsStateUserDataKeys"

definition state_attributes_error :: "string \<Rightarrow> string \<Rightarrow> jobject \<Rightarrow> string list \<Rightarrow> string option" where
  "state_attributes_error loc resourceType attributes sensitive =
     (case first_some (\<lambda>name.
        if \<not> awsHiddenStateValue (getv attributes name) \<and> \<not> awsPublicStateValue resourceType attributes name
        then Some (loc @ ''.attributes.'' @ name @ '': is listed in sensitive_attributes and is not the placeholder'')
        else None) sensitive of
        Some e \<Rightarrow> Some e
      | None \<Rightarrow>
          first_some (\<lambda>key.
            if resourceType = ''aws_ssm_parameter'' \<and> \<not> awsHiddenStateValue (getv attributes key)
               \<and> \<not> awsPublicStateValue resourceType attributes key
            then Some (loc @ ''.attributes.'' @ key @ '': is a private SSM parameter'' @ [apostrophe] @ ''s value'')
            else None) awsSSMValueKeys)"

definition checkScrubbedStateValues :: "jvalue \<Rightarrow> string option" where
  "checkScrubbedStateValues state =
     (case walkJSONObjects ''$'' state state_user_data_error of
        Some e \<Rightarrow> Some e
      | None \<Rightarrow> walkAWSStateInstances state state_attributes_error)"

definition checkScrubbedAWSState :: "scrub_codec \<Rightarrow> string \<Rightarrow> string option" where
  "checkScrubbedAWSState c data =
     (case check (no_skip False) (sc_json c data) of
        Some e \<Rightarrow> Some e
      | None \<Rightarrow>
          (case decode_any c data of
             None \<Rightarrow> Some ''$: does not parse as JSON''
           | Some state \<Rightarrow>
               (case checkScrubbedStateOutputs state of
                  Some e \<Rightarrow> Some e
                | None \<Rightarrow> checkScrubbedStateValues state)))"

definition body_error :: "scrub_codec \<Rightarrow> scrub_exchange \<Rightarrow> string option" where
  "body_error c x =
     (if xe_protocol x = awsProtocolQuery
      then (case checkScrubbedText (awsMaskPublicImageOwners x) of
              Some e \<Rightarrow> Some e
            | None \<Rightarrow> checkScrubbedXML c (xe_body x) (awsImageOwnerExchange x))
      else if xe_protocol x = awsProtocolJSON then checkScrubbedJSONBody c (xe_body x)
      else Some ''its protocol is neither query nor json'')"

definition read_check :: awsJSONCheck where
  "read_check = \<lparr>foldKeys = True, skip = matches awsRecordedBodyPathPattern\<rparr>"

definition exchanges_of :: "read_file \<Rightarrow> scrub_exchange list" where
  "exchanges_of r = (case rf_exchanges r of None \<Rightarrow> [] | Some xs \<Rightarrow> xs)"

definition checkScrubbedAWSRead :: "scrub_codec \<Rightarrow> string \<Rightarrow> string option" where
  "checkScrubbedAWSRead c data =
     (case check read_check (sc_json c data) of
        Some e \<Rightarrow> Some e
      | None \<Rightarrow>
          (case decode_read c data of
             None \<Rightarrow> Some ''$: does not parse as an ADR-0041 recorded read''
           | Some r \<Rightarrow>
               if rf_account r \<noteq> AWSScrubAccount then Some ''$.account: is not the synthetic account id''
               else first_some (\<lambda>(i, x). map_option (\<lambda>e. at_index ''$.exchanges'' i @ ''.body: '' @ e) (body_error c x))
                      (indexed (exchanges_of r))))"

definition CheckScrubbedRead :: "scrub_codec \<Rightarrow> string \<Rightarrow> string \<Rightarrow> string \<Rightarrow> string \<Rightarrow> string option" where
  "CheckScrubbedRead c readName read stateName state =
     (case checkScrubbedAWSRead c read of
        Some e \<Rightarrow> Some (''scrub check: '' @ readName @ '': '' @ e)
      | None \<Rightarrow> map_option (\<lambda>e. ''scrub check: '' @ stateName @ '': '' @ e) (checkScrubbedAWSState c state))"

subsection \<open>Writing\<close>

text \<open>
  The files behind the write. A temp file is named, written, closed and renamed, or removed; \<open>'w\<close> is the machine,
  and \<open>sl_written\<close> logs the bytes handed to each write.
\<close>

record 'w scrub_io =
  io_read :: "string \<Rightarrow> 'w \<Rightarrow> string + string"
  io_mkdir :: "string \<Rightarrow> 'w \<Rightarrow> string option \<times> 'w"
  io_temp :: "string \<Rightarrow> string \<Rightarrow> 'w \<Rightarrow> (string + string) \<times> 'w"
  io_write :: "string \<Rightarrow> string \<Rightarrow> 'w \<Rightarrow> string option \<times> 'w"
  io_close :: "string \<Rightarrow> 'w \<Rightarrow> string option \<times> 'w"
  io_rename :: "string \<Rightarrow> string \<Rightarrow> 'w \<Rightarrow> string option \<times> 'w"
  io_remove :: "string \<Rightarrow> 'w \<Rightarrow> 'w"

record 'w scrub_log =
  sl_world :: 'w
  sl_written :: "(string \<times> string) list"

text \<open>\<^verbatim>\<open>filepath.Dir\<close>.\<close>

definition path_dir :: "string \<Rightarrow> string" where
  "path_dir p = path_clean (rev (dropWhile (\<lambda>c. c \<noteq> CHR ''/'') (rev p)))"

definition writePrivateFile :: "'w scrub_io \<Rightarrow> string \<Rightarrow> string \<Rightarrow> 'w scrub_log \<Rightarrow> string option \<times> 'w scrub_log" where
  "writePrivateFile io file data st =
     (case io_temp io (path_dir file) (path_base file @ ''.*.tmp'') (sl_world st) of
        (Inl e, w1) \<Rightarrow> (Some e, st\<lparr>sl_world := w1\<rparr>)
      | (Inr tmp, w1) \<Rightarrow>
          (case io_write io tmp data w1 of
             (Some e, w2) \<Rightarrow>
               (Some e, st\<lparr>sl_world := io_remove io tmp (snd (io_close io tmp w2)), sl_written := sl_written st @ [(file, data)]\<rparr>)
           | (None, w2) \<Rightarrow>
               (case io_close io tmp w2 of
                  (Some e, w3) \<Rightarrow> (Some e, st\<lparr>sl_world := io_remove io tmp w3, sl_written := sl_written st @ [(file, data)]\<rparr>)
                | (None, w3) \<Rightarrow>
                    (case io_rename io tmp file w3 of
                       (r, w4) \<Rightarrow> (r, st\<lparr>sl_world := io_remove io tmp w4, sl_written := sl_written st @ [(file, data)]\<rparr>)))))"

definition WriteScrubbedAWSRead :: "scrub_codec \<Rightarrow> 'w scrub_io \<Rightarrow> string \<Rightarrow> string \<Rightarrow> string \<Rightarrow> 'w scrub_log
    \<Rightarrow> string option \<times> 'w scrub_log" where
  "WriteScrubbedAWSRead c io readPath statePath outDir st =
     (case io_read io readPath (sl_world st) of
        Inl e \<Rightarrow> (Some e, st)
      | Inr read \<Rightarrow>
     (case io_read io statePath (sl_world st) of
        Inl e \<Rightarrow> (Some e, st)
      | Inr state \<Rightarrow>
     (case scrubAWSRead c read state of
        Inl e \<Rightarrow> (Some e, st)
      | Inr (r, s) \<Rightarrow>
          let readOut = Criteria.path_join outDir AWSScrubbedReadFile; stateOut = Criteria.path_join outDir AWSScrubbedStateFile in
     (case CheckScrubbedRead c readOut r stateOut s of
        Some e \<Rightarrow> (Some e, st)
      | None \<Rightarrow>
     (case io_mkdir io outDir (sl_world st) of
        (Some e, w1) \<Rightarrow> (Some e, st\<lparr>sl_world := w1\<rparr>)
      | (None, w1) \<Rightarrow>
     (case writePrivateFile io readOut r (st\<lparr>sl_world := w1\<rparr>) of
        (Some e, st1) \<Rightarrow> (Some e, st1)
      | (None, st1) \<Rightarrow> writePrivateFile io stateOut s st1))))))"

subsection \<open>What the pattern of a body's path matches\<close>

lemma ways_text_re: "m' \<in> set (ways (text_re s) m) \<Longrightarrow> m_rest m = s @ m_rest m'"
proof (induction s arbitrary: m)
  case (Cons c s)
  then have "m_rest m \<noteq> []" by (auto simp: text_re_def lit_char_def)
  then obtain t where t: "m_rest m = c # t" "m' \<in> set (ways (text_re s) (m\<lparr>m_before := Some c, m_rest := t\<rparr>))"
    using Cons.prems by (cases "m_rest m") (auto simp: text_re_def lit_char_def split: if_splits)
  from Cons.IH [OF t(2)] t(1) show ?case by simp
qed (simp add: text_re_def)

lemma star_ways_chars:
  "m' \<in> set (star_ways n g (ways (Chr p)) m) \<Longrightarrow> \<exists>ds. list_all p ds \<and> m_rest m = ds @ m_rest m'"
proof (induction n g "ways (Chr p)" m rule: star_ways.induct)
  case (1 g m)
  then show ?case by (auto intro: exI [of _ "[]"])
next
  case (2 n g m)
  then consider "m' = m" | m1 where "m1 \<in> set (ways (Chr p) m)" "length (m_rest m1) < length (m_rest m)"
    "m' \<in> set (star_ways n g (ways (Chr p)) m1)"
    by (auto simp: Let_def split: if_splits)
  then show ?case
  proof cases
    case 1
    then show ?thesis by (auto intro: exI [of _ "[]"])
  next
    case (2 m1)
    then obtain ds where ds: "list_all p ds" "m_rest m1 = ds @ m_rest m'" using "2.hyps" by auto
    obtain c t where "m_rest m = c # t" "p c" "m_rest m1 = t"
      using 2(1) by (cases "m_rest m") (auto split: if_splits)
    with ds show ?thesis by (auto intro: exI [of _ "c # ds"])
  qed
qed

lemma find_from_start:
  "find_from (Seq At_Start r) b s = Some x \<Longrightarrow> \<exists>m'. m' \<in> set (ways r \<lparr>m_before = None, m_rest = s, m_caps = []\<rparr>) \<and> b = None"
proof (induction s arbitrary: b)
  case Nil
  then show ?case
    by (cases b) (auto simp: find_from.simps match_here_def head_opt_def split: option.splits list.splits)
next
  case (Cons c s)
  show ?case
  proof (cases "match_here (Seq At_Start r) b (c # s)")
    case None
    with Cons.prems have "find_from (Seq At_Start r) (Some c) s = Some x" by (simp add: find_from.simps [of _ b])
    with Cons.IH [of "Some c"] show ?thesis by simp
  next
    case (Some m)
    then show ?thesis
      by (cases b) (auto simp: match_here_def head_opt_def split: list.splits intro: exI [of _ m])
  qed
qed

lemma body_path_shape:
  assumes "matches awsRecordedBodyPathPattern p"
  obtains ds where "list_all is_digit ds" "p = ''$.exchanges['' @ ds @ ''].body''"
proof -
  let ?r = "seqs [text_re ''$.exchanges['', some_re digit_re, text_re ''].body'', At_End]"
  let ?m = "\<lparr>m_before = None, m_rest = p, m_caps = []\<rparr>"
  obtain m' where "m' \<in> set (ways ?r ?m)"
    using assms find_from_start [of ?r None p]
    unfolding matches_def find_first_def awsRecordedBodyPathPattern_def seqs.simps by blast
  then obtain m1 m2 m3 where m1: "m1 \<in> set (ways (text_re ''$.exchanges['') ?m)"
    and m2: "m2 \<in> set (ways (some_re digit_re) m1)" and m3: "m3 \<in> set (ways (text_re ''].body'') m2)" "m_rest m3 = []"
    by (auto split: if_splits)
  have p: "p = ''$.exchanges['' @ m_rest m1" using ways_text_re [OF m1] by simp
  obtain c t ds where "m_rest m1 = c # t" "is_digit c" "list_all is_digit ds" "t = ds @ m_rest m2"
  proof -
    have dg: "char_between CHR ''0'' CHR ''9'' = is_digit" by (simp add: is_digit_def fun_eq_iff)
    obtain m12 where "m12 \<in> set (ways digit_re m1)" "m2 \<in> set (star_ways (length (m_rest m12)) True (ways digit_re) m12)"
      using m2 by (auto simp: some_re_def)
    then show thesis
      using star_ways_chars [of m2 _ True is_digit m12] that
      by (cases "m_rest m1") (auto simp: digit_re_def dg split: if_splits)
  qed
  moreover have "m_rest m2 = ''].body''" using ways_text_re [OF m3(1)] m3(2) by simp
  ultimately show thesis using that [of "c # ds"] p by simp
qed

subsection \<open>Nothing but a body is passed over\<close>

text \<open>The keys, strings and numbers of a tree, numbers in exponent notation left out.\<close>

fun tree_texts :: "literal jtree \<Rightarrow> string list" where
  "tree_texts (TStr l) = [fst l]"
| "tree_texts (TNum n) = (if matches awsScientificNumberPattern n then [] else [n])"
| "tree_texts (TArr xs) = concat (map tree_texts xs)"
| "tree_texts (TObj m) = concat (map (\<lambda>(k, x). fst k # tree_texts x) m)"
| "tree_texts _ = []"

lemma unskipped_texts_clean:
  "tree_clean c loc t \<Longrightarrow> (\<And>q. \<not> skip c (loc @ q)) \<Longrightarrow> s \<in> set (tree_texts t) \<Longrightarrow> text_clean s"
proof (induction c loc t rule: tree_clean.induct)
  case (1 c loc xs)
  then obtain x where "x \<in> set xs" "s \<in> set (tree_texts x)" by auto
  then obtain i where i: "i < length xs" "s \<in> set (tree_texts (xs ! i))" by (metis in_set_conv_nth)
  then have ix: "(i, xs ! i) \<in> set (zip [0..<length xs] xs)" by (auto simp: in_set_zip intro: exI [of _ i])
  have "\<not> skip c (at_index loc i @ q)" for q using "1.prems"(2) [of "''['' @ itoa (int i) @ '']'' @ q"] by (simp add: at_index_def)
  with "1.IH" [OF ix refl] "1.prems"(1) ix i(2) show ?case by auto
next
  case (2 c loc m)
  then obtain k x where kx: "(k, x) \<in> set m" "s = fst k \<or> s \<in> set (tree_texts x)" by auto
  have "\<not> skip c (at_key loc (fst k) @ q)" for q using "2.prems"(2) [of "''.'' @ fst k @ q"] by (simp add: at_key_def)
  with "2.IH" [OF kx(1) refl] "2.prems"(1) kx show ?case by auto
next
  case (3 c loc n)
  then show ?case using "3.prems"(2) [of "[]"] by (auto split: if_splits)
next
  case (4 c loc l)
  then show ?case using "4.prems"(2) [of "[]"] by auto
qed simp_all

lemma split_at_first: "a @ c # b = a' @ c # b' \<Longrightarrow> c \<notin> set a \<Longrightarrow> c \<notin> set a' \<Longrightarrow> a = a' \<and> b = b'"
  by (induction a arbitrary: a') (case_tac a'; auto)+

lemma split_at_last: "a @ c # b = a' @ c # b' \<Longrightarrow> c \<notin> set b \<Longrightarrow> c \<notin> set b' \<Longrightarrow> b = b'"
  using split_at_first [of "rev b" c "rev a" "rev b'" "rev a'"] by (metis rev_append rev.simps(2) append_assoc append_Cons append_Nil rev_rev_ident set_rev)

lemma fold_keeps: "equal_fold k name \<Longrightarrow> c \<in> set k \<Longrightarrow> lower_char c \<in> set (to_lower name)"
  unfolding equal_fold_def to_lower_def by (metis image_eqI set_map)

lemma fold_length: "equal_fold k name \<Longrightarrow> length k = length name"
  unfolding equal_fold_def to_lower_def by (metis length_map)

lemma struct_field_of:
  assumes "fields_distinct m" "(k, x) \<in> set m" "equal_fold (fst k) name"
  shows "struct_field m name = x"
proof -
  have "find (\<lambda>(k, _). equal_fold (fst k) name) m = Some (k, x)"
    using assms
  proof (induction m)
    case (Cons p m)
    obtain k1 x1 where p: "p = (k1, x1)" by fastforce
    show ?case
    proof (cases "(k, x) = p")
      case True
      with Cons.prems show ?thesis by (auto simp: p)
    next
      case False
      with Cons.prems have in_m: "(k, x) \<in> set m" by simp
      have "to_upper (to_lower (fst k1)) \<noteq> to_upper (to_lower (fst k))"
        using Cons.prems(1) in_m by (force simp: fields_distinct_def p)
      then have "\<not> equal_fold (fst k1) name" using Cons.prems(3) by (auto simp: equal_fold_def)
      moreover have "fields_distinct m" using Cons.prems(1) by (simp add: fields_distinct_def p)
      ultimately show ?thesis using Cons.IH in_m Cons.prems(3) by (simp add: p)
    qed
  qed simp
  then show ?thesis by (simp add: struct_field_def)
qed

text \<open>No field's name holds a bracket or a dot, whatever its case, and only \<^verbatim>\<open>body\<close> ends a body's path.\<close>

definition plain_key :: "string \<Rightarrow> bool" where
  "plain_key k \<longleftrightarrow> CHR ''['' \<notin> set k \<and> CHR ''.'' \<notin> set k"

lemma known_plain:
  assumes "equal_fold k name" "name \<in> set (readFields @ exchangeFields)"
  shows "plain_key k"
proof -
  have "lower_char CHR ''['' = CHR ''[''" "lower_char CHR ''.'' = CHR ''.''"
    by (simp_all add: lower_char_def char_between_def)
  moreover have "\<forall>name \<in> set (readFields @ exchangeFields). CHR ''['' \<notin> set (to_lower name) \<and> CHR ''.'' \<notin> set (to_lower name)"
    by (simp add: readFields_def exchangeFields_def to_lower_def lower_char_def char_between_def)
  ultimately show ?thesis using assms fold_keeps unfolding plain_key_def by metis
qed

lemma root_not_skipped:
  assumes "plain_key k"
  shows "\<not> skip read_check (at_key ''$'' k)"
proof
  assume "skip read_check (at_key ''$'' k)"
  then obtain ds where "at_key ''$'' k = ''$.exchanges['' @ ds @ ''].body''"
    by (auto simp: read_check_def elim: body_path_shape)
  then have "CHR ''['' \<in> set k" by (simp add: at_key_def)
  with assms show False by (simp add: plain_key_def)
qed

lemma element_skipped:
  assumes "plain_key k2" "skip read_check (at_key (at_index (at_key ''$'' k) i) k2)"
  shows "k2 = ''body''"
proof -
  obtain ds where "at_key (at_index (at_key ''$'' k) i) k2 = ''$.exchanges['' @ ds @ ''].body''"
    using assms(2) by (auto simp: read_check_def elim: body_path_shape)
  then have "(''$.'' @ k @ ''['' @ itoa (int i) @ '']'') @ CHR ''.'' # k2 = (''$.exchanges['' @ ds @ '']'') @ CHR ''.'' # ''body''"
    by (simp add: at_key_def at_index_def)
  from split_at_last [OF this] assms(1) show ?thesis by (simp add: plain_key_def)
qed

lemma params_not_skipped:
  assumes "plain_key k" "equal_fold k2 ''params''"
  shows "\<not> skip read_check (at_key (at_index (at_key ''$'' k) i) k2 @ q)"
proof
  assume "skip read_check (at_key (at_index (at_key ''$'' k) i) k2 @ q)"
  then obtain ds where ds: "list_all is_digit ds"
    and "at_key (at_index (at_key ''$'' k) i) k2 @ q = ''$.exchanges['' @ ds @ ''].body''"
    by (auto simp: read_check_def elim: body_path_shape)
  then have eq: "k @ CHR ''['' # (itoa (int i) @ CHR '']'' # ''.'' @ k2 @ q) = ''exchanges'' @ CHR ''['' # (ds @ CHR '']'' # ''.body'')"
    by (simp add: at_key_def at_index_def)
  have no: "\<not> is_digit CHR '']''" by (simp add: is_digit_def char_between_def)
  have "itoa (int i) @ CHR '']'' # ''.'' @ k2 @ q = ds @ CHR '']'' # ''.body''"
    using split_at_first [OF eq] assms(1) by (simp add: plain_key_def)
  moreover have "CHR '']'' \<notin> set (itoa (int i))" using nat_digits_digits [of "CHR '']''" i] no by (auto simp: itoa_def)
  moreover have "CHR '']'' \<notin> set ds" using ds no by (auto simp: list_all_iff)
  ultimately have "''.'' @ k2 @ q = ''.body''" by (rule split_at_first [THEN conjunct2])
  then have "length (''.'' @ k2 @ q) = length ''.body''" by (rule arg_cong)
  then have "length k2 \<le> 4" by simp
  with fold_length [OF assms(2)] show False by simp
qed

lemma key_id_fold: "key_id read_check k = to_upper (to_lower k)"
  by (simp add: key_id_def read_check_def)

lemma clean_fields_distinct: "tree_clean read_check loc (TObj m) \<Longrightarrow> fields_distinct m"
  by (simp add: fields_distinct_def key_id_fold)

lemma into_string_cases: "into_string x = Some b \<Longrightarrow> x = TNull \<and> b = [] \<or> (\<exists>l. x = TStr l \<and> b = fst l)"
  by (cases x) auto

lemma into_int_cases: "into_int x = Some b \<Longrightarrow> x = TNull \<or> (\<exists>n. x = TNum n)"
  by (cases x) auto

text \<open>The fields of an element other than \<^verbatim>\<open>params\<close> hold scalars.\<close>

lemma exchange_texts:
  assumes k: "plain_key k" and dec: "into_exchange t = Some x"
    and clean: "tree_clean read_check (at_index (at_key ''$'' k) i) t" and s: "s \<in> set (tree_texts t)"
  shows "text_clean s \<or> s = xe_body x"
proof (cases t)
  case (TObj m)
  let ?f = "\<lambda>name. struct_field m name"
  have kn: "known_fields exchangeFields m"
    using dec by (simp add: into_exchange_def TObj split: if_splits)
  obtain a b d n e where f: "into_string (?f ''service'') = Some a" "into_string (?f ''protocol'') = Some b"
    "into_string (?f ''action'') = Some d" "into_int (?f ''status'') = Some n" "into_string (?f ''body'') = Some e"
    and x: "xe_body x = e"
    using dec kn by (auto simp: into_exchange_def TObj split: option.splits)
  obtain k2 y where ky: "(k2, y) \<in> set m" "s = fst k2 \<or> s \<in> set (tree_texts y)" using s TObj by auto
  have kc: "text_clean (fst k2)" and yc: "tree_clean read_check (at_key (at_index (at_key ''$'' k) i) (fst k2)) y"
    using clean ky(1) TObj by auto
  obtain name where name: "name \<in> set exchangeFields" "equal_fold (fst k2) name"
    using kn ky(1) by (auto simp: known_fields_def list_all_iff list_ex_iff)
  have y: "?f name = y"
    using struct_field_of [of m k2 y name] clean_fields_distinct clean ky(1) name(2) TObj by blast
  have plain: "plain_key (fst k2)" using known_plain [of "fst k2" name] name by simp
  have scalar: "text_clean s \<or> s = xe_body x" if "y = TStr l" "s \<in> set (tree_texts y)" "name = ''body'' \<longrightarrow> e = fst l" for l
  proof (cases "skip read_check (at_key (at_index (at_key ''$'' k) i) (fst k2))")
    case True
    then have "fst k2 = ''body''" by (rule element_skipped [OF plain])
    then have "name = ''body''" using name by (auto simp: exchangeFields_def equal_fold_def to_lower_def lower_char_def char_between_def)
    with that x show ?thesis by simp
  next
    case False
    with that yc show ?thesis by auto
  qed
  show ?thesis
  proof (cases "s = fst k2")
    case True
    with kc show ?thesis by simp
  next
    case False
    with ky(2) have sy: "s \<in> set (tree_texts y)" by simp
    have str: "text_clean s \<or> s = xe_body x" if "into_string (?f name) = Some g" "name = ''body'' \<longrightarrow> g = e" for g
      using that into_string_cases [of y g] sy scalar y by auto
    from name(1) have "name = ''service'' \<or> name = ''protocol'' \<or> name = ''action'' \<or> name = ''params'' \<or> name = ''status'' \<or> name = ''body''"
      by (simp add: exchangeFields_def)
    then show ?thesis
    proof (elim disjE)
      assume n: "name = ''status''"
      then obtain n1 where n1: "y = TNum n1" using f(4) y into_int_cases [of y n] sy by auto
      have "length (fst k2) = 6" using fold_length [OF name(2)] n by simp
      then have "\<not> skip read_check (at_key (at_index (at_key ''$'' k) i) (fst k2))"
        using element_skipped [OF plain] by fastforce
      with n1 yc sy show ?thesis by (auto split: if_splits)
    next
      assume "name = ''params''"
      then show ?thesis using unskipped_texts_clean [OF yc _ sy] params_not_skipped [OF k] name(2) by blast
    next
      assume n: "name = ''service''" show ?thesis by (rule str [of a]) (use f n in simp_all)
    next
      assume n: "name = ''protocol''" show ?thesis by (rule str [of b]) (use f n in simp_all)
    next
      assume n: "name = ''action''" show ?thesis by (rule str [of d]) (use f n in simp_all)
    next
      assume n: "name = ''body''" show ?thesis by (rule str [of e]) (use f n in simp_all)
    qed
  qed
qed (use dec s in \<open>auto simp: into_exchange_def\<close>)

lemma tree_clean_nth:
  assumes "tree_clean c loc (TArr xs)" "i < length xs"
  shows "tree_clean c (at_index loc i) (xs ! i)"
proof -
  have "(i, xs ! i) \<in> set (zip [0..<length xs] xs)" using assms(2) by (auto simp: in_set_zip intro: exI [of _ i])
  with assms(1) show ?thesis by auto
qed

lemma struct_field_in: "struct_field m name = v \<Longrightarrow> v \<noteq> TNull \<Longrightarrow> \<exists>k. (k, v) \<in> set m \<and> equal_fold (fst k) name"
  by (auto simp: struct_field_def find_Some_iff split: option.splits) (metis nth_mem)

lemma into_exchanges_nth:
  "into_exchanges vs = Some xs \<Longrightarrow> i < length vs \<Longrightarrow> i < length xs \<and> into_exchange (vs ! i) = Some (xs ! i)"
  by (induction vs arbitrary: i xs) (auto split: option.splits simp: nth_Cons split: nat.splits)

lemma clean_read_distinct:
  assumes "tree_clean read_check ''$'' (TObj m)"
  shows "\<not> repeats_field (TObj m) \<and> \<not> list_ex repeats_field (elements (struct_field m ''exchanges''))"
proof
  show "\<not> repeats_field (TObj m)" using clean_fields_distinct [OF assms] by simp
  show "\<not> list_ex repeats_field (elements (struct_field m ''exchanges''))"
  proof (cases "struct_field m ''exchanges''")
    case (TArr vs)
    then obtain k where "(k, TArr vs) \<in> set m" using struct_field_in by blast
    then have vs: "tree_clean read_check (at_key ''$'' (fst k)) (TArr vs)" using assms by fastforce
    have "\<not> repeats_field v" if v: "v \<in> set vs" for v
    proof -
      from v obtain i where "i < length vs" "vs ! i = v" by (metis in_set_conv_nth)
      then have "tree_clean read_check (at_index (at_key ''$'' (fst k)) i) v"
        using tree_clean_nth [OF vs] by metis
      then show ?thesis using clean_fields_distinct by (cases v) auto
    qed
    with TArr show ?thesis by (auto simp: list_ex_iff)
  qed simp_all
qed

lemma read_texts:
  assumes dec: "into_read c t = Some r" and clean: "tree_clean read_check ''$'' t" and s: "s \<in> set (tree_texts t)"
  shows "text_clean s \<or> (\<exists>x \<in> set (exchanges_of r). s = xe_body x)"
proof (cases t)
  case (TObj m)
  let ?f = "\<lambda>name. struct_field m name"
  have nr: "\<not> (repeats_field t \<or> list_ex repeats_field (elements (?f ''exchanges'')))"
    using clean_read_distinct clean TObj by blast
  have kn: "known_fields readFields m"
    using dec nr by (simp add: into_read_def TObj split: if_splits)
  obtain a b d n e xs where f: "into_string (?f ''account'') = Some a" "into_string (?f ''region'') = Some b"
    "into_time c (?f ''timestamp'') = Some d" "into_int (?f ''duration_ms'') = Some n" "into_int (?f ''calls'') = Some e"
    "into_slice (?f ''exchanges'') = Some xs" and r: "rf_exchanges r = xs"
    using dec kn nr by (auto simp: into_read_def TObj split: option.splits)
  obtain k y where ky: "(k, y) \<in> set m" "s = fst k \<or> s \<in> set (tree_texts y)" using s TObj by auto
  have kc: "text_clean (fst k)" and yc: "tree_clean read_check (at_key ''$'' (fst k)) y"
    using clean ky(1) TObj by auto
  obtain name where name: "name \<in> set readFields" "equal_fold (fst k) name"
    using kn ky(1) by (auto simp: known_fields_def list_all_iff list_ex_iff)
  have y: "?f name = y"
    using struct_field_of [of m k y name] clean_fields_distinct clean ky(1) name(2) TObj by blast
  have plain: "plain_key (fst k)" using known_plain [of "fst k" name] name by simp
  have scalar: "text_clean s" if "s \<in> set (tree_texts y)" "(\<exists>l. y = TStr l) \<or> (\<exists>n. y = TNum n) \<or> y = TNull"
    using that yc root_not_skipped [OF plain] by (auto split: if_splits)
  show ?thesis
  proof (cases "s = fst k")
    case True
    with kc show ?thesis by simp
  next
    case False
    with ky(2) have sy: "s \<in> set (tree_texts y)" by simp
    from name(1) have "name = ''account'' \<or> name = ''region'' \<or> name = ''timestamp'' \<or> name = ''duration_ms'' \<or> name = ''calls'' \<or> name = ''exchanges''"
      by (simp add: readFields_def)
    then show ?thesis
    proof (elim disjE)
      assume n: "name = ''exchanges''"
      show ?thesis
      proof (cases y)
        case (TArr vs)
        then obtain zs where zs: "into_exchanges vs = Some zs" "xs = Some zs" using f(6) y n by auto
        obtain v where "v \<in> set vs" "s \<in> set (tree_texts v)" using sy TArr by auto
        then obtain i where i: "i < length vs" "s \<in> set (tree_texts (vs ! i))" by (metis in_set_conv_nth)
        then have "tree_clean read_check (at_index (at_key ''$'' (fst k)) i) (vs ! i)"
          using tree_clean_nth yc TArr by blast
        moreover have x: "i < length zs" "into_exchange (vs ! i) = Some (zs ! i)" using into_exchanges_nth [OF zs(1) i(1)] by simp_all
        ultimately have "text_clean s \<or> s = xe_body (zs ! i)" using exchange_texts [OF plain x(2)] i(2) by blast
        then show ?thesis using x(1) r zs(2) by (auto simp: exchanges_of_def)
      qed (use f(6) y n sy in auto)
    next
      assume n: "name = ''account''"
      show ?thesis using scalar [OF sy] into_string_cases [of y a] f(1) n y by blast
    next
      assume n: "name = ''region''"
      show ?thesis using scalar [OF sy] into_string_cases [of y b] f(2) n y by blast
    next
      assume n: "name = ''timestamp''"
      show ?thesis using scalar [OF sy] f(3) n y by (cases y) (auto simp: into_time_def)
    next
      assume n: "name = ''duration_ms''"
      show ?thesis using scalar [OF sy] into_int_cases [of y n] f(4) n y into_int_cases by blast
    next
      assume n: "name = ''calls''"
      show ?thesis using scalar [OF sy] f(5) n y into_int_cases by blast
    qed
  qed
qed (use dec s in \<open>auto simp: into_read_def\<close>)

subsection \<open>The depth bound of the walk over the state\<close>

definition members_size :: "jobject \<Rightarrow> nat" where
  "members_size m = size_list (size_prod (\<lambda>_. 0) size) m"

lemma size_TObj: "size (TObj m :: jvalue) = Suc (members_size m)"
  by (simp add: members_size_def)

lemma set_key_size: "size v \<le> size (getv m k) \<Longrightarrow> members_size (set_key m k v) \<le> members_size m"
  by (induction m k v rule: set_key.induct) (auto simp: members_size_def getv_def split: if_splits)

lemma set_text_size: "getv m k \<noteq> TNull \<Longrightarrow> members_size (set_key m k (TStr s)) \<le> members_size m"
  by (rule set_key_size) (cases "getv m k"; simp)

lemma fold_size: "(\<And>attrs x. members_size (f attrs x) \<le> members_size attrs) \<Longrightarrow> members_size (foldl f m xs) \<le> members_size m"
  by (induction xs arbitrary: m) (auto intro: le_trans)

lemma scrub_attributes_size: "members_size (scrub_attributes rt names m) \<le> members_size m"
  unfolding scrub_attributes_def Let_def
  by (auto intro!: fold_size order_trans [OF set_text_size] simp: set_text_size)

lemma scrub_instance_size: "scrub_instance loc rt item = Inr item' \<Longrightarrow> size item' \<le> size item"
proof -
  assume s: "scrub_instance loc rt item = Inr item'"
  show ?thesis
  proof (cases "\<exists>m attrs. item = TObj m \<and> getv m ''attributes'' = TObj attrs")
    case True
    then obtain m attrs where m: "item = TObj m" "getv m ''attributes'' = TObj attrs" by blast
    with s obtain names where "item' = TObj (set_key m ''attributes'' (TObj (scrub_attributes rt names attrs)))"
      by (auto simp: scrub_instance_def Let_def split: sum.splits)
    moreover have "size (TObj (scrub_attributes rt names attrs)) \<le> size (getv m ''attributes'')"
      using scrub_attributes_size [of rt names attrs] m(2) by (simp add: size_TObj del: jtree.size)
    ultimately show ?thesis using set_key_size [of _ m "''attributes''"] m(1) by (simp add: size_TObj del: jtree.size)
  next
    case False
    with s show ?thesis by (auto simp: scrub_instance_def Let_def split: sum.splits jtree.splits)
  qed
qed

lemma traverse_size:
  "traverse_sum f ps = Inr ys \<Longrightarrow> (\<And>p y. p \<in> set ps \<Longrightarrow> f p = Inr y \<Longrightarrow> size y \<le> size (snd p)) \<Longrightarrow>
   size_list size ys \<le> size_list size (map snd ps)"
proof (induction f ps arbitrary: ys rule: traverse_sum.induct)
  case (2 f x xs)
  then obtain y zs where "f x = Inr y" "traverse_sum f xs = Inr zs" "ys = y # zs"
    by (cases "f x"; cases "traverse_sum f xs") auto
  moreover from this 2 have "size_list size zs \<le> size_list size (map snd xs)" by simp
  moreover have "size y \<le> size (snd x)" using calculation(1) "2.prems"(2) [of x y] by simp
  ultimately show ?case by simp
qed simp

lemma scrub_object_size:
  assumes "scrub_object loc m = Inr m1"
  shows "members_size m1 \<le> members_size m"
proof (cases "getv m ''instances''")
  case (TArr items)
  then obtain items' where items': "m1 = set_key m ''instances'' (TArr items')"
    "traverse_sum (\<lambda>(i, item). scrub_instance (at_index (loc @ ''.instances'') i) (as_text (getv m ''type'')) item) (indexed items) = Inr items'"
    using assms
    by (cases "traverse_sum (\<lambda>(i, item). scrub_instance (at_index (loc @ ''.instances'') i) (as_text (getv m ''type'')) item) (indexed items)")
      (auto simp: scrub_object_def)
  have "size_list size items' \<le> size_list size (map snd (indexed items))"
    by (rule traverse_size [OF items'(2)]) (auto dest: scrub_instance_size)
  also have "map snd (indexed items) = items" by (simp add: indexed_def)
  finally show ?thesis using set_key_size [of "TArr items'" m "''instances''"] items'(1) TArr by simp
qed (use assms in \<open>auto simp: scrub_object_def\<close>)

lemma traverse_cong: "(\<And>x. x \<in> set xs \<Longrightarrow> f x = g x) \<Longrightarrow> traverse_sum f xs = traverse_sum g xs"
proof (induction xs)
  case (Cons x xs)
  from Cons.IH Cons.prems have "traverse_sum f xs = traverse_sum g xs" by simp
  with Cons.prems [of x] show ?case by (cases "g x") simp_all
qed simp

lemma member_size_le: "(k, x) \<in> set m \<Longrightarrow> size x \<le> members_size m"
  by (induction m) (auto simp: members_size_def)

lemma element_size: "x \<in> set xs \<Longrightarrow> size x \<le> size_list size xs"
  by (induction xs) auto

text \<open>Any bound above the size gives the same result, so the bound is never reached.\<close>

lemma scrub_depth_enough: "size v < n \<Longrightarrow> size v < k \<Longrightarrow> scrub_instances n loc v = scrub_instances k loc v"
proof (induction n arbitrary: k loc v)
  case (Suc n)
  then obtain k1 where k: "k = Suc k1" by (cases k) auto
  show ?case
  proof (cases v)
    case (TObj m)
    have "traverse_sum (\<lambda>(j, x). map_sum id (Pair j) (scrub_instances n (at_key loc j) x)) m1
        = traverse_sum (\<lambda>(j, x). map_sum id (Pair j) (scrub_instances k1 (at_key loc j) x)) m1"
      if m1: "scrub_object loc m = Inr m1" for m1
    proof (rule traverse_cong, clarify)
      fix j x assume "(j, x) \<in> set m1"
      from member_size_le [OF this] scrub_object_size [OF m1] Suc.prems k TObj
      have "size x < n" "size x < k1" by (simp_all add: size_TObj del: jtree.size)
      then show "map_sum id (Pair j) (scrub_instances n (at_key loc j) x) = map_sum id (Pair j) (scrub_instances k1 (at_key loc j) x)"
        using Suc.IH by metis
    qed
    with TObj k show ?thesis by (auto split: sum.splits)
  next
    case (TArr xs)
    have "traverse_sum (\<lambda>(i, x). scrub_instances n (at_index loc i) x) (indexed xs)
        = traverse_sum (\<lambda>(i, x). scrub_instances k1 (at_index loc i) x) (indexed xs)"
    proof (rule traverse_cong, clarify)
      fix i x assume "(i, x) \<in> set (indexed xs)"
      then have "x \<in> set xs" by (auto simp: indexed_def dest: set_zip_rightD)
      from element_size [OF this] Suc.prems k TArr have "size x < n" "size x < k1" by simp_all
      then show "scrub_instances n (at_index loc i) x = scrub_instances k1 (at_index loc i) x" by (rule Suc.IH)
    qed
    with TArr k show ?thesis by simp
  qed (use k in simp_all)
qed simp

subsection \<open>What the check leaves of an XML body\<close>

text \<open>The texts between tags: the character data up to the next start or end of an element.\<close>

fun text_runs :: "string \<Rightarrow> xml_token list \<Rightarrow> string list" where
  "text_runs run [] = [run]"
| "text_runs run (Char_Data s # ts) = text_runs (run @ s) ts"
| "text_runs run (Start_Element n a # ts) = run # text_runs [] ts"
| "text_runs run (End_Element n # ts) = run # text_runs [] ts"
| "text_runs run (t # ts) = text_runs run ts"

fun token_clean :: "xml_token \<Rightarrow> bool" where
  "token_clean (Start_Element n a) = (\<forall>(k, v) \<in> set a. text_clean v)"
| "token_clean Xml_Comment = False"
| "token_clean Xml_Directive = False"
| "token_clean (Proc_Inst target data) = (target = ''xml'' \<and> text_clean data)"
| "token_clean t = True"

lemma text_ended_Inr: "text_ended st = Inr st1 \<Longrightarrow> text_clean (xk_text st) \<and> xk_text st1 = []"
  by (auto simp: text_ended_def checked_text_clean split: option.splits)

lemma xml_step_clean:
  assumes "xml_check_step imageOwners tok st = Inr st1"
  shows "token_clean tok"
  using assms
  by (cases tok) (auto simp: xml_check_step_def first_some_None checked_text_clean split: if_splits option.splits)

lemma xml_loop_tokens_clean: "xml_check_loop imageOwners bad toks st = None \<Longrightarrow> tok \<in> set toks \<Longrightarrow> token_clean tok"
  by (induction imageOwners bad toks st rule: xml_check_loop.induct)
    (auto dest: xml_step_clean split: if_splits sum.splits)

lemma xml_loop_runs_clean:
  "xml_check_loop False bad toks st = None \<Longrightarrow> run \<in> set (text_runs (xk_text st) toks) \<Longrightarrow> text_clean run"
proof (induction False bad toks st rule: xml_check_loop.induct)
  case (1 bad st)
  then show ?case by (auto simp: checked_text_clean split: if_splits)
next
  case (2 bad tok toks st)
  then obtain st1 where st1: "xml_check_step False tok st = Inr st1" "xml_check_loop False bad toks st1 = None"
    and ne: "\<not> (is_end tok \<and> xk_names st = [])"
    by (auto split: if_splits sum.splits)
  have IH: "run \<in> set (text_runs (xk_text st1) toks) \<Longrightarrow> text_clean run"
    using "2.hyps" [OF ne st1(1)] st1(2) by simp
  show ?case
  proof (cases tok)
    case (Start_Element n a)
    then have "text_ended (st\<lparr>xk_names := xk_names st @ [n],
        xk_in_user_data := (if user_data_tag n then xk_in_user_data st + 1 else xk_in_user_data st)\<rparr>) = Inr st1"
      using st1(1) by (auto simp: xml_check_step_def split: option.splits if_splits)
    from text_ended_Inr [OF this] IH "2.prems"(2) Start_Element show ?thesis by auto
  next
    case (End_Element n)
    then have "text_ended (close_element False n st) = Inr st1"
      using st1(1) by (simp add: xml_check_step_def split: option.splits)
    from text_ended_Inr [OF this] IH "2.prems"(2) End_Element show ?thesis
      by (auto simp: close_element_def image_owner_text_def Let_def)
  qed (use st1(1) IH "2.prems"(2) in \<open>auto simp: xml_check_step_def split: if_splits option.splits\<close>)
qed

definition xml_clean :: "scrub_codec \<Rightarrow> scrub_exchange \<Rightarrow> bool" where
  "xml_clean c x \<longleftrightarrow> text_clean (awsMaskPublicImageOwners x)
     \<and> (\<forall>p \<in> set (fst (sc_xml c (xe_body x))). token_clean (fst p))
     \<and> (\<not> awsImageOwnerExchange x \<longrightarrow> (\<forall>run \<in> set (text_runs [] (map fst (fst (sc_xml c (xe_body x))))). text_clean run))"

lemma checked_XML:
  assumes "checkScrubbedText (awsMaskPublicImageOwners x) = None" "checkScrubbedXML c (xe_body x) (awsImageOwnerExchange x) = None"
  shows "xml_clean c x"
proof -
  let ?st = "\<lparr>xk_names = [], xk_text = [], xk_user_data = [], xk_in_user_data = 0\<rparr>"
  obtain ps bad where sx: "sc_xml c (xe_body x) = (ps, bad)" by fastforce
  have loop: "xml_check_loop (awsImageOwnerExchange x) bad (map fst ps) ?st = None"
    using assms(2) by (simp add: checkScrubbedXML_def sx)
  have "\<not> awsImageOwnerExchange x \<Longrightarrow> run \<in> set (text_runs [] (map fst ps)) \<Longrightarrow> text_clean run" for run
    using xml_loop_runs_clean [of bad "map fst ps" ?st run] loop by simp
  moreover have "p \<in> set ps \<Longrightarrow> token_clean (fst p)" for p
    using xml_loop_tokens_clean [OF loop, of "fst p"] by simp
  ultimately show ?thesis using assms(1) by (auto simp: xml_clean_def sx checked_text_clean)
qed

text \<open>A JSON body: clean throughout, and every member named \<^verbatim>\<open>Value\<close> hidden or public.\<close>

definition value_hidden :: "jobject \<Rightarrow> bool" where
  "value_hidden m \<longleftrightarrow> (\<forall>(k, v) \<in> set m. equal_fold k ''Value'' \<longrightarrow> v = TStr AWSScrubParameterValue \<or> public_parameter (getv m ''Name''))"

lemma no_skip_texts: "tree_clean (no_skip b) loc t \<Longrightarrow> s \<in> set (tree_texts t) \<Longrightarrow> text_clean s"
  by (rule unskipped_texts_clean) (auto simp: no_skip_def)

definition body_clean :: "scrub_codec \<Rightarrow> scrub_exchange \<Rightarrow> bool" where
  "body_clean c x \<longleftrightarrow>
     (if xe_protocol x = awsProtocolQuery then xml_clean c x
      else xe_protocol x = awsProtocolJSON
        \<and> (\<exists>t. one_value (sc_json c (xe_body x)) = Some t \<and> (\<forall>s \<in> set (tree_texts t). text_clean s)
             \<and> (\<forall>(loc, m) \<in> set (objects_in ''$'' (to_any (map_jtree fst t))). value_hidden m)))"

lemma checked_body:
  assumes "body_error c x = None"
  shows "body_clean c x"
proof (cases "xe_protocol x = awsProtocolQuery")
  case True
  with assms checked_XML show ?thesis by (auto simp: body_error_def body_clean_def split: option.splits)
next
  case False
  with assms have j: "xe_protocol x = awsProtocolJSON" "checkScrubbedJSONBody c (xe_body x) = None"
    by (auto simp: body_error_def split: if_splits)
  then have ck: "check (no_skip True) (sc_json c (xe_body x)) = None"
    by (auto simp: checkScrubbedJSONBody_def split: option.splits)
  from check_clean [OF this] obtain t where t: "one_value (sc_json c (xe_body x)) = Some t" "tree_clean (no_skip True) ''$'' t"
    by blast
  have "(loc, m) \<in> set (objects_in ''$'' (to_any (map_jtree fst t))) \<Longrightarrow> value_hidden m" for loc m
    using j(2) ck t(1)
    by (fastforce simp: checkScrubbedJSONBody_def decode_any_def walkJSONObjects_def first_some_None value_hidden_def
        split: if_splits)
  with False j(1) t no_skip_texts show ?thesis by (auto simp: body_clean_def)
qed

definition read_clean :: "scrub_codec \<Rightarrow> string \<Rightarrow> bool" where
  "read_clean c data \<longleftrightarrow> (\<exists>t r. one_value (sc_json c data) = Some t \<and> into_read c t = Some r
     \<and> rf_account r = AWSScrubAccount
     \<and> (\<forall>s \<in> set (tree_texts t). text_clean s \<or> (\<exists>x \<in> set (exchanges_of r). s = xe_body x))
     \<and> (\<forall>x \<in> set (exchanges_of r). body_clean c x))"

lemma checked_read:
  assumes "checkScrubbedAWSRead c data = None"
  shows "read_clean c data"
proof -
  have ck: "check read_check (sc_json c data) = None"
    using assms by (auto simp: checkScrubbedAWSRead_def split: option.splits)
  from check_clean [OF this] obtain t where t: "one_value (sc_json c data) = Some t" "tree_clean read_check ''$'' t" by blast
  obtain r where r: "into_read c t = Some r" and acc: "rf_account r = AWSScrubAccount"
    and bodies: "first_some (\<lambda>(i, x). map_option (\<lambda>e. at_index ''$.exchanges'' i @ ''.body: '' @ e) (body_error c x))
                      (indexed (exchanges_of r)) = None"
    using assms ck t(1) by (auto simp: checkScrubbedAWSRead_def decode_read_def split: option.splits if_splits)
  have "body_clean c x" if "x \<in> set (exchanges_of r)" for x
  proof -
    from that obtain i where "i < length (exchanges_of r)" "exchanges_of r ! i = x" by (metis in_set_conv_nth)
    then have "(i, x) \<in> set (indexed (exchanges_of r))" by (auto simp: indexed_def in_set_zip intro: exI [of _ i])
    then have "body_error c x = None" using bodies by (fastforce simp: first_some_None)
    then show ?thesis by (rule checked_body)
  qed
  with t r acc read_texts [OF r t(2)] show ?thesis by (auto simp: read_clean_def)
qed

subsection \<open>What the check leaves of the state\<close>

definition attributes_hidden :: "string \<Rightarrow> jvalue \<Rightarrow> bool" where
  "attributes_hidden resourceType item \<longleftrightarrow>
     (let attributes = as_object (getv (as_object item) ''attributes'') in
      \<exists>names. awsSensitiveAttributes (getv (as_object item) ''sensitive_attributes'') = Inr names
        \<and> (\<forall>name \<in> set names \<union> (if resourceType = ''aws_ssm_parameter'' then set awsSSMValueKeys else {}).
              awsHiddenStateValue (getv attributes name) \<or> awsPublicStateValue resourceType attributes name))"

definition state_hidden :: "jvalue \<Rightarrow> bool" where
  "state_hidden v \<longleftrightarrow>
     (\<forall>(name, item) \<in> set (as_object (getv (as_object v) ''outputs'')).
        awsSensitiveOutput (as_object item) \<longrightarrow> awsHiddenStateValue (getv (as_object item) ''value''))
     \<and> (\<forall>(loc, m) \<in> set (objects_in ''$'' v).
          (\<forall>key \<in> set awsStateUserDataKeys. getv m key \<in> {TNull, TStr AWSScrubUserData, TStr AWSScrubSensitiveValue})
          \<and> (\<forall>items. getv m ''instances'' = TArr items \<longrightarrow> (\<forall>item \<in> set items. attributes_hidden (as_text (getv m ''type'')) item)))"

lemma visited_instance_hidden:
  assumes "visit_instance state_attributes_error loc rt item = None"
  shows "attributes_hidden rt item"
proof -
  obtain names where n: "awsSensitiveAttributes (getv (as_object item) ''sensitive_attributes'') = Inr names"
    and v: "state_attributes_error loc rt (as_object (getv (as_object item) ''attributes'')) names = None"
    using assms by (auto simp: visit_instance_def Let_def split: sum.splits)
  have "name \<in> set names \<Longrightarrow> awsHiddenStateValue (getv (as_object (getv (as_object item) ''attributes'')) name)
      \<or> awsPublicStateValue rt (as_object (getv (as_object item) ''attributes'')) name" for name
    using v by (auto simp: state_attributes_error_def first_some_None split: option.splits if_splits)
  moreover have "rt = ''aws_ssm_parameter'' \<Longrightarrow> name \<in> set awsSSMValueKeys \<Longrightarrow>
      awsHiddenStateValue (getv (as_object (getv (as_object item) ''attributes'')) name)
      \<or> awsPublicStateValue rt (as_object (getv (as_object item) ''attributes'')) name" for name
    using v by (auto simp: state_attributes_error_def first_some_None split: option.splits if_splits)
  ultimately show ?thesis using n by (auto simp: attributes_hidden_def Let_def)
qed

lemma checked_values:
  assumes "checkScrubbedStateOutputs v = None" "checkScrubbedStateValues v = None"
  shows "state_hidden v"
proof -
  have ud: "walkJSONObjects ''$'' v state_user_data_error = None" and inst: "walkAWSStateInstances v state_attributes_error = None"
    using assms(2) by (auto simp: checkScrubbedStateValues_def split: option.splits)
  have 1: "getv m key \<in> {TNull, TStr AWSScrubUserData, TStr AWSScrubSensitiveValue}"
    if "(loc, m) \<in> set (objects_in ''$'' v)" "key \<in> set awsStateUserDataKeys" for loc m key
  proof -
    have "state_user_data_error loc m = None" using ud that(1) by (fastforce simp: walkJSONObjects_def first_some_None)
    then have "\<forall>key \<in> set awsStateUserDataKeys. getv m key \<in> {TNull, TStr AWSScrubUserData, TStr AWSScrubSensitiveValue}"
      by (auto simp: state_user_data_error_def first_some_None split: if_splits)
    with that(2) show ?thesis by blast
  qed
  have 2: "attributes_hidden (as_text (getv m ''type'')) item"
    if m: "(loc, m) \<in> set (objects_in ''$'' v)" and items: "getv m ''instances'' = TArr items" and item: "item \<in> set items" for loc m items item
  proof -
    from item obtain i where "i < length items" "items ! i = item" by (metis in_set_conv_nth)
    then have "(i, item) \<in> set (indexed items)" by (auto simp: indexed_def in_set_zip intro: exI [of _ i])
    moreover have "first_some (\<lambda>(i, item). visit_instance state_attributes_error (at_index (loc @ ''.instances'') i) (as_text (getv m ''type'')) item) (indexed items) = None"
      using inst m items by (fastforce simp: walkAWSStateInstances_def walkJSONObjects_def first_some_None)
    ultimately have "visit_instance state_attributes_error (at_index (loc @ ''.instances'') i) (as_text (getv m ''type'')) item = None"
      by (fastforce simp: first_some_None)
    then show ?thesis by (rule visited_instance_hidden)
  qed
  have 3: "awsHiddenStateValue (getv (as_object item) ''value'')"
    if "(name, item) \<in> set (as_object (getv (as_object v) ''outputs''))" "awsSensitiveOutput (as_object item)" for name item
    using assms(1) that
    by (cases "getv (as_object v) ''outputs''") (fastforce simp: checkScrubbedStateOutputs_def first_some_None Let_def split: if_splits)+
  show ?thesis using 1 2 3 unfolding state_hidden_def by blast
qed

definition state_clean :: "scrub_codec \<Rightarrow> string \<Rightarrow> bool" where
  "state_clean c data \<longleftrightarrow> (\<exists>t. one_value (sc_json c data) = Some t \<and> (\<forall>s \<in> set (tree_texts t). text_clean s)
     \<and> state_hidden (to_any (map_jtree fst t)))"

lemma checked_state:
  assumes "checkScrubbedAWSState c data = None"
  shows "state_clean c data"
proof -
  have ck: "check (no_skip False) (sc_json c data) = None"
    using assms by (auto simp: checkScrubbedAWSState_def split: option.splits)
  from check_clean [OF this] obtain t where t: "one_value (sc_json c data) = Some t" "tree_clean (no_skip False) ''$'' t" by blast
  have "state_hidden (to_any (map_jtree fst t))"
    using assms ck t(1) by (auto simp: checkScrubbedAWSState_def decode_any_def intro: checked_values split: option.splits)
  with t no_skip_texts show ?thesis by (auto simp: state_clean_def)
qed

subsection \<open>The write\<close>

lemma writePrivateFile_log:
  "writePrivateFile io file data st = (r, st1) \<Longrightarrow>
   sl_written st1 = sl_written st \<or> sl_written st1 = sl_written st @ [(file, data)]"
  by (auto simp: writePrivateFile_def split: prod.splits sum.splits option.splits)

definition scrubbed_outputs :: "scrub_codec \<Rightarrow> string \<Rightarrow> string \<times> string \<Rightarrow> bool" where
  "scrubbed_outputs c outDir p \<longleftrightarrow> (case p of (file, data) \<Rightarrow>
     file = Criteria.path_join outDir AWSScrubbedReadFile \<and> read_clean c data
     \<or> file = Criteria.path_join outDir AWSScrubbedStateFile \<and> state_clean c data)"

lemma checked_outputs:
  assumes "CheckScrubbedRead c a r b s = None"
  shows "read_clean c r \<and> state_clean c s"
  using assms checked_read [of c r] checked_state [of c s] by (auto simp: CheckScrubbedRead_def split: option.splits)

text \<open>
  C33. Whatever the write hands to a file, whatever the read, the state, the decoders and the disk are: what goes
  under the read's name parses as a recorded read of the synthetic account whose every key, string and number is
  clean or is an exchange's body, each body clean by its protocol; what goes under the state's name is clean
  throughout and hides sensitive outputs, user data, sensitive attributes and private parameters. Nothing goes
  under another name.
\<close>

theorem only_clean_bytes_are_written:
  "case WriteScrubbedAWSRead c io readPath statePath outDir st of
     (r, st1) \<Rightarrow> \<exists>new. sl_written st1 = sl_written st @ new \<and> list_all (scrubbed_outputs c outDir) new"
proof -
  obtain r st1 where run: "WriteScrubbedAWSRead c io readPath statePath outDir st = (r, st1)" by fastforce
  let ?done = "\<lambda>st1. \<exists>new. sl_written st1 = sl_written st @ new \<and> list_all (scrubbed_outputs c outDir) new"
  have same: "sl_written st1 = sl_written st \<Longrightarrow> ?done st1" by simp
  show ?thesis
  proof (cases "sl_written st1 = sl_written st")
    case False
    define readOut stateOut where "readOut = Criteria.path_join outDir AWSScrubbedReadFile"
      and "stateOut = Criteria.path_join outDir AWSScrubbedStateFile"
    note defs = WriteScrubbedAWSRead_def readOut_def [symmetric] stateOut_def [symmetric] Let_def
    obtain raw where raw: "io_read io readPath (sl_world st) = Inr raw"
      using run False by (cases "io_read io readPath (sl_world st)") (simp_all add: defs)
    obtain kept where kept: "io_read io statePath (sl_world st) = Inr kept"
      using run False raw by (cases "io_read io statePath (sl_world st)") (simp_all add: defs)
    obtain rd sd where scrubbed: "scrubAWSRead c raw kept = Inr (rd, sd)"
      using run False raw kept by (cases "scrubAWSRead c raw kept") (auto simp: defs)
    have ck: "CheckScrubbedRead c readOut rd stateOut sd = None"
      using run False raw kept scrubbed by (cases "CheckScrubbedRead c readOut rd stateOut sd") (simp_all add: defs)
    obtain w1 where "io_mkdir io outDir (sl_world st) = (None, w1)"
      using run False raw kept scrubbed ck
      by (cases "io_mkdir io outDir (sl_world st)"; cases "fst (io_mkdir io outDir (sl_world st))") (auto simp: defs)
    then have wr: "(case writePrivateFile io readOut rd (st\<lparr>sl_world := w1\<rparr>) of
        (Some e, st1) \<Rightarrow> (Some e, st1) | (None, st1) \<Rightarrow> writePrivateFile io stateOut sd st1) = (r, st1)"
      using run raw kept scrubbed ck by (simp add: defs)
    have ok: "scrubbed_outputs c outDir (readOut, rd)" "scrubbed_outputs c outDir (stateOut, sd)"
      using checked_outputs [OF ck] by (auto simp: scrubbed_outputs_def readOut_def stateOut_def)
    obtain r2 st2 where w: "writePrivateFile io readOut rd (st\<lparr>sl_world := w1\<rparr>) = (r2, st2)" by fastforce
    note l1 = writePrivateFile_log [OF w]
    show ?thesis
    proof (cases r2)
      case None
      with wr w have "writePrivateFile io stateOut sd st2 = (r, st1)" by simp
      from writePrivateFile_log [OF this] l1 ok run show ?thesis by (elim disjE) simp_all
    next
      case (Some e)
      with wr w l1 ok run show ?thesis by (elim disjE) simp_all
    qed
  qed (use run in simp)
qed

end
