(* ===== verification/Hcl_Gate.thy ===== *)
theory Hcl_Gate
  imports Probe Aws_Post_Apply
begin

text \<open>
  The rules that both Layer 3 gates check an HCL configuration by (\<^verbatim>\<open>cli/layer3_hcl_shape.go\<close>), and the Scaleway
  gate, \<^verbatim>\<open>validateLayer3HCLShape\<close>, which is made of them.

  The syntax tree is the one package \<^verbatim>\<open>hclsyntax\<close> parses a file into, as far as the rules look: an expression
  the rules never name is \<open>Other_Expr\<close> with its children in the order \<^verbatim>\<open>Walk\<close> visits them. The evaluation of a
  constant expression, \<^verbatim>\<open>expr.Value(nil)\<close>, is the parser library's and is the argument \<open>ev\<close>, and so is what a file
  parses to. A body's attributes are the list of their names and expressions; the code ranges over a map, and
  sorts what it found in the end. A block always has a body, as a parsed one does.
\<close>

subsection \<open>Values\<close>

text \<open>A number is the float64 nearest to it, a mantissa times a power of two, with its \<^verbatim>\<open>%g\<close> text.\<close>

datatype cty =
    Cty_Null
  | Cty_Unknown
  | Cty_Bool bool
  | Cty_Num int int string
  | Cty_Str string
  | Cty_Seq "cty list"
  | Cty_Obj "(string \<times> cty) list"

definition num_exceeds :: "int \<Rightarrow> int \<Rightarrow> int \<Rightarrow> bool" where
  "num_exceeds m e bound = (if 0 \<le> e then bound < m * 2 ^ nat e else bound * 2 ^ nat (- e) < m)"

fun obj_attr :: "cty \<Rightarrow> string \<Rightarrow> cty option" where
  "obj_attr (Cty_Obj m) k = map_of m k"
| "obj_attr v k = None"

fun is_obj :: "cty \<Rightarrow> bool" where
  "is_obj (Cty_Obj m) = True"
| "is_obj v = False"

subsection \<open>Expressions and blocks\<close>

datatype step =
    Root_Step string
  | Attr_Step string
  | Index_Step cty
  | Splat_Step

text \<open>An object key carries the keyword it reads as and what \<^verbatim>\<open>Walk\<close> descends into, nothing for a bare key.\<close>

datatype expr =
    Literal cty
  | Scope_Traversal "step list"
  | Relative_Traversal expr "step list"
  | Function_Call string "expr list" bool \<comment> \<open>and whether the last argument is expanded\<close>
  | Index_Expr expr expr
  | Parens expr
  | Tuple_Cons "expr list"
  | Object_Cons "(expr \<times> expr) list"
  | Object_Key string "expr list"
  | For_Expr string string "expr list"
  | Template "expr list"
  | Other_Expr "expr list"

datatype block =
  Block (bl_type: string) (bl_labels: "string list") (bl_attrs: "(string \<times> expr) list") (bl_blocks: "block list")
    (bl_line: nat)

type_synonym body = "block list"
type_synonym var_defaults = "string \<Rightarrow> cty option"

definition attr_of :: "block \<Rightarrow> string \<Rightarrow> expr option" where
  "attr_of b name = map_of (bl_attrs b) name"

fun root_name :: "step list \<Rightarrow> string" where
  "root_name (Root_Step n # ts) = n"
| "root_name ts = []"

fun children :: "expr \<Rightarrow> expr list" where
  "children (Literal v) = []"
| "children (Scope_Traversal ts) = []"
| "children (Relative_Traversal e ts) = [e]"
| "children (Function_Call f es x) = es"
| "children (Index_Expr a b) = [a, b]"
| "children (Parens e) = [e]"
| "children (Tuple_Cons es) = es"
| "children (Object_Cons items) = concat (map (\<lambda>(k, v). [k, v]) items)"
| "children (Object_Key k es) = es"
| "children (For_Expr k v es) = es"
| "children (Template es) = es"
| "children (Other_Expr es) = es"

lemma size_member: "x \<in> set xs \<Longrightarrow> size x < Suc (size_list size xs)"
  by (induction xs) auto

lemma children_size: "c \<in> set (children e) \<Longrightarrow> size c < size e"
proof (cases e)
  case (Object_Cons items)
  then show "c \<in> set (children e) \<Longrightarrow> size c < size e"
    by (induction items arbitrary: e) (fastforce split: prod.splits)+
qed (auto dest: size_member)

text \<open>\<^verbatim>\<open>hclsyntax.Walk\<close>: enter, the children in order, exit.\<close>

function hcl_walk :: "(expr \<Rightarrow> 's \<Rightarrow> 's) \<Rightarrow> (expr \<Rightarrow> 's \<Rightarrow> 's) \<Rightarrow> expr \<Rightarrow> 's \<Rightarrow> 's" where
  "hcl_walk enter leave e s = leave e (fold (hcl_walk enter leave) (children e) (enter e s))"
  by pat_completeness auto
termination by (relation "measure (\<lambda>(_, _, e, _). size e)") (auto dest: children_size)

declare hcl_walk.simps [simp del]

function subexprs :: "expr \<Rightarrow> expr list" where
  "subexprs e = e # concat (map subexprs (children e))"
  by pat_completeness auto
termination by (relation "measure size") (auto dest: children_size)

declare subexprs.simps [simp del]

fun subblocks :: "block \<Rightarrow> block list" where
  "subblocks (Block ty labels attrs inner line) =
     Block ty labels attrs inner line # concat (map subblocks inner)"

declare subblocks.simps [simp del]

subsection \<open>Parsing a stack\<close>

definition has_any_suffix :: "string \<Rightarrow> string list \<Rightarrow> bool" where
  "has_any_suffix s exts = list_ex (has_suffix s) exts"

definition layer3UnreadableConfigExt :: "string \<Rightarrow> bool" where
  "layer3UnreadableConfigExt name \<longleftrightarrow>
     name = ''terraform.tfvars'' \<or> name = ''terraform.tfvars.json''
     \<or> has_any_suffix name [''.tf.json'', ''.tofu.json'', ''.tofu'', ''.auto.tfvars'', ''.auto.tfvars.json'']"

text \<open>What a file holds: the failure to read it, the diagnostics of the parser, or its blocks.\<close>

datatype hcl_file =
    Unread string
  | Unparsed string
  | Parsed body

definition layer3ParseFile :: "(string \<Rightarrow> hcl_file) \<Rightarrow> string \<Rightarrow> string + body option" where
  "layer3ParseFile src name =
     (if layer3UnreadableConfigExt name
      then Inl (''layer 3 refuses '' @ name @ '': tofu loads it automatically but this validator does not read it'')
      else if \<not> has_suffix name ''.tf'' then Inr None
      else case src name of
             Unread e \<Rightarrow> Inl (''read '' @ name @ '': '' @ e)
           | Unparsed e \<Rightarrow> Inl (''layer 3 refuses '' @ name @ '': cannot parse it, so cannot vouch for it ('' @ e @ '')'')
           | Parsed b \<Rightarrow> Inr (Some b))"

type_synonym evaluator = "expr \<Rightarrow> cty option"

definition known_value :: "evaluator \<Rightarrow> expr \<Rightarrow> cty option" where
  "known_value ev e = (case ev e of None \<Rightarrow> None | Some v \<Rightarrow> if v = Cty_Null then None else Some v)"

definition layer3VariableDefaults :: "evaluator \<Rightarrow> body \<Rightarrow> var_defaults \<Rightarrow> var_defaults" where
  "layer3VariableDefaults ev blocks into =
     foldl (\<lambda>d b.
       if bl_type b \<noteq> ''variable'' then d
       else case (bl_labels b, attr_of b ''default'') of
              (name # _, Some e) \<Rightarrow> (case known_value ev e of None \<Rightarrow> d | Some v \<Rightarrow> d(name \<mapsto> v))
            | _ \<Rightarrow> d) into blocks"

text \<open>The entries of the directory are sorted by name; a directory among them is skipped.\<close>

fun parse_entries :: "evaluator \<Rightarrow> (string \<Rightarrow> hcl_file) \<Rightarrow> (string \<times> bool) list \<Rightarrow> (string \<times> body) list \<Rightarrow> var_defaults
    \<Rightarrow> string + (string \<times> body) list \<times> var_defaults" where
  "parse_entries ev src [] parsed defs = Inr (parsed, defs)"
| "parse_entries ev src ((name, is_dir) # rest) parsed defs =
     (if is_dir then parse_entries ev src rest parsed defs
      else case layer3ParseFile src name of
             Inl e \<Rightarrow> Inl e
           | Inr None \<Rightarrow> parse_entries ev src rest parsed defs
           | Inr (Some b) \<Rightarrow>
               parse_entries ev src rest (parsed @ [(name, b)]) (layer3VariableDefaults ev b defs))"

record stack_dir =
  sd_entries :: "string + (string \<times> bool) list" \<comment> \<open>name and whether it is a directory, or why it cannot be read\<close>
  sd_source :: "string \<Rightarrow> hcl_file"

definition layer3ParseDir :: "evaluator \<Rightarrow> stack_dir \<Rightarrow> string + (string \<times> body) list \<times> var_defaults" where
  "layer3ParseDir ev d =
     (case sd_entries d of
        Inl e \<Rightarrow> Inl (''read output directory for layer 3 HCL validation: '' @ e)
      | Inr entries \<Rightarrow> parse_entries ev (sd_source d) entries [] (\<lambda>_. None))"

subsection \<open>Blocks\<close>

definition layer3AllowedTopLevelBlocks :: "string list" where
  "layer3AllowedTopLevelBlocks = [''terraform'', ''provider'', ''variable'', ''output'', ''locals'', ''resource'']"

definition layer3DeniedNestedBlocks :: "string list" where
  "layer3DeniedNestedBlocks = [''provisioner'', ''connection'', ''lifecycle'', ''backend'', ''cloud'', ''dynamic'']"

definition layer3TopLevelBlockProblem :: "block \<Rightarrow> string \<Rightarrow> string option" where
  "layer3TopLevelBlockProblem b file =
     (if bl_type b \<in> set layer3AllowedTopLevelBlocks then None
      else Some (file @ '': '' @ quote (bl_type b) @ '' blocks are not permitted''))"

fun layer3NestedProblems :: "string \<Rightarrow> block \<Rightarrow> string list" where
  "layer3NestedProblems file (Block ty labels attrs inner line) =
     concat (map (\<lambda>nested.
       (if bl_type nested \<in> set layer3DeniedNestedBlocks
        then [file @ '': '' @ quote (bl_type nested)
                @ '' executes commands during apply, in a process holding cloud credentials''] else [])
       @ layer3NestedProblems file nested) inner)"

definition resourceTypeAllowed :: "string \<Rightarrow> string list \<Rightarrow> bool" where
  "resourceTypeAllowed ty allowed =
     list_ex (\<lambda>pat. if has_suffix pat ''*'' then has_prefix ty (butlast pat) else ty = pat) allowed"

definition layer3ResourceTypeProblem :: "block \<Rightarrow> string \<Rightarrow> string \<Rightarrow> string list \<Rightarrow> string option" where
  "layer3ResourceTypeProblem b file pre allowed =
     (case bl_labels b of
        [] \<Rightarrow> None
      | ty # _ \<Rightarrow>
          if \<not> has_prefix ty pre
          then Some (file @ '': resource type '' @ quote ty @ '' is not a '' @ pre @ ''* type; this stack'' @ [apostrophe]
                 @ ''s gate checks no other cloud'' @ [apostrophe] @ ''s resources, whatever allow_resource_types lists'')
          else if \<not> resourceTypeAllowed ty allowed
          then Some (file @ '': resource type '' @ quote ty @ '' is not in allow_resource_types'')
          else None)"

definition layer3ProviderBlockProblems :: "block \<Rightarrow> string \<Rightarrow> string \<Rightarrow> string list \<Rightarrow> string list" where
  "layer3ProviderBlockProblems b file label safe =
     (case bl_labels b of
        l # _ \<Rightarrow>
          if l \<noteq> label then [file @ '': provider '' @ quote l @ '' is not permitted'']
          else map (\<lambda>(name, _). file @ '': provider setting '' @ quote name
                 @ '' is not permitted (the endpoint and project come from the sealed environment, not from the configuration)'')
               (filter (\<lambda>(name, _). name \<notin> set safe) (bl_attrs b))
      | [] \<Rightarrow> map (\<lambda>(name, _). file @ '': provider setting '' @ quote name
                 @ '' is not permitted (the endpoint and project come from the sealed environment, not from the configuration)'')
               (filter (\<lambda>(name, _). name \<notin> set safe) (bl_attrs b)))"

definition layer3TerraformBlockProblems :: "block \<Rightarrow> string \<Rightarrow> string list" where
  "layer3TerraformBlockProblems b file =
     map (\<lambda>(name, _). file @ '': terraform setting '' @ quote name @ '' is not permitted in a Layer 3 stack'')
       (filter (\<lambda>(name, _). name \<noteq> ''required_version'') (bl_attrs b))
     @ map (\<lambda>inner. file @ '': terraform block '' @ quote (bl_type inner)
         @ '' is not permitted in a Layer 3 stack (it runs before any resource, holding the cloud credentials)'')
       (filter (\<lambda>inner. bl_type inner \<noteq> ''required_providers'') (bl_blocks b))"

record provider_pin =
  pin_name :: string
  pin_source :: string
  pin_version :: string

definition layer3ProviderVersionProblem :: "cty \<Rightarrow> string \<Rightarrow> string \<Rightarrow> provider_pin \<Rightarrow> string option" where
  "layer3ProviderVersionProblem val file name pin =
     (case obj_attr val ''version'' of
        None \<Rightarrow> Some (file @ '': required_provider '' @ quote name @ '' declares no version; it must pin exactly ''
               @ quote (pin_version pin) @ '', or tofu init downloads whatever the registry is serving'')
      | Some (Cty_Str v) \<Rightarrow>
          if v \<noteq> pin_version pin
          then Some (file @ '': required_provider '' @ quote name @ '' pins version '' @ quote v
                 @ ''; the gate only runs provider '' @ quote (pin_version pin) @ ''. A range such as '' @ quote ''~> 2.57''
                 @ '' is not a pin -- it resolves to whatever the registry serves at init time'')
          else None
      | Some _ \<Rightarrow> Some (file @ '': required_provider '' @ quote name @ '' has a version this check cannot read''))"

text \<open>One entry of \<^verbatim>\<open>required_providers\<close>: its problem, or nothing when it is the pin by source and version.\<close>

definition provider_entry_problem :: "evaluator \<Rightarrow> string \<Rightarrow> provider_pin \<Rightarrow> string \<Rightarrow> expr \<Rightarrow> string option" where
  "provider_entry_problem ev file pin name e =
     (case ev e of
        None \<Rightarrow> Some (file @ '': required_provider '' @ quote name @ '' is not a literal object this check can verify'')
      | Some val \<Rightarrow>
          if \<not> is_obj val
          then Some (file @ '': required_provider '' @ quote name @ '' is not a literal object this check can verify'')
          else case obj_attr val ''source'' of
                 None \<Rightarrow> Some (file @ '': required_provider '' @ quote name @ '' declares no source'')
               | Some src \<Rightarrow>
                   if src \<noteq> Cty_Str (pin_source pin)
                   then Some (file @ '': required_provider '' @ quote name @ '' must be source '' @ quote (pin_source pin)
                          @ '' (a provider binary is code, and this one is chosen by the PR)'')
                   else layer3ProviderVersionProblem val file name pin)"

definition provider_entries :: "block \<Rightarrow> (string \<times> expr) list" where
  "provider_entries b = concat (map bl_attrs (filter (\<lambda>inner. bl_type inner = ''required_providers'') (bl_blocks b)))"

definition layer3ProviderSourceProblems :: "evaluator \<Rightarrow> block \<Rightarrow> string \<Rightarrow> provider_pin \<Rightarrow> string list \<times> bool" where
  "layer3ProviderSourceProblems ev b file pin =
     (List.map_filter (\<lambda>(name, e). provider_entry_problem ev file pin name e) (provider_entries b),
      list_ex (\<lambda>(name, e). name = pin_name pin \<and> provider_entry_problem ev file pin name e = None) (provider_entries b))"

definition layer3MissingProviderProblem :: "bool \<Rightarrow> provider_pin \<Rightarrow> string option" where
  "layer3MissingProviderProblem saw pin =
     (if saw then None
      else Some (''no terraform.required_providers entry declares source '' @ quote (pin_source pin)
             @ '', so the provider binary would be resolved implicitly''))"

definition resource_name :: "block \<Rightarrow> string" where
  "resource_name b = (case bl_labels b of _ # n # _ \<Rightarrow> n | _ \<Rightarrow> ''<unnamed>'')"

definition layer3MultiplicityProblems :: "block \<Rightarrow> string \<Rightarrow> string list" where
  "layer3MultiplicityProblems b file =
     map (\<lambda>meta. file @ '': '' @ resource_name b @ '' sets '' @ meta
         @ ''; Layer 3 applies to real infrastructure, so how MANY resources a fixture creates is not the PR'' @ [apostrophe]
         @ ''s to choose (and '' @ meta @ '' = 0 would make the gate verify nothing and still report green)'')
       (filter (\<lambda>meta. attr_of b meta \<noteq> None) [''count'', ''for_each''])"

subsection \<open>Function calls\<close>

definition layer3PureFunctions :: "string list" where
  "layer3PureFunctions =
     [''one'', ''concat'', ''merge'', ''lookup'', ''element'', ''length'', ''keys'', ''values'', ''flatten'', ''distinct'',
      ''compact'', ''slice'', ''contains'', ''coalesce'', ''coalescelist'', ''zipmap'', ''range'', ''tolist'', ''toset'',
      ''tomap'', ''format'', ''formatlist'', ''join'', ''split'', ''replace'', ''substr'', ''trimspace'', ''trim'',
      ''trimprefix'', ''trimsuffix'', ''lower'', ''upper'', ''title'', ''chomp'', ''regex'', ''regexall'', ''strcontains'',
      ''max'', ''min'', ''abs'', ''ceil'', ''floor'', ''tostring'', ''tonumber'', ''tobool'', ''jsonencode'', ''jsondecode'',
      ''try'', ''can'', ''cidrsubnet'', ''cidrhost'', ''cidrnetmask'']"

fun enter_call :: "expr \<Rightarrow> string list \<Rightarrow> string list" where
  "enter_call (Function_Call f es x) found = found @ [f]"
| "enter_call e found = found"

definition layer3CallsIn :: "expr \<Rightarrow> string list" where
  "layer3CallsIn e = hcl_walk enter_call (\<lambda>_ s. s) e []"

definition impure_call_text :: "string \<Rightarrow> string \<Rightarrow> string \<Rightarrow> string" where
  "impure_call_text file name f =
     file @ '': '' @ name @ '' calls '' @ f @ ''(), which is not on the pure-function allowlist; Layer 3 evaluates this ''
       @ ''HCL with real credentials in the environment, and a function that reads the filesystem can put them in a ''
       @ ''resource attribute''"

text \<open>The exemption is asked of every attribute, with its block.\<close>

fun layer3FunctionCallProblems :: "string \<Rightarrow> (block \<Rightarrow> string \<Rightarrow> expr \<Rightarrow> bool) \<Rightarrow> block \<Rightarrow> string list" where
  "layer3FunctionCallProblems file exempt (Block ty labels attrs inner line) =
     concat (map (\<lambda>(name, e).
       if ty = ''variable'' \<and> name = ''type'' then []
       else if exempt (Block ty labels attrs inner line) name e then []
       else map (impure_call_text file name) (filter (\<lambda>f. f \<notin> set layer3PureFunctions) (layer3CallsIn e))) attrs)
     @ concat (map (layer3FunctionCallProblems file exempt) inner)"

subsection \<open>Constants and costs\<close>

definition layer3ResolveConstant :: "evaluator \<Rightarrow> var_defaults \<Rightarrow> expr \<Rightarrow> cty option" where
  "layer3ResolveConstant ev defs e =
     (case e of
        Scope_Traversal ts \<Rightarrow>
          (case ts of
             Root_Step ''var'' # Attr_Step n # _ \<Rightarrow> defs n
           | _ \<Rightarrow> None)
      | _ \<Rightarrow> known_value ev e)"

definition layer3NumericBounds :: "string \<Rightarrow> (string \<times> int) list" where
  "layer3NumericBounds ty =
     (if ty = ''scaleway_block_volume'' then [(''size_in_gb'', 20), (''iops'', 15000)] else [])"

definition layer3EnumBounds :: "string \<Rightarrow> (string \<times> string list) list" where
  "layer3EnumBounds ty =
     (if ty = ''scaleway_instance_server'' then [(''type'', [''DEV1-S'', ''DEV1-M'', ''PLAY2-PICO'', ''PLAY2-NANO''])]
      else if ty = ''scaleway_lb'' then [(''type'', [''LB-S''])] else [])"

definition layer3NestedCostBounds :: "(string \<times> int) list" where
  "layer3NestedCostBounds = [(''size_in_gb'', 20), (''iops'', 15000)]"

text \<open>\<open>what\<close> names the attribute in a refusal.\<close>

definition unresolved_text :: "string \<Rightarrow> string" where
  "unresolved_text what =
     what @ '' to something this check cannot resolve to a constant, so its cost cannot be bounded''"

definition numeric_problem :: "evaluator \<Rightarrow> var_defaults \<Rightarrow> string \<Rightarrow> expr \<Rightarrow> int \<Rightarrow> string option" where
  "numeric_problem ev defs what e bound =
     (case layer3ResolveConstant ev defs e of
        Some (Cty_Num m x t) \<Rightarrow>
          if num_exceeds m x bound
          then Some (what @ '' to '' @ t @ ''; the gate caps it at '' @ itoa bound
                 @ '' because it applies to real, billed infrastructure'')
          else None
      | _ \<Rightarrow> Some (unresolved_text what))"

definition format_list :: "string list \<Rightarrow> string" where
  "format_list xs = ''['' @ join '' '' xs @ '']''"

definition enum_problem :: "evaluator \<Rightarrow> var_defaults \<Rightarrow> string \<Rightarrow> expr \<Rightarrow> string list \<Rightarrow> string option" where
  "enum_problem ev defs what e allowed =
     (case layer3ResolveConstant ev defs e of
        Some (Cty_Str v) \<Rightarrow>
          if v \<notin> set allowed
          then Some (what @ '' to '' @ quote v @ ''; the gate permits only '' @ format_list allowed)
          else None
      | _ \<Rightarrow> Some (unresolved_text what))"

definition bounded_attrs :: "(string \<times> 'b) list \<Rightarrow> block \<Rightarrow> (string \<Rightarrow> expr \<Rightarrow> 'b \<Rightarrow> string option) \<Rightarrow> string list" where
  "bounded_attrs bounds b check =
     List.map_filter (\<lambda>(name, bound). case attr_of b name of None \<Rightarrow> None | Some e \<Rightarrow> check name e bound) bounds"

fun layer3NestedCostProblems :: "evaluator \<Rightarrow> var_defaults \<Rightarrow> string \<Rightarrow> string \<Rightarrow> block \<Rightarrow> string list" where
  "layer3NestedCostProblems ev defs file owner (Block ty labels attrs inner line) =
     bounded_attrs layer3NestedCostBounds (Block ty labels attrs inner line) (\<lambda>name e bound.
       numeric_problem ev defs (file @ '': '' @ owner @ '' sets '' @ ty @ ''.'' @ name) e bound)
     @ concat (map (layer3NestedCostProblems ev defs file owner) inner)"

definition layer3CostProblems :: "evaluator \<Rightarrow> var_defaults \<Rightarrow> block \<Rightarrow> string \<Rightarrow> string list" where
  "layer3CostProblems ev defs b file =
     (case bl_labels b of
        [] \<Rightarrow> []
      | ty # _ \<Rightarrow>
          (let what = (\<lambda>name. file @ '': '' @ ty @ '' '' @ resource_name b @ '' sets '' @ name) in
           bounded_attrs (layer3NumericBounds ty) b (\<lambda>name e bound. numeric_problem ev defs (what name) e bound)
           @ concat (map (layer3NestedCostProblems ev defs file (resource_name b)) (bl_blocks b))
           @ bounded_attrs (layer3EnumBounds ty) b (\<lambda>name e allowed. enum_problem ev defs (what name) e allowed)))"

subsection \<open>What a destroy could not evaluate\<close>

definition layer3TotalisingFunctions :: "string list" where
  "layer3TotalisingFunctions = [''try'', ''one'']"

fun totalising :: "expr \<Rightarrow> bool" where
  "totalising (Function_Call f es x) = (f \<in> set layer3TotalisingFunctions)"
| "totalising e = False"

definition known_roots :: "string list" where
  "known_roots = [''var'', ''local'', ''each'', ''count'', ''path'', ''terraform'']"

text \<open>The attributes before the first index; nothing for a traversal without one.\<close>

fun indexed_name :: "string \<Rightarrow> step list \<Rightarrow> string option" where
  "indexed_name name [] = None"
| "indexed_name name (Attr_Step n # ts) = indexed_name (name @ ''.'' @ n) ts"
| "indexed_name name (Index_Step v # ts) = Some name"
| "indexed_name name (t # ts) = indexed_name name ts"

fun layer3IndexedResourceIn :: "step list \<Rightarrow> string option" where
  "layer3IndexedResourceIn (Root_Step r # t # ts) = (if r \<in> set known_roots then None else indexed_name r (t # ts))"
| "layer3IndexedResourceIn ts = None"

text \<open>The attributes up to the first step of another kind.\<close>

fun attr_prefix :: "string \<Rightarrow> step list \<Rightarrow> string" where
  "attr_prefix name (Attr_Step n # ts) = attr_prefix (name @ ''.'' @ n) ts"
| "attr_prefix name ts = name"

fun layer3ResourceReference :: "expr \<Rightarrow> string option" where
  "layer3ResourceReference (Scope_Traversal (Root_Step r # t # ts)) =
     (if r \<in> set known_roots then None else Some (attr_prefix r (t # ts)))"
| "layer3ResourceReference e = None"

fun layer3Unparen :: "expr \<Rightarrow> expr" where
  "layer3Unparen (Parens e) = layer3Unparen e"
| "layer3Unparen e = e"

text \<open>The resource attribute an expression indexes, by itself.\<close>

fun index_hazard :: "expr \<Rightarrow> string option" where
  "index_hazard (Scope_Traversal ts) = layer3IndexedResourceIn ts"
| "index_hazard (Relative_Traversal src ts) =
     (case layer3IndexedResourceIn ts of
        Some ref \<Rightarrow> Some ref
      | None \<Rightarrow> (case ts of
                 Index_Step v # _ \<Rightarrow> layer3ResourceReference (layer3Unparen src)
               | _ \<Rightarrow> None))"
| "index_hazard (Index_Expr coll key) = layer3ResourceReference coll"
| "index_hazard e = None"

text \<open>The walker's state: how many total-making calls enclose the node, and what was found.\<close>

definition enter_index :: "expr \<Rightarrow> nat \<times> string list \<Rightarrow> nat \<times> string list" where
  "enter_index e s =
     (case s of (guard, found) \<Rightarrow>
        if totalising e then (Suc guard, found)
        else if 0 < guard then (guard, found)
        else (guard, found @ (case index_hazard e of None \<Rightarrow> [] | Some ref \<Rightarrow> [ref])))"

definition exit_index :: "expr \<Rightarrow> nat \<times> string list \<Rightarrow> nat \<times> string list" where
  "exit_index e s = (case s of (guard, found) \<Rightarrow> if totalising e \<and> 0 < guard then (guard - 1, found) else (guard, found))"

definition layer3UnguardedResourceIndexes :: "expr \<Rightarrow> string list" where
  "layer3UnguardedResourceIndexes e = snd (hcl_walk enter_index exit_index e (0, []))"

definition layer3IPField :: "string \<Rightarrow> bool" where
  "layer3IPField name \<longleftrightarrow> name = ''ip'' \<or> has_any_suffix name [''_ip'', ''_ips'', ''ip_address'']"

text \<open>\<^verbatim>\<open>net.ParseIP\<close>: four decimal fields, groups of hexadecimal digits, or groups that end in four fields.\<close>

definition ip4_field :: "string \<Rightarrow> bool" where
  "ip4_field s \<longleftrightarrow> s \<noteq> [] \<and> length s \<le> 3 \<and> list_all is_digit s \<and> digits_value s \<le> 255
     \<and> (if 1 < length s then hd s \<noteq> CHR ''0'' else True)"

definition dotted_ip :: "string \<Rightarrow> bool" where
  "dotted_ip s \<longleftrightarrow> length (split_on CHR ''.'' s) = 4 \<and> list_all ip4_field (split_on CHR ''.'' s)"

definition is_ip :: "string \<Rightarrow> bool" where
  "is_ip s \<longleftrightarrow>
     (if CHR ''.'' \<notin> set s then undotted_ip s
      else if CHR '':'' \<notin> set s then dotted_ip s
      else let tail = rev (takeWhile (\<lambda>c. c \<noteq> CHR '':'') (rev s)) in
        dotted_ip tail \<and> undotted_ip (take (length s - length tail) s @ ''0:0''))"

text \<open>A constant is wholly known.\<close>

fun layer3NonIPStrings :: "cty \<Rightarrow> string list" where
  "layer3NonIPStrings (Cty_Str s) = (if is_ip s then [] else [s])"
| "layer3NonIPStrings (Cty_Seq vs) = concat (map layer3NonIPStrings vs)"
| "layer3NonIPStrings (Cty_Obj m) = concat (map (\<lambda>(k, w). layer3NonIPStrings w) m)"
| "layer3NonIPStrings v = []"

fun try_fallbacks :: "evaluator \<Rightarrow> expr \<Rightarrow> string list" where
  "try_fallbacks ev (Function_Call f (e # es) x) =
     (if f = ''try''
      then concat (map (\<lambda>a. case ev a of None \<Rightarrow> [] | Some v \<Rightarrow> layer3NonIPStrings v) es) else [])"
| "try_fallbacks ev e = []"

definition layer3NonIPTryFallbacks :: "evaluator \<Rightarrow> expr \<Rightarrow> string list" where
  "layer3NonIPTryFallbacks ev e = hcl_walk (\<lambda>n found. found @ try_fallbacks ev n) (\<lambda>_ s. s) e []"

fun layer3UndestroyableProblems :: "evaluator \<Rightarrow> string \<Rightarrow> block \<Rightarrow> string list" where
  "layer3UndestroyableProblems ev file (Block ty labels attrs inner line) =
     concat (map (\<lambda>(name, e).
       map (\<lambda>ref. file @ '': '' @ name @ '' indexes '' @ ref
           @ '', and a resource attribute can be empty until after apply; `tofu destroy` evaluates the configuration, so if ''
           @ ''this index fails the stack cannot be destroyed either. Wrap it in try() or one()'')
         (layer3UnguardedResourceIndexes e)
       @ (if layer3IPField name
          then map (\<lambda>fallback. file @ '': '' @ name @ '' falls back to '' @ quote fallback
             @ '' inside try(), which is not an IP address; the provider rejects it at apply and again at `tofu destroy`, so ''
             @ ''the stack cannot be destroyed either. Use an address that exists whenever it is read, such as ''
             @ ''[scaleway_instance_ip.NAME.address], or a splat like scaleway_instance_server.NAME.private_ips[*].address'')
             (layer3NonIPTryFallbacks ev e)
          else [])) attrs)
     @ concat (map (layer3UndestroyableProblems ev file) inner)"

subsection \<open>The Scaleway gate\<close>

definition layer3ScalewayResourcePrefix :: string where "layer3ScalewayResourcePrefix = ''scaleway_''"

definition layer3ScalewayPin :: provider_pin where
  "layer3ScalewayPin = \<lparr>pin_name = ''scaleway'', pin_source = ''scaleway/scaleway'', pin_version = ''2.83.0''\<rparr>"

definition layer3SafeProviderAttrs :: "string list" where
  "layer3SafeProviderAttrs = [''region'', ''zone'']"

definition layer3ProjectCountProblem :: "nat \<Rightarrow> string option" where
  "layer3ProjectCountProblem n =
     (if n = 0 then None
      else Some (itoa (int n) @ '' scaleway_account_project resource(s) declared; the run'' @ [apostrophe]
             @ ''s project is created before the apply and is the provider default, so a declared one would be a second ''
             @ ''project nothing tracks or destroys''))"

definition layer3UndestroyableResourceProblems :: "block \<Rightarrow> string \<Rightarrow> string list" where
  "layer3UndestroyableResourceProblems b file =
     (case bl_labels b of
        ty # _ \<Rightarrow>
          if ty = ''scaleway_instance_private_nic''
          then [file @ '': `scaleway_instance_private_nic` is refused -- this project declares private network attachments ''
                  @ ''on the server. Use `private_network { pn_id = scaleway_vpc_private_network.NAME.id }` instead'']
          else []
      | [] \<Rightarrow> [])"

definition ends_in_id :: "step list \<Rightarrow> bool" where
  "ends_in_id ts \<longleftrightarrow> (if ts = [] then False else last ts = Attr_Step ''id'')"

fun layer3IsPrivateNetworkIDRef :: "expr \<Rightarrow> bool" where
  "layer3IsPrivateNetworkIDRef (Scope_Traversal ts) \<longleftrightarrow>
     root_name ts = ''scaleway_vpc_private_network'' \<and> 3 \<le> length ts \<and> ends_in_id ts"
| "layer3IsPrivateNetworkIDRef (Relative_Traversal (Index_Expr (Scope_Traversal ts) key) rel) \<longleftrightarrow>
     root_name ts = ''scaleway_vpc_private_network'' \<and> 2 \<le> length ts \<and> ends_in_id rel"
| "layer3IsPrivateNetworkIDRef e \<longleftrightarrow> False"

definition layer3InlinePrivateNetworkProblems :: "block \<Rightarrow> string \<Rightarrow> string list" where
  "layer3InlinePrivateNetworkProblems b file =
     (if bl_labels b = [] \<or> hd (bl_labels b) \<noteq> ''scaleway_instance_server'' then []
      else List.map_filter (\<lambda>inner.
        if bl_type inner \<noteq> ''private_network'' then None
        else case attr_of inner ''pn_id'' of
               None \<Rightarrow> Some (file @ '': scaleway_instance_server '' @ resource_name b
                 @ '' has a private_network block with no pn_id, so nothing ties it to a network this run created'')
             | Some e \<Rightarrow>
                 if layer3IsPrivateNetworkIDRef e then None
                 else Some (file @ '': scaleway_instance_server '' @ resource_name b
                   @ '' must set private_network.pn_id to scaleway_vpc_private_network.<name>.id in this stack; a literal ''
                   @ ''id or any other reference names a network the run does not own and will not destroy''))
        (bl_blocks b))"

definition layer3ParentBindingProblems :: "block \<Rightarrow> string \<Rightarrow> string \<Rightarrow> string \<Rightarrow> string list" where
  "layer3ParentBindingProblems b file ty parent =
     (let who = file @ '': '' @ ty @ '' '' @ resource_name b in
      case attr_of b parent of
        None \<Rightarrow> [who @ '' sets no '' @ parent @ '', so nothing ties it to a resource this run created'']
      | Some e \<Rightarrow>
          (case e of
             Scope_Traversal ts \<Rightarrow>
               if \<not> has_prefix (root_name ts) ''scaleway_''
               then [who @ '' must set '' @ parent @ '' to a reference to a resource in this stack; a literal id names ''
                       @ ''infrastructure the run does not own and will not destroy'']
               else if length ts < 3 \<or> \<not> ends_in_id ts
               then [who @ '' must set '' @ parent @ '' to <resource>.<name>.id''] else []
           | _ \<Rightarrow> [who @ '' must set '' @ parent @ '' to a reference to a resource in this stack; a literal id names ''
                       @ ''infrastructure the run does not own and will not destroy'']))"

definition layer3ContainmentProblems :: "block \<Rightarrow> string \<Rightarrow> string list" where
  "layer3ContainmentProblems b file =
     (case bl_labels b of
        [] \<Rightarrow> []
      | ty # _ \<Rightarrow>
          if ty = ''scaleway_account_project''
          then [file @ '': '' @ resource_name b @ '' declares a '' @ ty @ ''; under ADR-0025 the run'' @ [apostrophe]
                  @ ''s project is created before the apply and handed to the provider, so a stack that declares one would ''
                  @ ''create a SECOND project that nothing tracks and no teardown would delete. Remove it'']
          else (case ChildScopedTypes ty of
             Some parents \<Rightarrow> concat (map (layer3ParentBindingProblems b file ty) parents)
           | None \<Rightarrow>
               if attr_of b ''project_id'' \<noteq> None
               then [file @ '': '' @ ty @ '' '' @ resource_name b @ '' sets project_id; under ADR-0025 the run'' @ [apostrophe]
                  @ ''s project is the provider default, so a resource that names a project could place itself outside ''
                  @ ''this run'' @ [apostrophe] @ ''s blast radius. Remove the attribute'']
               else []))"

definition opt_list :: "'a option \<Rightarrow> 'a list" where
  "opt_list x = (case x of None \<Rightarrow> [] | Some y \<Rightarrow> [y])"

definition no_exemption :: "block \<Rightarrow> string \<Rightarrow> expr \<Rightarrow> bool" where
  "no_exemption b name e = False"

text \<open>The problems of one block, and whether it declares the pinned provider.\<close>

definition scaleway_block_problems :: "evaluator \<Rightarrow> string list \<Rightarrow> string \<Rightarrow> block \<Rightarrow> string list" where
  "scaleway_block_problems ev allowed file b =
     (case layer3TopLevelBlockProblem b file of
        Some p \<Rightarrow> [p]
      | None \<Rightarrow>
          (if bl_type b = ''resource''
           then opt_list (layer3ResourceTypeProblem b file layer3ScalewayResourcePrefix allowed)
             @ layer3ContainmentProblems b file @ layer3MultiplicityProblems b file
             @ layer3UndestroyableResourceProblems b file @ layer3InlinePrivateNetworkProblems b file
           else if bl_type b = ''provider''
           then layer3ProviderBlockProblems b file (pin_name layer3ScalewayPin) layer3SafeProviderAttrs
           else if bl_type b = ''terraform''
           then layer3TerraformBlockProblems b file @ fst (layer3ProviderSourceProblems ev b file layer3ScalewayPin)
           else [])
          @ layer3NestedProblems file b @ layer3FunctionCallProblems file no_exemption b
          @ layer3UndestroyableProblems ev file b)"

definition block_pins :: "evaluator \<Rightarrow> provider_pin \<Rightarrow> block \<Rightarrow> bool" where
  "block_pins ev pin b \<longleftrightarrow> bl_type b = ''terraform'' \<and> snd (layer3ProviderSourceProblems ev b [] pin)"

definition declares_project :: "block \<Rightarrow> bool" where
  "declares_project b \<longleftrightarrow> bl_type b = ''resource''
     \<and> (case bl_labels b of ty # _ \<Rightarrow> ty = ''scaleway_account_project'' | [] \<Rightarrow> False)"

definition layer3BlockProblems :: "evaluator \<Rightarrow> string list \<Rightarrow> string \<Rightarrow> body \<Rightarrow> string list \<times> bool \<times> nat" where
  "layer3BlockProblems ev allowed file blocks =
     (concat (map (scaleway_block_problems ev allowed file) blocks),
      list_ex (block_pins ev layer3ScalewayPin) blocks,
      length (filter declares_project blocks))"

definition refuses_configuration :: "string list \<Rightarrow> string option" where
  "refuses_configuration problems =
     (if problems = [] then None
      else Some (''layer 3 refuses this configuration: '' @ join ''; '' (sort problems)))"

definition file_problems :: "evaluator \<Rightarrow> string list \<Rightarrow> var_defaults \<Rightarrow> string \<times> body \<Rightarrow> string list" where
  "file_problems ev allowed defs nb =
     fst (layer3BlockProblems ev allowed (fst nb) (snd nb))
     @ concat (map (\<lambda>b. layer3CostProblems ev defs b (fst nb)) (filter (\<lambda>b. bl_type b = ''resource'') (snd nb)))"

definition validateLayer3HCLShape :: "evaluator \<Rightarrow> stack_dir \<Rightarrow> string list \<Rightarrow> string option" where
  "validateLayer3HCLShape ev d allowed =
     (case layer3ParseDir ev d of
        Inl e \<Rightarrow> Some e
      | Inr (parsed, defs) \<Rightarrow>
          (let found = map (\<lambda>(name, b). layer3BlockProblems ev allowed name b) parsed in
           refuses_configuration
             (concat (map (file_problems ev allowed defs) parsed)
              @ opt_list (layer3ProjectCountProblem (sum_list (map (\<lambda>(_, _, n). n) found)))
              @ opt_list (layer3MissingProviderProblem (list_ex (\<lambda>(_, saw, _). saw) found) layer3ScalewayPin))))"

end
