(* ===== verification/Hcl_Rules.thy ===== *)
theory Hcl_Rules
  imports Hcl_Gate
begin

text \<open>
  What the shared rules of the Layer 3 gates refuse, said of the whole tree: of every block a block holds at any
  depth, and of every expression an expression holds. The walks thread a state; here they are list functions.
\<close>

subsection \<open>Walks\<close>

lemma fold_append: "(\<And>x s. x \<in> set xs \<Longrightarrow> f x s = s @ g x) \<Longrightarrow> fold f xs s = s @ concat (map g xs)"
  by (induction xs arbitrary: s) auto

lemma concat_map_concat: "concat (map g (concat xss)) = concat (map (\<lambda>xs. concat (map g xs)) xss)"
  by (induction xss) simp_all

lemma walk_collects:
  "hcl_walk (\<lambda>n found. found @ g n) (\<lambda>_ s. s) e found = found @ concat (map g (subexprs e))"
proof (induction e arbitrary: found rule: subexprs.induct)
  case (1 e)
  have "fold (hcl_walk (\<lambda>n found. found @ g n) (\<lambda>_ s. s)) (children e) s
      = s @ concat (map (\<lambda>c. concat (map g (subexprs c))) (children e))" for s
    by (rule fold_append) (rule 1)
  then show ?case
    by (subst hcl_walk.simps, subst subexprs.simps) (simp add: concat_map_concat comp_def)
qed

definition call_name :: "expr \<Rightarrow> string list" where
  "call_name e = (case e of Function_Call f es x \<Rightarrow> [f] | _ \<Rightarrow> [])"

lemma layer3CallsIn_subexprs: "layer3CallsIn e = concat (map call_name (subexprs e))"
proof -
  have eq: "enter_call = (\<lambda>n found. found @ call_name n)"
    by (intro ext, case_tac n) (auto simp: call_name_def)
  show ?thesis unfolding layer3CallsIn_def eq walk_collects by simp
qed

lemma layer3NonIPTryFallbacks_subexprs: "layer3NonIPTryFallbacks ev e = concat (map (try_fallbacks ev) (subexprs e))"
  by (simp add: layer3NonIPTryFallbacks_def walk_collects)

text \<open>What no total-making call encloses: the walk goes into everything, and reports exactly there.\<close>

function unguarded :: "expr \<Rightarrow> expr list" where
  "unguarded e = (if totalising e then [] else e # concat (map unguarded (children e)))"
  by pat_completeness auto
termination by (relation "measure size") (auto dest: children_size)

declare unguarded.simps [simp del]

lemma walk_guarded:
  "0 < guard \<Longrightarrow> hcl_walk enter_index exit_index e (guard, found) = (guard, found)"
proof (induction e arbitrary: guard rule: subexprs.induct)
  case (1 e)
  have "fold (hcl_walk enter_index exit_index) es (k, found) = (k, found)"
    if "0 < k" "set es \<subseteq> set (children e)" for k es
    using that 1 by (induction es) auto
  from this [of _ "children e"] 1(2) show ?case
    by (subst hcl_walk.simps) (simp add: enter_index_def exit_index_def)
qed

lemma walk_unguarded:
  "hcl_walk enter_index exit_index e (0, found) = (0, found @ concat (map (opt_list \<circ> index_hazard) (unguarded e)))"
proof (induction e arbitrary: found rule: subexprs.induct)
  case (1 e)
  show ?case
  proof (cases "totalising e")
    case True
    have "fold (hcl_walk enter_index exit_index) es (Suc 0, found) = (Suc 0, found)" for es
      by (induction es) (simp_all add: walk_guarded)
    with True show ?thesis
      by (subst hcl_walk.simps, subst unguarded.simps) (simp add: enter_index_def exit_index_def)
  next
    case False
    have "fold (hcl_walk enter_index exit_index) es (0, s)
        = (0, s @ concat (map (\<lambda>c. concat (map (opt_list \<circ> index_hazard) (unguarded c))) es))"
      if "set es \<subseteq> set (children e)" for es s
      using that 1 by (induction es arbitrary: s) auto
    from this [of "children e"] False show ?thesis
      by (subst hcl_walk.simps, subst unguarded.simps)
        (simp add: enter_index_def exit_index_def concat_map_concat comp_def opt_list_def split: option.split)
  qed
qed

lemma layer3UnguardedResourceIndexes_unguarded:
  "layer3UnguardedResourceIndexes e = concat (map (opt_list \<circ> index_hazard) (unguarded e))"
  by (simp add: layer3UnguardedResourceIndexes_def walk_unguarded)

subsection \<open>Blocks at any depth\<close>

definition inner_blocks :: "block \<Rightarrow> block list" where
  "inner_blocks b = concat (map subblocks (bl_blocks b))"

lemma subblocks_inner: "subblocks b = b # inner_blocks b"
  by (cases b) (simp add: subblocks.simps inner_blocks_def)

lemma layer3NestedProblems_iff:
  "layer3NestedProblems file b = [] \<longleftrightarrow> list_all (\<lambda>n. bl_type n \<notin> set layer3DeniedNestedBlocks) (inner_blocks b)"
proof (induction b)
  case (Block ty labels attrs inner line)
  have "layer3NestedProblems file (Block ty labels attrs inner line) = []
      \<longleftrightarrow> list_all (\<lambda>n. bl_type n \<notin> set layer3DeniedNestedBlocks \<and> layer3NestedProblems file n = []) inner"
    by (induction inner) simp_all
  also have "\<dots> \<longleftrightarrow> list_all (list_all (\<lambda>n. bl_type n \<notin> set layer3DeniedNestedBlocks) \<circ> subblocks) inner"
    using Block by (auto simp: list_all_iff subblocks_inner)
  also have "\<dots> \<longleftrightarrow> list_all (\<lambda>n. bl_type n \<notin> set layer3DeniedNestedBlocks) (concat (map subblocks inner))"
    by (induction inner) simp_all
  finally show ?case by (simp add: inner_blocks_def)
qed

lemma list_all_concat_map: "list_all P (concat (map f xs)) \<longleftrightarrow> list_all (\<lambda>x. list_all P (f x)) xs"
  by (induction xs) simp_all

definition calls_pure :: "expr \<Rightarrow> bool" where
  "calls_pure e = list_all (\<lambda>n. list_all (\<lambda>f. f \<in> set layer3PureFunctions) (call_name n)) (subexprs e)"

definition block_calls_pure :: "(block \<Rightarrow> string \<Rightarrow> expr \<Rightarrow> bool) \<Rightarrow> block \<Rightarrow> bool" where
  "block_calls_pure exempt b =
     list_all (\<lambda>(name, e). if bl_type b = ''variable'' \<and> name = ''type'' then True
        else if exempt b name e then True else calls_pure e) (bl_attrs b)"

lemma calls_pure_filter:
  "filter (\<lambda>f. f \<notin> set layer3PureFunctions) (layer3CallsIn e) = [] \<longleftrightarrow> calls_pure e"
  by (auto simp: layer3CallsIn_subexprs calls_pure_def list_all_iff filter_empty_conv)

lemma layer3FunctionCallProblems_iff:
  "layer3FunctionCallProblems file exempt b = [] \<longleftrightarrow> list_all (block_calls_pure exempt) (subblocks b)"
proof (induction b)
  case (Block ty labels attrs inner line)
  have own: "concat (map (\<lambda>(name, e).
       if ty = ''variable'' \<and> name = ''type'' then []
       else if exempt (Block ty labels attrs inner line) name e then []
       else map (impure_call_text file name) (filter (\<lambda>f. f \<notin> set layer3PureFunctions) (layer3CallsIn e))) attrs) = []
     \<longleftrightarrow> block_calls_pure exempt (Block ty labels attrs inner line)"
    unfolding block_calls_pure_def list_all_iff
    by (auto simp: calls_pure_filter split: if_splits)
  show ?case
    unfolding layer3FunctionCallProblems.simps append_is_Nil_conv own subblocks.simps list.pred_inject
    using Block by (auto simp: list_all_iff)
qed

definition within :: "evaluator \<Rightarrow> var_defaults \<Rightarrow> expr \<Rightarrow> int \<Rightarrow> bool" where
  "within ev defs e bound =
     (case layer3ResolveConstant ev defs e of Some (Cty_Num m x t) \<Rightarrow> \<not> num_exceeds m x bound | _ \<Rightarrow> False)"

lemma numeric_problem_None: "numeric_problem ev defs what e bound = None \<longleftrightarrow> within ev defs e bound"
  by (simp add: numeric_problem_def within_def split: option.split cty.split)

definition block_within :: "evaluator \<Rightarrow> var_defaults \<Rightarrow> (string \<times> int) list \<Rightarrow> block \<Rightarrow> bool" where
  "block_within ev defs bounds b =
     list_all (\<lambda>(name, bound). case attr_of b name of None \<Rightarrow> True | Some e \<Rightarrow> within ev defs e bound) bounds"

lemma map_filter_Nil: "List.map_filter f xs = [] \<longleftrightarrow> list_all (\<lambda>x. f x = None) xs"
  by (induction xs) (auto simp: List.map_filter_simps split: option.split)

lemma bounded_attrs_within:
  "bounded_attrs bounds b (\<lambda>name e bound. numeric_problem ev defs (what name) e bound) = [] \<longleftrightarrow>
     block_within ev defs bounds b"
  unfolding bounded_attrs_def map_filter_Nil block_within_def list_all_iff
  by (auto simp: numeric_problem_None split: option.splits)

lemma layer3NestedCostProblems_iff:
  "layer3NestedCostProblems ev defs file owner b = [] \<longleftrightarrow>
     list_all (block_within ev defs layer3NestedCostBounds) (subblocks b)"
proof (induction b)
  case (Block ty labels attrs inner line)
  then show ?case
    unfolding layer3NestedCostProblems.simps append_is_Nil_conv subblocks.simps list.pred_inject
      bounded_attrs_within [where what = "\<lambda>name. file @ '': '' @ owner @ '' sets '' @ ty @ ''.'' @ name"]
    by (auto simp: list_all_iff)
qed

text \<open>An attribute a destroy can always evaluate: what it indexes is guarded, and what it falls back to is an address.\<close>

definition destroyable :: "evaluator \<Rightarrow> string \<Rightarrow> expr \<Rightarrow> bool" where
  "destroyable ev name e \<longleftrightarrow>
     list_all (\<lambda>n. index_hazard n = None) (unguarded e)
     \<and> (if layer3IPField name then list_all (\<lambda>n. try_fallbacks ev n = []) (subexprs e) else True)"

lemma layer3UndestroyableProblems_iff:
  "layer3UndestroyableProblems ev file b = [] \<longleftrightarrow>
     list_all (\<lambda>b. list_all (\<lambda>(name, e). destroyable ev name e) (bl_attrs b)) (subblocks b)"
proof (induction b)
  case (Block ty labels attrs inner line)
  have none: "layer3UnguardedResourceIndexes e = [] \<longleftrightarrow> list_all (\<lambda>n. index_hazard n = None) (unguarded e)" for e
    by (auto simp: layer3UnguardedResourceIndexes_unguarded list_all_iff opt_list_def split: option.splits)
  have ips: "layer3NonIPTryFallbacks ev e = [] \<longleftrightarrow> list_all (\<lambda>n. try_fallbacks ev n = []) (subexprs e)" for e
    by (auto simp: layer3NonIPTryFallbacks_subexprs list_all_iff)
  have own: "concat (map (\<lambda>(name, e). map (g name) (layer3UnguardedResourceIndexes e)
      @ (if layer3IPField name then map (h name) (layer3NonIPTryFallbacks ev e) else [])) as) = []
      \<longleftrightarrow> list_all (\<lambda>(name, e). destroyable ev name e) as" for g h :: "string \<Rightarrow> string \<Rightarrow> string" and as
    by (induction as) (auto simp: destroyable_def none ips)
  show ?case
    unfolding layer3UndestroyableProblems.simps append_is_Nil_conv subblocks.simps list.pred_inject own
    using Block by (auto simp: list_all_iff)
qed

subsection \<open>What a gate that refuses nothing has seen\<close>

definition all_blocks :: "(string \<times> body) list \<Rightarrow> block list" where
  "all_blocks parsed = concat (map snd parsed)"

text \<open>Every file tofu would load is among the parsed ones.\<close>

definition nothing_unread :: "stack_dir \<Rightarrow> (string \<times> body) list \<Rightarrow> bool" where
  "nothing_unread d parsed =
     (case sd_entries d of
        Inl _ \<Rightarrow> False
      | Inr entries \<Rightarrow> list_all (\<lambda>(name, is_dir).
          if is_dir then True
          else \<not> layer3UnreadableConfigExt name
            \<and> (if has_suffix name ''.tf'' then sd_source d name \<in> Parsed ` snd ` set parsed else True)) entries)"

lemma parse_entries_Inr:
  "parse_entries ev src entries parsed defs = Inr (parsed', defs') \<Longrightarrow>
     set parsed \<subseteq> set parsed' \<and> list_all (\<lambda>(name, is_dir).
       if is_dir then True
       else \<not> layer3UnreadableConfigExt name
         \<and> (if has_suffix name ''.tf'' then src name \<in> Parsed ` snd ` set parsed' else True)) entries"
proof (induction entries arbitrary: parsed defs)
  case (Cons en entries)
  obtain name is_dir where en: "en = (name, is_dir)" by (cases en)
  show ?case
  proof (cases is_dir)
    case True
    with Cons en show ?thesis by simp
  next
    case False
    with Cons.prems en obtain r where r: "layer3ParseFile src name = Inr r"
      by (cases "layer3ParseFile src name") auto
    show ?thesis
    proof (cases r)
      case None
      with r have "\<not> layer3UnreadableConfigExt name \<and> \<not> has_suffix name ''.tf''"
        by (auto simp: layer3ParseFile_def split: if_splits hcl_file.splits)
      moreover have "parse_entries ev src entries parsed defs = Inr (parsed', defs')"
        using Cons.prems False None en r by simp
      ultimately show ?thesis using Cons.IH en by auto
    next
      case (Some b)
      with r have "\<not> layer3UnreadableConfigExt name" "src name = Parsed b"
        by (auto simp: layer3ParseFile_def split: if_splits hcl_file.splits)
      moreover have "parse_entries ev src entries (parsed @ [(name, b)]) (layer3VariableDefaults ev b defs) = Inr (parsed', defs')"
        using Cons.prems False Some en r by simp
      ultimately have ih: "set (parsed @ [(name, b)]) \<subseteq> set parsed'"
        and rest: "list_all (\<lambda>(name, is_dir).
          if is_dir then True
          else \<not> layer3UnreadableConfigExt name
            \<and> (if has_suffix name ''.tf'' then src name \<in> Parsed ` snd ` set parsed' else True)) entries"
        using Cons.IH by blast+
      from ih have "Parsed b \<in> Parsed ` snd ` set parsed'" by (metis Un_iff image_eqI insert_iff list.set(2) set_append snd_conv subset_iff)
      with rest ih \<open>\<not> layer3UnreadableConfigExt name\<close> \<open>src name = Parsed b\<close> show ?thesis
        by (simp add: en)
    qed
  qed
qed simp

lemma layer3ParseDir_Inr: "layer3ParseDir ev d = Inr (parsed, defs) \<Longrightarrow> nothing_unread d parsed"
  unfolding layer3ParseDir_def nothing_unread_def
  by (cases "sd_entries d") (simp_all add: parse_entries_Inr [THEN conjunct2])

text \<open>A tree no rule about code or teardown refuses, whichever cloud it is for.\<close>

definition tree_safe :: "evaluator \<Rightarrow> (block \<Rightarrow> string \<Rightarrow> expr \<Rightarrow> bool) \<Rightarrow> block \<Rightarrow> bool" where
  "tree_safe ev exempt b \<longleftrightarrow>
     bl_type b \<in> set [''terraform'', ''provider'', ''variable'', ''output'', ''locals'', ''resource'']
     \<and> list_all (\<lambda>n. bl_type n \<notin> set [''provisioner'', ''connection'', ''lifecycle'', ''backend'', ''cloud'', ''dynamic''])
         (inner_blocks b)
     \<and> list_all (block_calls_pure exempt) (subblocks b)
     \<and> list_all (\<lambda>b. list_all (\<lambda>(name, e). destroyable ev name e) (bl_attrs b)) (subblocks b)"

lemma tree_safe_iff:
  "tree_safe ev exempt b \<longleftrightarrow> layer3TopLevelBlockProblem b file = None \<and> layer3NestedProblems file b = []
     \<and> layer3FunctionCallProblems file exempt b = [] \<and> layer3UndestroyableProblems ev file b = []"
  by (simp add: tree_safe_def layer3NestedProblems_iff layer3FunctionCallProblems_iff layer3UndestroyableProblems_iff
      layer3TopLevelBlockProblem_def layer3AllowedTopLevelBlocks_def layer3DeniedNestedBlocks_def)

text \<open>The providers a stack requires: every entry is the pinned source at the pinned version, as literals.\<close>

definition entry_pinned :: "evaluator \<Rightarrow> provider_pin \<Rightarrow> expr \<Rightarrow> bool" where
  "entry_pinned ev pin e =
     (case ev e of
        Some (Cty_Obj m) \<Rightarrow> map_of m ''source'' = Some (Cty_Str (pin_source pin))
          \<and> map_of m ''version'' = Some (Cty_Str (pin_version pin))
      | _ \<Rightarrow> False)"

lemma provider_entry_problem_None: "provider_entry_problem ev file pin name e = None \<longleftrightarrow> entry_pinned ev pin e"
proof (cases "ev e")
  case (Some v)
  show ?thesis
  proof (cases v)
    case (Cty_Obj m)
    show ?thesis
      by (cases "map_of m ''source''"; cases "map_of m ''version''"; cases "the (map_of m ''version'')")
        (simp_all add: provider_entry_problem_def layer3ProviderVersionProblem_def entry_pinned_def Some Cty_Obj)
  qed (simp_all add: provider_entry_problem_def entry_pinned_def Some)
qed (simp add: provider_entry_problem_def entry_pinned_def)

definition terraform_safe :: "evaluator \<Rightarrow> provider_pin \<Rightarrow> block \<Rightarrow> bool" where
  "terraform_safe ev pin b \<longleftrightarrow>
     list_all (\<lambda>(name, _). name = ''required_version'') (bl_attrs b)
     \<and> list_all (\<lambda>inner. bl_type inner = ''required_providers'') (bl_blocks b)
     \<and> list_all (\<lambda>(_, e). entry_pinned ev pin e) (provider_entries b)"

lemma terraform_safe_iff:
  "terraform_safe ev pin b \<longleftrightarrow>
     layer3TerraformBlockProblems b file = [] \<and> fst (layer3ProviderSourceProblems ev b file pin) = []"
  by (auto simp: terraform_safe_def layer3TerraformBlockProblems_def layer3ProviderSourceProblems_def map_filter_Nil
      provider_entry_problem_None list_all_iff filter_empty_conv)

text \<open>The pinned provider is required under its own name.\<close>

definition requires_pin :: "evaluator \<Rightarrow> provider_pin \<Rightarrow> block \<Rightarrow> bool" where
  "requires_pin ev pin b \<longleftrightarrow>
     bl_type b = ''terraform'' \<and> list_ex (\<lambda>(name, e). name = pin_name pin \<and> entry_pinned ev pin e) (provider_entries b)"

lemma block_pins_requires: "block_pins ev pin b = requires_pin ev pin b"
  by (simp add: block_pins_def requires_pin_def layer3ProviderSourceProblems_def provider_entry_problem_None)

subsection \<open>An admitted Scaleway stack\<close>

definition stack_reference :: "expr option \<Rightarrow> bool" where
  "stack_reference e =
     (case e of
        Some (Scope_Traversal ts) \<Rightarrow> has_prefix (root_name ts) ''scaleway_'' \<and> 3 \<le> length ts \<and> ends_in_id ts
      | _ \<Rightarrow> False)"

definition contained :: "block \<Rightarrow> bool" where
  "contained b =
     (case bl_labels b of
        [] \<Rightarrow> True
      | ty # _ \<Rightarrow> ty \<noteq> ''scaleway_account_project''
          \<and> (case ChildScopedTypes ty of
               Some parents \<Rightarrow> list_all (\<lambda>p. stack_reference (attr_of b p)) parents
             | None \<Rightarrow> attr_of b ''project_id'' = None))"

definition of_enum :: "evaluator \<Rightarrow> var_defaults \<Rightarrow> expr \<Rightarrow> string list \<Rightarrow> bool" where
  "of_enum ev defs e allowed =
     (case layer3ResolveConstant ev defs e of Some (Cty_Str v) \<Rightarrow> v \<in> set allowed | _ \<Rightarrow> False)"

definition affordable :: "evaluator \<Rightarrow> var_defaults \<Rightarrow> block \<Rightarrow> bool" where
  "affordable ev defs b =
     (case bl_labels b of
        [] \<Rightarrow> True
      | ty # _ \<Rightarrow> attr_of b ''count'' = None \<and> attr_of b ''for_each'' = None
          \<and> block_within ev defs (layer3NumericBounds ty) b
          \<and> list_all (block_within ev defs layer3NestedCostBounds) (inner_blocks b)
          \<and> list_all (\<lambda>(name, allowed). case attr_of b name of None \<Rightarrow> True | Some e \<Rightarrow> of_enum ev defs e allowed)
              (layer3EnumBounds ty))"

definition scaleway_resource :: "evaluator \<Rightarrow> var_defaults \<Rightarrow> string list \<Rightarrow> block \<Rightarrow> bool" where
  "scaleway_resource ev defs allowed b \<longleftrightarrow>
     contained b \<and> affordable ev defs b
     \<and> (case bl_labels b of [] \<Rightarrow> True | ty # _ \<Rightarrow> has_prefix ty ''scaleway_'' \<and> resourceTypeAllowed ty allowed)"

lemma enum_problem_None: "enum_problem ev defs what e allowed = None \<longleftrightarrow> of_enum ev defs e allowed"
  by (simp add: enum_problem_def of_enum_def split: option.split cty.split)

lemma layer3ParentBindingProblems_Nil:
  "layer3ParentBindingProblems b file ty p = [] \<longleftrightarrow> stack_reference (attr_of b p)"
  by (auto simp: layer3ParentBindingProblems_def stack_reference_def Let_def split: option.split expr.split)

lemma layer3ContainmentProblems_Nil: "layer3ContainmentProblems b file = [] \<longleftrightarrow> contained b"
  by (auto simp: layer3ContainmentProblems_def contained_def layer3ParentBindingProblems_Nil list_all_iff
      split: list.split option.split)

lemma layer3CostProblems_Nil:
  assumes "layer3CostProblems ev defs b file = []" "layer3MultiplicityProblems b file = []"
  shows "affordable ev defs b"
proof (cases "bl_labels b")
  case (Cons ty rest)
  have "block_within ev defs (layer3NumericBounds ty) b"
    using assms(1) bounded_attrs_within [where what = "\<lambda>name. file @ '': '' @ ty @ '' '' @ resource_name b @ '' sets '' @ name"]
    by (simp add: layer3CostProblems_def Cons Let_def)
  moreover have "list_all (block_within ev defs layer3NestedCostBounds) (inner_blocks b)"
    using assms(1) by (simp add: layer3CostProblems_def Cons Let_def inner_blocks_def list_all_concat_map
        layer3NestedCostProblems_iff list_all_iff)
  moreover have "list_all (\<lambda>(name, allowed). case attr_of b name of None \<Rightarrow> True | Some e \<Rightarrow> of_enum ev defs e allowed) (layer3EnumBounds ty)"
    using assms(1) unfolding layer3CostProblems_def Cons Let_def
    by (auto simp: bounded_attrs_def map_filter_Nil list_all_iff enum_problem_None split: option.splits)
  moreover have "attr_of b ''count'' = None \<and> attr_of b ''for_each'' = None"
    using assms(2) by (simp add: layer3MultiplicityProblems_def split: if_splits)
  ultimately show ?thesis by (simp add: affordable_def Cons)
qed (simp add: affordable_def)

end
