(* ===== verification/Hcl_Aws.thy ===== *)
theory Hcl_Aws
  imports Hcl_Rules
begin

text \<open>
  The AWS gate, \<^verbatim>\<open>validateAWSLayer3HCLShape\<close>: the allowlist of attributes (\<^verbatim>\<open>cli/layer3_aws_attrs.go\<close>), the
  provider and region boundary (\<^verbatim>\<open>cli/layer3_aws_provider.go\<close>), the boot script and the image
  (\<^verbatim>\<open>cli/layer3_aws_user_data_gate.go\<close>), the driver (\<^verbatim>\<open>cli/layer3_aws_hcl_shape.go\<close>) and the dispatch on the
  cloud (\<^verbatim>\<open>cli/layer3_cloud.go\<close>); then what a stack has that either gate admits.
\<close>

subsection \<open>What an attribute may be\<close>

datatype aws_rule =
    Aws_Any
  | Aws_Delegated
  | Aws_Enum "string list"
  | Aws_Max int
  | Aws_Bool "bool list"
  | Aws_Ref string
  | Aws_Ref_List string
  | Aws_Zone
  | Aws_Block nat "(string \<times> aws_rule) list" \<comment> \<open>how many, 0 for any number, and what each may hold\<close>

definition awsEitherway :: aws_rule where "awsEitherway = Aws_Bool [True, False]"

definition awsIngressRule :: aws_rule where
  "awsIngressRule = Aws_Block 0
     [(''from_port'', Aws_Any), (''to_port'', Aws_Any), (''protocol'', Aws_Any), (''cidr_blocks'', Aws_Any),
      (''ipv6_cidr_blocks'', Aws_Any), (''description'', Aws_Any)]"

definition awsAttrAllowlist :: "(string \<times> (string \<times> aws_rule) list) list" where
  "awsAttrAllowlist =
     [(''aws_instance'',
        [(''ami'', Aws_Delegated), (''instance_type'', Aws_Enum [''t3.micro'', ''t3.small'']),
         (''subnet_id'', Aws_Ref ''aws_subnet''), (''vpc_security_group_ids'', Aws_Ref_List ''aws_security_group''),
         (''associate_public_ip_address'', awsEitherway), (''user_data'', Aws_Delegated), (''tags'', Aws_Any),
         (''root_block_device'', Aws_Block 1
            [(''volume_size'', Aws_Max 20), (''volume_type'', Aws_Enum [''gp3'']),
             (''delete_on_termination'', Aws_Bool [True])])]),
      (''aws_vpc'',
        [(''cidr_block'', Aws_Any), (''enable_dns_support'', awsEitherway), (''enable_dns_hostnames'', awsEitherway),
         (''instance_tenancy'', Aws_Enum [''default'']), (''tags'', Aws_Any)]),
      (''aws_subnet'',
        [(''vpc_id'', Aws_Ref ''aws_vpc''), (''cidr_block'', Aws_Any), (''availability_zone'', Aws_Zone),
         (''map_public_ip_on_launch'', awsEitherway), (''tags'', Aws_Any)]),
      (''aws_internet_gateway'', [(''vpc_id'', Aws_Ref ''aws_vpc''), (''tags'', Aws_Any)]),
      (''aws_route_table'', [(''vpc_id'', Aws_Ref ''aws_vpc''), (''tags'', Aws_Any)]),
      (''aws_route'',
        [(''route_table_id'', Aws_Ref ''aws_route_table''), (''destination_cidr_block'', Aws_Any),
         (''gateway_id'', Aws_Ref ''aws_internet_gateway'')]),
      (''aws_route_table_association'',
        [(''subnet_id'', Aws_Ref ''aws_subnet''), (''route_table_id'', Aws_Ref ''aws_route_table'')]),
      (''aws_security_group'',
        [(''name'', Aws_Any), (''description'', Aws_Any), (''vpc_id'', Aws_Ref ''aws_vpc''), (''tags'', Aws_Any),
         (''ingress'', awsIngressRule), (''egress'', awsIngressRule)]),
      (''aws_eip'', [(''domain'', Aws_Enum [''vpc'']), (''instance'', Aws_Ref ''aws_instance''), (''tags'', Aws_Any)])]"

definition awsMetaAttributes :: "string list" where
  "awsMetaAttributes = [''depends_on'', ''count'', ''for_each'', ''provider'']"

definition awsMetaBlocks :: "string list" where "awsMetaBlocks = [''lifecycle'']"

record attr_check =
  ac_file :: string
  ac_type :: string
  ac_name :: string
  ac_defaults :: var_defaults
  ac_region :: string

definition ac_who :: "attr_check \<Rightarrow> string" where
  "ac_who c = ac_file c @ '': '' @ ac_type c @ '' '' @ ac_name c"

definition refProblem :: "attr_check \<Rightarrow> string \<Rightarrow> string \<Rightarrow> string" where
  "refProblem c name want =
     ac_who c @ '' must set '' @ name @ '' to '' @ want @ '', a resource in this stack; a literal id or any other ''
       @ ''expression names infrastructure the run does not own and will not destroy''"

definition awsIsIDRef :: "expr \<Rightarrow> string \<Rightarrow> bool" where
  "awsIsIDRef e ty =
     (case e of
        Scope_Traversal [r, Attr_Step name, Attr_Step field] \<Rightarrow> root_name [r] = ty \<and> field = ''id''
      | _ \<Rightarrow> False)"

definition awsIsIDRefList :: "expr \<Rightarrow> string \<Rightarrow> bool" where
  "awsIsIDRefList e ty = (case e of Tuple_Cons es \<Rightarrow> list_all (\<lambda>x. awsIsIDRef x ty) es | _ \<Rightarrow> False)"

text \<open>The region and one lower case letter, as the whole of the text.\<close>

definition standard_zone :: "string \<Rightarrow> string \<Rightarrow> bool" where
  "standard_zone region zone \<longleftrightarrow>
     has_prefix zone region
     \<and> (case drop (length region) zone of [c] \<Rightarrow> char_between CHR ''a'' CHR ''z'' c | _ \<Rightarrow> False)"

definition zoneProblem :: "attr_check \<Rightarrow> string \<Rightarrow> string \<Rightarrow> string option" where
  "zoneProblem c name zone =
     (if ac_region c = []
      then Some (ac_who c @ '' sets '' @ name @ '', and no region is configured to check it against'')
      else if standard_zone (ac_region c) zone then None
      else Some (ac_who c @ '' sets '' @ name @ '' to '' @ quote zone @ ''; the gate admits only a standard zone of ''
             @ ac_region c @ '', such as '' @ ac_region c @ ''a (not a Local Zone, a Wavelength zone or a zone id)''))"

definition valueProblem :: "evaluator \<Rightarrow> attr_check \<Rightarrow> expr \<Rightarrow> aws_rule \<Rightarrow> string \<Rightarrow> string option" where
  "valueProblem ev c e rule name =
     (let val = layer3ResolveConstant ev (ac_defaults c) e;
          what = ac_who c @ '' sets '' @ name;
          unresolved = what @ '' to something this check cannot resolve to a constant, so it cannot be bounded'' in
      case rule of
        Aws_Any \<Rightarrow> None
      | Aws_Delegated \<Rightarrow> None
      | Aws_Ref ty \<Rightarrow> if awsIsIDRef e ty then None else Some (refProblem c name (ty @ ''.<name>.id''))
      | Aws_Ref_List ty \<Rightarrow>
          if awsIsIDRefList e ty then None else Some (refProblem c name (''a list of '' @ ty @ ''.<name>.id''))
      | Aws_Enum allowed \<Rightarrow>
          (case val of
             Some (Cty_Str s) \<Rightarrow>
               if s \<in> set allowed then None
               else Some (what @ '' to '' @ quote s @ ''; the gate permits only '' @ format_list allowed)
           | _ \<Rightarrow> Some unresolved)
      | Aws_Max bound \<Rightarrow>
          (case val of
             Some (Cty_Num m x t) \<Rightarrow>
               if num_exceeds m x bound
               then Some (what @ '' to '' @ t @ ''; the gate caps it at '' @ itoa bound
                      @ '' because it applies to real, billed infrastructure'')
               else None
           | _ \<Rightarrow> Some unresolved)
      | Aws_Bool allowed \<Rightarrow>
          (case val of
             Some (Cty_Bool b) \<Rightarrow>
               if b \<in> set allowed then None
               else Some (what @ '' to '' @ show_bool b @ ''; the gate permits only '' @ format_list (map show_bool allowed))
           | _ \<Rightarrow> Some unresolved)
      | Aws_Zone \<Rightarrow> (case val of Some (Cty_Str s) \<Rightarrow> zoneProblem c name s | _ \<Rightarrow> Some unresolved)
      | Aws_Block most inner \<Rightarrow> None)"

text \<open>The attributes of a body; \<open>at\<close> is empty for the resource itself, and the block and a dot inside one.\<close>

definition attr_problem :: "evaluator \<Rightarrow> attr_check \<Rightarrow> (string \<times> aws_rule) list \<Rightarrow> string \<Rightarrow> string \<times> expr \<Rightarrow> string option" where
  "attr_problem ev c rules at ne =
     (case ne of (name, e) \<Rightarrow>
        if at = [] \<and> name \<in> set awsMetaAttributes then None
        else case map_of rules name of
               Some (Aws_Block most inner) \<Rightarrow>
                 Some (ac_who c @ '' sets '' @ at @ name
                   @ '', which the AWS gate does not admit as an attribute (anything not on its allowlist is refused)'')
             | Some rule \<Rightarrow> valueProblem ev c e rule (at @ name)
             | None \<Rightarrow>
                 Some (ac_who c @ '' sets '' @ at @ name
                   @ '', which the AWS gate does not admit as an attribute (anything not on its allowlist is refused)''))"

text \<open>\<open>seen\<close> holds the admitted blocks before this one, by type.\<close>

fun bodyProblems :: "evaluator \<Rightarrow> attr_check \<Rightarrow> (string \<times> aws_rule) list \<Rightarrow> string \<Rightarrow> block \<Rightarrow> string list"
  and nested_problems :: "evaluator \<Rightarrow> attr_check \<Rightarrow> (string \<times> aws_rule) list \<Rightarrow> string \<Rightarrow> string list \<Rightarrow> block list \<Rightarrow> string list"
where
  "bodyProblems ev c rules at (Block ty labels attrs inner line) =
     List.map_filter (attr_problem ev c rules at) attrs @ nested_problems ev c rules at [] inner"
| "nested_problems ev c rules at seen [] = []"
| "nested_problems ev c rules at seen (b # bs) =
     (if at = [] \<and> bl_type b \<in> set awsMetaBlocks then nested_problems ev c rules at seen bs
      else case map_of rules (bl_type b) of
             Some (Aws_Block most sub) \<Rightarrow>
               (if Suc (count_list seen (bl_type b)) = most + 1 \<and> 0 < most
                then [ac_who c @ '' has more than '' @ itoa (int most) @ '' '' @ at @ bl_type b
                        @ '' block; the gate admits at most '' @ itoa (int most)]
                else [])
               @ bodyProblems ev c sub (at @ bl_type b @ ''.'') b
               @ nested_problems ev c rules at (seen @ [bl_type b]) bs
           | _ \<Rightarrow>
               [ac_who c @ '' has nested block '' @ at @ bl_type b
                  @ '', which the AWS gate does not admit (anything not on its allowlist is refused)'']
               @ nested_problems ev c rules at seen bs)"

definition awsResourceProblems :: "evaluator \<Rightarrow> block \<Rightarrow> string \<Rightarrow> var_defaults \<Rightarrow> string \<Rightarrow> string list" where
  "awsResourceProblems ev b file defs region =
     (let ty = (case bl_labels b of t # _ \<Rightarrow> t | [] \<Rightarrow> []);
          c = \<lparr>ac_file = file, ac_type = ty, ac_name = resource_name b, ac_defaults = defs, ac_region = region\<rparr> in
      case map_of awsAttrAllowlist ty of
        None \<Rightarrow> [ac_who c @ '' is a type the AWS gate has no attribute allowlist for, so nothing it sets could be checked'']
      | Some rules \<Rightarrow> bodyProblems ev c rules [] b)"

definition declared :: "(string \<times> body) list \<Rightarrow> string \<Rightarrow> string list" where
  "declared parsed ty =
     concat (map (\<lambda>(file, blocks). map (\<lambda>b. file @ '': '' @ resource_name b)
       (filter (\<lambda>b. bl_type b = ''resource'' \<and> (case bl_labels b of t # _ \<Rightarrow> t = ty | [] \<Rightarrow> False)) blocks)) parsed)"

definition awsMultiplicityProblems :: "(string \<times> body) list \<Rightarrow> string list" where
  "awsMultiplicityProblems parsed =
     (let instances = declared parsed ''aws_instance''; eips = declared parsed ''aws_eip'' in
      (if instances = []
       then [''no aws_instance is declared in '' @ join '', '' (map fst parsed)
               @ ''; an AWS stack declares exactly one, or the gate would verify nothing and still report green'']
       else if 1 < length instances
       then [''aws_instance is declared '' @ itoa (int (length instances)) @ '' times ('' @ join '', '' instances
               @ ''); an AWS stack declares exactly one, the server whose user_data and AMI this run chose'']
       else [])
      @ (if 1 < length eips
         then [''aws_eip is declared '' @ itoa (int (length eips)) @ '' times ('' @ join '', '' eips
                 @ ''); the gate admits at most one, which bounds the stack to two public addresses'']
         else []))"

subsection \<open>The provider and the region\<close>

definition layer3AWSPin :: provider_pin where
  "layer3AWSPin = \<lparr>pin_name = ''aws'', pin_source = ''hashicorp/aws'', pin_version = ''5.100.0''\<rparr>"

definition layer3AWSSafeProviderAttrs :: "string list" where
  "layer3AWSSafeProviderAttrs = [''region'', ''s3_use_path_style'']"

definition awsRunIDTagKey :: string where "awsRunIDTagKey = ''infrafactory-run-id''"

definition awsObjectKey :: "evaluator \<Rightarrow> expr \<Rightarrow> string" where
  "awsObjectKey ev key = (case ev key of Some (Cty_Str s) \<Rightarrow> quote s | _ \<Rightarrow> ''a computed key'')"

definition awsRequiredProviderEntryProblems :: "evaluator \<Rightarrow> block \<Rightarrow> string \<Rightarrow> string list" where
  "awsRequiredProviderEntryProblems ev b file =
     concat (map (\<lambda>(name, e).
       if name \<noteq> pin_name layer3AWSPin
       then [file @ '': required_provider '' @ quote name @ '' is not permitted; an AWS stack declares only ''
               @ quote (pin_name layer3AWSPin)]
       else case e of
              Object_Cons items \<Rightarrow>
                map (\<lambda>(k, _). file @ '': required_provider '' @ quote name @ '' sets '' @ awsObjectKey ev k
                    @ ''; only source and version are permitted'')
                  (filter (\<lambda>(k, _). awsObjectKey ev k \<notin> {quote ''source'', quote ''version''}) items)
            | _ \<Rightarrow> []) (provider_entries b))"

definition awsProviderRegionProblem :: "evaluator \<Rightarrow> block \<Rightarrow> string \<Rightarrow> var_defaults \<Rightarrow> string \<Rightarrow> string option" where
  "awsProviderRegionProblem ev b file defs region =
     (if region = [] then None
      else case attr_of b ''region'' of
             None \<Rightarrow> Some (file @ '': provider '' @ quote ''aws'' @ '' sets no region; it must be the configured aws.region ''
                    @ quote region)
           | Some e \<Rightarrow>
               (case layer3ResolveConstant ev defs e of
                  Some (Cty_Str s) \<Rightarrow>
                    if s \<noteq> region
                    then Some (file @ '': provider '' @ quote ''aws'' @ '' region '' @ quote s
                           @ '' is not the configured aws.region '' @ quote region)
                    else None
                | _ \<Rightarrow> Some (file @ '': provider '' @ quote ''aws'' @ '' region is not a literal, or a variable with a ''
                       @ ''literal default, so it cannot be checked against aws.region '' @ quote region)))"

definition awsPathStyleProblem :: "evaluator \<Rightarrow> block \<Rightarrow> string \<Rightarrow> string option" where
  "awsPathStyleProblem ev b file =
     (if (case attr_of b ''s3_use_path_style'' of None \<Rightarrow> False | Some e \<Rightarrow> ev e = Some (Cty_Bool True)) then None
      else Some (file @ '': provider '' @ quote ''aws'' @ '' s3_use_path_style must be literal true''))"

definition tag_item_problem :: "evaluator \<Rightarrow> string \<Rightarrow> expr \<times> expr \<Rightarrow> string option" where
  "tag_item_problem ev file item =
     (case item of (k, v) \<Rightarrow>
        if awsObjectKey ev k \<noteq> quote awsRunIDTagKey
        then Some (file @ '': provider '' @ quote ''aws'' @ '' default_tags sets tag '' @ awsObjectKey ev k
               @ ''; it carries only '' @ quote awsRunIDTagKey)
        else case ev v of
               Some (Cty_Str s) \<Rightarrow> None
             | _ \<Rightarrow> Some (file @ '': provider '' @ quote ''aws'' @ '' default_tags tag '' @ quote awsRunIDTagKey
                    @ '' must be a literal string''))"

definition awsDefaultTagsProblems :: "evaluator \<Rightarrow> block \<Rightarrow> string \<Rightarrow> string list" where
  "awsDefaultTagsProblems ev b file =
     map (\<lambda>n. file @ '': provider '' @ quote ''aws'' @ '' default_tags block '' @ quote (bl_type n) @ '' is not permitted'')
       (bl_blocks b)
     @ map (\<lambda>(name, _). file @ '': provider '' @ quote ''aws'' @ '' default_tags setting '' @ quote name @ '' is not permitted'')
         (filter (\<lambda>(name, _). name \<noteq> ''tags'') (bl_attrs b))
     @ (let exact = file @ '': provider '' @ quote ''aws'' @ '' default_tags tags must be a literal object with exactly the key ''
              @ quote awsRunIDTagKey in
        case attr_of b ''tags'' of
          None \<Rightarrow> [file @ '': provider '' @ quote ''aws'' @ '' default_tags sets no tags; it carries exactly ''
                   @ quote awsRunIDTagKey]
        | Some (Object_Cons items) \<Rightarrow>
            (if length items \<noteq> 1 then [exact] else []) @ List.map_filter (tag_item_problem ev file) items
        | Some _ \<Rightarrow> [exact])"

definition awsProviderNestedBlockProblems :: "evaluator \<Rightarrow> block \<Rightarrow> string \<Rightarrow> string list" where
  "awsProviderNestedBlockProblems ev b file =
     concat (map (\<lambda>n.
       if bl_type n \<noteq> ''default_tags''
       then [file @ '': provider '' @ quote ''aws'' @ '' block '' @ quote (bl_type n)
               @ '' is not permitted; the only nested block is infrafactory'' @ [apostrophe] @ ''s default_tags'']
       else awsDefaultTagsProblems ev n file) (bl_blocks b))
     @ (let n = length (filter (\<lambda>n. bl_type n = ''default_tags'') (bl_blocks b)) in
        if 1 < n
        then [file @ '': provider '' @ quote ''aws'' @ '' has '' @ itoa (int n) @ '' default_tags blocks; at most one is permitted'']
        else [])"

definition awsProviderBlockProblems :: "evaluator \<Rightarrow> block \<Rightarrow> string \<Rightarrow> var_defaults \<Rightarrow> string \<Rightarrow> string list" where
  "awsProviderBlockProblems ev b file defs region =
     layer3ProviderBlockProblems b file (pin_name layer3AWSPin) layer3AWSSafeProviderAttrs
     @ (if length (bl_labels b) \<noteq> 1
        then [file @ '': a provider block must be labelled exactly '' @ quote (pin_name layer3AWSPin)]
        else if hd (bl_labels b) \<noteq> pin_name layer3AWSPin then []
        else opt_list (awsProviderRegionProblem ev b file defs region) @ opt_list (awsPathStyleProblem ev b file)
          @ awsProviderNestedBlockProblems ev b file)"

definition awsBlockName :: "block \<Rightarrow> string" where
  "awsBlockName b = bl_type b @ concat (map (\<lambda>l. '' '' @ quote l) (bl_labels b))"

definition awsProviderMetaArgProblem :: "block \<Rightarrow> string \<Rightarrow> string option" where
  "awsProviderMetaArgProblem b file =
     (if attr_of b ''provider'' = None then None
      else Some (file @ '': '' @ awsBlockName b @ '' sets provider; every resource uses the one provider ''
             @ quote ''aws'' @ '' block''))"

fun awsStringText :: "cty \<Rightarrow> string list" where
  "awsStringText (Cty_Str s) = [s]"
| "awsStringText v = []"

fun step_text :: "step \<Rightarrow> string list" where
  "step_text (Root_Step n) = [n]"
| "step_text (Attr_Step n) = [n]"
| "step_text (Index_Step v) = awsStringText v"
| "step_text Splat_Step = []"

definition awsTraversalText :: "step list \<Rightarrow> string list" where
  "awsTraversalText ts = concat (map step_text ts)"

fun awsNodeText :: "expr \<Rightarrow> string list" where
  "awsNodeText (Function_Call f es x) = [f]"
| "awsNodeText (Object_Key k es) = [k]"
| "awsNodeText (For_Expr k v es) = [k, v]"
| "awsNodeText (Literal v) = awsStringText v"
| "awsNodeText (Scope_Traversal ts) = awsTraversalText ts"
| "awsNodeText (Relative_Traversal e ts) = awsTraversalText ts"
| "awsNodeText e = []"

text \<open>Every piece of text of a block, of what it holds and of its expressions.\<close>

definition block_text :: "block \<Rightarrow> string list" where
  "block_text b =
     concat (map (\<lambda>b. bl_type b # bl_labels b
       @ concat (map (\<lambda>(name, e). name # concat (map awsNodeText (subexprs e))) (bl_attrs b))) (subblocks b))"

definition awsRunIDTagProblem :: "block \<Rightarrow> string \<Rightarrow> string option" where
  "awsRunIDTagProblem b file =
     (if list_ex (\<lambda>t. contains t awsRunIDTagKey) (block_text b)
      then Some (file @ '': '' @ awsBlockName b @ '' names the '' @ quote awsRunIDTagKey
             @ '' tag, which infrafactory sets from the run'' @ [apostrophe] @ ''s id: remove it'')
      else None)"

definition awsProviderCountProblem :: "string list \<Rightarrow> string option" where
  "awsProviderCountProblem at =
     (case at of
        [_] \<Rightarrow> None
      | [] \<Rightarrow> Some (''no provider '' @ quote ''aws'' @ '' block; an AWS stack needs exactly one, the one infrafactory writes'')
      | _ \<Rightarrow> Some (itoa (int (length at)) @ '' provider '' @ quote ''aws'' @ '' blocks ('' @ join '', '' at
               @ ''); exactly one is permitted''))"

definition provider_block_problems :: "evaluator \<Rightarrow> var_defaults \<Rightarrow> string \<Rightarrow> string \<Rightarrow> block \<Rightarrow> string list" where
  "provider_block_problems ev defs region file b =
     (if bl_type b = ''provider'' then awsProviderBlockProblems ev b file defs region
      else (if bl_type b = ''terraform''
            then layer3TerraformBlockProblems b file @ fst (layer3ProviderSourceProblems ev b file layer3AWSPin)
              @ awsRequiredProviderEntryProblems ev b file
            else if bl_type b = ''resource'' then opt_list (awsProviderMetaArgProblem b file)
            else [])
        @ opt_list (awsRunIDTagProblem b file))"

definition is_aws_provider :: "block \<Rightarrow> bool" where
  "is_aws_provider b \<longleftrightarrow> bl_type b = ''provider'' \<and> bl_labels b = [pin_name layer3AWSPin]"

definition awsProviderProblems :: "evaluator \<Rightarrow> (string \<times> body) list \<Rightarrow> var_defaults \<Rightarrow> string \<Rightarrow> string list" where
  "awsProviderProblems ev parsed defs region =
     (if region = []
      then [''aws.region is not configured, so the provider '' @ quote ''aws''
              @ '' region cannot be checked; the gate never defaults it'']
      else [])
     @ concat (map (\<lambda>(file, blocks). concat (map (provider_block_problems ev defs region file) blocks)) parsed)
     @ opt_list (awsProviderCountProblem (concat (map (\<lambda>(file, blocks).
         map (\<lambda>b. file @ '':'' @ itoa (int (bl_line b))) (filter is_aws_provider blocks)) parsed)))
     @ opt_list (layer3MissingProviderProblem
         (list_ex (\<lambda>(file, blocks). list_ex (block_pins ev layer3AWSPin) blocks) parsed) layer3AWSPin)"

subsection \<open>The boot script and the image\<close>

record aws_ami =
  am_id :: string
  am_size :: int
  am_volume :: string
  am_deleted :: bool \<comment> \<open>the root volume goes with the instance\<close>

definition awsMaxRootGiB :: int where "awsMaxRootGiB = 20"

definition awsRootVolumeType :: string where "awsRootVolumeType = ''gp3''"

definition awsIsUserDataExpr :: "expr \<Rightarrow> bool" where
  "awsIsUserDataExpr e =
     (case e of
        Function_Call f [Template [Scope_Traversal [r, Attr_Step name], Literal v]] expanded \<Rightarrow>
          f = ''file'' \<and> \<not> expanded \<and> root_name [r] = ''path'' \<and> name = ''module''
          \<and> v = Cty_Str (''/'' @ AWSUserDataFile)
      | _ \<Rightarrow> False)"

definition is_instance :: "block \<Rightarrow> bool" where
  "is_instance b \<longleftrightarrow> (case bl_labels b of ty # _ \<Rightarrow> ty = ''aws_instance'' | [] \<Rightarrow> False)"

definition awsUserDataExempt :: "block \<Rightarrow> string \<Rightarrow> expr \<Rightarrow> bool" where
  "awsUserDataExempt b name e \<longleftrightarrow>
     bl_type b = ''resource'' \<and> is_instance b \<and> name = ''user_data'' \<and> awsIsUserDataExpr e"

definition layer3BlockName :: "block \<Rightarrow> string" where
  "layer3BlockName b = (case bl_labels b of ty # n # _ \<Rightarrow> ty @ '' '' @ n | _ \<Rightarrow> bl_type b)"

definition AWSUserDataLine :: string where
  "AWSUserDataLine = ''user_data = file('' @ [CHR 0x22] @ ''${path.module}/'' @ AWSUserDataFile @ [CHR 0x22] @ '')''"

definition awsInstanceUserDataProblems :: "block \<Rightarrow> string \<Rightarrow> string list" where
  "awsInstanceUserDataProblems b file =
     (if (case attr_of b ''user_data'' of None \<Rightarrow> False | Some e \<Rightarrow> awsIsUserDataExpr e) then []
      else [file @ '': '' @ layer3BlockName b @ '' must set exactly `'' @ AWSUserDataLine
              @ ''`; the instance boots only the script infrafactory renders''])"

definition awsAMIProblems :: "evaluator \<Rightarrow> block \<Rightarrow> string \<Rightarrow> aws_ami \<Rightarrow> string list" where
  "awsAMIProblems ev b file ami =
     (if am_id ami = []
      then [file @ '': '' @ layer3BlockName b @ '' cannot be checked: no AMI was resolved for this run'']
      else if (case attr_of b ''ami'' of None \<Rightarrow> False | Some e \<Rightarrow> ev e = Some (Cty_Str (am_id ami))) then []
      else [file @ '': '' @ layer3BlockName b @ '' must set ami = '' @ quote (am_id ami)
              @ '', the AMI resolved for this run, as a literal''])"

definition awsAMIRootProblems :: "aws_ami \<Rightarrow> string list" where
  "awsAMIRootProblems ami =
     (if am_size ami < 1 \<or> awsMaxRootGiB < am_size ami
      then [''AMI '' @ am_id ami @ apostrophe # ''s root volume is '' @ itoa (am_size ami) @ '' GiB; the gate permits 1 to ''
              @ itoa awsMaxRootGiB]
      else [])
     @ (if am_volume ami \<noteq> awsRootVolumeType
        then [''AMI '' @ am_id ami @ apostrophe # ''s root volume type is '' @ quote (am_volume ami)
                @ ''; the gate permits only '' @ quote awsRootVolumeType]
        else [])
     @ (if am_deleted ami then []
        else [''AMI '' @ am_id ami @ apostrophe # ''s root volume is not deleted on termination, so destroying the instance ''
                @ ''would leave it billing''])"

text \<open>What lies at the script's path: whether Lstat finds a regular file there, and what a read returns.\<close>

record script_file =
  sf_regular :: "bool option"
  sf_bytes :: "string option"

definition awsUserDataFileProblem :: "script_file \<Rightarrow> string \<Rightarrow> string option" where
  "awsUserDataFileProblem f rendered =
     (if rendered = []
      then Some (AWSUserDataFile @ '': no script was rendered for this run, so there is nothing to compare it with'')
      else case sf_regular f of
             None \<Rightarrow> Some (AWSUserDataFile @ '': cannot stat it, so cannot vouch for it'')
           | Some False \<Rightarrow> Some (AWSUserDataFile @ '': is not a regular file; a symlink or a directory is refused'')
           | Some True \<Rightarrow>
               (case sf_bytes f of
                  None \<Rightarrow> Some (AWSUserDataFile @ '': cannot read it, so cannot vouch for it'')
                | Some got \<Rightarrow>
                    if got \<noteq> rendered then Some (AWSUserDataFile @ '': differs from the script rendered for this run'')
                    else None))"

subsection \<open>The driver and the dispatch\<close>

record gate_inputs =
  gi_allowed :: "string list"
  gi_region :: string
  gi_ami :: aws_ami
  gi_script :: string

definition layer3AWSResourcePrefix :: string where "layer3AWSResourcePrefix = ''aws_''"

definition awsBlockProblems :: "evaluator \<Rightarrow> var_defaults \<Rightarrow> gate_inputs \<Rightarrow> string \<Rightarrow> block \<Rightarrow> string list" where
  "awsBlockProblems ev defs gi file b =
     (case layer3TopLevelBlockProblem b file of
        Some p \<Rightarrow> [p]
      | None \<Rightarrow>
          layer3NestedProblems file b @ layer3FunctionCallProblems file awsUserDataExempt b
          @ layer3UndestroyableProblems ev file b
          @ (if bl_type b \<noteq> ''resource'' then []
             else opt_list (layer3ResourceTypeProblem b file layer3AWSResourcePrefix (gi_allowed gi))
               @ layer3MultiplicityProblems b file @ awsResourceProblems ev b file defs (gi_region gi)
               @ (if is_instance b
                  then awsInstanceUserDataProblems b file @ awsAMIProblems ev b file (gi_ami gi) else [])))"

definition validateAWSLayer3HCLShape :: "evaluator \<Rightarrow> stack_dir \<Rightarrow> script_file \<Rightarrow> gate_inputs \<Rightarrow> string option" where
  "validateAWSLayer3HCLShape ev d f gi =
     (case layer3ParseDir ev d of
        Inl e \<Rightarrow> Some e
      | Inr (parsed, defs) \<Rightarrow>
          refuses_configuration
            (concat (map (\<lambda>(file, blocks). concat (map (awsBlockProblems ev defs gi file) blocks)) parsed)
             @ awsProviderProblems ev parsed defs (gi_region gi) @ awsMultiplicityProblems parsed
             @ awsAMIRootProblems (gi_ami gi) @ opt_list (awsUserDataFileProblem f (gi_script gi))))"

definition layer3PreflightHCLForCloud ::
    "evaluator \<Rightarrow> layer3_cloud \<Rightarrow> stack_dir \<Rightarrow> script_file \<Rightarrow> gate_inputs \<Rightarrow> string option" where
  "layer3PreflightHCLForCloud ev cloud d f gi =
     (case cloud of
        layer3Scaleway \<Rightarrow> validateLayer3HCLShape ev d (gi_allowed gi)
      | layer3AWS \<Rightarrow> validateAWSLayer3HCLShape ev d f gi
      | Other_Cloud c \<Rightarrow> Some (''cloud '' @ c
          @ '' has no Layer 3 HCL gate yet, so its configuration may not reach a real account''))"

end
