(* ===== verification/Hcl_Admitted.thy ===== *)
theory Hcl_Admitted
  imports Hcl_Aws
begin

text \<open>
  What a configuration has that a Layer 3 gate admits, for each cloud: read off the tree, without the gate's messages,
  its order or the way it walks.
\<close>

subsection \<open>From refusals to blocks\<close>

lemma refuses_configuration_None: "refuses_configuration ps = None \<longleftrightarrow> ps = []"
  by (simp add: refuses_configuration_def)

lemma opt_list_Nil [simp]: "opt_list x = [] \<longleftrightarrow> x = None"
  by (simp add: opt_list_def split: option.split)

lemma every_block:
  assumes "concat (map (\<lambda>(file, blocks). concat (map (f file) blocks)) parsed) = []"
    and "\<And>file b. f file b = [] \<Longrightarrow> Q b"
  shows "list_all Q (all_blocks parsed)"
  using assms by (fastforce simp: all_blocks_def list_all_iff)

definition resource_of :: "string \<Rightarrow> block \<Rightarrow> bool" where
  "resource_of ty b \<longleftrightarrow> bl_type b = ''resource'' \<and> (case bl_labels b of t # _ \<Rightarrow> t = ty | [] \<Rightarrow> False)"

lemma length_concat_blocks:
  "length (concat (map (\<lambda>(file, blocks). map (g file) (filter P blocks)) parsed)) = length (filter P (all_blocks parsed))"
  by (induction parsed) (auto simp: all_blocks_def)

subsection \<open>Scaleway\<close>

definition own_networks :: "block \<Rightarrow> bool" where
  "own_networks b =
     (case bl_labels b of
        [] \<Rightarrow> True
      | ty # _ \<Rightarrow> ty \<noteq> ''scaleway_instance_private_nic''
          \<and> (if ty = ''scaleway_instance_server''
              then list_all (\<lambda>n. if bl_type n \<noteq> ''private_network'' then True
                     else case attr_of n ''pn_id'' of None \<Rightarrow> False | Some e \<Rightarrow> layer3IsPrivateNetworkIDRef e) (bl_blocks b)
              else True))"

lemma own_networksI:
  assumes "layer3UndestroyableResourceProblems b file = []" "layer3InlinePrivateNetworkProblems b file = []"
  shows "own_networks b"
  using assms by (auto simp: own_networks_def layer3UndestroyableResourceProblems_def layer3InlinePrivateNetworkProblems_def
      map_filter_Nil list_all_iff split: list.splits if_splits option.splits)

definition plain_provider :: "string \<Rightarrow> string list \<Rightarrow> block \<Rightarrow> bool" where
  "plain_provider label safe b \<longleftrightarrow>
     (case bl_labels b of l # _ \<Rightarrow> l = label | [] \<Rightarrow> True) \<and> list_all (\<lambda>(name, _). name \<in> set safe) (bl_attrs b)"

lemma layer3ProviderBlockProblems_Nil:
  "layer3ProviderBlockProblems b file label safe = [] \<longleftrightarrow> plain_provider label safe b"
  by (auto simp: layer3ProviderBlockProblems_def plain_provider_def filter_empty_conv list_all_iff split: list.split)

definition scaleway_block :: "evaluator \<Rightarrow> var_defaults \<Rightarrow> string list \<Rightarrow> block \<Rightarrow> bool" where
  "scaleway_block ev defs allowed b \<longleftrightarrow>
     tree_safe ev no_exemption b
     \<and> (if bl_type b = ''resource'' then scaleway_resource ev defs allowed b \<and> own_networks b
         else if bl_type b = ''provider'' then plain_provider ''scaleway'' [''region'', ''zone''] b
         else if bl_type b = ''terraform'' then terraform_safe ev layer3ScalewayPin b
         else True)"

lemma resource_type_ok:
  "layer3ResourceTypeProblem b file pre allowed = None \<longleftrightarrow>
     (case bl_labels b of [] \<Rightarrow> True | ty # _ \<Rightarrow> has_prefix ty pre \<and> resourceTypeAllowed ty allowed)"
  by (simp add: layer3ResourceTypeProblem_def split: list.split)

lemma scaleway_blockI:
  assumes none: "scaleway_block_problems ev allowed file b = []"
    and cost: "bl_type b = ''resource'' \<Longrightarrow> layer3CostProblems ev defs b file = []"
  shows "scaleway_block ev defs allowed b"
proof -
  have top: "layer3TopLevelBlockProblem b file = None"
    using none by (cases "layer3TopLevelBlockProblem b file") (simp_all add: scaleway_block_problems_def)
  note none = none [unfolded scaleway_block_problems_def top option.case append_is_Nil_conv]
  have safe: "tree_safe ev no_exemption b"
    unfolding tree_safe_iff [of _ _ _ "file"] using top none by blast
  consider "bl_type b = ''resource''" | "bl_type b = ''provider''" | "bl_type b = ''terraform''"
    | "bl_type b \<noteq> ''resource'' \<and> bl_type b \<noteq> ''provider'' \<and> bl_type b \<noteq> ''terraform''" by blast
  then show ?thesis
  proof cases
    case 1
    with none have "scaleway_resource ev defs allowed b"
      using layer3CostProblems_Nil [OF cost]
      by (simp add: scaleway_resource_def layer3ContainmentProblems_Nil resource_type_ok layer3ScalewayResourcePrefix_def)
    with 1 none safe show ?thesis by (simp add: scaleway_block_def own_networksI [of _ "file"])
  next
    case 2
    with none safe show ?thesis
      by (simp add: scaleway_block_def layer3ProviderBlockProblems_Nil layer3ScalewayPin_def layer3SafeProviderAttrs_def)
  next
    case 3
    with none safe show ?thesis by (simp add: scaleway_block_def terraform_safe_iff [of _ _ _ "file"])
  next
    case 4
    with safe show ?thesis by (simp add: scaleway_block_def)
  qed
qed

lemma pins_required:
  assumes "layer3MissingProviderProblem (list_ex (\<lambda>(file, blocks). list_ex (block_pins ev pin) blocks) parsed) pin = None"
  shows "list_ex (requires_pin ev pin) (all_blocks parsed)"
proof -
  have "block_pins ev pin = requires_pin ev pin" by (rule ext) (rule block_pins_requires)
  then have "list_ex (\<lambda>(file, blocks). list_ex (requires_pin ev pin) blocks) parsed"
    using assms by (simp add: layer3MissingProviderProblem_def split: if_splits)
  then show ?thesis by (induction parsed) (auto simp: all_blocks_def list_ex_iff)
qed

lemma scaleway_file_blocks:
  assumes "file_problems ev allowed defs (file, blocks) = []" "b \<in> set blocks"
  shows "scaleway_block ev defs allowed b"
  using assms by (intro scaleway_blockI [of _ _ "file"]) (auto simp: file_problems_def layer3BlockProblems_def)


subsection \<open>AWS: the allowlist\<close>

definition aws_value :: "evaluator \<Rightarrow> var_defaults \<Rightarrow> string \<Rightarrow> aws_rule \<Rightarrow> expr \<Rightarrow> bool" where
  "aws_value ev defs region rule e =
     (case rule of
        Aws_Any \<Rightarrow> True
      | Aws_Delegated \<Rightarrow> True
      | Aws_Enum allowed \<Rightarrow> of_enum ev defs e allowed
      | Aws_Max bound \<Rightarrow> within ev defs e bound
      | Aws_Bool allowed \<Rightarrow> (case layer3ResolveConstant ev defs e of Some (Cty_Bool b) \<Rightarrow> b \<in> set allowed | _ \<Rightarrow> False)
      | Aws_Ref ty \<Rightarrow> awsIsIDRef e ty
      | Aws_Ref_List ty \<Rightarrow> awsIsIDRefList e ty
      | Aws_Zone \<Rightarrow> (case layer3ResolveConstant ev defs e of
            Some (Cty_Str z) \<Rightarrow> region \<noteq> [] \<and> standard_zone region z | _ \<Rightarrow> False)
      | Aws_Block most inner \<Rightarrow> False)"

fun aws_body :: "evaluator \<Rightarrow> var_defaults \<Rightarrow> string \<Rightarrow> (string \<times> aws_rule) list \<Rightarrow> bool \<Rightarrow> block \<Rightarrow> bool" where
  "aws_body ev defs region rules outer (Block ty labels attrs inner line) \<longleftrightarrow>
     list_all (\<lambda>(name, e). if outer \<and> name \<in> set awsMetaAttributes then True
       else case map_of rules name of None \<Rightarrow> False | Some rule \<Rightarrow> aws_value ev defs region rule e) attrs
     \<and> list_all (\<lambda>b. if outer \<and> bl_type b \<in> set awsMetaBlocks then True
       else case map_of rules (bl_type b) of
              Some (Aws_Block most sub) \<Rightarrow> aws_body ev defs region sub False b
                \<and> (if most = 0 then True else count_list (map bl_type inner) (bl_type b) \<le> most)
            | _ \<Rightarrow> False) inner"

lemma attr_problem_None:
  "attr_problem ev c rules at (name, e) = None \<longleftrightarrow>
     (if at = [] \<and> name \<in> set awsMetaAttributes then True
      else case map_of rules name of None \<Rightarrow> False | Some rule \<Rightarrow> aws_value ev (ac_defaults c) (ac_region c) rule e)"
  by (auto simp: attr_problem_def aws_value_def valueProblem_def Let_def of_enum_def within_def zoneProblem_def
      split: option.split aws_rule.split cty.split)

lemma nested_count:
  "nested_problems ev c rules at seen bs = [] \<Longrightarrow> map_of rules ty = Some (Aws_Block most sub) \<Longrightarrow> 0 < most \<Longrightarrow>
     \<not> (at = [] \<and> ty \<in> set awsMetaBlocks) \<Longrightarrow> count_list seen ty \<le> most \<Longrightarrow>
     count_list seen ty + count_list (map bl_type bs) ty \<le> most"
proof (induction bs arbitrary: seen)
  case (Cons b bs)
  show ?case
  proof (cases "bl_type b = ty")
    case True
    with Cons.prems have rest: "nested_problems ev c rules at (seen @ [ty]) bs = []" and "Suc (count_list seen ty) \<noteq> most + 1"
      by (auto split: if_splits)
    with Cons.prems have "count_list (seen @ [ty]) ty \<le> most" by simp
    from Cons.IH [OF rest Cons.prems(2-4) this] True show ?thesis by simp
  next
    case False
    then obtain seen' where "nested_problems ev c rules at seen' bs = []" "count_list seen' ty = count_list seen ty"
      using Cons.prems(1) by (auto split: if_splits option.splits aws_rule.splits)
    with Cons.IH [of seen'] Cons.prems False show ?thesis by simp
  qed
qed simp

lemma nested_member:
  "nested_problems ev c rules at seen bs = [] \<Longrightarrow> b \<in> set bs \<Longrightarrow> \<not> (at = [] \<and> bl_type b \<in> set awsMetaBlocks) \<Longrightarrow>
     \<exists>most sub. map_of rules (bl_type b) = Some (Aws_Block most sub) \<and> bodyProblems ev c sub (at @ bl_type b @ ''.'') b = []"
  by (induction bs arbitrary: seen) (auto split: if_splits option.splits aws_rule.splits)

lemma bodyProblems_Nil:
  "bodyProblems ev c rules at b = [] \<Longrightarrow> aws_body ev (ac_defaults c) (ac_region c) rules (at = []) b"
proof (induction b arbitrary: rules at)
  case (Block ty labels attrs inner line)
  have attrs: "list_all (\<lambda>ne. attr_problem ev c rules at ne = None) attrs"
    and nested: "nested_problems ev c rules at [] inner = []"
    using Block.prems by (simp_all add: map_filter_Nil)
  have "if at = [] \<and> bl_type b \<in> set awsMetaBlocks then True
       else case map_of rules (bl_type b) of
              Some (Aws_Block most sub) \<Rightarrow> aws_body ev (ac_defaults c) (ac_region c) sub False b
                \<and> (if most = 0 then True else count_list (map bl_type inner) (bl_type b) \<le> most)
            | _ \<Rightarrow> False" if b: "b \<in> set inner" for b
  proof (cases "at = [] \<and> bl_type b \<in> set awsMetaBlocks")
    case False
    from nested_member [OF nested b False] obtain most sub
      where m: "map_of rules (bl_type b) = Some (Aws_Block most sub)" "bodyProblems ev c sub (at @ bl_type b @ ''.'') b = []"
      by blast
    with nested_count [OF nested m(1) _ False] Block.IH [OF b m(2)] show ?thesis by simp
  qed simp
  then show ?case using attrs
    unfolding aws_body.simps list_all_iff by (auto simp: attr_problem_None)
qed

definition aws_block :: "evaluator \<Rightarrow> var_defaults \<Rightarrow> gate_inputs \<Rightarrow> block \<Rightarrow> bool" where
  "aws_block ev defs gi b \<longleftrightarrow>
     tree_safe ev awsUserDataExempt b
     \<and> (if bl_type b \<noteq> ''resource'' then True
         else case bl_labels b of
                [] \<Rightarrow> False
              | ty # _ \<Rightarrow> has_prefix ty ''aws_'' \<and> resourceTypeAllowed ty (gi_allowed gi)
                  \<and> attr_of b ''count'' = None \<and> attr_of b ''for_each'' = None
                  \<and> (case map_of awsAttrAllowlist ty of
                        None \<Rightarrow> False
                      | Some rules \<Rightarrow> aws_body ev defs (gi_region gi) rules True b))"

lemma awsResourceProblems_Nil:
  "awsResourceProblems ev b file defs region = [] \<Longrightarrow>
     (case bl_labels b of
        [] \<Rightarrow> False
      | ty # _ \<Rightarrow> (case map_of awsAttrAllowlist ty of None \<Rightarrow> False | Some rules \<Rightarrow> aws_body ev defs region rules True b))"
  by (cases "bl_labels b")
    (auto simp: awsResourceProblems_def Let_def awsAttrAllowlist_def dest!: bodyProblems_Nil split: option.splits if_splits)

lemma aws_blockI:
  assumes none: "awsBlockProblems ev defs gi file b = []"
  shows "aws_block ev defs gi b"
proof -
  have top: "layer3TopLevelBlockProblem b file = None"
    using none by (cases "layer3TopLevelBlockProblem b file") (simp_all add: awsBlockProblems_def)
  note none = none [unfolded awsBlockProblems_def top option.case append_is_Nil_conv]
  have safe: "tree_safe ev awsUserDataExempt b"
    unfolding tree_safe_iff [of _ _ _ "file"] using top none by blast
  show ?thesis
  proof (cases "bl_type b = ''resource''")
    case True
    with none have "layer3ResourceTypeProblem b file layer3AWSResourcePrefix (gi_allowed gi) = None"
        "layer3MultiplicityProblems b file = []" "awsResourceProblems ev b file defs (gi_region gi) = []"
      by simp_all
    from this(1,2) awsResourceProblems_Nil [OF this(3)] True safe show ?thesis
      by (auto simp: aws_block_def resource_type_ok layer3AWSResourcePrefix_def layer3MultiplicityProblems_def
          split: list.splits if_splits)
  qed (simp add: aws_block_def safe)
qed

subsection \<open>AWS: the provider and the region\<close>

lemma quote_plain: "quote s = quote t \<Longrightarrow> list_all (\<lambda>c. quote_char c = [c]) t \<Longrightarrow> s = t"
proof -
  have "concat (map quote_char s) = concat (map quote_char t) \<Longrightarrow> list_all (\<lambda>c. quote_char c = [c]) t \<Longrightarrow> s = t"
  proof (induction t arbitrary: s)
    case Nil
    then show ?case by (cases s) (auto simp: quote_char_def split: if_splits)
  next
    case (Cons c t)
    obtain d s' where s: "s = d # s'"
      using Cons.prems by (cases s) auto
    have "quote_char d = [c] \<or> quote_char d = [d]" "quote_char CHR 0x5C \<noteq> [CHR 0x5C]"
      using Cons.prems s by (auto simp: quote_char_def split: if_splits)
    then have "d = c" and "quote_char d = [d]"
      using Cons.prems s by (auto simp: quote_char_def split: if_splits)
    with Cons s show ?case by auto
  qed
  then show "quote s = quote t \<Longrightarrow> list_all (\<lambda>c. quote_char c = [c]) t \<Longrightarrow> s = t" by (simp add: quote_def)
qed

lemma awsObjectKey_is:
  assumes "awsObjectKey ev k = quote t" "list_all (\<lambda>c. quote_char c = [c]) t"
  shows "ev k = Some (Cty_Str t)"
proof (cases "\<exists>s. ev k = Some (Cty_Str s)")
  case True
  with assms quote_plain show ?thesis by (auto simp: awsObjectKey_def)
next
  case False
  then have "awsObjectKey ev k = ''a computed key''" by (auto simp: awsObjectKey_def split: option.split cty.split)
  with assms show ?thesis by (simp add: quote_def)
qed

text \<open>A block of tags that carries the run's id and nothing else.\<close>

definition run_tags :: "evaluator \<Rightarrow> block \<Rightarrow> bool" where
  "run_tags ev n \<longleftrightarrow>
     bl_type n = ''default_tags'' \<and> bl_blocks n = [] \<and> list_all (\<lambda>(name, _). name = ''tags'') (bl_attrs n)
     \<and> (case attr_of n ''tags'' of
           Some (Object_Cons [(k, v)]) \<Rightarrow> ev k = Some (Cty_Str awsRunIDTagKey)
             \<and> (case ev v of Some (Cty_Str s) \<Rightarrow> True | _ \<Rightarrow> False)
         | _ \<Rightarrow> False)"

lemma run_tagsI: "bl_type n = ''default_tags'' \<Longrightarrow> awsDefaultTagsProblems ev n file = [] \<Longrightarrow> run_tags ev n"
proof -
  assume ty: "bl_type n = ''default_tags''" and none: "awsDefaultTagsProblems ev n file = []"
  from none obtain k v where tags: "attr_of n ''tags'' = Some (Object_Cons [(k, v)])" and item: "tag_item_problem ev file (k, v) = None"
    by (fastforce simp: awsDefaultTagsProblems_def Let_def map_filter_Nil length_Suc_conv
        split: option.splits expr.splits if_splits)
  have "awsObjectKey ev k = quote awsRunIDTagKey"
    using item by (simp add: tag_item_problem_def split: if_splits)
  then have "ev k = Some (Cty_Str awsRunIDTagKey)"
    by (rule awsObjectKey_is) (simp add: awsRunIDTagKey_def quote_char_def)
  with item tags ty none show "run_tags ev n"
    by (auto simp: run_tags_def tag_item_problem_def awsDefaultTagsProblems_def filter_empty_conv list_all_iff
        split: option.splits cty.splits if_splits)
qed

definition aws_provider :: "evaluator \<Rightarrow> var_defaults \<Rightarrow> string \<Rightarrow> block \<Rightarrow> bool" where
  "aws_provider ev defs region b \<longleftrightarrow>
     bl_labels b = [''aws''] \<and> list_all (\<lambda>(name, _). name \<in> {''region'', ''s3_use_path_style''}) (bl_attrs b)
     \<and> (case attr_of b ''region'' of
           Some e \<Rightarrow> layer3ResolveConstant ev defs e = Some (Cty_Str region) | None \<Rightarrow> False)
     \<and> (case attr_of b ''s3_use_path_style'' of Some e \<Rightarrow> ev e = Some (Cty_Bool True) | None \<Rightarrow> False)
     \<and> list_all (run_tags ev) (bl_blocks b) \<and> length (bl_blocks b) \<le> 1"

lemma aws_providerI:
  assumes none: "awsProviderBlockProblems ev b file defs region = []" and region: "region \<noteq> []"
  shows "aws_provider ev defs region b"
proof -
  have label: "bl_labels b = [''aws'']" and plain: "plain_provider ''aws'' [''region'', ''s3_use_path_style''] b"
    using none by (auto simp: awsProviderBlockProblems_def layer3ProviderBlockProblems_Nil layer3AWSPin_def
        layer3AWSSafeProviderAttrs_def length_Suc_conv plain_provider_def split: if_splits list.splits)
  note none = none [unfolded awsProviderBlockProblems_def append_is_Nil_conv layer3AWSPin_def label, simplified]
  have tags: "list_all (run_tags ev) (bl_blocks b)"
    unfolding list_all_iff
  proof
    fix n assume "n \<in> set (bl_blocks b)"
    then have "concat (map f (bl_blocks b)) = [] \<Longrightarrow> f n = []" for f :: "block \<Rightarrow> string list" by simp
    with none have "(if bl_type n \<noteq> ''default_tags''
       then [file @ '': provider '' @ quote ''aws'' @ '' block '' @ quote (bl_type n)
               @ '' is not permitted; the only nested block is infrafactory'' @ [apostrophe] @ ''s default_tags'']
       else awsDefaultTagsProblems ev n file) = []"
      unfolding awsProviderNestedBlockProblems_def append_is_Nil_conv by blast
    then have "bl_type n = ''default_tags'' \<and> awsDefaultTagsProblems ev n file = []"
      by (cases "bl_type n = ''default_tags''") simp_all
    then show "run_tags ev n" using run_tagsI by blast
  qed
  then have "filter (\<lambda>n. bl_type n = ''default_tags'') (bl_blocks b) = bl_blocks b"
    by (simp add: list_all_iff run_tags_def filter_id_conv)
  with none have "length (bl_blocks b) \<le> 1"
    by (auto simp: awsProviderNestedBlockProblems_def Let_def split: if_splits)
  moreover have "case attr_of b ''region'' of
           Some e \<Rightarrow> layer3ResolveConstant ev defs e = Some (Cty_Str region) | None \<Rightarrow> False"
    using none region by (auto simp: awsProviderRegionProblem_def split: option.splits cty.splits if_splits)
  moreover have "case attr_of b ''s3_use_path_style'' of Some e \<Rightarrow> ev e = Some (Cty_Bool True) | None \<Rightarrow> False"
    using none by (auto simp: awsPathStyleProblem_def split: option.splits if_splits)
  ultimately show ?thesis using label plain tags by (simp add: aws_provider_def plain_provider_def)
qed

definition aws_terraform :: "evaluator \<Rightarrow> block \<Rightarrow> bool" where
  "aws_terraform ev b \<longleftrightarrow>
     terraform_safe ev layer3AWSPin b
     \<and> list_all (\<lambda>(name, e). name = ''aws'' \<and> (case e of
           Object_Cons items \<Rightarrow> list_all (\<lambda>(k, _). ev k \<in> {Some (Cty_Str ''source''), Some (Cty_Str ''version'')}) items
         | _ \<Rightarrow> True)) (provider_entries b)"

lemma aws_entry_keys:
  "awsRequiredProviderEntryProblems ev b file = [] \<Longrightarrow>
     list_all (\<lambda>(name, e). name = ''aws'' \<and> (case e of
           Object_Cons items \<Rightarrow> list_all (\<lambda>(k, _). ev k \<in> {Some (Cty_Str ''source''), Some (Cty_Str ''version'')}) items
         | _ \<Rightarrow> True)) (provider_entries b)"
proof -
  have key: "ev k = Some (Cty_Str ''source'') \<or> ev k = Some (Cty_Str ''version'')"
    if "awsObjectKey ev k = quote ''source'' \<or> awsObjectKey ev k = quote ''version''" for k
    using that
  proof
    assume "awsObjectKey ev k = quote ''source''"
    then have "ev k = Some (Cty_Str ''source'')" by (rule awsObjectKey_is) (simp add: quote_char_def)
    then show ?thesis ..
  next
    assume "awsObjectKey ev k = quote ''version''"
    then have "ev k = Some (Cty_Str ''version'')" by (rule awsObjectKey_is) (simp add: quote_char_def)
    then show ?thesis ..
  qed
  assume none: "awsRequiredProviderEntryProblems ev b file = []"
  have "name = ''aws'' \<and> (case e of
           Object_Cons items \<Rightarrow> list_all (\<lambda>(k, _). ev k \<in> {Some (Cty_Str ''source''), Some (Cty_Str ''version'')}) items
         | _ \<Rightarrow> True)" if member: "(name, e) \<in> set (provider_entries b)" for name e
  proof -
    from none member have own: "name = ''aws''" and "case e of
        Object_Cons items \<Rightarrow> filter (\<lambda>(k, _). awsObjectKey ev k \<notin> {quote ''source'', quote ''version''}) items = [] | _ \<Rightarrow> True"
      unfolding awsRequiredProviderEntryProblems_def concat_eq_Nil_conv list.set_map layer3AWSPin_def
      by (auto dest!: bspec [OF _ member] split: if_splits expr.split)
    then show ?thesis
      using key by (auto simp: filter_empty_conv list_all_iff split: expr.splits)
  qed
  then show "list_all (\<lambda>(name, e). name = ''aws'' \<and> (case e of
           Object_Cons items \<Rightarrow> list_all (\<lambda>(k, _). ev k \<in> {Some (Cty_Str ''source''), Some (Cty_Str ''version'')}) items
         | _ \<Rightarrow> True)) (provider_entries b)" by (auto simp: list_all_iff)
qed

text \<open>What the boundary asks of a block; only a provider block may name the run's tag.\<close>

definition aws_boundary :: "evaluator \<Rightarrow> var_defaults \<Rightarrow> string \<Rightarrow> block \<Rightarrow> bool" where
  "aws_boundary ev defs region b \<longleftrightarrow>
     (if bl_type b = ''provider'' then aws_provider ev defs region b
      else list_all (\<lambda>t. \<not> contains t awsRunIDTagKey) (block_text b)
        \<and> (if bl_type b = ''terraform'' then aws_terraform ev b
            else if bl_type b = ''resource'' then attr_of b ''provider'' = None else True))"

lemma aws_boundaryI:
  assumes "provider_block_problems ev defs region file b = []" "region \<noteq> []"
  shows "aws_boundary ev defs region b"
proof -
  have tag: "awsRunIDTagProblem b file = None \<Longrightarrow> list_all (\<lambda>t. \<not> contains t awsRunIDTagKey) (block_text b)"
    by (auto simp: awsRunIDTagProblem_def list_all_iff list_ex_iff split: if_splits)
  consider "bl_type b = ''provider''" | "bl_type b = ''terraform''" | "bl_type b = ''resource''"
    | "bl_type b \<notin> {''provider'', ''terraform'', ''resource''}" by blast
  then show ?thesis
  proof cases
    case 1
    with assms aws_providerI show ?thesis by (simp add: provider_block_problems_def aws_boundary_def)
  next
    case 2
    with assms tag aws_entry_keys [of ev b "file"] terraform_safe_iff [of ev layer3AWSPin b "file"] show ?thesis
      by (simp add: provider_block_problems_def aws_boundary_def aws_terraform_def)
  next
    case 3
    with assms tag show ?thesis
      by (simp add: provider_block_problems_def aws_boundary_def awsProviderMetaArgProblem_def split: if_splits)
  next
    case 4
    with assms tag show ?thesis by (simp add: provider_block_problems_def aws_boundary_def)
  qed
qed

subsection \<open>AWS: the instance\<close>

definition set_within :: "(expr \<Rightarrow> bool) \<Rightarrow> block \<Rightarrow> string \<Rightarrow> bool" where
  "set_within P b name = (case attr_of b name of None \<Rightarrow> True | Some e \<Rightarrow> P e)"

definition small_root :: "evaluator \<Rightarrow> var_defaults \<Rightarrow> block \<Rightarrow> bool" where
  "small_root ev defs n \<longleftrightarrow>
     bl_type n = ''root_block_device'' \<and> bl_blocks n = []
     \<and> set_within (\<lambda>e. within ev defs e 20) n ''volume_size''
     \<and> set_within (\<lambda>e. of_enum ev defs e [''gp3'']) n ''volume_type''
     \<and> set_within (\<lambda>e. layer3ResolveConstant ev defs e = Some (Cty_Bool True)) n ''delete_on_termination''"

definition small_instance :: "evaluator \<Rightarrow> var_defaults \<Rightarrow> block \<Rightarrow> bool" where
  "small_instance ev defs b \<longleftrightarrow>
     set_within (\<lambda>e. of_enum ev defs e [''t3.micro'', ''t3.small'']) b ''instance_type''
     \<and> set_within (\<lambda>e. awsIsIDRef e ''aws_subnet'') b ''subnet_id''
     \<and> list_all (small_root ev defs) (bl_blocks b) \<and> length (bl_blocks b) \<le> 1"

lemma aws_body_attr:
  assumes "aws_body ev defs region rules outer b" "map_of rules name = Some rule"
    and "outer \<Longrightarrow> name \<notin> set awsMetaAttributes"
  shows "set_within (aws_value ev defs region rule) b name"
proof (cases b)
  case (Block ty labels attrs inner line)
  with assms show ?thesis
    by (fastforce simp: set_within_def attr_of_def list_all_iff split: option.split dest: map_of_SomeD)
qed

lemma aws_value_is:
  "aws_value ev defs region (Aws_Max n) = (\<lambda>e. within ev defs e n)"
  "aws_value ev defs region (Aws_Enum allowed) = (\<lambda>e. of_enum ev defs e allowed)"
  "aws_value ev defs region (Aws_Ref ty) = (\<lambda>e. awsIsIDRef e ty)"
  "aws_value ev defs region (Aws_Bool [True]) = (\<lambda>e. layer3ResolveConstant ev defs e = Some (Cty_Bool True))"
  by (auto simp: aws_value_def fun_eq_iff split: option.splits cty.splits)

lemma aws_root_small:
  assumes "aws_body ev defs region
     [(''volume_size'', Aws_Max 20), (''volume_type'', Aws_Enum [''gp3'']), (''delete_on_termination'', Aws_Bool [True])] False n"
    and "bl_type n = ''root_block_device''"
  shows "small_root ev defs n"
proof -
  have "bl_blocks n = []"
    using assms(1) by (cases n; cases "bl_blocks n") (auto split: if_splits)
  then show ?thesis
    using assms(2) aws_body_attr [OF assms(1), of "''volume_size''" "Aws_Max 20"]
      aws_body_attr [OF assms(1), of "''volume_type''" "Aws_Enum [''gp3'']"]
      aws_body_attr [OF assms(1), of "''delete_on_termination''" "Aws_Bool [True]"]
    by (simp add: small_root_def aws_value_is)
qed

lemma instance_blocks:
  "map_of awsAttrAllowlist ''aws_instance'' = Some rules \<Longrightarrow> map_of rules ty = Some (Aws_Block most sub) \<Longrightarrow>
     ty = ''root_block_device'' \<and> most = 1
     \<and> sub = [(''volume_size'', Aws_Max 20), (''volume_type'', Aws_Enum [''gp3'']), (''delete_on_termination'', Aws_Bool [True])]"
  by (simp add: awsAttrAllowlist_def awsEitherway_def, drule sym) (simp split: if_splits)

lemma aws_instance_small:
  assumes ok: "aws_block ev defs gi b" and r: "resource_of ''aws_instance'' b"
  shows "small_instance ev defs b"
proof -
  obtain rules where rules: "map_of awsAttrAllowlist ''aws_instance'' = Some rules"
    and body: "aws_body ev defs (gi_region gi) rules True b"
    using ok r by (auto simp: aws_block_def resource_of_def split: list.splits option.splits)
  have at: "map_of rules ''instance_type'' = Some (Aws_Enum [''t3.micro'', ''t3.small''])"
      "map_of rules ''subnet_id'' = Some (Aws_Ref ''aws_subnet'')"
    using rules by (simp_all add: awsAttrAllowlist_def) (elim subst, simp)+
  note nested = instance_blocks [OF rules]
  obtain labels attrs inner line where b: "b = Block ''resource'' labels attrs inner line"
    using r by (cases b) (auto simp: resource_of_def)
  have each: "small_root ev defs n \<and> count_list (map bl_type inner) ''root_block_device'' \<le> 1" if n: "n \<in> set inner" for n
  proof -
    have "list_all (\<lambda>n. bl_type n \<notin> set [''provisioner'', ''connection'', ''lifecycle'', ''backend'', ''cloud'', ''dynamic''])
        (inner_blocks b)"
      using ok unfolding aws_block_def tree_safe_def by blast
    moreover have "n \<in> set (inner_blocks b)"
      using n subblocks_inner [of n] by (auto simp: inner_blocks_def b intro!: bexI [of _ n])
    ultimately have "bl_type n \<notin> set awsMetaBlocks" by (simp add: list_all_iff awsMetaBlocks_def)
    with body n have "case map_of rules (bl_type n) of
        Some (Aws_Block most sub) \<Rightarrow> aws_body ev defs (gi_region gi) sub False n
          \<and> (if most = 0 then True else count_list (map bl_type inner) (bl_type n) \<le> most)
      | _ \<Rightarrow> False"
      by (simp add: b list_all_iff)
    then obtain most sub where "map_of rules (bl_type n) = Some (Aws_Block most sub)"
      "aws_body ev defs (gi_region gi) sub False n" "if most = 0 then True else count_list (map bl_type inner) (bl_type n) \<le> most"
      by (simp split: option.splits aws_rule.splits)
    with nested aws_root_small show ?thesis by fastforce
  qed
  then have "list_all (\<lambda>n. bl_type n = ''root_block_device'') inner"
    by (auto simp: small_root_def list_all_iff)
  then have "count_list (map bl_type inner) ''root_block_device'' = length inner"
    by (induction inner) simp_all
  with each have "length inner \<le> 1" by (cases inner) auto
  with each aws_body_attr [OF body at(1)] aws_body_attr [OF body at(2)] show ?thesis
    by (simp add: small_instance_def aws_value_is list_all_iff awsMetaAttributes_def b)
qed

definition boots :: "evaluator \<Rightarrow> gate_inputs \<Rightarrow> block \<Rightarrow> bool" where
  "boots ev gi b \<longleftrightarrow>
     (case attr_of b ''user_data'' of Some e \<Rightarrow> awsIsUserDataExpr e | None \<Rightarrow> False)
     \<and> (case attr_of b ''ami'' of Some e \<Rightarrow> ev e = Some (Cty_Str (am_id (gi_ami gi))) | None \<Rightarrow> False)
     \<and> am_id (gi_ami gi) \<noteq> []"

lemma bootsI:
  assumes none: "awsBlockProblems ev defs gi file b = []" and r: "resource_of ''aws_instance'' b"
  shows "boots ev gi b"
proof -
  have "is_instance b" "bl_type b = ''resource''"
    using r by (auto simp: resource_of_def is_instance_def split: list.splits)
  then have "awsInstanceUserDataProblems b file = []" "awsAMIProblems ev b file (gi_ami gi) = []"
    using none by (auto simp: awsBlockProblems_def split: option.splits)
  then show ?thesis
    by (auto simp: boots_def awsInstanceUserDataProblems_def awsAMIProblems_def split: if_splits)
qed

lemma declared_length: "length (declared parsed ty) = length (filter (resource_of ty) (all_blocks parsed))"
  using length_concat_blocks [of "\<lambda>file b. file @ '': '' @ resource_name b" "resource_of ty" parsed]
  by (simp add: declared_def resource_of_def [abs_def])

lemma awsUserDataFileProblem_None:
  "awsUserDataFileProblem f rendered = None \<longleftrightarrow>
     rendered \<noteq> [] \<and> sf_regular f = Some True \<and> sf_bytes f = Some rendered"
  by (auto simp: awsUserDataFileProblem_def split: option.split bool.split)

lemma awsAMIRootProblems_Nil:
  "awsAMIRootProblems ami = [] \<longleftrightarrow> 1 \<le> am_size ami \<and> am_size ami \<le> 20 \<and> am_volume ami = ''gp3'' \<and> am_deleted ami"
  by (auto simp: awsAMIRootProblems_def awsMaxRootGiB_def awsRootVolumeType_def)

lemma awsProviderCountProblem_None: "awsProviderCountProblem at = None \<longleftrightarrow> length at = 1"
  by (cases at rule: remdups_adj.cases) (simp_all add: awsProviderCountProblem_def)

lemma aws_admitted:
  assumes "validateAWSLayer3HCLShape ev d f gi = None"
  obtains parsed defs where "layer3ParseDir ev d = Inr (parsed, defs)"
    and "\<And>Q. (\<And>file b. awsBlockProblems ev defs gi file b = [] \<Longrightarrow> Q b) \<Longrightarrow> list_all Q (all_blocks parsed)"
    and "awsProviderProblems ev parsed defs (gi_region gi) = []" and "awsMultiplicityProblems parsed = []"
    and "awsAMIRootProblems (gi_ami gi) = []" and "awsUserDataFileProblem f (gi_script gi) = None"
proof -
  obtain parsed defs where p: "layer3ParseDir ev d = Inr (parsed, defs)"
    using assms by (cases "layer3ParseDir ev d") (auto simp: validateAWSLayer3HCLShape_def)
  note parts = assms [unfolded validateAWSLayer3HCLShape_def p sum.case prod.case refuses_configuration_None
      append_is_Nil_conv opt_list_Nil]
  then have "(\<And>file b. awsBlockProblems ev defs gi file b = [] \<Longrightarrow> Q b) \<Longrightarrow> list_all Q (all_blocks parsed)" for Q
    using every_block [of "awsBlockProblems ev defs gi"] by blast
  with p parts that show thesis by blast
qed

text \<open>
  C27. A stack the AWS gate lets through sets nothing that is not on the allowlist: no file tofu would load was left
  unread, every block is safe to evaluate and to destroy (the one call beyond the pure functions reads the rendered
  script), and every resource is of an allowed AWS type, has no multiplicity, and has only listed attributes and blocks,
  with values in their enumerations and bounds and parents that are typed references within the stack.
\<close>

theorem aws_gate_admits_the_allowlist:
  "case validateAWSLayer3HCLShape ev d f gi of
     Some e \<Rightarrow> True
   | None \<Rightarrow>
       (case layer3ParseDir ev d of
          Inl e \<Rightarrow> False
        | Inr (parsed, defs) \<Rightarrow> nothing_unread d parsed \<and> list_all (aws_block ev defs gi) (all_blocks parsed))"
proof (cases "validateAWSLayer3HCLShape ev d f gi")
  case None
  from None obtain parsed defs where p: "layer3ParseDir ev d = Inr (parsed, defs)"
    and each: "\<And>Q. (\<And>file b. awsBlockProblems ev defs gi file b = [] \<Longrightarrow> Q b) \<Longrightarrow> list_all Q (all_blocks parsed)"
    by (rule aws_admitted) blast
  have "list_all (aws_block ev defs gi) (all_blocks parsed)" by (rule each) (rule aws_blockI)
  with None p layer3ParseDir_Inr [OF p] show ?thesis by simp
qed simp

text \<open>
  C26. A stack the AWS gate lets through has exactly one provider block: it is labelled aws, lies in the configured
  region, which is not empty, and carries at most the run's own tag. The stack requires the pinned provider and no
  other, no resource chooses a provider, and no block but the provider's names the run's tag.
\<close>

theorem aws_gate_holds_the_region:
  "case validateAWSLayer3HCLShape ev d f gi of
     Some e \<Rightarrow> True
   | None \<Rightarrow>
       (case layer3ParseDir ev d of
          Inl e \<Rightarrow> False
        | Inr (parsed, defs) \<Rightarrow>
            gi_region gi \<noteq> [] \<and> length (filter (\<lambda>b. bl_type b = ''provider'') (all_blocks parsed)) = 1
            \<and> list_all (aws_boundary ev defs (gi_region gi)) (all_blocks parsed)
            \<and> list_ex (requires_pin ev layer3AWSPin) (all_blocks parsed))"
proof (cases "validateAWSLayer3HCLShape ev d f gi")
  case None
  from None obtain parsed defs where p: "layer3ParseDir ev d = Inr (parsed, defs)"
    and provider: "awsProviderProblems ev parsed defs (gi_region gi) = []" by (rule aws_admitted) blast
  note parts = provider [unfolded awsProviderProblems_def append_is_Nil_conv opt_list_Nil awsProviderCountProblem_None
      length_concat_blocks]
  have region: "gi_region gi \<noteq> []" using parts by (simp split: if_splits)
  have boundary: "list_all (aws_boundary ev defs (gi_region gi)) (all_blocks parsed)"
    using parts region every_block [of "provider_block_problems ev defs (gi_region gi)" parsed] aws_boundaryI by blast
  then have "filter (\<lambda>b. bl_type b = ''provider'') (all_blocks parsed) = filter is_aws_provider (all_blocks parsed)"
    by (intro filter_cong) (auto simp: is_aws_provider_def aws_boundary_def aws_provider_def layer3AWSPin_def list_all_iff)
  with parts region boundary pins_required show ?thesis using None p by simp
qed simp


text \<open>
  The search sees through parentheses only where the index is a literal and comes first: \<^verbatim>\<open>(a.b.c)[var.i]\<close> and
  \<^verbatim>\<open>(a.b).c[0]\<close> pass, though \<^verbatim>\<open>a.b.c[var.i]\<close> and \<^verbatim>\<open>a.b.c[0]\<close> are refused.
\<close>

lemma parenthesised_index_passes:
  "layer3UnguardedResourceIndexes (Index_Expr (Parens (Scope_Traversal [Root_Step ''a'', Attr_Step ''b'', Attr_Step ''c'']))
     (Scope_Traversal [Root_Step ''var'', Attr_Step ''i''])) = []"
  "layer3UnguardedResourceIndexes (Relative_Traversal (Parens (Scope_Traversal [Root_Step ''a'', Attr_Step ''b'']))
     [Attr_Step ''c'', Index_Step (Cty_Num 0 0 ''0'')]) = []"
  "layer3UnguardedResourceIndexes (Index_Expr (Scope_Traversal [Root_Step ''a'', Attr_Step ''b'', Attr_Step ''c''])
     (Scope_Traversal [Root_Step ''var'', Attr_Step ''i''])) = [''a.b.c'']"
  "layer3UnguardedResourceIndexes (Scope_Traversal
     [Root_Step ''a'', Attr_Step ''b'', Attr_Step ''c'', Index_Step (Cty_Num 0 0 ''0'')]) = [''a.b.c'']"
  by (simp_all add: layer3UnguardedResourceIndexes_unguarded unguarded.simps opt_list_def known_roots_def)


end
