(* ===== verification/Spec2Isabelle.thy ===== *)
theory Spec2Isabelle
  imports Feedback Livestore Live_Reconcile Promotion Redaction Run_Project Teardown Topology
    Orphans Corpus Run_Command Aws_Lifecycle Claim_Protocol Test_Command Aws_Account Aws_Scrub
    Hcl_Admitted
begin

text \<open>
  A verification library for infrafactory, a Go program that generates infrastructure code,
  deploys it to mocks and then to a real cloud, and learns from what fails. The library follows
  the program's own core logic, package by package; the language models, OpenTofu, OPA and the
  cloud's API are outside it.

  The program's parts and how they interact. A run generates a configuration, deploys it and
  feeds the failures back into the next iteration until it passes, is stuck or oscillates
  (\<^verbatim>\<open>internal/feedback\<close>, \<^verbatim>\<open>internal/cli/run_command.go\<close>). A real deployment (Layer 3) happens in a
  project of its own: the project is created before the apply and recorded in a marker file,
  destroyed after it, and the account is then swept (\<^verbatim>\<open>internal/harness\<close>,
  \<^verbatim>\<open>internal/cli/run_project_lifecycle.go\<close>, \<^verbatim>\<open>destroy_retry.go\<close>). A deployment that outlives its run
  is a record in the live store (\<^verbatim>\<open>internal/livestore\<close>); its observations feed the promotion gate
  and the search for repairs, and the reaper tears it down when its time has run out
  (\<^verbatim>\<open>internal/cli/live_teardown.go\<close>). Diagnostics are redacted and account ids scrubbed before they
  are published (\<^verbatim>\<open>internal/generator/redaction.go\<close>).

  The theories, in the order they build on each other.

  \<^item> Prelude: Go strings as byte lists, package \<^verbatim>\<open>strings\<close>, number and quote formatting.
  \<^item> Regex: Go's regular expressions as the source uses them, leftmost with Perl preferences:
    first match, all matches with their positions, replacement; no byte is lost and no match is
    passed over.
  \<^item> Json: documents as values, reads of maps of any, decoding into struct fields.
  \<^item> Feedback: \<^verbatim>\<open>internal/feedback\<close>; failures, signatures, stuck, oscillation, recurrence and the
    normal form of details. The lemmas characterise each verdict exactly.
  \<^item> Livestore: \<^verbatim>\<open>livestore.go\<close> and \<^verbatim>\<open>health.go\<close>; records, validation and the directory store. Put and
    Get satisfy the interface \<open>keyed_store\<close>; the store's invariant is preserved; an unreadable
    record is never lost to the reaper.
  \<^item> Live_Reconcile: \<^verbatim>\<open>reconcile.go\<close> and \<^verbatim>\<open>repair.go\<close>.
  \<^item> Promotion: \<^verbatim>\<open>promotion.go\<close>; the gate is proved exact for every iteration order of its map.
  \<^item> Redaction: \<^verbatim>\<open>redaction.go\<close>; the spans of account ids, the scrub and the cut.
  \<^item> Scaleway: \<^verbatim>\<open>harness/run_project.go\<close>; the client of the account API, which is a parameter, with
    every request logged in the modelled world.
  \<^item> Run_Project: the marker, the deletability guards, the live state, the orphan sweep and the
    purge of auto-created security groups (\<^verbatim>\<open>run_project_marker.go\<close>, \<^verbatim>\<open>orphan_sweep.go\<close>,
    \<^verbatim>\<open>auto_created_purge.go\<close>).
  \<^item> Teardown: \<^verbatim>\<open>sandbox_destroy.go\<close>, \<^verbatim>\<open>destroy_retry.go\<close>, \<^verbatim>\<open>run_project_lifecycle.go\<close>,
    \<^verbatim>\<open>layer3_cloud.go\<close>, \<^verbatim>\<open>live_teardown.go\<close> and the parts of \<^verbatim>\<open>test_command.go\<close> they use. The locale
    \<open>guarded_client\<close> states what a lifecycle relies on; its instance on the model shows that every
    request a lifecycle sends is a read or removes what the guard authorised.

  \<^item> Learning: \<^verbatim>\<open>generator/pitfalls_learn.go\<close> and \<^verbatim>\<open>gate_pitfalls.go\<close>; where a failure goes (a lesson, a gap
    of the mock, nowhere) and what is extracted from its detail.
  \<^item> Orphans: \<^verbatim>\<open>generator/orphan_classify.go\<close>; which rows of a mock's state are orphans and where each
    is routed. Both are proved exact.
  \<^item> Corpus: \<^verbatim>\<open>pitfalls.go\<close>, \<^verbatim>\<open>pitfalls_retire.go\<close>, \<^verbatim>\<open>pitfalls_avoid_retire.go\<close> and the writers of
    \<^verbatim>\<open>pitfalls_learn.go\<close>; the corpus of rules and its ledger. Appending only adds, retiring removes
    exactly what is stale, and what a check retired is not relearned from the mock.
  \<^item> Pitfall_Prompt: \<^verbatim>\<open>pitfalls.go\<close>, how the corpus is printed into a prompt. Policy_Gap: \<^verbatim>\<open>policy_gap.go\<close>,
    policies that reject what the corpus prescribes. Prescriptive: \<^verbatim>\<open>prescriptive_extractor.go\<close>, the
    lessons read off the difference of two configurations; an avoid rule names only what the passing
    configuration lost.
  \<^item> Run_Lessons, Run_Iteration, Run_Loop: \<^verbatim>\<open>cli/run_command.go\<close>. The three learner paths over the
    notebook (corpus, mock gaps, policy gaps), with the inductive relation \<open>taught\<close> of what may have
    been filed; one iteration over its services and what of a step's report the run carries up; the
    loop with its stop reasons, which ends because each lap fails and the failures are counted.
    Invariants over \<open>loop_states\<close>, the states before each iteration, say what the generator is shown
    and that every lap brings a new failure signature.
  \<^item> Run_Keep, Run_Command: the ending of a run; the automatic destroy, the registration of a kept run
    (\<^verbatim>\<open>run_keep.go\<close>), the projects nothing explains (\<^verbatim>\<open>stray_run_projects.go\<close>) and the verdict,
    composed with the loop in \<open>runRunWithNotify\<close>. A success is shown to be evidence.
  \<^item> Aws_Scope: \<^verbatim>\<open>harness/aws_scope.go\<close> and \<^verbatim>\<open>aws_sweep.go\<close>; the claim on the one AWS account, its stamp, and
    the sweep of its collections, at most 60 polls. What a process believes of the claim is true,
    a clean sweep leaves nothing unseen, and a sweep ends when the service gives out finitely many
    page tokens (otherwise the model's value is \<open>None\<close>, not an answer).
  \<^item> Aws_Reap: \<^verbatim>\<open>harness/aws_identity.go\<close> and \<^verbatim>\<open>aws_reap.go\<close>; the gate of a reap and the deletion of what a
    sweep found, in dependency order.
  \<^item> Aws_Lifecycle: \<^verbatim>\<open>cli/aws_scope_lifecycle.go\<close>, \<^verbatim>\<open>aws_preflight.go\<close>, the AWS part of \<^verbatim>\<open>reap_command.go\<close>
    and \<^verbatim>\<open>awsRunFailureTeardown\<close> of \<^verbatim>\<open>run_command.go\<close>; nothing is applied without the claim, a failed run
    settles it, and a reap that succeeds has seen the scope empty. Run_Command takes the AWS ending
    as an argument; this theory is its model.
  \<^item> Claim_Protocol: the requests of the claim as an inductive step relation of many processes, with
    lost responses. The claim excludes under the operator's two rules, each rule is needed, and the
    code refines the relation over any SSM that keeps its contract.
  \<^item> Deploy: \<^verbatim>\<open>harness/mock_deploy.go\<close>, \<^verbatim>\<open>destroy.go\<close>, \<^verbatim>\<open>sandbox_deploy.go\<close> and how \<^verbatim>\<open>test_command.go\<close>
    files their results. A sandbox deploy runs init, plan and at most two applies, never one after a
    cancelled run; what the mock's verdicts say is read off exit codes and the state it returns.
  \<^item> Probe: \<^verbatim>\<open>harness/real_probe.go\<close>; the address of a target from the live state, the three probes and
    their retries. A probe that passes rests on an answer of the network.
  \<^item> Criteria: \<^verbatim>\<open>scenario/criteria.go\<close>, \<^verbatim>\<open>cli/criteria_support.go\<close>, \<^verbatim>\<open>harness/state_policy.go\<close>,
    \<^verbatim>\<open>policy_packages.go\<close>, \<^verbatim>\<open>cli/holdout.go\<close> and their evaluation in \<^verbatim>\<open>test_command.go\<close>. Green criteria and
    green holdouts are shown to be evidence; the finding about policy packages is proved there.
  \<^item> Aws_Post_Apply: \<^verbatim>\<open>cli/aws_post_apply.go\<close>, \<^verbatim>\<open>aws_user_data.go\<close>, \<^verbatim>\<open>harness/aws_placement.go\<close> and
    \<^verbatim>\<open>aws_ec2_reads.go\<close>; every resource is placed in the account, and the instance runs a script that
    can start nothing but the declared image.
  \<^item> Test_Command: \<^verbatim>\<open>executeTestWithScenario\<close> of \<^verbatim>\<open>test_command.go\<close>, composed of the models of its parts. A
    refused configuration runs nothing, a success is evidence, and every project that was created is
    accounted for.
  \<^item> Hcl_Gate, Hcl_Rules, Hcl_Aws, Hcl_Admitted: the gates on a configuration before any tofu runs,
    \<^verbatim>\<open>cli/layer3_hcl_shape.go\<close> for Scaleway and \<^verbatim>\<open>layer3_aws_*.go\<close> for AWS, over the syntax tree the HCL
    parser returns. The shared rules walk a tree with a state; Hcl_Rules says what they refuse of the
    tree itself, and Hcl_Admitted what a configuration has that a gate admits.
  \<^item> Url_Form, Aws_Wall, Aws_Read, Aws_Account: the account read, \<^verbatim>\<open>harness/aws_reader*.go\<close>. The form
    encoding of requests and its inverse; the wall that every request leaves through; the replay of an
    entry with its at most 5 attempts and 100 pages, and the reads that follow; the read as a whole. What
    is sent is reads only, whatever the SDK's clients ask for, and what is recorded is complete.
  \<^item> Aws_Scrub_Text, Aws_Scrub: the scrub of a recorded read and of the kept state into files fit to
    publish, \<^verbatim>\<open>harness/aws_reader_scrub.go\<close>. The leak check on a text is equivalent to what it promises of
    every percent-decoding; the walk over JSON tokens passes over nothing but the bodies of exchanges,
    each checked by its protocol; and only bytes that passed are handed to a file.
  \<^item> Topology_Derive, Topology: \<^verbatim>\<open>topology_derive*.go\<close> and \<^verbatim>\<open>topology.go\<close>; what the raw state of a mock
    says about connections and probes, and the evaluation of a scenario's checks on it. The
    derivations are characterised exactly for AWS and for public databases; the Genesys one is
    shown to produce what the evaluation cannot decode.

  How state is modelled. Go strings are byte lists; a record of Go is a record; an error is a
  \<open>go_error\<close>, its text and the sentinels \<^verbatim>\<open>errors.Is\<close> finds in it; a function that may fail returns a
  sum. The outside world is a type variable: the account API (\<open>doer\<close>), the state files
  (\<open>live_state\<close>) and \<^verbatim>\<open>tofu\<close> (\<open>run_tofu\<close>) are functions on it, about which nothing is assumed, so
  the safety properties hold for any behaviour of the cloud. The log of requests \<open>w_log\<close> and of
  commands \<open>w_cmds\<close> is what they are stated over. The iteration of a Go map is a parameter where
  its order can show, and a sort where it cannot.

  Bounds and fuel. The regex matcher bounds the rounds of a star by the bytes left, each round
  consuming one at least; the paging loop is bounded by the 50 pages of the source; the other
  recursions are structural or have a measure.

  Not modelled: disk faults of the live store beyond missing and undecodable files, the text of an
  error of the JSON decoder, log entries and progress lines, the variables stripped from a command's
  environment, and case folding outside ASCII; that a context has ended is a function of the world
  where the code asks for it. The Rego engine, the network of the probes and the steps of an
  iteration are parameters. So are the parser of HCL and its evaluation of constants, the decoders of
  JSON and XML, the signer of a request and the clients of the AWS SDK; the key file of the account read is not
  modelled. The manifest lists every component of the program, the ones not modelled
  with the reason.
\<close>

end
